(* ===== verification/Prelude.thy ===== *)
theory Prelude
  imports Complex_Main "HOL-Library.List_Lexorder" "HOL-Library.Char_ord"
begin

text \<open>
  What every component shares: the results of fallible code, the rows of a database
  table, and the generic lemmas on them. Nothing here is specific to one component.

  A Python function that raises is a function into \<open>error + 'a\<close>: \<open>Inl\<close> carries the
  exception, \<open>Inr\<close> the returned value. A table is the list of its rows in insertion order;
  a \<open>session.get\<close> or a query by primary key is \<open>row_find\<close>, an ORM attribute write on a
  loaded row followed by a commit is \<open>row_update\<close>.
\<close>

named_theorems row_simps
named_theorems op_defs

type_synonym uuid = nat

section \<open>Fallible results\<close>

definition bindE :: "'e + 'a \<Rightarrow> ('a \<Rightarrow> 'e + 'b) \<Rightarrow> 'e + 'b" where
  "bindE r f = (case r of Inl e \<Rightarrow> Inl e | Inr x \<Rightarrow> f x)"

lemma bindE_simps [simp]:
  "bindE (Inl e) f = Inl e"
  "bindE (Inr x) f = f x"
  by (simp_all add: bindE_def)

lemma bindE_Inr_iff: "bindE r f = Inr y \<longleftrightarrow> (\<exists>x. r = Inr x \<and> f x = Inr y)"
  by (cases r) auto

lemma bindE_Inl_iff: "bindE r f = Inl e \<longleftrightarrow> r = Inl e \<or> (\<exists>x. r = Inr x \<and> f x = Inl e)"
  by (cases r) auto

fun map_res :: "('a \<Rightarrow> 'e + 'b) \<Rightarrow> 'a list \<Rightarrow> 'e + 'b list" where
  "map_res f [] = Inr []"
| "map_res f (x # xs) = bindE (f x) (\<lambda>y. bindE (map_res f xs) (\<lambda>ys. Inr (y # ys)))"

lemma map_res_Inr_iff:
  "map_res f xs = Inr ys \<longleftrightarrow> list_all2 (\<lambda>x y. f x = Inr y) xs ys"
  by (induction xs arbitrary: ys) (auto simp: bindE_Inr_iff list_all2_Cons1)

text \<open>A comprehension whose condition can raise.\<close>

fun filter_res :: "('a \<Rightarrow> 'e + bool) \<Rightarrow> 'a list \<Rightarrow> 'e + 'a list" where
  "filter_res f [] = Inr []"
| "filter_res f (x # xs) = bindE (f x) (\<lambda>b. bindE (filter_res f xs) (\<lambda>ys. Inr (if b then x # ys else ys)))"

section \<open>Rows of a table\<close>

definition row_find :: "('r \<Rightarrow> 'k) \<Rightarrow> 'k \<Rightarrow> 'r list \<Rightarrow> 'r option" where
  "row_find key k rows = find (\<lambda>r. key r = k) rows"

definition row_update :: "('r \<Rightarrow> 'k) \<Rightarrow> 'r \<Rightarrow> 'r list \<Rightarrow> 'r list" where
  "row_update key r rows = map (\<lambda>x. if key x = key r then r else x) rows"

lemma row_find_simps [simp]:
  "row_find key k [] = None"
  "row_find key k (r # rows) = (if key r = k then Some r else row_find key k rows)"
  by (simp_all add: row_find_def)

lemma row_find_SomeD: "row_find key k rows = Some r \<Longrightarrow> r \<in> set rows \<and> key r = k"
  by (auto simp: row_find_def find_Some_iff)

lemma row_find_None_iff: "row_find key k rows = None \<longleftrightarrow> k \<notin> key ` set rows"
  by (auto simp: row_find_def find_None_iff)

lemma row_find_in: "distinct (map key rows) \<Longrightarrow> r \<in> set rows \<Longrightarrow> row_find key (key r) rows = Some r"
  by (induction rows) (auto simp: image_iff)

lemma row_find_append:
  "row_find key k (xs @ ys) = (case row_find key k xs of None \<Rightarrow> row_find key k ys | Some r \<Rightarrow> Some r)"
  by (induction xs) auto

lemma row_find_update:
  "row_find key k (row_update key r rows) =
     (if k = key r then (if row_find key k rows = None then None else Some r)
      else row_find key k rows)"
  by (induction rows) (auto simp: row_update_def)

lemma row_update_simps [row_simps]:
  "row_update key r [] = []"
  "row_update key r (x # xs) = (if key x = key r then r else x) # row_update key r xs"
  by (simp_all add: row_update_def)

lemma length_row_update [simp]: "length (row_update key r rows) = length rows"
  by (simp add: row_update_def)

lemma map_key_row_update [simp]: "map key (row_update key r rows) = map key rows"
  by (simp add: row_update_def)

lemma row_update_frame:
  assumes "\<And>x. x \<in> set rows \<Longrightarrow> key x = key r \<Longrightarrow> f r = f x"
  shows "map f (row_update key r rows) = map f rows"
  using assms by (induction rows) (simp_all add: row_simps)

lemma row_update_in_set:
  "x \<in> set (row_update key r rows) \<Longrightarrow> x = r \<or> (x \<in> set rows \<and> key x \<noteq> key r)"
  by (auto simp: row_update_def)

lemma row_update_self:
  assumes "distinct (map key rows)" and "r \<in> set rows"
  shows "row_update key r rows = rows"
  unfolding row_update_def
proof (rule map_idI)
  fix x assume "x \<in> set rows"
  then show "(if key x = key r then r else x) = x"
    using assms by (cases "key x = key r") (auto simp: distinct_map dest: inj_onD)
qed

lemma row_update_update:
  "key r = key r' \<Longrightarrow> row_update key r (row_update key r' rows) = row_update key r rows"
  by (auto simp: row_update_def)

lemma filter_row_update_other:
  "\<not> P r \<Longrightarrow> (\<And>x. x \<in> set rows \<Longrightarrow> key x = key r \<Longrightarrow> \<not> P x) \<Longrightarrow>
   filter P (row_update key r rows) = filter P rows"
  by (induction rows) (auto simp: row_simps)

lemma row_update_not_in: "key r \<notin> key ` set rows \<Longrightarrow> row_update key r rows = rows"
  by (auto simp: row_update_def image_iff intro!: map_idI)

lemma length_filter_row_update:
  assumes "distinct (map key rows)" and "r0 \<in> set rows" and "key r = key r0"
  shows "length (filter P (row_update key r rows)) + (if P r0 then 1 else 0) =
         length (filter P rows) + (if P r then 1 else 0)"
  using assms
proof (induction rows)
  case Nil
  then show ?case by simp
next
  case (Cons x rows)
  show ?case
  proof (cases "x = r0")
    case True
    with Cons.prems have "key r \<notin> key ` set rows" by auto
    with True Cons.prems show ?thesis by (simp add: row_simps row_update_not_in)
  next
    case False
    with Cons.prems have "r0 \<in> set rows" "key x \<noteq> key r" by auto
    with Cons show ?thesis by (simp add: row_simps)
  qed
qed

section \<open>An interface: a store of rows read by identifier\<close>

text \<open>
  What the services rely on when they load a row, change it and save it: a read after a
  write sees the write, other rows keep their value, and nothing appears that was not there.
\<close>

locale row_store =
  fixes get :: "'k \<Rightarrow> 's \<Rightarrow> 'r option"
    and put :: "'r \<Rightarrow> 's \<Rightarrow> 's"
    and ident :: "'r \<Rightarrow> 'k"
  assumes get_ident: "get k s = Some r \<Longrightarrow> ident r = k"
    and get_put: "get k (put r s) =
          (if k = ident r then (if get k s = None then None else Some r) else get k s)"
begin

lemma get_put_same: "get (ident r) s \<noteq> None \<Longrightarrow> get (ident r) (put r s) = Some r"
  by (simp add: get_put)

lemma get_put_other: "k \<noteq> ident r \<Longrightarrow> get k (put r s) = get k s"
  by (simp add: get_put)

lemma get_modify:
  "get k s = Some r \<Longrightarrow> ident (f r) = ident r \<Longrightarrow> get k (put (f r) s) = Some (f r)"
  using get_ident [of k s r] by (auto simp: get_put)

lemma get_put_None_iff: "get k (put r s) = None \<longleftrightarrow> get k s = None"
  by (simp add: get_put)

lemma get_put_put: "ident r = ident r' \<Longrightarrow> get k (put r (put r' s)) = get k (put r s)"
  by (simp add: get_put)

end

text \<open>A store that also takes new rows under an identifier it has not used yet.\<close>

locale growing_row_store = row_store +
  fixes add :: "'r \<Rightarrow> 's \<Rightarrow> 's"
  assumes get_add: "get (ident r) s = None \<Longrightarrow>
          get k (add r s) = (if k = ident r then Some r else get k s)"
begin

lemma get_add_same: "get (ident r) s = None \<Longrightarrow> get (ident r) (add r s) = Some r"
  by (simp add: get_add)

lemma get_add_keeps: "get (ident r) s = None \<Longrightarrow> get k s = Some x \<Longrightarrow> get k (add r s) = Some x"
  by (auto simp: get_add)

end

section \<open>An interface: a system with an invariant\<close>

locale invariant_system =
  fixes step :: "'s \<Rightarrow> 's \<Rightarrow> bool"
    and inv :: "'s \<Rightarrow> bool"
  assumes step_inv: "step s t \<Longrightarrow> inv s \<Longrightarrow> inv t"
begin

lemma steps_inv: "step\<^sup>*\<^sup>* s t \<Longrightarrow> inv s \<Longrightarrow> inv t"
  by (induction rule: rtranclp_induct) (auto intro: step_inv)

lemma steps_keep:
  assumes keep: "\<And>s t. step s t \<Longrightarrow> inv s \<Longrightarrow> P s \<Longrightarrow> P t"
    and steps: "step\<^sup>*\<^sup>* s t" and start: "inv s" "P s"
  shows "P t"
proof -
  from steps have "inv t \<and> P t"
    by (induction rule: rtranclp_induct) (auto intro: start step_inv keep)
  then show ?thesis ..
qed

end

section \<open>An interface: an abstract machine and its implementation\<close>

text \<open>
  A deterministic machine on states \<open>'c\<close> implements one on states \<open>'a\<close> when related states stay
  related under every operation and give the same answers.
\<close>

locale machine_refinement =
  fixes cstep :: "'o \<Rightarrow> 'c \<Rightarrow> 'r \<times> 'c"
    and astep :: "'o \<Rightarrow> 'a \<Rightarrow> 'r \<times> 'a"
    and rel :: "'c \<Rightarrow> 'a \<Rightarrow> bool"
  assumes step_rel: "rel c a \<Longrightarrow> rel (snd (cstep p c)) (snd (astep p a))"
    and step_answer: "rel c a \<Longrightarrow> fst (cstep p c) = fst (astep p a)"
begin

lemma run_rel:
  "rel c a \<Longrightarrow> rel (fold (\<lambda>p. snd \<circ> cstep p) ps c) (fold (\<lambda>p. snd \<circ> astep p) ps a)"
  by (induction ps arbitrary: c a) (auto intro: step_rel)

lemma run_answer:
  "rel c a \<Longrightarrow> fst (cstep p (fold (\<lambda>p. snd \<circ> cstep p) ps c)) = fst (astep p (fold (\<lambda>p. snd \<circ> astep p) ps a))"
  by (intro step_answer run_rel)

end

section \<open>Ordering and limiting query results\<close>

definition order_desc :: "('a \<Rightarrow> 'k::linorder) \<Rightarrow> 'a list \<Rightarrow> 'a list" where
  "order_desc f xs = rev (sort_key f (rev xs))"

lemma set_order_desc [simp]: "set (order_desc f xs) = set xs"
  by (simp add: order_desc_def)

lemma length_order_desc [simp]: "length (order_desc f xs) = length xs"
  by (simp add: order_desc_def)

lemma distinct_order_desc [simp]: "distinct (order_desc f xs) = distinct xs"
  by (simp add: order_desc_def)

lemma sorted_order_desc: "sorted (map f (rev (order_desc f xs)))"
  by (simp add: order_desc_def)

lemma set_take_subset_filter: "x \<in> set (take n (filter P xs)) \<Longrightarrow> P x \<and> x \<in> set xs"
  by (auto dest: in_set_takeD)

end
