(* ===== verification/Py_Base.thy ===== *)
theory Py_Base
  imports Prelude
begin

text \<open>
  The parts of Python's standard library that the sources use: \<open>str.strip\<close>,
  \<open>str.lower\<close>, \<open>str.split\<close>, the two shapes of regular expression the services match with
  \<open>fullmatch\<close>, and \<open>datetime\<close> values with and without a time zone.

  A \<open>char\<close> stands for a code point U+0000 to U+00FF, so the string functions below are the
  ones of Python on Latin-1 text; code points above that range are outside the model.
\<close>

section \<open>Strings\<close>

definition py_isspace :: "char \<Rightarrow> bool" where
  "py_isspace c = (let n = (of_char c :: nat) in
     (9 \<le> n \<and> n \<le> 13) \<or> (28 \<le> n \<and> n \<le> 32) \<or> n = 133 \<or> n = 160)"

definition py_lower_char :: "char \<Rightarrow> char" where
  "py_lower_char c = (let n = (of_char c :: nat) in
     if (65 \<le> n \<and> n \<le> 90) \<or> (192 \<le> n \<and> n \<le> 222 \<and> n \<noteq> 215) then char_of (n + 32) else c)"

definition py_lower :: "string \<Rightarrow> string" where
  "py_lower s = map py_lower_char s"

definition py_strip :: "string \<Rightarrow> string" where
  "py_strip s = rev (dropWhile py_isspace (rev (dropWhile py_isspace s)))"

lemma of_char_lt: "(of_char c :: nat) < 256"
  using of_char_mod_256 [of c, where 'a = nat] by (metis mod_less_divisor zero_less_numeral)

lemma of_char_py_lower:
  "(of_char (py_lower_char c) :: nat) =
     (let n = of_char c in if (65 \<le> n \<and> n \<le> 90) \<or> (192 \<le> n \<and> n \<le> 222 \<and> n \<noteq> 215) then n + 32 else n)"
  using of_char_lt [of c] by (auto simp: py_lower_char_def Let_def)

lemma py_lower_char_idem [simp]: "py_lower_char (py_lower_char c) = py_lower_char c"
  using of_char_py_lower [of c]
  by (subst py_lower_char_def) (auto simp: Let_def split: if_splits)

lemma py_isspace_lower [simp]: "py_isspace (py_lower_char c) = py_isspace c"
  using of_char_py_lower [of c]
  by (auto simp: py_isspace_def Let_def split: if_splits)

lemma py_lower_idem [simp]: "py_lower (py_lower s) = py_lower s"
  by (simp add: py_lower_def)

lemma dropWhile_idem: "dropWhile P (dropWhile P xs) = dropWhile P xs"
  by (induction xs) auto

lemma hd_dropWhile_not: "dropWhile P xs \<noteq> [] \<Longrightarrow> \<not> P (hd (dropWhile P xs))"
  by (rule hd_dropWhile)

lemma dropWhile_rev_keeps_front:
  assumes "dropWhile P xs = xs"
  shows "dropWhile P (rev (dropWhile P (rev xs))) = rev (dropWhile P (rev xs))"
proof (cases xs)
  case Nil
  then show ?thesis by simp
next
  case (Cons y ys)
  with assms have y: "\<not> P y"
    by (metis dropWhile.simps(2) hd_dropWhile list.discI list.sel(1))
  have "\<exists>zs. rev (dropWhile P (rev xs)) = y # zs"
    using y Cons by (auto simp: dropWhile_append intro: exI [of _ "rev (dropWhile P (rev ys))"])
  with y show ?thesis by auto
qed

lemma py_strip_idem [simp]: "py_strip (py_strip s) = py_strip s"
proof -
  let ?t = "dropWhile py_isspace s"
  have "dropWhile py_isspace (py_strip s) = py_strip s"
    unfolding py_strip_def by (rule dropWhile_rev_keeps_front) (rule dropWhile_idem)
  then show ?thesis
    by (simp add: py_strip_def dropWhile_idem)
qed

lemma py_strip_lower: "py_strip (py_lower s) = py_lower (py_strip s)"
  by (simp add: py_strip_def py_lower_def dropWhile_map comp_def rev_map)

lemma length_py_lower [simp]: "length (py_lower s) = length s"
  by (simp add: py_lower_def)

lemma py_lower_eq_Nil [simp]: "py_lower s = [] \<longleftrightarrow> s = []"
  by (simp add: py_lower_def)

lemma length_py_strip_le: "length (py_strip s) \<le> length s"
  unfolding py_strip_def length_rev
  by (rule order_trans [OF length_dropWhile_le]) (simp add: length_dropWhile_le)

lemma py_strip_Nil [simp]: "py_strip [] = []"
  by (simp add: py_strip_def)

fun py_split :: "char \<Rightarrow> string \<Rightarrow> string list" where
  "py_split sep [] = [[]]"
| "py_split sep (c # s) =
     (if c = sep then [] # py_split sep s
      else (case py_split sep s of [] \<Rightarrow> [[c]] | w # ws \<Rightarrow> (c # w) # ws))"

fun py_join :: "string \<Rightarrow> string list \<Rightarrow> string" where
  "py_join sep [] = []"
| "py_join sep [w] = w"
| "py_join sep (w # ws) = w @ sep @ py_join sep ws"

lemma py_split_not_Nil [simp]: "py_split sep s \<noteq> []"
  by (induction s) (auto split: list.splits)

lemma py_join_Cons: "ws \<noteq> [] \<Longrightarrow> py_join sep (w # ws) = w @ sep @ py_join sep ws"
  by (cases ws) auto

lemma py_join_split: "py_join [sep] (py_split sep s) = s"
proof (induction s)
  case Nil
  then show ?case by simp
next
  case (Cons c s)
  obtain w ws where ws: "py_split sep s = w # ws"
    by (cases "py_split sep s") auto
  with Cons show ?case
    by (cases ws) (auto simp: py_join_Cons)
qed

text \<open>\<open>re.fullmatch("[F][R]{0,n}", s)\<close>: a first character, then at most \<open>n\<close> further ones.\<close>

fun head_tail_match :: "(char \<Rightarrow> bool) \<Rightarrow> (char \<Rightarrow> bool) \<Rightarrow> nat \<Rightarrow> string \<Rightarrow> bool" where
  "head_tail_match F R n [] = False"
| "head_tail_match F R n (c # s) = (F c \<and> list_all R s \<and> length s \<le> n)"

definition is_lower_az :: "char \<Rightarrow> bool" where
  "is_lower_az c = (let n = (of_char c :: nat) in 97 \<le> n \<and> n \<le> 122)"

definition is_upper_AZ :: "char \<Rightarrow> bool" where
  "is_upper_AZ c = (let n = (of_char c :: nat) in 65 \<le> n \<and> n \<le> 90)"

definition is_digit09 :: "char \<Rightarrow> bool" where
  "is_digit09 c = (let n = (of_char c :: nat) in 48 \<le> n \<and> n \<le> 57)"

definition one_of :: "string \<Rightarrow> char \<Rightarrow> bool" where
  "one_of cs c = (c \<in> set cs)"

lemma py_lower_char_az [simp]: "is_lower_az c \<or> is_digit09 c \<Longrightarrow> py_lower_char c = c"
  by (auto simp: is_lower_az_def is_digit09_def py_lower_char_def Let_def)

lemma not_space_alnum [simp]: "is_lower_az c \<or> is_upper_AZ c \<or> is_digit09 c \<Longrightarrow> \<not> py_isspace c"
  by (auto simp: is_lower_az_def is_upper_AZ_def is_digit09_def py_isspace_def Let_def)

lemma dropWhile_none: "list_all (\<lambda>c. \<not> P c) s \<Longrightarrow> dropWhile P s = s"
  by (cases s) auto

lemma py_strip_no_space: "list_all (\<lambda>c. \<not> py_isspace c) s \<Longrightarrow> py_strip s = s"
  unfolding py_strip_def by (simp add: dropWhile_none list_all_rev)

lemma py_lower_fixed: "list_all (\<lambda>c. py_lower_char c = c) s \<Longrightarrow> py_lower s = s"
  unfolding py_lower_def by (rule map_idI) (simp add: list_all_iff)

lemma head_tail_match_all:
  "head_tail_match F R n s \<Longrightarrow> (\<And>c. F c \<Longrightarrow> Q c) \<Longrightarrow> (\<And>c. R c \<Longrightarrow> Q c) \<Longrightarrow> list_all Q s"
  by (cases s) (auto simp: list_all_iff)

lemma head_tail_match_length: "head_tail_match F R n s \<Longrightarrow> 1 \<le> length s \<and> length s \<le> Suc n"
  by (cases s) auto

section \<open>An interface: text written character by character\<close>

text \<open>
  An encoding of characters that a reader takes back one at a time, and a character that ends
  the text because no encoding starts with it.
\<close>

locale char_codec =
  fixes enc :: "'c \<Rightarrow> 'd list"
    and read :: "'d list \<Rightarrow> 'c \<times> 'd list"
    and stop :: 'd
  assumes read_enc: "read (enc c @ s) = (c, s)"
    and enc_start: "enc c \<noteq> [] \<and> hd (enc c) \<noteq> stop"
begin

lemma enc_Cons_eq: "enc c @ s = enc d @ t \<Longrightarrow> c = d \<and> s = t"
  by (metis read_enc prod.inject)

lemma stop_not_enc: "enc c @ s \<noteq> stop # t"
  using enc_start [of c] by (cases "enc c") auto

lemma text_inj_stop:
  "concat (map enc s) @ stop # r = concat (map enc t) @ stop # r' \<Longrightarrow> s = t \<and> r = r'"
proof (induction s arbitrary: t)
  case Nil
  show ?case
  proof (cases t)
    case Nil
    with Nil.prems show ?thesis by simp
  next
    case (Cons d t')
    with Nil.prems have "enc d @ (concat (map enc t') @ stop # r') = stop # r" by simp
    with stop_not_enc show ?thesis by blast
  qed
next
  case (Cons c s)
  show ?case
  proof (cases t)
    case Nil
    with Cons.prems have "enc c @ (concat (map enc s) @ stop # r) = stop # r'" by simp
    with stop_not_enc show ?thesis by blast
  next
    case (Cons d t')
    with Cons.prems have "enc c @ (concat (map enc s) @ stop # r) = enc d @ (concat (map enc t') @ stop # r')"
      by simp
    from enc_Cons_eq [OF this] Cons.IH [of t'] Cons show ?thesis by simp
  qed
qed

lemma text_inj: "concat (map enc s) = concat (map enc t) \<Longrightarrow> s = t"
  using text_inj_stop [of s "[]" t "[]"] by simp

end

section \<open>Date and time\<close>

text \<open>
  A \<open>datetime\<close> is a wall-clock reading (in microseconds) with no time zone, or one with its
  offset from UTC. Comparing one of each raises \<open>TypeError\<close>, which is \<open>None\<close> here.
\<close>

datatype datetime = Naive int | Aware int int

fun dt_naive :: "datetime \<Rightarrow> bool" where
  "dt_naive (Naive _) = True"
| "dt_naive (Aware _ _) = False"

fun dt_instant :: "datetime \<Rightarrow> int" where
  "dt_instant (Naive l) = l"
| "dt_instant (Aware l off) = l - off"

fun dt_le :: "datetime \<Rightarrow> datetime \<Rightarrow> bool option" where
  "dt_le (Naive a) (Naive b) = Some (a \<le> b)"
| "dt_le (Aware a oa) (Aware b ob) = Some (a - oa \<le> b - ob)"
| "dt_le _ _ = None"

fun dt_lt :: "datetime \<Rightarrow> datetime \<Rightarrow> bool option" where
  "dt_lt (Naive a) (Naive b) = Some (a < b)"
| "dt_lt (Aware a oa) (Aware b ob) = Some (a - oa < b - ob)"
| "dt_lt _ _ = None"

fun strip_tz :: "datetime \<Rightarrow> datetime" where
  "strip_tz (Naive l) = Naive l"
| "strip_tz (Aware l off) = Naive l"

fun as_utc :: "datetime \<Rightarrow> datetime" where
  "as_utc (Naive l) = Aware l 0"
| "as_utc (Aware l off) = Aware (l - off) 0"

text \<open>The microseconds since 1970 of the first and the last moment a \<open>datetime\<close> can hold; \<open>astimezone\<close> of a moment
  outside raises \<open>OverflowError\<close>, which is \<open>None\<close> here. \<open>as_utc\<close> is the conversion of stored readings, which are
  without a zone or in UTC; \<open>to_utc\<close> that of readings a client chose. A reading without a zone is taken as UTC.\<close>

definition MIN_INSTANT :: int where "MIN_INSTANT = - 62135596800000000"
definition MAX_INSTANT :: int where "MAX_INSTANT = 253402300799999999"

definition to_utc :: "datetime \<Rightarrow> datetime option" where
  "to_utc t = (if dt_naive t \<or> MIN_INSTANT \<le> dt_instant t \<and> dt_instant t \<le> MAX_INSTANT then Some (as_utc t) else None)"

fun dt_plus :: "datetime \<Rightarrow> int \<Rightarrow> datetime" where
  "dt_plus (Naive l) d = Naive (l + d)"
| "dt_plus (Aware l off) d = Aware (l + d) off"

definition utc :: "int \<Rightarrow> datetime" where
  "utc t = Aware t 0"

definition seconds :: "int \<Rightarrow> int" where
  "seconds n = n * 1000000"

definition days :: "int \<Rightarrow> int" where
  "days n = n * 86400 * 1000000"

text \<open>The clock of a request: \<open>clk i\<close> is what the \<open>i\<close>-th call site of \<open>utc_now()\<close> reads.\<close>

type_synonym clock = "nat \<Rightarrow> int"

lemma dt_compare_same_kind:
  "dt_naive a = dt_naive b \<Longrightarrow> dt_le a b = Some (dt_instant a \<le> dt_instant b)"
  "dt_naive a = dt_naive b \<Longrightarrow> dt_lt a b = Some (dt_instant a < dt_instant b)"
  by (cases a; cases b; simp)+

lemma as_utc_simps [simp]:
  "dt_naive (as_utc a) = False" "dt_instant (as_utc a) = dt_instant a"
  by (cases a; simp)+

lemma as_utc_idem [simp]: "as_utc (as_utc a) = as_utc a"
  by (cases a) auto

lemma utc_simps [simp]:
  "dt_naive (utc t) = False" "dt_instant (utc t) = t"
  "strip_tz (utc t) = Naive t" "as_utc (utc t) = utc t"
  by (simp_all add: utc_def)

lemma dt_naive_strip_tz [simp]: "dt_naive (strip_tz a)"
  by (cases a) auto

lemma dt_plus_simps [simp]:
  "dt_naive (dt_plus a d) = dt_naive a" "dt_instant (dt_plus a d) = dt_instant a + d"
  by (cases a; simp)+

end
