(* ===== verification/Model_Data.thy ===== *)
theory Model_Data
  imports Py_Base
begin

text \<open>
  The data of app/models.py: its enumerations as datatypes (constructors carry a prefix where
  two enumerations of the source share a member name) and its tables as records (fields carry
  the table's prefix). Columns of type JSON are \<open>json\<close> values where a client supplies them and
  string dictionaries where only the sources write them.
\<close>

section \<open>Enumerations\<close>

datatype lead_status =
  LEAD_NEW | LEAD_RESEARCHED | LEAD_QUALIFIED | LEAD_UNQUALIFIED | LEAD_CONTACTED
  | LEAD_ENGAGED | LEAD_PROPOSAL | LEAD_NEGOTIATION | LEAD_WON | LEAD_LOST

datatype sales_stage =
  INTRODUCTION | DISCOVERY | QUALIFICATION | VALUE_PROPOSITION | OBJECTION_HANDLING
  | CLOSING | FOLLOW_UP

datatype stage_transition_reason = TRANSITION_ALLOWED | SELF_TRANSITION | TRANSITION_NOT_ALLOWED

datatype sales_language = ENGLISH | FRENCH | ARABIC | TUNISIAN_ARABIC

datatype writing_script = SCRIPT_LATIN | SCRIPT_ARABIC

datatype sales_tone = PROFESSIONAL | FRIENDLY | CONCISE

datatype member_role = OWNER | ADMIN | MEMBER

datatype handoff_reason =
  HUMAN_REQUESTED | UNSUPPORTED_DISCOUNT_REQUEST | CUSTOM_PRICING_REQUIRED
  | UNSUPPORTED_COMMERCIAL_COMMITMENT | AUTHORITATIVE_INFORMATION_UNAVAILABLE
  | APPROVAL_REQUIRED

datatype handoff_status = HANDOFF_ACTIVE | HANDOFF_RESOLVED

datatype turn_receipt_status = TURN_IN_PROGRESS | TURN_COMPLETED

datatype approval_status = AP_PENDING | AP_APPROVED | AP_REJECTED | AP_EXECUTED

datatype account_audit_action =
  ACC_PROVISIONED | ACC_CREDENTIAL_ROTATED | ACC_DEACTIVATED | ACC_REACTIVATED
  | ACC_SECRET_REFERENCE_CHANGED

datatype action_type = SEND_MESSAGE | SEND_MEDIA

datatype action_status = PENDING | DELIVERED | FAILED | CANCELLED | EXPIRED

datatype action_priority = LOW | NORMAL | HIGH | URGENT

datatype failure_class =
  FC_TEMPORARY | FC_PERMANENT | FC_AUTHENTICATION | FC_RATE_LIMIT | FC_VALIDATION | FC_UNKNOWN

datatype audit_action =
  AU_CREATED | AU_DELIVERY_ATTEMPTED | AU_DELIVERED | AU_FAILED | AU_RETRIED | AU_CANCELLED
  | AU_EXPIRED | AU_ARCHIVED | AU_UNARCHIVED

datatype ai_status = AI_SUCCESSFUL | AI_FAILED

text \<open>
  The capability tiers of app/services/ai_model_tiers.py and the reasons of a usage-limit
  decision (app/services/workspace_ai_usage_limits.py), which an exception carries.
\<close>

datatype ai_tier = TIER_NONE | TIER_ECONOMY | TIER_STANDARD | TIER_PREMIUM

datatype limit_reason =
  WITHIN_LIMITS | INVOCATION_LIMIT_REACHED | TOKEN_LIMIT_REACHED | TOKEN_ESTIMATE_REQUIRED
  | SPEND_LIMIT_REACHED | UNKNOWN_PRICING_WITH_SPEND_LIMIT | REQUESTED_TIER_NOT_PERMITTED
  | DOWNGRADED_FOR_WORKSPACE_POLICY | DOWNGRADE_TARGET_UNAVAILABLE

text \<open>The \<open>.value\<close> of a stage, and the constructor call \<open>SalesStage(value)\<close>.\<close>

fun stage_value :: "sales_stage \<Rightarrow> string" where
  "stage_value INTRODUCTION = ''introduction''"
| "stage_value DISCOVERY = ''discovery''"
| "stage_value QUALIFICATION = ''qualification''"
| "stage_value VALUE_PROPOSITION = ''value_proposition''"
| "stage_value OBJECTION_HANDLING = ''objection_handling''"
| "stage_value CLOSING = ''closing''"
| "stage_value FOLLOW_UP = ''follow_up''"

definition all_stages :: "sales_stage list" where
  "all_stages = [INTRODUCTION, DISCOVERY, QUALIFICATION, VALUE_PROPOSITION, OBJECTION_HANDLING,
                 CLOSING, FOLLOW_UP]"

definition stage_of_value :: "string \<Rightarrow> sales_stage option" where
  "stage_of_value v = find (\<lambda>st. stage_value st = v) all_stages"

lemma stage_of_value_value [simp]: "stage_of_value (stage_value st) = Some st"
  by (cases st) (simp_all add: stage_of_value_def all_stages_def)

fun action_type_value :: "action_type \<Rightarrow> string" where
  "action_type_value SEND_MESSAGE = ''send_message''"
| "action_type_value SEND_MEDIA = ''send_media''"

fun failure_class_value :: "failure_class \<Rightarrow> string" where
  "failure_class_value FC_TEMPORARY = ''temporary''"
| "failure_class_value FC_PERMANENT = ''permanent''"
| "failure_class_value FC_AUTHENTICATION = ''authentication''"
| "failure_class_value FC_RATE_LIMIT = ''rate_limit''"
| "failure_class_value FC_VALIDATION = ''validation''"
| "failure_class_value FC_UNKNOWN = ''unknown''"

definition all_failure_classes :: "failure_class list" where
  "all_failure_classes =
     [FC_TEMPORARY, FC_PERMANENT, FC_AUTHENTICATION, FC_RATE_LIMIT, FC_VALIDATION, FC_UNKNOWN]"

definition failure_class_of_value :: "string \<Rightarrow> failure_class option" where
  "failure_class_of_value v = find (\<lambda>c. failure_class_value c = v) all_failure_classes"

lemma failure_class_of_value_value [simp]: "failure_class_of_value (failure_class_value c) = Some c"
  by (cases c) (simp_all add: failure_class_of_value_def all_failure_classes_def)

fun role_value :: "member_role \<Rightarrow> string" where
  "role_value OWNER = ''owner''"
| "role_value ADMIN = ''admin''"
| "role_value MEMBER = ''member''"

definition role_of_value :: "string \<Rightarrow> member_role option" where
  "role_of_value v = find (\<lambda>r. role_value r = v) [OWNER, ADMIN, MEMBER]"

lemma role_of_value_value [simp]: "role_of_value (role_value r) = Some r"
  by (cases r) (simp_all add: role_of_value_def)

section \<open>JSON payloads\<close>

datatype json = JNull | JBool bool | JInt int | JFloat rat | JStr string | JList "json list" | JObj "(string \<times> json) list"

text \<open>
  Python's \<open>==\<close> on decoded JSON: \<open>True == 1\<close> and \<open>1 == 1.0\<close> hold, lists compare by position,
  and dictionaries by key whatever their order.
\<close>

fun json_num :: "json \<Rightarrow> rat option" where
  "json_num (JBool b) = Some (if b then 1 else 0)"
| "json_num (JInt n) = Some (of_int n)"
| "json_num (JFloat n) = Some n"
| "json_num _ = None"

fun json_eq :: "json \<Rightarrow> json \<Rightarrow> bool"
and json_eq_list :: "json list \<Rightarrow> json list \<Rightarrow> bool"
and json_eq_fields :: "(string \<times> json) list \<Rightarrow> (string \<times> json) list \<Rightarrow> bool"
and json_eq_lookup :: "string \<Rightarrow> json \<Rightarrow> (string \<times> json) list \<Rightarrow> bool" where
  "json_eq JNull b = (b = JNull)"
| "json_eq (JBool x) b = (json_num b = Some (if x then 1 else 0))"
| "json_eq (JInt n) b = (json_num b = Some (of_int n))"
| "json_eq (JFloat n) b = (json_num b = Some n)"
| "json_eq (JStr s) b = (b = JStr s)"
| "json_eq (JList xs) b = (case b of JList ys \<Rightarrow> json_eq_list xs ys | _ \<Rightarrow> False)"
| "json_eq (JObj xs) b =
     (case b of JObj ys \<Rightarrow> length xs = length ys \<and> json_eq_fields xs ys | _ \<Rightarrow> False)"
| "json_eq_list [] ys = (ys = [])"
| "json_eq_list (x # xs) ys = (case ys of [] \<Rightarrow> False | y # ys' \<Rightarrow> json_eq x y \<and> json_eq_list xs ys')"
| "json_eq_fields [] ys = True"
| "json_eq_fields ((k, v) # xs) ys = (json_eq_lookup k v ys \<and> json_eq_fields xs ys)"
| "json_eq_lookup k v [] = False"
| "json_eq_lookup k v ((k', v') # ys) = (if k = k' then json_eq v v' else json_eq_lookup k v ys)"

text \<open>A dictionary has each key once, at every depth.\<close>

fun json_wf :: "json \<Rightarrow> bool"
and json_wf_list :: "json list \<Rightarrow> bool"
and json_wf_fields :: "(string \<times> json) list \<Rightarrow> bool" where
  "json_wf (JList xs) = json_wf_list xs"
| "json_wf (JObj xs) = (distinct (map fst xs) \<and> json_wf_fields xs)"
| "json_wf _ = True"
| "json_wf_list [] = True"
| "json_wf_list (x # xs) = (json_wf x \<and> json_wf_list xs)"
| "json_wf_fields [] = True"
| "json_wf_fields ((k, v) # xs) = (json_wf v \<and> json_wf_fields xs)"

lemma json_eq_lookup_in:
  "distinct (map fst ys) \<Longrightarrow> (k, v) \<in> set ys \<Longrightarrow> json_eq v v \<Longrightarrow> json_eq_lookup k v ys"
  by (induction ys) (auto simp: image_iff split: prod.splits)

lemma json_eq_fields_subset:
  "(\<And>k v. (k, v) \<in> set xs \<Longrightarrow> json_eq_lookup k v ys) \<Longrightarrow> json_eq_fields xs ys"
  by (induction xs) auto

lemma json_eq_refl:
  "json_wf j \<Longrightarrow> json_eq j j"
  "json_wf_list js \<Longrightarrow> json_eq_list js js"
  "json_wf_fields fs \<Longrightarrow> \<forall>(k, v) \<in> set fs. json_eq v v"
proof (induction j and js and fs rule: json_wf_json_wf_list_json_wf_fields.induct)
  case (2 xs)
  then show ?case
    by (auto intro!: json_eq_fields_subset json_eq_lookup_in)
qed auto

end
