(* ===== verification/Tables.thy ===== *)
theory Tables
  imports Model_Data
begin

text \<open>
  The tables of app/models.py as records, the database as the record of all tables, and the
  row operations the services perform on it. \<open>next_id\<close> supplies the identifiers that
  \<open>uuid4\<close> generates: each new row takes an identifier no earlier row has.
\<close>

section \<open>Tables\<close>

record workspace =
  ws_id :: uuid
  ws_slug :: string
  ws_name :: string
  ws_active :: bool
  ws_ai_invocation_limit :: "int option"
  ws_ai_total_token_limit :: "int option"
  ws_ai_estimated_spend_limit :: "rat option"
  ws_ai_permitted_model_tiers :: "string list option"
  ws_ai_model_tier_downgrade_mappings :: "(string \<times> string) list"
  ws_sales_instructions :: "string option"
  ws_sales_preferred_language :: "sales_language option"
  ws_sales_preferred_script :: "writing_script option"
  ws_sales_preferred_tone :: "sales_tone option"
  ws_created_at :: datetime
  ws_updated_at :: datetime

record user =
  us_id :: uuid
  us_email :: string
  us_display_name :: "string option"
  us_active :: bool
  us_created_at :: datetime
  us_updated_at :: datetime

record password_credential =
  pc_id :: uuid
  pc_user_id :: uuid
  pc_password_hash :: string
  pc_created_at :: datetime
  pc_updated_at :: datetime

record workspace_member =
  wm_id :: uuid
  wm_workspace_id :: uuid
  wm_user_id :: uuid
  wm_role :: member_role
  wm_active :: bool
  wm_created_at :: datetime

record integration_account =
  ac_id :: uuid
  ac_workspace_id :: uuid
  ac_provider :: string
  ac_external_account_id :: "string option"
  ac_secret_reference :: "string option"
  ac_credential_hash :: string
  ac_active :: bool
  ac_created_at :: datetime
  ac_updated_at :: datetime

record account_audit_event =
  aa_id :: uuid
  aa_workspace_id :: uuid
  aa_integration_account_id :: uuid
  aa_action :: account_audit_action
  aa_created_at :: datetime

record inbound_receipt =
  ir_id :: uuid
  ir_workspace_id :: uuid
  ir_integration_account_id :: uuid
  ir_external_event_id :: string
  ir_correlation_id :: uuid
  ir_created_at :: datetime

record ai_usage =
  au_id :: uuid
  au_workspace_id :: uuid
  au_conversation_id :: "uuid option"
  au_task_identifier :: string
  au_agent_identifier :: string
  au_provider :: string
  au_model :: string
  au_input_tokens :: "int option"
  au_output_tokens :: "int option"
  au_total_tokens :: "int option"
  au_latency_ms :: int
  au_estimated_cost :: "rat option"
  au_status :: ai_status
  au_created_at :: datetime

record outbound_action =
  oa_id :: uuid
  oa_workspace_id :: uuid
  oa_integration_account_id :: uuid
  oa_external_target_id :: string
  oa_action_type :: action_type
  oa_content :: string
  oa_payload :: json
  oa_correlation_id :: "string option"
  oa_idempotency_key :: string
  oa_requires_approval :: bool
  oa_approval_request_id :: "uuid option"
  oa_status :: action_status
  oa_priority :: action_priority
  oa_owner_reference :: "string option"
  oa_archived_at :: "datetime option"
  oa_provider_delivery_id :: "string option"
  oa_delivered_at :: "datetime option"
  oa_failed_at :: "datetime option"
  oa_cancelled_at :: "datetime option"
  oa_not_before :: "datetime option"
  oa_expires_at :: "datetime option"
  oa_expired_at :: "datetime option"
  oa_failure_code :: "string option"
  oa_failure_message :: "string option"
  oa_failure_classification :: "failure_class option"
  oa_created_at :: datetime

record audit_event =
  ae_id :: uuid
  ae_workspace_id :: uuid
  ae_integration_account_id :: uuid
  ae_outbound_integration_action_id :: uuid
  ae_action :: audit_action
  ae_created_at :: datetime

record action_annotation =
  an_id :: uuid
  an_workspace_id :: uuid
  an_outbound_integration_action_id :: uuid
  an_text :: string
  an_created_at :: datetime

record action_label =
  lb_id :: uuid
  lb_workspace_id :: uuid
  lb_outbound_integration_action_id :: uuid
  lb_label :: string
  lb_created_at :: datetime

record delivery_attempt =
  da_id :: uuid
  da_workspace_id :: uuid
  da_integration_account_id :: uuid
  da_outbound_integration_action_id :: uuid
  da_attempt_number :: nat
  da_status :: action_status
  da_provider_delivery_id :: "string option"
  da_started_at :: datetime
  da_completed_at :: "datetime option"
  da_failure_code :: "string option"
  da_failure_message :: "string option"
  da_failure_classification :: "failure_class option"

record lead =
  ld_id :: uuid
  ld_tenant_id :: string
  ld_full_name :: string
  ld_company_name :: string
  ld_job_title :: "string option"
  ld_email :: "string option"
  ld_phone :: "string option"
  ld_website :: "string option"
  ld_source :: string
  ld_status :: lead_status
  ld_sales_stage :: sales_stage
  ld_assigned_to_membership_id :: "uuid option"
  ld_assigned_at :: "datetime option"
  ld_assigned_by_user_id :: "uuid option"
  ld_assigned_by_membership_id :: "uuid option"
  ld_score :: int
  ld_notes :: "string option"
  ld_created_at :: datetime
  ld_updated_at :: datetime

record product =
  pr_id :: uuid
  pr_tenant_id :: string
  pr_name :: string
  pr_description :: string
  pr_price :: "rat option"
  pr_minimum_price :: "rat option"
  pr_active :: bool
  pr_metadata_json :: "(string \<times> json) list"

record lead_research =
  rs_id :: uuid
  rs_lead_id :: uuid
  rs_summary :: string
  rs_pain_points :: "string list"
  rs_opportunities :: "string list"
  rs_evidence :: "(string \<times> string option) list list"
  rs_created_at :: datetime

record conversation_message =
  cm_id :: uuid
  cm_lead_id :: uuid
  cm_direction :: string
  cm_channel :: string
  cm_stage :: sales_stage
  cm_content :: string
  cm_created_at :: datetime

record turn_receipt =
  tr_id :: uuid
  tr_workspace_id :: uuid
  tr_lead_id :: uuid
  tr_idempotency_key :: string
  tr_request_fingerprint :: string
  tr_status :: turn_receipt_status
  tr_detected_stage :: "sales_stage option"
  tr_draft_reply :: "string option"
  tr_approval_id :: "uuid option"
  tr_handoff_required :: bool
  tr_handoff_reason_code :: "handoff_reason option"
  tr_created_at :: datetime
  tr_completed_at :: "datetime option"

record sales_handoff =
  ho_id :: uuid
  ho_workspace_id :: uuid
  ho_lead_id :: uuid
  ho_reason_code :: handoff_reason
  ho_explanation :: string
  ho_status :: handoff_status
  ho_created_at :: datetime
  ho_resolved_at :: "datetime option"

record approval_request =
  ap_id :: uuid
  ap_lead_id :: "uuid option"
  ap_action_type :: string
  ap_channel :: string
  ap_payload :: "(string \<times> string) list"
  ap_status :: approval_status
  ap_assigned_to_membership_id :: "uuid option"
  ap_assigned_at :: "datetime option"
  ap_assigned_by_user_id :: "uuid option"
  ap_assigned_by_membership_id :: "uuid option"
  ap_reviewer_note :: "string option"
  ap_created_at :: datetime
  ap_decided_at :: "datetime option"
  ap_decided_by_user_id :: "uuid option"
  ap_decided_by_membership_id :: "uuid option"
  ap_decided_by_role :: "member_role option"

record follow_up_task =
  fu_id :: uuid
  fu_lead_id :: uuid
  fu_due_at :: datetime
  fu_reason :: string
  fu_status :: string
  fu_created_at :: datetime

section \<open>The database\<close>

record db =
  workspaces :: "workspace list"
  users :: "user list"
  credentials :: "password_credential list"
  members :: "workspace_member list"
  accounts :: "integration_account list"
  account_audit :: "account_audit_event list"
  inbound_receipts :: "inbound_receipt list"
  usages :: "ai_usage list"
  actions :: "outbound_action list"
  audit_events :: "audit_event list"
  annotations :: "action_annotation list"
  labels :: "action_label list"
  attempts :: "delivery_attempt list"
  leads :: "lead list"
  products :: "product list"
  researches :: "lead_research list"
  messages :: "conversation_message list"
  turn_receipts :: "turn_receipt list"
  handoffs :: "sales_handoff list"
  approvals :: "approval_request list"
  follow_ups :: "follow_up_task list"
  next_id :: uuid

definition empty_db :: db where
  "empty_db = \<lparr>workspaces = [], users = [], credentials = [], members = [], accounts = [],
     account_audit = [], inbound_receipts = [], usages = [], actions = [], audit_events = [],
     annotations = [], labels = [], attempts = [], leads = [], products = [], researches = [],
     messages = [], turn_receipts = [], handoffs = [], approvals = [], follow_ups = [],
     next_id = 0\<rparr>"

end
