(* ===== verification/Store.thy ===== *)
theory Store
  imports Tables "HOL-Library.Product_Lexorder"
begin

text \<open>
  The exceptions of the sources, grouped by the component that declares them, and the reads
  and writes of rows that the services share: \<open>session.get(Model, id)\<close> is \<open>get_*\<close>, an
  attribute write on a loaded row with the commit that saves it is \<open>save_*\<close>.
\<close>

section \<open>Exceptions\<close>

datatype account_error =
  IntegrationAccountNotFoundError | SecretReferenceValidationError | AuditQueryValidationError

datatype outbound_error =
  InactiveIntegrationAccountError | OutboundIntegrationActionIdempotencyConflictError
  | OutboundIntegrationActionNotFoundError | OutboundIntegrationActionAlreadyProcessedError
  | OutboundIntegrationActionNotRetryableError
  | OutboundIntegrationActionRetryDeniedError "string option"
  | OutboundIntegrationActionNotCancellableError | OutboundIntegrationActionExpiredError
  | OutboundIntegrationActionNotReadyError | OutboundDeliveryAttemptQueryValidationError
  | OutboundIntegrationActionInvalidStateTransitionError
  | OutboundDeliveryRetryPolicyConfigurationError
  | OutboundDeliveryRetryDelayPolicyConfigurationError
  | OutboundDeliveryApprovalRequiredError | OutboundDeliveryApprovalRejectedError
  | OutboundAuditQueryValidationError | OutboundApprovalStatusNotFoundError
  | IntegrationExecutionTraceNotFoundError

datatype operator_error =
  OutboundIntegrationActionNotArchivableError | OutboundIntegrationActionAlreadyArchivedError
  | OutboundIntegrationActionNotArchivedError | OutboundActionLabelValidationError
  | OutboundActionLabelNotFoundError | OutboundActionOwnerReferenceValidationError
  | OutboundActionQueryValidationError | OutboundIntegrationActionQueryNotFoundError
  | OperatorAssignmentNotFoundError | OperatorAssignmentConflictError
  | OperatorAssignmentActorWorkspaceMismatchError

datatype approval_error =
  ApprovalDecisionNotFoundError | ApprovalDecisionConflictError
  | ApprovalDecisionDeliveryError string | ApprovalDecisionActorWorkspaceMismatchError

datatype identity_error =
  UserIdentityValidationError | DuplicateUserEmailError | UserNotFoundError | InactiveUserError
  | DuplicateWorkspaceMembershipError | WorkspaceMembershipNotFoundError
  | InactiveWorkspaceMembershipError | WorkspaceMemberRoleValidationError
  | WorkspaceNotFoundError | WorkspaceInactiveError | WorkspaceCreationPrincipalError
  | DuplicateWorkspaceSlugError | InvalidIntegrationContextError
  | WorkspaceSalesInstructionsValidationError | PasswordPolicyError | InvalidCredentialsError
  | InvalidAccessTokenError | AuthenticationConfigurationError
  | UnknownWorkspaceRoleError | WorkspacePermissionDeniedError | WebhookAuthenticationError

datatype sales_error =
  NotFoundError | HandoffLifecycleConflictError
  | DirectConversationTurnIdempotencyValidationError
  | DirectConversationTurnIdempotencyConflictError
  | InboundIntegrationEventIdValidationError

datatype ai_error =
  AIWorkspaceUsageLimitConfigurationError | AIWorkspaceUsageLimitRequestError
  | AIModelRoutingError | AIModelTierResolutionError | AIModelPricingValidationError
  | AIInvocationUsageValidationError | AIInvocationProviderMetadataError
  | AIInvocationAccountingError | AIInvocationBlockedError ai_tier limit_reason | LLMError | LLMProviderMetadataError

datatype event_error =
  UnsupportedEventTypeError string | EventPayloadMismatchError string | DuplicateEventHandlerError string

datatype error =
  AccountE account_error | OutboundE outbound_error | OperatorE operator_error
  | ApprovalE approval_error | IdentityE identity_error | SalesE sales_error | AiE ai_error
  | EventE event_error
  | HTTPException nat string
  | ValueError | TypeError | KeyError | IndexError | RuntimeError | AssertionError
  | UnicodeEncodeError | OverflowError | IntegrityError | CancelledError

type_synonym 'a op = "db \<Rightarrow> (error + 'a) \<times> db"

section \<open>Reading and saving rows\<close>

definition get_workspace_row :: "uuid \<Rightarrow> db \<Rightarrow> workspace option" where
  "get_workspace_row k d = row_find ws_id k (workspaces d)"

definition get_user_row :: "uuid \<Rightarrow> db \<Rightarrow> user option" where
  "get_user_row k d = row_find us_id k (users d)"

definition get_member :: "uuid \<Rightarrow> db \<Rightarrow> workspace_member option" where
  "get_member k d = row_find wm_id k (members d)"

definition get_account :: "uuid \<Rightarrow> db \<Rightarrow> integration_account option" where
  "get_account k d = row_find ac_id k (accounts d)"

definition get_action :: "uuid \<Rightarrow> db \<Rightarrow> outbound_action option" where
  "get_action k d = row_find oa_id k (actions d)"

definition get_approval :: "uuid \<Rightarrow> db \<Rightarrow> approval_request option" where
  "get_approval k d = row_find ap_id k (approvals d)"

definition get_lead_row :: "uuid \<Rightarrow> db \<Rightarrow> lead option" where
  "get_lead_row k d = row_find ld_id k (leads d)"

definition save_workspace :: "workspace \<Rightarrow> db \<Rightarrow> db" where
  "save_workspace r d = d\<lparr>workspaces := row_update ws_id r (workspaces d)\<rparr>"

definition save_user :: "user \<Rightarrow> db \<Rightarrow> db" where
  "save_user r d = d\<lparr>users := row_update us_id r (users d)\<rparr>"

definition save_account :: "integration_account \<Rightarrow> db \<Rightarrow> db" where
  "save_account r d = d\<lparr>accounts := row_update ac_id r (accounts d)\<rparr>"

definition save_action :: "outbound_action \<Rightarrow> db \<Rightarrow> db" where
  "save_action r d = d\<lparr>actions := row_update oa_id r (actions d)\<rparr>"

definition save_approval :: "approval_request \<Rightarrow> db \<Rightarrow> db" where
  "save_approval r d = d\<lparr>approvals := row_update ap_id r (approvals d)\<rparr>"

definition save_lead :: "lead \<Rightarrow> db \<Rightarrow> db" where
  "save_lead r d = d\<lparr>leads := row_update ld_id r (leads d)\<rparr>"

definition insert_action :: "outbound_action \<Rightarrow> db \<Rightarrow> db" where
  "insert_action r d = d\<lparr>actions := actions d @ [r]\<rparr>"

definition insert_approval :: "approval_request \<Rightarrow> db \<Rightarrow> db" where
  "insert_approval r d = d\<lparr>approvals := approvals d @ [r]\<rparr>"

definition insert_account :: "integration_account \<Rightarrow> db \<Rightarrow> db" where
  "insert_account r d = d\<lparr>accounts := accounts d @ [r]\<rparr>"

text \<open>The identifier a new row takes, and the database after it was taken.\<close>

definition take_id :: "db \<Rightarrow> db" where
  "take_id d = d\<lparr>next_id := Suc (next_id d)\<rparr>"

lemmas save_defs = save_workspace_def save_user_def save_account_def save_action_def
  save_approval_def save_lead_def insert_action_def insert_approval_def insert_account_def
  take_id_def

lemmas get_defs = get_workspace_row_def get_user_row_def get_member_def get_account_def
  get_action_def get_approval_def get_lead_row_def

interpretation wss: row_store get_workspace_row save_workspace ws_id
  by unfold_locales (auto simp: get_defs save_defs row_find_update dest: row_find_SomeD)

interpretation uss: row_store get_user_row save_user us_id
  by unfold_locales (auto simp: get_defs save_defs row_find_update dest: row_find_SomeD)

interpretation acs: growing_row_store get_account save_account ac_id insert_account
  by unfold_locales
    (auto simp: get_defs save_defs row_find_update row_find_append dest: row_find_SomeD split: option.splits)

interpretation oas: growing_row_store get_action save_action oa_id insert_action
  by unfold_locales
    (auto simp: get_defs save_defs row_find_update row_find_append dest: row_find_SomeD split: option.splits)

interpretation aps: growing_row_store get_approval save_approval ap_id insert_approval
  by unfold_locales
    (auto simp: get_defs save_defs row_find_update row_find_append dest: row_find_SomeD split: option.splits)

interpretation lds: row_store get_lead_row save_lead ld_id
  by unfold_locales (auto simp: get_defs save_defs row_find_update dest: row_find_SomeD)

text \<open>Saving or adding a row of one table leaves the other tables alone.\<close>

lemma get_action_frames [simp]:
  "get_action k (save_approval r d) = get_action k d"
  "get_action k (insert_approval r d) = get_action k d"
  "get_action k (save_account a d) = get_action k d"
  "get_action k (save_lead l d) = get_action k d"
  "get_action k (take_id d) = get_action k d"
  by (simp_all add: get_defs save_defs)

lemma get_approval_frames [simp]:
  "get_approval k (save_action r d) = get_approval k d"
  "get_approval k (insert_action r d) = get_approval k d"
  "get_approval k (save_account a d) = get_approval k d"
  "get_approval k (save_lead l d) = get_approval k d"
  "get_approval k (take_id d) = get_approval k d"
  by (simp_all add: get_defs save_defs)

end
