(* ===== verification/Samples.thy ===== *)
theory Samples
  imports Store
begin

text \<open>
  Concrete rows on which the theorems of the components are applied: one workspace with an
  owner, one integration account, one lead and one outbound action, and functions that build
  variants of them. No theorem depends on these values.
\<close>

definition sample_ws :: workspace where
  "sample_ws = \<lparr>ws_id = 1, ws_slug = ''acme'', ws_name = ''Acme'', ws_active = True,
     ws_ai_invocation_limit = None, ws_ai_total_token_limit = None,
     ws_ai_estimated_spend_limit = None, ws_ai_permitted_model_tiers = None,
     ws_ai_model_tier_downgrade_mappings = [], ws_sales_instructions = None,
     ws_sales_preferred_language = None, ws_sales_preferred_script = None,
     ws_sales_preferred_tone = None, ws_created_at = utc 0, ws_updated_at = utc 0\<rparr>"

definition sample_user :: user where
  "sample_user = \<lparr>us_id = 2, us_email = ''owner'', us_display_name = None, us_active = True,
     us_created_at = utc 0, us_updated_at = utc 0\<rparr>"

definition sample_member :: "member_role \<Rightarrow> workspace_member" where
  "sample_member role = \<lparr>wm_id = 3, wm_workspace_id = 1, wm_user_id = 2, wm_role = role,
     wm_active = True, wm_created_at = utc 0\<rparr>"

definition sample_account :: "string \<Rightarrow> integration_account" where
  "sample_account h = \<lparr>ac_id = 4, ac_workspace_id = 1, ac_provider = ''meta'',
     ac_external_account_id = None, ac_secret_reference = None, ac_credential_hash = h,
     ac_active = True, ac_created_at = utc 0, ac_updated_at = utc 0\<rparr>"

definition sample_lead :: lead where
  "sample_lead = \<lparr>ld_id = 5, ld_tenant_id = ''acme'', ld_full_name = ''A'', ld_company_name = ''B'',
     ld_job_title = None, ld_email = None, ld_phone = None, ld_website = None,
     ld_source = ''manual'', ld_status = LEAD_NEW, ld_sales_stage = INTRODUCTION,
     ld_assigned_to_membership_id = None, ld_assigned_at = None, ld_assigned_by_user_id = None,
     ld_assigned_by_membership_id = None, ld_score = 0, ld_notes = None, ld_created_at = utc 0,
     ld_updated_at = utc 0\<rparr>"

definition sample_action :: "action_status \<Rightarrow> outbound_action" where
  "sample_action st = \<lparr>oa_id = 6, oa_workspace_id = 1, oa_integration_account_id = 4,
     oa_external_target_id = ''t'', oa_action_type = SEND_MESSAGE, oa_content = ''hi'',
     oa_payload = JObj [], oa_correlation_id = None, oa_idempotency_key = ''k'',
     oa_requires_approval = False, oa_approval_request_id = None, oa_status = st,
     oa_priority = NORMAL, oa_owner_reference = None, oa_archived_at = None,
     oa_provider_delivery_id = None, oa_delivered_at = None, oa_failed_at = None,
     oa_cancelled_at = None, oa_not_before = None, oa_expires_at = None, oa_expired_at = None,
     oa_failure_code = None, oa_failure_message = None, oa_failure_classification = None,
     oa_created_at = utc 0\<rparr>"

definition sample_approval :: "approval_status \<Rightarrow> approval_request" where
  "sample_approval st = \<lparr>ap_id = 7, ap_lead_id = Some 5, ap_action_type = ''send_message'',
     ap_channel = ''email'', ap_payload = [(''content'', ''hello'')], ap_status = st,
     ap_assigned_to_membership_id = None, ap_assigned_at = None, ap_assigned_by_user_id = None,
     ap_assigned_by_membership_id = None, ap_reviewer_note = None, ap_created_at = utc 0,
     ap_decided_at = None, ap_decided_by_user_id = None, ap_decided_by_membership_id = None,
     ap_decided_by_role = None\<rparr>"

definition sample_audit :: "uuid \<Rightarrow> int \<Rightarrow> account_audit_event" where
  "sample_audit i t = \<lparr>aa_id = i, aa_workspace_id = 1, aa_integration_account_id = 4,
     aa_action = ACC_PROVISIONED, aa_created_at = utc t\<rparr>"

definition sample_db :: db where
  "sample_db = empty_db\<lparr>workspaces := [sample_ws], users := [sample_user],
     members := [sample_member OWNER], accounts := [sample_account ''h''],
     account_audit := [sample_audit 8 0, sample_audit 9 (days 40)],
     leads := [sample_lead], next_id := 100\<rparr>"

lemmas sample_defs = sample_db_def empty_db_def sample_ws_def sample_user_def sample_member_def
  sample_account_def sample_lead_def sample_action_def sample_approval_def sample_audit_def

end
