(* ===== verification/Accounts.thy ===== *)
theory Accounts
  imports Samples
begin

text \<open>
  app/services/integration_accounts.py, integration_account_audit.py, secret_reference_policy.py
  and secret_resolver.py: the lifecycle of integration accounts, its audit history with the
  retention cleanup, and the namespace of secret references.

  Parameters: \<open>sha\<close> is \<open>hashlib.sha256(..).hexdigest()\<close>, \<open>tokens i\<close> the \<open>i\<close>-th
  value of \<open>secrets.token_urlsafe\<close>, \<open>env\<close> the process environment.
\<close>

section \<open>Secret references\<close>

definition secret_prefix :: string where
  "secret_prefix = ''INTEGRATION_SECRET_''"

definition secret_reference_matches :: "string \<Rightarrow> bool" where
  "secret_reference_matches r \<longleftrightarrow>
     take (length secret_prefix) r = secret_prefix \<and>
     head_tail_match is_upper_AZ (\<lambda>c. is_upper_AZ c \<or> is_digit09 c \<or> one_of ''_'' c) 200
       (drop (length secret_prefix) r)"

definition secret_validate :: "string \<Rightarrow> error + string" where
  "secret_validate r =
     (if \<not> secret_reference_matches r then Inl (AccountE SecretReferenceValidationError) else Inr r)"

definition secret_is_allowed :: "string option \<Rightarrow> bool" where
  "secret_is_allowed r =
     (case r of None \<Rightarrow> False
      | Some s \<Rightarrow> (case secret_validate s of Inl _ \<Rightarrow> False | Inr _ \<Rightarrow> True))"

definition env_resolve :: "(string \<times> string) list \<Rightarrow> string option \<Rightarrow> string option" where
  "env_resolve env r =
     (if \<not> secret_is_allowed r then None
      else (case r of None \<Rightarrow> None | Some s \<Rightarrow> map_of env s))"

text \<open>A resolver never reads a variable outside the reserved namespace.\<close>

lemma env_resolve_namespace:
  "env_resolve env r = Some v \<Longrightarrow> \<exists>s. r = Some (secret_prefix @ s) \<and> s \<noteq> []"
proof -
  assume a: "env_resolve env r = Some v"
  then obtain t where r: "r = Some t" and m: "secret_reference_matches t"
    by (auto simp: env_resolve_def secret_is_allowed_def secret_validate_def
        split: if_splits option.splits sum.splits)
  from m have "t = secret_prefix @ drop (length secret_prefix) t"
    by (metis append_take_drop_id secret_reference_matches_def)
  moreover from m have "drop (length secret_prefix) t \<noteq> []"
    by (auto simp: secret_reference_matches_def)
  ultimately show ?thesis using r by blast
qed

section \<open>Audit history of accounts\<close>

definition account_audit_record ::
  "integration_account \<Rightarrow> account_audit_action \<Rightarrow> int \<Rightarrow> db \<Rightarrow> db" where
  "account_audit_record acc act t d = take_id (d\<lparr>account_audit := account_audit d @
     [\<lparr>aa_id = next_id d, aa_workspace_id = ac_workspace_id acc,
       aa_integration_account_id = ac_id acc, aa_action = act, aa_created_at = utc t\<rparr>]\<rparr>)"

definition retention_policy :: "int \<Rightarrow> error + int" where
  "retention_policy retention_days =
     (if \<not> (1 \<le> retention_days \<and> retention_days \<le> 3650) then Inl ValueError else Inr retention_days)"

definition retention_cutoff :: "int \<Rightarrow> datetime \<Rightarrow> datetime" where
  "retention_cutoff retention_days now = dt_plus now (- days retention_days)"

text \<open>The rows one pass of the cleanup loop selects: the oldest \<open>batch_size\<close> expired events.\<close>

definition audit_expired :: "uuid \<Rightarrow> datetime \<Rightarrow> account_audit_event \<Rightarrow> bool" where
  "audit_expired wid cutoff e \<longleftrightarrow>
     aa_workspace_id e = wid \<and> dt_instant (aa_created_at e) < dt_instant cutoff"

definition cleanup_batch :: "uuid \<Rightarrow> datetime \<Rightarrow> nat \<Rightarrow> account_audit_event list \<Rightarrow> uuid list" where
  "cleanup_batch wid cutoff batch_size es =
     take batch_size (map aa_id (sort_key (\<lambda>e. dt_instant (aa_created_at e))
       (filter (audit_expired wid cutoff) es)))"

definition cleanup_delete :: "uuid \<Rightarrow> uuid list \<Rightarrow> account_audit_event list \<Rightarrow> account_audit_event list" where
  "cleanup_delete wid ids es = filter (\<lambda>e. \<not> (aa_workspace_id e = wid \<and> aa_id e \<in> set ids)) es"

lemma cleanup_delete_le: "length (cleanup_delete wid ids es) \<le> length es"
  by (simp add: cleanup_delete_def)

lemma cleanup_batch_mem:
  "i \<in> set (cleanup_batch wid cutoff n es) \<Longrightarrow> \<exists>e \<in> set es. audit_expired wid cutoff e \<and> aa_id e = i"
  by (auto simp: cleanup_batch_def dest!: in_set_takeD)

lemma cleanup_delete_shrinks:
  assumes "cleanup_batch wid cutoff n es \<noteq> []"
  shows "length (cleanup_delete wid (cleanup_batch wid cutoff n es) es) < length es"
proof -
  obtain i where i: "i \<in> set (cleanup_batch wid cutoff n es)"
    using assms by (cases "cleanup_batch wid cutoff n es") auto
  then obtain e where e: "e \<in> set es" "audit_expired wid cutoff e" "aa_id e = i"
    using cleanup_batch_mem by blast
  show ?thesis
    unfolding cleanup_delete_def
    by (rule length_filter_less [OF e(1)]) (use e i in \<open>auto simp: audit_expired_def\<close>)
qed

function cleanup_loop ::
  "uuid \<Rightarrow> datetime \<Rightarrow> nat \<Rightarrow> account_audit_event list \<Rightarrow> nat \<Rightarrow> account_audit_event list \<times> nat" where
  "cleanup_loop wid cutoff batch_size es deleted =
     (let ids = cleanup_batch wid cutoff batch_size es in
      if ids = [] then (es, deleted)
      else let es' = cleanup_delete wid ids es in
           cleanup_loop wid cutoff batch_size es' (deleted + (length es - length es')))"
  by pat_completeness auto
termination
  by (relation "measure (\<lambda>(_, _, _, es, _). length es)") (auto intro: cleanup_delete_shrinks)

declare cleanup_loop.simps [simp del]

definition cleanup_for_workspace ::
  "workspace \<Rightarrow> int \<Rightarrow> datetime \<Rightarrow> int \<Rightarrow> (nat \<times> datetime) op" where
  "cleanup_for_workspace ws retention_days now batch_size d =
     (if batch_size < 1 then (Inl ValueError, d)
      else let cutoff = retention_cutoff retention_days now;
               (es, n) = cleanup_loop (ws_id ws) cutoff (nat batch_size) (account_audit d) 0
           in (Inr (n, cutoff), d\<lparr>account_audit := es\<rparr>))"

definition MAX_AUDIT_EVENT_LIMIT :: int where "MAX_AUDIT_EVENT_LIMIT = 100"

definition validate_range :: "error \<Rightarrow> datetime option \<Rightarrow> datetime option \<Rightarrow> error + unit" where
  "validate_range err created_after created_before =
     (case (created_after, created_before) of
        (Some a, Some b) \<Rightarrow>
          (case dt_lt b a of None \<Rightarrow> Inl TypeError
           | Some gt \<Rightarrow> if gt then Inl err else Inr ())
      | _ \<Rightarrow> Inr ())"

definition account_audit_validate_query ::
  "datetime option \<Rightarrow> datetime option \<Rightarrow> int \<Rightarrow> error + unit" where
  "account_audit_validate_query created_after created_before limit =
     (if \<not> (1 \<le> limit \<and> limit \<le> MAX_AUDIT_EVENT_LIMIT)
      then Inl (AccountE AuditQueryValidationError)
      else validate_range (AccountE AuditQueryValidationError) created_after created_before)"

text \<open>An optional filter of a query: absent means every row passes.\<close>

definition opt_filter :: "('a \<Rightarrow> bool) \<Rightarrow> 'a option \<Rightarrow> bool" where
  "opt_filter p x = (case x of None \<Rightarrow> True | Some v \<Rightarrow> p v)"

definition in_range :: "datetime option \<Rightarrow> datetime option \<Rightarrow> datetime \<Rightarrow> bool" where
  "in_range after before t \<longleftrightarrow>
     opt_filter (\<lambda>a. dt_instant a \<le> dt_instant t) after \<and>
     opt_filter (\<lambda>b. dt_instant t \<le> dt_instant b) before"

definition account_audit_list ::
  "workspace \<Rightarrow> uuid option \<Rightarrow> account_audit_action option \<Rightarrow> datetime option \<Rightarrow> datetime option
   \<Rightarrow> int \<Rightarrow> db \<Rightarrow> error + account_audit_event list" where
  "account_audit_list ws account_id action created_after created_before limit d =
     bindE (account_audit_validate_query created_after created_before limit) (\<lambda>_.
     Inr (take (nat limit) (order_desc (\<lambda>e. (dt_instant (aa_created_at e), aa_id e))
       (filter (\<lambda>e. aa_workspace_id e = ws_id ws \<and>
                    opt_filter (\<lambda>i. aa_integration_account_id e = i) account_id \<and>
                    opt_filter (\<lambda>a. aa_action e = a) action \<and>
                    in_range created_after created_before (aa_created_at e))
         (account_audit d)))))"

section \<open>Account lifecycle\<close>

definition get_for_workspace :: "workspace \<Rightarrow> uuid \<Rightarrow> db \<Rightarrow> error + integration_account" where
  "get_for_workspace ws account_id d =
     (case find (\<lambda>a. ac_id a = account_id \<and> ac_workspace_id a = ws_id ws) (accounts d) of
        None \<Rightarrow> Inl (AccountE IntegrationAccountNotFoundError)
      | Some a \<Rightarrow> Inr a)"

definition account_save :: "integration_account \<Rightarrow> account_audit_action \<Rightarrow> clock \<Rightarrow> integration_account op" where
  "account_save acc act clk d =
     (let acc' = acc\<lparr>ac_updated_at := utc (clk 0)\<rparr>
      in (Inr acc', account_audit_record acc' act (clk 1) (save_account acc' d)))"

definition deactivate :: "workspace \<Rightarrow> uuid \<Rightarrow> clock \<Rightarrow> integration_account op" where
  "deactivate ws account_id clk d =
     (case get_for_workspace ws account_id d of
        Inl e \<Rightarrow> (Inl e, d)
      | Inr acc \<Rightarrow> account_save (acc\<lparr>ac_active := False\<rparr>) ACC_DEACTIVATED clk d)"

definition reactivate :: "workspace \<Rightarrow> uuid \<Rightarrow> clock \<Rightarrow> integration_account op" where
  "reactivate ws account_id clk d =
     (case get_for_workspace ws account_id d of
        Inl e \<Rightarrow> (Inl e, d)
      | Inr acc \<Rightarrow> account_save (acc\<lparr>ac_active := True\<rparr>) ACC_REACTIVATED clk d)"

definition update_secret_reference :: "workspace \<Rightarrow> uuid \<Rightarrow> string \<Rightarrow> clock \<Rightarrow> integration_account op" where
  "update_secret_reference ws account_id secret_reference clk d =
     (case get_for_workspace ws account_id d of
        Inl e \<Rightarrow> (Inl e, d)
      | Inr acc \<Rightarrow>
          (case secret_validate secret_reference of
             Inl e \<Rightarrow> (Inl e, d)
           | Inr r \<Rightarrow> account_save (acc\<lparr>ac_secret_reference := Some r\<rparr>)
                        ACC_SECRET_REFERENCE_CHANGED clk d))"

text \<open>The loop that draws credentials until one has an unused hash; \<open>None\<close> is a loop that never ends.\<close>

partial_function (option) new_credential ::
  "(string \<Rightarrow> string) \<Rightarrow> (nat \<Rightarrow> string) \<Rightarrow> string list \<Rightarrow> nat \<Rightarrow> string option" where
  "new_credential sha tokens used i =
     (if sha (tokens i) \<in> set used then new_credential sha tokens used (Suc i)
      else Some (tokens i))"

definition used_hashes :: "db \<Rightarrow> string list" where
  "used_hashes d = map ac_credential_hash (accounts d)"

definition rotate_credential ::
  "(string \<Rightarrow> string) \<Rightarrow> (nat \<Rightarrow> string) \<Rightarrow> workspace \<Rightarrow> uuid \<Rightarrow> clock \<Rightarrow> db
   \<Rightarrow> ((error + integration_account \<times> string) \<times> db) option" where
  "rotate_credential sha tokens ws account_id clk d =
     (case get_for_workspace ws account_id d of
        Inl e \<Rightarrow> Some (Inl e, d)
      | Inr acc \<Rightarrow>
          (case new_credential sha tokens (used_hashes d) 0 of
             None \<Rightarrow> None
           | Some c \<Rightarrow>
               (case account_save (acc\<lparr>ac_credential_hash := sha c\<rparr>) ACC_CREDENTIAL_ROTATED clk d of
                  (Inl e, d') \<Rightarrow> Some (Inl e, d')
                | (Inr acc', d') \<Rightarrow> Some (Inr (acc', c), d'))))"

definition provision ::
  "(string \<Rightarrow> string) \<Rightarrow> (nat \<Rightarrow> string) \<Rightarrow> workspace \<Rightarrow> string \<Rightarrow> string option \<Rightarrow> string
   \<Rightarrow> clock \<Rightarrow> db \<Rightarrow> ((error + integration_account \<times> string) \<times> db) option" where
  "provision sha tokens ws provider external_account_id secret_reference clk d =
     (case secret_validate secret_reference of
        Inl e \<Rightarrow> Some (Inl e, d)
      | Inr r \<Rightarrow>
          (case new_credential sha tokens (used_hashes d) 0 of
             None \<Rightarrow> None
           | Some c \<Rightarrow>
               let acc = \<lparr>ac_id = next_id d, ac_workspace_id = ws_id ws,
                          ac_provider = py_strip provider,
                          ac_external_account_id = map_option py_strip external_account_id,
                          ac_secret_reference = Some r, ac_credential_hash = sha c,
                          ac_active = True, ac_created_at = utc (clk 0),
                          ac_updated_at = utc (clk 1)\<rparr>;
                   d' = account_audit_record acc ACC_PROVISIONED (clk 2) (take_id (insert_account acc d))
               in Some (Inr (acc, c), d')))"

definition list_accounts :: "workspace \<Rightarrow> db \<Rightarrow> integration_account list" where
  "list_accounts ws d = order_desc (\<lambda>a. dt_instant (ac_created_at a))
     (filter (\<lambda>a. ac_workspace_id a = ws_id ws) (accounts d))"

section \<open>The cleanup loop\<close>

lemma sort_key_Nil_iff [simp]: "sort_key f xs = [] \<longleftrightarrow> xs = []"
  by (metis length_0_conv length_sort)

lemma cleanup_batch_Nil_iff:
  "0 < n \<Longrightarrow> cleanup_batch wid cutoff n es = [] \<longleftrightarrow> filter (audit_expired wid cutoff) es = []"
  by (simp add: cleanup_batch_def)

lemma cleanup_delete_keeps_live:
  assumes "distinct (map aa_id es)"
  shows "filter (\<lambda>e. \<not> audit_expired wid cutoff e) (cleanup_delete wid (cleanup_batch wid cutoff n es) es)
       = filter (\<lambda>e. \<not> audit_expired wid cutoff e) es"
proof -
  have "audit_expired wid cutoff e"
    if e: "e \<in> set es" and m: "aa_id e \<in> set (cleanup_batch wid cutoff n es)" for e
  proof -
    obtain e' where "e' \<in> set es" "audit_expired wid cutoff e'" "aa_id e' = aa_id e"
      using cleanup_batch_mem [OF m] by blast
    with e assms show ?thesis by (metis distinct_map inj_on_def)
  qed
  then show ?thesis
    unfolding cleanup_delete_def filter_filter by (intro filter_cong) auto
qed

lemma distinct_cleanup_delete:
  "distinct (map aa_id es) \<Longrightarrow> distinct (map aa_id (cleanup_delete wid ids es))"
  by (simp add: cleanup_delete_def distinct_map_filter)

lemma cleanup_loop_result:
  assumes "distinct (map aa_id es)" and "0 < n"
  shows "cleanup_loop wid cutoff n es k =
    (filter (\<lambda>e. \<not> audit_expired wid cutoff e) es,
     k + length (filter (audit_expired wid cutoff) es))"
  using assms
proof (induction wid cutoff n es k rule: cleanup_loop.induct)
  case (1 wid cutoff n es k)
  let ?ids = "cleanup_batch wid cutoff n es"
  let ?es = "cleanup_delete wid ?ids es"
  let ?E = "audit_expired wid cutoff"
  show ?case
  proof (cases "?ids = []")
    case True
    with "1.prems" have "filter ?E es = []" by (simp add: cleanup_batch_Nil_iff)
    moreover from this have "filter (\<lambda>e. \<not> ?E e) es = es"
      by (auto simp: filter_empty_conv filter_id_conv)
    ultimately show ?thesis using True by (simp add: cleanup_loop.simps)
  next
    case False
    have "cleanup_loop wid cutoff n es k = cleanup_loop wid cutoff n ?es (k + (length es - length ?es))"
      using False by (subst cleanup_loop.simps) (simp add: Let_def)
    also have "\<dots> = (filter (\<lambda>e. \<not> ?E e) ?es, k + (length es - length ?es) + length (filter ?E ?es))"
      using "1.IH" [OF refl False refl] "1.prems" by (simp add: distinct_cleanup_delete)
    finally have eq: "cleanup_loop wid cutoff n es k =
      (filter (\<lambda>e. \<not> ?E e) es, k + (length es - length ?es) + length (filter ?E ?es))"
      using "1.prems" by (simp add: cleanup_delete_keeps_live)
    have "length (filter ?E ?es) + length (filter (\<lambda>e. \<not> ?E e) es) = length ?es"
      using cleanup_delete_keeps_live [OF "1.prems"(1), of wid cutoff n]
        sum_length_filter_compl [of ?E ?es] by simp
    moreover have "length (filter ?E es) + length (filter (\<lambda>e. \<not> ?E e) es) = length es"
      by (rule sum_length_filter_compl)
    moreover have "length ?es \<le> length es" by (rule cleanup_delete_le)
    ultimately show ?thesis using eq by simp
  qed
qed

section \<open>Credentials\<close>

lemma new_credential_unused:
  assumes ret: "new_credential sha tokens used i = Some c"
  shows "sha c \<notin> set used"
proof (rule new_credential.raw_induct [where P = "\<lambda>sha tokens used i c. sha c \<notin> set used", OF _ ret])
  fix f sha tokens used i c
  assume IH: "\<And>sha tokens used i c. f sha tokens used i = Some c \<Longrightarrow> sha c \<notin> set used"
    and eq: "(if sha (tokens i) \<in> set used then f sha tokens used (Suc i) else Some (tokens i)) = Some c"
  show "sha c \<notin> set used"
    using eq IH [of sha tokens used "Suc i" c] by (auto split: if_splits)
qed

lemma new_credential_returns:
  "sha (tokens (i + j)) \<notin> set used \<Longrightarrow> \<exists>c. new_credential sha tokens used i = Some c"
proof (induction j arbitrary: i)
  case 0
  then show ?case by (simp add: new_credential.simps)
next
  case (Suc j)
  from Suc.prems Suc.IH [of "Suc i"] have "\<exists>c. new_credential sha tokens used (Suc i) = Some c"
    by simp
  then show ?case by (simp add: new_credential.simps [of sha tokens used i])
qed

text \<open>
  Among more pairwise different hashes than there are accounts, one is unused: the loop ends
  after at most as many draws as there are accounts, plus one.
\<close>

lemma new_credential_total:
  assumes "inj_on (\<lambda>i. sha (tokens i)) {..length used}"
  shows "\<exists>c. new_credential sha tokens used 0 = Some c"
proof -
  have "card ((\<lambda>i. sha (tokens i)) ` {..length used}) = Suc (length used)"
    using assms by (simp add: card_image)
  moreover have "card (set used) \<le> length used" by (rule card_length)
  ultimately have "\<not> (\<lambda>i. sha (tokens i)) ` {..length used} \<subseteq> set used"
    by (metis List.finite_set card_mono not_less_eq_eq)
  then obtain j where "sha (tokens j) \<notin> set used" by auto
  then show ?thesis using new_credential_returns [of sha tokens 0 j used] by simp
qed

section \<open>Invariant of the account tables\<close>

definition accounts_inv :: "db \<Rightarrow> bool" where
  "accounts_inv d \<longleftrightarrow>
     distinct (map ac_id (accounts d)) \<and> distinct (map ac_credential_hash (accounts d)) \<and>
     distinct (map aa_id (account_audit d)) \<and>
     (\<forall>a \<in> set (accounts d). ac_id a < next_id d) \<and>
     (\<forall>e \<in> set (account_audit d). aa_id e < next_id d) \<and>
     (\<forall>e \<in> set (account_audit d). \<exists>a \<in> set (accounts d).
        aa_integration_account_id e = ac_id a \<and> aa_workspace_id e = ac_workspace_id a)"

lemma get_for_workspace_InrD:
  "get_for_workspace ws k d = Inr a \<Longrightarrow>
   a \<in> set (accounts d) \<and> ac_id a = k \<and> ac_workspace_id a = ws_id ws"
  by (auto simp: get_for_workspace_def find_Some_iff split: option.splits)

lemma get_for_workspace_frame [simp]:
  "get_for_workspace ws k (save_action r d) = get_for_workspace ws k d"
  "get_for_workspace ws k (insert_action r d) = get_for_workspace ws k d"
  "get_for_workspace ws k (save_approval p d) = get_for_workspace ws k d"
  "get_for_workspace ws k (insert_approval p d) = get_for_workspace ws k d"
  "get_for_workspace ws k (take_id d) = get_for_workspace ws k d"
  by (simp_all add: get_for_workspace_def save_defs)

lemma get_account_audit_record [simp]:
  "get_account i (account_audit_record a act t d) = get_account i d"
  by (simp add: account_audit_record_def get_account_def take_id_def)

lemma distinct_map_row_update:
  assumes "distinct (map key rows)" and "distinct (map f rows)"
    and "\<And>x. x \<in> set rows \<Longrightarrow> key x \<noteq> key r \<Longrightarrow> f x \<noteq> f r"
  shows "distinct (map f (row_update key r rows))"
  using assms
proof (induction rows)
  case Nil
  then show ?case by (simp add: row_simps)
next
  case (Cons x rows)
  show ?case
  proof (cases "key x = key r")
    case True
    with Cons.prems(1) have "row_update key r rows = rows"
      by (auto simp: row_update_def image_iff intro!: map_idI)
    moreover have "f r \<notin> f ` set rows"
    proof
      assume "f r \<in> f ` set rows"
      then obtain y where y: "y \<in> set rows" "f y = f r" by (metis imageE)
      with Cons.prems(1) True have "key y \<noteq> key r" by (auto simp: image_iff)
      with Cons.prems(3) [of y] y show False by simp
    qed
    ultimately show ?thesis using True Cons.prems(2) by (simp add: row_simps)
  next
    case False
    have "f x \<notin> f ` set (row_update key r rows)"
      using Cons.prems(2) Cons.prems(3) [of x] False by (auto dest: row_update_in_set)
    with False Cons show ?thesis by (simp add: row_simps)
  qed
qed

lemma account_save_accounts_inv:
  assumes inv: "accounts_inv d" and a: "a \<in> set (accounts d)"
    and r: "ac_id r = ac_id a" "ac_workspace_id r = ac_workspace_id a"
    and h: "\<And>x. x \<in> set (accounts d) \<Longrightarrow> ac_id x \<noteq> ac_id r \<Longrightarrow> ac_credential_hash x \<noteq> ac_credential_hash r"
    and s: "account_save r act clk d = (res, d')"
  shows "accounts_inv d'"
proof -
  let ?r = "r\<lparr>ac_updated_at := utc (clk 0)\<rparr>"
  let ?rows = "row_update ac_id ?r (accounts d)"
  have d': "d' = account_audit_record ?r act (clk 1) (save_account ?r d)"
    using s by (simp add: account_save_def Let_def)
  have hashes: "distinct (map ac_credential_hash ?rows)"
    by (rule distinct_map_row_update) (use inv h in \<open>auto simp: accounts_inv_def\<close>)
  have r_in: "?r \<in> set ?rows"
    using a r unfolding row_update_def by (force simp: image_iff)
  have wsp: "map (\<lambda>x. (ac_id x, ac_workspace_id x)) ?rows = map (\<lambda>x. (ac_id x, ac_workspace_id x)) (accounts d)"
  proof (rule row_update_frame)
    fix x assume "x \<in> set (accounts d)" "ac_id x = ac_id ?r"
    with a r inv show "(ac_id ?r, ac_workspace_id ?r) = (ac_id x, ac_workspace_id x)"
      unfolding accounts_inv_def by simp (metis distinct_map inj_on_def)
  qed
  have key: "(\<exists>x \<in> set ?rows. i = ac_id x \<and> w = ac_workspace_id x) \<longleftrightarrow>
             (\<exists>x \<in> set (accounts d). i = ac_id x \<and> w = ac_workspace_id x)" for i w
    using arg_cong [OF wsp, of "\<lambda>l. (i, w) \<in> set l"] by (auto simp: image_iff)
  have ids: "\<forall>x \<in> set ?rows. ac_id x < next_id d"
    using inv a r by (auto simp: accounts_inv_def dest!: row_update_in_set)
  show ?thesis
    using inv hashes ids r_in key a r
    unfolding accounts_inv_def d' account_audit_record_def save_account_def take_id_def
    by (auto simp: less_Suc_eq intro!: bexI [of _ a])
qed

lemma provision_accounts_inv:
  assumes inv: "accounts_inv d"
    and p: "provision sha tokens ws provider ext ref clk d = Some (res, d')"
  shows "accounts_inv d'"
proof (cases "res")
  case (Inl e)
  with p have "d' = d"
    by (auto simp: provision_def Let_def split: sum.splits option.splits)
  with inv show ?thesis by simp
next
  case (Inr x)
  obtain acc c where x: "x = (acc, c)" by (cases x)
  with p Inr have c: "new_credential sha tokens (used_hashes d) 0 = Some c"
    and acc: "ac_id acc = next_id d" "ac_credential_hash acc = sha c"
    and d': "d' = account_audit_record acc ACC_PROVISIONED (clk 2) (take_id (insert_account acc d))"
    by (auto simp: provision_def Let_def split: sum.splits option.splits)
  have "sha c \<notin> ac_credential_hash ` set (accounts d)"
    using new_credential_unused [OF c] by (simp add: used_hashes_def)
  with inv show ?thesis
    unfolding accounts_inv_def d' account_audit_record_def insert_account_def take_id_def
    by (auto simp: acc less_Suc_eq)
qed

section \<open>The account operations as steps\<close>

text \<open>One committed request of workspace \<open>w\<close> on the account tables.\<close>

inductive account_step :: "uuid \<Rightarrow> db \<Rightarrow> db \<Rightarrow> bool" for w where
  st_deactivate: "ws_id ws = w \<Longrightarrow> deactivate ws k clk d = (r, d') \<Longrightarrow> account_step w d d'"
| st_reactivate: "ws_id ws = w \<Longrightarrow> reactivate ws k clk d = (r, d') \<Longrightarrow> account_step w d d'"
| st_secret: "ws_id ws = w \<Longrightarrow> update_secret_reference ws k s clk d = (r, d') \<Longrightarrow> account_step w d d'"
| st_rotate: "ws_id ws = w \<Longrightarrow> rotate_credential sha tokens ws k clk d = Some (r', d') \<Longrightarrow>
    account_step w d d'"
| st_provision: "ws_id ws = w \<Longrightarrow> provision sha tokens ws p x s clk d = Some (r', d') \<Longrightarrow>
    account_step w d d'"
| st_cleanup: "ws_id ws = w \<Longrightarrow> cleanup_for_workspace ws n now b d = (r'', d') \<Longrightarrow> account_step w d d'"

inductive_cases account_stepE: "account_step w d d'"

text \<open>
  Every request that changes an account does it by one \<open>account_save\<close> of a row with the same
  identifier and workspace, whose credential hash is the old one or an unused one.
\<close>

definition saves_account :: "uuid \<Rightarrow> db \<Rightarrow> db \<Rightarrow> bool" where
  "saves_account w d d' \<longleftrightarrow> (\<exists>a r act clk.
     a \<in> set (accounts d) \<and> ac_workspace_id a = w \<and> ac_id r = ac_id a \<and> ac_workspace_id r = w \<and>
     (ac_credential_hash r = ac_credential_hash a \<or> ac_credential_hash r \<notin> set (used_hashes d)) \<and>
     snd (account_save r act clk d) = d')"

lemma saves_accountI:
  assumes "get_for_workspace ws k d = Inr a" "account_save r act clk d = (res, d')"
    and "ac_id r = ac_id a" "ac_workspace_id r = ac_workspace_id a"
    and "ac_credential_hash r = ac_credential_hash a \<or> ac_credential_hash r \<notin> set (used_hashes d)"
  shows "saves_account (ws_id ws) d d'"
  unfolding saves_account_def
  using assms get_for_workspace_InrD [OF assms(1)]
  by (intro exI [of _ a] exI [of _ r] exI [of _ act] exI [of _ clk]) simp

lemma account_step_cases:
  assumes "account_step w d d'"
  obtains (same) "d' = d" | (saved) "saves_account w d d'"
    | (provisioned) sha tokens ws p x s clk r where "ws_id ws = w"
        "provision sha tokens ws p x s clk d = Some (r, d')"
    | (cleaned) cutoff n es k where "0 < n" "cleanup_loop w cutoff n (account_audit d) 0 = (es, k)"
        "d' = d\<lparr>account_audit := es\<rparr>"
  using assms
proof cases
  case (st_deactivate ws k clk r)
  then have "saves_account (ws_id ws) d d' \<or> d' = d"
    by (auto simp: deactivate_def split: sum.splits intro: saves_accountI)
  with that(1,2) show ?thesis using \<open>ws_id ws = w\<close> by blast
next
  case (st_reactivate ws k clk r)
  then have "saves_account (ws_id ws) d d' \<or> d' = d"
    by (auto simp: reactivate_def split: sum.splits intro: saves_accountI)
  with that(1,2) show ?thesis using \<open>ws_id ws = w\<close> by blast
next
  case (st_secret ws k s clk r)
  then have "saves_account (ws_id ws) d d' \<or> d' = d"
    by (auto simp: update_secret_reference_def split: sum.splits intro: saves_accountI)
  with that(1,2) show ?thesis using \<open>ws_id ws = w\<close> by blast
next
  case (st_rotate ws sha tokens k clk r)
  show ?thesis
  proof (cases "get_for_workspace ws k d")
    case (Inl e)
    with st_rotate show ?thesis using that(1) by (simp add: rotate_credential_def)
  next
    case (Inr a)
    with st_rotate obtain c where c: "new_credential sha tokens (used_hashes d) 0 = Some c"
      and s: "\<exists>res. account_save (a\<lparr>ac_credential_hash := sha c\<rparr>) ACC_CREDENTIAL_ROTATED clk d = (res, d')"
      by (auto simp: rotate_credential_def split: option.splits prod.splits sum.splits)
    from s obtain res
      where s': "account_save (a\<lparr>ac_credential_hash := sha c\<rparr>) ACC_CREDENTIAL_ROTATED clk d = (res, d')" ..
    show ?thesis
      using that(2) saves_accountI [OF Inr s'] new_credential_unused [OF c] st_rotate(1) by simp
  qed
next
  case (st_provision ws sha tokens p x s clk r')
  then show ?thesis using that(3) by blast
next
  case (st_cleanup ws n now b r'')
  then show ?thesis using that(1) that(4) [of "nat b"]
    by (auto simp: cleanup_for_workspace_def Let_def split: if_splits prod.splits)
qed

lemma saves_account_inv: "saves_account w d d' \<Longrightarrow> accounts_inv d \<Longrightarrow> accounts_inv d'"
proof -
  assume s: "saves_account w d d'" and inv: "accounts_inv d"
  then obtain a r act clk where a: "a \<in> set (accounts d)" "ac_workspace_id a = w"
    and r: "ac_id r = ac_id a" "ac_workspace_id r = w"
    and h: "ac_credential_hash r = ac_credential_hash a \<or> ac_credential_hash r \<notin> set (used_hashes d)"
    and d': "snd (account_save r act clk d) = d'"
    unfolding saves_account_def by blast
  show ?thesis
  proof (rule account_save_accounts_inv [OF inv a(1) r(1)])
    show "ac_workspace_id r = ac_workspace_id a" using a r by simp
    show "account_save r act clk d = (fst (account_save r act clk d), d')" using d' by (metis prod.collapse)
    fix x assume x: "x \<in> set (accounts d)" "ac_id x \<noteq> ac_id r"
    have "ac_credential_hash x \<noteq> ac_credential_hash a"
      using a(1) r(1) inv x unfolding accounts_inv_def by (metis distinct_map inj_on_def)
    moreover have "ac_credential_hash x \<in> set (used_hashes d)" using x by (simp add: used_hashes_def)
    ultimately show "ac_credential_hash x \<noteq> ac_credential_hash r" using h by metis
  qed
qed

lemma cleanup_accounts_inv:
  assumes inv: "accounts_inv d" and l: "cleanup_loop w cutoff n (account_audit d) 0 = (es, k)" "0 < n"
  shows "accounts_inv (d\<lparr>account_audit := es\<rparr>)"
proof -
  have "es = filter (\<lambda>e. \<not> audit_expired w cutoff e) (account_audit d)"
    using inv l cleanup_loop_result [of "account_audit d" n w cutoff 0] by (simp add: accounts_inv_def)
  with inv show ?thesis
    by (auto simp: accounts_inv_def distinct_map_filter)
qed

lemma account_step_inv:
  assumes "account_step w d d'" and "accounts_inv d"
  shows "accounts_inv d'"
  using assms(1)
proof (cases rule: account_step_cases)
  case same
  with assms show ?thesis by simp
next
  case saved
  with assms show ?thesis by (simp add: saves_account_inv)
next
  case provisioned
  with assms show ?thesis by (blast intro: provision_accounts_inv)
next
  case (cleaned cutoff n es k)
  with assms show ?thesis by (simp add: cleanup_accounts_inv)
qed

text \<open>A request changes only the account tables, and there only rows of its own workspace.\<close>

lemma account_step_frame:
  assumes step: "account_step w d d'" and inv: "accounts_inv d"
  shows "\<exists>as es n. d' = d\<lparr>accounts := as, account_audit := es, next_id := n\<rparr> \<and> next_id d \<le> n \<and>
    (\<forall>P. \<not> P w \<longrightarrow>
       filter (\<lambda>a. P (ac_workspace_id a)) as = filter (\<lambda>a. P (ac_workspace_id a)) (accounts d) \<and>
       filter (\<lambda>e. P (aa_workspace_id e)) es = filter (\<lambda>e. P (aa_workspace_id e)) (account_audit d))"
  using step
proof (cases rule: account_step_cases)
  case same
  then show ?thesis by (intro exI [of _ "accounts d"] exI [of _ "account_audit d"] exI [of _ "next_id d"]) simp
next
  case saved
  then obtain a r act clk where a: "a \<in> set (accounts d)" "ac_workspace_id a = w"
    and r: "ac_id r = ac_id a" "ac_workspace_id r = w"
    and d': "snd (account_save r act clk d) = d'"
    unfolding saves_account_def by blast
  let ?r = "r\<lparr>ac_updated_at := utc (clk 0)\<rparr>"
  have rows: "filter (\<lambda>x. P (ac_workspace_id x)) (row_update ac_id ?r (accounts d))
      = filter (\<lambda>x. P (ac_workspace_id x)) (accounts d)" if P: "\<not> P w" for P
  proof (rule filter_row_update_other)
    show "\<not> P (ac_workspace_id ?r)" using r P by simp
    fix x assume "x \<in> set (accounts d)" "ac_id x = ac_id ?r"
    with a r inv have "x = a" by (simp add: accounts_inv_def distinct_map inj_on_def)
    with a P show "\<not> P (ac_workspace_id x)" by simp
  qed
  let ?e = "\<lparr>aa_id = next_id d, aa_workspace_id = w, aa_integration_account_id = ac_id a,
     aa_action = act, aa_created_at = utc (clk 1)\<rparr>"
  have "d' = d\<lparr>accounts := row_update ac_id ?r (accounts d), account_audit := account_audit d @ [?e],
      next_id := Suc (next_id d)\<rparr>"
    unfolding d' [symmetric]
    by (rule db.equality) (simp_all add: r account_save_def Let_def account_audit_record_def save_defs)
  then show ?thesis using rows
    by (intro exI [of _ "row_update ac_id ?r (accounts d)"] exI [of _ "account_audit d @ [?e]"]
        exI [of _ "Suc (next_id d)"]) simp
next
  case (provisioned sha tokens ws p x s clk r)
  show ?thesis
  proof (cases r)
    case (Inl e)
    with provisioned have "d' = d" by (auto simp: provision_def Let_def split: sum.splits option.splits)
    then show ?thesis by (intro exI [of _ "accounts d"] exI [of _ "account_audit d"] exI [of _ "next_id d"]) simp
  next
    case (Inr y)
    obtain acc c where y: "y = (acc, c)" by (cases y)
    with provisioned Inr have acc: "ac_workspace_id acc = w" "ac_id acc = next_id d"
      and d': "d' = account_audit_record acc ACC_PROVISIONED (clk 2) (take_id (insert_account acc d))"
      by (auto simp: provision_def Let_def split: sum.splits option.splits)
    let ?e = "\<lparr>aa_id = Suc (next_id d), aa_workspace_id = w, aa_integration_account_id = next_id d,
       aa_action = ACC_PROVISIONED, aa_created_at = utc (clk 2)\<rparr>"
    have "d' = d\<lparr>accounts := accounts d @ [acc], account_audit := account_audit d @ [?e],
        next_id := Suc (Suc (next_id d))\<rparr>"
      unfolding d' by (rule db.equality) (simp_all add: acc account_audit_record_def save_defs)
    then show ?thesis
      by (intro exI [of _ "accounts d @ [acc]"] exI [of _ "account_audit d @ [?e]"]
          exI [of _ "Suc (Suc (next_id d))"]) (simp add: acc)
  qed
next
  case (cleaned cutoff n es k)
  then have "es = filter (\<lambda>e. \<not> audit_expired w cutoff e) (account_audit d)"
    using inv cleanup_loop_result [of "account_audit d" n w cutoff 0] by (simp add: accounts_inv_def)
  with cleaned show ?thesis
    by (intro exI [of _ "accounts d"] exI [of _ es] exI [of _ "next_id d"])
      (auto simp: audit_expired_def intro!: filter_cong)
qed

text \<open>What one workspace sees of the account tables.\<close>

definition accounts_of :: "uuid \<Rightarrow> db \<Rightarrow> integration_account list \<times> account_audit_event list" where
  "accounts_of w d = (filter (\<lambda>a. ac_workspace_id a = w) (accounts d),
                      filter (\<lambda>e. aa_workspace_id e = w) (account_audit d))"

lemma account_step_isolated:
  assumes "account_step w d d'" and "accounts_inv d" and "v \<noteq> w"
  shows "accounts_of v d' = accounts_of v d"
  using account_step_frame [OF assms(1,2)] assms(3)
  by (auto simp: accounts_of_def dest!: spec [of _ "\<lambda>u. u = v"])

interpretation acst: invariant_system "account_step w" accounts_inv for w
  by unfold_locales (rule account_step_inv)

interpretation acany: invariant_system "\<lambda>d d'. \<exists>w. account_step w d d'" accounts_inv
  by unfold_locales (blast intro: account_step_inv)

section \<open>Properties\<close>

text \<open>C14: The retention cleanup, whatever its batch size, ends and removes exactly the audit
  events of the workspace older than the cutoff: the batched loop equals one pass of a filter,
  and the count it reports is the number of removed events.\<close>

theorem cleanup_removes_exactly_expired:
  assumes "accounts_inv d" and "1 \<le> b"
  shows "cleanup_for_workspace ws n now b d =
    (Inr (length (filter (audit_expired (ws_id ws) (retention_cutoff n now)) (account_audit d)),
          retention_cutoff n now),
     d\<lparr>account_audit := filter (\<lambda>e. \<not> audit_expired (ws_id ws) (retention_cutoff n now) e)
                          (account_audit d)\<rparr>)"
  using assms by (simp add: cleanup_for_workspace_def cleanup_loop_result accounts_inv_def Let_def)

theorem cleanup_removes_exactly_expired_witness:
  "cleanup_for_workspace sample_ws 30 (utc (days 60)) 1 sample_db =
     (Inr (1, utc (days 30)), sample_db\<lparr>account_audit := [sample_audit 9 (days 40)]\<rparr>)"
proof -
  have "accounts_inv sample_db" by (simp add: accounts_inv_def sample_defs)
  from cleanup_removes_exactly_expired [OF this, of 1 sample_ws 30 "utc (days 60)"]
  show ?thesis
    by (simp add: audit_expired_def retention_cutoff_def sample_defs days_def utc_def)
qed

text \<open>C15: Rotating the credential of an existing account ends, as soon as the generated hashes
  differ, with a credential whose hash no account of any workspace has; the account keeps its
  identity, the hash that is stored is the hash of the returned credential, one rotation event
  is appended to the audit history, and every other account is unchanged.\<close>

theorem rotation_gives_fresh_credential:
  assumes inv: "accounts_inv d" and acc: "get_for_workspace ws k d = Inr acc"
    and gen: "inj_on (\<lambda>i. sha (tokens i)) {..length (accounts d)}"
  shows "\<exists>acc' c d'. rotate_credential sha tokens ws k clk d = Some (Inr (acc', c), d') \<and>
    acc' = acc\<lparr>ac_credential_hash := sha c, ac_updated_at := utc (clk 0)\<rparr> \<and>
    sha c \<notin> set (used_hashes d) \<and> get_account k d' = Some acc' \<and>
    (\<forall>k'. k' \<noteq> k \<longrightarrow> get_account k' d' = get_account k' d) \<and>
    map aa_action (account_audit d') = map aa_action (account_audit d) @ [ACC_CREDENTIAL_ROTATED]"
proof -
  from gen obtain c where c: "new_credential sha tokens (used_hashes d) 0 = Some c"
    using new_credential_total [of sha tokens "used_hashes d"] by (auto simp: used_hashes_def)
  let ?acc = "acc\<lparr>ac_credential_hash := sha c, ac_updated_at := utc (clk 0)\<rparr>"
  let ?d = "account_audit_record ?acc ACC_CREDENTIAL_ROTATED (clk 1) (save_account ?acc d)"
  have k: "acc \<in> set (accounts d)" "ac_id acc = k" using get_for_workspace_InrD [OF acc] by auto
  have old: "get_account k d \<noteq> None"
    using k by (auto simp: get_account_def row_find_None_iff image_iff)
  have "rotate_credential sha tokens ws k clk d = Some (Inr (?acc, c), ?d)"
    by (simp add: rotate_credential_def acc c account_save_def Let_def)
  moreover have "get_account k ?d = Some ?acc"
    using old k acs.get_put_same [of ?acc d] by simp
  moreover have "\<forall>k'. k' \<noteq> k \<longrightarrow> get_account k' ?d = get_account k' d"
    using k acs.get_put_other [of _ ?acc d] by simp
  moreover have "map aa_action (account_audit ?d) = map aa_action (account_audit d) @ [ACC_CREDENTIAL_ROTATED]"
    by (simp add: account_audit_record_def save_defs)
  ultimately show ?thesis using new_credential_unused [OF c] by blast
qed

theorem rotation_gives_fresh_credential_witness:
  "\<exists>acc' c d'. rotate_credential id (\<lambda>i. replicate i CHR ''h'') sample_ws 4 (\<lambda>_. 0) sample_db =
     Some (Inr (acc', c), d') \<and> c \<noteq> ''h''"
proof -
  have "accounts_inv sample_db" by (simp add: accounts_inv_def sample_defs)
  moreover have "get_for_workspace sample_ws 4 sample_db = Inr (sample_account ''h'')"
    by (simp add: get_for_workspace_def sample_defs)
  moreover have "inj_on (\<lambda>i. id (replicate i CHR ''h'')) {..length (accounts sample_db)}"
    by (auto simp: inj_on_def)
  ultimately obtain acc' c d' where
    "rotate_credential id (\<lambda>i. replicate i CHR ''h'') sample_ws 4 (\<lambda>_. 0) sample_db = Some (Inr (acc', c), d')"
    and c: "id c \<notin> set (used_hashes sample_db)"
    using rotation_gives_fresh_credential [of sample_db sample_ws 4 "sample_account ''h''" id
        "\<lambda>i. replicate i CHR ''h''" "\<lambda>_. 0"] by blast
  moreover from c have "c \<noteq> ''h''" by (simp add: used_hashes_def sample_defs)
  ultimately show ?thesis by blast
qed

text \<open>However many account requests of however many workspaces run one after the other, the
  credential hashes stay pairwise different (a webhook credential names one account), and every
  audit event names an existing account of its own workspace.\<close>

theorem account_requests_keep_invariant:
  assumes "(\<lambda>d d'. \<exists>w. account_step w d d')\<^sup>*\<^sup>* d d'" and "accounts_inv d"
  shows "accounts_inv d'"
  using assms by (rule acany.steps_inv)

theorem account_requests_keep_invariant_witness:
  "accounts_inv (snd (deactivate sample_ws 4 (\<lambda>_. 0) sample_db))"
proof -
  have "account_step 1 sample_db (snd (deactivate sample_ws 4 (\<lambda>_. 0) sample_db))"
    by (rule st_deactivate [of sample_ws _ 4 "\<lambda>_. 0"]) (simp_all add: sample_ws_def prod_eq_iff)
  moreover have "accounts_inv sample_db" by (simp add: accounts_inv_def sample_defs)
  ultimately show ?thesis by (blast intro: account_requests_keep_invariant)
qed

text \<open>No sequence of account requests of one workspace changes what another workspace sees:
  neither its accounts nor its audit history.\<close>

theorem account_requests_isolated:
  assumes "(account_step w)\<^sup>*\<^sup>* d d'" and "accounts_inv d" and "v \<noteq> w"
  shows "accounts_of v d' = accounts_of v d"
proof -
  have "accounts_of v d' = accounts_of v d"
    by (rule acst.steps_keep [where P = "\<lambda>s. accounts_of v s = accounts_of v d", OF _ assms(1,2)])
      (use assms(3) in \<open>simp_all add: account_step_isolated\<close>)
  then show ?thesis .
qed

theorem account_requests_isolated_witness:
  "accounts_of 7 (snd (deactivate sample_ws 4 (\<lambda>_. 0) sample_db)) = accounts_of 7 sample_db"
proof -
  have "account_step 1 sample_db (snd (deactivate sample_ws 4 (\<lambda>_. 0) sample_db))"
    by (rule st_deactivate [of sample_ws _ 4 "\<lambda>_. 0"]) (simp_all add: sample_ws_def prod_eq_iff)
  moreover have "accounts_inv sample_db" by (simp add: accounts_inv_def sample_defs)
  ultimately show ?thesis by (intro account_requests_isolated [of 1]) auto
qed

text \<open>A secret reference resolves only to an environment variable whose name is the reserved
  prefix followed by one to 201 capital letters, digits or underscores; every other reference,
  and an absent one, resolves to nothing.\<close>

theorem secrets_resolve_only_in_namespace:
  "env_resolve env r = Some v \<longleftrightarrow>
     (\<exists>c s. r = Some (secret_prefix @ c # s) \<and> is_upper_AZ c \<and> length s \<le> 200 \<and>
        (\<forall>x \<in> set s. is_upper_AZ x \<or> is_digit09 x \<or> x = CHR ''_'') \<and>
        map_of env (secret_prefix @ c # s) = Some v)"
proof -
  have match: "secret_reference_matches t \<longleftrightarrow>
      (\<exists>c s. t = secret_prefix @ c # s \<and> is_upper_AZ c \<and> length s \<le> 200 \<and>
        (\<forall>x \<in> set s. is_upper_AZ x \<or> is_digit09 x \<or> x = CHR ''_''))" for t
  proof -
    have "take (length secret_prefix) t = secret_prefix \<longleftrightarrow> (\<exists>u. t = secret_prefix @ u)"
      by (metis append_eq_conv_conj)
    then show ?thesis
      unfolding secret_reference_matches_def
      by (auto simp: list_all_iff one_of_def elim!: head_tail_match.elims(2))
  qed
  then show ?thesis
    by (cases r) (auto simp: env_resolve_def secret_is_allowed_def secret_validate_def)
qed

theorem secrets_resolve_only_in_namespace_witness:
  "env_resolve [(secret_prefix @ ''A'', ''v'')] (Some (secret_prefix @ ''A'')) = Some ''v''"
  by (subst secrets_resolve_only_in_namespace) (simp add: is_upper_AZ_def)

end
