(* ===== verification/Retry.thy ===== *)
theory Retry
  imports Samples
begin

text \<open>
  app/services/outbound_retry_policy.py and outbound_retry_delay_policy.py: whether a failed
  action may be retried, and from when. Configuration values arrive as text; the constructors
  normalise and validate them.
\<close>

section \<open>Retry eligibility\<close>

record retry_policy =
  rp_maximum_attempts :: int
  rp_non_retryable_failure_codes :: "string list"
  rp_non_retryable_failure_classes :: "failure_class list"

record eligibility =
  el_allowed :: bool
  el_denial_reason :: "string option"

definition allowed_eligibility :: eligibility where
  "allowed_eligibility = \<lparr>el_allowed = True, el_denial_reason = None\<rparr>"

definition denied :: "string \<Rightarrow> eligibility" where
  "denied reason = \<lparr>el_allowed = False, el_denial_reason = Some reason\<rparr>"

definition failure_code_pattern :: "string \<Rightarrow> bool" where
  "failure_code_pattern = head_tail_match is_lower_az (\<lambda>c. is_lower_az c \<or> is_digit09 c \<or> one_of ''_'' c) 99"

definition normalize_failure_code :: "string \<Rightarrow> error + string" where
  "normalize_failure_code value =
     (let normalized = py_lower (py_strip value) in
      if \<not> failure_code_pattern normalized
      then Inl (OutboundE OutboundDeliveryRetryPolicyConfigurationError) else Inr normalized)"

definition normalize_failure_classification :: "string \<Rightarrow> error + failure_class" where
  "normalize_failure_classification value =
     (case failure_class_of_value (py_lower (py_strip value)) of
        None \<Rightarrow> Inl (OutboundE OutboundDeliveryRetryPolicyConfigurationError)
      | Some c \<Rightarrow> Inr c)"

definition make_retry_policy :: "int \<Rightarrow> string list \<Rightarrow> string list \<Rightarrow> error + retry_policy" where
  "make_retry_policy maximum_attempts codes classes =
     (if \<not> (1 \<le> maximum_attempts \<and> maximum_attempts \<le> 100)
      then Inl (OutboundE OutboundDeliveryRetryPolicyConfigurationError)
      else bindE (map_res normalize_failure_code codes) (\<lambda>cs.
           bindE (map_res normalize_failure_classification classes) (\<lambda>ks.
           Inr \<lparr>rp_maximum_attempts = maximum_attempts, rp_non_retryable_failure_codes = cs,
                rp_non_retryable_failure_classes = ks\<rparr>)))"

definition retry_policy_from_settings :: "int \<Rightarrow> string \<Rightarrow> string \<Rightarrow> error + retry_policy" where
  "retry_policy_from_settings max_attempts codes classes =
     make_retry_policy max_attempts
       (if codes \<noteq> [] then py_split CHR '','' codes else [])
       (if classes \<noteq> [] then py_split CHR '','' classes else [])"

definition retry_evaluate ::
  "retry_policy \<Rightarrow> int \<Rightarrow> string option \<Rightarrow> failure_class option \<Rightarrow> error + eligibility" where
  "retry_evaluate pol attempt_count failure_code failure_classification =
     (if attempt_count \<ge> rp_maximum_attempts pol then Inr (denied ''maximum_attempts_reached'')
      else bindE (case failure_code of
                    None \<Rightarrow> Inr False
                  | Some c \<Rightarrow> bindE (normalize_failure_code c)
                                (\<lambda>n. Inr (n \<in> set (rp_non_retryable_failure_codes pol))))
        (\<lambda>blocked. Inr
          (if blocked then denied ''failure_code_not_retryable''
           else if (case failure_classification of None \<Rightarrow> False
                    | Some k \<Rightarrow> k \<in> set (rp_non_retryable_failure_classes pol))
           then denied ''failure_classification_not_retryable''
           else allowed_eligibility)))"

definition retry_evaluate_action ::
  "retry_policy \<Rightarrow> action_status \<Rightarrow> int \<Rightarrow> string option \<Rightarrow> failure_class option
   \<Rightarrow> error + eligibility" where
  "retry_evaluate_action pol st attempt_count failure_code failure_classification =
     (if st = DELIVERED then Inr (denied ''action_delivered'')
      else if st \<noteq> FAILED then Inr (denied ''action_not_failed'')
      else retry_evaluate pol attempt_count failure_code failure_classification)"

section \<open>Retry delay\<close>

datatype delay_strategy = FIXED | EXPONENTIAL

record delay_policy =
  dp_strategy :: delay_strategy
  dp_delay_seconds :: int
  dp_maximum_delay_seconds :: int

definition make_delay_policy :: "delay_strategy \<Rightarrow> int \<Rightarrow> int \<Rightarrow> error + delay_policy" where
  "make_delay_policy strategy delay maximum =
     (if delay < 0 \<or> maximum < 0
      then Inl (OutboundE OutboundDeliveryRetryDelayPolicyConfigurationError)
      else if maximum < delay
      then Inl (OutboundE OutboundDeliveryRetryDelayPolicyConfigurationError)
      else Inr \<lparr>dp_strategy = strategy, dp_delay_seconds = delay,
                dp_maximum_delay_seconds = maximum\<rparr>)"

definition delay_seconds_for :: "delay_policy \<Rightarrow> int \<Rightarrow> int" where
  "delay_seconds_for pol attempt_count =
     (let multiplier = (if dp_strategy pol = FIXED then 1 else 2 ^ nat (max (attempt_count - 1) 0))
      in min (dp_delay_seconds pol * multiplier) (dp_maximum_delay_seconds pol))"

definition next_retry_at :: "delay_policy \<Rightarrow> datetime option \<Rightarrow> int \<Rightarrow> datetime option" where
  "next_retry_at pol failed_at attempt_count =
     (case failed_at of None \<Rightarrow> None
      | Some t \<Rightarrow> Some (dt_plus t (seconds (delay_seconds_for pol attempt_count))))"

section \<open>Lemmas\<close>

lemma eligibility_simps [simp]:
  "el_allowed allowed_eligibility" "\<not> el_allowed (denied r)"
  "el_denial_reason allowed_eligibility = None" "el_denial_reason (denied r) = Some r"
  "denied r = denied s \<longleftrightarrow> r = s" "denied r \<noteq> allowed_eligibility" "allowed_eligibility \<noteq> denied r"
  by (simp_all add: allowed_eligibility_def denied_def)

lemma failure_code_chars:
  assumes "failure_code_pattern s"
  shows "list_all (\<lambda>c. py_lower_char c = c) s" and "list_all (\<lambda>c. \<not> py_isspace c) s"
proof -
  have u: "py_lower_char CHR ''_'' = CHR ''_''" "\<not> py_isspace CHR ''_''"
    by (simp_all add: py_lower_char_def py_isspace_def Let_def)
  show "list_all (\<lambda>c. py_lower_char c = c) s"
    by (rule head_tail_match_all [OF assms [unfolded failure_code_pattern_def]]) (auto simp: one_of_def u)
  show "list_all (\<lambda>c. \<not> py_isspace c) s"
    by (rule head_tail_match_all [OF assms [unfolded failure_code_pattern_def]])
      (use u in \<open>auto simp: one_of_def\<close>)
qed

lemma normalize_failure_code_fixed:
  "failure_code_pattern s \<Longrightarrow> normalize_failure_code s = Inr s"
  using failure_code_chars [of s]
  by (simp add: normalize_failure_code_def py_strip_no_space py_lower_fixed)

lemma normalize_failure_code_InrD:
  "normalize_failure_code v = Inr n \<Longrightarrow> failure_code_pattern n \<and> n = py_lower (py_strip v)"
  by (auto simp: normalize_failure_code_def Let_def split: if_splits)

lemma make_delay_policy_InrD:
  "make_delay_policy st a b = Inr pol \<Longrightarrow>
   dp_strategy pol = st \<and> dp_delay_seconds pol = a \<and> dp_maximum_delay_seconds pol = b \<and> 0 \<le> a \<and> a \<le> b"
  by (auto simp: make_delay_policy_def split: if_splits)

lemma delay_seconds_mono:
  assumes "0 \<le> dp_delay_seconds pol" and "m \<le> n"
  shows "delay_seconds_for pol m \<le> delay_seconds_for pol n"
proof -
  have "(2::int) ^ nat (max (m - 1) 0) \<le> 2 ^ nat (max (n - 1) 0)"
    using assms(2) by (intro power_increasing) auto
  then show ?thesis
    using assms(1) by (auto simp: delay_seconds_for_def Let_def min_le_iff_disj intro: mult_left_mono)
qed

section \<open>Properties\<close>

text \<open>The retry delay: for every accepted configuration the earliest retry time lies between
  the failure and the failure plus the configured maximum, never moves earlier when more attempts
  were made, and after the first attempt is the failure plus the base delay; without a failure
  time there is none.\<close>

theorem retry_delay_bounds:
  assumes pol: "make_delay_policy st base maxi = Inr pol" and mn: "m \<le> n"
  shows "next_retry_at pol None n = None \<and>
    (\<exists>a b. next_retry_at pol (Some t) m = Some a \<and> next_retry_at pol (Some t) n = Some b \<and>
       dt_instant t \<le> dt_instant a \<and> dt_instant a \<le> dt_instant b \<and>
       dt_instant b \<le> dt_instant t + seconds maxi \<and>
       (n \<le> 1 \<longrightarrow> dt_instant b = dt_instant t + seconds base))"
proof -
  note p = make_delay_policy_InrD [OF pol]
  have nonneg: "0 \<le> delay_seconds_for pol m"
    using p by (auto simp: delay_seconds_for_def Let_def)
  have mono: "delay_seconds_for pol m \<le> delay_seconds_for pol n"
    using p mn by (intro delay_seconds_mono) auto
  have upper: "delay_seconds_for pol n \<le> maxi"
    using p by (simp add: delay_seconds_for_def Let_def)
  have first: "n \<le> 1 \<Longrightarrow> delay_seconds_for pol n = base"
    using p by (auto simp: delay_seconds_for_def Let_def max_def)
  show ?thesis
    using nonneg mono upper first by (auto simp: next_retry_at_def seconds_def)
qed

theorem retry_delay_bounds_witness:
  "\<exists>pol. make_delay_policy EXPONENTIAL 30 3600 = Inr pol \<and>
     (\<exists>b. next_retry_at pol (Some (utc 0)) 2 = Some b \<and> dt_instant b \<le> seconds 3600)"
proof -
  let ?pol = "\<lparr>dp_strategy = EXPONENTIAL, dp_delay_seconds = 30, dp_maximum_delay_seconds = 3600\<rparr>"
  have p: "make_delay_policy EXPONENTIAL 30 3600 = Inr ?pol" by (simp add: make_delay_policy_def)
  from retry_delay_bounds [OF p, of 2 2 "utc 0"] p show ?thesis by auto
qed

text \<open>Retry eligibility of a failed action, on every branch: the attempt limit is checked
  first; below it a stored failure code outside the pattern \<open>[a-z][a-z0-9_]*\<close> is a
  configuration error, whatever the policy blocks; otherwise the retry is allowed exactly when
  neither the normalised code nor the classification is blocked.\<close>

theorem retry_evaluate_spec:
  "retry_evaluate pol n code cls =
    (if n \<ge> rp_maximum_attempts pol then Inr (denied ''maximum_attempts_reached'')
     else if \<exists>c. code = Some c \<and> \<not> failure_code_pattern (py_lower (py_strip c))
     then Inl (OutboundE OutboundDeliveryRetryPolicyConfigurationError)
     else if \<exists>c. code = Some c \<and> py_lower (py_strip c) \<in> set (rp_non_retryable_failure_codes pol)
     then Inr (denied ''failure_code_not_retryable'')
     else if \<exists>k. cls = Some k \<and> k \<in> set (rp_non_retryable_failure_classes pol)
     then Inr (denied ''failure_classification_not_retryable'')
     else Inr allowed_eligibility)"
  by (cases code; cases cls)
    (simp_all add: retry_evaluate_def normalize_failure_code_def Let_def)

text \<open>The codes a constructed policy blocks are in normal form, and normalising a failure code
  twice is normalising it once, so a stored code is blocked exactly when some configured code has
  the same normal form.\<close>

theorem configured_codes_normal:
  assumes "make_retry_policy m codes classes = Inr pol"
  shows "1 \<le> rp_maximum_attempts pol \<and> rp_maximum_attempts pol \<le> 100 \<and>
    (\<forall>c \<in> set (rp_non_retryable_failure_codes pol). normalize_failure_code c = Inr c) \<and>
    (\<forall>n. n \<in> set (rp_non_retryable_failure_codes pol) \<longleftrightarrow>
         (\<exists>c \<in> set codes. normalize_failure_code c = Inr n))"
proof -
  from assms obtain cs ks where cs: "map_res normalize_failure_code codes = Inr cs"
    and pol: "pol = \<lparr>rp_maximum_attempts = m, rp_non_retryable_failure_codes = cs,
                rp_non_retryable_failure_classes = ks\<rparr>" and m: "1 \<le> m" "m \<le> 100"
    by (auto simp: make_retry_policy_def bindE_Inr_iff split: if_splits)
  have rel: "list_all2 (\<lambda>c n. normalize_failure_code c = Inr n) codes cs"
    using cs by (simp add: map_res_Inr_iff)
  have mem: "n \<in> set cs \<longleftrightarrow> (\<exists>c \<in> set codes. normalize_failure_code c = Inr n)" for n
    using rel by (induction rule: list_all2_induct) auto
  have "normalize_failure_code c = Inr c" if "c \<in> set cs" for c
    using that mem normalize_failure_code_InrD normalize_failure_code_fixed by blast
  with pol m mem show ?thesis by simp
qed

theorem configured_codes_normal_witness:
  "\<exists>pol. make_retry_policy 3 ['' Timeout''] [] = Inr pol \<and>
     normalize_failure_code ''timeout'' = Inr ''timeout''"
proof -
  have n: "normalize_failure_code '' Timeout'' = Inr ''timeout''" by code_simp
  then have m: "make_retry_policy 3 ['' Timeout''] [] =
      Inr \<lparr>rp_maximum_attempts = 3, rp_non_retryable_failure_codes = [''timeout''],
           rp_non_retryable_failure_classes = []\<rparr>"
    by (simp add: make_retry_policy_def)
  from configured_codes_normal [OF m] m show ?thesis by auto
qed

end
