(* ===== verification/Adapters.thy ===== *)
theory Adapters
  imports Accounts Retry
begin

text \<open>
  app/services/delivery_adapters.py: the contract of delivery adapters, the registry, the generic
  webhook adapter with its signature and its mapping of HTTP responses, and the development
  adapter.

  Parameters: \<open>uuid_str\<close> prints an identifier, \<open>hmac\<close> is the hexadecimal HMAC-SHA256 of a key
  and a message, \<open>transport\<close> performs the HTTP request, \<open>now\<close> is the signing timestamp, \<open>env\<close> the
  process environment. An adapter that raises returns \<open>None\<close>.
\<close>

section \<open>Results and capabilities\<close>

record capabilities =
  cap_supported_action_types :: "action_type list"
  cap_max_content_length :: "int option"

definition make_capabilities :: "action_type list \<Rightarrow> int option \<Rightarrow> error + capabilities" where
  "make_capabilities types maxi =
     (if types = [] then Inl ValueError
      else if (case maxi of None \<Rightarrow> False | Some m \<Rightarrow> m < 1) then Inl ValueError
      else Inr \<lparr>cap_supported_action_types = types, cap_max_content_length = maxi\<rparr>)"

definition DEFAULT_CAPABILITIES :: capabilities where
  "DEFAULT_CAPABILITIES = \<lparr>cap_supported_action_types = [SEND_MESSAGE], cap_max_content_length = None\<rparr>"

record adapter_result =
  ar_delivered :: bool
  ar_provider_delivery_id :: "string option"
  ar_failure_code :: "string option"
  ar_failure_message :: "string option"
  ar_failure_classification :: "failure_class option"

definition GENERIC_FAILURE_CLASSIFICATIONS :: "(string \<times> failure_class) list" where
  "GENERIC_FAILURE_CLASSIFICATIONS =
    [(''adapter_execution_failed'', FC_TEMPORARY),
     (''adapter_not_configured'', FC_PERMANENT),
     (''adapter_capabilities_unavailable'', FC_PERMANENT),
     (''unsupported_action_type'', FC_VALIDATION),
     (''content_too_long'', FC_VALIDATION),
     (''authentication_failed'', FC_AUTHENTICATION),
     (''rate_limited'', FC_RATE_LIMIT),
     (''validation_failed'', FC_VALIDATION),
     (''temporary_failure'', FC_TEMPORARY),
     (''permanent_failure'', FC_PERMANENT)]"

definition classify_failure_code :: "string option \<Rightarrow> failure_class" where
  "classify_failure_code code =
     (case code of None \<Rightarrow> FC_UNKNOWN
      | Some c \<Rightarrow>
          if c = [] then FC_UNKNOWN
          else (case map_of GENERIC_FAILURE_CLASSIFICATIONS (py_lower (py_strip c)) of
                  None \<Rightarrow> FC_UNKNOWN | Some k \<Rightarrow> k))"

definition result_success :: "string option \<Rightarrow> adapter_result" where
  "result_success provider_delivery_id =
     \<lparr>ar_delivered = True, ar_provider_delivery_id = provider_delivery_id, ar_failure_code = None,
      ar_failure_message = None, ar_failure_classification = None\<rparr>"

definition result_failure :: "string \<Rightarrow> string \<Rightarrow> failure_class option \<Rightarrow> adapter_result" where
  "result_failure code message classification =
     \<lparr>ar_delivered = False, ar_provider_delivery_id = None, ar_failure_code = Some code,
      ar_failure_message = Some message,
      ar_failure_classification = Some (case classification of
         None \<Rightarrow> classify_failure_code (Some code) | Some k \<Rightarrow> k)\<rparr>"

section \<open>Adapters and their registry\<close>

datatype declared_capabilities = CapsAbsent | CapsInvalid | CapsDeclared capabilities

record delivery_adapter =
  ad_capabilities :: declared_capabilities
  ad_deliver :: "outbound_action \<Rightarrow> integration_account \<Rightarrow> adapter_result option"

type_synonym registry = "(string \<times> delivery_adapter) list"

definition registry_get :: "registry \<Rightarrow> string \<Rightarrow> delivery_adapter option" where
  "registry_get reg provider = map_of reg provider"

definition capabilities_for :: "registry \<Rightarrow> string \<Rightarrow> capabilities option" where
  "capabilities_for reg provider =
     (case registry_get reg provider of
        None \<Rightarrow> None
      | Some adapter \<Rightarrow>
          (case ad_capabilities adapter of
             CapsAbsent \<Rightarrow> Some DEFAULT_CAPABILITIES
           | CapsInvalid \<Rightarrow> None
           | CapsDeclared c \<Rightarrow> Some c))"

definition validate_action :: "registry \<Rightarrow> string \<Rightarrow> outbound_action \<Rightarrow> adapter_result option" where
  "validate_action reg provider action =
     (case capabilities_for reg provider of
        None \<Rightarrow> Some (result_failure ''adapter_capabilities_unavailable''
                  ''Delivery adapter capabilities are unavailable'' None)
      | Some c \<Rightarrow>
          if oa_action_type action \<notin> set (cap_supported_action_types c)
          then Some (result_failure ''unsupported_action_type''
                 ''Outbound action type is not supported by this delivery adapter'' None)
          else if (case cap_max_content_length c of None \<Rightarrow> False
                   | Some m \<Rightarrow> int (length (oa_content action)) > m)
          then Some (result_failure ''content_too_long''
                 ''Outbound action content exceeds the delivery adapter limit'' None)
          else None)"

section \<open>The webhook body\<close>

definition hex_digit :: "nat \<Rightarrow> char" where
  "hex_digit n = char_of (if n < 10 then 48 + n else 87 + n)"

text \<open>\<open>json.dumps\<close> of a string, with \<open>ensure_ascii\<close>.\<close>

definition json_escape_char :: "char \<Rightarrow> string" where
  "json_escape_char c = (let n = (of_char c :: nat) in
     if n = 34 then [CHR 0x5C, CHR 0x22]
     else if n = 92 then [CHR 0x5C, CHR 0x5C]
     else if n = 10 then [CHR 0x5C, CHR ''n'']
     else if n = 13 then [CHR 0x5C, CHR ''r'']
     else if n = 9 then [CHR 0x5C, CHR ''t'']
     else if n = 8 then [CHR 0x5C, CHR ''b'']
     else if n = 12 then [CHR 0x5C, CHR ''f'']
     else if 32 \<le> n \<and> n \<le> 126 then [c]
     else [CHR 0x5C, CHR ''u'', CHR ''0'', CHR ''0'', hex_digit (n div 16), hex_digit (n mod 16)])"

definition json_string :: "string \<Rightarrow> string" where
  "json_string s = CHR 0x22 # concat (map json_escape_char s) @ [CHR 0x22]"

definition serialize_action :: "(uuid \<Rightarrow> string) \<Rightarrow> outbound_action \<Rightarrow> string" where
  "serialize_action uuid_str action =
     ''{'' @ json_string ''action_id'' @ '':'' @ json_string (uuid_str (oa_id action)) @ '','' @
     json_string ''action_type'' @ '':'' @ json_string (action_type_value (oa_action_type action)) @ '','' @
     json_string ''external_target_id'' @ '':'' @ json_string (oa_external_target_id action) @ '','' @
     json_string ''content'' @ '':'' @ json_string (oa_content action) @ ''}''"

section \<open>The generic webhook adapter\<close>

record webhook_response =
  wr_status_code :: int
  wr_headers :: "(string \<times> string) list"

datatype transport_outcome = Responded webhook_response | NetworkError | TransportCrashed

record webhook_config =
  wc_endpoint :: string
  wc_signing_enabled :: bool

definition make_webhook_config :: "string \<Rightarrow> bool \<Rightarrow> webhook_config" where
  "make_webhook_config endpoint signing =
     \<lparr>wc_endpoint = py_strip endpoint, wc_signing_enabled = signing\<rparr>"

fun nat_digits :: "nat \<Rightarrow> string" where
  "nat_digits n = (if n < 10 then [char_of (48 + n)] else nat_digits (n div 10) @ [char_of (48 + n mod 10)])"

declare nat_digits.simps [simp del]

definition py_int_str :: "int \<Rightarrow> string" where
  "py_int_str i = (if i < 0 then CHR ''-'' # nat_digits (nat (- i)) else nat_digits (nat i))"

definition webhook_headers ::
  "(string \<Rightarrow> string \<Rightarrow> string) \<Rightarrow> (string \<times> string) list \<Rightarrow> int \<Rightarrow> webhook_config \<Rightarrow> string
   \<Rightarrow> integration_account \<Rightarrow> (string \<times> string) list \<times> adapter_result option" where
  "webhook_headers hmac env now cfg body account =
     (let headers = [(''Content-Type'', ''application/json'')] in
      if \<not> wc_signing_enabled cfg then (headers @ [(''X-Webhook-Signing'', ''none'')], None)
      else
        let failure = (headers, Some (result_failure ''webhook_signing_secret_unavailable''
                         ''Generic webhook signing secret is unavailable'' (Some FC_AUTHENTICATION))) in
        case env_resolve env (ac_secret_reference account) of
          None \<Rightarrow> failure
        | Some secret \<Rightarrow>
            if secret = [] then failure
            else let timestamp = py_int_str now;
                     signature = hmac secret (timestamp @ ''.'' @ body)
                 in (headers @ [(''X-Webhook-Signing'', ''hmac-sha256''),
                                (''X-Webhook-Timestamp'', timestamp),
                                (''X-Webhook-Signature'', signature)], None))"

definition normalize_webhook_response :: "webhook_response \<Rightarrow> adapter_result" where
  "normalize_webhook_response response =
     (let status_code = wr_status_code response in
      if 200 \<le> status_code \<and> status_code < 300
      then result_success (map_of (wr_headers response) ''x-delivery-id'')
      else if status_code = 429
      then result_failure ''webhook_rate_limited''
             ''Generic webhook delivery was rate limited'' (Some FC_RATE_LIMIT)
      else if status_code \<in> {401, 403}
      then result_failure ''webhook_authentication_failed''
             ''Generic webhook authentication was rejected'' (Some FC_AUTHENTICATION)
      else if 400 \<le> status_code \<and> status_code < 500
      then result_failure ''webhook_validation_failed''
             ''Generic webhook request was rejected'' (Some FC_VALIDATION)
      else if 500 \<le> status_code \<and> status_code < 600
      then result_failure ''webhook_server_error'' ''Generic webhook service failed'' (Some FC_TEMPORARY)
      else result_failure ''webhook_response_unknown''
             ''Generic webhook delivery returned an unknown response'' (Some FC_UNKNOWN))"

definition webhook_deliver ::
  "(uuid \<Rightarrow> string) \<Rightarrow> (string \<Rightarrow> string \<Rightarrow> string) \<Rightarrow> (string \<times> string) list \<Rightarrow> int
   \<Rightarrow> (string \<Rightarrow> string \<Rightarrow> (string \<times> string) list \<Rightarrow> transport_outcome)
   \<Rightarrow> webhook_config \<Rightarrow> outbound_action \<Rightarrow> integration_account \<Rightarrow> adapter_result option" where
  "webhook_deliver uuid_str hmac env now transport cfg action account =
     (if wc_endpoint cfg = [] then
        Some (result_failure ''webhook_configuration_missing''
                ''Generic webhook endpoint is not configured'' (Some FC_VALIDATION))
      else
        let body = serialize_action uuid_str action;
            (headers, signing_failure) = webhook_headers hmac env now cfg body account in
        case signing_failure of
          Some failure \<Rightarrow> Some failure
        | None \<Rightarrow>
            (case transport (wc_endpoint cfg) body headers of
               Responded response \<Rightarrow> Some (normalize_webhook_response response)
             | NetworkError \<Rightarrow>
                 Some (result_failure ''webhook_network_error'' ''Generic webhook delivery failed''
                         (Some FC_TEMPORARY))
             | TransportCrashed \<Rightarrow> None))"

definition webhook_adapter ::
  "(uuid \<Rightarrow> string) \<Rightarrow> (string \<Rightarrow> string \<Rightarrow> string) \<Rightarrow> (string \<times> string) list \<Rightarrow> int
   \<Rightarrow> (string \<Rightarrow> string \<Rightarrow> (string \<times> string) list \<Rightarrow> transport_outcome)
   \<Rightarrow> webhook_config \<Rightarrow> delivery_adapter" where
  "webhook_adapter uuid_str hmac env now transport cfg =
     \<lparr>ad_capabilities = CapsDeclared DEFAULT_CAPABILITIES,
      ad_deliver = webhook_deliver uuid_str hmac env now transport cfg\<rparr>"

definition noop_deliver :: "(uuid \<Rightarrow> string) \<Rightarrow> outbound_action \<Rightarrow> integration_account
   \<Rightarrow> adapter_result option" where
  "noop_deliver uuid_str action account =
     Some (result_success (Some (''noop-'' @ uuid_str (oa_id action))))"

definition noop_adapter :: "(uuid \<Rightarrow> string) \<Rightarrow> delivery_adapter" where
  "noop_adapter uuid_str =
     \<lparr>ad_capabilities = CapsDeclared DEFAULT_CAPABILITIES, ad_deliver = noop_deliver uuid_str\<rparr>"

definition default_registry :: "(uuid \<Rightarrow> string) \<Rightarrow> delivery_adapter option \<Rightarrow> registry" where
  "default_registry uuid_str webhook =
     (''generic_hmac'', noop_adapter uuid_str) #
     (case webhook of None \<Rightarrow> [] | Some a \<Rightarrow> [(''generic_webhook'', a)])"

section \<open>Reading an escaped string back\<close>

definition hex_value :: "char \<Rightarrow> nat" where
  "hex_value c = (let n = (of_char c :: nat) in if n < 58 then n - 48 else n - 87)"

definition unescape_letter :: "char \<Rightarrow> char" where
  "unescape_letter e =
     (if e = CHR ''n'' then char_of (10::nat) else if e = CHR ''r'' then char_of (13::nat)
      else if e = CHR ''t'' then char_of (9::nat) else if e = CHR ''b'' then char_of (8::nat)
      else if e = CHR ''f'' then char_of (12::nat) else e)"

text \<open>What a JSON reader makes of the first character of the inside of a string literal.\<close>

fun json_read_char :: "string \<Rightarrow> char \<times> string" where
  "json_read_char (c # s) =
     (if c \<noteq> CHR 0x5C then (c, s)
      else if hd s = CHR ''u''
      then (char_of (16 * hex_value (s ! 3) + hex_value (s ! 4)), drop 5 s)
      else (unescape_letter (hd s), tl s))"
| "json_read_char [] = undefined"

lemma char_of_of_char_nat [simp]: "char_of (of_char c :: nat) = c"
  by (rule char_of_char)

lemma hex_value_digit: "n < 16 \<Longrightarrow> hex_value (hex_digit n) = n"
  by (auto simp: hex_value_def hex_digit_def Let_def of_char_of)

lemma of_char_known: "of_char d = (n::nat) \<Longrightarrow> (of_char c = n) = (c = d)"
  using of_char_eq_iff [of c d, where 'a = nat] by simp

lemma escaped_chars:
  "(of_char c = (34::nat)) = (c = CHR 0x22)" "(of_char c = (92::nat)) = (c = CHR 0x5C)"
  "(of_char c = (10::nat)) = (c = CHR 0x0A)" "(of_char c = (13::nat)) = (c = CHR 0x0D)"
  "(of_char c = (9::nat)) = (c = CHR 0x09)" "(of_char c = (8::nat)) = (c = CHR 0x08)"
  "(of_char c = (12::nat)) = (c = CHR 0x0C)"
  by (rule of_char_known, simp)+

lemma unescape_letters:
  "unescape_letter CHR ''n'' = CHR 0x0A" "unescape_letter CHR ''r'' = CHR 0x0D"
  "unescape_letter CHR ''t'' = CHR 0x09" "unescape_letter CHR ''b'' = CHR 0x08"
  "unescape_letter CHR ''f'' = CHR 0x0C" "unescape_letter CHR 0x22 = CHR 0x22"
  "unescape_letter CHR 0x5C = CHR 0x5C"
  by (simp_all add: unescape_letter_def char_of_def bit_Suc_0_iff)

lemma json_read_escape: "json_read_char (json_escape_char c @ s) = (c, s)"
proof -
  let ?n = "of_char c :: nat"
  have lt: "?n < 256" by (rule of_char_lt)
  have hex: "char_of (16 * hex_value (hex_digit (?n div 16)) + hex_value (hex_digit (?n mod 16))) = c"
  proof -
    have "?n div 16 < 16" using lt by (simp add: less_mult_imp_div_less)
    then show ?thesis by (simp add: hex_value_digit)
  qed
  show ?thesis
  proof (cases "?n \<in> {34, 92, 10, 13, 9, 8, 12}")
    case True
    then show ?thesis
      by (auto simp: escaped_chars json_escape_char_def unescape_letters)
  next
    case False
    then have "c \<noteq> CHR 0x5C" by (auto simp: escaped_chars)
    with False hex show ?thesis by (auto simp: json_escape_char_def Let_def)
  qed
qed

lemma json_escape_not_quote: "json_escape_char c \<noteq> [] \<and> hd (json_escape_char c) \<noteq> CHR 0x22"
  by (auto simp: json_escape_char_def Let_def)

interpretation json_text: char_codec json_escape_char json_read_char "CHR 0x22"
  by unfold_locales (rule json_read_escape, rule json_escape_not_quote)

lemma json_string_inj: "json_string s @ r = json_string t @ r' \<Longrightarrow> s = t \<and> r = r'"
  by (rule json_text.text_inj_stop) (simp add: json_string_def)

lemma action_type_value_inj: "action_type_value a = action_type_value b \<Longrightarrow> a = b"
  by (cases a; cases b) simp_all

section \<open>Results\<close>

lemma result_simps [simp]:
  "ar_delivered (result_success i)" "\<not> ar_delivered (result_failure c m k)"
  "ar_failure_code (result_failure c m k) = Some c" "ar_failure_message (result_failure c m k) = Some m"
  "ar_failure_code (result_success i) = None" "ar_provider_delivery_id (result_success i) = i"
  "ar_failure_classification (result_failure c m (Some x)) = Some x"
  "ar_failure_classification (result_failure c m k) \<noteq> None"
  by (simp_all add: result_success_def result_failure_def)

text \<open>A result whose failure code, if any, is one the retry policy accepts.\<close>

definition result_wf :: "adapter_result \<Rightarrow> bool" where
  "result_wf r \<longleftrightarrow> (if ar_delivered r then ar_failure_code r = None
     else (\<exists>c. ar_failure_code r = Some c \<and> failure_code_pattern c) \<and>
          ar_failure_classification r \<noteq> None)"

lemma result_wf_success [simp]: "result_wf (result_success i)"
  by (simp add: result_wf_def)

lemma result_wf_failure [simp]: "result_wf (result_failure c m k) \<longleftrightarrow> failure_code_pattern c"
  by (simp add: result_wf_def)

lemma known_codes_pattern [simp]:
  "failure_code_pattern ''adapter_capabilities_unavailable''"
  "failure_code_pattern ''unsupported_action_type''"
  "failure_code_pattern ''content_too_long''"
  "failure_code_pattern ''adapter_not_configured''"
  "failure_code_pattern ''adapter_execution_failed''"
  "failure_code_pattern ''webhook_signing_secret_unavailable''"
  "failure_code_pattern ''webhook_rate_limited''"
  "failure_code_pattern ''webhook_authentication_failed''"
  "failure_code_pattern ''webhook_validation_failed''"
  "failure_code_pattern ''webhook_server_error''"
  "failure_code_pattern ''webhook_response_unknown''"
  "failure_code_pattern ''webhook_configuration_missing''"
  "failure_code_pattern ''webhook_network_error''"
  "failure_code_pattern ''delivery_failed''"
  by (simp_all add: failure_code_pattern_def is_lower_az_def is_digit09_def one_of_def)

lemma validate_action_wf: "validate_action reg p a = Some r \<Longrightarrow> result_wf r \<and> \<not> ar_delivered r"
  by (auto simp: validate_action_def split: option.splits if_splits)

lemma normalize_webhook_response_wf: "result_wf (normalize_webhook_response resp)"
  by (auto simp: normalize_webhook_response_def Let_def)

lemma webhook_headers_wf:
  "webhook_headers hmac env now cfg body acc = (h, Some r) \<Longrightarrow> result_wf r"
  by (auto simp: webhook_headers_def Let_def split: option.splits if_splits)

lemma webhook_deliver_wf:
  "webhook_deliver us hmac env now tr cfg a acc = Some r \<Longrightarrow> result_wf r"
  by (auto simp: webhook_deliver_def Let_def normalize_webhook_response_wf
      split: if_splits prod.splits option.splits transport_outcome.splits dest: webhook_headers_wf)

section \<open>Properties\<close>

lemma serialize_split:
  "serialize_action us a = serialize_action us b \<longleftrightarrow>
     us (oa_id a) = us (oa_id b) \<and> oa_action_type a = oa_action_type b \<and>
     oa_external_target_id a = oa_external_target_id b \<and> oa_content a = oa_content b"
proof
  assume eq: "serialize_action us a = serialize_action us b"
  then have "json_string (us (oa_id a)) @ '','' @ json_string ''action_type'' @ '':'' @
      json_string (action_type_value (oa_action_type a)) @ '','' @
      json_string ''external_target_id'' @ '':'' @ json_string (oa_external_target_id a) @ '','' @
      json_string ''content'' @ '':'' @ json_string (oa_content a) @ ''}'' =
    json_string (us (oa_id b)) @ '','' @ json_string ''action_type'' @ '':'' @
      json_string (action_type_value (oa_action_type b)) @ '','' @
      json_string ''external_target_id'' @ '':'' @ json_string (oa_external_target_id b) @ '','' @
      json_string ''content'' @ '':'' @ json_string (oa_content b) @ ''}''"
    unfolding serialize_action_def by (simp only: same_append_eq)
  note 1 = json_string_inj [OF this]
  from 1 have "json_string (action_type_value (oa_action_type a)) @ '','' @
      json_string ''external_target_id'' @ '':'' @ json_string (oa_external_target_id a) @ '','' @
      json_string ''content'' @ '':'' @ json_string (oa_content a) @ ''}'' =
    json_string (action_type_value (oa_action_type b)) @ '','' @
      json_string ''external_target_id'' @ '':'' @ json_string (oa_external_target_id b) @ '','' @
      json_string ''content'' @ '':'' @ json_string (oa_content b) @ ''}''"
    by (simp only: same_append_eq)
  note 2 = json_string_inj [OF this]
  from 2 have "json_string (oa_external_target_id a) @ '','' @
      json_string ''content'' @ '':'' @ json_string (oa_content a) @ ''}'' =
    json_string (oa_external_target_id b) @ '','' @
      json_string ''content'' @ '':'' @ json_string (oa_content b) @ ''}''"
    by (simp only: same_append_eq)
  note 3 = json_string_inj [OF this]
  from 3 have "json_string (oa_content a) @ ''}'' = json_string (oa_content b) @ ''}''"
    by (simp only: same_append_eq)
  note 4 = json_string_inj [OF this]
  from 1 2 3 4 show "us (oa_id a) = us (oa_id b) \<and> oa_action_type a = oa_action_type b \<and>
     oa_external_target_id a = oa_external_target_id b \<and> oa_content a = oa_content b"
    by (auto dest: action_type_value_inj)
qed (simp add: serialize_action_def)

text \<open>The body of a webhook request determines the request: two actions are serialised to the
  same bytes exactly when their printed identifiers, types, targets and contents agree, whatever
  quotes, backslashes, control or non-ASCII characters they contain. The signature over the body
  therefore binds all four.\<close>

theorem webhook_body_determines_action:
  "serialize_action uuid_str a = serialize_action uuid_str b \<longleftrightarrow>
     uuid_str (oa_id a) = uuid_str (oa_id b) \<and> oa_action_type a = oa_action_type b \<and>
     oa_external_target_id a = oa_external_target_id b \<and> oa_content a = oa_content b"
  by (rule serialize_split)

text \<open>The webhook adapter reports a delivery exactly when an endpoint is configured, the
  request was made with the action's body and answered with a 2xx status, and, with signing
  enabled, the request carried the HMAC of timestamp and body under a non-empty secret resolved
  from the account's reference; in every other case it reports a failure or raises.\<close>

theorem webhook_delivered_iff:
  "(\<exists>r. webhook_deliver us hmac env now transport cfg a acc = Some r \<and> ar_delivered r) \<longleftrightarrow>
   wc_endpoint cfg \<noteq> [] \<and>
   (\<exists>h resp. transport (wc_endpoint cfg) (serialize_action us a) h = Responded resp \<and>
      200 \<le> wr_status_code resp \<and> wr_status_code resp < 300 \<and>
      (if wc_signing_enabled cfg
       then \<exists>secret. env_resolve env (ac_secret_reference acc) = Some secret \<and> secret \<noteq> [] \<and>
          h = [(''Content-Type'', ''application/json''), (''X-Webhook-Signing'', ''hmac-sha256''),
               (''X-Webhook-Timestamp'', py_int_str now),
               (''X-Webhook-Signature'', hmac secret (py_int_str now @ ''.'' @ serialize_action us a))]
       else h = [(''Content-Type'', ''application/json''), (''X-Webhook-Signing'', ''none'')]))"
proof -
  have resp: "ar_delivered (normalize_webhook_response r) \<longleftrightarrow>
      200 \<le> wr_status_code r \<and> wr_status_code r < 300" for r
    by (simp add: normalize_webhook_response_def Let_def)
  have out: "(\<exists>r. (case tr of Responded response \<Rightarrow> Some (normalize_webhook_response response)
        | NetworkError \<Rightarrow> Some (result_failure ''webhook_network_error''
             ''Generic webhook delivery failed'' (Some FC_TEMPORARY))
        | TransportCrashed \<Rightarrow> None) = Some r \<and> ar_delivered r) \<longleftrightarrow>
      (\<exists>resp. tr = Responded resp \<and> 200 \<le> wr_status_code resp \<and> wr_status_code resp < 300)" for tr
    by (cases tr) (simp_all add: resp)
  show ?thesis
  proof (cases "wc_signing_enabled cfg")
    case False
    then show ?thesis
      by (simp add: webhook_deliver_def webhook_headers_def Let_def out del: ex_simps)
  next
    case True
    show ?thesis
    proof (cases "env_resolve env (ac_secret_reference acc)")
      case None
      with True show ?thesis by (simp add: webhook_deliver_def webhook_headers_def Let_def)
    next
      case (Some s)
      with True show ?thesis
        by (cases "s = []") (simp_all add: webhook_deliver_def webhook_headers_def Let_def out)
    qed
  qed
qed

end
