(* ===== verification/Approvals.thy ===== *)
theory Approvals
  imports Retry
begin

text \<open>
  app/services/outbound_delivery_approvals.py and approval_decisions.py: the approval gate in
  front of outbound delivery, and the decisions human reviewers take on approval requests. A
  request belongs either to a lead (approving it sends the message through the console channel
  of app/channels/console.py) or to an outbound action (approving it opens the gate).
\<close>

section \<open>The approval gate\<close>

definition create_for_action ::
  "outbound_action \<Rightarrow> string \<Rightarrow> int \<Rightarrow> db \<Rightarrow> approval_request \<times> outbound_action \<times> db" where
  "create_for_action action provider t d =
     (let approval = \<lparr>ap_id = next_id d, ap_lead_id = None,
            ap_action_type = action_type_value (oa_action_type action), ap_channel = provider,
            ap_payload = [], ap_status = AP_PENDING, ap_assigned_to_membership_id = None,
            ap_assigned_at = None, ap_assigned_by_user_id = None, ap_assigned_by_membership_id = None,
            ap_reviewer_note = None, ap_created_at = utc t, ap_decided_at = None,
            ap_decided_by_user_id = None, ap_decided_by_membership_id = None,
            ap_decided_by_role = None\<rparr>;
          action' = action\<lparr>oa_approval_request_id := Some (ap_id approval)\<rparr>
      in (approval, action', save_action action' (take_id (insert_approval approval d))))"

definition get_for_action :: "workspace \<Rightarrow> outbound_action \<Rightarrow> db \<Rightarrow> approval_request option" where
  "get_for_action ws action d =
     (if oa_workspace_id action \<noteq> ws_id ws then None
      else (case oa_approval_request_id action of None \<Rightarrow> None | Some k \<Rightarrow> get_approval k d))"

definition gate_evaluate :: "workspace \<Rightarrow> outbound_action \<Rightarrow> db \<Rightarrow> eligibility" where
  "gate_evaluate ws action d =
     (if \<not> oa_requires_approval action then allowed_eligibility
      else (case get_for_action ws action d of
              None \<Rightarrow> denied ''approval_unavailable''
            | Some approval \<Rightarrow>
                if ap_status approval = AP_PENDING then denied ''approval_pending''
                else if ap_status approval = AP_REJECTED then denied ''approval_rejected''
                else if ap_status approval \<noteq> AP_APPROVED then denied ''approval_not_approved''
                else allowed_eligibility))"

definition require_approved :: "workspace \<Rightarrow> outbound_action \<Rightarrow> db \<Rightarrow> error + unit" where
  "require_approved ws action d =
     (let e = gate_evaluate ws action d in
      if el_allowed e then Inr ()
      else if el_denial_reason e = Some ''approval_rejected''
      then Inl (OutboundE OutboundDeliveryApprovalRejectedError)
      else Inl (OutboundE OutboundDeliveryApprovalRequiredError))"

definition get_scoped_outbound_approval :: "workspace \<Rightarrow> uuid \<Rightarrow> db \<Rightarrow> approval_request option" where
  "get_scoped_outbound_approval ws approval_id d =
     find (\<lambda>a. ap_id a = approval_id \<and>
              (\<exists>x \<in> set (actions d). oa_approval_request_id x = Some (ap_id a) \<and>
                                     oa_workspace_id x = ws_id ws)) (approvals d)"

section \<open>Decisions\<close>

record decision_actor =
  actor_user_id :: uuid
  actor_membership_id :: uuid
  actor_workspace_id :: uuid
  actor_role :: member_role

record delivery_result =
  dr_success :: bool
  dr_error :: "string option"

definition console_send :: "string \<Rightarrow> string \<Rightarrow> delivery_result" where
  "console_send recipient content = \<lparr>dr_success = True, dr_error = None\<rparr>"

definition payload_get :: "approval_request \<Rightarrow> string \<Rightarrow> string \<Rightarrow> string" where
  "payload_get a key dflt = (case map_of (ap_payload a) key of None \<Rightarrow> dflt | Some v \<Rightarrow> v)"

definition message_stage :: "approval_request \<Rightarrow> sales_stage" where
  "message_stage a =
     (case stage_of_value (payload_get a ''stage'' (stage_value FOLLOW_UP)) of
        None \<Rightarrow> FOLLOW_UP | Some st \<Rightarrow> st)"

definition lead_scoped_approval :: "workspace \<Rightarrow> uuid \<Rightarrow> db \<Rightarrow> approval_request option" where
  "lead_scoped_approval ws approval_id d =
     find (\<lambda>a. ap_id a = approval_id \<and>
              (\<exists>l \<in> set (leads d). ap_lead_id a = Some (ld_id l) \<and> ld_tenant_id l = ws_slug ws))
       (approvals d)"

definition get_scoped_approval :: "workspace \<Rightarrow> uuid \<Rightarrow> db \<Rightarrow> error + approval_request" where
  "get_scoped_approval ws approval_id d =
     (case lead_scoped_approval ws approval_id d of
        Some a \<Rightarrow> Inr a
      | None \<Rightarrow>
          (case get_scoped_outbound_approval ws approval_id d of
             None \<Rightarrow> Inl (ApprovalE ApprovalDecisionNotFoundError)
           | Some a \<Rightarrow> Inr a))"

definition pending_scoped_approval ::
  "workspace \<Rightarrow> uuid \<Rightarrow> decision_actor \<Rightarrow> db \<Rightarrow> error + approval_request" where
  "pending_scoped_approval ws approval_id actor d =
     (if actor_workspace_id actor \<noteq> ws_id ws
      then Inl (ApprovalE ApprovalDecisionActorWorkspaceMismatchError)
      else bindE (get_scoped_approval ws approval_id d) (\<lambda>a.
             if ap_status a \<noteq> AP_PENDING then Inl (ApprovalE ApprovalDecisionConflictError) else Inr a))"

definition record_decision ::
  "approval_status \<Rightarrow> string option \<Rightarrow> decision_actor \<Rightarrow> int \<Rightarrow> approval_request \<Rightarrow> approval_request" where
  "record_decision st note actor t a =
     a\<lparr>ap_status := st, ap_reviewer_note := note, ap_decided_at := Some (as_utc (utc t)),
       ap_decided_by_user_id := Some (actor_user_id actor),
       ap_decided_by_membership_id := Some (actor_membership_id actor),
       ap_decided_by_role := Some (actor_role actor)\<rparr>"

definition approve ::
  "workspace \<Rightarrow> uuid \<Rightarrow> string option \<Rightarrow> decision_actor \<Rightarrow> clock \<Rightarrow> approval_request op" where
  "approve ws approval_id note actor clk d =
     (case pending_scoped_approval ws approval_id actor d of
        Inl e \<Rightarrow> (Inl e, d)
      | Inr a \<Rightarrow>
          (case ap_lead_id a of
             None \<Rightarrow> let a' = record_decision AP_APPROVED note actor (clk 0) a
                     in (Inr a', save_approval a' d)
           | Some lead_id \<Rightarrow>
               let delivery = console_send (payload_get a ''recipient'' ''unknown'')
                                           (payload_get a ''content'' []) in
               if \<not> dr_success delivery
               then (Inl (ApprovalE (ApprovalDecisionDeliveryError
                       (case dr_error delivery of Some e \<Rightarrow> (if e = [] then ''Delivery failed'' else e)
                                                | None \<Rightarrow> ''Delivery failed''))), d)
               else let a' = record_decision AP_EXECUTED note actor (clk 0) a;
                        msg = \<lparr>cm_id = next_id d, cm_lead_id = lead_id, cm_direction = ''outbound'',
                               cm_channel = ap_channel a', cm_stage = message_stage a',
                               cm_content = payload_get a' ''content'' [],
                               cm_created_at = utc (clk 1)\<rparr>
                    in (Inr a', take_id ((save_approval a' d)\<lparr>messages := messages d @ [msg]\<rparr>))))"

definition reject ::
  "workspace \<Rightarrow> uuid \<Rightarrow> string option \<Rightarrow> decision_actor \<Rightarrow> clock \<Rightarrow> approval_request op" where
  "reject ws approval_id note actor clk d =
     (case pending_scoped_approval ws approval_id actor d of
        Inl e \<Rightarrow> (Inl e, d)
      | Inr a \<Rightarrow> let a' = record_decision AP_REJECTED note actor (clk 0) a
                 in (Inr a', save_approval a' d))"

section \<open>Lemmas\<close>

lemma get_scoped_approval_InrD:
  "get_scoped_approval ws k d = Inr a \<Longrightarrow>
   a \<in> set (approvals d) \<and> ap_id a = k \<and>
   ((\<exists>l \<in> set (leads d). ap_lead_id a = Some (ld_id l) \<and> ld_tenant_id l = ws_slug ws) \<or>
    (\<exists>x \<in> set (actions d). oa_approval_request_id x = Some k \<and> oa_workspace_id x = ws_id ws))"
  by (fastforce simp: get_scoped_approval_def lead_scoped_approval_def get_scoped_outbound_approval_def
      find_Some_iff split: option.splits)

lemma pending_scoped_InrD:
  "pending_scoped_approval ws k actor d = Inr a \<Longrightarrow>
   actor_workspace_id actor = ws_id ws \<and> ap_status a = AP_PENDING \<and> get_scoped_approval ws k d = Inr a"
  by (auto simp: pending_scoped_approval_def bindE_Inr_iff split: if_splits)

lemma record_decision_simps [simp]:
  "ap_id (record_decision st n ac t a) = ap_id a"
  "ap_status (record_decision st n ac t a) = st"
  "ap_lead_id (record_decision st n ac t a) = ap_lead_id a"
  "ap_payload (record_decision st n ac t a) = ap_payload a"
  "ap_channel (record_decision st n ac t a) = ap_channel a"
  "ap_decided_at (record_decision st n ac t a) = Some (utc t)"
  "ap_decided_by_user_id (record_decision st n ac t a) = Some (actor_user_id ac)"
  "ap_decided_by_membership_id (record_decision st n ac t a) = Some (actor_membership_id ac)"
  "ap_decided_by_role (record_decision st n ac t a) = Some (actor_role ac)"
  by (simp_all add: record_decision_def)

text \<open>Attribution is recorded exactly for the decided requests.\<close>

definition approval_wf :: "approval_request \<Rightarrow> bool" where
  "approval_wf a \<longleftrightarrow>
     (if ap_status a = AP_PENDING
      then ap_decided_at a = None \<and> ap_decided_by_user_id a = None \<and>
           ap_decided_by_membership_id a = None \<and> ap_decided_by_role a = None
      else ap_decided_at a \<noteq> None \<and> ap_decided_by_user_id a \<noteq> None \<and>
           ap_decided_by_membership_id a \<noteq> None \<and> ap_decided_by_role a \<noteq> None) \<and>
     (ap_status a = AP_EXECUTED \<longrightarrow> ap_lead_id a \<noteq> None) \<and>
     (ap_status a = AP_APPROVED \<longrightarrow> ap_lead_id a = None)"

definition approvals_inv :: "db \<Rightarrow> bool" where
  "approvals_inv d \<longleftrightarrow> distinct (map ap_id (approvals d)) \<and> (\<forall>a \<in> set (approvals d). approval_wf a)"

text \<open>A decision of an actor of workspace \<open>w\<close>, as a step of the database.\<close>

inductive decision_step :: "decision_actor \<Rightarrow> uuid \<Rightarrow> db \<Rightarrow> db \<Rightarrow> bool" for actor k where
  ds_approve: "approve ws k note actor clk d = (r, d') \<Longrightarrow> decision_step actor k d d'"
| ds_reject: "reject ws k note actor clk d = (r, d') \<Longrightarrow> decision_step actor k d d'"

inductive_cases decision_stepE: "decision_step actor k d d'"

lemma decision_cases:
  assumes "decision_step actor k d d'"
  obtains (same) "d' = d"
    | (decided) ws a st nt t ms n where "get_scoped_approval ws k d = Inr a"
        "actor_workspace_id actor = ws_id ws" "ap_status a = AP_PENDING"
        "st = AP_REJECTED \<or> st = (if ap_lead_id a = None then AP_APPROVED else AP_EXECUTED)"
        "d' = (save_approval (record_decision st nt actor t a) d)\<lparr>messages := ms, next_id := n\<rparr>"
        "map cm_lead_id ms = map cm_lead_id (messages d) @
           (if st = AP_EXECUTED then [the (ap_lead_id a)] else [])"
  using assms
proof cases
  case (ds_approve ws nt clk r)
  show ?thesis
  proof (cases "pending_scoped_approval ws k actor d")
    case (Inl e)
    with ds_approve that(1) show ?thesis by (simp add: approve_def)
  next
    case (Inr a)
    note p = pending_scoped_InrD [OF Inr]
    show ?thesis
    proof (cases "ap_lead_id a")
      case None
      with ds_approve Inr have "d' = save_approval (record_decision AP_APPROVED nt actor (clk 0) a) d"
        by (simp add: approve_def Let_def)
      then show ?thesis
        using that(2) [where ws = ws and a = a and st = AP_APPROVED and nt = nt and t = "clk 0" and ms = "messages d" and n = "next_id d"] p None
        by (simp add: save_approval_def)
    next
      case (Some l)
      let ?a = "record_decision AP_EXECUTED nt actor (clk 0) a"
      let ?msg = "\<lparr>cm_id = next_id d, cm_lead_id = l, cm_direction = ''outbound'',
          cm_channel = ap_channel ?a, cm_stage = message_stage ?a,
          cm_content = payload_get ?a ''content'' [], cm_created_at = utc (clk 1)\<rparr>"
      have "d' = (save_approval ?a d)\<lparr>messages := messages d @ [?msg], next_id := Suc (next_id d)\<rparr>"
        using ds_approve Inr Some
        by (simp add: approve_def Let_def console_send_def take_id_def save_approval_def)
      then show ?thesis
        using that(2) [where ws = ws and a = a and st = AP_EXECUTED and nt = nt and t = "clk 0" and ms = "messages d @ [?msg]" and n = "Suc (next_id d)"] p Some
        by simp
    qed
  qed
next
  case (ds_reject ws nt clk r)
  show ?thesis
  proof (cases "pending_scoped_approval ws k actor d")
    case (Inl e)
    with ds_reject that(1) show ?thesis by (simp add: reject_def)
  next
    case (Inr a)
    note p = pending_scoped_InrD [OF Inr]
    from ds_reject Inr have "d' = save_approval (record_decision AP_REJECTED nt actor (clk 0) a) d"
      by (simp add: reject_def Let_def)
    then show ?thesis
      using that(2) [where ws = ws and a = a and st = AP_REJECTED and nt = nt and t = "clk 0" and ms = "messages d" and n = "next_id d"] p
      by (simp add: save_approval_def)
  qed
qed

lemma decision_step_inv:
  assumes "decision_step actor k d d'" and inv: "approvals_inv d"
  shows "approvals_inv d'"
  using assms(1)
proof (cases rule: decision_cases)
  case same
  with inv show ?thesis by simp
next
  case (decided ws a st nt t ms n)
  have "approval_wf (record_decision st nt actor t a)"
    using decided(4) by (auto simp: approval_wf_def split: if_splits)
  with inv decided(5) show ?thesis
    by (auto simp: approvals_inv_def save_approval_def dest!: row_update_in_set)
qed

interpretation dst: invariant_system "\<lambda>d d'. \<exists>actor k. decision_step actor k d d'" approvals_inv
  by unfold_locales (blast intro: decision_step_inv)

section \<open>Properties\<close>

definition lead_messages :: "uuid \<Rightarrow> db \<Rightarrow> nat" where
  "lead_messages l d = length (filter (\<lambda>m. cm_lead_id m = l) (messages d))"

definition executed_approvals :: "uuid \<Rightarrow> db \<Rightarrow> nat" where
  "executed_approvals l d =
     length (filter (\<lambda>a. ap_status a = AP_EXECUTED \<and> ap_lead_id a = Some l) (approvals d))"

lemma lead_messages_map: "lead_messages l d = length (filter (\<lambda>i. i = l) (map cm_lead_id (messages d)))"
  by (simp add: lead_messages_def filter_map comp_def)

lemma decision_step_messages:
  assumes "decision_step actor k d d'" and inv: "approvals_inv d"
  shows "lead_messages l d' + executed_approvals l d = lead_messages l d + executed_approvals l d'"
  using assms(1)
proof (cases rule: decision_cases)
  case same
  then show ?thesis by simp
next
  case (decided ws a st nt t ms n)
  let ?P = "\<lambda>a. ap_status a = AP_EXECUTED \<and> ap_lead_id a = Some l"
  let ?r = "record_decision st nt actor t a"
  have a: "a \<in> set (approvals d)" using get_scoped_approval_InrD [OF decided(1)] by simp
  have "length (filter ?P (row_update ap_id ?r (approvals d))) + (if ?P a then 1 else 0) =
        length (filter ?P (approvals d)) + (if ?P ?r then 1 else 0)"
    by (rule length_filter_row_update [OF _ a]) (use inv in \<open>simp_all add: approvals_inv_def\<close>)
  then have "executed_approvals l d' = executed_approvals l d + (if ?P ?r then 1 else 0)"
    using decided(3,5) by (simp add: executed_approvals_def save_approval_def)
  moreover have "lead_messages l d' = lead_messages l d + (if ?P ?r then 1 else 0)"
    using decided(4-6) by (auto simp: lead_messages_map split: if_splits)
  ultimately show ?thesis by simp
qed

lemma decision_step_get:
  assumes "decision_step actor k d d'" and "get_approval i d' \<noteq> get_approval i d"
  shows "\<exists>ws a. ws_id ws = actor_workspace_id actor \<and> get_scoped_approval ws k d = Inr a \<and>
     ap_status a = AP_PENDING \<and> i = k"
  using assms(1)
proof (cases rule: decision_cases)
  case same
  with assms show ?thesis by simp
next
  case (decided ws a st nt t ms n)
  have "get_approval i d' = get_approval i (save_approval (record_decision st nt actor t a) d)"
    using decided(5) by (simp add: get_approval_def)
  with assms(2) have "i = ap_id (record_decision st nt actor t a)"
    using aps.get_put_other by metis
  with decided get_scoped_approval_InrD [OF decided(1)] show ?thesis by (intro exI [of _ ws]) auto
qed

lemma decision_step_final:
  assumes "decision_step actor k d d'" and inv: "approvals_inv d"
    and b: "get_approval i d = Some b" "ap_status b \<noteq> AP_PENDING"
  shows "get_approval i d' = Some b"
proof (rule ccontr)
  assume "get_approval i d' \<noteq> Some b"
  with decision_step_get [OF assms(1), of i] b obtain ws a where
    a: "get_scoped_approval ws k d = Inr a" "ap_status a = AP_PENDING" "i = k" by auto
  from get_scoped_approval_InrD [OF a(1)] have "a \<in> set (approvals d)" "ap_id a = k" by auto
  with inv a have "get_approval i d = Some a"
    unfolding get_approval_def approvals_inv_def by (metis row_find_in)
  with b a show False by simp
qed

lemma approvals_inv_sample: "approvals_inv (sample_db\<lparr>approvals := [sample_approval AP_PENDING]\<rparr>)"
  by (simp add: approvals_inv_def approval_wf_def sample_defs)

text \<open>Approving sends each message once: over any sequence of decisions the number of messages
  of a lead grows by exactly the number of its approval requests that became executed.\<close>

theorem one_message_per_executed_approval:
  assumes "(\<lambda>d d'. \<exists>actor k. decision_step actor k d d')\<^sup>*\<^sup>* d d'" and "approvals_inv d"
  shows "lead_messages l d' + executed_approvals l d = lead_messages l d + executed_approvals l d'"
proof (rule dst.steps_keep [where P = "\<lambda>s. lead_messages l s + executed_approvals l d =
    lead_messages l d + executed_approvals l s", OF _ assms refl])
  fix s t assume "\<exists>actor k. decision_step actor k s t" and "approvals_inv s"
    and "lead_messages l s + executed_approvals l d = lead_messages l d + executed_approvals l s"
  then show "lead_messages l t + executed_approvals l d = lead_messages l d + executed_approvals l t"
    using decision_step_messages [of _ _ s t l] by fastforce
qed

theorem one_message_per_executed_approval_witness:
  "lead_messages 5 (snd (approve sample_ws 7 None \<lparr>actor_user_id = 2, actor_membership_id = 3,
       actor_workspace_id = 1, actor_role = OWNER\<rparr> (\<lambda>_. 0)
     (sample_db\<lparr>approvals := [sample_approval AP_PENDING]\<rparr>))) = 1"
proof -
  let ?d = "sample_db\<lparr>approvals := [sample_approval AP_PENDING]\<rparr>"
  let ?actor = "\<lparr>actor_user_id = 2, actor_membership_id = 3, actor_workspace_id = 1, actor_role = OWNER\<rparr>"
  let ?d' = "snd (approve sample_ws 7 None ?actor (\<lambda>_. 0) ?d)"
  have "decision_step ?actor 7 ?d ?d'"
    by (rule ds_approve [of sample_ws 7 None ?actor "\<lambda>_. 0"]) (simp add: prod_eq_iff)
  then have "(\<lambda>d d'. \<exists>actor k. decision_step actor k d d')\<^sup>*\<^sup>* ?d ?d'" by blast
  from one_message_per_executed_approval [OF this approvals_inv_sample, of 5]
  have "lead_messages 5 ?d' + executed_approvals 5 ?d = lead_messages 5 ?d + executed_approvals 5 ?d'" .
  moreover have "executed_approvals 5 ?d' = 1"
    by (simp add: approve_def pending_scoped_approval_def get_scoped_approval_def
        lead_scoped_approval_def sample_defs console_send_def Let_def take_id_def save_approval_def
        row_simps executed_approvals_def)
  moreover have "executed_approvals 5 ?d = 0" "lead_messages 5 ?d = 0"
    by (simp_all add: executed_approvals_def lead_messages_def sample_defs)
  ultimately show ?thesis by simp
qed

text \<open>A decision reaches only the request it names, only while that request is pending, and only
  when the request belongs to the actor's own workspace, through a lead of its slug or through an
  outbound action of its identifier.\<close>

theorem decision_scope:
  assumes "decision_step actor k d d'" and "get_approval i d' \<noteq> get_approval i d"
  shows "i = k \<and> (\<exists>(ws::workspace) a. ws_id ws = actor_workspace_id actor \<and> a \<in> set (approvals d) \<and> ap_id a = k \<and>
     ap_status a = AP_PENDING \<and>
     ((\<exists>l \<in> set (leads d). ap_lead_id a = Some (ld_id l) \<and> ld_tenant_id l = ws_slug ws) \<or>
      (\<exists>x \<in> set (actions d). oa_approval_request_id x = Some k \<and> oa_workspace_id x = ws_id ws)))"
proof -
  from decision_step_get [OF assms] obtain ws a where ws: "ws_id ws = actor_workspace_id actor"
    and a: "get_scoped_approval ws k d = Inr a" and p: "ap_status a = AP_PENDING" and i: "i = k"
    by blast
  show ?thesis
    by (rule conjI [OF i], rule exI [of _ ws], rule exI [of _ a])
      (use get_scoped_approval_InrD [OF a] ws p in simp)
qed

theorem decision_scope_witness:
  "\<exists>l. l \<in> set (leads sample_db) \<and> ld_id l = 5"
proof -
  let ?d = "sample_db\<lparr>approvals := [sample_approval AP_PENDING]\<rparr>"
  let ?actor = "\<lparr>actor_user_id = 2, actor_membership_id = 3, actor_workspace_id = 1, actor_role = OWNER\<rparr>"
  let ?d' = "snd (reject sample_ws 7 None ?actor (\<lambda>_. 0) ?d)"
  have st: "decision_step ?actor 7 ?d ?d'"
    by (rule ds_reject [of sample_ws 7 None ?actor "\<lambda>_. 0"]) (simp add: prod_eq_iff)
  have "get_approval 7 ?d' \<noteq> get_approval 7 ?d"
    by (simp add: reject_def pending_scoped_approval_def get_scoped_approval_def Let_def
        lead_scoped_approval_def sample_defs save_approval_def row_simps get_approval_def
        record_decision_def)
  from decision_scope [OF st this] obtain a where "a \<in> set (approvals ?d)" "ap_status a = AP_PENDING"
    "(\<exists>l \<in> set (leads ?d). ap_lead_id a = Some (ld_id l)) \<or>
     (\<exists>x \<in> set (actions ?d). oa_approval_request_id x = Some 7)" by blast
  then show ?thesis by (auto simp: sample_defs)
qed

end
