(* ===== verification/Transitions.thy ===== *)
theory Transitions
  imports Samples
begin

text \<open>
  app/services/outbound_action_state_transitions.py and outbound_action_transition_reasons.py:
  the lifecycle of an outbound action as a table of allowed transitions, the audit event of each
  transition and the reason of each refusal.
\<close>

fun allowed_targets :: "action_status \<Rightarrow> action_status list" where
  "allowed_targets PENDING = [CANCELLED, EXPIRED, DELIVERED, FAILED]"
| "allowed_targets FAILED = [DELIVERED, FAILED]"
| "allowed_targets DELIVERED = []"
| "allowed_targets CANCELLED = []"
| "allowed_targets EXPIRED = []"

definition can_transition :: "action_status \<Rightarrow> action_status \<Rightarrow> bool" where
  "can_transition source target \<longleftrightarrow> target \<in> set (allowed_targets source)"

definition is_terminal :: "outbound_action \<Rightarrow> bool" where
  "is_terminal action \<longleftrightarrow> allowed_targets (oa_status action) = []"

definition require_transition :: "outbound_action \<Rightarrow> action_status \<Rightarrow> error + unit" where
  "require_transition action target =
     (if can_transition (oa_status action) target then Inr ()
      else Inl (OutboundE OutboundIntegrationActionInvalidStateTransitionError))"

definition audit_event_for_transition :: "action_status \<Rightarrow> action_status \<Rightarrow> error + audit_action" where
  "audit_event_for_transition source target =
     (if \<not> can_transition source target
      then Inl (OutboundE OutboundIntegrationActionInvalidStateTransitionError)
      else (case target of
              DELIVERED \<Rightarrow> Inr AU_DELIVERED | FAILED \<Rightarrow> Inr AU_FAILED
            | CANCELLED \<Rightarrow> Inr AU_CANCELLED | EXPIRED \<Rightarrow> Inr AU_EXPIRED
            | PENDING \<Rightarrow> Inl KeyError))"

definition require_pending_delivery :: "outbound_action \<Rightarrow> error + unit" where
  "require_pending_delivery action =
     (if oa_status action = PENDING then Inr ()
      else Inl (OutboundE OutboundIntegrationActionInvalidStateTransitionError))"

definition require_retry_attempt :: "outbound_action \<Rightarrow> error + unit" where
  "require_retry_attempt action =
     (if oa_status action = FAILED then Inr ()
      else Inl (OutboundE OutboundIntegrationActionInvalidStateTransitionError))"

section \<open>Reasons of refused transitions\<close>

datatype transition_reason_code =
  TRANSITION_NOOP | TARGET_NOT_ALLOWED | ACTION_ALREADY_DELIVERED | ACTION_CANCELLED
  | TR_ACTION_EXPIRED

definition transition_denial_reason :: "action_status \<Rightarrow> action_status \<Rightarrow> transition_reason_code" where
  "transition_denial_reason source target =
     (if source = target then TRANSITION_NOOP
      else (case source of
              DELIVERED \<Rightarrow> ACTION_ALREADY_DELIVERED
            | CANCELLED \<Rightarrow> ACTION_CANCELLED
            | EXPIRED \<Rightarrow> TR_ACTION_EXPIRED
            | _ \<Rightarrow> TARGET_NOT_ALLOWED))"

fun transition_reason_message :: "transition_reason_code \<Rightarrow> string" where
  "transition_reason_message TRANSITION_NOOP =
     ''The requested state is already the action's current state.''"
| "transition_reason_message TARGET_NOT_ALLOWED =
     ''The requested outbound action state transition is not allowed.''"
| "transition_reason_message ACTION_ALREADY_DELIVERED =
     ''The outbound action has already been delivered.''"
| "transition_reason_message ACTION_CANCELLED = ''The outbound action was cancelled.''"
| "transition_reason_message TR_ACTION_EXPIRED = ''The outbound action has expired.''"

section \<open>The lifecycle as a relation\<close>

inductive moves :: "action_status \<Rightarrow> action_status \<Rightarrow> bool" where
  guarded: "require_transition (a\<lparr>oa_status := s\<rparr>) t = Inr () \<Longrightarrow> moves s t"

inductive_simps moves_iff: "moves s t"

lemma moves_can: "moves s t \<longleftrightarrow> can_transition s t"
  by (auto simp: moves_iff require_transition_def split: if_splits)

lemma can_transition_simps [simp]:
  "can_transition PENDING t \<longleftrightarrow> t \<noteq> PENDING"
  "can_transition FAILED t \<longleftrightarrow> t = DELIVERED \<or> t = FAILED"
  "can_transition DELIVERED t = False"
  "can_transition CANCELLED t = False"
  "can_transition EXPIRED t = False"
  by (cases t; simp add: can_transition_def)+

lemma audit_event_total:
  "can_transition s t \<Longrightarrow> \<exists>e. audit_event_for_transition s t = Inr e"
  by (cases s; cases t) (simp_all add: audit_event_for_transition_def)

lemma require_simps [simp]:
  "require_pending_delivery a = Inr u \<longleftrightarrow> oa_status a = PENDING"
  "require_retry_attempt a = Inr u \<longleftrightarrow> oa_status a = FAILED"
  "require_transition a t = Inr u \<longleftrightarrow> can_transition (oa_status a) t"
  by (simp_all add: require_pending_delivery_def require_retry_attempt_def require_transition_def)

interpretation lc: invariant_system moves "\<lambda>s. s \<noteq> PENDING"
  by unfold_locales (auto simp: moves_can, metis action_status.exhaust can_transition_simps)

text \<open>The lifecycle of an outbound action: from pending every status is reachable; a failed
  action can only stay failed or become delivered; a delivered, cancelled or expired action
  never changes again; and nothing returns to pending.\<close>

theorem lifecycle_reachability:
  "moves\<^sup>*\<^sup>* s t \<longleftrightarrow> s = t \<or> (s = PENDING \<and> t \<noteq> PENDING) \<or> (s = FAILED \<and> t = DELIVERED)"
proof
  assume "moves\<^sup>*\<^sup>* s t"
  then show "s = t \<or> (s = PENDING \<and> t \<noteq> PENDING) \<or> (s = FAILED \<and> t = DELIVERED)"
  proof (induction rule: rtranclp_induct)
    case base
    then show ?case by simp
  next
    case (step u v)
    then show ?case by (cases u) (auto simp: moves_can)
  qed
next
  assume "s = t \<or> (s = PENDING \<and> t \<noteq> PENDING) \<or> (s = FAILED \<and> t = DELIVERED)"
  then show "moves\<^sup>*\<^sup>* s t"
    by (auto simp: moves_can intro: r_into_rtranclp)
qed

text \<open>Every transition the guard admits has an audit event, and the event tells which status
  was entered: two admitted transitions have the same event exactly when they have the same target.\<close>

theorem transition_events_identify_target:
  assumes "can_transition s t" and "can_transition s' t'"
  shows "\<exists>e e'. audit_event_for_transition s t = Inr e \<and> audit_event_for_transition s' t' = Inr e' \<and>
     (e = e' \<longleftrightarrow> t = t')"
  using assms by (cases s; cases t; cases s'; cases t') (simp_all add: audit_event_for_transition_def)

theorem transition_events_identify_target_witness:
  "\<exists>e e'. audit_event_for_transition PENDING DELIVERED = Inr e \<and>
     audit_event_for_transition FAILED FAILED = Inr e' \<and> e \<noteq> e'"
  using transition_events_identify_target [of PENDING DELIVERED FAILED FAILED] by simp

end
