(* ===== verification/Outbound.thy ===== *)
theory Outbound
  imports Adapters Approvals Transitions
begin

text \<open>
  app/services/outbound_integrations.py, outbound_delivery.py and outbound_action_audit.py: the
  creation of outbound actions under an idempotency key, their delivery, retry and cancellation,
  their attempts and their audit history.

  The clock of a request: \<open>clk\<close> is read at the call sites of \<open>utc_now()\<close> in the order they appear
  in the source, including the \<open>created_at\<close> defaults of new rows.
\<close>

section \<open>Audit history\<close>

definition audit_record :: "outbound_action \<Rightarrow> audit_action \<Rightarrow> int \<Rightarrow> db \<Rightarrow> db" where
  "audit_record action event_action t d = take_id (d\<lparr>audit_events := audit_events d @
     [\<lparr>ae_id = next_id d, ae_workspace_id = oa_workspace_id action,
       ae_integration_account_id = oa_integration_account_id action,
       ae_outbound_integration_action_id = oa_id action, ae_action = event_action,
       ae_created_at = utc t\<rparr>]\<rparr>)"

definition MAX_OUTBOUND_AUDIT_EVENT_LIMIT :: int where "MAX_OUTBOUND_AUDIT_EVENT_LIMIT = 100"

definition audit_validate_query ::
  "datetime option \<Rightarrow> datetime option \<Rightarrow> int \<Rightarrow> error + unit" where
  "audit_validate_query created_after created_before limit =
     (if \<not> (1 \<le> limit \<and> limit \<le> MAX_OUTBOUND_AUDIT_EVENT_LIMIT)
      then Inl (OutboundE OutboundAuditQueryValidationError)
      else validate_range (OutboundE OutboundAuditQueryValidationError) created_after created_before)"

definition audit_list_for_workspace ::
  "workspace \<Rightarrow> audit_action option \<Rightarrow> uuid option \<Rightarrow> uuid option \<Rightarrow> datetime option
   \<Rightarrow> datetime option \<Rightarrow> int \<Rightarrow> db \<Rightarrow> error + audit_event list" where
  "audit_list_for_workspace ws action account_id action_id created_after created_before limit d =
     bindE (audit_validate_query created_after created_before limit) (\<lambda>_.
     Inr (take (nat limit) (order_desc (\<lambda>e. (dt_instant (ae_created_at e), ae_id e))
       (filter (\<lambda>e. ae_workspace_id e = ws_id ws \<and>
                    opt_filter (\<lambda>a. ae_action e = a) action \<and>
                    opt_filter (\<lambda>i. ae_integration_account_id e = i) account_id \<and>
                    opt_filter (\<lambda>i. ae_outbound_integration_action_id e = i) action_id \<and>
                    in_range created_after created_before (ae_created_at e))
         (audit_events d)))))"

section \<open>Creating actions\<close>

record action_input =
  in_external_target_id :: string
  in_action_type :: action_type
  in_content :: string
  in_payload :: json
  in_correlation_id :: "string option"
  in_expires_at :: "datetime option"
  in_not_before :: "datetime option"
  in_requires_approval :: bool

definition normalize_input :: "action_input \<Rightarrow> action_input" where
  "normalize_input i = i\<lparr>in_external_target_id := py_strip (in_external_target_id i),
     in_correlation_id := (case in_correlation_id i of None \<Rightarrow> None
        | Some c \<Rightarrow> if c = [] then None else Some (py_strip c))\<rparr>"

definition action_matches :: "outbound_action \<Rightarrow> action_input \<Rightarrow> bool" where
  "action_matches action values \<longleftrightarrow>
     oa_external_target_id action = in_external_target_id values \<and>
     oa_action_type action = in_action_type values \<and>
     oa_content action = in_content values \<and>
     json_eq (oa_payload action) (in_payload values) \<and>
     oa_correlation_id action = in_correlation_id values \<and>
     oa_requires_approval action = in_requires_approval values"

definition find_by_key :: "workspace \<Rightarrow> integration_account \<Rightarrow> string \<Rightarrow> db \<Rightarrow> outbound_action option" where
  "find_by_key ws account key d =
     find (\<lambda>a. oa_workspace_id a = ws_id ws \<and> oa_integration_account_id a = ac_id account \<and>
               oa_idempotency_key a = key) (actions d)"

definition new_action ::
  "workspace \<Rightarrow> integration_account \<Rightarrow> string \<Rightarrow> action_input \<Rightarrow> uuid \<Rightarrow> int \<Rightarrow> outbound_action" where
  "new_action ws account key values k t =
    \<lparr>oa_id = k, oa_workspace_id = ws_id ws, oa_integration_account_id = ac_id account,
     oa_external_target_id = in_external_target_id values, oa_action_type = in_action_type values,
     oa_content = in_content values, oa_payload = in_payload values,
     oa_correlation_id = in_correlation_id values, oa_idempotency_key = key,
     oa_requires_approval = in_requires_approval values, oa_approval_request_id = None,
     oa_status = PENDING, oa_priority = NORMAL, oa_owner_reference = None, oa_archived_at = None,
     oa_provider_delivery_id = None, oa_delivered_at = None, oa_failed_at = None,
     oa_cancelled_at = None, oa_not_before = in_not_before values,
     oa_expires_at = in_expires_at values, oa_expired_at = None, oa_failure_code = None,
     oa_failure_message = None, oa_failure_classification = None, oa_created_at = utc t\<rparr>"

definition create_action ::
  "workspace \<Rightarrow> uuid \<Rightarrow> action_input \<Rightarrow> string \<Rightarrow> clock \<Rightarrow> (outbound_action \<times> integration_account) op" where
  "create_action ws account_id input idempotency_key clk d =
     (case get_for_workspace ws account_id d of
        Inl e \<Rightarrow> (Inl e, d)
      | Inr account \<Rightarrow>
          if \<not> ac_active account then (Inl (OutboundE InactiveIntegrationAccountError), d)
          else
            let values = normalize_input input; key = py_strip idempotency_key in
            case find_by_key ws account key d of
              Some existing \<Rightarrow>
                (if \<not> action_matches existing values
                 then (Inl (OutboundE OutboundIntegrationActionIdempotencyConflictError), d)
                 else (Inr (existing, account), d))
            | None \<Rightarrow>
                let action = new_action ws account key values (next_id d) (clk 0);
                    d1 = take_id (insert_action action d);
                    (action', d2) =
                      (if in_requires_approval values
                       then (case create_for_action action (ac_provider account) (clk 1) d1 of
                               (_, a, d') \<Rightarrow> (a, d'))
                       else (action, d1))
                in (Inr (action', account), audit_record action' AU_CREATED (clk 2) d2))"

section \<open>Delivering actions\<close>

definition get_action_for_account ::
  "workspace \<Rightarrow> integration_account \<Rightarrow> uuid \<Rightarrow> db \<Rightarrow> error + outbound_action" where
  "get_action_for_account ws account action_id d =
     (case find (\<lambda>a. oa_id a = action_id \<and> oa_workspace_id a = ws_id ws \<and>
                     oa_integration_account_id a = ac_id account) (actions d) of
        None \<Rightarrow> Inl (OutboundE OutboundIntegrationActionNotFoundError)
      | Some a \<Rightarrow> Inr a)"

definition now_like :: "datetime \<Rightarrow> int \<Rightarrow> datetime" where
  "now_like v t = (if dt_naive v then strip_tz (utc t) else utc t)"

definition is_before_not_before :: "outbound_action \<Rightarrow> int \<Rightarrow> bool" where
  "is_before_not_before action t =
     (case oa_not_before action of None \<Rightarrow> False | Some nb \<Rightarrow> the (dt_lt (now_like nb t) nb))"

definition is_expired :: "outbound_action \<Rightarrow> int \<Rightarrow> bool" where
  "is_expired action t =
     (case oa_expires_at action of None \<Rightarrow> False | Some ex \<Rightarrow> the (dt_le ex (now_like ex t)))"

definition attempts_of :: "uuid \<Rightarrow> db \<Rightarrow> delivery_attempt list" where
  "attempts_of k d = filter (\<lambda>x. da_outbound_integration_action_id x = k) (attempts d)"

definition attempt_count :: "outbound_action \<Rightarrow> db \<Rightarrow> nat" where
  "attempt_count action d = fold max (map da_attempt_number (attempts_of (oa_id action) d)) 0"

definition new_attempt :: "outbound_action \<Rightarrow> int \<Rightarrow> db \<Rightarrow> delivery_attempt \<times> db" where
  "new_attempt action t d =
     (let attempt = \<lparr>da_id = next_id d, da_workspace_id = oa_workspace_id action,
            da_integration_account_id = oa_integration_account_id action,
            da_outbound_integration_action_id = oa_id action,
            da_attempt_number = attempt_count action d + 1, da_status = PENDING,
            da_provider_delivery_id = None, da_started_at = utc t, da_completed_at = None,
            da_failure_code = None, da_failure_message = None, da_failure_classification = None\<rparr>
      in (attempt, take_id (d\<lparr>attempts := attempts d @ [attempt]\<rparr>)))"

definition save_attempt :: "delivery_attempt \<Rightarrow> db \<Rightarrow> db" where
  "save_attempt r d = d\<lparr>attempts := row_update da_id r (attempts d)\<rparr>"

definition record_transition_audit ::
  "outbound_action \<Rightarrow> action_status \<Rightarrow> int \<Rightarrow> db \<Rightarrow> error + db" where
  "record_transition_audit action previous t d =
     bindE (audit_event_for_transition previous (oa_status action)) (\<lambda>e. Inr (audit_record action e t d))"

definition or_default :: "string option \<Rightarrow> string \<Rightarrow> string" where
  "or_default v dflt = (case v of None \<Rightarrow> dflt | Some s \<Rightarrow> if s = [] then dflt else s)"

definition delivered_action :: "adapter_result \<Rightarrow> int \<Rightarrow> outbound_action \<Rightarrow> outbound_action" where
  "delivered_action result t action =
     action\<lparr>oa_status := DELIVERED, oa_provider_delivery_id := ar_provider_delivery_id result,
       oa_delivered_at := Some (utc t), oa_failed_at := None, oa_failure_code := None,
       oa_failure_message := None, oa_failure_classification := None\<rparr>"

definition delivered_attempt :: "adapter_result \<Rightarrow> int \<Rightarrow> delivery_attempt \<Rightarrow> delivery_attempt" where
  "delivered_attempt result t attempt =
     attempt\<lparr>da_status := DELIVERED, da_provider_delivery_id := ar_provider_delivery_id result,
       da_completed_at := Some (utc t), da_failure_code := None, da_failure_message := None,
       da_failure_classification := None\<rparr>"

definition failed_action :: "adapter_result \<Rightarrow> int \<Rightarrow> outbound_action \<Rightarrow> outbound_action" where
  "failed_action result t action =
     action\<lparr>oa_status := FAILED, oa_provider_delivery_id := None, oa_delivered_at := None,
       oa_failed_at := Some (utc t),
       oa_failure_code := Some (or_default (ar_failure_code result) ''delivery_failed''),
       oa_failure_message := Some (or_default (ar_failure_message result) ''Delivery failed''),
       oa_failure_classification := ar_failure_classification result\<rparr>"

definition failed_attempt :: "outbound_action \<Rightarrow> int \<Rightarrow> delivery_attempt \<Rightarrow> delivery_attempt" where
  "failed_attempt action t attempt =
     attempt\<lparr>da_status := FAILED, da_provider_delivery_id := None, da_completed_at := Some (utc t),
       da_failure_code := oa_failure_code action, da_failure_message := oa_failure_message action,
       da_failure_classification := oa_failure_classification action\<rparr>"

definition persist_outcome ::
  "outbound_action \<Rightarrow> delivery_attempt \<Rightarrow> adapter_result \<Rightarrow> int \<Rightarrow> int \<Rightarrow> db
   \<Rightarrow> error + outbound_action \<times> db" where
  "persist_outcome action attempt result recorded_at t d =
     (if ar_delivered result then
        bindE (require_transition action DELIVERED) (\<lambda>_.
        let action' = delivered_action result recorded_at action;
            attempt' = delivered_attempt result recorded_at attempt in
        bindE (record_transition_audit action' (oa_status action) t d) (\<lambda>d'.
        Inr (action', save_attempt attempt' (save_action action' d'))))
      else
        bindE (require_transition action FAILED) (\<lambda>_.
        let action' = failed_action result recorded_at action;
            attempt' = failed_attempt action' recorded_at attempt in
        bindE (record_transition_audit action' (oa_status action) t d) (\<lambda>d'.
        Inr (action', save_attempt attempt' (save_action action' d')))))"

definition run_adapter :: "registry \<Rightarrow> outbound_action \<Rightarrow> integration_account \<Rightarrow> adapter_result" where
  "run_adapter reg action account =
     (case registry_get reg (ac_provider account) of
        None \<Rightarrow> result_failure ''adapter_not_configured''
                  ''No delivery adapter is configured for this provider'' None
      | Some adapter \<Rightarrow>
          (case validate_action reg (ac_provider account) action of
             Some failure \<Rightarrow> failure
           | None \<Rightarrow>
               (case ad_deliver adapter action account of
                  None \<Rightarrow> result_failure ''adapter_execution_failed'' ''Delivery adapter execution failed'' None
                | Some r \<Rightarrow> r)))"

definition deliver_action ::
  "registry \<Rightarrow> outbound_action \<Rightarrow> integration_account \<Rightarrow> clock \<Rightarrow> db
   \<Rightarrow> error + (outbound_action \<times> integration_account) \<times> db" where
  "deliver_action reg action account clk d =
     (let (attempt, d1) = new_attempt action (clk 5) d;
          d2 = audit_record action AU_DELIVERY_ATTEMPTED (clk 6) d1;
          result = run_adapter reg action account
      in bindE (persist_outcome action attempt result (clk 7) (clk 8) d2)
           (\<lambda>(action', d3). Inr ((action', account), d3)))"

definition deliver_pending_action ::
  "registry \<Rightarrow> workspace \<Rightarrow> uuid \<Rightarrow> uuid \<Rightarrow> clock \<Rightarrow> (outbound_action \<times> integration_account) op" where
  "deliver_pending_action reg ws account_id action_id clk d =
     (case get_for_workspace ws account_id d of
        Inl e \<Rightarrow> (Inl e, d)
      | Inr account \<Rightarrow>
          if \<not> ac_active account then (Inl (OutboundE InactiveIntegrationAccountError), d)
          else case get_action_for_account ws account action_id d of
            Inl e \<Rightarrow> (Inl e, d)
          | Inr action \<Rightarrow>
              if oa_status action = PENDING \<and> is_expired action (clk 0) then
                (case require_transition action EXPIRED of
                   Inl e \<Rightarrow> (Inl e, d)
                 | Inr _ \<Rightarrow>
                     let action' = action\<lparr>oa_status := EXPIRED, oa_expired_at := Some (utc (clk 1))\<rparr> in
                     case record_transition_audit action' PENDING (clk 2) (save_action action' d) of
                       Inl e \<Rightarrow> (Inl e, d)
                     | Inr d' \<Rightarrow> (Inl (OutboundE OutboundIntegrationActionExpiredError), d'))
              else case require_pending_delivery action of
                Inl _ \<Rightarrow> (Inl (OutboundE OutboundIntegrationActionAlreadyProcessedError), d)
              | Inr _ \<Rightarrow>
                  if is_before_not_before action (clk 3)
                  then (Inl (OutboundE OutboundIntegrationActionNotReadyError), d)
                  else case require_approved ws action d of
                    Inl e \<Rightarrow> (Inl e, d)
                  | Inr _ \<Rightarrow>
                      (case deliver_action reg action account clk d of
                         Inl e \<Rightarrow> (Inl e, d)
                       | Inr (r, d') \<Rightarrow> (Inr r, d')))"

definition retry_failed_action ::
  "registry \<Rightarrow> retry_policy \<Rightarrow> workspace \<Rightarrow> uuid \<Rightarrow> uuid \<Rightarrow> clock
   \<Rightarrow> (outbound_action \<times> integration_account) op" where
  "retry_failed_action reg pol ws account_id action_id clk d =
     (case get_for_workspace ws account_id d of
        Inl e \<Rightarrow> (Inl e, d)
      | Inr account \<Rightarrow>
          if \<not> ac_active account then (Inl (OutboundE InactiveIntegrationAccountError), d)
          else case get_action_for_account ws account action_id d of
            Inl e \<Rightarrow> (Inl e, d)
          | Inr action \<Rightarrow>
              (case require_retry_attempt action of
                 Inl _ \<Rightarrow> (Inl (OutboundE OutboundIntegrationActionNotRetryableError), d)
               | Inr _ \<Rightarrow>
                   (case retry_evaluate pol (int (attempt_count action d)) (oa_failure_code action)
                           (oa_failure_classification action) of
                      Inl e \<Rightarrow> (Inl e, d)
                    | Inr eligibility \<Rightarrow>
                        if \<not> el_allowed eligibility
                        then (Inl (OutboundE (OutboundIntegrationActionRetryDeniedError
                                (el_denial_reason eligibility))), d)
                        else (case deliver_action reg action account clk
                                     (audit_record action AU_RETRIED (clk 4) d) of
                                Inl e \<Rightarrow> (Inl e, d)
                              | Inr (r, d') \<Rightarrow> (Inr r, d')))))"

definition cancel_pending_action ::
  "workspace \<Rightarrow> uuid \<Rightarrow> uuid \<Rightarrow> clock \<Rightarrow> (outbound_action \<times> integration_account) op" where
  "cancel_pending_action ws account_id action_id clk d =
     (case get_for_workspace ws account_id d of
        Inl e \<Rightarrow> (Inl e, d)
      | Inr account \<Rightarrow>
          (case get_action_for_account ws account action_id d of
             Inl e \<Rightarrow> (Inl e, d)
           | Inr action \<Rightarrow>
               (case require_transition action CANCELLED of
                  Inl _ \<Rightarrow> (Inl (OutboundE OutboundIntegrationActionNotCancellableError), d)
                | Inr _ \<Rightarrow>
                    let action' = action\<lparr>oa_status := CANCELLED, oa_cancelled_at := Some (utc (clk 0))\<rparr> in
                    (case record_transition_audit action' (oa_status action) (clk 1) (save_action action' d) of
                       Inl e \<Rightarrow> (Inl e, d)
                     | Inr d' \<Rightarrow> (Inr (action', account), d')))))"

definition list_attempts_for_action ::
  "workspace \<Rightarrow> uuid \<Rightarrow> uuid \<Rightarrow> action_status option \<Rightarrow> datetime option \<Rightarrow> datetime option
   \<Rightarrow> bool \<Rightarrow> int \<Rightarrow> db \<Rightarrow> error + delivery_attempt list" where
  "list_attempts_for_action ws account_id action_id st started_after started_before newest_first limit d =
     bindE (validate_range (OutboundE OutboundDeliveryAttemptQueryValidationError)
              started_after started_before) (\<lambda>_.
     bindE (get_for_workspace ws account_id d) (\<lambda>account.
     bindE (get_action_for_account ws account action_id d) (\<lambda>_.
     let rows = filter (\<lambda>x. da_workspace_id x = ws_id ws \<and>
                    da_integration_account_id x = ac_id account \<and>
                    da_outbound_integration_action_id x = action_id \<and>
                    opt_filter (\<lambda>s. da_status x = s) st \<and>
                    in_range started_after started_before (da_started_at x)) (attempts d)
     in Inr (take (nat limit)
          (if newest_first then order_desc da_attempt_number rows else sort_key da_attempt_number rows)))))"

end
