(* ===== verification/Outbound_Inv.thy ===== *)
theory Outbound_Inv
  imports Outbound
begin

text \<open>
  The invariant of outbound delivery: what an action's row, its attempts, its audit events and its
  approval request say about each other. The audit history is replayed by an abstract machine
  (\<open>track\<close>) whose states are the specification of an action's life; the invariant contains the
  refinement statement that the replayed history is the stored status.
\<close>

section \<open>The abstract machine of an action's life\<close>

text \<open>\<open>Settled st n archived\<close>: at rest in status \<open>st\<close> after \<open>n\<close> attempts.\<close>

datatype tracker = Fresh | Settled action_status nat bool | Retrying nat | Trying nat

fun track :: "tracker \<Rightarrow> audit_action \<Rightarrow> tracker option" where
  "track Fresh AU_CREATED = Some (Settled PENDING 0 False)"
| "track (Settled PENDING n False) AU_DELIVERY_ATTEMPTED = Some (Trying (Suc n))"
| "track (Settled PENDING n False) AU_CANCELLED = Some (Settled CANCELLED n False)"
| "track (Settled PENDING n False) AU_EXPIRED = Some (Settled EXPIRED n False)"
| "track (Settled FAILED n False) AU_RETRIED = Some (Retrying n)"
| "track (Retrying n) AU_DELIVERY_ATTEMPTED = Some (Trying (Suc n))"
| "track (Trying n) AU_DELIVERED = Some (Settled DELIVERED n False)"
| "track (Trying n) AU_FAILED = Some (Settled FAILED n False)"
| "track (Settled st n b) AU_ARCHIVED =
     (if \<not> b \<and> allowed_targets st = [] then Some (Settled st n True) else None)"
| "track (Settled st n b) AU_UNARCHIVED = (if b then Some (Settled st n False) else None)"
| "track _ _ = None"

fun replay_from :: "tracker \<Rightarrow> audit_action list \<Rightarrow> tracker option" where
  "replay_from s [] = Some s"
| "replay_from s (e # es) = (case track s e of None \<Rightarrow> None | Some t \<Rightarrow> replay_from t es)"

definition replay :: "audit_action list \<Rightarrow> tracker option" where
  "replay es = replay_from Fresh es"

lemma replay_from_append:
  "replay_from s (xs @ ys) = (case replay_from s xs of None \<Rightarrow> None | Some t \<Rightarrow> replay_from t ys)"
  by (induction xs arbitrary: s) (auto split: option.splits)

lemma replay_append:
  "replay xs = Some t \<Longrightarrow> replay (xs @ ys) = replay_from t ys"
  by (simp add: replay_def replay_from_append)

section \<open>One action and what belongs to it\<close>

definition events_of :: "uuid \<Rightarrow> db \<Rightarrow> audit_action list" where
  "events_of k d = map ae_action (filter (\<lambda>e. ae_outbound_integration_action_id e = k) (audit_events d))"

definition approval_state :: "outbound_action \<Rightarrow> db \<Rightarrow> approval_status option" where
  "approval_state a d = (case oa_approval_request_id a of None \<Rightarrow> None
     | Some p \<Rightarrow> map_option ap_status (get_approval p d))"

definition status_coherent :: "outbound_action \<Rightarrow> bool" where
  "status_coherent a \<longleftrightarrow>
     (oa_delivered_at a \<noteq> None \<longleftrightarrow> oa_status a = DELIVERED) \<and>
     (oa_failed_at a \<noteq> None \<longleftrightarrow> oa_status a = FAILED) \<and>
     (oa_cancelled_at a \<noteq> None \<longleftrightarrow> oa_status a = CANCELLED) \<and>
     (oa_expired_at a \<noteq> None \<longleftrightarrow> oa_status a = EXPIRED) \<and>
     (oa_failure_code a \<noteq> None \<longleftrightarrow> oa_status a = FAILED) \<and>
     (oa_failure_message a \<noteq> None \<longleftrightarrow> oa_status a = FAILED) \<and>
     (oa_failure_classification a \<noteq> None \<longrightarrow> oa_status a = FAILED) \<and>
     (oa_provider_delivery_id a \<noteq> None \<longrightarrow> oa_status a = DELIVERED) \<and>
     (oa_archived_at a \<noteq> None \<longrightarrow> is_terminal a) \<and>
     (oa_requires_approval a \<longleftrightarrow> oa_approval_request_id a \<noteq> None)"

definition attempts_coherent :: "outbound_action \<Rightarrow> delivery_attempt list \<Rightarrow> bool" where
  "attempts_coherent a ats \<longleftrightarrow>
     map da_attempt_number ats = [1..<Suc (length ats)] \<and>
     (\<forall>x \<in> set ats. da_workspace_id x = oa_workspace_id a \<and>
                    da_integration_account_id x = oa_integration_account_id a) \<and>
     (ats = [] \<longleftrightarrow> oa_status a \<in> {PENDING, CANCELLED, EXPIRED}) \<and>
     (ats \<noteq> [] \<longrightarrow> da_status (last ats) = oa_status a) \<and>
     (\<forall>x \<in> set (butlast ats). da_status x = FAILED)"

definition view_ok ::
  "outbound_action \<Rightarrow> delivery_attempt list \<Rightarrow> audit_action list \<Rightarrow> approval_status option \<Rightarrow> bool" where
  "view_ok a ats evs ap \<longleftrightarrow>
     status_coherent a \<and> attempts_coherent a ats \<and>
     replay evs = Some (Settled (oa_status a) (length ats) (oa_archived_at a \<noteq> None)) \<and>
     (oa_requires_approval a \<longrightarrow> ap \<noteq> None) \<and>
     (oa_requires_approval a \<and> ats \<noteq> [] \<longrightarrow> ap = Some AP_APPROVED)"

text \<open>An audit event of an action carries the action's workspace and account.\<close>

definition event_scoped :: "outbound_action \<Rightarrow> audit_event \<Rightarrow> bool" where
  "event_scoped a e \<longleftrightarrow> (ae_outbound_integration_action_id e = oa_id a \<longrightarrow>
     ae_workspace_id e = oa_workspace_id a \<and>
     ae_integration_account_id e = oa_integration_account_id a)"

text \<open>The columns of an action that no request changes.\<close>

definition action_key :: "outbound_action \<Rightarrow> uuid \<times> uuid \<times> uuid \<times> string" where
  "action_key a = (oa_id a, oa_workspace_id a, oa_integration_account_id a, oa_idempotency_key a)"

lemma action_key_fields:
  "action_key a' = action_key a \<Longrightarrow> oa_id a' = oa_id a \<and> oa_workspace_id a' = oa_workspace_id a \<and>
     oa_integration_account_id a' = oa_integration_account_id a"
  by (simp add: action_key_def)

definition outbound_inv :: "db \<Rightarrow> bool" where
  "outbound_inv d \<longleftrightarrow>
     approvals_inv d \<and> distinct (map oa_id (actions d)) \<and>
     (\<forall>a \<in> set (actions d). oa_id a < next_id d) \<and>
     (\<forall>p \<in> set (approvals d). ap_id p < next_id d) \<and>
     (\<forall>x \<in> set (attempts d). da_id x < next_id d \<and> da_outbound_integration_action_id x < next_id d) \<and>
     (\<forall>e \<in> set (audit_events d). ae_outbound_integration_action_id e < next_id d) \<and>
     (\<forall>a \<in> set (actions d). \<forall>e \<in> set (audit_events d). event_scoped a e) \<and>
     (\<forall>a \<in> set (actions d).
        view_ok a (attempts_of (oa_id a) d) (events_of (oa_id a) d) (approval_state a d))"

section \<open>Reading the invariant\<close>

lemma fold_max_upt: "fold max [Suc 0..<Suc n] (0::nat) = n"
  by (induction n) auto

lemma attempt_count_coherent:
  "attempts_coherent a (attempts_of (oa_id a) d) \<Longrightarrow> attempt_count a d = length (attempts_of (oa_id a) d)"
  by (simp add: attempt_count_def attempts_coherent_def fold_max_upt del: upt_Suc)

lemma outbound_invD:
  assumes "outbound_inv d" and "a \<in> set (actions d)"
  shows "view_ok a (attempts_of (oa_id a) d) (events_of (oa_id a) d) (approval_state a d)"
    and "get_action (oa_id a) d = Some a" and "oa_id a < next_id d"
    and "attempt_count a d = length (attempts_of (oa_id a) d)"
proof -
  show v: "view_ok a (attempts_of (oa_id a) d) (events_of (oa_id a) d) (approval_state a d)"
    and "oa_id a < next_id d" using assms by (simp_all add: outbound_inv_def)
  show "get_action (oa_id a) d = Some a"
    using assms by (simp add: get_action_def row_find_in outbound_inv_def)
  show "attempt_count a d = length (attempts_of (oa_id a) d)"
    using v by (intro attempt_count_coherent) (simp add: view_ok_def)
qed

lemma get_action_for_account_InrD:
  "get_action_for_account ws acc k d = Inr a \<Longrightarrow> a \<in> set (actions d) \<and> oa_id a = k \<and>
     oa_workspace_id a = ws_id ws \<and> oa_integration_account_id a = ac_id acc"
  by (auto simp: get_action_for_account_def find_Some_iff split: option.splits)

lemma outbound_inv_frame:
  assumes "outbound_inv d" "actions d' = actions d" "approvals d' = approvals d" "attempts d' = attempts d"
    "audit_events d' = audit_events d" "next_id d \<le> next_id d'"
  shows "outbound_inv d'"
proof -
  have "attempts_of k d' = attempts_of k d" "events_of k d' = events_of k d"
    "approval_state a d' = approval_state a d" for k a
    using assms by (simp_all add: attempts_of_def events_of_def approval_state_def get_approval_def cong: option.case_cong)
  with assms show ?thesis
    by (fastforce simp: outbound_inv_def approvals_inv_def)
qed


section \<open>Changing one action\<close>

text \<open>
  Every operation on an existing action is an update of its row, with new attempts and new audit
  events of the same action. The invariant then only has to be checked for that action.
\<close>

lemma outbound_inv_update:
  assumes inv: "outbound_inv d" and a: "a \<in> set (actions d)" and key: "action_key a' = action_key a"
    and d': "d' = d\<lparr>actions := row_update oa_id a' (actions d), attempts := attempts d @ ats,
                     audit_events := audit_events d @ evs, next_id := n\<rparr>"
    and n: "next_id d \<le> n"
    and ats: "\<And>x. x \<in> set ats \<Longrightarrow> da_outbound_integration_action_id x = oa_id a \<and> da_id x < n"
    and evs: "\<And>e. e \<in> set evs \<Longrightarrow> ae_outbound_integration_action_id e = oa_id a \<and> event_scoped a e"
    and ok: "view_ok a' (attempts_of (oa_id a) d @ ats) (events_of (oa_id a) d @ map ae_action evs)
               (approval_state a' d)"
  shows "outbound_inv d'"
proof -
  note id = action_key_fields [OF key, THEN conjunct1]
  have at: "attempts_of k d' = attempts_of k d @ (if k = oa_id a then ats else [])" for k
    using ats by (auto simp: attempts_of_def d' filter_empty_conv filter_id_conv)
  have ev: "events_of k d' = events_of k d @ (if k = oa_id a then map ae_action evs else [])" for k
    using evs by (auto simp: events_of_def d' filter_empty_conv filter_id_conv)
  have ap: "approval_state x d' = approval_state x d" for x
    by (simp add: approval_state_def get_approval_def d' split: option.splits)
  have "view_ok x (attempts_of (oa_id x) d') (events_of (oa_id x) d') (approval_state x d')"
    if x: "x \<in> set (actions d')" for x
  proof -
    from x have "x = a' \<or> (x \<in> set (actions d) \<and> oa_id x \<noteq> oa_id a)"
      by (auto simp: d' id dest: row_update_in_set)
    then show ?thesis
      using ok inv by (auto simp: at ev ap id outbound_inv_def)
  qed
  moreover have "\<forall>x \<in> set (actions d'). oa_id x < next_id d'"
    using inv a id n by (auto simp: d' outbound_inv_def dest!: row_update_in_set)
  moreover have "oa_id a < n" using inv a n by (auto simp: outbound_inv_def)
  moreover have "\<forall>x \<in> set (actions d'). \<forall>e \<in> set (audit_events d'). event_scoped x e"
  proof (intro ballI)
    fix x e assume x: "x \<in> set (actions d')" and e: "e \<in> set (audit_events d')"
    from x consider "x = a'" | "x \<in> set (actions d)" "oa_id x \<noteq> oa_id a"
      by (auto simp: d' id dest: row_update_in_set)
    then show "event_scoped x e"
    proof cases
      case 1
      from e inv a evs have "event_scoped a e" by (auto simp: d' outbound_inv_def)
      with 1 action_key_fields [OF key] show ?thesis by (simp add: event_scoped_def)
    next
      case 2
      with e inv evs show ?thesis by (auto simp: d' outbound_inv_def event_scoped_def)
    qed
  qed
  ultimately show ?thesis
    using inv n ats evs unfolding outbound_inv_def
    by (auto simp: d' approvals_inv_def dest: order.strict_trans2)
qed

text \<open>An update that leaves status, timestamps, failure and approval fields alone.\<close>

definition same_lifecycle :: "outbound_action \<Rightarrow> outbound_action \<Rightarrow> bool" where
  "same_lifecycle a b \<longleftrightarrow> (\<exists>p r. b = a\<lparr>oa_priority := p, oa_owner_reference := r\<rparr>)"

lemma same_lifecycle_fields:
  "same_lifecycle a b \<Longrightarrow> action_key b = action_key a \<and> oa_approval_request_id b = oa_approval_request_id a"
  by (auto simp: same_lifecycle_def action_key_def)

lemma view_ok_same: "same_lifecycle a b \<Longrightarrow> view_ok a ats evs ap \<Longrightarrow> view_ok b ats evs ap"
  unfolding same_lifecycle_def
  by (elim exE) (simp add: view_ok_def status_coherent_def attempts_coherent_def is_terminal_def)

lemma approval_state_same:
  "oa_approval_request_id b = oa_approval_request_id a \<Longrightarrow> approval_state b d = approval_state a d"
  by (simp add: approval_state_def)

section \<open>What one delivery attempt does\<close>

lemma save_appended_attempt:
  assumes "\<And>x. x \<in> set xs \<Longrightarrow> da_id x \<noteq> da_id r" and "da_id r0 = da_id r"
  shows "row_update da_id r (xs @ [r0]) = xs @ [r]"
  using assms by (auto simp: row_update_def intro!: map_idI)

definition outcome_event :: "action_status \<Rightarrow> audit_action" where
  "outcome_event st = (if st = DELIVERED then AU_DELIVERED else AU_FAILED)"

definition attempted :: "outbound_action \<Rightarrow> outbound_action \<Rightarrow> delivery_attempt list
    \<Rightarrow> audit_action list \<Rightarrow> db \<Rightarrow> db \<Rightarrow> bool" where
  "attempted a a' ats evs d d' \<longleftrightarrow> (\<exists>es n.
     d' = d\<lparr>actions := row_update oa_id a' (actions d), attempts := attempts d @ ats,
            audit_events := audit_events d @ es, next_id := n\<rparr> \<and>
     next_id d \<le> n \<and> map ae_action es = evs \<and>
     (\<forall>x \<in> set ats. da_outbound_integration_action_id x = oa_id a \<and> da_id x < n) \<and>
     (\<forall>e \<in> set es. ae_outbound_integration_action_id e = oa_id a \<and> event_scoped a e))"

lemma attempted_inv:
  assumes "attempted a a' ats evs d d'" and "outbound_inv d" and "a \<in> set (actions d)"
    and "action_key a' = action_key a"
    and "view_ok a' (attempts_of (oa_id a) d @ ats) (events_of (oa_id a) d @ evs) (approval_state a' d)"
  shows "outbound_inv d'"
proof -
  from assms(1) obtain es n where
    d': "d' = d\<lparr>actions := row_update oa_id a' (actions d), attempts := attempts d @ ats,
            audit_events := audit_events d @ es, next_id := n\<rparr>"
    and n: "next_id d \<le> n" and evs: "map ae_action es = evs"
    and x: "\<forall>x \<in> set ats. da_outbound_integration_action_id x = oa_id a \<and> da_id x < n"
    and e: "\<forall>e \<in> set es. ae_outbound_integration_action_id e = oa_id a \<and> event_scoped a e"
    unfolding attempted_def by blast
  show ?thesis
    by (rule outbound_inv_update [OF assms(2,3,4) d' n]) (use x e assms(5) evs in simp_all)
qed

lemma persist_outcome_form:
  assumes "oa_status a = PENDING \<or> oa_status a = FAILED"
  shows "\<exists>a' att'. persist_outcome a att res t u d =
      Inr (a', save_attempt att' (save_action a' (audit_record a' (outcome_event (oa_status a')) u d))) \<and>
    a' = (if ar_delivered res then delivered_action res t a else failed_action res t a) \<and>
    da_id att' = da_id att \<and>
    da_outbound_integration_action_id att' = da_outbound_integration_action_id att \<and>
    da_workspace_id att' = da_workspace_id att \<and>
    da_integration_account_id att' = da_integration_account_id att \<and>
    da_attempt_number att' = da_attempt_number att \<and> da_status att' = oa_status a'"
  using assms
  by (cases "ar_delivered res")
    (auto simp: persist_outcome_def require_transition_def record_transition_audit_def
      audit_event_for_transition_def outcome_event_def delivered_action_def failed_action_def
      delivered_attempt_def failed_attempt_def Let_def)

text \<open>
  One delivery attempt of a pending or failed action never fails to be recorded: it appends one
  attempt with the next number and one pair of audit events, and the action takes the outcome.
\<close>

lemma deliver_action_effect:
  assumes "oa_status a = PENDING \<or> oa_status a = FAILED" and "\<forall>x \<in> set (attempts d). da_id x < next_id d"
  shows "\<exists>a' att d'. deliver_action reg a acc clk d = Inr ((a', acc), d') \<and>
    a' = (if ar_delivered (run_adapter reg a acc) then delivered_action (run_adapter reg a acc) (clk 7) a
          else failed_action (run_adapter reg a acc) (clk 7) a) \<and>
    da_attempt_number att = Suc (attempt_count a d) \<and> da_status att = oa_status a' \<and>
    da_workspace_id att = oa_workspace_id a \<and>
    da_integration_account_id att = oa_integration_account_id a \<and>
    attempted a a' [att] [AU_DELIVERY_ATTEMPTED, outcome_event (oa_status a')] d d'"
proof -
  let ?res = "run_adapter reg a acc"
  obtain att d1 where att: "new_attempt a (clk 5) d = (att, d1)" by fastforce
  let ?d2 = "audit_record a AU_DELIVERY_ATTEMPTED (clk 6) d1"
  from persist_outcome_form [OF assms(1), of att ?res "clk 7" "clk 8" ?d2]
  obtain a' att' where p: "persist_outcome a att ?res (clk 7) (clk 8) ?d2 =
      Inr (a', save_attempt att' (save_action a' (audit_record a' (outcome_event (oa_status a')) (clk 8) ?d2)))"
    and a': "a' = (if ar_delivered ?res then delivered_action ?res (clk 7) a else failed_action ?res (clk 7) a)"
    and f: "da_id att' = da_id att"
      "da_outbound_integration_action_id att' = da_outbound_integration_action_id att"
      "da_workspace_id att' = da_workspace_id att"
      "da_integration_account_id att' = da_integration_account_id att"
      "da_attempt_number att' = da_attempt_number att" "da_status att' = oa_status a'" by blast
  let ?d' = "save_attempt att' (save_action a' (audit_record a' (outcome_event (oa_status a')) (clk 8) ?d2))"
  have d1: "d1 = d\<lparr>attempts := attempts d @ [att], next_id := Suc (next_id d)\<rparr>"
    and g: "da_id att = next_id d" "da_outbound_integration_action_id att = oa_id a"
      "da_workspace_id att = oa_workspace_id a"
      "da_integration_account_id att = oa_integration_account_id a"
      "da_attempt_number att = Suc (attempt_count a d)"
    using att by (auto simp: new_attempt_def Let_def take_id_def)
  have ids: "oa_id a' = oa_id a" and scope: "oa_workspace_id a' = oa_workspace_id a"
      "oa_integration_account_id a' = oa_integration_account_id a"
    using a' by (auto simp: delivered_action_def failed_action_def)
  have atts: "row_update da_id att' (attempts d @ [att]) = attempts d @ [att']"
    using assms(2) f g by (intro save_appended_attempt) auto
  let ?e1 = "\<lparr>ae_id = Suc (next_id d), ae_workspace_id = oa_workspace_id a,
      ae_integration_account_id = oa_integration_account_id a,
      ae_outbound_integration_action_id = oa_id a, ae_action = AU_DELIVERY_ATTEMPTED,
      ae_created_at = utc (clk 6)\<rparr>"
  let ?e2 = "\<lparr>ae_id = Suc (Suc (next_id d)), ae_workspace_id = oa_workspace_id a',
      ae_integration_account_id = oa_integration_account_id a',
      ae_outbound_integration_action_id = oa_id a, ae_action = outcome_event (oa_status a'),
      ae_created_at = utc (clk 8)\<rparr>"
  have "?d' = d\<lparr>actions := row_update oa_id a' (actions d), attempts := attempts d @ [att'],
      audit_events := audit_events d @ [?e1, ?e2], next_id := Suc (Suc (Suc (next_id d)))\<rparr>"
    by (rule db.equality) (simp_all add: save_attempt_def save_action_def audit_record_def take_id_def
        d1 atts ids)
  then have "attempted a a' [att'] [AU_DELIVERY_ATTEMPTED, outcome_event (oa_status a')] d ?d'"
    unfolding attempted_def
    by (intro exI [of _ "[?e1, ?e2]"] exI [of _ "Suc (Suc (Suc (next_id d)))"])
      (simp add: f g event_scoped_def scope)
  moreover have "deliver_action reg a acc clk d = Inr ((a', acc), ?d')"
    by (simp add: deliver_action_def att p Let_def)
  ultimately show ?thesis using a' f g by metis
qed

end
