(* ===== verification/Outbound_Ops.thy ===== *)
theory Outbound_Ops
  imports Outbound
begin

text \<open>
  The operator operations on outbound actions: app/services/outbound_action_query.py (reading,
  priority, retention cleanup), outbound_action_archiving.py, outbound_action_labels.py,
  outbound_action_ownership.py and outbound_action_annotations.py.

  The database is the one of the models without foreign-key enforcement (SQLite's default).
\<close>

section \<open>Queries\<close>

definition action_account_join :: "db \<Rightarrow> (outbound_action \<times> integration_account) list" where
  "action_account_join d =
     [(a, c). a \<leftarrow> actions d, c \<leftarrow> accounts d, ac_id c = oa_integration_account_id a]"

definition query_get_for_workspace :: "workspace \<Rightarrow> uuid \<Rightarrow> db \<Rightarrow> error + outbound_action \<times> string" where
  "query_get_for_workspace ws action_id d =
     (case find (\<lambda>(a, c). oa_id a = action_id \<and> oa_workspace_id a = ws_id ws \<and>
                          ac_workspace_id c = ws_id ws) (action_account_join d) of
        None \<Rightarrow> Inl (OperatorE OutboundIntegrationActionQueryNotFoundError)
      | Some (a, c) \<Rightarrow> Inr (a, ac_provider c))"

record action_filter =
  qf_status :: "action_status option"
  qf_priority :: "action_priority option"
  qf_label :: "string option"
  qf_owner_reference :: "string option"
  qf_unowned :: "bool option"
  qf_archived :: "bool option"
  qf_provider :: "string option"
  qf_integration_account_id :: "uuid option"
  qf_created_after :: "datetime option"
  qf_created_before :: "datetime option"

text \<open>An optional text filter of a query: absent and empty text both mean no filter.\<close>

definition text_filter :: "(string \<Rightarrow> bool) \<Rightarrow> string option \<Rightarrow> bool" where
  "text_filter p x = (case x of None \<Rightarrow> True | Some s \<Rightarrow> s = [] \<or> p s)"

definition query_list_for_workspace ::
  "workspace \<Rightarrow> action_filter \<Rightarrow> int \<Rightarrow> db \<Rightarrow> error + (outbound_action \<times> string) list" where
  "query_list_for_workspace ws f limit d =
     bindE (validate_range (OperatorE OutboundActionQueryValidationError)
              (qf_created_after f) (qf_created_before f)) (\<lambda>_.
     if qf_owner_reference f \<noteq> None \<and> qf_unowned f \<noteq> None
     then Inl (OperatorE OutboundActionQueryValidationError)
     else
       let rows = filter (\<lambda>(a, c). oa_workspace_id a = ws_id ws) (action_account_join d);
           rows = (if qf_archived f = Some True
                   then filter (\<lambda>(a, c). oa_archived_at a \<noteq> None) rows
                   else filter (\<lambda>(a, c). oa_archived_at a = None) rows);
           rows = filter (\<lambda>(a, c). opt_filter (\<lambda>s. oa_status a = s) (qf_status f)) rows;
           rows = filter (\<lambda>(a, c). opt_filter (\<lambda>p. oa_priority a = p) (qf_priority f)) rows;
           rows = (case qf_label f of
                     None \<Rightarrow> rows
                   | Some l \<Rightarrow>
                       if l = [] then rows
                       else [(a, c). (a, c) \<leftarrow> rows, x \<leftarrow> labels d,
                               lb_outbound_integration_action_id x = oa_id a \<and>
                               lb_workspace_id x = ws_id ws \<and> lb_label x = l]);
           rows = filter (\<lambda>(a, c). opt_filter (\<lambda>o'. oa_owner_reference a = Some o') (qf_owner_reference f)) rows;
           rows = filter (\<lambda>(a, c). opt_filter (\<lambda>u. (oa_owner_reference a = None) = u) (qf_unowned f)) rows;
           rows = filter (\<lambda>(a, c). text_filter (\<lambda>p. ac_provider c = py_strip p) (qf_provider f)) rows;
           rows = filter (\<lambda>(a, c). opt_filter (\<lambda>i. oa_integration_account_id a = i)
                     (qf_integration_account_id f)) rows;
           rows = filter (\<lambda>(a, c). in_range (qf_created_after f) (qf_created_before f) (oa_created_at a)) rows
       in Inr (take (nat limit) (map (\<lambda>(a, c). (a, ac_provider c))
                 (order_desc (\<lambda>(a, c). dt_instant (oa_created_at a)) rows))))"

definition set_priority :: "workspace \<Rightarrow> uuid \<Rightarrow> action_priority \<Rightarrow> outbound_action op" where
  "set_priority ws action_id priority d =
     (case query_get_for_workspace ws action_id d of
        Inl e \<Rightarrow> (Inl e, d)
      | Inr (a, _) \<Rightarrow> let a' = a\<lparr>oa_priority := priority\<rparr> in (Inr a', save_action a' d))"

definition cleanup_removable :: "workspace \<Rightarrow> datetime \<Rightarrow> outbound_action \<Rightarrow> bool" where
  "cleanup_removable ws cutoff a \<longleftrightarrow>
     oa_workspace_id a = ws_id ws \<and> oa_status a \<in> {EXPIRED, CANCELLED} \<and>
     (case oa_expires_at a of None \<Rightarrow> False | Some e \<Rightarrow> dt_instant e < dt_instant cutoff) \<and>
     oa_archived_at a = None"

definition cleanup_expired_for_workspace :: "workspace \<Rightarrow> datetime \<Rightarrow> nat op" where
  "cleanup_expired_for_workspace ws cutoff d =
     (Inr (length (filter (cleanup_removable ws cutoff) (actions d))),
      d\<lparr>actions := filter (\<lambda>a. \<not> cleanup_removable ws cutoff a) (actions d)\<rparr>)"

section \<open>Archiving\<close>

definition archive :: "workspace \<Rightarrow> uuid \<Rightarrow> clock \<Rightarrow> outbound_action op" where
  "archive ws action_id clk d =
     (case query_get_for_workspace ws action_id d of
        Inl e \<Rightarrow> (Inl e, d)
      | Inr (a, _) \<Rightarrow>
          if oa_archived_at a \<noteq> None
          then (Inl (OperatorE OutboundIntegrationActionAlreadyArchivedError), d)
          else if \<not> is_terminal a
          then (Inl (OperatorE OutboundIntegrationActionNotArchivableError), d)
          else let a' = a\<lparr>oa_archived_at := Some (utc (clk 0))\<rparr>
               in (Inr a', audit_record a' AU_ARCHIVED (clk 1) (save_action a' d)))"

definition unarchive :: "workspace \<Rightarrow> uuid \<Rightarrow> clock \<Rightarrow> outbound_action op" where
  "unarchive ws action_id clk d =
     (case query_get_for_workspace ws action_id d of
        Inl e \<Rightarrow> (Inl e, d)
      | Inr (a, _) \<Rightarrow>
          if oa_archived_at a = None
          then (Inl (OperatorE OutboundIntegrationActionNotArchivedError), d)
          else let a' = a\<lparr>oa_archived_at := None\<rparr>
               in (Inr a', audit_record a' AU_UNARCHIVED (clk 0) (save_action a' d)))"

section \<open>Labels\<close>

definition MAX_OUTBOUND_ACTION_LABELS :: nat where "MAX_OUTBOUND_ACTION_LABELS = 10"

definition label_pattern :: "string \<Rightarrow> bool" where
  "label_pattern = head_tail_match (\<lambda>c. is_lower_az c \<or> is_digit09 c)
     (\<lambda>c. is_lower_az c \<or> is_digit09 c \<or> one_of ''_-'' c) 63"

definition label_normalize :: "string \<Rightarrow> error + string" where
  "label_normalize raw_label =
     (let label = py_lower (py_strip raw_label) in
      if \<not> label_pattern label then Inl (OperatorE OutboundActionLabelValidationError) else Inr label)"

definition labels_of :: "workspace \<Rightarrow> uuid \<Rightarrow> db \<Rightarrow> action_label list" where
  "labels_of ws action_id d =
     filter (\<lambda>l. lb_workspace_id l = ws_id ws \<and> lb_outbound_integration_action_id l = action_id) (labels d)"

definition get_label :: "workspace \<Rightarrow> uuid \<Rightarrow> string \<Rightarrow> db \<Rightarrow> action_label option" where
  "get_label ws action_id label d = find (\<lambda>l. lb_label l = label) (labels_of ws action_id d)"

definition add_label :: "workspace \<Rightarrow> uuid \<Rightarrow> string \<Rightarrow> clock \<Rightarrow> action_label op" where
  "add_label ws action_id raw_label clk d =
     (case bindE (query_get_for_workspace ws action_id d) (\<lambda>_. label_normalize raw_label) of
        Inl e \<Rightarrow> (Inl e, d)
      | Inr label \<Rightarrow>
          (case get_label ws action_id label d of
             Some existing \<Rightarrow> (Inr existing, d)
           | None \<Rightarrow>
               if length (labels_of ws action_id d) \<ge> MAX_OUTBOUND_ACTION_LABELS
               then (Inl (OperatorE OutboundActionLabelValidationError), d)
               else let l = \<lparr>lb_id = next_id d, lb_workspace_id = ws_id ws,
                             lb_outbound_integration_action_id = action_id, lb_label = label,
                             lb_created_at = utc (clk 0)\<rparr>
                    in (Inr l, take_id (d\<lparr>labels := labels d @ [l]\<rparr>))))"

definition remove_label :: "workspace \<Rightarrow> uuid \<Rightarrow> string \<Rightarrow> unit op" where
  "remove_label ws action_id raw_label d =
     (case bindE (query_get_for_workspace ws action_id d) (\<lambda>_. label_normalize raw_label) of
        Inl e \<Rightarrow> (Inl e, d)
      | Inr label \<Rightarrow>
          (case get_label ws action_id label d of
             None \<Rightarrow> (Inl (OperatorE OutboundActionLabelNotFoundError), d)
           | Some l \<Rightarrow> (Inr (), d\<lparr>labels := filter (\<lambda>x. lb_id x \<noteq> lb_id l) (labels d)\<rparr>)))"

definition list_labels :: "workspace \<Rightarrow> uuid \<Rightarrow> int \<Rightarrow> db \<Rightarrow> error + action_label list" where
  "list_labels ws action_id limit d =
     bindE (query_get_for_workspace ws action_id d) (\<lambda>_.
     Inr (take (nat limit) (sort_key (\<lambda>l. (lb_label l, lb_id l)) (labels_of ws action_id d))))"

section \<open>Ownership and annotations\<close>

definition owner_reference_pattern :: "string \<Rightarrow> bool" where
  "owner_reference_pattern = head_tail_match (\<lambda>c. is_upper_AZ c \<or> is_lower_az c \<or> is_digit09 c)
     (\<lambda>c. is_upper_AZ c \<or> is_lower_az c \<or> is_digit09 c \<or> one_of ''._:-'' c) 199"

definition owner_normalize :: "string option \<Rightarrow> error + string option" where
  "owner_normalize owner_reference =
     (case owner_reference of None \<Rightarrow> Inr None
      | Some r \<Rightarrow>
          let normalized = py_strip r in
          if \<not> owner_reference_pattern normalized
          then Inl (OperatorE OutboundActionOwnerReferenceValidationError)
          else Inr (Some normalized))"

definition set_owner_reference :: "workspace \<Rightarrow> uuid \<Rightarrow> string option \<Rightarrow> outbound_action op" where
  "set_owner_reference ws action_id owner_reference d =
     (case query_get_for_workspace ws action_id d of
        Inl e \<Rightarrow> (Inl e, d)
      | Inr (a, _) \<Rightarrow>
          (case owner_normalize owner_reference of
             Inl e \<Rightarrow> (Inl e, d)
           | Inr r \<Rightarrow> let a' = a\<lparr>oa_owner_reference := r\<rparr> in (Inr a', save_action a' d)))"

definition create_annotation :: "workspace \<Rightarrow> uuid \<Rightarrow> string \<Rightarrow> clock \<Rightarrow> action_annotation op" where
  "create_annotation ws action_id text clk d =
     (case query_get_for_workspace ws action_id d of
        Inl e \<Rightarrow> (Inl e, d)
      | Inr _ \<Rightarrow>
          let n = \<lparr>an_id = next_id d, an_workspace_id = ws_id ws,
                   an_outbound_integration_action_id = action_id, an_text = py_strip text,
                   an_created_at = utc (clk 0)\<rparr>
          in (Inr n, take_id (d\<lparr>annotations := annotations d @ [n]\<rparr>)))"

definition list_annotations :: "workspace \<Rightarrow> uuid \<Rightarrow> int \<Rightarrow> db \<Rightarrow> error + action_annotation list" where
  "list_annotations ws action_id limit d =
     bindE (query_get_for_workspace ws action_id d) (\<lambda>_.
     Inr (take (nat limit) (sort_key (\<lambda>n. (dt_instant (an_created_at n), an_id n))
       (filter (\<lambda>n. an_workspace_id n = ws_id ws \<and> an_outbound_integration_action_id n = action_id)
         (annotations d)))))"

section \<open>Lemmas\<close>

lemma action_account_join_mem:
  "(a, c) \<in> set (action_account_join d) \<longleftrightarrow>
     a \<in> set (actions d) \<and> c \<in> set (accounts d) \<and> ac_id c = oa_integration_account_id a"
  by (auto simp: action_account_join_def)

lemma query_get_InrD:
  "query_get_for_workspace ws k d = Inr (a, p) \<Longrightarrow>
     a \<in> set (actions d) \<and> oa_id a = k \<and> oa_workspace_id a = ws_id ws \<and>
     (\<exists>c \<in> set (accounts d). ac_id c = oa_integration_account_id a \<and> ac_workspace_id c = ws_id ws \<and>
        ac_provider c = p)"
  by (auto simp: query_get_for_workspace_def find_Some_iff in_set_conv_nth split: option.splits)
    (metis action_account_join_mem in_set_conv_nth)+

lemma label_chars:
  assumes "label_pattern s"
  shows "list_all (\<lambda>c. py_lower_char c = c) s" and "list_all (\<lambda>c. \<not> py_isspace c) s"
proof -
  have u: "py_lower_char CHR ''_'' = CHR ''_''" "\<not> py_isspace CHR ''_''"
    "py_lower_char CHR ''-'' = CHR ''-''" "\<not> py_isspace CHR ''-''"
    by (simp_all add: py_lower_char_def py_isspace_def Let_def)
  show "list_all (\<lambda>c. py_lower_char c = c) s"
    by (rule head_tail_match_all [OF assms [unfolded label_pattern_def]]) (auto simp: one_of_def u)
  show "list_all (\<lambda>c. \<not> py_isspace c) s"
    by (rule head_tail_match_all [OF assms [unfolded label_pattern_def]]) (use u in \<open>auto simp: one_of_def\<close>)
qed

lemma label_normalize_fixed: "label_pattern s \<Longrightarrow> label_normalize s = Inr s"
  using label_chars [of s] by (simp add: label_normalize_def py_strip_no_space py_lower_fixed)

lemma label_normalize_InrD: "label_normalize v = Inr n \<Longrightarrow> label_pattern n \<and> length n \<le> 64"
  by (auto simp: label_normalize_def Let_def label_pattern_def split: if_splits
      dest: head_tail_match_length)

section \<open>Invariant of labels\<close>

definition labels_inv :: "db \<Rightarrow> bool" where
  "labels_inv d \<longleftrightarrow>
     distinct (map lb_id (labels d)) \<and>
     (\<forall>l \<in> set (labels d). lb_id l < next_id d \<and> label_pattern (lb_label l)) \<and>
     (\<forall>ws k. distinct (map lb_label (labels_of ws k d)) \<and>
             length (labels_of ws k d) \<le> MAX_OUTBOUND_ACTION_LABELS)"

inductive label_step :: "db \<Rightarrow> db \<Rightarrow> bool" where
  ls_add: "add_label ws k raw clk d = (r, d') \<Longrightarrow> label_step d d'"
| ls_remove: "remove_label ws k raw d = (r', d') \<Longrightarrow> label_step d d'"

inductive_cases label_stepE: "label_step d d'"

lemma find_append_None: "find P xs = None \<Longrightarrow> find P (xs @ ys) = find P ys"
  by (induction xs) (auto split: if_splits)

lemma get_label_None_iff: "get_label ws k l d = None \<longleftrightarrow> l \<notin> lb_label ` set (labels_of ws k d)"
  by (auto simp: get_label_def find_None_iff)

lemma get_label_SomeD: "get_label ws k t d = Some l \<Longrightarrow> l \<in> set (labels_of ws k d) \<and> lb_label l = t"
  by (auto simp: get_label_def find_Some_iff)

lemma query_get_labels [simp]:
  "query_get_for_workspace ws k (d\<lparr>labels := x\<rparr>) = query_get_for_workspace ws k d"
  "query_get_for_workspace ws k (take_id d) = query_get_for_workspace ws k d"
  by (simp_all add: query_get_for_workspace_def action_account_join_def take_id_def)

lemma add_label_cases:
  assumes "add_label ws k raw clk d = (r, d')"
  obtains (same) "d' = d"
  | (added) t l where "label_normalize raw = Inr t" "get_label ws k t d = None"
      "length (labels_of ws k d) < MAX_OUTBOUND_ACTION_LABELS" "r = Inr l"
      "lb_id l = next_id d" "lb_workspace_id l = ws_id ws" "lb_outbound_integration_action_id l = k"
      "lb_label l = t" "d' = take_id (d\<lparr>labels := labels d @ [l]\<rparr>)"
proof (cases "bindE (query_get_for_workspace ws k d) (\<lambda>_. label_normalize raw)")
  case (Inl e)
  with assms show ?thesis by (intro same) (simp add: add_label_def)
next
  case (Inr t)
  then have n: "label_normalize raw = Inr t" by (auto simp: bindE_Inr_iff)
  show ?thesis
  proof (cases "get_label ws k t d = None \<and> length (labels_of ws k d) < MAX_OUTBOUND_ACTION_LABELS")
    case True
    show ?thesis
      by (rule added [where l = "\<lparr>lb_id = next_id d, lb_workspace_id = ws_id ws,
            lb_outbound_integration_action_id = k, lb_label = t, lb_created_at = utc (clk 0)\<rparr>"])
        (use assms n Inr True in \<open>simp_all add: add_label_def Let_def\<close>)
  next
    case False
    with assms Inr show ?thesis
      by (intro same) (auto simp: add_label_def Let_def split: option.splits if_splits)
  qed
qed

lemma add_label_inv:
  assumes a: "add_label ws k raw clk d = (r, d')" and inv: "labels_inv d"
  shows "labels_inv d'"
  using a
proof (cases rule: add_label_cases)
  case same
  with inv show ?thesis by simp
next
  case (added t l)
  have of': "labels_of w j d' = labels_of w j d @ (if ws_id w = ws_id ws \<and> j = k then [l] else [])"
    for w :: workspace and j
    using added by (simp add: labels_of_def take_id_def)
  have of_eq: "ws_id w = ws_id ws \<Longrightarrow> labels_of w k d = labels_of ws k d" for w :: workspace
    by (simp add: labels_of_def)
  have "label_pattern t" using added(1) label_normalize_InrD by blast
  moreover have "t \<notin> lb_label ` set (labels_of ws k d)" using added(2) by (simp add: get_label_None_iff)
  ultimately have new: "label_pattern (lb_label l)" "lb_label l \<notin> lb_label ` set (labels_of ws k d)"
    using added(8) by simp_all
  have per: "distinct (map lb_label (labels_of w j d')) \<and>
      length (labels_of w j d') \<le> MAX_OUTBOUND_ACTION_LABELS" for w :: workspace and j
  proof (cases "ws_id w = ws_id ws \<and> j = k")
    case True
    then have "labels_of w j d' = labels_of ws k d @ [l]" using of_eq [of w] by (simp add: of')
    moreover have "distinct (map lb_label (labels_of ws k d))" using inv by (simp add: labels_inv_def)
    ultimately show ?thesis using new(2) added(3) by simp
  next
    case False
    with inv show ?thesis by (auto simp: of' labels_inv_def)
  qed
  have "distinct (map lb_id (labels d @ [l]))" using inv added(5) by (auto simp: labels_inv_def)
  moreover have "\<forall>x \<in> set (labels d @ [l]). lb_id x < Suc (next_id d) \<and> label_pattern (lb_label x)"
    using inv added(5) new(1) by (auto simp: labels_inv_def less_Suc_eq)
  ultimately show ?thesis
    unfolding labels_inv_def using per by (simp add: added(9) take_id_def)
qed

lemma remove_label_inv:
  assumes a: "remove_label ws k raw d = (r, d')" and inv: "labels_inv d"
  shows "labels_inv d'"
proof -
  have "d' = d \<or> (\<exists>i. d' = d\<lparr>labels := filter (\<lambda>x. lb_id x \<noteq> i) (labels d)\<rparr>)"
    using a by (auto simp: remove_label_def split: sum.splits option.splits)
  moreover have "labels_inv (d\<lparr>labels := filter (\<lambda>x. lb_id x \<noteq> i) (labels d)\<rparr>)" for i
  proof -
    have "labels_of w j (d\<lparr>labels := filter (\<lambda>x. lb_id x \<noteq> i) (labels d)\<rparr>)
        = filter (\<lambda>x. lb_id x \<noteq> i) (labels_of w j d)" for w j
      by (simp add: labels_of_def conj_commute)
    then show ?thesis
      using inv unfolding labels_inv_def
      by (auto simp: distinct_map_filter intro: order_trans [OF length_filter_le])
  qed
  ultimately show ?thesis using inv by auto
qed

interpretation lbl: invariant_system label_step labels_inv
  by unfold_locales (auto elim!: label_stepE intro: add_label_inv remove_label_inv)

section \<open>Properties\<close>

text \<open>Whatever labels are added and removed, an action never has more than ten labels, never the
  same label twice, and every stored label is in normal form.\<close>

theorem label_limits:
  assumes "label_step\<^sup>*\<^sup>* d d'" and "labels_inv d"
  shows "length (labels_of ws k d') \<le> 10 \<and> distinct (map lb_label (labels_of ws k d')) \<and>
     (\<forall>l \<in> set (labels d'). label_normalize (lb_label l) = Inr (lb_label l))"
  using lbl.steps_inv [OF assms]
  by (auto simp: labels_inv_def MAX_OUTBOUND_ACTION_LABELS_def label_normalize_fixed)

lemma labels_inv_sample: "labels_inv sample_db"
  by (simp add: labels_inv_def labels_of_def sample_defs)

theorem label_limits_witness:
  "length (labels_of sample_ws 6 (snd (add_label sample_ws 6 ''Vip'' (\<lambda>_. 0) sample_db))) \<le> 10"
  using label_limits [OF r_into_rtranclp [of label_step, OF ls_add] labels_inv_sample,
      of sample_ws 6 "''Vip''" "\<lambda>_. 0"]
  by (metis prod.collapse)

text \<open>Adding a label is idempotent, and removing a newly added label, in any spelling with the
  same normal form, restores the labels as they were.\<close>

theorem add_remove_label:
  assumes inv: "labels_inv d" and add: "add_label ws k raw clk d = (Inr l, d')"
    and raw: "label_normalize raw' = label_normalize raw"
  shows "add_label ws k raw' clk' d' = (Inr l, d') \<and>
    (labels d' \<noteq> labels d \<longrightarrow>
       fst (remove_label ws k raw' d') = Inr () \<and> labels (snd (remove_label ws k raw' d')) = labels d)"
proof -
  from add obtain t where q: "bindE (query_get_for_workspace ws k d) (\<lambda>_. label_normalize raw) = Inr t"
    by (auto simp: add_label_def split: sum.splits)
  then obtain x where x: "query_get_for_workspace ws k d = Inr x" and t: "label_normalize raw = Inr t"
    by (auto simp: bindE_Inr_iff)
  show ?thesis
  proof (cases "get_label ws k t d")
    case (Some e)
    with add q have "l = e" "d' = d" by (simp_all add: add_label_def)
    with Some x t raw show ?thesis by (simp add: add_label_def)
  next
    case None
    with add q have l: "lb_id l = next_id d" "lb_workspace_id l = ws_id ws"
        "lb_outbound_integration_action_id l = k" "lb_label l = t"
      and d': "d' = take_id (d\<lparr>labels := labels d @ [l]\<rparr>)"
      by (auto simp: add_label_def Let_def split: if_splits)
    have "labels_of ws k d' = labels_of ws k d @ [l]"
      using l by (simp add: labels_of_def d' take_id_def)
    with None l have g: "get_label ws k t d' = Some l"
      by (simp add: get_label_def find_append_None)
    have "filter (\<lambda>y. lb_id y \<noteq> next_id d) (labels d) = labels d"
      using inv by (auto simp: labels_inv_def filter_id_conv)
    moreover have "query_get_for_workspace ws k d' = Inr x" using x by (simp add: d')
    moreover have "labels d' = labels d @ [l]" by (simp add: d' take_id_def)
    ultimately show ?thesis
      using g t raw l by (simp add: add_label_def remove_label_def)
  qed
qed

lemma sample_join:
  "query_get_for_workspace sample_ws 6 (sample_db\<lparr>actions := [sample_action PENDING]\<rparr>) =
     Inr (sample_action PENDING, ''meta'')"
  by (simp add: query_get_for_workspace_def action_account_join_def sample_defs)

theorem add_remove_label_witness:
  "let d = sample_db\<lparr>actions := [sample_action PENDING]\<rparr> in
   \<exists>l d'. add_label sample_ws 6 '' Vip'' (\<lambda>_. 0) d = (Inr l, d') \<and>
     labels (snd (remove_label sample_ws 6 ''vip'' d')) = labels d"
proof -
  let ?d = "sample_db\<lparr>actions := [sample_action PENDING]\<rparr>"
  have inv: "labels_inv ?d" by (simp add: labels_inv_def labels_of_def sample_defs)
  have n: "label_normalize '' Vip'' = Inr ''vip''" "label_normalize ''vip'' = Inr ''vip''"
    by code_simp+
  have empty: "labels ?d = []" by (simp add: sample_defs)
  obtain l d' where a: "add_label sample_ws 6 '' Vip'' (\<lambda>_. 0) ?d = (Inr l, d')"
    and ne: "labels d' \<noteq> labels ?d"
    using sample_join n empty
    by (simp add: add_label_def get_label_def labels_of_def MAX_OUTBOUND_ACTION_LABELS_def take_id_def Let_def)
  from add_remove_label [OF inv a, of "''vip''" "\<lambda>_. 0"] n ne a show ?thesis by auto
qed

end
