(* ===== verification/Assignments.thy ===== *)
theory Assignments
  imports Approvals
begin

text \<open>
  app/services/operator_assignments.py: the person responsible for a lead or for a pending approval
  request. An assignee is an active member of the workspace whose user is active; the assignment
  is four columns written together.
\<close>

definition ensure_actor_workspace :: "workspace \<Rightarrow> decision_actor \<Rightarrow> error + unit" where
  "ensure_actor_workspace ws actor =
     (if actor_workspace_id actor \<noteq> ws_id ws
      then Inl (OperatorE OperatorAssignmentActorWorkspaceMismatchError) else Inr ())"

definition ensure_pending_approval :: "approval_request \<Rightarrow> error + unit" where
  "ensure_pending_approval a =
     (if ap_status a \<noteq> AP_PENDING then Inl (OperatorE OperatorAssignmentConflictError) else Inr ())"

definition get_scoped_lead :: "workspace \<Rightarrow> uuid \<Rightarrow> db \<Rightarrow> error + lead" where
  "get_scoped_lead ws lead_id d =
     (case get_lead_row lead_id d of
        None \<Rightarrow> Inl (OperatorE OperatorAssignmentNotFoundError)
      | Some l \<Rightarrow> if ld_tenant_id l \<noteq> ws_slug ws
                  then Inl (OperatorE OperatorAssignmentNotFoundError) else Inr l)"

definition assignment_scoped_approval :: "workspace \<Rightarrow> uuid \<Rightarrow> db \<Rightarrow> error + approval_request" where
  "assignment_scoped_approval ws approval_id d =
     (case lead_scoped_approval ws approval_id d of
        Some a \<Rightarrow> Inr a
      | None \<Rightarrow>
          (case find (\<lambda>a. ap_id a = approval_id \<and>
                  (\<exists>x \<in> set (actions d). oa_approval_request_id x = Some (ap_id a) \<and>
                     oa_workspace_id x = ws_id ws)) (approvals d) of
             None \<Rightarrow> Inl (OperatorE OperatorAssignmentNotFoundError)
           | Some a \<Rightarrow> Inr a))"

definition eligible_target_membership :: "workspace \<Rightarrow> uuid \<Rightarrow> db \<Rightarrow> error + workspace_member" where
  "eligible_target_membership ws target_membership_id d =
     (case get_member target_membership_id d of
        None \<Rightarrow> Inl (OperatorE OperatorAssignmentNotFoundError)
      | Some m \<Rightarrow>
          if wm_workspace_id m \<noteq> ws_id ws \<or> \<not> wm_active m
          then Inl (OperatorE OperatorAssignmentNotFoundError)
          else (case get_user_row (wm_user_id m) d of
                  None \<Rightarrow> Inl (OperatorE OperatorAssignmentNotFoundError)
                | Some u \<Rightarrow> if \<not> us_active u
                            then Inl (OperatorE OperatorAssignmentNotFoundError) else Inr m))"

definition set_lead_assignment :: "workspace_member \<Rightarrow> decision_actor \<Rightarrow> int \<Rightarrow> lead \<Rightarrow> lead" where
  "set_lead_assignment target actor t l =
     l\<lparr>ld_assigned_to_membership_id := Some (wm_id target), ld_assigned_at := Some (utc t),
       ld_assigned_by_user_id := Some (actor_user_id actor),
       ld_assigned_by_membership_id := Some (actor_membership_id actor)\<rparr>"

definition set_approval_assignment ::
  "workspace_member \<Rightarrow> decision_actor \<Rightarrow> int \<Rightarrow> approval_request \<Rightarrow> approval_request" where
  "set_approval_assignment target actor t a =
     a\<lparr>ap_assigned_to_membership_id := Some (wm_id target), ap_assigned_at := Some (utc t),
       ap_assigned_by_user_id := Some (actor_user_id actor),
       ap_assigned_by_membership_id := Some (actor_membership_id actor)\<rparr>"

definition clear_lead_assignment :: "lead \<Rightarrow> lead" where
  "clear_lead_assignment l =
     l\<lparr>ld_assigned_to_membership_id := None, ld_assigned_at := None,
       ld_assigned_by_user_id := None, ld_assigned_by_membership_id := None\<rparr>"

definition clear_approval_assignment :: "approval_request \<Rightarrow> approval_request" where
  "clear_approval_assignment a =
     a\<lparr>ap_assigned_to_membership_id := None, ap_assigned_at := None,
       ap_assigned_by_user_id := None, ap_assigned_by_membership_id := None\<rparr>"

definition assign_lead :: "workspace \<Rightarrow> uuid \<Rightarrow> uuid \<Rightarrow> decision_actor \<Rightarrow> clock \<Rightarrow> lead op" where
  "assign_lead ws lead_id target_id actor clk d =
     (case bindE (ensure_actor_workspace ws actor) (\<lambda>_.
           bindE (get_scoped_lead ws lead_id d) (\<lambda>l.
           bindE (eligible_target_membership ws target_id d) (\<lambda>target. Inr (l, target)))) of
        Inl e \<Rightarrow> (Inl e, d)
      | Inr (l, target) \<Rightarrow>
          let l' = set_lead_assignment target actor (clk 0) l in (Inr l', save_lead l' d))"

definition clear_lead :: "workspace \<Rightarrow> uuid \<Rightarrow> decision_actor \<Rightarrow> lead op" where
  "clear_lead ws lead_id actor d =
     (case bindE (ensure_actor_workspace ws actor) (\<lambda>_. get_scoped_lead ws lead_id d) of
        Inl e \<Rightarrow> (Inl e, d)
      | Inr l \<Rightarrow> let l' = clear_lead_assignment l in (Inr l', save_lead l' d))"

definition assign_approval ::
  "workspace \<Rightarrow> uuid \<Rightarrow> uuid \<Rightarrow> decision_actor \<Rightarrow> clock \<Rightarrow> approval_request op" where
  "assign_approval ws approval_id target_id actor clk d =
     (case bindE (ensure_actor_workspace ws actor) (\<lambda>_.
           bindE (assignment_scoped_approval ws approval_id d) (\<lambda>a.
           bindE (ensure_pending_approval a) (\<lambda>_.
           bindE (eligible_target_membership ws target_id d) (\<lambda>target. Inr (a, target))))) of
        Inl e \<Rightarrow> (Inl e, d)
      | Inr (a, target) \<Rightarrow>
          let a' = set_approval_assignment target actor (clk 0) a in (Inr a', save_approval a' d))"

definition clear_approval :: "workspace \<Rightarrow> uuid \<Rightarrow> decision_actor \<Rightarrow> approval_request op" where
  "clear_approval ws approval_id actor d =
     (case bindE (ensure_actor_workspace ws actor) (\<lambda>_.
           bindE (assignment_scoped_approval ws approval_id d) (\<lambda>a.
           bindE (ensure_pending_approval a) (\<lambda>_. Inr a))) of
        Inl e \<Rightarrow> (Inl e, d)
      | Inr a \<Rightarrow> let a' = clear_approval_assignment a in (Inr a', save_approval a' d))"

record assignment_snapshot =
  sn_assigned_to_membership_id :: uuid
  sn_assigned_to_user_id :: "uuid option"
  sn_assigned_to_display_name :: "string option"
  sn_assigned_at :: "datetime option"
  sn_assigned_by_user_id :: "uuid option"
  sn_assigned_by_membership_id :: "uuid option"
  sn_assignee_membership_active :: "bool option"
  sn_assignee_user_active :: "bool option"

definition resolve_assignment ::
  "uuid option \<Rightarrow> datetime option \<Rightarrow> uuid option \<Rightarrow> uuid option \<Rightarrow> db \<Rightarrow> assignment_snapshot option" where
  "resolve_assignment to_id since by_user by_member d =
     (case to_id of None \<Rightarrow> None
      | Some m_id \<Rightarrow>
          let membership = get_member m_id d;
              us = (case membership of None \<Rightarrow> None | Some m \<Rightarrow> get_user_row (wm_user_id m) d)
          in Some \<lparr>sn_assigned_to_membership_id = m_id, sn_assigned_to_user_id = map_option us_id us,
               sn_assigned_to_display_name = Option.bind us us_display_name, sn_assigned_at = since,
               sn_assigned_by_user_id = by_user, sn_assigned_by_membership_id = by_member,
               sn_assignee_membership_active = map_option wm_active membership,
               sn_assignee_user_active = map_option us_active us\<rparr>)"

definition resolve_lead_assignment :: "lead \<Rightarrow> db \<Rightarrow> assignment_snapshot option" where
  "resolve_lead_assignment l = resolve_assignment (ld_assigned_to_membership_id l) (ld_assigned_at l)
     (ld_assigned_by_user_id l) (ld_assigned_by_membership_id l)"

definition resolve_approval_assignment :: "approval_request \<Rightarrow> db \<Rightarrow> assignment_snapshot option" where
  "resolve_approval_assignment a = resolve_assignment (ap_assigned_to_membership_id a) (ap_assigned_at a)
     (ap_assigned_by_user_id a) (ap_assigned_by_membership_id a)"

section \<open>Lemmas\<close>

lemma ensure_iff:
  "ensure_actor_workspace ws actor = Inr u \<longleftrightarrow> actor_workspace_id actor = ws_id ws"
  "ensure_pending_approval a = Inr u \<longleftrightarrow> ap_status a = AP_PENDING"
  by (simp_all add: ensure_actor_workspace_def ensure_pending_approval_def)

lemma eligible_InrD:
  "eligible_target_membership ws k d = Inr m \<Longrightarrow>
   get_member k d = Some m \<and> wm_id m = k \<and> wm_workspace_id m = ws_id ws \<and> wm_active m \<and>
   (\<exists>u. get_user_row (wm_user_id m) d = Some u \<and> us_active u)"
  by (auto simp: eligible_target_membership_def get_member_def split: option.splits if_splits
      dest: row_find_SomeD)

lemma get_scoped_lead_InrD:
  "get_scoped_lead ws k d = Inr l \<Longrightarrow> get_lead_row k d = Some l \<and> ld_id l = k \<and> ld_tenant_id l = ws_slug ws"
  by (auto simp: get_scoped_lead_def split: option.splits if_splits dest: lds.get_ident)

lemma assignment_scoped_InrD:
  "assignment_scoped_approval ws k d = Inr a \<Longrightarrow> a \<in> set (approvals d) \<and> ap_id a = k"
  by (auto simp: assignment_scoped_approval_def lead_scoped_approval_def find_Some_iff split: option.splits)

lemma frames_assign [simp]:
  "get_member k (save_lead l d) = get_member k d" "get_user_row k (save_lead l d) = get_user_row k d"
  "get_member k (save_approval a d) = get_member k d"
  "get_user_row k (save_approval a d) = get_user_row k d"
  by (simp_all add: get_defs save_defs)

text \<open>What assignment leaves of an approval request: everything but the four assignment columns.\<close>

lemma assignment_keeps_wf [simp]:
  "approval_wf (set_approval_assignment m ac t a) = approval_wf a"
  "approval_wf (clear_approval_assignment a) = approval_wf a"
  "ap_id (set_approval_assignment m ac t a) = ap_id a" "ap_id (clear_approval_assignment a) = ap_id a"
  "ap_status (set_approval_assignment m ac t a) = ap_status a"
  "ap_status (clear_approval_assignment a) = ap_status a"
  by (simp_all add: approval_wf_def set_approval_assignment_def clear_approval_assignment_def)

lemma assignment_approvals_inv:
  assumes "approvals_inv d" and "approval_wf a'"
  shows "approvals_inv (save_approval a' d)"
  using assms by (auto simp: approvals_inv_def save_approval_def dest!: row_update_in_set)

section \<open>Properties\<close>

text \<open>Assigning a lead succeeds exactly when the actor acts in the workspace, the lead carries
  its slug, and the target is an active member of it with an active user; the stored lead then
  resolves to a snapshot naming that member and the actor, and every failure changes nothing.\<close>

theorem assign_lead_spec:
  "case assign_lead ws lead_id target_id actor clk d of
     (Inr l', d') \<Rightarrow>
       actor_workspace_id actor = ws_id ws \<and> ld_id l' = lead_id \<and> ld_tenant_id l' = ws_slug ws \<and>
       get_lead_row lead_id d' = Some l' \<and>
       (\<exists>m u. get_member target_id d = Some m \<and> wm_workspace_id m = ws_id ws \<and> wm_active m \<and>
          get_user_row (wm_user_id m) d = Some u \<and> us_active u \<and>
          resolve_lead_assignment l' d' = Some \<lparr>sn_assigned_to_membership_id = target_id,
            sn_assigned_to_user_id = Some (us_id u), sn_assigned_to_display_name = us_display_name u,
            sn_assigned_at = Some (utc (clk 0)), sn_assigned_by_user_id = Some (actor_user_id actor),
            sn_assigned_by_membership_id = Some (actor_membership_id actor),
            sn_assignee_membership_active = Some True, sn_assignee_user_active = Some True\<rparr>)
   | (Inl e, d') \<Rightarrow> d' = d \<and> e \<in> {OperatorE OperatorAssignmentActorWorkspaceMismatchError,
                                        OperatorE OperatorAssignmentNotFoundError}"
proof (cases "ensure_actor_workspace ws actor")
  case (Inl e)
  then show ?thesis by (auto simp: assign_lead_def ensure_actor_workspace_def split: if_splits)
next
  case A: (Inr u)
  show ?thesis
  proof (cases "get_scoped_lead ws lead_id d")
    case (Inl e)
    with A show ?thesis
      by (auto simp: assign_lead_def get_scoped_lead_def split: option.splits if_splits)
  next
    case L: (Inr l)
    show ?thesis
    proof (cases "eligible_target_membership ws target_id d")
      case (Inl e)
      with A L show ?thesis
        by (auto simp: assign_lead_def eligible_target_membership_def split: option.splits if_splits)
    next
      case (Inr m)
      note m = eligible_InrD [OF Inr] and l = get_scoped_lead_InrD [OF L]
      have "actor_workspace_id actor = ws_id ws" using A by (simp add: ensure_iff)
      moreover
      have "get_lead_row lead_id (save_lead (set_lead_assignment m actor (clk 0) l) d) =
          Some (set_lead_assignment m actor (clk 0) l)"
        using l by (intro lds.get_modify) (auto simp: set_lead_assignment_def)
      ultimately show ?thesis using A L Inr m l
        by (auto simp: assign_lead_def Let_def resolve_lead_assignment_def resolve_assignment_def)
          (auto simp: set_lead_assignment_def)
    qed
  qed
qed

end
