(* ===== verification/Outbound_Steps.thy ===== *)
theory Outbound_Steps
  imports Outbound_Inv Outbound_Ops Assignments
begin

text \<open>
  The outbound subsystem as one step relation: every request that changes an outbound action, its
  attempts, its audit history or its approval, in any order and from any workspace. Every step
  keeps the invariant of Outbound_Inv; the properties of delivery follow from it.
\<close>

inductive outbound_step :: "retry_policy \<Rightarrow> db \<Rightarrow> db \<Rightarrow> bool" for pol where
  os_create: "create_action ws acc i key clk d = (r, d') \<Longrightarrow> outbound_step pol d d'"
| os_deliver: "deliver_pending_action reg ws acc k clk d = (r, d') \<Longrightarrow> outbound_step pol d d'"
| os_retry: "retry_failed_action reg pol ws acc k clk d = (r, d') \<Longrightarrow> outbound_step pol d d'"
| os_cancel: "cancel_pending_action ws acc k clk d = (r, d') \<Longrightarrow> outbound_step pol d d'"
| os_archive: "archive ws k clk d = (r', d') \<Longrightarrow> outbound_step pol d d'"
| os_unarchive: "unarchive ws k clk d = (r', d') \<Longrightarrow> outbound_step pol d d'"
| os_priority: "set_priority ws k p d = (r', d') \<Longrightarrow> outbound_step pol d d'"
| os_owner: "set_owner_reference ws k ref d = (r', d') \<Longrightarrow> outbound_step pol d d'"
| os_cleanup: "cleanup_expired_for_workspace ws cutoff d = (n, d') \<Longrightarrow> outbound_step pol d d'"
| os_decide: "decision_step actor k d d' \<Longrightarrow> outbound_step pol d d'"
| os_assign: "assign_approval ws k target actor clk d = (r'', d') \<Longrightarrow> outbound_step pol d d'"
| os_unassign: "clear_approval ws k actor d = (r'', d') \<Longrightarrow> outbound_step pol d d'"

inductive_cases outbound_stepE: "outbound_step pol d d'"

section \<open>The machine accepts each change\<close>

lemma view_ok_replay:
  "view_ok a ats evs ap \<Longrightarrow> replay (evs @ es) =
     replay_from (Settled (oa_status a) (length ats) (oa_archived_at a \<noteq> None)) es"
  by (rule replay_append) (simp add: view_ok_def)

lemma view_ok_not_archived:
  "view_ok a ats evs ap \<Longrightarrow> \<not> is_terminal a \<Longrightarrow> oa_archived_at a = None"
  by (auto simp: view_ok_def status_coherent_def)

lemma coherent_pending_no_attempts:
  "attempts_coherent a ats \<Longrightarrow> oa_status a \<in> {PENDING, CANCELLED, EXPIRED} \<Longrightarrow> ats = []"
  by (simp add: attempts_coherent_def)

lemma attempts_coherent_snoc:
  assumes "attempts_coherent a ats" and "oa_status a = PENDING \<or> oa_status a = FAILED"
    and "da_attempt_number att = Suc (length ats)" and "da_status att = oa_status a'"
    and "oa_status a' = DELIVERED \<or> oa_status a' = FAILED"
    and "da_workspace_id att = oa_workspace_id a" "da_integration_account_id att = oa_integration_account_id a"
    and "oa_workspace_id a' = oa_workspace_id a" "oa_integration_account_id a' = oa_integration_account_id a"
  shows "attempts_coherent a' (ats @ [att])"
proof -
  have "\<forall>x \<in> set ats. da_status x = FAILED"
  proof (cases "ats = []")
    case False
    with assms(1,2) have "da_status (last ats) = FAILED" "\<forall>x \<in> set (butlast ats). da_status x = FAILED"
      by (auto simp: attempts_coherent_def)
    moreover have "set ats = insert (last ats) (set (butlast ats))"
      using False by (metis append_butlast_last_id list.simps(15) rotate1.simps(2) set_rotate1)
    ultimately show ?thesis by simp
  qed simp
  moreover have "map da_attempt_number (ats @ [att]) = [1..<Suc (length (ats @ [att]))]"
    using assms(1,3) by (simp add: attempts_coherent_def)
  moreover have "\<forall>x \<in> set (ats @ [att]). da_workspace_id x = oa_workspace_id a' \<and>
      da_integration_account_id x = oa_integration_account_id a'"
    using assms(1,6-9) by (simp add: attempts_coherent_def)
  moreover have "oa_status a' \<notin> {PENDING, CANCELLED, EXPIRED}" using assms(5) by auto
  ultimately show ?thesis using assms(4) unfolding attempts_coherent_def by simp
qed

lemma status_coherent_outcome:
  assumes "status_coherent a" and "oa_status a = PENDING \<or> oa_status a = FAILED"
  shows "status_coherent (delivered_action res t a)" and "status_coherent (failed_action res t a)"
  using assms
  by (elim disjE; simp add: status_coherent_def delivered_action_def failed_action_def is_terminal_def)+

lemma attempted_view_ok:
  assumes v: "view_ok a ats evs ap"
    and st: "(oa_status a = PENDING \<and> pre = []) \<or> (oa_status a = FAILED \<and> pre = [AU_RETRIED])"
    and a': "a' = (if ar_delivered res then delivered_action res t a else failed_action res t a)"
    and att: "da_attempt_number att = Suc (length ats)" "da_status att = oa_status a'"
      "da_workspace_id att = oa_workspace_id a" "da_integration_account_id att = oa_integration_account_id a"
    and gate: "oa_requires_approval a \<Longrightarrow> ap = Some AP_APPROVED"
  shows "view_ok a' (ats @ [att]) (evs @ pre @ [AU_DELIVERY_ATTEMPTED, outcome_event (oa_status a')]) ap"
proof -
  have st': "oa_status a = PENDING \<or> oa_status a = FAILED" using st by auto
  have f: "oa_workspace_id a' = oa_workspace_id a" "oa_integration_account_id a' = oa_integration_account_id a"
    "oa_requires_approval a' = oa_requires_approval a" "oa_archived_at a' = oa_archived_at a"
    "oa_status a' = DELIVERED \<or> oa_status a' = FAILED"
    by (auto simp: a' delivered_action_def failed_action_def)
  have ar: "oa_archived_at a = None"
    using view_ok_not_archived [OF v] st' by (auto simp: is_terminal_def)
  have "attempts_coherent a' (ats @ [att])"
    using v st' att f by (intro attempts_coherent_snoc [of a]) (auto simp: view_ok_def)
  moreover have "status_coherent a'"
    using v st' status_coherent_outcome [of a] by (auto simp: a' view_ok_def)
  moreover have "replay (evs @ pre @ [AU_DELIVERY_ATTEMPTED, outcome_event (oa_status a')]) =
      Some (Settled (oa_status a') (length (ats @ [att])) (oa_archived_at a' \<noteq> None))"
    unfolding view_ok_replay [OF v] using st f(4,5) ar by (auto simp: outcome_event_def)
  ultimately show ?thesis using v gate f by (simp add: view_ok_def)
qed

section \<open>Each operation keeps the invariant\<close>

lemma outcome_key [simp]:
  "action_key (delivered_action r t a) = action_key a" "action_key (failed_action r t a) = action_key a"
  by (simp_all add: action_key_def delivered_action_def failed_action_def)

lemma gate_open:
  assumes "require_approved ws a d = Inr u" and "oa_requires_approval a"
  shows "approval_state a d = Some AP_APPROVED"
  using assms
  by (auto simp: require_approved_def gate_evaluate_def get_for_action_def approval_state_def Let_def
      split: if_splits option.splits)

lemma deliver_action_inv:
  assumes inv: "outbound_inv d" and a: "a \<in> set (actions d)" and st: "oa_status a = PENDING"
    and gate: "oa_requires_approval a \<Longrightarrow> approval_state a d = Some AP_APPROVED"
    and del: "deliver_action reg a acc clk d = Inr (r, d')"
  shows "outbound_inv d'"
proof -
  note i = outbound_invD [OF inv a]
  obtain a' att where a': "a' = (if ar_delivered (run_adapter reg a acc)
        then delivered_action (run_adapter reg a acc) (clk 7) a
        else failed_action (run_adapter reg a acc) (clk 7) a)"
    and att: "da_attempt_number att = Suc (attempt_count a d)" "da_status att = oa_status a'"
      "da_workspace_id att = oa_workspace_id a" "da_integration_account_id att = oa_integration_account_id a"
    and eff: "attempted a a' [att] [AU_DELIVERY_ATTEMPTED, outcome_event (oa_status a')] d d'"
    using deliver_action_effect [of a d reg acc clk] st inv del by (auto simp: outbound_inv_def)
  have key: "action_key a' = action_key a" by (simp add: a')
  have apid: "oa_approval_request_id a' = oa_approval_request_id a"
    by (auto simp: a' delivered_action_def failed_action_def)
  have "view_ok a' (attempts_of (oa_id a) d @ [att])
      (events_of (oa_id a) d @ [] @ [AU_DELIVERY_ATTEMPTED, outcome_event (oa_status a')]) (approval_state a d)"
    by (rule attempted_view_ok [OF i(1) _ a']) (use st att i(4) gate in auto)
  then show ?thesis
    by (intro attempted_inv [OF eff inv a key]) (simp add: approval_state_same [OF apid])
qed

lemma attempted_after_audit:
  assumes "attempted a a' ats evs (audit_record a ev t d) d'"
  shows "attempted a a' ats (ev # evs) d d'"
proof -
  let ?e = "\<lparr>ae_id = next_id d, ae_workspace_id = oa_workspace_id a,
     ae_integration_account_id = oa_integration_account_id a,
     ae_outbound_integration_action_id = oa_id a, ae_action = ev, ae_created_at = utc t\<rparr>"
  from assms obtain es n where
    d': "d' = (audit_record a ev t d)\<lparr>actions := row_update oa_id a' (actions d),
        attempts := attempts d @ ats, audit_events := (audit_events d @ [?e]) @ es, next_id := n\<rparr>"
    and n: "Suc (next_id d) \<le> n" and es: "map ae_action es = evs"
    and x: "\<forall>x \<in> set ats. da_outbound_integration_action_id x = oa_id a \<and> da_id x < n"
    and e: "\<forall>e \<in> set es. ae_outbound_integration_action_id e = oa_id a \<and> event_scoped a e"
    unfolding attempted_def by (auto simp: audit_record_def take_id_def)
  have "d' = d\<lparr>actions := row_update oa_id a' (actions d), attempts := attempts d @ ats,
        audit_events := audit_events d @ ?e # es, next_id := n\<rparr>"
    by (rule db.equality) (simp_all add: d' audit_record_def take_id_def)
  then show ?thesis
    unfolding attempted_def using n es x e by (intro exI [of _ "?e # es"] exI [of _ n])
      (simp add: event_scoped_def)
qed

lemma attempted_status_change:
  assumes key: "action_key a' = action_key a"
  shows "attempted a a' [] [ev] d (audit_record a' ev t (save_action a' d))"
proof -
  let ?e = "\<lparr>ae_id = next_id d, ae_workspace_id = oa_workspace_id a',
     ae_integration_account_id = oa_integration_account_id a',
     ae_outbound_integration_action_id = oa_id a, ae_action = ev, ae_created_at = utc t\<rparr>"
  have "audit_record a' ev t (save_action a' d) =
      d\<lparr>actions := row_update oa_id a' (actions d), attempts := attempts d @ [],
        audit_events := audit_events d @ [?e], next_id := Suc (next_id d)\<rparr>"
    by (rule db.equality)
      (simp_all add: action_key_fields [OF key] audit_record_def take_id_def save_action_def)
  then show ?thesis
    unfolding attempted_def
    by (intro exI [of _ "[?e]"] exI [of _ "Suc (next_id d)"])
      (simp add: event_scoped_def action_key_fields [OF key])
qed

lemma attempted_save: "attempted a a' [] [] d (save_action a' d)"
proof -
  have "save_action a' d = d\<lparr>actions := row_update oa_id a' (actions d), attempts := attempts d @ [],
        audit_events := audit_events d @ [], next_id := next_id d\<rparr>"
    by (rule db.equality) (simp_all add: save_action_def)
  then show ?thesis
    unfolding attempted_def by (intro exI [of _ "[]"] exI [of _ "next_id d"]) simp
qed

lemma attempt_count_audit [simp]: "attempt_count a (audit_record b e t d) = attempt_count a d"
  by (simp add: attempt_count_def attempts_of_def audit_record_def take_id_def)

lemma retry_deliver_effect:
  assumes inv: "outbound_inv d" and a: "a \<in> set (actions d)" and st: "oa_status a = FAILED"
    and del: "deliver_action reg a acc clk (audit_record a AU_RETRIED t d) = Inr (r, d')"
  shows "\<exists>a' att. a' = (if ar_delivered (run_adapter reg a acc)
        then delivered_action (run_adapter reg a acc) (clk 7) a
        else failed_action (run_adapter reg a acc) (clk 7) a) \<and>
    da_attempt_number att = Suc (length (attempts_of (oa_id a) d)) \<and> da_status att = oa_status a' \<and>
    da_workspace_id att = oa_workspace_id a \<and> da_integration_account_id att = oa_integration_account_id a \<and>
    attempted a a' [att] [AU_RETRIED, AU_DELIVERY_ATTEMPTED, outcome_event (oa_status a')] d d'"
proof -
  have "\<forall>x \<in> set (attempts (audit_record a AU_RETRIED t d)). da_id x < next_id (audit_record a AU_RETRIED t d)"
    using inv by (auto simp: outbound_inv_def audit_record_def take_id_def less_Suc_eq)
  with deliver_action_effect [of a "audit_record a AU_RETRIED t d" reg acc clk] st del
  obtain a' att where
    a': "a' = (if ar_delivered (run_adapter reg a acc)
        then delivered_action (run_adapter reg a acc) (clk 7) a
        else failed_action (run_adapter reg a acc) (clk 7) a)"
    and att: "da_attempt_number att = Suc (attempt_count a d)" "da_status att = oa_status a'"
      "da_workspace_id att = oa_workspace_id a" "da_integration_account_id att = oa_integration_account_id a"
    and eff: "attempted a a' [att] [AU_DELIVERY_ATTEMPTED, outcome_event (oa_status a')]
        (audit_record a AU_RETRIED t d) d'" by auto
  from attempted_after_audit [OF eff] a' att outbound_invD(4) [OF inv a] show ?thesis by auto
qed

lemma retry_inv:
  assumes inv: "outbound_inv d" and a: "a \<in> set (actions d)" and st: "oa_status a = FAILED"
    and del: "deliver_action reg a acc clk (audit_record a AU_RETRIED t d) = Inr (r, d')"
  shows "outbound_inv d'"
proof -
  note i = outbound_invD [OF inv a]
  from retry_deliver_effect [OF inv a st del] obtain a' att where
    a': "a' = (if ar_delivered (run_adapter reg a acc)
        then delivered_action (run_adapter reg a acc) (clk 7) a
        else failed_action (run_adapter reg a acc) (clk 7) a)"
    and att: "da_attempt_number att = Suc (length (attempts_of (oa_id a) d))" "da_status att = oa_status a'"
      "da_workspace_id att = oa_workspace_id a" "da_integration_account_id att = oa_integration_account_id a"
    and eff: "attempted a a' [att] [AU_RETRIED, AU_DELIVERY_ATTEMPTED, outcome_event (oa_status a')] d d'"
    by blast
  have key: "action_key a' = action_key a" by (simp add: a')
  have apid: "oa_approval_request_id a' = oa_approval_request_id a"
    by (auto simp: a' delivered_action_def failed_action_def)
  have ne: "attempts_of (oa_id a) d \<noteq> []"
    using i(1) st by (auto simp: view_ok_def attempts_coherent_def)
  have "view_ok a' (attempts_of (oa_id a) d @ [att])
      (events_of (oa_id a) d @ [AU_RETRIED] @ [AU_DELIVERY_ATTEMPTED, outcome_event (oa_status a')])
      (approval_state a d)"
    by (rule attempted_view_ok [OF i(1) _ a']) (use st att i(1) ne in \<open>auto simp: view_ok_def\<close>)
  then show ?thesis
    by (intro attempted_inv [OF eff inv a key]) (simp add: approval_state_same [OF apid])
qed

lemma status_change_inv:
  assumes inv: "outbound_inv d" and a: "a \<in> set (actions d)" and key: "action_key a' = action_key a"
    and apid: "oa_approval_request_id a' = oa_approval_request_id a"
    and ok: "\<And>ats evs ap. view_ok a ats evs ap \<Longrightarrow> view_ok a' ats (evs @ [ev]) ap"
  shows "outbound_inv (audit_record a' ev t (save_action a' d))"
  by (rule attempted_inv [OF attempted_status_change [OF key] inv a key])
    (simp add: approval_state_same [OF apid] ok [OF outbound_invD(1) [OF inv a]])

lemma view_ok_cancelled:
  assumes v: "view_ok a ats evs ap" and st: "oa_status a = PENDING"
    and a': "a' = a\<lparr>oa_status := CANCELLED, oa_cancelled_at := Some c\<rparr>"
  shows "view_ok a' ats (evs @ [AU_CANCELLED]) ap"
proof -
  have "oa_archived_at a = None" using view_ok_not_archived [OF v] st by (simp add: is_terminal_def)
  moreover have ats: "ats = []"
    using v st coherent_pending_no_attempts [of a ats] by (simp add: view_ok_def)
  moreover have "status_coherent a" "attempts_coherent a ats" using v by (simp_all add: view_ok_def)
  then have "status_coherent a'" "attempts_coherent a' ats"
    using st ats by (simp_all add: a' status_coherent_def attempts_coherent_def is_terminal_def)
  ultimately show ?thesis
    using v st unfolding view_ok_def [of a'] view_ok_replay [OF v] by (simp add: a' view_ok_def)
qed

lemma view_ok_expired:
  assumes v: "view_ok a ats evs ap" and st: "oa_status a = PENDING"
    and a': "a' = a\<lparr>oa_status := EXPIRED, oa_expired_at := Some c\<rparr>"
  shows "view_ok a' ats (evs @ [AU_EXPIRED]) ap"
proof -
  have "oa_archived_at a = None" using view_ok_not_archived [OF v] st by (simp add: is_terminal_def)
  moreover have ats: "ats = []"
    using v st coherent_pending_no_attempts [of a ats] by (simp add: view_ok_def)
  moreover have "status_coherent a" "attempts_coherent a ats" using v by (simp_all add: view_ok_def)
  then have "status_coherent a'" "attempts_coherent a' ats"
    using st ats by (simp_all add: a' status_coherent_def attempts_coherent_def is_terminal_def)
  ultimately show ?thesis
    using v st unfolding view_ok_def [of a'] view_ok_replay [OF v] by (simp add: a' view_ok_def)
qed

lemma view_ok_archived:
  assumes v: "view_ok a ats evs ap" and st: "is_terminal a" "oa_archived_at a = None"
    and a': "a' = a\<lparr>oa_archived_at := Some c\<rparr>"
  shows "view_ok a' ats (evs @ [AU_ARCHIVED]) ap"
proof -
  have "status_coherent a" "attempts_coherent a ats" using v by (simp_all add: view_ok_def)
  then have "status_coherent a'" "attempts_coherent a' ats"
    using st by (simp_all add: a' status_coherent_def attempts_coherent_def is_terminal_def)
  then show ?thesis
    using v st unfolding view_ok_def [of a'] view_ok_replay [OF v]
    by (cases "oa_status a") (simp_all add: a' view_ok_def is_terminal_def)
qed

lemma view_ok_unarchived:
  assumes v: "view_ok a ats evs ap" and st: "oa_archived_at a \<noteq> None"
    and a': "a' = a\<lparr>oa_archived_at := None\<rparr>"
  shows "view_ok a' ats (evs @ [AU_UNARCHIVED]) ap"
proof -
  have "status_coherent a" "attempts_coherent a ats" using v by (simp_all add: view_ok_def)
  then have "status_coherent a'" "attempts_coherent a' ats"
    using st by (simp_all add: a' status_coherent_def attempts_coherent_def is_terminal_def)
  then show ?thesis
    using v st unfolding view_ok_def [of a'] view_ok_replay [OF v]
    by (cases "oa_status a") (simp_all add: a' view_ok_def)
qed

lemma save_same_inv:
  assumes inv: "outbound_inv d" and a: "a \<in> set (actions d)" and s: "same_lifecycle a a'"
  shows "outbound_inv (save_action a' d)"
proof -
  note f = same_lifecycle_fields [OF s]
  show ?thesis
    by (rule attempted_inv [OF attempted_save inv a f [THEN conjunct1]])
      (simp add: approval_state_same [OF f [THEN conjunct2]] view_ok_same [OF s outbound_invD(1) [OF inv a]])
qed

lemma deliver_pending_cases:
  assumes "deliver_pending_action reg ws acc k clk d = (r, d')"
  obtains (same) "d' = d"
  | (expired) a where "a \<in> set (actions d)" "oa_id a = k" "oa_status a = PENDING"
      "d' = audit_record (a\<lparr>oa_status := EXPIRED, oa_expired_at := Some (utc (clk 1))\<rparr>) AU_EXPIRED (clk 2)
         (save_action (a\<lparr>oa_status := EXPIRED, oa_expired_at := Some (utc (clk 1))\<rparr>) d)"
      "oa_workspace_id a = ws_id ws" "is_expired a (clk 0)"
      "r = Inl (OutboundE OutboundIntegrationActionExpiredError)"
  | (attempted) a account r' where "a \<in> set (actions d)" "oa_id a = k" "oa_status a = PENDING"
      "require_approved ws a d = Inr ()" "deliver_action reg a account clk d = Inr (r', d')" "r = Inr r'"
      "get_for_workspace ws acc d = Inr account" "ac_active account" "\<not> is_expired a (clk 0)"
      "\<not> is_before_not_before a (clk 3)" "oa_workspace_id a = ws_id ws"
proof (cases "get_for_workspace ws acc d")
  case (Inl e)
  with assms show ?thesis by (intro same) (simp add: deliver_pending_action_def)
next
  case A: (Inr account)
  show ?thesis
  proof (cases "ac_active account")
    case False
    with assms A show ?thesis by (intro same) (simp add: deliver_pending_action_def)
  next
    case act: True
    show ?thesis
    proof (cases "get_action_for_account ws account k d")
      case (Inl e)
      with assms A act show ?thesis by (intro same) (simp add: deliver_pending_action_def)
    next
      case G: (Inr a)
      note a = get_action_for_account_InrD [OF G]
      show ?thesis
      proof (cases "oa_status a = PENDING \<and> is_expired a (clk 0)")
        case True
        with assms A act G a show ?thesis
          by (intro expired)
            (auto simp: deliver_pending_action_def require_transition_def record_transition_audit_def
              audit_event_for_transition_def Let_def)
      next
        case notexp: False
        show ?thesis
        proof (cases "oa_status a = PENDING \<and> \<not> is_before_not_before a (clk 3) \<and>
            require_approved ws a d = Inr ()")
          case False
          with assms A act G notexp show ?thesis
            by (intro same)
              (auto simp: deliver_pending_action_def require_pending_delivery_def split: if_splits sum.splits)
        next
          case True
          with assms A act G notexp show ?thesis
          proof (cases "deliver_action reg a account clk d")
            case (Inl e)
            with assms A act G notexp True show ?thesis
              by (intro same) (simp add: deliver_pending_action_def require_pending_delivery_def)
          next
            case (Inr x)
            with assms A act G notexp True a show ?thesis
              by (intro attempted [of a account "fst x"])
                (auto simp: deliver_pending_action_def require_pending_delivery_def split: prod.splits)
          qed
        qed
      qed
    qed
  qed
qed

lemma retry_cases:
  assumes "retry_failed_action reg pol ws acc k clk d = (r, d')"
  obtains (same) "d' = d"
  | (attempted) a account r' el where "a \<in> set (actions d)" "oa_id a = k" "oa_status a = FAILED"
      "retry_evaluate pol (int (attempt_count a d)) (oa_failure_code a) (oa_failure_classification a) = Inr el"
      "el_allowed el" "deliver_action reg a account clk (audit_record a AU_RETRIED (clk 4) d) = Inr (r', d')"
      "r = Inr r'" "oa_workspace_id a = ws_id ws"
proof (cases "get_for_workspace ws acc d")
  case (Inl e)
  with assms show ?thesis by (intro same) (simp add: retry_failed_action_def)
next
  case A: (Inr account)
  show ?thesis
  proof (cases "ac_active account")
    case False
    with assms A show ?thesis by (intro same) (simp add: retry_failed_action_def)
  next
    case act: True
    show ?thesis
    proof (cases "get_action_for_account ws account k d")
      case (Inl e)
      with assms A act show ?thesis by (intro same) (simp add: retry_failed_action_def)
    next
      case G: (Inr a)
      note a = get_action_for_account_InrD [OF G]
      let ?ev = "retry_evaluate pol (int (attempt_count a d)) (oa_failure_code a) (oa_failure_classification a)"
      show ?thesis
      proof (cases "oa_status a = FAILED \<and> (\<exists>el. ?ev = Inr el \<and> el_allowed el)")
        case False
        with assms A act G show ?thesis
          by (intro same)
            (auto simp: retry_failed_action_def require_retry_attempt_def split: if_splits sum.splits)
      next
        case True
        then obtain el where el: "?ev = Inr el" "el_allowed el" by blast
        show ?thesis
        proof (cases "deliver_action reg a account clk (audit_record a AU_RETRIED (clk 4) d)")
          case (Inl e)
          with assms A act G True el show ?thesis
            by (intro same) (simp add: retry_failed_action_def require_retry_attempt_def)
        next
          case (Inr x)
          with assms A act G True el a show ?thesis
            by (intro attempted [of a el account "fst x"])
              (auto simp: retry_failed_action_def require_retry_attempt_def split: prod.splits)
        qed
      qed
    qed
  qed
qed

lemma cancel_cases:
  assumes "cancel_pending_action ws acc k clk d = (r, d')"
  obtains (same) "d' = d"
  | (cancelled) a where "a \<in> set (actions d)" "oa_id a = k" "oa_status a = PENDING"
      "d' = audit_record (a\<lparr>oa_status := CANCELLED, oa_cancelled_at := Some (utc (clk 0))\<rparr>) AU_CANCELLED (clk 1)
         (save_action (a\<lparr>oa_status := CANCELLED, oa_cancelled_at := Some (utc (clk 0))\<rparr>) d)"
      "oa_workspace_id a = ws_id ws"
proof (cases "get_for_workspace ws acc d")
  case (Inl e)
  with assms show ?thesis by (intro same) (simp add: cancel_pending_action_def)
next
  case A: (Inr account)
  show ?thesis
  proof (cases "get_action_for_account ws account k d")
    case (Inl e)
    with assms A show ?thesis by (intro same) (simp add: cancel_pending_action_def)
  next
    case G: (Inr a)
    note a = get_action_for_account_InrD [OF G]
    show ?thesis
    proof (cases "oa_status a = PENDING")
      case True
      with assms A G a show ?thesis
        by (intro cancelled)
          (auto simp: cancel_pending_action_def require_transition_def record_transition_audit_def
            audit_event_for_transition_def Let_def)
    next
      case False
      then have "\<not> can_transition (oa_status a) CANCELLED" by (cases "oa_status a") simp_all
      with assms A G show ?thesis
        by (intro same) (simp add: cancel_pending_action_def require_transition_def)
    qed
  qed
qed

lemma deliver_pending_inv:
  assumes "deliver_pending_action reg ws acc k clk d = (r, d')" and inv: "outbound_inv d"
  shows "outbound_inv d'"
  using assms(1)
proof (cases rule: deliver_pending_cases)
  case same
  with inv show ?thesis by simp
next
  case (expired a)
  show ?thesis unfolding expired(4)
    by (rule status_change_inv [OF inv expired(1)])
      (use expired(3) in \<open>simp_all add: view_ok_expired action_key_def\<close>)
next
  case (attempted a account r')
  then show ?thesis
    by (intro deliver_action_inv [OF inv attempted(1,3) _ attempted(5)] gate_open)
qed

lemma retry_failed_inv:
  assumes "retry_failed_action reg pol ws acc k clk d = (r, d')" and inv: "outbound_inv d"
  shows "outbound_inv d'"
  using assms(1)
proof (cases rule: retry_cases)
  case same
  with inv show ?thesis by simp
next
  case (attempted a account r' el)
  then show ?thesis by (intro retry_inv [OF inv attempted(1,3)])
qed

lemma cancel_inv:
  assumes "cancel_pending_action ws acc k clk d = (r, d')" and inv: "outbound_inv d"
  shows "outbound_inv d'"
  using assms(1)
proof (cases rule: cancel_cases)
  case same
  with inv show ?thesis by simp
next
  case (cancelled a)
  show ?thesis unfolding cancelled(4)
    by (rule status_change_inv [OF inv cancelled(1)])
      (use cancelled(3) in \<open>simp_all add: view_ok_cancelled action_key_def\<close>)
qed

lemma archive_inv:
  assumes r: "archive ws k clk d = (r, d')" and inv: "outbound_inv d"
  shows "outbound_inv d'"
proof (cases "d' = d")
  case True
  with inv show ?thesis by simp
next
  case False
  with r obtain a p where q: "query_get_for_workspace ws k d = Inr (a, p)"
    and st: "oa_archived_at a = None" "is_terminal a"
    and d': "d' = audit_record (a\<lparr>oa_archived_at := Some (utc (clk 0))\<rparr>) AU_ARCHIVED (clk 1)
               (save_action (a\<lparr>oa_archived_at := Some (utc (clk 0))\<rparr>) d)"
    by (auto simp: archive_def Let_def split: sum.splits if_splits)
  have a: "a \<in> set (actions d)" using query_get_InrD [OF q] by simp
  show ?thesis unfolding d'
    by (rule status_change_inv [OF inv a]) (use st in \<open>simp_all add: view_ok_archived action_key_def\<close>)
qed

lemma unarchive_inv:
  assumes r: "unarchive ws k clk d = (r, d')" and inv: "outbound_inv d"
  shows "outbound_inv d'"
proof (cases "d' = d")
  case True
  with inv show ?thesis by simp
next
  case False
  with r obtain a p where q: "query_get_for_workspace ws k d = Inr (a, p)"
    and st: "oa_archived_at a \<noteq> None"
    and d': "d' = audit_record (a\<lparr>oa_archived_at := None\<rparr>) AU_UNARCHIVED (clk 0)
               (save_action (a\<lparr>oa_archived_at := None\<rparr>) d)"
    by (auto simp: unarchive_def Let_def split: sum.splits if_splits)
  have a: "a \<in> set (actions d)" using query_get_InrD [OF q] by simp
  show ?thesis unfolding d'
    by (rule status_change_inv [OF inv a]) (use st in \<open>simp_all add: view_ok_unarchived action_key_def\<close>)
qed

lemma same_lifecycle_updates [simp]:
  "same_lifecycle a (a\<lparr>oa_priority := p\<rparr>)" "same_lifecycle a (a\<lparr>oa_owner_reference := r\<rparr>)"
  unfolding same_lifecycle_def
  by (rule exI [of _ p], rule exI [of _ "oa_owner_reference a"], simp,
      rule exI [of _ "oa_priority a"], rule exI [of _ r], simp)

lemma priority_owner_inv:
  "set_priority ws k p d = (r, d') \<Longrightarrow> outbound_inv d \<Longrightarrow> outbound_inv d'"
  "set_owner_reference ws k ref d = (r, d') \<Longrightarrow> outbound_inv d \<Longrightarrow> outbound_inv d'"
  by (auto simp: set_priority_def set_owner_reference_def Let_def split: sum.splits
      dest!: query_get_InrD intro!: save_same_inv)

lemma cleanup_expired_inv:
  assumes r: "cleanup_expired_for_workspace ws cutoff d = (n, d')" and inv: "outbound_inv d"
  shows "outbound_inv d'"
proof -
  have d': "d' = d\<lparr>actions := filter (\<lambda>a. \<not> cleanup_removable ws cutoff a) (actions d)\<rparr>"
    using r by (simp add: cleanup_expired_for_workspace_def)
  have "attempts_of k d' = attempts_of k d" "events_of k d' = events_of k d"
    "approval_state a d' = approval_state a d" for k a
    by (simp_all add: d' attempts_of_def events_of_def approval_state_def get_approval_def split: option.split)
  with inv show ?thesis
    by (auto simp: outbound_inv_def d' approvals_inv_def distinct_map_filter)
qed

lemma approval_change_inv:
  assumes inv: "outbound_inv d" and p: "p \<in> set (approvals d)" and id: "ap_id p' = ap_id p"
    and st: "ap_status p = AP_PENDING" and wf: "approval_wf p'"
    and d': "d' = (save_approval p' d)\<lparr>messages := ms, next_id := n\<rparr>" and n: "next_id d \<le> n"
  shows "outbound_inv d'"
proof -
  have ai: "approvals_inv (save_approval p' d)"
    using inv wf by (intro assignment_approvals_inv) (simp_all add: outbound_inv_def)
  have gp: "get_approval (ap_id p) d = Some p"
    using inv p by (simp add: get_approval_def row_find_in outbound_inv_def approvals_inv_def)
  have get: "get_approval j d' = (if j = ap_id p then Some p' else get_approval j d)" for j
    using aps.get_put [of j p' d] gp by (simp add: d' get_approval_def id)
  have ok: "view_ok a ats evs (approval_state a d')" if v: "view_ok a ats evs (approval_state a d)" for a ats evs
    using v st gp by (auto simp: view_ok_def approval_state_def get split: option.splits)
  have "attempts_of k d' = attempts_of k d" "events_of k d' = events_of k d" for k
    by (simp_all add: d' attempts_of_def events_of_def save_approval_def)
  with inv ok have "\<forall>a \<in> set (actions d'). view_ok a (attempts_of (oa_id a) d') (events_of (oa_id a) d') (approval_state a d')"
    by (simp add: outbound_inv_def d' save_approval_def)
  moreover have "\<forall>x \<in> set (approvals d'). ap_id x < next_id d'"
    using inv p id n by (auto simp: d' save_approval_def outbound_inv_def dest!: row_update_in_set)
  moreover have "approvals_inv d'" using ai by (simp add: approvals_inv_def d')
  ultimately show ?thesis
    using inv n unfolding outbound_inv_def
    by (auto simp: d' save_approval_def dest: order.strict_trans2)
qed

lemma decision_inv:
  assumes "decision_step actor k d d'" and inv: "outbound_inv d"
  shows "outbound_inv d'"
  using assms(1)
proof cases
  case (ds_approve ws nt clk r)
  show ?thesis
  proof (cases "d' = d")
    case False
    with ds_approve obtain a where "pending_scoped_approval ws k actor d = Inr a"
      by (auto simp: approve_def split: sum.splits)
    note p = pending_scoped_InrD [OF this] and pa = this
    have a: "a \<in> set (approvals d)" using p get_scoped_approval_InrD by blast
    show ?thesis
    proof (cases "ap_lead_id a")
      case None
      with ds_approve pa have d': "d' = (save_approval (record_decision AP_APPROVED nt actor (clk 0) a) d)
          \<lparr>messages := messages d, next_id := next_id d\<rparr>"
        by (auto simp: approve_def Let_def save_approval_def)
      show ?thesis
        by (rule approval_change_inv [OF inv a _ _ _ d'])
          (use p None in \<open>simp_all add: approval_wf_def\<close>)
    next
      case (Some l)
      with ds_approve pa obtain ms where
        d': "d' = (save_approval (record_decision AP_EXECUTED nt actor (clk 0) a) d)
          \<lparr>messages := ms, next_id := Suc (next_id d)\<rparr>"
        by (auto simp: approve_def Let_def console_send_def save_approval_def take_id_def)
      show ?thesis
        by (rule approval_change_inv [OF inv a _ _ _ d'])
          (use p Some in \<open>simp_all add: approval_wf_def\<close>)
    qed
  qed (use inv in simp)
next
  case (ds_reject ws nt clk r)
  show ?thesis
  proof (cases "d' = d")
    case False
    with ds_reject obtain a where pa: "pending_scoped_approval ws k actor d = Inr a"
      by (auto simp: reject_def split: sum.splits)
    note p = pending_scoped_InrD [OF this]
    have a: "a \<in> set (approvals d)" using p get_scoped_approval_InrD by blast
    from ds_reject pa have d': "d' = (save_approval (record_decision AP_REJECTED nt actor (clk 0) a) d)
        \<lparr>messages := messages d, next_id := next_id d\<rparr>"
      by (auto simp: reject_def Let_def save_approval_def)
    show ?thesis
      by (rule approval_change_inv [OF inv a _ _ _ d']) (use p in \<open>simp_all add: approval_wf_def\<close>)
  qed (use inv in simp)
qed

lemma assign_inv:
  assumes inv: "outbound_inv d" and r: "assign_approval ws k target actor clk d = (r, d')"
  shows "outbound_inv d'"
proof (cases "d' = d")
  case False
  with r obtain a m where a: "assignment_scoped_approval ws k d = Inr a" "ap_status a = AP_PENDING"
    and d': "d' = (save_approval (set_approval_assignment m actor (clk 0) a) d)
       \<lparr>messages := messages d, next_id := next_id d\<rparr>"
    by (auto simp: assign_approval_def Let_def bindE_Inr_iff ensure_iff save_approval_def split: sum.splits)
  have "a \<in> set (approvals d)" using assignment_scoped_InrD a by blast
  then show ?thesis
    by (rule approval_change_inv [OF inv _ _ _ _ d'])
      (use inv a \<open>a \<in> set (approvals d)\<close> in \<open>auto simp: outbound_inv_def approvals_inv_def\<close>)
qed (use inv in simp)

lemma unassign_inv:
  assumes inv: "outbound_inv d" and r: "clear_approval ws k actor d = (r, d')"
  shows "outbound_inv d'"
proof (cases "d' = d")
  case False
  with r obtain a where a: "assignment_scoped_approval ws k d = Inr a" "ap_status a = AP_PENDING"
    and d': "d' = (save_approval (clear_approval_assignment a) d)
       \<lparr>messages := messages d, next_id := next_id d\<rparr>"
    by (auto simp: clear_approval_def Let_def bindE_Inr_iff ensure_iff save_approval_def split: sum.splits)
  have "a \<in> set (approvals d)" using assignment_scoped_InrD a by blast
  then show ?thesis
    by (rule approval_change_inv [OF inv _ _ _ _ d'])
      (use inv a \<open>a \<in> set (approvals d)\<close> in \<open>auto simp: outbound_inv_def approvals_inv_def\<close>)
qed (use inv in simp)

section \<open>Creating an action\<close>

lemma row_update_appended:
  assumes "\<And>x. x \<in> set xs \<Longrightarrow> key x \<noteq> key r" and "key r0 = key r"
  shows "row_update key r (xs @ [r0]) = xs @ [r]"
  using assms by (auto simp: row_update_def intro!: map_idI)

lemma create_action_cases:
  assumes "create_action ws acc i key clk d = (res, d')" and inv: "outbound_inv d"
  obtains (same) "d' = d"
  | (created) account a aps e n where "get_for_workspace ws acc d = Inr account" "ac_active account"
      "find_by_key ws account (py_strip key) d = None" "res = Inr (a, account)"
      "a = (new_action ws account (py_strip key) (normalize_input i) (next_id d) (clk 0))
             \<lparr>oa_approval_request_id := (if in_requires_approval i then Some (ap_id (hd aps)) else None)\<rparr>"
      "if in_requires_approval i then (\<exists>p. aps = [p] \<and> ap_id p = Suc (next_id d) \<and> ap_status p = AP_PENDING
         \<and> ap_lead_id p = None \<and> approval_wf p) else aps = []"
      "ae_action e = AU_CREATED" "ae_outbound_integration_action_id e = next_id d" "event_scoped a e"
      "d' = d\<lparr>actions := actions d @ [a], approvals := approvals d @ aps,
              audit_events := audit_events d @ [e], next_id := n\<rparr>"
      "Suc (Suc (next_id d)) \<le> n" "in_requires_approval i \<Longrightarrow> Suc (Suc (Suc (next_id d))) \<le> n"
proof (cases "get_for_workspace ws acc d")
  case (Inl e)
  with assms show ?thesis by (intro same) (simp add: create_action_def)
next
  case A: (Inr account)
  show ?thesis
  proof (cases "ac_active account \<and> find_by_key ws account (py_strip key) d = None")
    case False
    with assms A show ?thesis
      by (intro same) (auto simp: create_action_def Let_def split: option.splits if_splits)
  next
    case N: True
    have fresh: "\<And>x. x \<in> set (actions d) \<Longrightarrow> oa_id x \<noteq> next_id d"
      using inv by (auto simp: outbound_inv_def)
    let ?a = "new_action ws account (py_strip key) (normalize_input i) (next_id d) (clk 0)"
    have req: "in_requires_approval (normalize_input i) = in_requires_approval i"
      by (simp add: normalize_input_def)
    show ?thesis
    proof (cases "in_requires_approval i")
      case False
      let ?e = "\<lparr>ae_id = Suc (next_id d), ae_workspace_id = oa_workspace_id ?a,
         ae_integration_account_id = oa_integration_account_id ?a,
         ae_outbound_integration_action_id = next_id d, ae_action = AU_CREATED, ae_created_at = utc (clk 2)\<rparr>"
      have "d' = d\<lparr>actions := actions d @ [?a], approvals := approvals d @ [],
              audit_events := audit_events d @ [?e], next_id := Suc (Suc (next_id d))\<rparr>"
        using assms(1) A N False req
        by (intro db.equality)
          (auto simp: create_action_def Let_def audit_record_def take_id_def insert_action_def new_action_def)
      then show ?thesis
        using assms(1) A N False req
        by (intro created [of account ?a "[]" ?e "Suc (Suc (next_id d))"])
          (auto simp: create_action_def Let_def new_action_def event_scoped_def)
    next
      case True
      let ?p = "\<lparr>ap_id = Suc (next_id d), ap_lead_id = None,
            ap_action_type = action_type_value (oa_action_type ?a), ap_channel = ac_provider account,
            ap_payload = [], ap_status = AP_PENDING, ap_assigned_to_membership_id = None,
            ap_assigned_at = None, ap_assigned_by_user_id = None, ap_assigned_by_membership_id = None,
            ap_reviewer_note = None, ap_created_at = utc (clk 1), ap_decided_at = None,
            ap_decided_by_user_id = None, ap_decided_by_membership_id = None,
            ap_decided_by_role = None\<rparr>"
      let ?a' = "?a\<lparr>oa_approval_request_id := Some (Suc (next_id d))\<rparr>"
      let ?e = "\<lparr>ae_id = Suc (Suc (next_id d)), ae_workspace_id = oa_workspace_id ?a,
         ae_integration_account_id = oa_integration_account_id ?a,
         ae_outbound_integration_action_id = next_id d, ae_action = AU_CREATED, ae_created_at = utc (clk 2)\<rparr>"
      have rows: "row_update oa_id ?a' (actions d @ [?a]) = actions d @ [?a']"
        using fresh by (intro row_update_appended) (auto simp: new_action_def)
      have "d' = d\<lparr>actions := actions d @ [?a'], approvals := approvals d @ [?p],
              audit_events := audit_events d @ [?e], next_id := Suc (Suc (Suc (next_id d)))\<rparr>"
        using assms(1) A N True req rows
        by (intro db.equality)
          (auto simp: create_action_def create_for_action_def Let_def audit_record_def take_id_def
            insert_action_def save_action_def insert_approval_def new_action_def)
      then show ?thesis
        using assms(1) A N True req
        by (intro created [of account ?a' "[?p]" ?e "Suc (Suc (Suc (next_id d)))"])
          (auto simp: create_action_def create_for_action_def Let_def new_action_def approval_wf_def
            take_id_def insert_action_def event_scoped_def)
    qed
  qed
qed

lemma create_inv:
  assumes c: "create_action ws acc i key clk d = (res, d')" and inv: "outbound_inv d"
  shows "outbound_inv d'"
  using c inv
proof (cases rule: create_action_cases)
  case same
  with inv show ?thesis by simp
next
  case (created account a aps e n)
  have id: "oa_id a = next_id d" and st: "oa_status a = PENDING"
    and rest: "oa_delivered_at a = None" "oa_failed_at a = None" "oa_cancelled_at a = None"
      "oa_expired_at a = None" "oa_failure_code a = None" "oa_failure_message a = None"
      "oa_failure_classification a = None" "oa_provider_delivery_id a = None" "oa_archived_at a = None"
      "oa_requires_approval a = in_requires_approval i"
      "oa_approval_request_id a = (if in_requires_approval i then Some (Suc (next_id d)) else None)"
    using created(5,6) by (auto simp: new_action_def normalize_input_def split: if_splits)
  have at: "attempts_of k d' = attempts_of k d" for k
    using created(10) by (simp add: attempts_of_def)
  have ev: "events_of k d' = events_of k d @ (if k = next_id d then [AU_CREATED] else [])" for k
    using created(7,8,10) by (simp add: events_of_def)
  have none: "attempts_of (next_id d) d = []" "events_of (next_id d) d = []"
    using inv by (auto simp: attempts_of_def events_of_def outbound_inv_def filter_empty_conv)
  have ap: "get_approval k d' = get_approval k d" if "get_approval k d \<noteq> None" for k
    using created(10) that by (auto simp: get_approval_def row_find_append)
  have old: "view_ok x (attempts_of (oa_id x) d') (events_of (oa_id x) d') (approval_state x d')"
    if x: "x \<in> set (actions d)" for x
  proof -
    note v = outbound_invD [OF inv x]
    have "approval_state x d' = approval_state x d"
      using v(1) ap by (auto simp: view_ok_def approval_state_def status_coherent_def split: option.splits)
    with v show ?thesis by (simp add: at ev)
  qed
  have nap: "approval_state a d' = (if in_requires_approval i then Some AP_PENDING else None)"
  proof -
    have "get_approval (Suc (next_id d)) d = None"
      using inv by (auto simp: get_approval_def row_find_None_iff outbound_inv_def)
    then show ?thesis
      using created(6,10) rest(11)
      by (auto simp: approval_state_def get_approval_def row_find_append split: if_splits)
  qed
  have "view_ok a [] [AU_CREATED] (approval_state a d')"
    using st rest nap by (simp add: view_ok_def status_coherent_def attempts_coherent_def replay_def)
  then have new: "view_ok a (attempts_of (oa_id a) d') (events_of (oa_id a) d') (approval_state a d')"
    using none id by (simp add: at ev)
  have aps: "\<forall>p \<in> set aps. ap_id p < n \<and> next_id d < ap_id p \<and> approval_wf p" "distinct (map ap_id aps)"
    using created(6,12) by (auto split: if_splits)
  have ai: "approvals_inv d'"
    using inv aps by (fastforce simp: approvals_inv_def outbound_inv_def created(10))
  show ?thesis
    unfolding outbound_inv_def
  proof (intro conjI)
    show "approvals_inv d'" by (rule ai)
    show "distinct (map oa_id (actions d'))" using inv id by (auto simp: created(10) outbound_inv_def)
    show "\<forall>a \<in> set (actions d'). oa_id a < next_id d'"
      using inv id created(11) by (auto simp: created(10) outbound_inv_def dest!: bspec)
    show "\<forall>p \<in> set (approvals d'). ap_id p < next_id d'"
      using inv aps created(11) by (auto simp: created(10) outbound_inv_def dest!: bspec)
    show "\<forall>x \<in> set (attempts d'). da_id x < next_id d' \<and> da_outbound_integration_action_id x < next_id d'"
      using inv created(11) by (auto simp: created(10) outbound_inv_def dest!: bspec)
    show "\<forall>x \<in> set (audit_events d'). ae_outbound_integration_action_id x < next_id d'"
      using inv created(8,11) by (auto simp: created(10) outbound_inv_def dest!: bspec)
    show "\<forall>x \<in> set (actions d'). \<forall>e \<in> set (audit_events d'). event_scoped x e"
      using inv id created(8,9)
      by (fastforce simp: created(10) outbound_inv_def event_scoped_def)
    show "\<forall>a \<in> set (actions d'). view_ok a (attempts_of (oa_id a) d') (events_of (oa_id a) d') (approval_state a d')"
      using old new by (simp add: created(10))
  qed
qed

lemma outbound_step_inv:
  assumes "outbound_step pol d d'" and "outbound_inv d"
  shows "outbound_inv d'"
  using assms(1)
  by (cases rule: outbound_stepE)
    (use assms(2) in \<open>blast intro: create_inv deliver_pending_inv retry_failed_inv cancel_inv archive_inv
      unarchive_inv priority_owner_inv cleanup_expired_inv decision_inv assign_inv unassign_inv\<close>)+

interpretation ost: invariant_system "outbound_step pol" outbound_inv for pol
  by unfold_locales (rule outbound_step_inv)

section \<open>What one request does\<close>

text \<open>What the delivery of an action consists of.\<close>

definition delivery_columns where
  "delivery_columns (a :: outbound_action) = (oa_status a, oa_delivered_at a, oa_failed_at a,
     oa_cancelled_at a, oa_expired_at a, oa_provider_delivery_id a, oa_failure_code a, oa_content a,
     oa_external_target_id a)"

lemma attempted_actions: "attempted a a' ats evs d d' \<Longrightarrow> actions d' = row_update oa_id a' (actions d)"
  by (auto simp: attempted_def)

lemma attempted_next_id: "attempted a a' ats evs d d' \<Longrightarrow> next_id d \<le> next_id d'"
  by (auto simp: attempted_def)

lemma attempted_attempts_of:
  "attempted a a' ats evs d d' \<Longrightarrow> attempts_of k d' = attempts_of k d @ (if k = oa_id a then ats else [])"
  by (auto simp: attempted_def attempts_of_def filter_empty_conv filter_id_conv)

lemma evaluate_allowed_below:
  "retry_evaluate pol n c k = Inr el \<Longrightarrow> el_allowed el \<Longrightarrow> n < rp_maximum_attempts pol"
  by (auto simp: retry_evaluate_def split: if_splits)

text \<open>
  Every request is one of four changes: nothing of the actions and attempts; the removal of some
  actions; a new action under a fresh identifier and an unused key; or the update of one action,
  with at most one new attempt, which only a pending or a retryable failed action gets.
\<close>

inductive effect :: "retry_policy \<Rightarrow> db \<Rightarrow> db \<Rightarrow> bool" for pol d d' where
  same: "actions d' = actions d \<Longrightarrow> attempts d' = attempts d \<Longrightarrow> next_id d \<le> next_id d' \<Longrightarrow> effect pol d d'"
| removed: "actions d' = filter P (actions d) \<Longrightarrow> attempts d' = attempts d \<Longrightarrow> next_id d' = next_id d \<Longrightarrow>
    effect pol d d'"
| created: "actions d' = actions d @ [b] \<Longrightarrow> attempts d' = attempts d \<Longrightarrow> oa_id b = next_id d \<Longrightarrow>
    next_id d < next_id d' \<Longrightarrow>
    snd (action_key b) \<notin> (snd \<circ> action_key) ` set (actions d) \<Longrightarrow> effect pol d d'"
| updated: "x \<in> set (actions d) \<Longrightarrow> action_key y = action_key x \<Longrightarrow> attempted x y ats evs d d' \<Longrightarrow>
    (is_terminal x \<Longrightarrow> delivery_columns y = delivery_columns x) \<Longrightarrow>
    ats = [] \<or> (\<exists>att. ats = [att] \<and> (oa_status x = PENDING \<or>
      oa_status x = FAILED \<and> int (length (attempts_of (oa_id x) d)) < rp_maximum_attempts pol)) \<Longrightarrow>
    effect pol d d'"

lemma deliver_attempted:
  assumes inv: "outbound_inv d" and st: "oa_status a = PENDING"
    and del: "deliver_action reg a acc clk d = Inr (r, d')"
  shows "\<exists>a' att. attempted a a' [att] [AU_DELIVERY_ATTEMPTED, outcome_event (oa_status a')] d d' \<and>
    action_key a' = action_key a"
proof -
  have "\<forall>x \<in> set (attempts d). da_id x < next_id d" using inv by (simp add: outbound_inv_def)
  with deliver_action_effect [of a d reg acc clk] st obtain a' att where
    a': "a' = (if ar_delivered (run_adapter reg a acc) then delivered_action (run_adapter reg a acc) (clk 7) a
          else failed_action (run_adapter reg a acc) (clk 7) a)"
    and e: "attempted a a' [att] [AU_DELIVERY_ATTEMPTED, outcome_event (oa_status a')] d d'"
    using del by (metis (no_types, lifting) old.sum.inject(2) prod.inject)
  have "action_key a' = action_key a" by (simp add: a')
  with e show ?thesis by blast
qed

lemma create_effect:
  assumes c: "create_action ws acc i key clk d = (r, d')" and inv: "outbound_inv d"
  shows "effect pol d d'"
  using c inv
proof (cases rule: create_action_cases)
  case (created account b aps e n)
  have "snd (action_key b) = (ws_id ws, ac_id account, py_strip key)" "oa_id b = next_id d"
    using created(5) by (simp_all add: action_key_def new_action_def)
  with created(3,10,11) show ?thesis
    by (intro effect.created [of d' d b]) (auto simp: find_by_key_def find_None_iff action_key_def)
qed (simp add: effect.same)

lemma save_effect:
  assumes "query_get_for_workspace ws j d = Inr (x, q)" "action_key y = action_key x"
    and "delivery_columns y = delivery_columns x"
  shows "effect pol d (save_action y d)" "effect pol d (audit_record y ev t (save_action y d))"
proof -
  have x: "x \<in> set (actions d)" using query_get_InrD [OF assms(1)] by simp
  show "effect pol d (save_action y d)"
    by (rule effect.updated [OF x assms(2) attempted_save]) (simp_all add: assms(3))
  show "effect pol d (audit_record y ev t (save_action y d))"
    by (rule effect.updated [OF x assms(2) attempted_status_change [OF assms(2)]]) (simp_all add: assms(3))
qed

lemma operator_effect:
  "archive ws j clk d = (r, d') \<Longrightarrow> effect pol d d'"
  "unarchive ws j clk d = (r, d') \<Longrightarrow> effect pol d d'"
  "set_priority ws j p d = (r, d') \<Longrightarrow> effect pol d d'"
  "set_owner_reference ws j ref d = (r, d') \<Longrightarrow> effect pol d d'"
  by (auto simp: archive_def unarchive_def set_priority_def set_owner_reference_def Let_def action_key_def
      delivery_columns_def effect.same split: sum.splits if_splits intro!: save_effect)

lemma approval_effect:
  "decision_step actor j d d' \<Longrightarrow> effect pol d d'"
  "assign_approval ws j target actor clk d = (r, d') \<Longrightarrow> effect pol d d'"
  "clear_approval ws j actor d = (r, d') \<Longrightarrow> effect pol d d'"
  by (rule effect.same; auto elim!: decision_stepE simp: approve_def reject_def assign_approval_def
      clear_approval_def Let_def take_id_def save_approval_def split: sum.splits option.splits if_splits)+

lemma step_effect:
  assumes step: "outbound_step pol d d'" and inv: "outbound_inv d"
  shows "effect pol d d'"
  using step
proof cases
  case (os_create ws acc i key clk r)
  then show ?thesis using inv by (rule create_effect)
next
  case (os_deliver reg ws acc j clk r)
  then show ?thesis
  proof (cases rule: deliver_pending_cases)
    case same
    then show ?thesis by (simp add: effect.same)
  next
    case (expired x)
    show ?thesis unfolding expired(4)
      by (rule effect.updated [OF expired(1) _ attempted_status_change])
        (simp_all add: action_key_def expired(3) is_terminal_def)
  next
    case (attempted x account r')
    from deliver_attempted [OF inv attempted(3,5)] attempted(1,3) show ?thesis
      by (auto intro!: effect.updated simp: is_terminal_def)
  qed
next
  case (os_retry reg ws acc j clk r)
  then show ?thesis
  proof (cases rule: retry_cases)
    case same
    then show ?thesis by (simp add: effect.same)
  next
    case (attempted x account r' el)
    from retry_deliver_effect [OF inv attempted(1,3,6)] obtain y att where
      y: "action_key y = action_key x"
      and e: "Outbound_Inv.attempted x y [att] [AU_RETRIED, AU_DELIVERY_ATTEMPTED, outcome_event (oa_status y)] d d'"
      by (metis outcome_key)
    show ?thesis
      by (rule effect.updated [OF attempted(1) y e])
        (use attempted(3) evaluate_allowed_below [OF attempted(4,5)]
          outbound_invD(4) [OF inv attempted(1)] in \<open>simp_all add: is_terminal_def\<close>)
  qed
next
  case (os_cancel ws acc j clk r)
  then show ?thesis
  proof (cases rule: cancel_cases)
    case same
    then show ?thesis by (simp add: effect.same)
  next
    case (cancelled x)
    show ?thesis unfolding cancelled(4)
      by (rule effect.updated [OF cancelled(1) _ attempted_status_change])
        (simp_all add: action_key_def cancelled(3) is_terminal_def)
  qed
next
  case (os_cleanup ws cutoff n)
  then show ?thesis by (intro effect.removed) (auto simp: cleanup_expired_for_workspace_def)
qed (blast intro: operator_effect approval_effect)+

lemma row_find_filter:
  "distinct (map key rows) \<Longrightarrow> row_find key k (filter P rows) =
     (case row_find key k rows of None \<Rightarrow> None | Some r \<Rightarrow> if P r then Some r else None)"
proof (induction rows)
  case (Cons x rows)
  show ?case
  proof (cases "key x = k")
    case True
    with Cons.prems have "row_find key k rows = None" by (auto simp: row_find_None_iff)
    with True Cons show ?thesis by simp
  next
    case False
    with Cons show ?thesis by simp
  qed
qed simp

lemma get_action_row_update:
  assumes inv: "outbound_inv d" and a: "a \<in> set (actions d)" and id: "oa_id a' = oa_id a"
    and d': "actions d' = row_update oa_id a' (actions d)"
  shows "get_action k d' = (if k = oa_id a then Some a' else get_action k d)"
proof -
  have "get_action k d' = get_action k (save_action a' d)"
    by (simp add: get_action_def d' save_action_def)
  then show ?thesis
    using outbound_invD(2) [OF inv a] oas.get_put [of k a' d] id by auto
qed

end
