(* ===== verification/Outbound_Props.thy ===== *)
theory Outbound_Props
  imports Outbound_Steps
begin

text \<open>
  The properties of outbound delivery: consequences of the invariant over arbitrary sequences of
  requests, and the behaviour of single requests.
\<close>

section \<open>A database on which the properties are applied\<close>

text \<open>One action that needs no approval, just created.\<close>

definition sample_pending_db :: db where
  "sample_pending_db = sample_db\<lparr>actions := [sample_action PENDING],
     audit_events := [\<lparr>ae_id = 10, ae_workspace_id = 1, ae_integration_account_id = 4,
       ae_outbound_integration_action_id = 6, ae_action = AU_CREATED, ae_created_at = utc 0\<rparr>]\<rparr>"

definition sample_policy :: retry_policy where
  "sample_policy = \<lparr>rp_maximum_attempts = 3, rp_non_retryable_failure_codes = [],
     rp_non_retryable_failure_classes = []\<rparr>"

lemma sample_pending_inv: "outbound_inv sample_pending_db"
  by (simp add: outbound_inv_def approvals_inv_def sample_pending_db_def sample_defs view_ok_def
      status_coherent_def attempts_coherent_def attempts_of_def events_of_def replay_def is_terminal_def event_scoped_def)

definition sample_cancelled_db :: db where
  "sample_cancelled_db = snd (cancel_pending_action sample_ws 4 6 (\<lambda>_. 0) sample_pending_db)"

lemma sample_cancel_step: "outbound_step pol sample_pending_db sample_cancelled_db"
  by (rule os_cancel [of sample_ws 4 6 "\<lambda>_. 0"]) (simp add: sample_cancelled_db_def prod_eq_iff)

lemma sample_cancel_steps: "(outbound_step pol)\<^sup>*\<^sup>* sample_pending_db sample_cancelled_db"
  by (rule r_into_rtranclp) (rule sample_cancel_step)

lemma sample_cancelled_actions:
  "actions sample_cancelled_db = [(sample_action CANCELLED)\<lparr>oa_cancelled_at := Some (utc 0)\<rparr>]"
  by (simp add: sample_cancelled_db_def sample_pending_db_def cancel_pending_action_def
      get_for_workspace_def get_action_for_account_def require_transition_def
      record_transition_audit_def audit_event_for_transition_def sample_defs Let_def
      audit_record_def take_id_def save_action_def row_simps)

section \<open>Histories\<close>

text \<open>C2: The audit history is a faithful account: after any sequence of requests, replaying the
  events of an action through the abstract lifecycle machine yields exactly its stored status, its
  number of delivery attempts and whether it is archived.\<close>

theorem audit_replay_refines:
  assumes "(outbound_step pol)\<^sup>*\<^sup>* d d'" and "outbound_inv d" and "a \<in> set (actions d')"
  shows "replay (events_of (oa_id a) d') =
    Some (Settled (oa_status a) (length (attempts_of (oa_id a) d')) (oa_archived_at a \<noteq> None))"
  using outbound_invD(1) [OF ost.steps_inv [OF assms(1,2)] assms(3)] by (simp add: view_ok_def)

theorem audit_replay_refines_witness:
  "replay (events_of 6 sample_cancelled_db) = Some (Settled CANCELLED 0 False)"
proof -
  have "(sample_action CANCELLED)\<lparr>oa_cancelled_at := Some (utc 0)\<rparr> \<in> set (actions sample_cancelled_db)"
    by (simp add: sample_cancelled_actions)
  from audit_replay_refines [OF sample_cancel_steps sample_pending_inv this]
  have r: "replay (events_of 6 sample_cancelled_db) =
      Some (Settled CANCELLED (length (attempts_of 6 sample_cancelled_db)) False)"
    by (simp add: sample_action_def)
  have "outbound_inv sample_cancelled_db"
    by (rule ost.steps_inv [OF sample_cancel_steps sample_pending_inv])
  then have "attempts_coherent ((sample_action CANCELLED)\<lparr>oa_cancelled_at := Some (utc 0)\<rparr>)
      (attempts_of 6 sample_cancelled_db)"
    using outbound_invD(1) [of sample_cancelled_db "(sample_action CANCELLED)\<lparr>oa_cancelled_at := Some (utc 0)\<rparr>"]
    by (simp add: sample_cancelled_actions view_ok_def sample_action_def)
  then show ?thesis using r by (simp add: attempts_coherent_def sample_action_def)
qed

text \<open>C1: No action that requires approval is ever attempted without one: whatever was delivered,
  retried, decided or reassigned, an action that requires approval and has at least one attempt
  has an approval request that exists and is approved. Retrying does not check the gate again; it
  need not, since a decision is final.\<close>

theorem no_attempt_without_approval:
  assumes "(outbound_step pol)\<^sup>*\<^sup>* d d'" and "outbound_inv d" and "a \<in> set (actions d')"
    and "oa_requires_approval a" and "attempts_of (oa_id a) d' \<noteq> []"
  shows "\<exists>k p. oa_approval_request_id a = Some k \<and> get_approval k d' = Some p \<and> ap_status p = AP_APPROVED"
  using outbound_invD(1) [OF ost.steps_inv [OF assms(1,2)] assms(3)] assms(4,5)
  by (auto simp: view_ok_def approval_state_def split: option.splits)

definition sample_approved_db :: db where
  "sample_approved_db = sample_db\<lparr>
     actions := [(sample_action DELIVERED)\<lparr>oa_requires_approval := True,
        oa_approval_request_id := Some 7, oa_delivered_at := Some (utc 0)\<rparr>],
     approvals := [(sample_approval AP_APPROVED)\<lparr>ap_lead_id := None, ap_decided_at := Some (utc 0),
        ap_decided_by_user_id := Some 2, ap_decided_by_membership_id := Some 3,
        ap_decided_by_role := Some OWNER\<rparr>],
     attempts := [\<lparr>da_id = 20, da_workspace_id = 1, da_integration_account_id = 4,
        da_outbound_integration_action_id = 6, da_attempt_number = 1, da_status = DELIVERED,
        da_provider_delivery_id = None, da_started_at = utc 0, da_completed_at = Some (utc 0),
        da_failure_code = None, da_failure_message = None, da_failure_classification = None\<rparr>],
     audit_events := map (\<lambda>e. \<lparr>ae_id = 10, ae_workspace_id = 1, ae_integration_account_id = 4,
       ae_outbound_integration_action_id = 6, ae_action = e, ae_created_at = utc 0\<rparr>)
       [AU_CREATED, AU_DELIVERY_ATTEMPTED, AU_DELIVERED]\<rparr>"

lemma sample_approved_inv: "outbound_inv sample_approved_db"
  by (simp add: outbound_inv_def approvals_inv_def sample_approved_db_def sample_defs view_ok_def
      status_coherent_def attempts_coherent_def attempts_of_def events_of_def replay_def is_terminal_def event_scoped_def
      approval_wf_def approval_state_def get_approval_def)

theorem no_attempt_without_approval_witness:
  "\<exists>k p. get_approval k sample_approved_db = Some p \<and> ap_status p = AP_APPROVED"
proof -
  let ?a = "hd (actions sample_approved_db)"
  have "?a \<in> set (actions sample_approved_db)" "oa_requires_approval ?a"
    "attempts_of (oa_id ?a) sample_approved_db \<noteq> []"
    by (simp_all add: sample_approved_db_def attempts_of_def sample_action_def)
  from no_attempt_without_approval [OF rtranclp.rtrancl_refl sample_approved_inv this]
  show ?thesis by blast
qed

text \<open>C3: Attempts are numbered 1, 2, 3, ... without gaps in the order they were made, belong to the
  workspace and account of their action, and all but the last failed; the last one carries the
  action's status, and the count the delivery service takes (the largest number) is the count the
  status service takes (the number of rows).\<close>

theorem attempts_are_numbered:
  assumes "(outbound_step pol)\<^sup>*\<^sup>* d d'" and "outbound_inv d" and "a \<in> set (actions d')"
  shows "let ats = attempts_of (oa_id a) d' in
    map da_attempt_number ats = [1..<Suc (length ats)] \<and> attempt_count a d' = length ats \<and>
    (\<forall>x \<in> set ats. da_workspace_id x = oa_workspace_id a \<and>
                    da_integration_account_id x = oa_integration_account_id a) \<and>
    (\<forall>x \<in> set (butlast ats). da_status x = FAILED) \<and>
    (if oa_status a \<in> {PENDING, CANCELLED, EXPIRED} then ats = []
     else ats \<noteq> [] \<and> da_status (last ats) = oa_status a)"
proof -
  note i = outbound_invD [OF ost.steps_inv [OF assms(1,2)] assms(3)]
  from i(1) have "attempts_coherent a (attempts_of (oa_id a) d')" by (simp add: view_ok_def)
  with i(4) show ?thesis unfolding Let_def attempts_coherent_def by presburger
qed

theorem attempts_are_numbered_witness:
  "attempt_count (hd (actions sample_approved_db)) sample_approved_db = 1"
proof -
  have "hd (actions sample_approved_db) \<in> set (actions sample_approved_db)"
    by (simp add: sample_approved_db_def)
  from attempts_are_numbered [OF rtranclp.rtrancl_refl sample_approved_inv this]
  have "attempt_count (hd (actions sample_approved_db)) sample_approved_db =
      length (attempts_of (oa_id (hd (actions sample_approved_db))) sample_approved_db)"
    by (simp add: Let_def)
  then show ?thesis by (simp add: sample_approved_db_def attempts_of_def sample_action_def)
qed

text \<open>Status, timestamps, failure columns and provider identifier of an action always agree: each
  terminal timestamp is present exactly in its status, failure code and message exactly when the
  action failed, a provider identifier only when it was delivered, an archive time only when no
  further delivery is possible.\<close>

theorem action_columns_agree:
  assumes "(outbound_step pol)\<^sup>*\<^sup>* d d'" and "outbound_inv d" and "a \<in> set (actions d')"
  shows "(oa_delivered_at a \<noteq> None \<longleftrightarrow> oa_status a = DELIVERED) \<and>
    (oa_failed_at a \<noteq> None \<longleftrightarrow> oa_status a = FAILED) \<and>
    (oa_cancelled_at a \<noteq> None \<longleftrightarrow> oa_status a = CANCELLED) \<and>
    (oa_expired_at a \<noteq> None \<longleftrightarrow> oa_status a = EXPIRED) \<and>
    (oa_failure_code a \<noteq> None \<longleftrightarrow> oa_status a = FAILED) \<and>
    (oa_failure_message a \<noteq> None \<longleftrightarrow> oa_status a = FAILED) \<and>
    (oa_provider_delivery_id a = None \<or> oa_status a = DELIVERED) \<and>
    (oa_archived_at a = None \<or> is_terminal a) \<and>
    (oa_requires_approval a \<longleftrightarrow> oa_approval_request_id a \<noteq> None)"
  using outbound_invD(1) [OF ost.steps_inv [OF assms(1,2)] assms(3)]
  unfolding view_ok_def status_coherent_def by blast

theorem action_columns_agree_witness:
  "\<exists>a \<in> set (actions sample_cancelled_db). oa_cancelled_at a \<noteq> None \<and> oa_failed_at a = None"
proof -
  let ?a = "(sample_action CANCELLED)\<lparr>oa_cancelled_at := Some (utc 0)\<rparr>"
  have a: "?a \<in> set (actions sample_cancelled_db)" by (simp add: sample_cancelled_actions)
  from action_columns_agree [OF sample_cancel_steps sample_pending_inv a]
  show ?thesis by (intro bexI [OF _ a]) (simp add: sample_action_def)
qed

section \<open>How often an action is attempted\<close>

lemma step_attempts:
  assumes step: "outbound_step pol d d'" and inv: "outbound_inv d"
  shows "attempts_of k d' = attempts_of k d \<or>
    (\<exists>a att. a \<in> set (actions d) \<and> oa_id a = k \<and> attempts_of k d' = attempts_of k d @ [att] \<and>
       (oa_status a = PENDING \<or>
        oa_status a = FAILED \<and> int (length (attempts_of k d)) < rp_maximum_attempts pol))"
  using step_effect [OF step inv]
proof cases
  case (updated x y ats evs)
  then show ?thesis
    using attempted_attempts_of [OF updated(3), of k] by auto
qed (simp_all add: attempts_of_def)

lemma step_attempts_limit:
  assumes "outbound_step pol d d'" and inv: "outbound_inv d" and "1 \<le> rp_maximum_attempts pol"
    and "int (length (attempts_of k d)) \<le> rp_maximum_attempts pol"
  shows "int (length (attempts_of k d')) \<le> rp_maximum_attempts pol"
proof -
  have "attempts_of k d = []" if "a \<in> set (actions d)" "oa_id a = k" "oa_status a = PENDING" for a
    using outbound_invD(1) [OF inv that(1)] that by (simp add: view_ok_def attempts_coherent_def)
  with step_attempts [OF assms(1,2), of k] assms(3,4) show ?thesis by fastforce
qed

text \<open>C4: No action is attempted more often than the retry policy's maximum, however deliveries and
  retries are interleaved, with whatever adapters and failure codes.\<close>

theorem attempt_limit:
  assumes "(outbound_step pol)\<^sup>*\<^sup>* d d'" and "outbound_inv d" and "1 \<le> rp_maximum_attempts pol"
    and "int (length (attempts_of k d)) \<le> rp_maximum_attempts pol"
  shows "int (length (attempts_of k d')) \<le> rp_maximum_attempts pol"
  by (rule ost.steps_keep [where P = "\<lambda>s. int (length (attempts_of k s)) \<le> rp_maximum_attempts pol",
        OF _ assms(1,2,4)])
    (rule step_attempts_limit [OF _ _ assms(3)])

theorem attempt_limit_witness: "length (attempts_of 6 sample_cancelled_db) \<le> 3"
proof -
  have "int (length (attempts_of 6 sample_pending_db)) \<le> rp_maximum_attempts sample_policy"
    by (simp add: sample_pending_db_def attempts_of_def sample_policy_def sample_defs)
  from attempt_limit [OF sample_cancel_steps [of sample_policy] sample_pending_inv _ this]
  show ?thesis by (simp add: sample_policy_def)
qed

section \<open>Terminal actions\<close>

text \<open>What a request can do to the row of an existing action.\<close>

lemma step_action:
  assumes step: "outbound_step pol d d'" and inv: "outbound_inv d" and g: "get_action k d = Some a"
  shows "get_action k d' = None \<or> (\<exists>b. get_action k d' = Some b \<and>
     (is_terminal a \<longrightarrow> delivery_columns b = delivery_columns a))"
  using step_effect [OF step inv]
proof cases
  case same
  with g show ?thesis by (simp add: get_action_def)
next
  case (removed P)
  with g inv show ?thesis by (cases "P a") (auto simp: get_action_def row_find_filter outbound_inv_def)
next
  case (created b)
  with g show ?thesis by (simp add: get_action_def row_find_append)
next
  case (updated x y ats evs)
  then show ?thesis
    using get_action_row_update [OF inv updated(1) _ attempted_actions [OF updated(3)], of k]
      outbound_invD(2) [OF inv updated(1)] g by (auto simp: action_key_def)
qed

text \<open>Identifiers are never used again.\<close>

lemma step_ids:
  assumes step: "outbound_step pol d d'" and inv: "outbound_inv d"
  shows "set (map oa_id (actions d')) \<subseteq> insert (next_id d) (set (map oa_id (actions d))) \<and>
    next_id d \<le> next_id d'"
  using step_effect [OF step inv]
proof cases
  case (updated x y ats evs)
  with attempted_actions [OF updated(3)] show ?thesis
    by (metis attempted_next_id map_key_row_update subset_insertI)
qed auto

lemma step_terminal:
  assumes step: "outbound_step pol d d'" and inv: "outbound_inv d" and tm: "is_terminal a"
    and k: "k < next_id d" and P: "\<forall>b. get_action k d = Some b \<longrightarrow> delivery_columns b = delivery_columns a"
  shows "k < next_id d' \<and> (\<forall>b. get_action k d' = Some b \<longrightarrow> delivery_columns b = delivery_columns a)"
proof (cases "get_action k d")
  case None
  then have "k \<notin> set (map oa_id (actions d))" by (simp add: get_action_def row_find_None_iff)
  with step_ids [OF step inv] k have "k \<notin> set (map oa_id (actions d'))" by auto
  then have "get_action k d' = None" by (simp add: get_action_def row_find_None_iff)
  with step_ids [OF step inv] k show ?thesis by simp
next
  case (Some x)
  with P have "delivery_columns x = delivery_columns a" by simp
  moreover from this tm have "is_terminal x" by (simp add: delivery_columns_def is_terminal_def)
  ultimately show ?thesis
    using step_action [OF step inv Some] step_ids [OF step inv] k by auto
qed

text \<open>C5: A delivered, cancelled or expired action is final: after any further sequence of requests it
  is either gone (removed by the retention cleanup) or has the same status, timestamps, provider
  identifier, failure code, target and content.\<close>

theorem terminal_actions_final:
  assumes steps: "(outbound_step pol)\<^sup>*\<^sup>* d d'" and inv: "outbound_inv d"
    and a: "get_action k d = Some a" and tm: "is_terminal a"
  shows "get_action k d' = None \<or>
    (\<exists>b. get_action k d' = Some b \<and> delivery_columns b = delivery_columns a)"
proof -
  let ?P = "\<lambda>s. k < next_id s \<and> (\<forall>b. get_action k s = Some b \<longrightarrow> delivery_columns b = delivery_columns a)"
  have "k < next_id d"
    using a inv by (auto simp: get_action_def outbound_inv_def dest!: row_find_SomeD)
  with a have start: "?P d" by simp
  have "?P d'"
    by (rule ost.steps_keep [where P = ?P, OF _ steps inv start]) (use step_terminal [OF _ _ tm] in blast)
  then show ?thesis by (cases "get_action k d'") auto
qed

theorem terminal_actions_final_witness:
  "\<exists>b. get_action 6 (snd (cancel_pending_action sample_ws 4 6 (\<lambda>_. 5) sample_approved_db)) = Some b \<and>
     oa_status b = DELIVERED"
proof -
  let ?d' = "snd (cancel_pending_action sample_ws 4 6 (\<lambda>_. 5) sample_approved_db)"
  let ?a = "hd (actions sample_approved_db)"
  have step: "outbound_step sample_policy sample_approved_db ?d'"
    by (rule os_cancel [of sample_ws 4 6 "\<lambda>_. 5"]) (simp add: prod_eq_iff)
  have a: "get_action 6 sample_approved_db = Some ?a" "is_terminal ?a" "oa_status ?a = DELIVERED"
    by (simp_all add: sample_approved_db_def get_action_def sample_action_def is_terminal_def)
  have "map oa_id (actions ?d') = map oa_id (actions sample_approved_db)"
    by (simp add: cancel_pending_action_def sample_approved_db_def sample_defs get_for_workspace_def
        get_action_for_account_def require_transition_def)
  then have "get_action 6 ?d' \<noteq> None"
    by (auto simp: get_action_def row_find_None_iff sample_approved_db_def sample_action_def
        simp flip: set_map)
  with terminal_actions_final [OF r_into_rtranclp [of "outbound_step sample_policy", OF step]
      sample_approved_inv a(1,2)] a(3)
  show ?thesis by (auto simp: delivery_columns_def)
qed

end
