(* ===== verification/Delivery_Props.thy ===== *)
theory Delivery_Props
  imports Outbound_Props
begin

text \<open>
  Properties of single requests on outbound actions: idempotent creation under a key, the exact
  conditions and outcome of a delivery, and the failure codes the built-in adapters leave behind.
\<close>

section \<open>Creation under an idempotency key\<close>

text \<open>Two inputs that agree in everything the idempotency check compares.\<close>

definition same_request :: "action_input \<Rightarrow> action_input \<Rightarrow> bool" where
  "same_request i j \<longleftrightarrow>
     py_strip (in_external_target_id i) = py_strip (in_external_target_id j) \<and>
     in_action_type i = in_action_type j \<and> in_content i = in_content j \<and> in_payload i = in_payload j \<and>
     in_correlation_id (normalize_input i) = in_correlation_id (normalize_input j) \<and>
     in_requires_approval i = in_requires_approval j"

lemma normalize_input_fields [simp]:
  "in_external_target_id (normalize_input i) = py_strip (in_external_target_id i)"
  "in_action_type (normalize_input i) = in_action_type i"
  "in_content (normalize_input i) = in_content i" "in_payload (normalize_input i) = in_payload i"
  "in_requires_approval (normalize_input i) = in_requires_approval i"
  by (simp_all add: normalize_input_def)

lemma action_matches_same: "same_request i j \<Longrightarrow> action_matches a (normalize_input i) = action_matches a (normalize_input j)"
  by (simp add: action_matches_def same_request_def)

lemma new_action_matches:
  "json_wf (in_payload i) \<Longrightarrow>
   action_matches ((new_action ws acc key (normalize_input i) k t)\<lparr>oa_approval_request_id := x\<rparr>) (normalize_input i)"
  by (simp add: action_matches_def new_action_def json_eq_refl(1))

lemma find_by_key_append:
  "find_by_key ws acc key d = None \<Longrightarrow> actions d' = actions d @ [a] \<Longrightarrow>
   oa_workspace_id a = ws_id ws \<Longrightarrow> oa_integration_account_id a = ac_id acc \<Longrightarrow>
   oa_idempotency_key a = key \<Longrightarrow> find_by_key ws acc key d' = Some a"
  by (simp add: find_by_key_def find_append_None)

lemma create_takes_id:
  assumes "create_action ws acc i key clk d = (Inr r, d')" and "get_for_workspace ws acc d = Inr account"
    and "find_by_key ws account (py_strip key) d = None"
  shows "next_id d < next_id d'"
  using assms
  by (auto simp: create_action_def create_for_action_def audit_record_def save_defs Let_def split: if_splits)

text \<open>That a stored action is what a request asks for: every column but the schedule.\<close>

definition asks_for :: "action_input \<Rightarrow> outbound_action \<Rightarrow> bool" where
  "asks_for j a \<longleftrightarrow> oa_external_target_id a = py_strip (in_external_target_id j) \<and> oa_action_type a = in_action_type j \<and>
     oa_content a = in_content j \<and> json_eq (oa_payload a) (in_payload j) \<and>
     oa_correlation_id a = in_correlation_id (normalize_input j) \<and> oa_requires_approval a = in_requires_approval j"

text \<open>C16: Creating an action is idempotent. Once a request succeeded, every later request under a key
  with the same trimmed text leaves the database as it is: it returns the very same action and account if it asks for
  the stored action, and is refused as a conflict if its target, type, content, payload, correlation identifier or
  approval requirement differs. The request that succeeded asks for the stored action, whatever its schedule (expiry or
  not-before time) is the second time.\<close>

theorem create_action_idempotent:
  assumes inv: "outbound_inv d" and wf: "json_wf (in_payload i)"
    and c: "create_action ws acc i key clk d = (Inr (a, account), d')"
    and key: "py_strip key' = py_strip key"
  shows "create_action ws acc j key' clk' d' =
      (if asks_for j a then Inr (a, account) else Inl (OutboundE OutboundIntegrationActionIdempotencyConflictError), d') \<and>
    (same_request i j \<longrightarrow> asks_for j a)"
proof -
  have found: "get_for_workspace ws acc d = Inr account \<and> ac_active account \<and>
      get_for_workspace ws acc d' = Inr account \<and>
      find_by_key ws account (py_strip key) d' = Some a \<and> action_matches a (normalize_input i)"
    using c inv
  proof (cases rule: create_action_cases)
    case same
    with c show ?thesis
    proof (cases "get_for_workspace ws acc d")
      case (Inr b)
      show ?thesis
      proof (cases "find_by_key ws b (py_strip key) d")
        case None
        with c Inr have "next_id d < next_id d'" by (intro create_takes_id) auto
        with same show ?thesis by simp
      next
        case (Some x)
        with c Inr same show ?thesis by (auto simp: create_action_def Let_def split: if_splits)
      qed
    qed (simp add: create_action_def)
  next
    case (created account' b aps e n)
    then have b: "b = a" "account' = account" by simp_all
    have "find_by_key ws account (py_strip key) d' = Some a"
      by (rule find_by_key_append [OF created(3) [unfolded b(2)]])
        (use created(5,10) b in \<open>simp_all add: new_action_def\<close>)
    moreover have "action_matches a (normalize_input i)"
      using new_action_matches [OF wf] created(5) b by simp
    ultimately show ?thesis using created b by (simp add: get_for_workspace_def)
  qed
  moreover have matches: "action_matches a (normalize_input x) \<longleftrightarrow> asks_for x a" for x
    by (simp add: action_matches_def asks_for_def)
  moreover have "same_request i j \<Longrightarrow> asks_for j a"
    using found action_matches_same [of i j a] by (simp add: matches)
  ultimately show ?thesis using key by (simp add: create_action_def Let_def)
qed

definition sample_input :: "datetime option \<Rightarrow> action_input" where
  "sample_input ex = \<lparr>in_external_target_id = ''t'', in_action_type = SEND_MESSAGE, in_content = ''hi'',
     in_payload = JObj [(''n'', JInt 1)], in_correlation_id = None, in_expires_at = ex,
     in_not_before = None, in_requires_approval = False\<rparr>"

lemma sample_inv: "outbound_inv sample_db"
  by (simp add: outbound_inv_def approvals_inv_def sample_defs)

theorem create_action_idempotent_witness:
  "\<exists>a account d'. create_action sample_ws 4 (sample_input None) ''k'' (\<lambda>_. 0) sample_db = (Inr (a, account), d') \<and>
     create_action sample_ws 4 (sample_input (Some (utc 9))) '' k '' (\<lambda>_. 7) d' = (Inr (a, account), d') \<and>
     create_action sample_ws 4 ((sample_input None)\<lparr>in_content := ''other''\<rparr>) ''k'' (\<lambda>_. 7) d' =
       (Inl (OutboundE OutboundIntegrationActionIdempotencyConflictError), d')"
proof -
  have "\<exists>a account d'. create_action sample_ws 4 (sample_input None) ''k'' (\<lambda>_. 0) sample_db = (Inr (a, account), d') \<and>
      oa_content a = in_content (sample_input None)"
    by (simp add: create_action_def get_for_workspace_def find_by_key_def sample_defs Let_def
        sample_input_def normalize_input_def new_action_def)
  then obtain a account d' where
    c: "create_action sample_ws 4 (sample_input None) ''k'' (\<lambda>_. 0) sample_db = (Inr (a, account), d')"
    and content: "oa_content a = in_content (sample_input None)" by blast
  have strip: "py_strip '' k '' = py_strip ''k''" by code_simp
  have wf: "json_wf (in_payload (sample_input None))" by (simp add: sample_input_def)
  have "same_request (sample_input None) (sample_input (Some (utc 9)))"
    by (simp add: sample_input_def same_request_def normalize_input_def)
  with create_action_idempotent [OF sample_inv wf c strip, of "sample_input (Some (utc 9))" "\<lambda>_. 7"]
  have "create_action sample_ws 4 (sample_input (Some (utc 9))) '' k '' (\<lambda>_. 7) d' = (Inr (a, account), d')" by simp
  moreover have "\<not> asks_for ((sample_input None)\<lparr>in_content := ''other''\<rparr>) a"
    using content by (simp add: asks_for_def sample_input_def)
  with create_action_idempotent [OF sample_inv wf c refl, of "(sample_input None)\<lparr>in_content := ''other''\<rparr>" "\<lambda>_. 7"]
  have "create_action sample_ws 4 ((sample_input None)\<lparr>in_content := ''other''\<rparr>) ''k'' (\<lambda>_. 7) d' =
       (Inl (OutboundE OutboundIntegrationActionIdempotencyConflictError), d')" by simp
  ultimately show ?thesis using c by blast
qed

text \<open>An idempotency key names one action: over any sequence of requests no two actions of the
  same workspace and account share a key.\<close>

theorem one_action_per_key:
  assumes steps: "(outbound_step pol)\<^sup>*\<^sup>* d d'" and inv: "outbound_inv d"
    and start: "distinct (map (snd \<circ> action_key) (actions d))"
  shows "distinct (map (snd \<circ> action_key) (actions d'))"
proof (rule ost.steps_keep [where P = "\<lambda>s. distinct (map (snd \<circ> action_key) (actions s))", OF _ steps inv start])
  fix s t assume step: "outbound_step pol s t" and i: "outbound_inv s"
    and P: "distinct (map (snd \<circ> action_key) (actions s))"
  from step_effect [OF step i] show "distinct (map (snd \<circ> action_key) (actions t))"
  proof cases
    case same
    with P show ?thesis by simp
  next
    case (removed Q)
    with P show ?thesis by (simp add: distinct_map_filter)
  next
    case (created b)
    with P show ?thesis by simp
  next
    case (updated x y ats evs)
    have "map (snd \<circ> action_key) (row_update oa_id y (actions s)) = map (snd \<circ> action_key) (actions s)"
    proof (rule row_update_frame)
      fix z assume "z \<in> set (actions s)" "oa_id z = oa_id y"
      then have "z = x"
        using updated(1,2) i by (simp add: action_key_def outbound_inv_def distinct_map inj_on_def)
      with updated(2) show "(snd \<circ> action_key) y = (snd \<circ> action_key) z" by simp
    qed
    with P show ?thesis using attempted_actions [OF updated(3)] by simp
  qed
qed

theorem one_action_per_key_witness:
  "distinct (map (snd \<circ> action_key) (actions sample_cancelled_db))"
  by (rule one_action_per_key [OF sample_cancel_steps sample_pending_inv])
    (simp add: sample_pending_db_def)

section \<open>The delivery of a pending action\<close>

text \<open>A delivery request makes an attempt exactly when the account exists and is active, the
  action exists in it, is pending, has not expired, its not-before time is reached and its
  approval gate is open. Then, whatever the adapter does, it returns the action as delivered or
  failed, with one more attempt than before. In every other case no attempt is made; an expired
  pending action becomes expired, and otherwise the database does not change.\<close>

theorem delivery_conditions:
  assumes inv: "outbound_inv d" and acc: "get_for_workspace ws acc d = Inr account"
    and a: "get_action_for_account ws account k d = Inr a"
  shows "case deliver_pending_action reg ws acc k clk d of (res, d') \<Rightarrow>
    if ac_active account \<and> oa_status a = PENDING \<and> \<not> is_expired a (clk 0) \<and>
       \<not> is_before_not_before a (clk 3) \<and> require_approved ws a d = Inr ()
    then \<exists>a'. res = Inr (a', account) \<and> get_action k d' = Some a' \<and>
           oa_status a' = (if ar_delivered (run_adapter reg a account) then DELIVERED else FAILED) \<and>
           length (attempts_of k d') = Suc (length (attempts_of k d))
    else (\<exists>e. res = Inl e) \<and> attempts_of k d' = attempts_of k d \<and>
         (if ac_active account \<and> oa_status a = PENDING \<and> is_expired a (clk 0)
          then map_option oa_status (get_action k d') = Some EXPIRED else d' = d)"
proof -
  note f = get_action_for_account_InrD [OF a]
  have mem: "a \<in> set (actions d)" and k: "oa_id a = k" using f by simp_all
  obtain res d' where r: "deliver_pending_action reg ws acc k clk d = (res, d')" by fastforce
  show ?thesis
  proof (cases "ac_active account \<and> oa_status a = PENDING \<and> \<not> is_expired a (clk 0) \<and>
       \<not> is_before_not_before a (clk 3) \<and> require_approved ws a d = Inr ()")
    case True
    have "\<forall>x \<in> set (attempts d). da_id x < next_id d" using inv by (simp add: outbound_inv_def)
    with deliver_action_effect [of a d reg account clk] True obtain a' att d2 where
      d2: "deliver_action reg a account clk d = Inr ((a', account), d2)"
      and a': "a' = (if ar_delivered (run_adapter reg a account)
          then delivered_action (run_adapter reg a account) (clk 7) a
          else failed_action (run_adapter reg a account) (clk 7) a)"
      and e: "attempted a a' [att] [AU_DELIVERY_ATTEMPTED, outcome_event (oa_status a')] d d2" by metis
    have "(res, d') = (Inr (a', account), d2)"
      using r acc a True d2 by (simp add: deliver_pending_action_def require_pending_delivery_def)
    moreover have "oa_id a' = k"
      using f by (simp add: a' delivered_action_def failed_action_def)
    moreover from this have "get_action k d2 = Some a'"
      using get_action_row_update [OF inv mem _ attempted_actions [OF e], where k = k] k by simp
    moreover have "oa_status a' = (if ar_delivered (run_adapter reg a account) then DELIVERED else FAILED)"
      by (simp add: a' delivered_action_def failed_action_def)
    ultimately show ?thesis
      unfolding r using attempted_attempts_of [OF e, of k] f True by simp
  next
    case False
    show ?thesis
    proof (cases "ac_active account \<and> oa_status a = PENDING \<and> is_expired a (clk 0)")
      case True
      let ?a = "a\<lparr>oa_status := EXPIRED, oa_expired_at := Some (utc (clk 1))\<rparr>"
      have d': "(res, d') = (Inl (OutboundE OutboundIntegrationActionExpiredError),
          audit_record ?a AU_EXPIRED (clk 2) (save_action ?a d))"
        using r acc a True by (simp add: deliver_pending_action_def require_transition_def
            record_transition_audit_def audit_event_for_transition_def Let_def)
      have "attempted a ?a [] [AU_EXPIRED] d d'"
        using d' attempted_status_change [of ?a a AU_EXPIRED d "clk 2"] by (simp add: action_key_def)
      then have "get_action k d' = Some ?a" "attempts_of k d' = attempts_of k d"
        using get_action_row_update [OF inv mem _ attempted_actions, where a' = ?a and k = k]
          attempted_attempts_of [where k = k] k by fastforce+
      then show ?thesis unfolding r using False True d' by auto
    next
      case notexp: False
      have "(\<exists>e. res = Inl e) \<and> d' = d"
        using r acc a False notexp
        by (cases "require_approved ws a d") (auto simp: deliver_pending_action_def require_pending_delivery_def
            split: if_splits)
      with False notexp show ?thesis unfolding r by auto
    qed
  qed
qed

theorem delivery_conditions_witness:
  "\<exists>a' d'. deliver_pending_action (default_registry (\<lambda>_. []) None) sample_ws 4 6 (\<lambda>_. 0) sample_pending_db =
     (Inr (a', sample_account ''h''), d') \<and> oa_status a' = FAILED"
proof -
  have g: "get_for_workspace sample_ws 4 sample_pending_db = Inr (sample_account ''h'')"
    by (simp add: get_for_workspace_def sample_pending_db_def sample_defs)
  have a: "get_action_for_account sample_ws (sample_account ''h'') 6 sample_pending_db = Inr (sample_action PENDING)"
    by (simp add: get_action_for_account_def sample_pending_db_def sample_defs)
  have "\<not> ar_delivered (run_adapter (default_registry (\<lambda>_. []) None) (sample_action PENDING) (sample_account ''h''))"
    by (simp add: run_adapter_def registry_get_def default_registry_def sample_account_def)
  with delivery_conditions [OF sample_pending_inv g a, where reg = "default_registry (\<lambda>_. []) None" and clk = "\<lambda>_. 0"]
  show ?thesis
    by (auto simp: sample_account_def sample_action_def is_expired_def is_before_not_before_def
        require_approved_def gate_evaluate_def split: prod.splits)
qed

section \<open>Failure codes\<close>

lemma deliver_success_changes:
  assumes "deliver_pending_action reg ws acc k clk d = (Inr r, d')"
  shows "\<exists>a account. get_for_workspace ws acc d = Inr account \<and> get_action_for_account ws account k d = Inr a \<and>
    oa_status a = PENDING \<and> deliver_action reg a account clk d = Inr (r, d')"
  using assms
  by (auto simp: deliver_pending_action_def Let_def require_pending_delivery_def
      split: sum.splits if_splits prod.splits)

definition builtin_registry :: "registry \<Rightarrow> bool" where
  "builtin_registry reg \<longleftrightarrow> (\<exists>us. reg = default_registry us None \<or>
     (\<exists>us' hmac env now tr cfg. reg = default_registry us (Some (webhook_adapter us' hmac env now tr cfg))))"

lemma run_adapter_builtin_wf:
  assumes "builtin_registry reg"
  shows "result_wf (run_adapter reg a acc)"
proof -
  have "result_wf r" if "registry_get reg p = Some ad" "ad_deliver ad a acc = Some r" for p ad r
    using that assms
    by (auto simp: builtin_registry_def registry_get_def default_registry_def noop_adapter_def
        noop_deliver_def webhook_adapter_def split: if_splits) (rule webhook_deliver_wf)
  then show ?thesis
    by (auto simp: run_adapter_def split: option.splits dest: validate_action_wf)
qed

lemma failed_outcome_code:
  assumes "result_wf res" and "a' = (if ar_delivered res then delivered_action res t a else failed_action res t a)"
  shows "\<forall>c. oa_failure_code a' = Some c \<longrightarrow> failure_code_pattern c"
proof -
  have "c \<noteq> []" if "failure_code_pattern c" for c
    using that by (auto simp: failure_code_pattern_def)
  with assms show ?thesis
    by (auto simp: result_wf_def delivered_action_def failed_action_def or_default_def split: if_splits)
qed

text \<open>With the built-in adapters (the development adapter and the generic webhook, whatever the
  endpoint answers) the failure code a delivery leaves behind is one the retry policy can read, so
  evaluating a retry never raises a configuration error. Other adapters carry no such guarantee.\<close>

theorem builtin_failures_retryable:
  assumes "builtin_registry reg"
    and "deliver_pending_action reg ws acc k clk d = (Inr (a', account), d')" and "outbound_inv d"
  shows "\<exists>el. retry_evaluate pol n (oa_failure_code a') (oa_failure_classification a') = Inr el"
proof -
  have "\<forall>c. oa_failure_code a' = Some c \<longrightarrow> failure_code_pattern c"
  proof -
    from deliver_success_changes [OF assms(2)] obtain a account' where a: "oa_status a = PENDING"
      and d: "deliver_action reg a account' clk d = Inr ((a', account), d')" by blast
    have "\<forall>x \<in> set (attempts d). da_id x < next_id d" using assms(3) by (simp add: outbound_inv_def)
    with deliver_action_effect [of a d reg account' clk] a d have
      "a' = (if ar_delivered (run_adapter reg a account') then delivered_action (run_adapter reg a account') (clk 7) a
          else failed_action (run_adapter reg a account') (clk 7) a)" by auto
    then show ?thesis by (rule failed_outcome_code [OF run_adapter_builtin_wf [OF assms(1)]])
  qed
  then show ?thesis
    by (cases "oa_failure_code a'") (auto simp: retry_evaluate_def normalize_failure_code_fixed)
qed

theorem builtin_failures_retryable_witness:
  "\<exists>a' d' el. deliver_pending_action (default_registry (\<lambda>_. []) None) sample_ws 4 6 (\<lambda>_. 0) sample_pending_db =
     (Inr (a', sample_account ''h''), d') \<and>
     retry_evaluate sample_policy 1 (oa_failure_code a') (oa_failure_classification a') = Inr el"
proof -
  let ?reg = "default_registry (\<lambda>_. []) None"
  have b: "builtin_registry ?reg" by (auto simp: builtin_registry_def)
  have "\<exists>a' d'. deliver_pending_action ?reg sample_ws 4 6 (\<lambda>_. 0) sample_pending_db =
     (Inr (a', sample_account ''h''), d')"
    by (simp add: deliver_pending_action_def get_for_workspace_def get_action_for_account_def
        sample_pending_db_def sample_defs is_expired_def is_before_not_before_def
        require_pending_delivery_def require_approved_def gate_evaluate_def deliver_action_def
        run_adapter_def registry_get_def default_registry_def Let_def new_attempt_def
        persist_outcome_def require_transition_def record_transition_audit_def
        audit_event_for_transition_def failed_action_def)
  then obtain a' d' where d: "deliver_pending_action ?reg sample_ws 4 6 (\<lambda>_. 0) sample_pending_db =
     (Inr (a', sample_account ''h''), d')" by blast
  from builtin_failures_retryable [OF b d sample_pending_inv] d show ?thesis by blast
qed

text \<open>An adapter that reports a code outside the pattern leaves an action whose retry raises.\<close>

theorem foreign_failure_code_raises:
  "n < rp_maximum_attempts pol \<Longrightarrow>
   retry_evaluate pol n (Some ''http-500'') k = Inl (OutboundE OutboundDeliveryRetryPolicyConfigurationError)"
  by (simp add: retry_evaluate_def normalize_failure_code_def failure_code_pattern_def py_strip_def
      py_lower_def py_isspace_def py_lower_char_def is_lower_az_def is_digit09_def one_of_def)

end
