(* ===== verification/Outbound_Reads.thy ===== *)
theory Outbound_Reads
  imports Delivery_Props "HOL-Library.Multiset"
begin

text \<open>
  The read models of outbound actions: app/services/outbound_delivery_status.py,
  outbound_delivery_readiness.py with its reasons, outbound_action_transition_validation.py,
  outbound_approval_status.py, outbound_action_state_history.py and outbound_action_timeline.py.
  None of them writes.
\<close>

section \<open>Delivery status\<close>

record delivery_status_view =
  sv_action :: outbound_action
  sv_account :: integration_account
  sv_attempt_count :: nat
  sv_retry_eligibility :: eligibility
  sv_next_retry_at :: "datetime option"

definition status_attempt_count :: "workspace \<Rightarrow> integration_account \<Rightarrow> outbound_action \<Rightarrow> db \<Rightarrow> nat" where
  "status_attempt_count ws account action d =
     length (filter (\<lambda>x. da_workspace_id x = ws_id ws \<and> da_integration_account_id x = ac_id account \<and>
       da_outbound_integration_action_id x = oa_id action) (attempts d))"

definition get_status_for_action ::
  "retry_policy \<Rightarrow> delay_policy \<Rightarrow> workspace \<Rightarrow> uuid \<Rightarrow> uuid \<Rightarrow> int \<Rightarrow> db \<Rightarrow> error + delivery_status_view" where
  "get_status_for_action pol dpol ws account_id action_id now d =
     bindE (get_for_workspace ws account_id d) (\<lambda>account.
     bindE (get_action_for_account ws account action_id d) (\<lambda>action.
     let n = status_attempt_count ws account action d in
     bindE (retry_evaluate_action pol (oa_status action) (int n) (oa_failure_code action)
              (oa_failure_classification action)) (\<lambda>static.
     let next = (if el_allowed static then next_retry_at dpol (oa_failed_at action) (int n) else None);
         elig = (case next of
                   None \<Rightarrow> static
                 | Some t \<Rightarrow> if the (dt_lt (now_like t now) t) then denied ''retry_delay_not_elapsed'' else static)
     in Inr \<lparr>sv_action = action, sv_account = account, sv_attempt_count = n,
             sv_retry_eligibility = elig, sv_next_retry_at = next\<rparr>)))"

section \<open>Delivery readiness\<close>

datatype readiness_reason =
  INTEGRATION_ACCOUNT_INACTIVE | APPROVAL_UNAVAILABLE | APPROVAL_PENDING | APPROVAL_REJECTED
  | APPROVAL_NOT_APPROVED | RD_ACTION_CANCELLED | RD_ACTION_EXPIRED | RD_ACTION_ALREADY_DELIVERED
  | ACTION_TERMINAL | NOT_BEFORE_NOT_REACHED | ADAPTER_CAPABILITY_MISMATCH | RETRY_NOT_ELIGIBLE

fun readiness_reason_message :: "readiness_reason \<Rightarrow> string" where
  "readiness_reason_message INTEGRATION_ACCOUNT_INACTIVE = ''The integration account is inactive.''"
| "readiness_reason_message APPROVAL_UNAVAILABLE = ''The required delivery approval is unavailable.''"
| "readiness_reason_message APPROVAL_PENDING = ''The required delivery approval is still pending.''"
| "readiness_reason_message APPROVAL_REJECTED = ''The required delivery approval was rejected.''"
| "readiness_reason_message APPROVAL_NOT_APPROVED =
     ''The required delivery approval has not been approved.''"
| "readiness_reason_message RD_ACTION_CANCELLED = ''The outbound action was cancelled.''"
| "readiness_reason_message RD_ACTION_EXPIRED = ''The outbound action has expired.''"
| "readiness_reason_message RD_ACTION_ALREADY_DELIVERED = ''The outbound action has already been delivered.''"
| "readiness_reason_message ACTION_TERMINAL = ''The outbound action is in a terminal state.''"
| "readiness_reason_message NOT_BEFORE_NOT_REACHED = ''The outbound action is not available yet.''"
| "readiness_reason_message ADAPTER_CAPABILITY_MISMATCH =
     ''The integration adapter cannot deliver this outbound action.''"
| "readiness_reason_message RETRY_NOT_ELIGIBLE = ''The failed outbound action is not eligible for retry.''"

definition approval_reason :: "string option \<Rightarrow> readiness_reason" where
  "approval_reason denial =
     (if denial = Some ''approval_unavailable'' then APPROVAL_UNAVAILABLE
      else if denial = Some ''approval_pending'' then APPROVAL_PENDING
      else if denial = Some ''approval_rejected'' then APPROVAL_REJECTED
      else APPROVAL_NOT_APPROVED)"

record readiness_explanation =
  rx_code :: readiness_reason
  rx_message :: string
  rx_not_before :: "datetime option"
  rx_expires_at :: "datetime option"
  rx_next_retry_at :: "datetime option"

text \<open>\<open>_as_utc\<close> of the read services: \<open>expires_at\<close> is stored as the client sent it.\<close>

definition checked_as_utc :: "datetime \<Rightarrow> error + datetime" where
  "checked_as_utc t = (case to_utc t of None \<Rightarrow> Inl OverflowError | Some u \<Rightarrow> Inr u)"

definition optional_as_utc :: "datetime option \<Rightarrow> error + datetime option" where
  "optional_as_utc v = (case v of None \<Rightarrow> Inr None | Some t \<Rightarrow> bindE (checked_as_utc t) (\<lambda>u. Inr (Some u)))"

definition explanation_for ::
  "outbound_action \<Rightarrow> readiness_reason \<Rightarrow> datetime option \<Rightarrow> error + readiness_explanation" where
  "explanation_for action code next =
     bindE (optional_as_utc (if code = NOT_BEFORE_NOT_REACHED then oa_not_before action else None)) (\<lambda>nb.
     bindE (optional_as_utc (if code = RD_ACTION_EXPIRED then oa_expires_at action else None)) (\<lambda>ex.
     bindE (optional_as_utc (if code = RETRY_NOT_ELIGIBLE then next else None)) (\<lambda>nr.
     Inr \<lparr>rx_code = code, rx_message = readiness_reason_message code, rx_not_before = nb,
          rx_expires_at = ex, rx_next_retry_at = nr\<rparr>)))"

record readiness =
  rd_action_id :: uuid
  rd_status :: action_status
  rd_ready :: bool
  rd_blocking_reasons :: "readiness_reason list"
  rd_next_retry_at :: "datetime option"
  rd_details :: "readiness_explanation list"

definition readiness_reasons ::
  "registry \<Rightarrow> workspace \<Rightarrow> delivery_status_view \<Rightarrow> clock \<Rightarrow> db \<Rightarrow> readiness_reason list" where
  "readiness_reasons reg ws view clk d =
     (let action = sv_action view; account = sv_account view;
          r0 = (if \<not> ac_active account then [INTEGRATION_ACCOUNT_INACTIVE] else []);
          (candidate, r1) =
            (if oa_status action = PENDING then (True, [])
             else if oa_status action = FAILED then
               (if el_allowed (sv_retry_eligibility view) then (True, []) else (False, [RETRY_NOT_ELIGIBLE]))
             else if oa_status action = CANCELLED then (False, [RD_ACTION_CANCELLED])
             else if oa_status action = EXPIRED then (False, [RD_ACTION_EXPIRED])
             else if oa_status action = DELIVERED then (False, [RD_ACTION_ALREADY_DELIVERED])
             else (False, [ACTION_TERMINAL]));
          r2 = (if candidate \<and> is_expired action (clk 1) then [RD_ACTION_EXPIRED] else []);
          r3 = (if candidate \<and> is_before_not_before action (clk 2) then [NOT_BEFORE_NOT_REACHED] else []);
          approval = gate_evaluate ws action d;
          r4 = (if candidate \<and> \<not> el_allowed approval
                then [approval_reason (el_denial_reason approval)] else []);
          r5 = (if candidate \<and> validate_action reg (ac_provider account) action \<noteq> None
                then [ADAPTER_CAPABILITY_MISMATCH] else [])
      in r0 @ r1 @ r2 @ r3 @ r4 @ r5)"

definition readiness_evaluate ::
  "registry \<Rightarrow> retry_policy \<Rightarrow> delay_policy \<Rightarrow> workspace \<Rightarrow> uuid \<Rightarrow> uuid \<Rightarrow> clock \<Rightarrow> db \<Rightarrow> error + readiness" where
  "readiness_evaluate reg pol dpol ws account_id action_id clk d =
     bindE (get_status_for_action pol dpol ws account_id action_id (clk 0) d) (\<lambda>view.
     let action = sv_action view; reasons = readiness_reasons reg ws view clk d in
     bindE (map_res (\<lambda>r. explanation_for action r (sv_next_retry_at view)) reasons) (\<lambda>details.
     Inr \<lparr>rd_action_id = oa_id action, rd_status = oa_status action, rd_ready = (reasons = []),
          rd_blocking_reasons = reasons, rd_next_retry_at = sv_next_retry_at view,
          rd_details = details\<rparr>))"

section \<open>Transition validation\<close>

record transition_explanation =
  tx_code :: transition_reason_code
  tx_message :: string
  tx_delivered_at :: "datetime option"
  tx_cancelled_at :: "datetime option"
  tx_expired_at :: "datetime option"

record transition_validation =
  tv_allowed :: bool
  tv_current_state :: action_status
  tv_requested_target :: action_status
  tv_denial_reason :: "transition_reason_code option"
  tv_denial_reason_detail :: "transition_explanation option"

definition transition_explanation_for ::
  "outbound_action \<Rightarrow> transition_reason_code \<Rightarrow> transition_explanation" where
  "transition_explanation_for action reason =
     \<lparr>tx_code = reason, tx_message = transition_reason_message reason,
      tx_delivered_at = map_option as_utc
        (if reason = ACTION_ALREADY_DELIVERED then oa_delivered_at action else None),
      tx_cancelled_at = map_option as_utc
        (if reason = ACTION_CANCELLED then oa_cancelled_at action else None),
      tx_expired_at = map_option as_utc
        (if reason = TR_ACTION_EXPIRED then oa_expired_at action else None)\<rparr>"

definition validate_transition ::
  "workspace \<Rightarrow> uuid \<Rightarrow> uuid \<Rightarrow> action_status \<Rightarrow> db \<Rightarrow> error + transition_validation" where
  "validate_transition ws account_id action_id target d =
     bindE (get_for_workspace ws account_id d) (\<lambda>account.
     bindE (get_action_for_account ws account action_id d) (\<lambda>action.
     case require_transition action target of
       Inl _ \<Rightarrow>
         let reason = transition_denial_reason (oa_status action) target in
         Inr \<lparr>tv_allowed = False, tv_current_state = oa_status action, tv_requested_target = target,
              tv_denial_reason = Some reason,
              tv_denial_reason_detail = Some (transition_explanation_for action reason)\<rparr>
     | Inr _ \<Rightarrow>
         Inr \<lparr>tv_allowed = True, tv_current_state = oa_status action, tv_requested_target = target,
              tv_denial_reason = None, tv_denial_reason_detail = None\<rparr>))"

section \<open>Approval status\<close>

record approval_status_view =
  av_action_id :: uuid
  av_requires_approval :: bool
  av_approval_request_id :: "uuid option"
  av_approval_status :: "approval_status option"
  av_decided_by_user_id :: "uuid option"
  av_decided_by_membership_id :: "uuid option"
  av_decided_by_role :: "member_role option"

definition approval_status_get_action ::
  "workspace \<Rightarrow> integration_account \<Rightarrow> uuid \<Rightarrow> db \<Rightarrow> error + outbound_action" where
  "approval_status_get_action ws account action_id d =
     (case find (\<lambda>a. oa_id a = action_id \<and> oa_workspace_id a = ws_id ws \<and>
                     oa_integration_account_id a = ac_id account) (actions d) of
        None \<Rightarrow> Inl (OutboundE OutboundApprovalStatusNotFoundError)
      | Some a \<Rightarrow> Inr a)"

definition approval_status_for_action ::
  "workspace \<Rightarrow> uuid \<Rightarrow> uuid \<Rightarrow> db \<Rightarrow> error + approval_status_view" where
  "approval_status_for_action ws account_id action_id d =
     bindE (get_for_workspace ws account_id d) (\<lambda>account.
     bindE (approval_status_get_action ws account action_id d) (\<lambda>action.
     let approval = (case oa_approval_request_id action of None \<Rightarrow> None | Some k \<Rightarrow> get_approval k d) in
     Inr \<lparr>av_action_id = oa_id action, av_requires_approval = oa_requires_approval action,
          av_approval_request_id = oa_approval_request_id action,
          av_approval_status = map_option ap_status approval,
          av_decided_by_user_id = Option.bind approval ap_decided_by_user_id,
          av_decided_by_membership_id = Option.bind approval ap_decided_by_membership_id,
          av_decided_by_role = Option.bind approval ap_decided_by_role\<rparr>))"

section \<open>State history\<close>

definition MAX_STATE_HISTORY_LIMIT :: int where "MAX_STATE_HISTORY_LIMIT = 100"

record state_history_entry =
  sh_state :: action_status
  sh_event :: audit_action
  sh_created_at :: datetime

fun STATE_BY_EVENT :: "audit_action \<Rightarrow> action_status option" where
  "STATE_BY_EVENT AU_DELIVERED = Some DELIVERED"
| "STATE_BY_EVENT AU_FAILED = Some FAILED"
| "STATE_BY_EVENT AU_CANCELLED = Some CANCELLED"
| "STATE_BY_EVENT AU_EXPIRED = Some EXPIRED"
| "STATE_BY_EVENT _ = None"

definition history_entries :: "audit_event list \<Rightarrow> state_history_entry list" where
  "history_entries es = concat (map (\<lambda>e. case STATE_BY_EVENT (ae_action e) of None \<Rightarrow> []
     | Some s \<Rightarrow> [\<lparr>sh_state = s, sh_event = ae_action e, sh_created_at = ae_created_at e\<rparr>]) es)"

definition take_last :: "nat \<Rightarrow> 'a list \<Rightarrow> 'a list" where
  "take_last n xs = drop (length xs - n) xs"

definition state_history ::
  "workspace \<Rightarrow> uuid \<Rightarrow> uuid \<Rightarrow> int \<Rightarrow> db \<Rightarrow> error + state_history_entry list" where
  "state_history ws account_id action_id limit d =
     (if \<not> (1 \<le> limit \<and> limit \<le> MAX_STATE_HISTORY_LIMIT) then Inl ValueError
      else bindE (get_for_workspace ws account_id d) (\<lambda>account.
           bindE (get_action_for_account ws account action_id d) (\<lambda>_.
           bindE (audit_list_for_workspace ws None (Some (ac_id account)) (Some action_id) None None
                    MAX_STATE_HISTORY_LIMIT d) (\<lambda>events.
           Inr (take_last (nat limit) (rev (history_entries events)))))))"

section \<open>Timeline\<close>

datatype timeline_category = TL_LIFECYCLE | TL_DELIVERY | TL_RETRY | TL_APPROVAL

datatype timeline_event =
  EV_ACTION_CREATED | EV_DELIVERY_ATTEMPTED | EV_ACTION_DELIVERED | EV_ACTION_FAILED
  | EV_DELIVERY_RETRIED | EV_ACTION_CANCELLED | EV_ACTION_EXPIRED | EV_ACTION_ARCHIVED
  | EV_ACTION_UNARCHIVED | EV_DELIVERY_ATTEMPT | EV_APPROVAL_REQUESTED | EV_APPROVAL_APPROVED
  | EV_APPROVAL_REJECTED | EV_APPROVAL_EXECUTED

record timeline_entry =
  tl_category :: timeline_category
  tl_event :: timeline_event
  tl_message :: string
  tl_created_at :: datetime
  tl_state :: "action_status option"
  tl_attempt_number :: "nat option"

text \<open>An entry with its sort key: time, source order, source identifier.\<close>

type_synonym keyed_entry = "timeline_entry \<times> nat \<times> string"

fun AUDIT_EVENT_DETAILS ::
  "audit_action \<Rightarrow> timeline_category \<times> timeline_event \<times> string \<times> action_status option" where
  "AUDIT_EVENT_DETAILS AU_CREATED =
     (TL_LIFECYCLE, EV_ACTION_CREATED, ''The outbound action was created.'', None)"
| "AUDIT_EVENT_DETAILS AU_DELIVERY_ATTEMPTED =
     (TL_DELIVERY, EV_DELIVERY_ATTEMPTED, ''Outbound delivery was attempted.'', None)"
| "AUDIT_EVENT_DETAILS AU_DELIVERED =
     (TL_LIFECYCLE, EV_ACTION_DELIVERED, ''The outbound action was delivered.'', Some DELIVERED)"
| "AUDIT_EVENT_DETAILS AU_FAILED =
     (TL_LIFECYCLE, EV_ACTION_FAILED, ''Outbound delivery failed.'', Some FAILED)"
| "AUDIT_EVENT_DETAILS AU_RETRIED =
     (TL_RETRY, EV_DELIVERY_RETRIED, ''The outbound action was retried.'', None)"
| "AUDIT_EVENT_DETAILS AU_CANCELLED =
     (TL_LIFECYCLE, EV_ACTION_CANCELLED, ''The outbound action was cancelled.'', Some CANCELLED)"
| "AUDIT_EVENT_DETAILS AU_EXPIRED =
     (TL_LIFECYCLE, EV_ACTION_EXPIRED, ''The outbound action expired.'', Some EXPIRED)"
| "AUDIT_EVENT_DETAILS AU_ARCHIVED =
     (TL_LIFECYCLE, EV_ACTION_ARCHIVED, ''The outbound action was archived.'', None)"
| "AUDIT_EVENT_DETAILS AU_UNARCHIVED =
     (TL_LIFECYCLE, EV_ACTION_UNARCHIVED, ''The outbound action was unarchived.'', None)"

definition MAX_TIMELINE_LIMIT :: int where "MAX_TIMELINE_LIMIT = 100"

definition timeline_validate_query :: "datetime option \<Rightarrow> datetime option \<Rightarrow> int \<Rightarrow> error + unit" where
  "timeline_validate_query after before limit =
     (if \<not> (1 \<le> limit \<and> limit \<le> MAX_TIMELINE_LIMIT) then Inl ValueError
      else (case (after, before) of
              (Some a, Some b) \<Rightarrow>
                bindE (checked_as_utc a) (\<lambda>a'. bindE (checked_as_utc b) (\<lambda>b'.
                if dt_instant a' > dt_instant b' then Inl ValueError else Inr ()))
            | _ \<Rightarrow> Inr ()))"

definition in_time_range :: "datetime \<Rightarrow> datetime option \<Rightarrow> datetime option \<Rightarrow> error + bool" where
  "in_time_range v after before =
     bindE (case after of None \<Rightarrow> Inr False
            | Some a \<Rightarrow> bindE (checked_as_utc a) (\<lambda>a'. Inr (dt_instant v < dt_instant a'))) (\<lambda>early.
     if early then Inr False
     else (case before of None \<Rightarrow> Inr True
           | Some b \<Rightarrow> bindE (checked_as_utc b) (\<lambda>b'. Inr (dt_instant v \<le> dt_instant b'))))"

definition audit_entries ::
  "(uuid \<Rightarrow> string) \<Rightarrow> workspace \<Rightarrow> uuid \<Rightarrow> uuid \<Rightarrow> db \<Rightarrow> error + keyed_entry list" where
  "audit_entries us ws account_id action_id d =
     bindE (audit_list_for_workspace ws None (Some account_id) (Some action_id) None None
              MAX_TIMELINE_LIMIT d) (\<lambda>events.
     Inr (map (\<lambda>e. case AUDIT_EVENT_DETAILS (ae_action e) of (cat, ev, msg, st) \<Rightarrow>
       (\<lparr>tl_category = cat, tl_event = ev, tl_message = msg, tl_created_at = as_utc (ae_created_at e),
         tl_state = st, tl_attempt_number = None\<rparr>, 1, us (ae_id e))) events))"

definition attempt_entries ::
  "(uuid \<Rightarrow> string) \<Rightarrow> workspace \<Rightarrow> uuid \<Rightarrow> uuid \<Rightarrow> db \<Rightarrow> error + keyed_entry list" where
  "attempt_entries us ws account_id action_id d =
     bindE (list_attempts_for_action ws account_id action_id None None None False MAX_TIMELINE_LIMIT d)
       (\<lambda>ats. Inr (map (\<lambda>x. (\<lparr>tl_category = TL_DELIVERY, tl_event = EV_DELIVERY_ATTEMPT,
         tl_message = ''Outbound delivery attempt was recorded.'',
         tl_created_at = as_utc (da_started_at x), tl_state = Some (da_status x),
         tl_attempt_number = Some (da_attempt_number x)\<rparr>, 2, us (da_id x))) ats))"

definition approval_decision_entry :: "(uuid \<Rightarrow> string) \<Rightarrow> approval_request \<Rightarrow> keyed_entry option" where
  "approval_decision_entry us a =
     (case (case ap_status a of
              AP_APPROVED \<Rightarrow> Some (EV_APPROVAL_APPROVED, ''Outbound delivery approval was approved.'')
            | AP_REJECTED \<Rightarrow> Some (EV_APPROVAL_REJECTED, ''Outbound delivery approval was rejected.'')
            | AP_EXECUTED \<Rightarrow> Some (EV_APPROVAL_EXECUTED, ''Outbound delivery approval was executed.'')
            | AP_PENDING \<Rightarrow> None) of
        None \<Rightarrow> None
      | Some (ev, msg) \<Rightarrow>
          (case ap_decided_at a of None \<Rightarrow> None
           | Some t \<Rightarrow> Some (\<lparr>tl_category = TL_APPROVAL, tl_event = ev, tl_message = msg,
               tl_created_at = as_utc t, tl_state = None, tl_attempt_number = None\<rparr>, 0,
               us (ap_id a) @ '':decision'')))"

definition approval_entries :: "(uuid \<Rightarrow> string) \<Rightarrow> workspace \<Rightarrow> outbound_action \<Rightarrow> db \<Rightarrow> keyed_entry list" where
  "approval_entries us ws action d =
     (case get_for_action ws action d of
        None \<Rightarrow> []
      | Some a \<Rightarrow>
          (\<lparr>tl_category = TL_APPROVAL, tl_event = EV_APPROVAL_REQUESTED,
            tl_message = ''Outbound delivery approval was requested.'',
            tl_created_at = as_utc (ap_created_at a), tl_state = None, tl_attempt_number = None\<rparr>,
           0, us (ap_id a)) #
          (case approval_decision_entry us a of None \<Rightarrow> [] | Some x \<Rightarrow> [x]))"

definition timeline ::
  "(uuid \<Rightarrow> string) \<Rightarrow> workspace \<Rightarrow> uuid \<Rightarrow> uuid \<Rightarrow> timeline_category option \<Rightarrow> timeline_event option
   \<Rightarrow> datetime option \<Rightarrow> datetime option \<Rightarrow> int \<Rightarrow> db \<Rightarrow> error + timeline_entry list" where
  "timeline us ws account_id action_id category event after before limit d =
     bindE (timeline_validate_query after before limit) (\<lambda>_.
     bindE (get_for_workspace ws account_id d) (\<lambda>account.
     bindE (get_action_for_account ws account action_id d) (\<lambda>action.
     bindE (audit_entries us ws (ac_id account) (oa_id action) d) (\<lambda>e1.
     bindE (attempt_entries us ws (ac_id account) (oa_id action) d) (\<lambda>e2.
     bindE (filter_res (\<lambda>(x, _, _).
              if (category = None \<or> Some (tl_category x) = category) \<and> (event = None \<or> Some (tl_event x) = event)
              then in_time_range (tl_created_at x) after before else Inr False)
            (e1 @ e2 @ approval_entries us ws action d)) (\<lambda>kept.
     Inr (map fst (take (nat limit)
          (sort_key (\<lambda>(x, o', i). (dt_instant (tl_created_at x), o', i)) kept)))))))))"

section \<open>Readiness and what the delivery service does\<close>

lemma get_status_InrD:
  "get_status_for_action pol dpol ws acc k now d = Inr view \<Longrightarrow>
   get_for_workspace ws acc d = Inr (sv_account view) \<and>
   get_action_for_account ws (sv_account view) k d = Inr (sv_action view) \<and>
   (\<exists>static. retry_evaluate_action pol (oa_status (sv_action view))
       (int (status_attempt_count ws (sv_account view) (sv_action view) d))
       (oa_failure_code (sv_action view)) (oa_failure_classification (sv_action view)) = Inr static \<and>
     (el_allowed (sv_retry_eligibility view) \<longrightarrow> el_allowed static))"
  by (auto simp: get_status_for_action_def bindE_Inr_iff Let_def split: if_splits option.splits)

lemma readiness_InrD:
  "readiness_evaluate reg pol dpol ws acc k clk d = Inr r \<Longrightarrow>
   \<exists>view. get_status_for_action pol dpol ws acc k (clk 0) d = Inr view \<and>
     rd_status r = oa_status (sv_action view) \<and> rd_blocking_reasons r = readiness_reasons reg ws view clk d \<and>
     rd_ready r = (readiness_reasons reg ws view clk d = [])"
  by (auto simp: readiness_evaluate_def bindE_Inr_iff Let_def)

lemma status_count_agrees:
  assumes inv: "outbound_inv d" and a: "get_action_for_account ws account k d = Inr a"
  shows "status_attempt_count ws account a d = attempt_count a d"
proof -
  note f = get_action_for_account_InrD [OF a]
  then have mem: "a \<in> set (actions d)" by simp
  note i = outbound_invD [OF inv mem]
  have "\<forall>x \<in> set (attempts_of (oa_id a) d). da_workspace_id x = ws_id ws \<and> da_integration_account_id x = ac_id account"
    using i(1) f by (simp add: view_ok_def attempts_coherent_def)
  then have "filter (\<lambda>x. da_workspace_id x = ws_id ws \<and> da_integration_account_id x = ac_id account \<and>
      da_outbound_integration_action_id x = oa_id a) (attempts d) = attempts_of (oa_id a) d"
    unfolding attempts_of_def by (intro filter_cong) auto
  with i(4) show ?thesis by (simp add: status_attempt_count_def)
qed

lemma readiness_reasons_Nil:
  "readiness_reasons reg ws view clk d = [] \<longleftrightarrow>
     ac_active (sv_account view) \<and>
     (oa_status (sv_action view) = PENDING \<or>
      oa_status (sv_action view) = FAILED \<and> el_allowed (sv_retry_eligibility view)) \<and>
     \<not> is_expired (sv_action view) (clk 1) \<and> \<not> is_before_not_before (sv_action view) (clk 2) \<and>
     el_allowed (gate_evaluate ws (sv_action view) d) \<and>
     validate_action reg (ac_provider (sv_account view)) (sv_action view) = None"
  by (cases "oa_status (sv_action view)") (auto simp: readiness_reasons_def Let_def)

lemma require_approved_iff: "require_approved ws a d = Inr u \<longleftrightarrow> el_allowed (gate_evaluate ws a d)"
  by (simp add: require_approved_def Let_def)

lemma deliver_action_succeeds:
  assumes "outbound_inv d" and "oa_status a = PENDING \<or> oa_status a = FAILED"
  shows "\<exists>x d'. deliver_action reg a acc clk d = Inr (x, d')"
proof -
  have "\<forall>x \<in> set (attempts d). da_id x < next_id d" using assms(1) by (simp add: outbound_inv_def)
  with deliver_action_effect [OF assms(2)] show ?thesis by blast
qed

lemma outbound_inv_audit_attempts:
  "outbound_inv d \<Longrightarrow> oa_status a = FAILED \<Longrightarrow>
   \<exists>x d'. deliver_action reg a acc clk (audit_record a AU_RETRIED t d) = Inr (x, d')"
  using deliver_action_effect [of a "audit_record a AU_RETRIED t d" reg acc clk]
  by (auto simp: outbound_inv_def audit_record_def take_id_def less_Suc_eq)

lemma deliver_success_account:
  assumes "deliver_pending_action reg ws acc k clk d = (Inr (a, c), d')"
  shows "get_for_workspace ws acc d = Inr c"
proof -
  from deliver_success_changes [OF assms] obtain x account where
    acc: "get_for_workspace ws acc d = Inr account"
    and d: "deliver_action reg x account clk d = Inr ((a, c), d')" by blast
  from d have "c = account"
    by (auto simp: deliver_action_def Let_def bindE_Inr_iff split: prod.splits)
  with acc show ?thesis by simp
qed

text \<open>The row an attempt leaves, by the answer of the adapter; an adapter that raises has failed.\<close>

definition recorded_outcome :: "adapter_result \<Rightarrow> int \<Rightarrow> outbound_action \<Rightarrow> outbound_action" where
  "recorded_outcome result t a = (if ar_delivered result then delivered_action result t a else failed_action result t a)"

definition adapter_answer :: "delivery_adapter \<Rightarrow> outbound_action \<Rightarrow> integration_account \<Rightarrow> adapter_result" where
  "adapter_answer adapter a account = (case ad_deliver adapter a account of
     None \<Rightarrow> result_failure ''adapter_execution_failed'' ''Delivery adapter execution failed'' None
   | Some result \<Rightarrow> result)"

lemma run_adapter_ready:
  assumes "validate_action reg (ac_provider account) a = None"
  shows "\<exists>adapter. registry_get reg (ac_provider account) = Some adapter \<and>
    run_adapter reg a account = adapter_answer adapter a account"
  using assms
  by (auto simp: run_adapter_def adapter_answer_def validate_action_def capabilities_for_def split: option.splits)

text \<open>The codes of an attempt that does not reach the adapter.\<close>

definition mismatch_codes :: "string set" where
  "mismatch_codes = {''adapter_not_configured'', ''adapter_capabilities_unavailable'', ''unsupported_action_type'',
     ''content_too_long''}"

lemma run_adapter_mismatch:
  assumes "validate_action reg (ac_provider account) a \<noteq> None"
  shows "oa_status (recorded_outcome (run_adapter reg a account) t a) = FAILED \<and>
    oa_failure_code (recorded_outcome (run_adapter reg a account) t a) \<in> Some ` mismatch_codes"
proof -
  have "validate_action reg p a = Some f \<Longrightarrow> \<not> ar_delivered f \<and> ar_failure_code f \<in> Some ` mismatch_codes" for f p
    by (auto simp: validate_action_def result_failure_def mismatch_codes_def split: option.splits if_splits)
  with assms show ?thesis
    by (fastforce simp: run_adapter_def recorded_outcome_def failed_action_def or_default_def mismatch_codes_def
        result_failure_def split: option.splits)
qed

lemma deliver_action_outcome:
  assumes "outbound_inv d" "oa_status a = PENDING \<or> oa_status a = FAILED" "deliver_action reg a acc clk d = Inr (x, d')"
  shows "x = (recorded_outcome (run_adapter reg a acc) (clk 7) a, acc)"
proof -
  have "\<forall>x \<in> set (attempts d). da_id x < next_id d" using assms(1) by (simp add: outbound_inv_def)
  from deliver_action_effect [OF assms(2) this, of reg acc clk] assms(3) show ?thesis
    by (auto simp: recorded_outcome_def)
qed

lemma retry_action_outcome:
  assumes "outbound_inv d" "oa_status a = FAILED" "deliver_action reg a acc clk (audit_record a AU_RETRIED t d) = Inr (x, d')"
  shows "x = (recorded_outcome (run_adapter reg a acc) (clk 7) a, acc)"
  using deliver_action_effect [of a "audit_record a AU_RETRIED t d" reg acc clk] assms
  by (auto simp: recorded_outcome_def outbound_inv_def audit_record_def take_id_def less_Suc_eq)

text \<open>The request a status asks for: delivery of a pending action, retry of another.\<close>

definition attempt_request ::
  "registry \<Rightarrow> retry_policy \<Rightarrow> workspace \<Rightarrow> uuid \<Rightarrow> outbound_action \<Rightarrow> clock \<Rightarrow> (outbound_action \<times> integration_account) op" where
  "attempt_request reg pol ws acc a clk =
     (if oa_status a = PENDING then deliver_pending_action reg ws acc (oa_id a) clk
      else retry_failed_action reg pol ws acc (oa_id a) clk)"

lemma attempt_request_outcome:
  assumes inv: "outbound_inv d" and acc: "get_for_workspace ws acc d = Inr account"
    and a: "get_action_for_account ws account k d = Inr a" and run: "fst (attempt_request reg pol ws acc a clk d) = Inr x"
  shows "x = (recorded_outcome (run_adapter reg a account) (clk 7) a, account)"
proof -
  have k: "oa_id a = k" using get_action_for_account_InrD [OF a] by simp
  show ?thesis
  proof (cases "oa_status a = PENDING")
    case True
    with run k obtain d' where "deliver_pending_action reg ws acc k clk d = (Inr x, d')"
      by (cases "deliver_pending_action reg ws acc k clk d") (simp add: attempt_request_def)
    from deliver_success_changes [OF this] acc a have "deliver_action reg a account clk d = Inr (x, d')" by auto
    from deliver_action_outcome [OF inv _ this] True show ?thesis by simp
  next
    case False
    with run acc a k obtain d' where "oa_status a = FAILED"
      "deliver_action reg a account clk (audit_record a AU_RETRIED (clk 4) d) = Inr (x, d')"
      by (auto simp: attempt_request_def retry_failed_action_def require_retry_attempt_def
          split: sum.splits if_splits prod.splits)
    from retry_action_outcome [OF inv this] show ?thesis .
  qed
qed

text \<open>When the request makes an attempt, and what the attempt then records.\<close>

lemma pending_attempt_iff:
  assumes inv: "outbound_inv d" and acc: "get_for_workspace ws acc d = Inr account"
    and a: "get_action_for_account ws account k d = Inr a" "oa_status a = PENDING"
  shows "(\<exists>x. fst (attempt_request reg pol ws acc a clk d) = Inr x) \<longleftrightarrow>
    ac_active account \<and> \<not> is_expired a (clk 0) \<and> \<not> is_before_not_before a (clk 3) \<and> el_allowed (gate_evaluate ws a d)"
  using delivery_conditions [OF inv acc a(1), where reg = reg and clk = clk] a(2) get_action_for_account_InrD [OF a(1)]
  by (auto simp: attempt_request_def require_approved_iff split: prod.splits if_splits)

lemma failed_attempt:
  assumes inv: "outbound_inv d" and acc: "get_for_workspace ws acc d = Inr account"
    and a: "get_action_for_account ws account k d = Inr a" "oa_status a = FAILED"
    and ev: "retry_evaluate_action pol (oa_status a) (int (status_attempt_count ws account a d))
       (oa_failure_code a) (oa_failure_classification a) = Inr static" "el_allowed static" and active: "ac_active account"
  shows "\<exists>x. fst (attempt_request reg pol ws acc a clk d) = Inr x"
proof -
  have "retry_evaluate pol (int (attempt_count a d)) (oa_failure_code a) (oa_failure_classification a) = Inr static"
    using ev a(2) status_count_agrees [OF inv a(1)] by (simp add: retry_evaluate_action_def)
  moreover obtain x d' where "deliver_action reg a account clk (audit_record a AU_RETRIED (clk 4) d) = Inr (x, d')"
    using outbound_inv_audit_attempts [OF inv a(2)] by blast
  moreover have "oa_id a = k" using get_action_for_account_InrD [OF a(1)] by simp
  ultimately show ?thesis
    using acc a ev(2) active by (simp add: attempt_request_def retry_failed_action_def require_retry_attempt_def)
qed

lemma attempt_reaches_adapter:
  assumes "outbound_inv d" "get_for_workspace ws acc d = Inr account" "get_action_for_account ws account k d = Inr a"
    and run: "fst (attempt_request reg pol ws acc a clk d) = Inr x" and ok: "validate_action reg (ac_provider account) a = None"
  shows "\<exists>adapter. registry_get reg (ac_provider account) = Some adapter \<and>
    fst (attempt_request reg pol ws acc a clk d) =
      Inr (recorded_outcome (adapter_answer adapter a account) (clk 7) a, account)"
  using run_adapter_ready [OF ok] attempt_request_outcome [OF assms(1-4)] run by auto

lemma mismatch_reason:
  "ADAPTER_CAPABILITY_MISMATCH \<in> set (readiness_reasons reg ws view clk d) \<Longrightarrow>
   validate_action reg (ac_provider (sv_account view)) (sv_action view) \<noteq> None"
  unfolding readiness_reasons_def by (auto simp: Let_def approval_reason_def split: if_splits)

text \<open>C17: Readiness tells the truth. An action reported ready is pending or failed, its provider has an
  adapter, and the matching request at the same time (delivery of a pending action, retry of a failed one) runs
  exactly that adapter's delivery: the row it returns records the adapter's answer. An action reported with
  a capability mismatch never reaches an adapter: whatever the adapter would do, an attempt fails with a code
  of the capability check. For a pending action the report is exact: it is ready if and only if the adapter
  can handle it and the delivery request makes an attempt.\<close>

theorem readiness_sound:
  assumes inv: "outbound_inv d" and r: "readiness_evaluate reg pol dpol ws acc k clk d = Inr r"
    and t: "clk' 0 = clk 1" "clk' 3 = clk 2"
  shows "\<exists>account a. get_for_workspace ws acc d = Inr account \<and> get_action_for_account ws account k d = Inr a \<and>
    rd_status r = oa_status a \<and>
    (rd_ready r \<longrightarrow> (oa_status a = PENDING \<or> oa_status a = FAILED) \<and>
       (\<exists>adapter. registry_get reg (ac_provider account) = Some adapter \<and>
          fst (attempt_request reg pol ws acc a clk' d) =
            Inr (recorded_outcome (adapter_answer adapter a account) (clk' 7) a, account))) \<and>
    (ADAPTER_CAPABILITY_MISMATCH \<in> set (rd_blocking_reasons r) \<longrightarrow>
       (\<forall>a' c. fst (attempt_request reg pol ws acc a clk' d) = Inr (a', c) \<longrightarrow>
          oa_status a' = FAILED \<and> oa_failure_code a' \<in> Some ` mismatch_codes)) \<and>
    (oa_status a = PENDING \<longrightarrow>
       (rd_ready r \<longleftrightarrow> validate_action reg (ac_provider account) a = None \<and>
          (\<exists>x. fst (attempt_request reg pol ws acc a clk' d) = Inr x)))"
proof -
  from readiness_InrD [OF r] obtain view where
    view: "get_status_for_action pol dpol ws acc k (clk 0) d = Inr view"
    and st: "rd_status r = oa_status (sv_action view)" and why: "rd_blocking_reasons r = readiness_reasons reg ws view clk d"
    and rd: "rd_ready r \<longleftrightarrow> readiness_reasons reg ws view clk d = []" by blast
  let ?a = "sv_action view" and ?account = "sv_account view"
  let ?run = "fst (attempt_request reg pol ws acc ?a clk' d)"
  from get_status_InrD [OF view] obtain static where
    acc: "get_for_workspace ws acc d = Inr ?account" and a: "get_action_for_account ws ?account k d = Inr ?a"
    and ev: "retry_evaluate_action pol (oa_status ?a) (int (status_attempt_count ws ?account ?a d))
       (oa_failure_code ?a) (oa_failure_classification ?a) = Inr static"
    and el: "el_allowed (sv_retry_eligibility view) \<Longrightarrow> el_allowed static" by blast
  have reach: "rd_ready r \<longrightarrow> (oa_status ?a = PENDING \<or> oa_status ?a = FAILED) \<and>
       (\<exists>adapter. registry_get reg (ac_provider ?account) = Some adapter \<and>
          ?run = Inr (recorded_outcome (adapter_answer adapter ?a ?account) (clk' 7) ?a, ?account))"
  proof
    assume "rd_ready r"
    then have f: "ac_active ?account" "oa_status ?a = PENDING \<or> oa_status ?a = FAILED \<and> el_allowed static"
      "\<not> is_expired ?a (clk 1)" "\<not> is_before_not_before ?a (clk 2)" "el_allowed (gate_evaluate ws ?a d)"
      "validate_action reg (ac_provider ?account) ?a = None"
      using el unfolding rd readiness_reasons_Nil by auto
    then obtain x where "?run = Inr x"
      using pending_attempt_iff [OF inv acc a, of reg pol clk'] failed_attempt [OF inv acc a _ ev, of reg clk'] t by auto
    from attempt_reaches_adapter [OF inv acc a this f(6)] f(2)
    show "(oa_status ?a = PENDING \<or> oa_status ?a = FAILED) \<and>
       (\<exists>adapter. registry_get reg (ac_provider ?account) = Some adapter \<and>
          ?run = Inr (recorded_outcome (adapter_answer adapter ?a ?account) (clk' 7) ?a, ?account))" by blast
  qed
  have mismatch: "ADAPTER_CAPABILITY_MISMATCH \<in> set (rd_blocking_reasons r) \<longrightarrow>
       (\<forall>a' c. ?run = Inr (a', c) \<longrightarrow> oa_status a' = FAILED \<and> oa_failure_code a' \<in> Some ` mismatch_codes)"
    using run_adapter_mismatch [OF mismatch_reason] attempt_request_outcome [OF inv acc a, of reg pol clk'] unfolding why
    by blast
  have exact: "oa_status ?a = PENDING \<longrightarrow>
       (rd_ready r \<longleftrightarrow> validate_action reg (ac_provider ?account) ?a = None \<and> (\<exists>x. ?run = Inr x))"
    using pending_attempt_iff [OF inv acc a, of reg pol clk'] t unfolding rd readiness_reasons_Nil by auto
  show ?thesis
    by (rule exI [of _ ?account], rule exI [of _ ?a]) (intro conjI acc a st reach mismatch exact)
qed

definition sample_delay :: delay_policy where
  "sample_delay = \<lparr>dp_strategy = FIXED, dp_delay_seconds = 0, dp_maximum_delay_seconds = 0\<rparr>"

text \<open>A pending action of an account of the no-op provider: reported ready, and delivered.\<close>

definition sample_ready_db :: db where
  "sample_ready_db = sample_pending_db\<lparr>accounts := [(sample_account ''h'')\<lparr>ac_provider := ''generic_hmac''\<rparr>]\<rparr>"

theorem readiness_sound_witness:
  "\<exists>r a account. readiness_evaluate (default_registry (\<lambda>_. []) None) sample_policy sample_delay sample_ws 4 6
       (\<lambda>_. 0) sample_ready_db = Inr r \<and> rd_ready r \<and>
     fst (deliver_pending_action (default_registry (\<lambda>_. []) None) sample_ws 4 6 (\<lambda>_. 0) sample_ready_db) = Inr (a, account) \<and>
     oa_status a = DELIVERED \<and> oa_provider_delivery_id a = Some ''noop-''"
proof -
  let ?reg = "default_registry (\<lambda>_. []) None" and ?c = "(sample_account ''h'')\<lparr>ac_provider := ''generic_hmac''\<rparr>"
  have inv: "outbound_inv sample_ready_db"
    by (rule outbound_inv_frame [OF sample_pending_inv]) (simp_all add: sample_ready_db_def)
  have acc: "get_for_workspace sample_ws 4 sample_ready_db = Inr ?c"
    by (simp add: get_for_workspace_def sample_ready_db_def sample_defs)
  have act: "get_action_for_account sample_ws ?c 6 sample_ready_db = Inr (sample_action PENDING)"
    by (simp add: get_action_for_account_def sample_ready_db_def sample_pending_db_def sample_defs)
  have val: "validate_action ?reg ''generic_hmac'' (sample_action PENDING) = None"
    by (simp add: validate_action_def capabilities_for_def registry_get_def default_registry_def noop_adapter_def
        DEFAULT_CAPABILITIES_def sample_action_def)
  obtain view where view: "get_status_for_action sample_policy sample_delay sample_ws 4 6 0 sample_ready_db = Inr view"
    by (simp add: get_status_for_action_def acc act Let_def retry_evaluate_action_def) (simp add: sample_action_def)
  then have v: "sv_account view = ?c" "sv_action view = sample_action PENDING"
    using get_status_InrD [OF view] acc act by auto
  have gate: "el_allowed (gate_evaluate sample_ws (sample_action PENDING) sample_ready_db)"
    by (simp add: gate_evaluate_def sample_action_def)
  have row: "oa_status (sample_action PENDING) = PENDING" "\<not> is_expired (sample_action PENDING) 0"
    "\<not> is_before_not_before (sample_action PENDING) 0" "ac_active ?c"
    by (simp_all add: sample_action_def sample_account_def is_expired_def is_before_not_before_def)
  have reasons: "readiness_reasons ?reg sample_ws view (\<lambda>_. 0) sample_ready_db = []"
    unfolding readiness_reasons_Nil v using row val gate by simp
  obtain r where r: "readiness_evaluate ?reg sample_policy sample_delay sample_ws 4 6
       (\<lambda>_. 0) sample_ready_db = Inr r" "rd_ready r"
    by (simp add: readiness_evaluate_def view reasons Let_def)
  have "fst (attempt_request ?reg sample_policy sample_ws 4 (sample_action PENDING) (\<lambda>_. 0) sample_ready_db) =
      Inr (recorded_outcome (adapter_answer (noop_adapter (\<lambda>_. [])) (sample_action PENDING) ?c) 0 (sample_action PENDING), ?c)"
    using readiness_sound [OF inv r(1), of "\<lambda>_. 0"] acc act r(2)
    by (auto simp: registry_get_def default_registry_def)
  then have "fst (deliver_pending_action ?reg sample_ws 4 6 (\<lambda>_. 0) sample_ready_db) =
      Inr (recorded_outcome (adapter_answer (noop_adapter (\<lambda>_. [])) (sample_action PENDING) ?c) 0 (sample_action PENDING), ?c)"
    by (simp add: attempt_request_def) (simp add: sample_action_def)
  with r show ?thesis
    by (intro exI conjI)
      (assumption | simp add: recorded_outcome_def adapter_answer_def noop_adapter_def noop_deliver_def
         result_success_def delivered_action_def)+
qed

section \<open>The state history ends in the stored status\<close>

lemma filter_unique_key:
  "distinct (map f xs) \<Longrightarrow> k \<in> set xs \<Longrightarrow> filter (\<lambda>x. f k = f x) xs = [k]"
  by (induction xs) (auto simp: filter_empty_conv image_iff)

lemma order_desc_strict:
  assumes "sorted_wrt (<) (map f xs)"
  shows "order_desc f xs = rev xs"
proof -
  have s: "sorted (map f xs)" and d: "distinct (map f xs)"
    using assms strict_sorted_iff by blast+
  have "sort_key f (rev xs) = xs"
  proof (rule properties_for_sort_key)
    fix k assume "k \<in> set xs"
    with d show "filter (\<lambda>x. f k = f x) xs = filter (\<lambda>x. f k = f x) (rev xs)"
      by (simp add: filter_unique_key flip: rev_filter)
  qed (simp_all add: s)
  then show ?thesis by (simp add: order_desc_def)
qed

lemma history_entries_rev: "rev (history_entries (rev es)) = history_entries es"
proof (induction es)
  case (Cons e es)
  then show ?case by (auto simp: history_entries_def split: option.splits)
qed (simp add: history_entries_def)

definition last_state :: "audit_action list \<Rightarrow> action_status" where
  "last_state evs = fold (\<lambda>e s. case STATE_BY_EVENT e of None \<Rightarrow> s | Some x \<Rightarrow> x) evs PENDING"

lemma last_state_snoc:
  "last_state (es @ [e]) = (case STATE_BY_EVENT e of None \<Rightarrow> last_state es | Some x \<Rightarrow> x)"
  by (simp add: last_state_def split: option.split)

lemma last_state_entries:
  "last_state (map ae_action es) =
     (if history_entries es = [] then PENDING else sh_state (last (history_entries es)))"
proof (induction es rule: rev_induct)
  case (snoc e es)
  then show ?case by (auto simp: last_state_def history_entries_def split: option.splits)
qed (simp add: last_state_def history_entries_def)

fun tracker_state :: "tracker \<Rightarrow> action_status \<Rightarrow> bool" where
  "tracker_state (Settled st n b) s = (s = st)"
| "tracker_state (Retrying n) s = (s = FAILED)"
| "tracker_state (Trying n) s = True"
| "tracker_state Fresh s = (s = PENDING)"

fun_cases track_SomeE: "track s e = Some t"

lemma track_state:
  "track s e = Some t \<Longrightarrow> tracker_state s x \<Longrightarrow>
   tracker_state t (case STATE_BY_EVENT e of None \<Rightarrow> x | Some y \<Rightarrow> y)"
  by (erule track_SomeE; auto split: if_splits)

lemma replay_last_state: "replay evs = Some t \<Longrightarrow> tracker_state t (last_state evs)"
proof (induction evs arbitrary: t rule: rev_induct)
  case Nil
  then show ?case by (auto simp: replay_def last_state_def)
next
  case (snoc e evs)
  then obtain s where s: "replay evs = Some s" "track s e = Some t"
    by (auto simp: replay_def replay_from_append split: option.splits)
  from track_state [OF s(2) snoc.IH [OF s(1)]] show ?case by (simp only: last_state_snoc)
qed

lemma last_take_last: "0 < n \<Longrightarrow> xs \<noteq> [] \<Longrightarrow> take_last n xs \<noteq> [] \<and> last (take_last n xs) = last xs"
  by (cases xs rule: rev_cases) (auto simp: take_last_def)

text \<open>The state history shows how an action came to its status: with at most 100 audit events at
  increasing times it is the last entries, oldest first, of the action's status changes; it ends in
  the stored status, and it is empty only for an action that is still pending.\<close>

theorem state_history_ends_in_status:
  assumes inv: "outbound_inv d" and acc: "get_for_workspace ws acc d = Inr account"
    and a: "get_action_for_account ws account k d = Inr a" and lim: "1 \<le> limit" "limit \<le> 100"
    and es: "es = filter (\<lambda>e. ae_outbound_integration_action_id e = k) (audit_events d)"
    and len: "length es \<le> 100" and incr: "sorted_wrt (<) (map (\<lambda>e. dt_instant (ae_created_at e)) es)"
  shows "\<exists>h. state_history ws acc k limit d = Inr h \<and> h = take_last (nat limit) (history_entries es) \<and>
    (if h = [] then oa_status a = PENDING else sh_state (last h) = oa_status a)"
proof -
  note f = get_action_for_account_InrD [OF a]
  then have mem: "a \<in> set (actions d)" and k: "oa_id a = k" by simp_all
  have scoped: "event_scoped a e" if "e \<in> set (audit_events d)" for e
    using inv mem that by (simp add: outbound_inv_def)
  have "filter (\<lambda>e. ae_workspace_id e = ws_id ws \<and> opt_filter (\<lambda>a. ae_action e = a) None \<and>
      opt_filter (\<lambda>i. ae_integration_account_id e = i) (Some (ac_id account)) \<and>
      opt_filter (\<lambda>i. ae_outbound_integration_action_id e = i) (Some k) \<and>
      in_range None None (ae_created_at e)) (audit_events d) = es"
    unfolding es by (rule filter_cong) (use scoped f in \<open>auto simp: opt_filter_def in_range_def event_scoped_def\<close>)
  moreover have "sorted_wrt (<) (map (\<lambda>e. (dt_instant (ae_created_at e), ae_id e)) es)"
    using incr by (auto simp: sorted_wrt_map intro: sorted_wrt_mono_rel [rotated])
  ultimately have "audit_list_for_workspace ws None (Some (ac_id account)) (Some k) None None
      MAX_STATE_HISTORY_LIMIT d = Inr (rev es)"
    using len by (simp add: audit_list_for_workspace_def audit_validate_query_def
        MAX_STATE_HISTORY_LIMIT_def MAX_OUTBOUND_AUDIT_EVENT_LIMIT_def validate_range_def order_desc_strict)
  then have h: "state_history ws acc k limit d = Inr (take_last (nat limit) (history_entries es))"
    using lim acc a by (simp add: state_history_def MAX_STATE_HISTORY_LIMIT_def history_entries_rev)
  have "replay (map ae_action es) = Some (Settled (oa_status a) (length (attempts_of k d)) (oa_archived_at a \<noteq> None))"
    using outbound_invD(1) [OF inv mem] k by (simp add: view_ok_def events_of_def es)
  from replay_last_state [OF this] have "last_state (map ae_action es) = oa_status a" by simp
  then show ?thesis
    using h last_take_last [of "nat limit" "history_entries es"] lim
    by (auto simp: last_state_entries take_last_def split: if_splits)
qed

theorem state_history_ends_in_status_witness:
  "state_history sample_ws 4 6 10 sample_pending_db = Inr []"
proof -
  let ?es = "filter (\<lambda>e. ae_outbound_integration_action_id e = 6) (audit_events sample_pending_db)"
  have acc: "get_for_workspace sample_ws 4 sample_pending_db = Inr (sample_account ''h'')"
    by (simp add: get_for_workspace_def sample_pending_db_def sample_defs)
  have a: "get_action_for_account sample_ws (sample_account ''h'') 6 sample_pending_db = Inr (sample_action PENDING)"
    by (simp add: get_action_for_account_def sample_pending_db_def sample_defs)
  have "history_entries ?es = []"
    by (simp add: history_entries_def sample_pending_db_def)
  moreover have "length ?es \<le> 100" "sorted_wrt (<) (map (\<lambda>e. dt_instant (ae_created_at e)) ?es)"
    by (simp_all add: sample_pending_db_def)
  ultimately show ?thesis
    using state_history_ends_in_status [OF sample_pending_inv acc a, of 10 ?es] by (simp add: take_last_def)
qed

end
