(* ===== verification/Rbac.thy ===== *)
theory Rbac
  imports Samples
begin

text \<open>
  app/services/workspace_rbac.py: the capabilities of a workspace member, decided by the role
  that is stored with the membership. A role arrives as the text that is persisted; text outside
  the enumeration is an error of \<open>permissions_for_role\<close> and a refusal of \<open>allows\<close>.
\<close>

datatype workspace_permission =
  WORKSPACE_READ | WORKSPACE_SETTINGS_MANAGE | SALES_DATA_READ | SALES_DATA_WRITE
  | CONVERSATION_OPERATE | APPROVAL_DECIDE | OPERATOR_ASSIGNMENT_MANAGE | INTEGRATION_READ
  | INTEGRATION_MANAGE | OUTBOUND_ACTION_OPERATE | AI_USAGE_READ

definition all_permissions :: "workspace_permission list" where
  "all_permissions = [WORKSPACE_READ, WORKSPACE_SETTINGS_MANAGE, SALES_DATA_READ, SALES_DATA_WRITE,
     CONVERSATION_OPERATE, APPROVAL_DECIDE, OPERATOR_ASSIGNMENT_MANAGE, INTEGRATION_READ,
     INTEGRATION_MANAGE, OUTBOUND_ACTION_OPERATE, AI_USAGE_READ]"

definition MEMBER_PERMISSIONS :: "workspace_permission list" where
  "MEMBER_PERMISSIONS = [WORKSPACE_READ, SALES_DATA_READ, SALES_DATA_WRITE, CONVERSATION_OPERATE]"

fun ROLE_PERMISSIONS :: "member_role \<Rightarrow> workspace_permission list" where
  "ROLE_PERMISSIONS OWNER = all_permissions"
| "ROLE_PERMISSIONS ADMIN = all_permissions"
| "ROLE_PERMISSIONS MEMBER = MEMBER_PERMISSIONS"

definition permissions_for_role :: "string \<Rightarrow> error + workspace_permission list" where
  "permissions_for_role role =
     (case role_of_value role of
        None \<Rightarrow> Inl (IdentityE UnknownWorkspaceRoleError)
      | Some r \<Rightarrow> Inr (ROLE_PERMISSIONS r))"

definition rbac_allows :: "string \<Rightarrow> workspace_permission \<Rightarrow> bool" where
  "rbac_allows role permission =
     (case permissions_for_role role of Inl _ \<Rightarrow> False | Inr ps \<Rightarrow> permission \<in> set ps)"

definition require_permission :: "string \<Rightarrow> workspace_permission \<Rightarrow> error + unit" where
  "require_permission role permission =
     (if \<not> rbac_allows role permission then Inl (IdentityE WorkspacePermissionDeniedError) else Inr ())"

lemma all_permissions_complete: "p \<in> set all_permissions"
  by (cases p) (simp_all add: all_permissions_def)

lemma role_of_value_Some_iff: "role_of_value v = Some r \<longleftrightarrow> v = role_value r"
  by (cases r) (auto simp: role_of_value_def)

lemma ex_role: "(\<exists>r. Q r) \<longleftrightarrow> Q OWNER \<or> Q ADMIN \<or> Q MEMBER"
  by (metis member_role.exhaust)

lemma rbac_allows_role [simp]: "rbac_allows (role_value r) p \<longleftrightarrow> p \<in> set (ROLE_PERMISSIONS r)"
  by (simp add: rbac_allows_def permissions_for_role_def)

lemma require_permission_Inr_iff [simp]: "require_permission role p = Inr u \<longleftrightarrow> rbac_allows role p"
  by (simp add: require_permission_def)

text \<open>A capability is granted exactly to the stored role texts of owners and administrators,
  and to members only when it is reading the workspace, reading or writing sales data, or
  operating conversations; any other role text is refused every capability.\<close>

theorem permission_matrix:
  "require_permission role p = Inr () \<longleftrightarrow>
     role = ''owner'' \<or> role = ''admin'' \<or>
     (role = ''member'' \<and> p \<in> {WORKSPACE_READ, SALES_DATA_READ, SALES_DATA_WRITE, CONVERSATION_OPERATE})"
proof -
  have "rbac_allows role p \<longleftrightarrow> (\<exists>r. role_of_value role = Some r \<and> p \<in> set (ROLE_PERMISSIONS r))"
    by (cases "role_of_value role") (simp_all add: rbac_allows_def permissions_for_role_def)
  also have "\<dots> \<longleftrightarrow> (\<exists>r. role = role_value r \<and> p \<in> set (ROLE_PERMISSIONS r))"
    by (simp only: role_of_value_Some_iff)
  also have "\<dots> \<longleftrightarrow> role = role_value OWNER \<or> role = role_value ADMIN \<or>
      (role = role_value MEMBER \<and> p \<in> set MEMBER_PERMISSIONS)"
    by (simp add: ex_role all_permissions_complete del: role_value.simps)
  finally show ?thesis by (simp add: MEMBER_PERMISSIONS_def)
qed

end
