(* ===== verification/Py_Decimal.thy ===== *)
theory Py_Decimal
  imports Store
begin

text \<open>
  Python's \<open>Decimal\<close> as the sources use it, under the default context: arithmetic rounds its
  exact result to 28 significant digits, halves to even; comparison and construction are exact.
  A finite value is a rational number. Exponents beyond the context's range, where Python
  signals overflow or underflow, are outside the model.
\<close>

section \<open>Construction\<close>

datatype decimal = Fin rat | NotFinite

definition digit_value :: "char \<Rightarrow> int" where
  "digit_value c = of_char c - 48"

definition digits_value :: "string \<Rightarrow> int" where
  "digits_value s = fold (\<lambda>c n. 10 * n + digit_value c) s 0"

definition pow10 :: "int \<Rightarrow> rat" where
  "pow10 e = (if 0 \<le> e then 10 ^ nat e else 1 / 10 ^ nat (- e))"

definition split_sign :: "string \<Rightarrow> int \<times> string" where
  "split_sign s = (case s of [] \<Rightarrow> (1, [])
     | c # r \<Rightarrow> if c = CHR ''-'' then (-1, r) else if c = CHR ''+'' then (1, r) else (1, s))"

definition parse_exponent :: "string \<Rightarrow> int option" where
  "parse_exponent s = (case s of [] \<Rightarrow> Some 0
     | c # r \<Rightarrow> if py_lower_char c \<noteq> CHR ''e'' then None
         else (let (sg, ds) = split_sign r in
           if ds = [] \<or> \<not> list_all is_digit09 ds then None else Some (sg * digits_value ds)))"

text \<open>
  \<open>Decimal(text)\<close>: white space at the ends and every underscore are dropped, then an optional
  sign, and a numeral with at most one point and an optional exponent, or a name of an infinity
  or of a not-a-number. \<open>None\<close> is \<open>InvalidOperation\<close>.
\<close>

definition is_nonfinite_name :: "string \<Rightarrow> bool" where
  "is_nonfinite_name s = (let t = py_lower s in
     t = ''inf'' \<or> t = ''infinity'' \<or>
     (take 3 t = ''nan'' \<and> list_all is_digit09 (drop 3 t)) \<or>
     (take 4 t = ''snan'' \<and> list_all is_digit09 (drop 4 t)))"

definition decimal_of_string :: "string \<Rightarrow> decimal option" where
  "decimal_of_string text =
     (let (sg, s) = split_sign (filter (\<lambda>c. c \<noteq> CHR ''_'') (py_strip text));
          whole = takeWhile is_digit09 s; r = dropWhile is_digit09 s;
          (frac, r') = (case r of c # r1 \<Rightarrow>
              (if c = CHR ''.'' then (takeWhile is_digit09 r1, dropWhile is_digit09 r1) else ([], r))
            | [] \<Rightarrow> ([], []))
      in if is_nonfinite_name s then Some NotFinite
         else if whole = [] \<and> frac = [] then None
         else (case parse_exponent r' of None \<Rightarrow> None
           | Some e \<Rightarrow> Some (Fin (of_int (sg * digits_value (whole @ frac)) * pow10 (e - int (length frac))))))"

text \<open>What a caller may pass as an amount.\<close>

datatype amount = AmountInt int | AmountDecimal decimal | AmountText string | AmountFloat rat

text \<open>
  The checks \<open>_cost\<close>, \<open>_spend_limit\<close> and \<open>_expected_cost\<close> share: no binary float, a value
  \<open>Decimal\<close> accepts, finite and not negative. They differ in the exception they raise.
\<close>

definition checked_amount :: "error \<Rightarrow> amount option \<Rightarrow> error + rat option" where
  "checked_amount err v = (case v of None \<Rightarrow> Inr None
     | Some (AmountFloat _) \<Rightarrow> Inl err
     | Some (AmountInt n) \<Rightarrow> if n < 0 then Inl err else Inr (Some (of_int n))
     | Some (AmountDecimal (Fin x)) \<Rightarrow> if x < 0 then Inl err else Inr (Some x)
     | Some (AmountDecimal NotFinite) \<Rightarrow> Inl err
     | Some (AmountText t) \<Rightarrow> (case decimal_of_string t of
           Some (Fin x) \<Rightarrow> if x < 0 then Inl err else Inr (Some x)
         | _ \<Rightarrow> Inl err))"

lemma checked_amount_nonneg: "checked_amount err v = Inr (Some x) \<Longrightarrow> 0 \<le> x"
  by (auto simp: checked_amount_def split: option.splits amount.splits decimal.splits if_splits)

lemma checked_amount_None_iff: "checked_amount err v = Inr None \<longleftrightarrow> v = None"
  by (auto simp: checked_amount_def split: option.splits amount.splits decimal.splits if_splits)

section \<open>Rounding to the context\<close>

fun ndigits :: "nat \<Rightarrow> nat" where
  "ndigits n = (if n < 10 then 1 else Suc (ndigits (n div 10)))"

declare ndigits.simps [simp del]

definition half_even :: "rat \<Rightarrow> int" where
  "half_even y = (let f = \<lfloor>y\<rfloor>; r = y - of_int f in
     if r < 1 / 2 then f else if 1 / 2 < r then f + 1 else if even f then f else f + 1)"

text \<open>The exponent of the last of the 28 digits of a positive number.\<close>

definition unit_exponent :: "rat \<Rightarrow> int" where
  "unit_exponent x =
     (if 1 \<le> x then int (ndigits (nat \<lfloor>x\<rfloor>)) - 28 else - int (ndigits (nat (\<lceil>1 / x\<rceil> - 1))) - 27)"

definition round_positive :: "rat \<Rightarrow> rat" where
  "round_positive x = (if x = 0 then 0
     else (let u = pow10 (unit_exponent x) in of_int (half_even (x / u)) * u))"

definition dec :: "rat \<Rightarrow> rat" where
  "dec x = (if x < 0 then - round_positive (- x) else round_positive x)"

lemma ndigits_bounds: "0 < n \<Longrightarrow> 10 ^ (ndigits n - 1) \<le> n \<and> n < 10 ^ ndigits n"
proof (induction n rule: ndigits.induct)
  case (1 n)
  show ?case
  proof (cases "n < 10")
    case True
    with 1 show ?thesis by (simp add: ndigits.simps)
  next
    case False
    define m where "m = n div 10"
    from False have ih: "10 ^ (ndigits m - 1) \<le> m" "m < 10 ^ ndigits m"
      using 1 by (simp_all add: m_def)
    have pos: "0 < ndigits m" by (subst ndigits.simps) simp
    have n: "10 * m \<le> n" "n < 10 * Suc m" by (simp_all add: m_def)
    have "10 ^ ndigits m = 10 * 10 ^ (ndigits m - 1)"
      using pos by (simp add: power_eq_if)
    also have "\<dots> \<le> 10 * m" using ih(1) by simp
    finally have lo: "10 ^ ndigits m \<le> n" using n(1) by linarith
    have "n < 10 * Suc m" by (rule n(2))
    also have "\<dots> \<le> 10 * 10 ^ ndigits m" using ih(2) by (simp add: Suc_le_eq)
    finally have "n < 10 ^ Suc (ndigits m)" by simp
    with lo False show ?thesis by (simp add: ndigits.simps [of n] m_def)
  qed
qed

lemma ndigits_pos: "0 < ndigits n"
  by (subst ndigits.simps) simp

lemma pow10_pos [simp]: "0 < pow10 e"
  by (simp add: pow10_def)

lemma pow10_nonzero [simp]: "pow10 e \<noteq> 0"
  by (simp add: pow10_def)

lemma pow10_power_int: "pow10 e = 10 powi e"
  by (auto simp: pow10_def power_int_def field_simps)

lemma pow10_add: "pow10 (a + b) = pow10 a * pow10 b"
  by (simp add: pow10_power_int power_int_add)

lemma pow10_mono: "a \<le> b \<Longrightarrow> pow10 a \<le> pow10 b"
  unfolding pow10_power_int by (rule power_int_increasing) auto

lemma pow10_less_iff: "pow10 a < pow10 b \<longleftrightarrow> a < b"
proof
  assume "pow10 a < pow10 b"
  then show "a < b" by (metis pow10_mono not_le)
next
  assume "a < b"
  then show "pow10 a < pow10 b" unfolding pow10_power_int by (rule power_int_strict_increasing) auto
qed

lemma pow10_of_nat: "pow10 (int n) = 10 ^ n"
  by (simp add: pow10_def)

text \<open>A positive number divided by its unit has 28 digits before the point.\<close>

lemma unit_exponent_bounds:
  assumes "0 < x"
  shows "pow10 (unit_exponent x + 27) \<le> x" and "x < pow10 (unit_exponent x + 28)"
proof -
  have "pow10 (unit_exponent x + 27) \<le> x \<and> x < pow10 (unit_exponent x + 28)"
  proof (cases "1 \<le> x")
    case True
    define n where "n = nat \<lfloor>x\<rfloor>"
    define k where "k = ndigits n"
    have "x < of_int \<lfloor>x\<rfloor> + 1" by linarith
    with True have n: "0 < n" "rat_of_nat n \<le> x" "x < rat_of_nat n + 1"
      by (simp_all add: n_def)
    from ndigits_bounds [OF n(1)] have b: "10 ^ (k - 1) \<le> n" "Suc n \<le> 10 ^ k"
      by (simp_all add: k_def)
    have "(10 :: rat) ^ (k - 1) \<le> rat_of_nat n" using b(1) by simp
    moreover have "rat_of_nat (Suc n) \<le> 10 ^ k" using b(2) by (simp only: of_nat_le_numeral_power_cancel_iff)
    ultimately have "10 ^ (k - 1) \<le> x" "x < 10 ^ k" using n(2,3) by linarith+
    moreover have "unit_exponent x + 27 = int (k - 1)" "unit_exponent x + 28 = int k"
      using True ndigits_pos [of n] by (simp_all add: unit_exponent_def n_def k_def)
    ultimately show ?thesis by (simp only: pow10_of_nat)
  next
    case False
    define n where "n = nat (\<lceil>1 / x\<rceil> - 1)"
    define k where "k = ndigits n"
    from False assms have inv: "1 < 1 / x" by simp
    then have c: "2 \<le> \<lceil>1 / x\<rceil>" by (simp add: le_ceiling_iff)
    then have n: "0 < n" by (simp add: n_def)
    have nat: "rat_of_nat n = of_int (\<lceil>1 / x\<rceil> - 1)"
      unfolding n_def by (rule of_nat_nat) (use c in linarith)
    have ub: "1 / x \<le> rat_of_nat n + 1" and lb: "rat_of_nat n < 1 / x"
      unfolding nat of_int_diff of_int_1 by linarith+
    from ndigits_bounds [OF n] have b: "10 ^ (k - 1) \<le> n" "Suc n \<le> 10 ^ k"
      by (simp_all add: k_def)
    have "(10 :: rat) ^ (k - 1) \<le> rat_of_nat n" using b(1) by simp
    moreover have "rat_of_nat (Suc n) \<le> 10 ^ k" using b(2) by (simp only: of_nat_le_numeral_power_cancel_iff)
    ultimately have "10 ^ (k - 1) < 1 / x" "1 / x \<le> 10 ^ k" using ub lb by linarith+
    then have "x < 1 / 10 ^ (k - 1)" "1 / 10 ^ k \<le> x" using assms by (simp_all add: field_simps)
    moreover have "pow10 (- int k) = 1 / 10 ^ k" by (simp add: pow10_power_int power_int_minus field_simps)
    moreover have "pow10 (- int (k - 1)) = 1 / 10 ^ (k - 1)" by (simp add: pow10_power_int power_int_minus field_simps)
    moreover have "unit_exponent x + 27 = - int k" "unit_exponent x + 28 = - int (k - 1)"
      using False ndigits_pos [of n] by (simp_all add: unit_exponent_def n_def k_def)
    ultimately show ?thesis by simp
  qed
  then show "pow10 (unit_exponent x + 27) \<le> x" and "x < pow10 (unit_exponent x + 28)" by simp_all
qed

lemma half_even_error: "\<bar>of_int (half_even y) - y\<bar> \<le> 1 / 2"
proof -
  have "of_int \<lfloor>y\<rfloor> \<le> y" "y < of_int \<lfloor>y\<rfloor> + 1" by linarith+
  then show ?thesis by (auto simp: half_even_def Let_def)
qed

lemma half_even_of_int [simp]: "half_even (of_int n) = n"
  by (simp add: half_even_def)

lemma half_even_mono:
  assumes "x \<le> y"
  shows "half_even x \<le> half_even y"
proof (cases "\<lfloor>x\<rfloor> = \<lfloor>y\<rfloor>")
  case True
  with assms show ?thesis by (auto simp: half_even_def Let_def)
next
  case False
  with assms have "\<lfloor>x\<rfloor> + 1 \<le> \<lfloor>y\<rfloor>" using floor_mono [OF assms] by linarith
  moreover have "half_even x \<le> \<lfloor>x\<rfloor> + 1" "\<lfloor>y\<rfloor> \<le> half_even y" by (auto simp: half_even_def Let_def)
  ultimately show ?thesis by linarith
qed


lemma half_even_le_int: "y \<le> of_int n \<Longrightarrow> half_even y \<le> n"
  using half_even_mono [of y "of_int n"] by simp

lemma half_even_ge_int: "of_int n \<le> y \<Longrightarrow> n \<le> half_even y"
  using half_even_mono [of "of_int n" y] by simp

lemma round_positive_coefficient:
  assumes "0 < x"
  shows "10 ^ 27 \<le> half_even (x / pow10 (unit_exponent x))"
    and "half_even (x / pow10 (unit_exponent x)) \<le> 10 ^ 28"
proof -
  let ?u = "pow10 (unit_exponent x)"
  from unit_exponent_bounds [OF assms] have "10 ^ 27 * ?u \<le> x" "x < 10 ^ 28 * ?u"
    by (simp_all add: pow10_add pow10_def [of 27] pow10_def [of 28] mult.commute)
  then have "of_int (10 ^ 27) \<le> x / ?u" "x / ?u \<le> of_int (10 ^ 28)"
    by (simp_all add: pos_le_divide_eq pos_divide_le_eq)
  then show "10 ^ 27 \<le> half_even (x / ?u)" and "half_even (x / ?u) \<le> 10 ^ 28"
    by (simp_all only: half_even_ge_int half_even_le_int)
qed

lemma round_positive_nonneg: "0 \<le> x \<Longrightarrow> 0 \<le> round_positive x"
  using round_positive_coefficient(1) [of x]
  by (cases "x = 0") (simp_all add: round_positive_def Let_def mult_nonneg_nonneg less_imp_le)

lemma round_positive_mono:
  assumes "0 < x" "x \<le> y"
  shows "round_positive x \<le> round_positive y"
proof -
  let ?u = "unit_exponent x" and ?v = "unit_exponent y"
  from assms have y: "0 < y" by simp
  from unit_exponent_bounds [OF assms(1)] unit_exponent_bounds [OF y] assms(2)
  have "pow10 (?u + 27) < pow10 (?v + 28)" by linarith
  then have le: "?u \<le> ?v" by (simp add: pow10_less_iff)
  show ?thesis
  proof (cases "?u = ?v")
    case True
    from assms(2) have "x / pow10 ?v \<le> y / pow10 ?v" by (simp add: divide_right_mono less_imp_le)
    from half_even_mono [OF this] True assms y show ?thesis
      by (simp add: round_positive_def Let_def mult_right_mono less_imp_le)
  next
    case False
    with le have "?u + 1 \<le> ?v" by simp
    then have "10 * pow10 ?u \<le> pow10 ?v"
      using pow10_mono [of "?u + 1" ?v] by (simp add: pow10_add pow10_def [of 1])
    have "(of_int (half_even (x / pow10 ?u)) :: rat) \<le> of_int (10 ^ 28)"
      using round_positive_coefficient(2) [OF assms(1)] by (simp only: of_int_le_iff)
    then have "round_positive x \<le> of_int (10 ^ 28) * pow10 ?u"
      unfolding round_positive_def Let_def using assms(1) by (simp add: mult_right_mono less_imp_le)
    also have "\<dots> \<le> of_int (10 ^ 27) * pow10 ?v"
      using \<open>10 * pow10 ?u \<le> pow10 ?v\<close> by simp
    also have "of_int (10 ^ 27) \<le> (of_int (half_even (y / pow10 ?v)) :: rat)"
      using round_positive_coefficient(1) [OF y] by (simp only: of_int_le_iff)
    then have "of_int (10 ^ 27) * pow10 ?v \<le> round_positive y"
      unfolding round_positive_def Let_def using y by (simp add: mult_right_mono less_imp_le)
    finally show ?thesis .
  qed
qed

lemma round_positive_error:
  assumes "0 < x"
  shows "\<bar>round_positive x - x\<bar> \<le> x / (2 * 10 ^ 27)"
proof -
  let ?u = "pow10 (unit_exponent x)"
  have "round_positive x - x = (of_int (half_even (x / ?u)) - x / ?u) * ?u"
    using assms by (simp add: round_positive_def Let_def algebra_simps)
  then have "\<bar>round_positive x - x\<bar> = \<bar>of_int (half_even (x / ?u)) - x / ?u\<bar> * ?u"
    by (simp add: abs_mult less_imp_le)
  also have "\<dots> \<le> 1 / 2 * ?u" by (intro mult_right_mono half_even_error) (simp add: less_imp_le)
  also have "?u \<le> x / 10 ^ 27"
    using unit_exponent_bounds(1) [OF assms] by (simp add: pow10_add pow10_def [of 27] field_simps)
  finally show ?thesis by simp
qed

lemma dec_0 [simp]: "dec 0 = 0"
  by (simp add: dec_def round_positive_def)

lemma dec_nonneg: "0 \<le> x \<Longrightarrow> 0 \<le> dec x"
  by (simp add: dec_def round_positive_nonneg)

lemma dec_mono: "0 \<le> x \<Longrightarrow> x \<le> y \<Longrightarrow> dec x \<le> dec y"
  using round_positive_mono [of x y] round_positive_nonneg [of y]
  by (cases "x = 0") (auto simp: dec_def round_positive_def [of 0])

lemma dec_error: "0 \<le> x \<Longrightarrow> \<bar>dec x - x\<bar> \<le> x / (2 * 10 ^ 27)"
  using round_positive_error [of x] by (cases "x = 0") (auto simp: dec_def round_positive_def [of 0])

text \<open>Numbers of at most 28 digits are not rounded.\<close>

lemma dec_exact:
  assumes n: "0 \<le> n" "n < 10 ^ 28" and x: "x = of_int n * pow10 e"
  shows "dec x = x"
proof (cases "n = 0")
  case True
  with x show ?thesis by simp
next
  case False
  with n x have pos: "0 < x" by simp
  let ?k = "unit_exponent x"
  have "x < pow10 (e + 28)"
  proof -
    have "(of_int n :: rat) < of_int (10 ^ 28)" using n by (simp only: of_int_less_iff)
    then show ?thesis by (simp add: x pow10_add pow10_def [of 28])
  qed
  with unit_exponent_bounds(1) [OF pos] have "pow10 (?k + 27) < pow10 (e + 28)" by linarith
  then have "?k \<le> e" by (simp add: pow10_less_iff)
  then obtain j where j: "e = ?k + int j" by (metis zle_iff_zadd)
  have q: "x / pow10 ?k = of_int (n * 10 ^ j)"
    by (subst x, subst j) (simp add: pow10_add pow10_of_nat)
  have "of_int (half_even (x / pow10 ?k)) * pow10 ?k = x"
    unfolding q half_even_of_int using q by (metis nonzero_eq_divide_eq pow10_nonzero)
  with pos show ?thesis by (simp add: dec_def round_positive_def Let_def)
qed

end
