(* ===== verification/Ai_Policy.thy ===== *)
theory Ai_Policy
  imports Py_Decimal
begin

text \<open>
  The pure AI policies: model tiers and their configured provider and model
  (app/services/ai_model_tiers.py), the routing of a task to a tier (ai_model_routing.py) and
  the pricing catalogue (ai_model_pricing.py). An enumeration member of the source equals its
  text, so a value that may be either is a string here.
\<close>

section \<open>Model tiers\<close>

fun tier_value :: "ai_tier \<Rightarrow> string" where
  "tier_value TIER_NONE = ''none''"
| "tier_value TIER_ECONOMY = ''economy''"
| "tier_value TIER_STANDARD = ''standard''"
| "tier_value TIER_PREMIUM = ''premium''"

definition all_tiers :: "ai_tier list" where
  "all_tiers = [TIER_NONE, TIER_ECONOMY, TIER_STANDARD, TIER_PREMIUM]"

definition tier_of_value :: "string \<Rightarrow> ai_tier option" where
  "tier_of_value v = find (\<lambda>t. tier_value t = v) all_tiers"

fun TIER_RANK :: "ai_tier \<Rightarrow> nat" where
  "TIER_RANK TIER_NONE = 0"
| "TIER_RANK TIER_ECONOMY = 1"
| "TIER_RANK TIER_STANDARD = 2"
| "TIER_RANK TIER_PREMIUM = 3"

lemma tier_of_value_value [simp]: "tier_of_value (tier_value t) = Some t"
  by (cases t) (simp_all add: tier_of_value_def all_tiers_def)

lemma tier_of_value_SomeD: "tier_of_value v = Some t \<Longrightarrow> v = tier_value t"
  by (auto simp: tier_of_value_def find_Some_iff)

lemma in_all_tiers [simp]: "t \<in> set all_tiers"
  by (cases t) (simp_all add: all_tiers_def)

text \<open>Ranks order the tiers, so the library's order automation applies to them.\<close>

instantiation ai_tier :: linorder
begin

definition less_eq_ai_tier :: "ai_tier \<Rightarrow> ai_tier \<Rightarrow> bool" where
  "less_eq_ai_tier s t = (TIER_RANK s \<le> TIER_RANK t)"

definition less_ai_tier :: "ai_tier \<Rightarrow> ai_tier \<Rightarrow> bool" where
  "less_ai_tier s t = (TIER_RANK s < TIER_RANK t)"

instance
proof
  fix s t :: ai_tier
  show "s \<le> t \<Longrightarrow> t \<le> s \<Longrightarrow> s = t"
    by (cases s; cases t) (simp_all add: less_eq_ai_tier_def)
qed (auto simp: less_eq_ai_tier_def less_ai_tier_def)

end

record tier_mapping =
  tm_provider :: string
  tm_model :: string

text \<open>The validator of a mapping's columns: stripped, not empty.\<close>

definition make_tier_mapping :: "string \<Rightarrow> string \<Rightarrow> error + tier_mapping" where
  "make_tier_mapping provider model =
     (if py_strip provider = [] \<or> py_strip model = [] then Inl ValueError
      else Inr \<lparr>tm_provider = py_strip provider, tm_model = py_strip model\<rparr>)"

record model_selection =
  sel_tier :: ai_tier
  sel_provider :: "string option"
  sel_model :: "string option"

definition resolve_tier :: "(ai_tier \<rightharpoonup> tier_mapping) \<Rightarrow> string \<Rightarrow> error + model_selection" where
  "resolve_tier mappings tier =
     (case tier_of_value tier of
        None \<Rightarrow> Inl (AiE AIModelTierResolutionError)
      | Some t \<Rightarrow>
          if t = TIER_NONE then Inr \<lparr>sel_tier = TIER_NONE, sel_provider = None, sel_model = None\<rparr>
          else (case mappings t of
              None \<Rightarrow> Inl (AiE AIModelTierResolutionError)
            | Some m \<Rightarrow> Inr \<lparr>sel_tier = t, sel_provider = Some (tm_provider m),
                sel_model = Some (tm_model m)\<rparr>))"

section \<open>Routing\<close>

datatype routing_task =
  DETERMINISTIC | CLASSIFICATION | EXTRACTION | SIMPLE_SUMMARY | LIGHTWEIGHT_QUALIFICATION
  | SALES_CONVERSATION | CONTEXTUAL_CUSTOMER_RESPONSE | COMPLEX_REASONING | HIGH_VALUE_TASK

fun task_value :: "routing_task \<Rightarrow> string" where
  "task_value DETERMINISTIC = ''deterministic''"
| "task_value CLASSIFICATION = ''classification''"
| "task_value EXTRACTION = ''extraction''"
| "task_value SIMPLE_SUMMARY = ''simple_summary''"
| "task_value LIGHTWEIGHT_QUALIFICATION = ''lightweight_qualification''"
| "task_value SALES_CONVERSATION = ''sales_conversation''"
| "task_value CONTEXTUAL_CUSTOMER_RESPONSE = ''contextual_customer_response''"
| "task_value COMPLEX_REASONING = ''complex_reasoning''"
| "task_value HIGH_VALUE_TASK = ''high_value_case''"

definition all_tasks :: "routing_task list" where
  "all_tasks = [DETERMINISTIC, CLASSIFICATION, EXTRACTION, SIMPLE_SUMMARY,
     LIGHTWEIGHT_QUALIFICATION, SALES_CONVERSATION, CONTEXTUAL_CUSTOMER_RESPONSE,
     COMPLEX_REASONING, HIGH_VALUE_TASK]"

definition task_of_value :: "string \<Rightarrow> routing_task option" where
  "task_of_value v = find (\<lambda>t. task_value t = v) all_tasks"

lemma task_of_value_value [simp]: "task_of_value (task_value t) = Some t"
  by (cases t) (simp_all add: task_of_value_def all_tasks_def)

datatype premium_justification = JUSTIFY_COMPLEX_CASE | JUSTIFY_HIGH_VALUE_CASE

fun justification_value :: "premium_justification \<Rightarrow> string" where
  "justification_value JUSTIFY_COMPLEX_CASE = ''complex_case''"
| "justification_value JUSTIFY_HIGH_VALUE_CASE = ''high_value_case''"

definition justification_of_value :: "string \<Rightarrow> premium_justification option" where
  "justification_of_value v =
     find (\<lambda>j. justification_value j = v) [JUSTIFY_COMPLEX_CASE, JUSTIFY_HIGH_VALUE_CASE]"

lemma justification_of_value_value [simp]:
  "justification_of_value (justification_value j) = Some j"
  by (cases j) (simp_all add: justification_of_value_def)

datatype routing_reason =
  DETERMINISTIC_TASK | LIGHTWEIGHT_AI_TASK | STANDARD_CONVERSATION | EXPLICIT_COMPLEX_CASE
  | EXPLICIT_HIGH_VALUE_CASE | PREMIUM_NOT_JUSTIFIED | PREMIUM_NOT_PERMITTED

record routing_decision =
  rt_tier :: ai_tier
  rt_reason :: routing_reason
  rt_explanation :: string

definition LIGHTWEIGHT_TASKS :: "routing_task list" where
  "LIGHTWEIGHT_TASKS = [CLASSIFICATION, EXTRACTION, SIMPLE_SUMMARY, LIGHTWEIGHT_QUALIFICATION]"

definition STANDARD_TASKS :: "routing_task list" where
  "STANDARD_TASKS = [SALES_CONVERSATION, CONTEXTUAL_CUSTOMER_RESPONSE]"

text \<open>The source writes each reason's explanation next to the reason.\<close>

fun routing_explanation :: "routing_reason \<Rightarrow> string" where
  "routing_explanation DETERMINISTIC_TASK =
     ''This operation is deterministic and does not require an LLM.''"
| "routing_explanation LIGHTWEIGHT_AI_TASK =
     ''This lightweight AI task is assigned to the economy tier.''"
| "routing_explanation STANDARD_CONVERSATION =
     ''This contextual customer interaction is assigned to the standard tier.''"
| "routing_explanation EXPLICIT_COMPLEX_CASE =
     ''This explicitly justified complex case is assigned to the premium tier.''"
| "routing_explanation EXPLICIT_HIGH_VALUE_CASE =
     ''This explicitly justified high-value case is assigned to the premium tier.''"
| "routing_explanation PREMIUM_NOT_PERMITTED =
     ''Premium use is disabled by policy, so the task remains on the standard tier.''"
| "routing_explanation PREMIUM_NOT_JUSTIFIED =
     ''Premium use was not explicitly justified, so the task remains on the standard tier.''"

definition routed :: "ai_tier \<Rightarrow> routing_reason \<Rightarrow> routing_decision" where
  "routed t r = \<lparr>rt_tier = t, rt_reason = r, rt_explanation = routing_explanation r\<rparr>"

lemma routed_simps [simp]: "rt_tier (routed t r) = t" "rt_reason (routed t r) = r"
  by (simp_all add: routed_def)

definition premium_reason ::
  "routing_task \<Rightarrow> premium_justification option \<Rightarrow> routing_reason option" where
  "premium_reason task justification =
     (if task = COMPLEX_REASONING \<and> justification = Some JUSTIFY_COMPLEX_CASE
      then Some EXPLICIT_COMPLEX_CASE
      else if task = HIGH_VALUE_TASK \<and> justification = Some JUSTIFY_HIGH_VALUE_CASE
      then Some EXPLICIT_HIGH_VALUE_CASE
      else None)"

definition parse_justification :: "string option \<Rightarrow> error + premium_justification option" where
  "parse_justification v =
     (case v of None \<Rightarrow> Inr None
      | Some t \<Rightarrow> (case justification_of_value t of
            None \<Rightarrow> Inl (AiE AIModelRoutingError) | Some j \<Rightarrow> Inr (Some j)))"

definition route :: "bool \<Rightarrow> string \<Rightarrow> string option \<Rightarrow> error + routing_decision" where
  "route premium_enabled task_text justification_text =
     (case task_of_value task_text of
        None \<Rightarrow> Inl (AiE AIModelRoutingError)
      | Some task \<Rightarrow>
          if task = DETERMINISTIC then Inr (routed TIER_NONE DETERMINISTIC_TASK)
          else if task \<in> set LIGHTWEIGHT_TASKS then Inr (routed TIER_ECONOMY LIGHTWEIGHT_AI_TASK)
          else if task \<in> set STANDARD_TASKS then Inr (routed TIER_STANDARD STANDARD_CONVERSATION)
          else bindE (parse_justification justification_text) (\<lambda>justification.
            case premium_reason task justification of
              None \<Rightarrow> Inr (routed TIER_STANDARD PREMIUM_NOT_JUSTIFIED)
            | Some reason \<Rightarrow>
                if premium_enabled then Inr (routed TIER_PREMIUM reason)
                else Inr (routed TIER_STANDARD PREMIUM_NOT_PERMITTED)))"

text \<open>\<open>AIModelRoutingPolicy.resolve\<close>: the routed tier's provider and model.\<close>

definition resolve_decision ::
  "routing_decision \<Rightarrow> (ai_tier \<rightharpoonup> tier_mapping) \<Rightarrow> error + model_selection" where
  "resolve_decision r mappings = resolve_tier mappings (tier_value (rt_tier r))"

text \<open>Premium capability is never selected by accident: a task is routed to the premium tier
  exactly when premium use is enabled and the task carries the justification made for it; every
  other known task stays on a lower tier, and only the deterministic task avoids the model.\<close>

theorem premium_routing:
  assumes "route enabled task just = Inr r"
  shows "(rt_tier r = TIER_PREMIUM \<longleftrightarrow>
      enabled \<and> ((task = ''complex_reasoning'' \<and> just = Some ''complex_case'') \<or>
                 (task = ''high_value_case'' \<and> just = Some ''high_value_case''))) \<and>
    (rt_tier r = TIER_NONE \<longleftrightarrow> task = ''deterministic'')"
proof -
  obtain t where t: "task_of_value task = Some t" and v: "task = task_value t"
    using assms by (auto simp: route_def task_of_value_def find_Some_iff split: option.splits)
  have j: "just = map_option justification_value x" if "parse_justification just = Inr x" for x
    using that by (auto simp: parse_justification_def justification_of_value_def find_Some_iff
        split: option.splits if_splits)
  show ?thesis
  proof (cases "t = COMPLEX_REASONING \<or> t = HIGH_VALUE_TASK")
    case True
    then obtain x where x: "parse_justification just = Inr x"
      using assms t by (auto simp: route_def bindE_Inr_iff LIGHTWEIGHT_TASKS_def STANDARD_TASKS_def)
    with j have just: "just = map_option justification_value x" .
    from True assms t x v show ?thesis
      unfolding just
      by (cases x rule: option.exhaust; elim disjE)
        (auto simp: route_def LIGHTWEIGHT_TASKS_def STANDARD_TASKS_def premium_reason_def
          split: if_splits elim!: justification_value.elims)
  next
    case False
    with assms t v show ?thesis
      by (cases t) (auto simp: route_def LIGHTWEIGHT_TASKS_def STANDARD_TASKS_def)
  qed
qed

theorem premium_routing_witness:
  "\<exists>r. route True ''complex_reasoning'' (Some ''complex_case'') = Inr r \<and> rt_tier r = TIER_PREMIUM"
proof -
  have "\<exists>r. route True ''complex_reasoning'' (Some ''complex_case'') = Inr r"
    by (simp add: route_def task_of_value_def all_tasks_def parse_justification_def
        justification_of_value_def LIGHTWEIGHT_TASKS_def STANDARD_TASKS_def premium_reason_def)
  then obtain r where "route True ''complex_reasoning'' (Some ''complex_case'') = Inr r" ..
  with premium_routing [OF this] show ?thesis by simp
qed

end
