(* ===== verification/Ai_Usage.thy ===== *)
theory Ai_Usage
  imports Ai_Policy
begin

text \<open>
  Pricing and the usage ledger: app/services/ai_model_pricing.py and ai_invocation_usage.py.
  What the database keeps of a usage row is the parameter \<open>persist\<close>: the row as it is read
  back after the commit, or \<open>None\<close> when the commit is refused (a column that is too long, a
  foreign key, a lost connection).
\<close>

section \<open>Pricing catalogue\<close>

record pricing =
  pg_provider :: string
  pg_model :: string
  pg_input_rate :: rat
  pg_output_rate :: rat

text \<open>The validators of one entry: stripped non-empty names, finite rates of at least zero.\<close>

definition make_pricing :: "string \<Rightarrow> string \<Rightarrow> amount \<Rightarrow> amount \<Rightarrow> error + pricing" where
  "make_pricing provider model input_rate output_rate =
     (if py_strip provider = [] \<or> py_strip model = [] then Inl ValueError
      else bindE (checked_amount ValueError (Some input_rate)) (\<lambda>i.
           bindE (checked_amount ValueError (Some output_rate)) (\<lambda>out.
           case (i, out) of
             (Some ri, Some ro) \<Rightarrow> Inr \<lparr>pg_provider = py_strip provider, pg_model = py_strip model,
               pg_input_rate = ri, pg_output_rate = ro\<rparr>
           | _ \<Rightarrow> Inl ValueError)))"

type_synonym catalog = "((string \<times> string) \<times> pricing) list"

definition catalog_add :: "pricing \<Rightarrow> catalog \<Rightarrow> error + catalog" where
  "catalog_add entry c =
     (let key = (pg_provider entry, pg_model entry) in
      if map_of c key \<noteq> None then Inl (AiE AIModelPricingValidationError)
      else Inr (c @ [(key, entry)]))"

definition make_catalog :: "pricing list \<Rightarrow> error + catalog" where
  "make_catalog entries = fold (\<lambda>e c. bindE c (catalog_add e)) entries (Inr [])"

record cost_estimate =
  ce_pricing_known :: bool
  ce_input_cost :: "rat option"
  ce_output_cost :: "rat option"
  ce_estimated_cost :: "rat option"

definition TOKENS_PER_PRICING_UNIT :: rat where "TOKENS_PER_PRICING_UNIT = 1000000"

definition token_cost :: "int \<Rightarrow> rat \<Rightarrow> rat" where
  "token_cost tokens rate = dec (dec (of_int tokens * rate) / TOKENS_PER_PRICING_UNIT)"

definition pricing_identifier :: "string \<Rightarrow> error + string" where
  "pricing_identifier v = (if py_strip v = [] then Inl (AiE AIModelPricingValidationError)
     else Inr (py_strip v))"

definition estimate_cost ::
  "catalog \<Rightarrow> string \<Rightarrow> string \<Rightarrow> int \<Rightarrow> int \<Rightarrow> error + cost_estimate" where
  "estimate_cost c provider model input_tokens output_tokens =
     (if input_tokens < 0 \<or> output_tokens < 0 then Inl (AiE AIModelPricingValidationError)
      else bindE (pricing_identifier provider) (\<lambda>p.
           bindE (pricing_identifier model) (\<lambda>m.
           case map_of c (p, m) of
             None \<Rightarrow> Inr \<lparr>ce_pricing_known = False, ce_input_cost = None, ce_output_cost = None,
               ce_estimated_cost = None\<rparr>
           | Some pg \<Rightarrow>
               let ic = token_cost input_tokens (pg_input_rate pg);
                   oc = token_cost output_tokens (pg_output_rate pg)
               in Inr \<lparr>ce_pricing_known = True, ce_input_cost = Some ic, ce_output_cost = Some oc,
                    ce_estimated_cost = Some (dec (ic + oc))\<rparr>)))"

lemma make_pricing_nonneg:
  "make_pricing p m i out = Inr pg \<Longrightarrow> 0 \<le> pg_input_rate pg \<and> 0 \<le> pg_output_rate pg"
  by (cases "checked_amount ValueError (Some i)"; cases "checked_amount ValueError (Some out)")
    (auto simp: make_pricing_def split: if_splits option.splits dest: checked_amount_nonneg)

lemma catalog_add_distinct:
  "catalog_add e c = Inr c' \<Longrightarrow> distinct (map fst c) \<Longrightarrow> distinct (map fst c')"
  by (auto simp: catalog_add_def Let_def map_of_eq_None_iff split: if_splits)

lemma make_catalog_step:
  "fold (\<lambda>e c. bindE c (catalog_add e)) es (Inr c0) = Inr c \<Longrightarrow>
   c = c0 @ map (\<lambda>e. ((pg_provider e, pg_model e), e)) es \<and>
   (distinct (map fst c0) \<longrightarrow> distinct (map fst c))"
proof (induction es arbitrary: c0)
  case (Cons e es)
  show ?case
  proof (cases "catalog_add e c0")
    case (Inl x)
    have "fold (\<lambda>e c. bindE c (catalog_add e)) es (Inl x) = Inl x" by (induction es) auto
    with Inl Cons.prems show ?thesis by simp
  next
    case (Inr c1)
    then have c1: "c1 = c0 @ [((pg_provider e, pg_model e), e)]"
      by (auto simp: catalog_add_def Let_def split: if_splits)
    have ih: "c = c1 @ map (\<lambda>e. ((pg_provider e, pg_model e), e)) es \<and>
        (distinct (map fst c1) \<longrightarrow> distinct (map fst c))"
      by (rule Cons.IH) (use Cons.prems Inr in simp)
    show ?thesis
    proof (intro conjI impI)
      show "c = c0 @ map (\<lambda>e. ((pg_provider e, pg_model e), e)) (e # es)"
        using ih c1 by simp
      assume "distinct (map fst c0)"
      with catalog_add_distinct [OF Inr] ih show "distinct (map fst c)" by blast
    qed
  qed
qed simp

lemma make_catalog_InrD:
  assumes "make_catalog es = Inr c"
  shows "c = map (\<lambda>e. ((pg_provider e, pg_model e), e)) es" and "distinct (map fst c)"
proof -
  have s: "c = [] @ map (\<lambda>e. ((pg_provider e, pg_model e), e)) es \<and>
      (distinct (map fst ([] :: catalog)) \<longrightarrow> distinct (map fst c))"
    by (rule make_catalog_step) (use assms in \<open>simp add: make_catalog_def\<close>)
  then show "c = map (\<lambda>e. ((pg_provider e, pg_model e), e)) es" by simp
  from s show "distinct (map fst c)" by (metis distinct.simps(1) list.simps(8))
qed

lemma token_cost_nonneg: "0 \<le> n \<Longrightarrow> 0 \<le> r \<Longrightarrow> 0 \<le> token_cost n r"
  by (simp add: token_cost_def TOKENS_PER_PRICING_UNIT_def dec_nonneg)

lemma token_cost_mono: "0 \<le> m \<Longrightarrow> m \<le> n \<Longrightarrow> 0 \<le> r \<Longrightarrow> token_cost m r \<le> token_cost n r"
  unfolding token_cost_def TOKENS_PER_PRICING_UNIT_def
  by (intro dec_mono divide_right_mono dec_nonneg divide_nonneg_pos mult_nonneg_nonneg mult_right_mono) simp_all

lemma token_cost_exact:
  assumes "0 \<le> n" "0 \<le> k" "n * k < 10 ^ 28"
  shows "token_cost n (of_int k * pow10 e) = of_int n * (of_int k * pow10 e) / TOKENS_PER_PRICING_UNIT"
proof -
  have "dec (of_int n * (of_int k * pow10 e)) = of_int n * (of_int k * pow10 e)"
    by (rule dec_exact [of "n * k" _ e]) (use assms in simp_all)
  moreover have "dec (of_int n * (of_int k * pow10 e) / TOKENS_PER_PRICING_UNIT)
      = of_int n * (of_int k * pow10 e) / TOKENS_PER_PRICING_UNIT"
  proof (rule dec_exact [of "n * k" _ "e - 6"])
    show "of_int n * (of_int k * pow10 e) / TOKENS_PER_PRICING_UNIT = of_int (n * k) * pow10 (e - 6)"
      using pow10_add [of "e - 6" 6] by (simp add: TOKENS_PER_PRICING_UNIT_def pow10_def [of 6])
  qed (use assms in simp_all)
  ultimately show ?thesis by (simp add: token_cost_def)
qed

text \<open>The estimate of an invocation is exact whenever decimal arithmetic can be: for a catalogue
  entry whose rates are decimal numbers of the same scale, the estimated cost is the tokens at
  their rates divided by one million, with no rounding, as long as the total in units of the scale
  has at most 28 digits; an unknown provider or model has no estimate.\<close>

theorem cost_estimate_exact:
  assumes c: "make_catalog entries = Inr c"
    and tokens: "0 \<le> n" "0 \<le> m" and names: "py_strip p \<noteq> []" "py_strip md \<noteq> []"
    and rates: "\<And>e. e \<in> set entries \<Longrightarrow> pg_provider e = py_strip p \<Longrightarrow> pg_model e = py_strip md \<Longrightarrow>
      pg_input_rate e = of_int ki * pow10 s \<and> pg_output_rate e = of_int ko * pow10 s"
    and size: "0 \<le> ki" "0 \<le> ko" "n * ki + m * ko < 10 ^ 28"
  shows "\<exists>ce. estimate_cost c p md n m = Inr ce \<and>
    (if \<exists>e \<in> set entries. pg_provider e = py_strip p \<and> pg_model e = py_strip md
     then ce_estimated_cost ce =
       Some ((of_int n * (of_int ki * pow10 s) + of_int m * (of_int ko * pow10 s)) / 1000000)
     else ce_estimated_cost ce = None)"
proof -
  note cat = make_catalog_InrD [OF c]
  show ?thesis
  proof (cases "map_of c (py_strip p, py_strip md)")
    case None
    then have "(py_strip p, py_strip md) \<notin> fst ` set c" by (simp add: map_of_eq_None_iff)
    then have "\<not> (\<exists>e \<in> set entries. pg_provider e = py_strip p \<and> pg_model e = py_strip md)"
      by (auto simp: cat(1) image_iff)
    with None names tokens show ?thesis
      by (simp add: estimate_cost_def pricing_identifier_def)
  next
    case (Some pg)
    then have pg: "pg \<in> set entries" "pg_provider pg = py_strip p" "pg_model pg = py_strip md"
      using map_of_SomeD [OF Some] by (auto simp: cat(1))
    from rates [OF pg] have r: "pg_input_rate pg = of_int ki * pow10 s"
      "pg_output_rate pg = of_int ko * pow10 s" by simp_all
    have pos: "0 \<le> n * ki" "0 \<le> m * ko" using tokens size by simp_all
    with size(3) have lt: "n * ki < 10 ^ 28" "m * ko < 10 ^ 28" by linarith+
    let ?x = "of_int n * (of_int ki * pow10 s) / 1000000 + of_int m * (of_int ko * pow10 s) / 1000000"
    have "dec ?x = ?x"
    proof (rule dec_exact [of "n * ki + m * ko" _ "s - 6"])
      show "?x = of_int (n * ki + m * ko) * pow10 (s - 6)"
        using pow10_add [of "s - 6" 6] by (simp add: pow10_def [of 6] algebra_simps)
    qed (use pos size in simp_all)
    then have "dec (token_cost n (pg_input_rate pg) + token_cost m (pg_output_rate pg)) = ?x"
      by (simp only: r token_cost_exact [OF tokens(1) size(1) lt(1)]
          token_cost_exact [OF tokens(2) size(2) lt(2)] TOKENS_PER_PRICING_UNIT_def)
    with Some names tokens have "\<exists>ce. estimate_cost c p md n m = Inr ce \<and> ce_estimated_cost ce = Some ?x"
      by (simp add: estimate_cost_def pricing_identifier_def Let_def)
    with pg show ?thesis by (auto simp: add_divide_distrib)
  qed
qed

definition sample_pricing :: pricing where
  "sample_pricing = \<lparr>pg_provider = ''openai'', pg_model = ''m'', pg_input_rate = 5 / 2, pg_output_rate = 10\<rparr>"

theorem cost_estimate_exact_witness:
  "\<exists>ce. estimate_cost [((''openai'', ''m''), sample_pricing)] ''openai'' ''m'' 1000 200 = Inr ce \<and>
     ce_estimated_cost ce = Some (9 / 2000)"
proof -
  have c: "make_catalog [sample_pricing] = Inr [((''openai'', ''m''), sample_pricing)]"
    by (simp add: make_catalog_def catalog_add_def sample_pricing_def)
  have s: "py_strip ''openai'' = ''openai''" "py_strip ''m'' = ''m''"
    by (simp_all add: py_strip_def py_isspace_def)
  have "\<exists>ce. estimate_cost [((''openai'', ''m''), sample_pricing)] ''openai'' ''m'' 1000 200 = Inr ce \<and>
    (if \<exists>e \<in> set [sample_pricing]. pg_provider e = py_strip ''openai'' \<and> pg_model e = py_strip ''m''
     then ce_estimated_cost ce =
       Some ((of_int 1000 * (of_int 25 * pow10 (-1)) + of_int 200 * (of_int 100 * pow10 (-1))) / 1000000)
     else ce_estimated_cost ce = None)"
    by (rule cost_estimate_exact [OF c]) (simp_all add: s sample_pricing_def pow10_def)
  then show ?thesis by (simp add: s sample_pricing_def pow10_def)
qed

section \<open>The usage ledger\<close>

type_synonym persist = "ai_usage \<Rightarrow> ai_usage option"

definition usage_identifier :: "string \<Rightarrow> error + string" where
  "usage_identifier v = (if py_strip v = [] \<or> 200 < length (py_strip v)
     then Inl (AiE AIInvocationUsageValidationError) else Inr (py_strip v))"

definition optional_non_negative :: "int option \<Rightarrow> error + int option" where
  "optional_non_negative v = (case v of None \<Rightarrow> Inr None
     | Some n \<Rightarrow> if n < 0 then Inl (AiE AIInvocationUsageValidationError) else Inr (Some n))"

definition canonical_total_tokens ::
  "int option \<Rightarrow> int option \<Rightarrow> int option \<Rightarrow> error + int option" where
  "canonical_total_tokens i out tot =
     bindE (optional_non_negative tot) (\<lambda>tot.
       case (i, out) of
         (Some a, Some b) \<Rightarrow>
           (case tot of
              Some t \<Rightarrow> if t \<noteq> a + b then Inl (AiE AIInvocationUsageValidationError) else Inr (Some (a + b))
            | None \<Rightarrow> Inr (Some (a + b)))
       | _ \<Rightarrow> Inr tot)"

definition usage_estimated_cost ::
  "catalog option \<Rightarrow> string \<Rightarrow> string \<Rightarrow> int option \<Rightarrow> int option \<Rightarrow> amount option \<Rightarrow> error + rat option" where
  "usage_estimated_cost catalog provider model i out estimated_cost =
     (case (i, out) of
        (Some a, Some b) \<Rightarrow>
          (case catalog of
             None \<Rightarrow> checked_amount (AiE AIInvocationUsageValidationError) estimated_cost
           | Some c \<Rightarrow>
               if estimated_cost \<noteq> None then Inl (AiE AIInvocationUsageValidationError)
               else bindE (estimate_cost c provider model a b) (\<lambda>ce. Inr (ce_estimated_cost ce)))
      | _ \<Rightarrow> Inr None)"

record usage_input =
  ui_task :: string
  ui_agent :: string
  ui_provider :: string
  ui_model :: string
  ui_input :: "int option"
  ui_output :: "int option"
  ui_latency :: int
  ui_status :: ai_status
  ui_conversation :: "uuid option"
  ui_total :: "int option"
  ui_cost :: "amount option"
  ui_created_at :: "datetime option"

text \<open>The row \<open>record\<close> builds, and the commit that stores it or is rolled back.\<close>

definition usage_row ::
  "catalog option \<Rightarrow> workspace \<Rightarrow> usage_input \<Rightarrow> int \<Rightarrow> uuid \<Rightarrow> error + ai_usage" where
  "usage_row catalog ws u now k =
     bindE (usage_identifier (ui_task u)) (\<lambda>task.
     bindE (usage_identifier (ui_agent u)) (\<lambda>agent.
     bindE (usage_identifier (ui_provider u)) (\<lambda>provider.
     bindE (usage_identifier (ui_model u)) (\<lambda>model.
     bindE (optional_non_negative (ui_input u)) (\<lambda>i.
     bindE (optional_non_negative (ui_output u)) (\<lambda>out.
     bindE (canonical_total_tokens i out (ui_total u)) (\<lambda>tot.
     if ui_latency u < 0 then Inl (AiE AIInvocationUsageValidationError)
     else bindE (usage_estimated_cost catalog provider model i out (ui_cost u)) (\<lambda>cost.
     Inr \<lparr>au_id = k, au_workspace_id = ws_id ws, au_conversation_id = ui_conversation u,
       au_task_identifier = task, au_agent_identifier = agent, au_provider = provider,
       au_model = model, au_input_tokens = i, au_output_tokens = out, au_total_tokens = tot,
       au_latency_ms = ui_latency u, au_estimated_cost = cost, au_status = ui_status u,
       au_created_at = (case ui_created_at u of Some t \<Rightarrow> t | None \<Rightarrow> utc now)\<rparr>))))))))"

definition usage_record ::
  "persist \<Rightarrow> catalog option \<Rightarrow> workspace \<Rightarrow> usage_input \<Rightarrow> int \<Rightarrow> ai_usage op" where
  "usage_record persist catalog ws u now d =
     (case usage_row catalog ws u now (next_id d) of
        Inl e \<Rightarrow> (Inl e, d)
      | Inr r \<Rightarrow> (case persist r of
            None \<Rightarrow> (Inl IntegrityError, take_id d)
          | Some r' \<Rightarrow> (Inr r', (take_id d)\<lparr>usages := usages d @ [r']\<rparr>)))"

definition usage_list :: "workspace \<Rightarrow> db \<Rightarrow> ai_usage list" where
  "usage_list ws d = order_desc (\<lambda>u. (dt_instant (au_created_at u), au_id u))
     (filter (\<lambda>u. au_workspace_id u = ws_id ws) (usages d))"

record usage_summary =
  su_invocations :: nat
  su_successful :: nat
  su_failed :: nat
  su_input_tokens :: int
  su_output_tokens :: int
  su_total_tokens :: int
  su_unknown_tokens :: nat
  su_known_spend :: rat
  su_unknown_pricing :: nat

definition tokens_or_0 :: "int option \<Rightarrow> int" where
  "tokens_or_0 v = (case v of None \<Rightarrow> 0 | Some n \<Rightarrow> n)"

definition known_costs :: "ai_usage list \<Rightarrow> rat list" where
  "known_costs us = List.map_filter au_estimated_cost us"

definition decimal_sum :: "rat list \<Rightarrow> rat" where
  "decimal_sum xs = fold (\<lambda>x s. dec (s + x)) xs 0"

definition summarize :: "ai_usage list \<Rightarrow> usage_summary" where
  "summarize us = \<lparr>su_invocations = length us,
     su_successful = length (filter (\<lambda>u. au_status u = AI_SUCCESSFUL) us),
     su_failed = length (filter (\<lambda>u. au_status u = AI_FAILED) us),
     su_input_tokens = sum_list (map (\<lambda>u. tokens_or_0 (au_input_tokens u)) us),
     su_output_tokens = sum_list (map (\<lambda>u. tokens_or_0 (au_output_tokens u)) us),
     su_total_tokens = sum_list (map (\<lambda>u. tokens_or_0 (au_total_tokens u)) us),
     su_unknown_tokens = length (filter (\<lambda>u. au_total_tokens u = None) us),
     su_known_spend = decimal_sum (known_costs us),
     su_unknown_pricing = length (filter (\<lambda>u. au_estimated_cost u = None) us)\<rparr>"

definition summarize_for_workspace :: "workspace \<Rightarrow> db \<Rightarrow> usage_summary" where
  "summarize_for_workspace ws d = summarize (usage_list ws d)"

end
