(* ===== verification/Ai_Limits.thy ===== *)
theory Ai_Limits
  imports Ai_Usage Samples
begin

text \<open>
  The workspace usage limits of app/services/workspace_ai_usage_limits.py: the configuration
  read from the workspace row, the hard limits on invocations, tokens and spend, and the
  downgrade to a permitted tier. The decision's explanation is a function of its reason.
\<close>

section \<open>Decisions\<close>

datatype limit_outcome = LIMIT_ALLOWED | LIMIT_DOWNGRADED | LIMIT_BLOCKED

record limit_decision =
  ld_outcome :: limit_outcome
  ld_requested_tier :: ai_tier
  ld_tier :: "ai_tier option"
  ld_reason_code :: limit_reason
  ld_explanation :: string

fun limit_explanation :: "limit_reason \<Rightarrow> string" where
  "limit_explanation WITHIN_LIMITS = ''The requested AI tier is within workspace usage limits.''"
| "limit_explanation INVOCATION_LIMIT_REACHED = ''The workspace AI invocation limit has been reached.''"
| "limit_explanation TOKEN_ESTIMATE_REQUIRED =
     ''A token estimate is required while a workspace token limit is enforced.''"
| "limit_explanation TOKEN_LIMIT_REACHED = ''The workspace AI token limit would be exceeded.''"
| "limit_explanation UNKNOWN_PRICING_WITH_SPEND_LIMIT =
     ''Known pricing is required while a workspace spend limit is enforced.''"
| "limit_explanation SPEND_LIMIT_REACHED = ''The workspace AI spend limit would be exceeded.''"
| "limit_explanation REQUESTED_TIER_NOT_PERMITTED =
     ''The requested AI tier is not permitted for this workspace.''"
| "limit_explanation DOWNGRADED_FOR_WORKSPACE_POLICY =
     ''The requested AI tier was downgraded by workspace policy.''"
| "limit_explanation DOWNGRADE_TARGET_UNAVAILABLE =
     ''The configured AI tier downgrade target is unavailable.''"

definition allowed :: "ai_tier \<Rightarrow> limit_decision" where
  "allowed t = \<lparr>ld_outcome = LIMIT_ALLOWED, ld_requested_tier = t, ld_tier = Some t,
     ld_reason_code = WITHIN_LIMITS, ld_explanation = limit_explanation WITHIN_LIMITS\<rparr>"

definition blocked :: "ai_tier \<Rightarrow> limit_reason \<Rightarrow> limit_decision" where
  "blocked t r = \<lparr>ld_outcome = LIMIT_BLOCKED, ld_requested_tier = t, ld_tier = None,
     ld_reason_code = r, ld_explanation = limit_explanation r\<rparr>"

definition downgraded :: "ai_tier \<Rightarrow> ai_tier \<Rightarrow> limit_decision" where
  "downgraded t target = \<lparr>ld_outcome = LIMIT_DOWNGRADED, ld_requested_tier = t, ld_tier = Some target,
     ld_reason_code = DOWNGRADED_FOR_WORKSPACE_POLICY,
     ld_explanation = limit_explanation DOWNGRADED_FOR_WORKSPACE_POLICY\<rparr>"

lemma decision_simps [simp]:
  "ld_outcome (allowed t) = LIMIT_ALLOWED" "ld_tier (allowed t) = Some t"
  "ld_requested_tier (allowed t) = t" "ld_reason_code (allowed t) = WITHIN_LIMITS"
  "ld_outcome (blocked t r) = LIMIT_BLOCKED" "ld_tier (blocked t r) = None"
  "ld_requested_tier (blocked t r) = t" "ld_reason_code (blocked t r) = r"
  "ld_outcome (downgraded t u) = LIMIT_DOWNGRADED" "ld_tier (downgraded t u) = Some u"
  "ld_requested_tier (downgraded t u) = t"
  "ld_reason_code (downgraded t u) = DOWNGRADED_FOR_WORKSPACE_POLICY"
  by (simp_all add: allowed_def blocked_def downgraded_def)

lemma decision_eqs [simp]:
  "allowed t = allowed u \<longleftrightarrow> t = u" "blocked t r = blocked u q \<longleftrightarrow> t = u \<and> r = q"
  "allowed t \<noteq> blocked u r" "blocked u r \<noteq> allowed t"
  "downgraded t u \<noteq> blocked v r" "blocked v r \<noteq> downgraded t u"
  "downgraded t u \<noteq> allowed v" "allowed v \<noteq> downgraded t u"
  by (auto dest: arg_cong [of _ _ ld_outcome] arg_cong [of _ _ ld_tier]
      arg_cong [of _ _ ld_requested_tier] arg_cong [of _ _ ld_reason_code])

section \<open>The workspace configuration\<close>

record limit_config =
  lc_invocation_limit :: "int option"
  lc_total_token_limit :: "int option"
  lc_spend_limit :: "rat option"
  lc_permitted :: "ai_tier list"
  lc_downgrades :: "ai_tier \<rightharpoonup> ai_tier"

definition limit_tier :: "error \<Rightarrow> string \<Rightarrow> error + ai_tier" where
  "limit_tier err v = (case tier_of_value v of None \<Rightarrow> Inl err | Some t \<Rightarrow> Inr t)"

definition non_negative_limit :: "error \<Rightarrow> int option \<Rightarrow> error + int option" where
  "non_negative_limit err v = (case v of None \<Rightarrow> Inr None
     | Some n \<Rightarrow> if n < 0 then Inl err else Inr (Some n))"

definition permitted_tiers :: "string list option \<Rightarrow> error + ai_tier list" where
  "permitted_tiers values =
     (case values of
        None \<Rightarrow> Inr all_tiers
      | Some vs \<Rightarrow>
          bindE (map_res (limit_tier (AiE AIWorkspaceUsageLimitConfigurationError)) vs) (\<lambda>parsed.
          if \<not> distinct parsed then Inl (AiE AIWorkspaceUsageLimitConfigurationError)
          else Inr (TIER_NONE # parsed)))"

fun downgrade_mappings ::
  "(string \<times> string) list \<Rightarrow> (ai_tier \<rightharpoonup> ai_tier) \<Rightarrow> error + (ai_tier \<rightharpoonup> ai_tier)" where
  "downgrade_mappings [] m = Inr m"
| "downgrade_mappings ((source, target) # rest) m =
     bindE (limit_tier (AiE AIWorkspaceUsageLimitConfigurationError) source) (\<lambda>s.
     bindE (limit_tier (AiE AIWorkspaceUsageLimitConfigurationError) target) (\<lambda>t.
     if s = TIER_NONE \<or> t = TIER_NONE \<or> TIER_RANK s \<le> TIER_RANK t
     then Inl (AiE AIWorkspaceUsageLimitConfigurationError)
     else downgrade_mappings rest (m(s \<mapsto> t))))"

definition limit_configuration :: "workspace \<Rightarrow> error + limit_config" where
  "limit_configuration ws =
     (let err = AiE AIWorkspaceUsageLimitConfigurationError in
      bindE (permitted_tiers (ws_ai_permitted_model_tiers ws)) (\<lambda>permitted.
      bindE (downgrade_mappings (ws_ai_model_tier_downgrade_mappings ws) Map.empty) (\<lambda>downgrades.
      bindE (non_negative_limit err (ws_ai_invocation_limit ws)) (\<lambda>inv.
      bindE (non_negative_limit err (ws_ai_total_token_limit ws)) (\<lambda>tok.
      bindE (checked_amount err (map_option (\<lambda>x. AmountDecimal (Fin x)) (ws_ai_estimated_spend_limit ws))) (\<lambda>spend.
      Inr \<lparr>lc_invocation_limit = inv, lc_total_token_limit = tok, lc_spend_limit = spend,
        lc_permitted = permitted, lc_downgrades = downgrades\<rparr>))))))"

section \<open>Evaluation\<close>

record limit_request =
  lr_tier :: string
  lr_expected_tokens :: "int option"
  lr_expected_cost :: "amount option"
  lr_pricing_known :: "bool option"

definition validate_pricing_estimate :: "bool option \<Rightarrow> rat option \<Rightarrow> error + unit" where
  "validate_pricing_estimate known cost =
     (if known = Some False \<and> cost \<noteq> None then Inl (AiE AIWorkspaceUsageLimitRequestError)
      else if known = Some True \<and> cost = None then Inl (AiE AIWorkspaceUsageLimitRequestError)
      else Inr ())"

definition token_limit_reason :: "limit_config \<Rightarrow> usage_summary \<Rightarrow> int option \<Rightarrow> limit_reason option" where
  "token_limit_reason c s expected_tokens =
     (case lc_total_token_limit c of
        None \<Rightarrow> None
      | Some l \<Rightarrow> (case expected_tokens of
            None \<Rightarrow> Some TOKEN_ESTIMATE_REQUIRED
          | Some n \<Rightarrow> if l < su_total_tokens s + n then Some TOKEN_LIMIT_REACHED else None))"

definition spend_limit_reason ::
  "limit_config \<Rightarrow> usage_summary \<Rightarrow> rat option \<Rightarrow> bool option \<Rightarrow> limit_reason option" where
  "spend_limit_reason c s expected_cost known =
     (case lc_spend_limit c of
        None \<Rightarrow> None
      | Some l \<Rightarrow>
          (case expected_cost of
             None \<Rightarrow> Some UNKNOWN_PRICING_WITH_SPEND_LIMIT
           | Some x \<Rightarrow>
               if 0 < su_unknown_pricing s \<or> known \<noteq> Some True then Some UNKNOWN_PRICING_WITH_SPEND_LIMIT
               else if l < dec (su_known_spend s + x) then Some SPEND_LIMIT_REACHED
               else None))"

definition hard_limit_decision ::
  "ai_tier \<Rightarrow> limit_config \<Rightarrow> usage_summary \<Rightarrow> int option \<Rightarrow> rat option \<Rightarrow> bool option \<Rightarrow> limit_decision option" where
  "hard_limit_decision tier c s expected_tokens expected_cost known =
     (if (case lc_invocation_limit c of None \<Rightarrow> False | Some l \<Rightarrow> l < int (su_invocations s) + 1)
      then Some (blocked tier INVOCATION_LIMIT_REACHED)
      else case token_limit_reason c s expected_tokens of
          Some r \<Rightarrow> Some (blocked tier r)
        | None \<Rightarrow> map_option (blocked tier) (spend_limit_reason c s expected_cost known))"

definition limit_evaluate ::
  "(ai_tier \<rightharpoonup> tier_mapping) \<Rightarrow> workspace \<Rightarrow> limit_request \<Rightarrow> db \<Rightarrow> error + limit_decision" where
  "limit_evaluate mappings ws r d =
     (let req = AiE AIWorkspaceUsageLimitRequestError in
      bindE (limit_tier req (lr_tier r)) (\<lambda>tier.
      bindE (limit_configuration ws) (\<lambda>c.
      bindE (non_negative_limit req (lr_expected_tokens r)) (\<lambda>tokens.
      bindE (checked_amount req (lr_expected_cost r)) (\<lambda>cost.
      bindE (validate_pricing_estimate (lr_pricing_known r) cost) (\<lambda>_.
      if tier = TIER_NONE then Inr (allowed tier)
      else case hard_limit_decision tier c (summarize_for_workspace ws d) tokens cost (lr_pricing_known r) of
          Some decision \<Rightarrow> Inr decision
        | None \<Rightarrow>
            if tier \<in> set (lc_permitted c) then Inr (allowed tier)
            else case lc_downgrades c tier of
                None \<Rightarrow> Inr (blocked tier REQUESTED_TIER_NOT_PERMITTED)
              | Some target \<Rightarrow>
                  if target \<notin> set (lc_permitted c) then Inr (blocked tier DOWNGRADE_TARGET_UNAVAILABLE)
                  else case resolve_tier mappings (tier_value target) of
                      Inl _ \<Rightarrow> Inr (blocked tier DOWNGRADE_TARGET_UNAVAILABLE)
                    | Inr _ \<Rightarrow> Inr (downgraded tier target)))))))"

definition lowering :: "(ai_tier \<rightharpoonup> ai_tier) \<Rightarrow> bool" where
  "lowering m = (\<forall>s t. m s = Some t \<longrightarrow> s \<noteq> TIER_NONE \<and> t \<noteq> TIER_NONE \<and> t < s)"

lemma downgrade_mappings_lower: "downgrade_mappings ms m = Inr f \<Longrightarrow> lowering m \<Longrightarrow> lowering f"
proof (induction ms m rule: downgrade_mappings.induct)
  case (2 source target rest m)
  let ?err = "AiE AIWorkspaceUsageLimitConfigurationError"
  from 2(2) obtain s where s: "limit_tier ?err source = Inr s"
    by (cases "limit_tier ?err source") simp_all
  from 2(2) s obtain t where t: "limit_tier ?err target = Inr t"
    by (cases "limit_tier ?err target") simp_all
  have e: "(if s = TIER_NONE \<or> t = TIER_NONE \<or> TIER_RANK s \<le> TIER_RANK t
      then Inl ?err else downgrade_mappings rest (m(s \<mapsto> t))) = Inr f"
    using 2(2) unfolding downgrade_mappings.simps s t bindE_simps .
  then have st: "\<not> (s = TIER_NONE \<or> t = TIER_NONE \<or> TIER_RANK s \<le> TIER_RANK t)"
    by (metis Inl_Inr_False)
  with e have f: "downgrade_mappings rest (m(s \<mapsto> t)) = Inr f" by (simp only: if_False)
  from 2(3) st have "lowering (m(s \<mapsto> t))" by (simp add: lowering_def less_ai_tier_def)
  with 2(1) [OF st f] show ?case .
qed simp

lemma configuration_downgrades:
  assumes "limit_configuration ws = Inr c" and "lc_downgrades c s = Some t"
  shows "s \<noteq> TIER_NONE \<and> t \<noteq> TIER_NONE \<and> t < s"
proof -
  have "downgrade_mappings (ws_ai_model_tier_downgrade_mappings ws) Map.empty = Inr (lc_downgrades c)"
    using assms(1) by (auto simp: limit_configuration_def Let_def bindE_Inr_iff)
  from downgrade_mappings_lower [OF this] assms(2) show ?thesis by (simp add: lowering_def)
qed

lemma permitted_tiers_in:
  assumes "limit_configuration ws = Inr c" and "t \<in> set (lc_permitted c)" and "t \<noteq> TIER_NONE"
  shows "case ws_ai_permitted_model_tiers ws of None \<Rightarrow> True | Some vs \<Rightarrow> tier_value t \<in> set vs"
proof -
  have p: "permitted_tiers (ws_ai_permitted_model_tiers ws) = Inr (lc_permitted c)"
    using assms(1) by (auto simp: limit_configuration_def Let_def bindE_Inr_iff)
  show ?thesis
  proof (cases "ws_ai_permitted_model_tiers ws")
    case (Some vs)
    with p obtain parsed where parsed: "TIER_NONE # parsed = lc_permitted c"
      and m: "list_all2 (\<lambda>v t. limit_tier (AiE AIWorkspaceUsageLimitConfigurationError) v = Inr t) vs parsed"
      by (auto simp: permitted_tiers_def bindE_Inr_iff map_res_Inr_iff split: if_splits)
    from assms(2,3) have "t \<in> set parsed" by (simp flip: parsed)
    then obtain i where i: "i < length parsed" "parsed ! i = t" by (auto simp: in_set_conv_nth)
    from m i have "limit_tier (AiE AIWorkspaceUsageLimitConfigurationError) (vs ! i) = Inr t"
      and "vs ! i \<in> set vs"
      by (auto simp: list_all2_conv_all_nth)
    then have "tier_value t \<in> set vs"
      by (auto simp: limit_tier_def dest: tier_of_value_SomeD split: option.splits)
    with Some show ?thesis by simp
  qed simp
qed

lemma configuration_invocation_limit:
  "limit_configuration ws = Inr c \<Longrightarrow> lc_invocation_limit c = ws_ai_invocation_limit ws"
  by (auto simp: limit_configuration_def Let_def bindE_Inr_iff non_negative_limit_def
      split: option.splits if_splits)

lemma configuration_token_limit:
  "limit_configuration ws = Inr c \<Longrightarrow> lc_total_token_limit c = ws_ai_total_token_limit ws"
  by (auto simp: limit_configuration_def Let_def bindE_Inr_iff non_negative_limit_def
      split: option.splits if_splits)

lemma configuration_spend_limit:
  "limit_configuration ws = Inr c \<Longrightarrow> lc_spend_limit c = ws_ai_estimated_spend_limit ws"
  by (auto simp: limit_configuration_def Let_def bindE_Inr_iff checked_amount_def
      split: option.splits if_splits)

lemma limit_evaluate_InrE:
  assumes "limit_evaluate mappings ws r d = Inr x"
  obtains tier c tokens cost where "lr_tier r = tier_value tier" "limit_configuration ws = Inr c"
    "tokens = lr_expected_tokens r" "checked_amount (AiE AIWorkspaceUsageLimitRequestError) (lr_expected_cost r) = Inr cost"
    "ld_requested_tier x = tier"
    "tier = TIER_NONE \<and> x = allowed tier \<or>
     tier \<noteq> TIER_NONE \<and>
       (hard_limit_decision tier c (summarize_for_workspace ws d) tokens cost (lr_pricing_known r) = Some x \<or>
        hard_limit_decision tier c (summarize_for_workspace ws d) tokens cost (lr_pricing_known r) = None \<and>
          (tier \<in> set (lc_permitted c) \<and> x = allowed tier \<or>
           tier \<notin> set (lc_permitted c) \<and>
             (x = blocked tier REQUESTED_TIER_NOT_PERMITTED \<or> x = blocked tier DOWNGRADE_TARGET_UNAVAILABLE \<or>
              (\<exists>target sel. lc_downgrades c tier = Some target \<and> target \<in> set (lc_permitted c) \<and>
                 resolve_tier mappings (tier_value target) = Inr sel \<and> x = downgraded tier target))))"
proof -
  from assms obtain tier c tokens cost where tier: "limit_tier (AiE AIWorkspaceUsageLimitRequestError) (lr_tier r) = Inr tier"
    and c: "limit_configuration ws = Inr c"
    and tokens: "non_negative_limit (AiE AIWorkspaceUsageLimitRequestError) (lr_expected_tokens r) = Inr tokens"
    and cost: "checked_amount (AiE AIWorkspaceUsageLimitRequestError) (lr_expected_cost r) = Inr cost"
    by (auto simp: limit_evaluate_def Let_def bindE_Inr_iff)
  have t: "lr_tier r = tier_value tier"
    using tier by (auto simp: limit_tier_def dest: tier_of_value_SomeD split: option.splits)
  have tk: "tokens = lr_expected_tokens r"
    using tokens by (auto simp: non_negative_limit_def split: option.splits if_splits)
  have hard: "ld_requested_tier y = tier"
    if "hard_limit_decision tier c s a b k = Some y" for s a b k y
    using that by (auto simp: hard_limit_decision_def split: option.splits if_splits)
  show thesis
    by (rule that [OF t c tk cost])
      (use assms tier c tokens cost hard in \<open>auto simp: limit_evaluate_def Let_def bindE_Inr_iff
        split: if_splits option.splits sum.splits\<close>)
qed


lemma hard_limit_blocked:
  "hard_limit_decision tier c s tokens cost known = Some x \<Longrightarrow> \<exists>r. x = blocked tier r"
  by (auto simp: hard_limit_decision_def split: option.splits if_splits)

lemma hard_limit_None:
  assumes "hard_limit_decision tier c s tokens cost known = None"
  shows "case lc_invocation_limit c of None \<Rightarrow> True | Some l \<Rightarrow> int (su_invocations s) + 1 \<le> l"
    and "case lc_total_token_limit c of None \<Rightarrow> True
      | Some l \<Rightarrow> (\<exists>n. tokens = Some n \<and> su_total_tokens s + n \<le> l)"
    and "case lc_spend_limit c of None \<Rightarrow> True
      | Some l \<Rightarrow> known = Some True \<and> su_unknown_pricing s = 0 \<and>
          (\<exists>x. cost = Some x \<and> dec (su_known_spend s + x) \<le> l)"
proof -
  have i: "\<not> (case lc_invocation_limit c of None \<Rightarrow> False | Some l \<Rightarrow> l < int (su_invocations s) + 1)"
    and t: "token_limit_reason c s tokens = None" and p: "spend_limit_reason c s cost known = None"
    using assms by (auto simp: hard_limit_decision_def split: if_splits option.splits)
  show "case lc_invocation_limit c of None \<Rightarrow> True | Some l \<Rightarrow> int (su_invocations s) + 1 \<le> l"
    using i by (auto split: option.splits)
  show "case lc_total_token_limit c of None \<Rightarrow> True
      | Some l \<Rightarrow> (\<exists>n. tokens = Some n \<and> su_total_tokens s + n \<le> l)"
    using t by (auto simp: token_limit_reason_def split: option.splits if_splits)
  show "case lc_spend_limit c of None \<Rightarrow> True
      | Some l \<Rightarrow> known = Some True \<and> su_unknown_pricing s = 0 \<and>
          (\<exists>x. cost = Some x \<and> dec (su_known_spend s + x) \<le> l)"
    using p by (auto simp: spend_limit_reason_def split: option.splits if_splits)
qed

section \<open>What a decision that is not a refusal guarantees\<close>

definition within_limits ::
  "workspace \<Rightarrow> usage_summary \<Rightarrow> int option \<Rightarrow> rat option \<Rightarrow> bool option \<Rightarrow> bool" where
  "within_limits ws s tokens cost known =
     ((case ws_ai_invocation_limit ws of None \<Rightarrow> True | Some l \<Rightarrow> int (su_invocations s) + 1 \<le> l) \<and>
      (case ws_ai_total_token_limit ws of None \<Rightarrow> True
         | Some l \<Rightarrow> (case tokens of None \<Rightarrow> False | Some n \<Rightarrow> su_total_tokens s + n \<le> l)) \<and>
      (case ws_ai_estimated_spend_limit ws of None \<Rightarrow> True
         | Some l \<Rightarrow> known = Some True \<and> su_unknown_pricing s = 0 \<and>
             (case cost of None \<Rightarrow> False | Some x \<Rightarrow> dec (su_known_spend s + x) \<le> l)))"

lemma hard_limit_None_within:
  assumes c: "limit_configuration ws = Inr c"
    and hard: "hard_limit_decision tier c s tokens cost known = None"
  shows "within_limits ws s tokens cost known"
  using hard_limit_None [OF hard]
  unfolding within_limits_def configuration_invocation_limit [OF c]
    configuration_token_limit [OF c] configuration_spend_limit [OF c]
  by (auto split: option.splits)

text \<open>The facts of a grant, and what identifies a refusal.\<close>

lemma limit_decision_facts:
  assumes "limit_evaluate mappings ws r d = Inr x"
  shows "(ld_outcome x = LIMIT_BLOCKED \<longleftrightarrow> ld_tier x = None) \<and>
    lr_tier r = tier_value (ld_requested_tier x) \<and>
    (\<forall>t. ld_tier x = Some t \<longrightarrow> t \<le> ld_requested_tier x \<and>
        (t = TIER_NONE \<longleftrightarrow> ld_requested_tier x = TIER_NONE) \<and>
        (t \<noteq> ld_requested_tier x \<longrightarrow> ld_outcome x = LIMIT_DOWNGRADED \<and> mappings t \<noteq> None) \<and>
        (t \<noteq> TIER_NONE \<longrightarrow>
          (case ws_ai_permitted_model_tiers ws of None \<Rightarrow> True | Some vs \<Rightarrow> tier_value t \<in> set vs) \<and>
          (\<exists>cost. checked_amount (AiE AIWorkspaceUsageLimitRequestError) (lr_expected_cost r) = Inr cost \<and>
            within_limits ws (summarize_for_workspace ws d) (lr_expected_tokens r) cost (lr_pricing_known r))))"
  using assms
proof (rule limit_evaluate_InrE)
  fix tier c tokens cost
  assume tier: "lr_tier r = tier_value tier" and c: "limit_configuration ws = Inr c"
    and tokens: "tokens = lr_expected_tokens r"
    and cost: "checked_amount (AiE AIWorkspaceUsageLimitRequestError) (lr_expected_cost r) = Inr cost"
    and req: "ld_requested_tier x = tier"
    and cases: "tier = TIER_NONE \<and> x = allowed tier \<or>
     tier \<noteq> TIER_NONE \<and>
       (hard_limit_decision tier c (summarize_for_workspace ws d) tokens cost (lr_pricing_known r) = Some x \<or>
        hard_limit_decision tier c (summarize_for_workspace ws d) tokens cost (lr_pricing_known r) = None \<and>
          (tier \<in> set (lc_permitted c) \<and> x = allowed tier \<or>
           tier \<notin> set (lc_permitted c) \<and>
             (x = blocked tier REQUESTED_TIER_NOT_PERMITTED \<or> x = blocked tier DOWNGRADE_TARGET_UNAVAILABLE \<or>
              (\<exists>target sel. lc_downgrades c tier = Some target \<and> target \<in> set (lc_permitted c) \<and>
                 resolve_tier mappings (tier_value target) = Inr sel \<and> x = downgraded tier target))))"
  have permitted: "case ws_ai_permitted_model_tiers ws of None \<Rightarrow> True | Some vs \<Rightarrow> tier_value t \<in> set vs"
    if "t \<in> set (lc_permitted c)" "t \<noteq> TIER_NONE" for t
    using permitted_tiers_in [OF c that] .
  have within: "\<exists>cost. checked_amount (AiE AIWorkspaceUsageLimitRequestError) (lr_expected_cost r) = Inr cost \<and>
      within_limits ws (summarize_for_workspace ws d) (lr_expected_tokens r) cost (lr_pricing_known r)"
    if "hard_limit_decision tier c (summarize_for_workspace ws d) tokens cost (lr_pricing_known r) = None"
    using hard_limit_None_within [OF c that] cost tokens by blast
  from cases consider "tier = TIER_NONE" "x = allowed tier"
    | q where "x = blocked tier q"
    | "tier \<noteq> TIER_NONE" "x = allowed tier" "tier \<in> set (lc_permitted c)"
      "hard_limit_decision tier c (summarize_for_workspace ws d) tokens cost (lr_pricing_known r) = None"
    | target sel where "lc_downgrades c tier = Some target" "target \<in> set (lc_permitted c)"
      "resolve_tier mappings (tier_value target) = Inr sel" "x = downgraded tier target"
      "hard_limit_decision tier c (summarize_for_workspace ws d) tokens cost (lr_pricing_known r) = None"
    using hard_limit_blocked [of tier c "summarize_for_workspace ws d" tokens cost "lr_pricing_known r" x]
    by metis
  then show ?thesis
  proof cases
    case 3
    with permitted [of tier] within tier show ?thesis by simp
  next
    case (4 target sel)
    from configuration_downgrades [OF c 4(1)] have "target \<noteq> TIER_NONE" "target < tier" "tier \<noteq> TIER_NONE"
      by simp_all
    moreover from 4(3) \<open>target \<noteq> TIER_NONE\<close> have "mappings target \<noteq> None"
      by (auto simp: resolve_tier_def split: option.splits)
    ultimately show ?thesis using 4 permitted [of target] within tier by simp
  qed (use tier in simp_all)
qed


text \<open>A decision that does not refuse never exceeds what was asked: the tier it grants is at most
  the requested one, permitted in the workspace (a downgrade is strictly lower, to a model tier
  that is configured), and every limit of the workspace on invocations, tokens and spend still
  holds with this invocation's estimates added; a refusal grants no tier.\<close>

theorem limit_decision_sound:
  assumes "limit_evaluate mappings ws r d = Inr x"
  shows "(ld_outcome x = LIMIT_BLOCKED \<longleftrightarrow> ld_tier x = None) \<and>
    lr_tier r = tier_value (ld_requested_tier x) \<and>
    (case ld_tier x of None \<Rightarrow> True
     | Some t \<Rightarrow> t \<le> ld_requested_tier x \<and>
        (t = TIER_NONE \<longleftrightarrow> ld_requested_tier x = TIER_NONE) \<and>
        (t \<noteq> ld_requested_tier x \<longrightarrow> ld_outcome x = LIMIT_DOWNGRADED \<and> mappings t \<noteq> None) \<and>
        (t \<noteq> TIER_NONE \<longrightarrow>
          (case ws_ai_permitted_model_tiers ws of None \<Rightarrow> True | Some vs \<Rightarrow> tier_value t \<in> set vs) \<and>
          (\<exists>cost. checked_amount (AiE AIWorkspaceUsageLimitRequestError) (lr_expected_cost r) = Inr cost \<and>
            within_limits ws (summarize_for_workspace ws d) (lr_expected_tokens r) cost (lr_pricing_known r))))"
  using limit_decision_facts [OF assms] by (cases "ld_tier x") simp_all

definition limited_ws :: workspace where
  "limited_ws = sample_ws\<lparr>ws_ai_invocation_limit := Some 2, ws_ai_permitted_model_tiers := Some [''economy''],
     ws_ai_model_tier_downgrade_mappings := [(''standard'', ''economy'')]\<rparr>"

definition sample_mappings :: "ai_tier \<rightharpoonup> tier_mapping" where
  "sample_mappings = [TIER_ECONOMY \<mapsto> \<lparr>tm_provider = ''openai'', tm_model = ''m''\<rparr>]"

definition sample_limit_request :: limit_request where
  "sample_limit_request = \<lparr>lr_tier = ''standard'', lr_expected_tokens = None, lr_expected_cost = None,
     lr_pricing_known = None\<rparr>"

lemma limited_ws_config:
  "limit_configuration limited_ws = Inr \<lparr>lc_invocation_limit = Some 2, lc_total_token_limit = None,
     lc_spend_limit = None, lc_permitted = [TIER_NONE, TIER_ECONOMY],
     lc_downgrades = [TIER_STANDARD \<mapsto> TIER_ECONOMY]\<rparr>"
  by (simp add: limit_configuration_def permitted_tiers_def limited_ws_def sample_ws_def limit_tier_def
      tier_of_value_def all_tiers_def non_negative_limit_def checked_amount_def Let_def)

lemma sample_limit_evaluate:
  "limit_evaluate sample_mappings limited_ws sample_limit_request sample_db =
     Inr (downgraded TIER_STANDARD TIER_ECONOMY)"
  by (simp add: limit_evaluate_def limited_ws_config sample_limit_request_def limit_tier_def
      tier_of_value_def all_tiers_def non_negative_limit_def checked_amount_def Let_def
      validate_pricing_estimate_def hard_limit_decision_def token_limit_reason_def
      spend_limit_reason_def summarize_for_workspace_def usage_list_def sample_db_def empty_db_def
      order_desc_def summarize_def resolve_tier_def sample_mappings_def)

theorem limit_decision_sound_witness:
  "within_limits limited_ws (summarize_for_workspace limited_ws sample_db) None None None \<and> TIER_ECONOMY < TIER_STANDARD"
  using limit_decision_sound [OF sample_limit_evaluate]
  by (simp add: sample_limit_request_def checked_amount_def less_ai_tier_def)

lemma limit_evaluate_usages:
  assumes "usages d = usages e"
  shows "limit_evaluate mappings ws r d = limit_evaluate mappings ws r e"
proof -
  have "summarize_for_workspace ws d = summarize_for_workspace ws e"
    by (simp add: summarize_for_workspace_def usage_list_def assms)
  then show ?thesis unfolding limit_evaluate_def by (simp only:)
qed

text \<open>
  A workspace with a token limit, or with a spend limit, refuses every model call that comes
  without estimates.
\<close>

lemma no_estimate_refused:
  assumes "ws_ai_total_token_limit ws \<noteq> None \<and> lr_expected_tokens r = None \<or>
      ws_ai_estimated_spend_limit ws \<noteq> None \<and> lr_expected_cost r = None"
    and "limit_evaluate mappings ws r d = Inr x" "ld_requested_tier x \<noteq> TIER_NONE"
  shows "\<exists>q. x = blocked (ld_requested_tier x) q"
  using assms(2)
proof (rule limit_evaluate_InrE)
  fix tier c tokens cost
  assume c: "limit_configuration ws = Inr c" and tokens: "tokens = lr_expected_tokens r"
    and cost: "checked_amount (AiE AIWorkspaceUsageLimitRequestError) (lr_expected_cost r) = Inr cost"
    and req: "ld_requested_tier x = tier"
    and cases: "tier = TIER_NONE \<and> x = allowed tier \<or>
     tier \<noteq> TIER_NONE \<and>
       (hard_limit_decision tier c (summarize_for_workspace ws d) tokens cost (lr_pricing_known r) = Some x \<or>
        hard_limit_decision tier c (summarize_for_workspace ws d) tokens cost (lr_pricing_known r) = None \<and>
          (tier \<in> set (lc_permitted c) \<and> x = allowed tier \<or>
           tier \<notin> set (lc_permitted c) \<and>
             (x = blocked tier REQUESTED_TIER_NOT_PERMITTED \<or> x = blocked tier DOWNGRADE_TARGET_UNAVAILABLE \<or>
              (\<exists>target sel. lc_downgrades c tier = Some target \<and> target \<in> set (lc_permitted c) \<and>
                 resolve_tier mappings (tier_value target) = Inr sel \<and> x = downgraded tier target))))"
  have "hard_limit_decision tier c (summarize_for_workspace ws d) tokens cost (lr_pricing_known r) \<noteq> None"
  proof
    assume "hard_limit_decision tier c (summarize_for_workspace ws d) tokens cost (lr_pricing_known r) = None"
    from hard_limit_None_within [OF c this] assms(1) tokens cost show False
      by (auto simp: within_limits_def checked_amount_def [of _ None] split: option.splits)
  qed
  with cases req assms(3) hard_limit_blocked
    [of tier c "summarize_for_workspace ws d" tokens cost "lr_pricing_known r" x]
  show ?thesis by auto
qed

end
