(* ===== verification/Ai_Gateway.thy ===== *)
theory Ai_Gateway
  imports Ai_Limits
begin

text \<open>
  The LLM client (app/services/llm.py) and the gateway around one completion
  (app/services/ai_invocation_gateway.py). The HTTP exchange is the parameter \<open>transport\<close>: what
  httpx returns for a request, a transport or status error, a body that is not JSON, or JSON; or the request is cancelled
  while it waits, which raises \<open>asyncio.CancelledError\<close>. That is not an \<open>Exception\<close>: no \<open>except Exception\<close> catches it.
  \<open>perf\<close> gives the two readings of \<open>perf_counter\<close> around the call.
\<close>

section \<open>The LLM client\<close>

datatype llm_mode = DEMO | OPENAI_COMPATIBLE

record llm_settings =
  st_llm_mode :: llm_mode
  st_llm_api_key :: string
  st_llm_base_url :: string
  st_llm_model :: string
  st_tier_mappings :: "ai_tier \<rightharpoonup> tier_mapping"
  st_pricing :: "pricing list"
  st_premium_enabled :: bool

record llm_http_request =
  lq_url :: string
  lq_authorization :: string
  lq_model :: string
  lq_system :: string
  lq_user :: string

datatype http_outcome = HttpError | HttpNotJson | HttpJson json | HttpCancelled

type_synonym transport = "llm_http_request \<Rightarrow> http_outcome"

record llm_completion =
  co_content :: json
  co_input :: "int option"
  co_output :: "int option"
  co_total :: "int option"

datatype llm_client = DemoLLM | OpenAICompatibleLLM llm_settings

definition build_llm :: "llm_settings \<Rightarrow> string option \<Rightarrow> error + llm_client" where
  "build_llm st model =
     (let st' = (case model of None \<Rightarrow> st | Some m \<Rightarrow> st\<lparr>st_llm_model := m\<rparr>) in
      if st_llm_mode st' = OPENAI_COMPATIBLE
      then (if st_llm_api_key st' = [] then Inl (AiE LLMError) else Inr (OpenAICompatibleLLM st'))
      else Inr DemoLLM)"

definition rstrip_slash :: "string \<Rightarrow> string" where
  "rstrip_slash s = rev (dropWhile (\<lambda>c. c = CHR ''/'') (rev s))"

definition llm_request :: "llm_settings \<Rightarrow> string \<Rightarrow> string \<Rightarrow> llm_http_request" where
  "llm_request st system user = \<lparr>lq_url = rstrip_slash (st_llm_base_url st) @ ''/chat/completions'',
     lq_authorization = ''Bearer '' @ st_llm_api_key st, lq_model = st_llm_model st,
     lq_system = system, lq_user = user\<rparr>"

text \<open>\<open>body[key]\<close> and \<open>body[0]\<close>; \<open>None\<close> is a KeyError, IndexError or TypeError.\<close>

fun json_item :: "string \<Rightarrow> json \<Rightarrow> json option" where
  "json_item k (JObj fs) = map_of fs k"
| "json_item k _ = None"

fun json_first :: "json \<Rightarrow> json option" where
  "json_first (JList (x # _)) = Some x"
| "json_first (JStr (c # _)) = Some (JStr [c])"
| "json_first _ = None"

definition completion_content :: "json \<Rightarrow> json option" where
  "completion_content body = Option.bind (json_item ''choices'' body) (\<lambda>cs.
     Option.bind (json_first cs) (\<lambda>c. Option.bind (json_item ''message'' c) (json_item ''content'')))"

definition usage_token :: "(string \<times> json) list \<Rightarrow> string \<Rightarrow> error + int option" where
  "usage_token fs name =
     (case map_of fs name of
        None \<Rightarrow> Inr None
      | Some JNull \<Rightarrow> Inr None
      | Some (JInt n) \<Rightarrow> if n < 0 then Inl (AiE LLMProviderMetadataError) else Inr (Some n)
      | Some _ \<Rightarrow> Inl (AiE LLMProviderMetadataError))"

definition usage_metadata :: "json \<Rightarrow> error + (int option \<times> int option \<times> int option)" where
  "usage_metadata body =
     (case json_item ''usage'' body of
        None \<Rightarrow> Inr (None, None, None)
      | Some JNull \<Rightarrow> Inr (None, None, None)
      | Some (JObj fs) \<Rightarrow>
          bindE (usage_token fs ''prompt_tokens'') (\<lambda>i.
          bindE (usage_token fs ''completion_tokens'') (\<lambda>out.
          bindE (usage_token fs ''total_tokens'') (\<lambda>tot.
          case (i, out, tot) of
            (Some a, Some b, Some t) \<Rightarrow>
              if t \<noteq> a + b then Inl (AiE LLMProviderMetadataError) else Inr (i, out, tot)
          | _ \<Rightarrow> Inr (i, out, tot))))
      | Some _ \<Rightarrow> Inl (AiE LLMProviderMetadataError))"

definition DEMO_REPLY :: string where
  "DEMO_REPLY = ''Demo mode is active. Configure LLM_MODE=openai_compatible and provide an API key '' @
     ''to generate model-based responses.''"

definition complete_with_metadata ::
  "transport \<Rightarrow> llm_client \<Rightarrow> string \<Rightarrow> string \<Rightarrow> error + llm_completion" where
  "complete_with_metadata transport client system user =
     (case client of
        DemoLLM \<Rightarrow> Inr \<lparr>co_content = JStr DEMO_REPLY, co_input = None, co_output = None, co_total = None\<rparr>
      | OpenAICompatibleLLM st \<Rightarrow>
          (case transport (llm_request st system user) of
             HttpError \<Rightarrow> Inl (AiE LLMError)
           | HttpNotJson \<Rightarrow> Inl ValueError
           | HttpCancelled \<Rightarrow> Inl CancelledError
           | HttpJson body \<Rightarrow>
               (case completion_content body of
                  None \<Rightarrow> Inl (AiE LLMError)
                | Some content \<Rightarrow> bindE (usage_metadata body) (\<lambda>(i, out, tot).
                    Inr \<lparr>co_content = content, co_input = i, co_output = out, co_total = tot\<rparr>))))"

section \<open>The gateway\<close>

record gateway =
  gw_settings :: llm_settings
  gw_catalog :: catalog

definition make_gateway :: "llm_settings \<Rightarrow> error + gateway" where
  "make_gateway st = bindE (make_catalog (st_pricing st)) (\<lambda>c.
     Inr \<lparr>gw_settings = st, gw_catalog = c\<rparr>)"

record gateway_request =
  gr_task :: string
  gr_task_identifier :: string
  gr_agent_identifier :: string
  gr_system_prompt :: string
  gr_user_prompt :: string
  gr_conversation_id :: "uuid option"
  gr_premium_justification :: "string option"
  gr_expected_total_tokens :: "int option"
  gr_expected_estimated_cost :: "amount option"
  gr_pricing_known :: "bool option"

record gateway_result =
  gx_invoked :: bool
  gx_content :: "json option"
  gx_routing :: routing_decision
  gx_limit :: limit_decision
  gx_selection :: model_selection
  gx_usage :: "ai_usage option"

text \<open>\<open>_canonical_usage_metadata\<close> on the completion of a client.\<close>

definition canonical_token :: "int option \<Rightarrow> error + int option" where
  "canonical_token v = (case v of None \<Rightarrow> Inr None
     | Some n \<Rightarrow> if n < 0 then Inl ValueError else Inr (Some n))"

definition canonical_usage_metadata ::
  "llm_completion \<Rightarrow> error + (int option \<times> int option \<times> int option)" where
  "canonical_usage_metadata c =
     bindE (canonical_token (co_input c)) (\<lambda>i.
     bindE (canonical_token (co_output c)) (\<lambda>out.
     bindE (canonical_token (co_total c)) (\<lambda>tot.
     case (i, out) of
       (Some a, Some b) \<Rightarrow>
         (case tot of
            Some t \<Rightarrow> if t \<noteq> a + b then Inl ValueError else Inr (Some a, Some b, Some (a + b))
          | None \<Rightarrow> Inr (Some a, Some b, Some (a + b)))
     | _ \<Rightarrow> Inr (i, out, tot))))"

definition elapsed_ms :: "(nat \<Rightarrow> rat) \<Rightarrow> int" where
  "elapsed_ms perf = max 0 \<lfloor>(perf 1 - perf 0) * 1000\<rfloor>"

definition gateway_usage_input ::
  "gateway_request \<Rightarrow> string \<Rightarrow> string \<Rightarrow> int option \<times> int option \<times> int option \<Rightarrow> int \<Rightarrow> ai_status \<Rightarrow> usage_input" where
  "gateway_usage_input r provider model tokens latency status =
     \<lparr>ui_task = gr_task_identifier r, ui_agent = gr_agent_identifier r, ui_provider = provider,
      ui_model = model, ui_input = fst tokens, ui_output = fst (snd tokens), ui_latency = latency,
      ui_status = status, ui_conversation = gr_conversation_id r, ui_total = snd (snd tokens),
      ui_cost = None, ui_created_at = None\<rparr>"

text \<open>\<open>_record\<close>; the failed variant ignores what the ledger answers.\<close>

definition gateway_record ::
  "persist \<Rightarrow> gateway \<Rightarrow> workspace \<Rightarrow> gateway_request \<Rightarrow> string \<Rightarrow> string
   \<Rightarrow> int option \<times> int option \<times> int option \<Rightarrow> int \<Rightarrow> ai_status \<Rightarrow> int \<Rightarrow> ai_usage op" where
  "gateway_record persist g ws r provider model tokens latency status now =
     usage_record persist (Some (gw_catalog g)) ws
       (gateway_usage_input r provider model tokens latency status) now"

definition record_failed ::
  "persist \<Rightarrow> gateway \<Rightarrow> workspace \<Rightarrow> gateway_request \<Rightarrow> string \<Rightarrow> string \<Rightarrow> int \<Rightarrow> int \<Rightarrow> db \<Rightarrow> db" where
  "record_failed persist g ws r provider model latency now d =
     snd (gateway_record persist g ws r provider model (None, None, None) latency AI_FAILED now d)"

definition gateway_call ::
  "persist \<Rightarrow> transport \<Rightarrow> (nat \<Rightarrow> rat) \<Rightarrow> int \<Rightarrow> gateway \<Rightarrow> workspace \<Rightarrow> gateway_request
   \<Rightarrow> routing_decision \<Rightarrow> limit_decision \<Rightarrow> model_selection \<Rightarrow> string \<Rightarrow> string \<Rightarrow> gateway_result op" where
  "gateway_call persist transport perf now g ws r routing decision sel provider model d =
     (case build_llm (gw_settings g) (Some model) of
        Inl e \<Rightarrow> (Inl e, d)
      | Inr client \<Rightarrow>
          (case complete_with_metadata transport client (gr_system_prompt r) (gr_user_prompt r) of
             Inl e \<Rightarrow> (Inl e, if e = CancelledError then d
                 else record_failed persist g ws r provider model (elapsed_ms perf) now d)
           | Inr completion \<Rightarrow>
               (case canonical_usage_metadata completion of
                  Inl _ \<Rightarrow> (Inl (AiE AIInvocationProviderMetadataError),
                    record_failed persist g ws r provider model (elapsed_ms perf) now d)
                | Inr tokens \<Rightarrow>
                    (case gateway_record persist g ws r provider model tokens (elapsed_ms perf)
                            AI_SUCCESSFUL now d of
                       (Inl _, d') \<Rightarrow> (Inl (AiE AIInvocationAccountingError), d')
                     | (Inr u, d') \<Rightarrow> (Inr \<lparr>gx_invoked = True, gx_content = Some (co_content completion),
                         gx_routing = routing, gx_limit = decision, gx_selection = sel,
                         gx_usage = Some u\<rparr>, d')))))"

definition gateway_invoke ::
  "persist \<Rightarrow> transport \<Rightarrow> (nat \<Rightarrow> rat) \<Rightarrow> int \<Rightarrow> gateway \<Rightarrow> workspace \<Rightarrow> gateway_request \<Rightarrow> gateway_result op" where
  "gateway_invoke persist transport perf now g ws r d =
     (let st = gw_settings g in
      case route (st_premium_enabled st) (gr_task r) (gr_premium_justification r) of
        Inl e \<Rightarrow> (Inl e, d)
      | Inr routing \<Rightarrow>
      case limit_evaluate (st_tier_mappings st) ws
             \<lparr>lr_tier = tier_value (rt_tier routing), lr_expected_tokens = gr_expected_total_tokens r,
              lr_expected_cost = gr_expected_estimated_cost r, lr_pricing_known = gr_pricing_known r\<rparr> d of
        Inl e \<Rightarrow> (Inl e, d)
      | Inr decision \<Rightarrow>
      if ld_outcome decision = LIMIT_BLOCKED
      then (Inl (AiE (AIInvocationBlockedError (ld_requested_tier decision) (ld_reason_code decision))), d)
      else if rt_tier routing = TIER_NONE
      then (Inr \<lparr>gx_invoked = False, gx_content = None, gx_routing = routing, gx_limit = decision,
              gx_selection = \<lparr>sel_tier = TIER_NONE, sel_provider = None, sel_model = None\<rparr>,
              gx_usage = None\<rparr>, d)
      else case ld_tier decision of
        None \<Rightarrow> (Inl (AiE (AIInvocationBlockedError (ld_requested_tier decision) (ld_reason_code decision))), d)
      | Some final_tier \<Rightarrow>
      case resolve_tier (st_tier_mappings st) (tier_value final_tier) of
        Inl e \<Rightarrow> (Inl e, d)
      | Inr sel \<Rightarrow>
      case (sel_provider sel, sel_model sel) of
        (Some provider, Some model) \<Rightarrow>
          gateway_call persist transport perf now g ws r routing decision sel provider model d
      | _ \<Rightarrow> (Inl AssertionError, d))"

end
