(* ===== verification/Ai_Props.thy ===== *)
theory Ai_Props
  imports Ai_Gateway
begin

text \<open>
  What the gateway guarantees: its effect on the ledger, the invocation limit over any
  sequence of invocations, which provider request it makes, and when accounting fails after a
  completed call. The ledger's table is the parameter \<open>persist\<close>; \<open>usage_table\<close> states what the
  database promises of it: a stored row is the row that was added, up to the rounding of its
  cost to the column's scale.
\<close>

definition usage_table :: "persist \<Rightarrow> bool" where
  "usage_table persist = (\<forall>u u'. persist u = Some u' \<longrightarrow>
     (\<exists>c. u' = u\<lparr>au_estimated_cost := c\<rparr> \<and> (c = None \<longleftrightarrow> au_estimated_cost u = None)))"

lemma usage_tableD:
  assumes "usage_table persist" and "persist u = Some u'"
  shows "au_workspace_id u' = au_workspace_id u" "au_status u' = au_status u"
    "au_model u' = au_model u" "au_provider u' = au_provider u"
    "au_input_tokens u' = au_input_tokens u" "au_output_tokens u' = au_output_tokens u"
    "au_total_tokens u' = au_total_tokens u"
    "au_estimated_cost u' = None \<longleftrightarrow> au_estimated_cost u = None"
proof -
  from assms obtain c where "u' = u\<lparr>au_estimated_cost := c\<rparr>" "c = None \<longleftrightarrow> au_estimated_cost u = None"
    unfolding usage_table_def by blast
  then show "au_workspace_id u' = au_workspace_id u" "au_status u' = au_status u"
    "au_model u' = au_model u" "au_provider u' = au_provider u"
    "au_input_tokens u' = au_input_tokens u" "au_output_tokens u' = au_output_tokens u"
    "au_total_tokens u' = au_total_tokens u"
    "au_estimated_cost u' = None \<longleftrightarrow> au_estimated_cost u = None"
    by simp_all
qed

section \<open>The effect of one invocation\<close>

definition ledger_rows :: "db \<Rightarrow> db \<Rightarrow> ai_usage list \<Rightarrow> bool" where
  "ledger_rows d d' us = (d' = d\<lparr>usages := usages d @ us, next_id := next_id d'\<rparr>)"

lemma ledger_rows_refl: "ledger_rows d d []"
  by (simp add: ledger_rows_def)

lemma usage_row_InrD:
  assumes "usage_row catalog ws u now k = Inr r"
  shows "au_workspace_id r = ws_id ws" "au_status r = ui_status u"
    "au_model r = py_strip (ui_model u)" "au_provider r = py_strip (ui_provider u)"
    "au_input_tokens r = ui_input u" "au_output_tokens r = ui_output u"
  using assms
  by (auto simp: usage_row_def bindE_Inr_iff usage_identifier_def optional_non_negative_def
      split: if_splits option.splits)

lemma usage_record_effect:
  assumes pt: "usage_table persist" and r: "usage_record persist c ws u now d = (res, d')"
  shows "case res of
      Inl _ \<Rightarrow> ledger_rows d d' []
    | Inr r \<Rightarrow> ledger_rows d d' [r] \<and> au_workspace_id r = ws_id ws \<and> au_status r = ui_status u \<and>
        au_model r = py_strip (ui_model u) \<and> au_provider r = py_strip (ui_provider u) \<and>
        au_input_tokens r = ui_input u \<and> au_output_tokens r = ui_output u"
proof (cases "usage_row c ws u now (next_id d)")
  case (Inl e)
  with r have "res = Inl e" "d' = d" by (simp_all add: usage_record_def)
  then show ?thesis by (simp add: ledger_rows_refl)
next
  case (Inr row)
  show ?thesis
  proof (cases "persist row")
    case None
    with Inr r show ?thesis by (auto simp: usage_record_def ledger_rows_def take_id_def)
  next
    case (Some row')
    with Inr r usage_tableD [OF pt Some] usage_row_InrD [OF Inr] show ?thesis
      by (auto simp: usage_record_def ledger_rows_def take_id_def)
  qed
qed

lemma record_failed_effect:
  assumes "usage_table persist"
  shows "\<exists>us. ledger_rows d (record_failed persist g ws r provider model latency now d) us \<and>
    length us \<le> 1 \<and> (\<forall>u \<in> set us. au_workspace_id u = ws_id ws \<and> au_status u = AI_FAILED)"
proof -
  obtain res d' where r: "gateway_record persist g ws r provider model (None, None, None) latency AI_FAILED now d = (res, d')"
    by fastforce
  from usage_record_effect [OF assms r [unfolded gateway_record_def]] show ?thesis
  proof (cases res)
    case (Inl e)
    with usage_record_effect [OF assms r [unfolded gateway_record_def]] show ?thesis
      by (intro exI [of _ "[]"]) (simp add: record_failed_def r)
  next
    case (Inr u)
    with usage_record_effect [OF assms r [unfolded gateway_record_def]] show ?thesis
      by (intro exI [of _ "[u]"]) (simp add: record_failed_def r gateway_usage_input_def)
  qed
qed

definition call_effect ::
  "workspace \<Rightarrow> db \<Rightarrow> db \<Rightarrow> string \<Rightarrow> string \<Rightarrow> error + gateway_result \<Rightarrow> bool" where
  "call_effect ws d d' provider model res =
     (case res of
        Inl _ \<Rightarrow> (\<exists>us. ledger_rows d d' us \<and> length us \<le> 1 \<and>
          (\<forall>u \<in> set us. au_workspace_id u = ws_id ws \<and> au_status u = AI_FAILED))
      | Inr x \<Rightarrow> gx_invoked x \<and> (\<exists>u. ledger_rows d d' [u] \<and> gx_usage x = Some u \<and>
          au_workspace_id u = ws_id ws \<and> au_status u = AI_SUCCESSFUL \<and>
          au_provider u = py_strip provider \<and> au_model u = py_strip model))"

lemma gateway_call_effect:
  assumes pt: "usage_table persist"
    and call: "gateway_call persist transport perf now g ws r routing decision sel provider model d = (res, d')"
  shows "call_effect ws d d' provider model res"
proof -
  note failed = record_failed_effect [OF pt, of d g ws r provider model "elapsed_ms perf" now]
  show ?thesis
  proof (cases "build_llm (gw_settings g) (Some model)")
    case (Inl e)
    with call show ?thesis
      by (auto simp: gateway_call_def call_effect_def ledger_rows_refl intro!: exI [of _ "[]"])
  next
    case client: (Inr client)
    show ?thesis
    proof (cases "complete_with_metadata transport client (gr_system_prompt r) (gr_user_prompt r)")
      case (Inl e)
      show ?thesis
      proof (cases "e = CancelledError")
        case True
        with call client Inl show ?thesis
          by (auto simp: gateway_call_def call_effect_def ledger_rows_refl intro!: exI [of _ "[]"])
      next
        case False
        with call client Inl failed show ?thesis by (auto simp: gateway_call_def call_effect_def)
      qed
    next
      case completion: (Inr completion)
      show ?thesis
      proof (cases "canonical_usage_metadata completion")
        case (Inl e)
        with call client completion failed show ?thesis by (auto simp: gateway_call_def call_effect_def)
      next
        case (Inr tokens)
        obtain out d1 where rec: "gateway_record persist g ws r provider model tokens (elapsed_ms perf)
            AI_SUCCESSFUL now d = (out, d1)" by fastforce
        from usage_record_effect [OF pt rec [unfolded gateway_record_def]]
        show ?thesis using call client completion Inr rec
          by (cases out) (auto simp: gateway_call_def call_effect_def gateway_usage_input_def
              intro!: exI [of _ "[]"])
      qed
    qed
  qed
qed

text \<open>The errors of the stages before a call.\<close>

definition policy_errors :: "error list" where
  "policy_errors = [AiE AIModelRoutingError, AiE AIWorkspaceUsageLimitConfigurationError,
     AiE AIWorkspaceUsageLimitRequestError, AiE AIModelTierResolutionError, AssertionError]"

lemma map_res_Inl: "map_res f xs = Inl e \<Longrightarrow> \<exists>x \<in> set xs. f x = Inl e"
  by (induction xs) (auto simp: bindE_Inl_iff)

lemma downgrade_mappings_Inl:
  "downgrade_mappings ms m = Inl e \<Longrightarrow> e = AiE AIWorkspaceUsageLimitConfigurationError"
  by (induction ms m rule: downgrade_mappings.induct)
    (force simp: bindE_Inl_iff limit_tier_def split: if_splits option.splits)+

lemma checked_amount_Inl: "checked_amount err v = Inl e \<Longrightarrow> e = err"
  by (auto simp: checked_amount_def split: option.splits amount.splits decimal.splits if_splits)

lemma limit_tier_Inl: "limit_tier err v = Inl e \<Longrightarrow> e = err"
  by (auto simp: limit_tier_def split: option.splits)

lemma non_negative_limit_Inl: "non_negative_limit err v = Inl e \<Longrightarrow> e = err"
  by (auto simp: non_negative_limit_def split: option.splits if_splits)

lemma permitted_tiers_Inl: "permitted_tiers vs = Inl e \<Longrightarrow> e = AiE AIWorkspaceUsageLimitConfigurationError"
  by (auto simp: permitted_tiers_def bindE_Inl_iff dest: map_res_Inl limit_tier_Inl
      split: option.splits if_splits)

lemma limit_configuration_Inl:
  assumes "limit_configuration ws = Inl e"
  shows "e = AiE AIWorkspaceUsageLimitConfigurationError"
  using assms unfolding limit_configuration_def Let_def bindE_Inl_iff
  by (auto dest: permitted_tiers_Inl downgrade_mappings_Inl checked_amount_Inl non_negative_limit_Inl)

lemma limit_evaluate_Inl:
  assumes "limit_evaluate mappings ws q d = Inl e"
  shows "e \<in> set policy_errors"
proof -
  let ?req = "AiE AIWorkspaceUsageLimitRequestError"
  have val: "x = ?req" if "validate_pricing_estimate k c = Inl x" for k c x
    using that by (auto simp: validate_pricing_estimate_def split: if_splits)
  consider "limit_tier ?req (lr_tier q) = Inl e" | "limit_configuration ws = Inl e"
    | "non_negative_limit ?req (lr_expected_tokens q) = Inl e"
    | "checked_amount ?req (lr_expected_cost q) = Inl e"
    | c where "validate_pricing_estimate (lr_pricing_known q) c = Inl e"
    using assms unfolding limit_evaluate_def Let_def bindE_Inl_iff
    by (elim disjE exE conjE) (auto split: if_splits option.splits sum.splits)
  then show ?thesis
    by cases (auto simp: policy_errors_def
        dest: limit_tier_Inl limit_configuration_Inl non_negative_limit_Inl checked_amount_Inl val)
qed

lemma route_Inl: "route enabled task just = Inl e \<Longrightarrow> e \<in> set policy_errors"
  by (auto simp: route_def policy_errors_def bindE_Inl_iff parse_justification_def
      split: option.splits if_splits)

lemma resolve_tier_Inl: "resolve_tier m t = Inl e \<Longrightarrow> e \<in> set policy_errors"
  by (auto simp: resolve_tier_def policy_errors_def split: option.splits if_splits)

text \<open>The stages before a call, and what they leave of the database.\<close>

lemma gateway_invoke_cases:
  assumes "gateway_invoke persist transport perf now g ws r d = (res, d')"
  obtains e where "res = Inl e" "d' = d"
      "e \<in> set policy_errors \<or> (\<exists>t q. e = AiE (AIInvocationBlockedError t q))"
  | x where "res = Inr x" "d' = d" "\<not> gx_invoked x" "gx_content x = None" "gx_usage x = None"
  | routing decision t sel provider model where
      "route (st_premium_enabled (gw_settings g)) (gr_task r) (gr_premium_justification r) = Inr routing"
      "limit_evaluate (st_tier_mappings (gw_settings g)) ws
         \<lparr>lr_tier = tier_value (rt_tier routing), lr_expected_tokens = gr_expected_total_tokens r,
          lr_expected_cost = gr_expected_estimated_cost r, lr_pricing_known = gr_pricing_known r\<rparr> d = Inr decision"
      "rt_tier routing \<noteq> TIER_NONE" "ld_tier decision = Some t"
      "resolve_tier (st_tier_mappings (gw_settings g)) (tier_value t) = Inr sel"
      "sel_provider sel = Some provider" "sel_model sel = Some model"
      "gateway_call persist transport perf now g ws r routing decision sel provider model d = (res, d')"
proof -
  have "AssertionError \<in> set policy_errors" by (simp add: policy_errors_def)
  with assms show thesis
    by (auto simp: gateway_invoke_def Let_def
        dest: route_Inl limit_evaluate_Inl resolve_tier_Inl intro: that
        split: sum.splits if_splits option.splits)
qed

text \<open>A row is added only where the policy granted a tier to a model task.\<close>

lemma gateway_rows_granted:
  assumes pt: "usage_table persist"
    and run: "gateway_invoke persist transport perf now g ws r d = (res, d')"
  obtains us where "ledger_rows d d' us" "length us \<le> 1" "\<forall>u \<in> set us. au_workspace_id u = ws_id ws"
    "us \<noteq> [] \<Longrightarrow> \<exists>q x t. limit_evaluate (st_tier_mappings (gw_settings g)) ws q d = Inr x \<and>
       ld_tier x = Some t \<and> lr_tier q \<noteq> tier_value TIER_NONE"
  using run
proof (cases rule: gateway_invoke_cases)
  case (3 routing decision t sel provider model)
  note eff = gateway_call_effect [OF pt 3(8)]
  obtain us where us: "ledger_rows d d' us" "length us \<le> 1" "\<forall>u \<in> set us. au_workspace_id u = ws_id ws"
  proof (cases res)
    case (Inl e)
    with eff that show ?thesis by (auto simp: call_effect_def)
  next
    case (Inr x)
    with eff obtain u where "ledger_rows d d' [u]" "au_workspace_id u = ws_id ws"
      by (auto simp: call_effect_def)
    with that [of "[u]"] show ?thesis by simp
  qed
  have "tier_value (rt_tier routing) \<noteq> tier_value TIER_NONE"
    using 3(3) by (cases "rt_tier routing") simp_all
  with 3(2,4) us show ?thesis by (intro that [of us]) (auto intro!: exI)
qed (auto intro: that [of "[]"] simp: ledger_rows_refl)

lemma usage_token_nonneg: "usage_token fs k = Inr (Some n) \<Longrightarrow> 0 \<le> n"
  by (auto simp: usage_token_def split: option.splits json.splits if_splits)

definition canonical_tokens :: "int option \<Rightarrow> int option \<Rightarrow> int option \<Rightarrow> bool" where
  "canonical_tokens i out tot =
     ((\<forall>n \<in> set_option i. 0 \<le> n) \<and> (\<forall>n \<in> set_option out. 0 \<le> n) \<and> (\<forall>n \<in> set_option tot. 0 \<le> n) \<and>
      (\<forall>a \<in> set_option i. \<forall>b \<in> set_option out. \<forall>t \<in> set_option tot. t = a + b))"

lemma usage_metadata_canonical:
  assumes "usage_metadata body = Inr (i, out, tot)"
  shows "canonical_tokens i out tot"
proof (cases "\<exists>fs. json_item ''usage'' body = Some (JObj fs)")
  case True
  then obtain fs where fs: "json_item ''usage'' body = Some (JObj fs)" by blast
  with assms have tok: "usage_token fs ''prompt_tokens'' = Inr i" "usage_token fs ''completion_tokens'' = Inr out"
    "usage_token fs ''total_tokens'' = Inr tot"
    and sum: "\<And>a b t. i = Some a \<Longrightarrow> out = Some b \<Longrightarrow> tot = Some t \<Longrightarrow> t = a + b"
    by (auto simp: usage_metadata_def bindE_Inr_iff split: option.splits if_splits)
  from tok have "\<forall>n \<in> set_option i. 0 \<le> n" "\<forall>n \<in> set_option out. 0 \<le> n" "\<forall>n \<in> set_option tot. 0 \<le> n"
    by (auto simp: elem_set dest: usage_token_nonneg)
  then show ?thesis using sum by (auto simp: canonical_tokens_def elem_set)
next
  case False
  with assms show ?thesis
    by (auto simp: usage_metadata_def canonical_tokens_def split: option.splits json.splits)
qed

lemma complete_with_metadata_Inl:
  assumes "complete_with_metadata transport client sy us = Inl e"
  shows "e \<in> {AiE LLMError, AiE LLMProviderMetadataError, ValueError, CancelledError}"
proof -
  have tok: "x = AiE LLMProviderMetadataError" if "usage_token fs k = Inl x" for fs k x
    using that by (auto simp: usage_token_def split: option.splits json.splits if_splits)
  have "x = AiE LLMProviderMetadataError" if "usage_metadata body = Inl x" for body x
    using that
    by (auto simp: usage_metadata_def bindE_Inl_iff dest: tok split: option.splits json.splits if_splits)
  with assms show ?thesis
    by (auto simp: complete_with_metadata_def bindE_Inl_iff
        split: llm_client.splits http_outcome.splits option.splits)
qed

lemma completion_canonical:
  assumes "complete_with_metadata transport client sy us = Inr c"
  shows "canonical_tokens (co_input c) (co_output c) (co_total c)"
  using assms
  by (auto simp: complete_with_metadata_def canonical_tokens_def bindE_Inr_iff
      dest: usage_metadata_canonical [unfolded canonical_tokens_def]
      split: llm_client.splits http_outcome.splits option.splits)

lemma canonical_usage_metadata_Inr:
  assumes "canonical_tokens (co_input c) (co_output c) (co_total c)"
  shows "\<exists>tokens. canonical_usage_metadata c = Inr tokens \<and>
    canonical_tokens (fst tokens) (fst (snd tokens)) (snd (snd tokens))"
  using assms
  by (cases "co_input c"; cases "co_output c"; cases "co_total c")
    (simp_all add: canonical_usage_metadata_def canonical_token_def canonical_tokens_def)

lemma canonical_token_Inr: "canonical_token v = Inr w \<Longrightarrow> w = v"
  by (simp add: canonical_token_def split: option.splits if_splits)

lemma canonical_usage_metadata_keeps:
  assumes "canonical_usage_metadata c = Inr (i, out, tot)"
  shows "i = co_input c \<and> out = co_output c"
proof -
  from assms obtain t where "canonical_token (co_input c) = Inr (co_input c)"
      "canonical_token (co_output c) = Inr (co_output c)" "canonical_token (co_total c) = Inr t"
    by (auto simp: canonical_usage_metadata_def bindE_Inr_iff dest: canonical_token_Inr)
  with assms show ?thesis
    by (cases "co_input c"; cases "co_output c"; cases t)
      (auto simp: canonical_usage_metadata_def split: if_splits)
qed

lemma usage_identifier_Inr_strip: "usage_identifier v = Inr x \<Longrightarrow> py_strip x \<noteq> []"
  by (auto simp: usage_identifier_def split: if_splits)

lemma usage_row_canonical:
  assumes "canonical_tokens i out tot" and "0 \<le> ui_latency u" and "ui_cost u = None"
    and "ui_input u = i" "ui_output u = out" "ui_total u = tot"
    and ids: "usage_identifier (ui_task u) = Inr a" "usage_identifier (ui_agent u) = Inr b"
      "usage_identifier (ui_provider u) = Inr p" "usage_identifier (ui_model u) = Inr m"
  shows "\<exists>row. usage_row (Some c) ws u now k = Inr row \<and> au_status row = ui_status u"
proof -
  have names: "py_strip p \<noteq> []" "py_strip m \<noteq> []" using ids by (auto dest: usage_identifier_Inr_strip)
  have est: "\<exists>ce. estimate_cost c p m x y = Inr ce" if "0 \<le> x" "0 \<le> y" for x y
    using that names by (auto simp: estimate_cost_def pricing_identifier_def Let_def split: option.splits)
  have cost: "\<exists>x. usage_estimated_cost (Some c) p m i out None = Inr x"
    using assms(1) est by (cases i; cases out) (fastforce simp: usage_estimated_cost_def canonical_tokens_def)+
  have opt: "optional_non_negative i = Inr i" "optional_non_negative out = Inr out"
    using assms(1) by (auto simp: optional_non_negative_def canonical_tokens_def split: option.splits)
  have tot: "\<exists>x. canonical_total_tokens i out tot = Inr x"
    using assms(1) by (cases i; cases out; cases tot)
      (simp_all add: canonical_total_tokens_def optional_non_negative_def canonical_tokens_def)
  from cost tot obtain x y where "usage_estimated_cost (Some c) p m i out None = Inr x"
    "canonical_total_tokens i out tot = Inr y" by blast
  with assms(2-6) ids opt show ?thesis by (simp add: usage_row_def)
qed

section \<open>What an invocation does\<close>

text \<open>
  The decision before a call, with no call and no row: refused with an error, no model needed, or a provider, a
  model and a client.
\<close>

definition gateway_plan ::
  "gateway \<Rightarrow> workspace \<Rightarrow> gateway_request \<Rightarrow> db \<Rightarrow> error + (string \<times> string \<times> llm_client) option" where
  "gateway_plan g ws r d =
     (let st = gw_settings g in
      bindE (route (st_premium_enabled st) (gr_task r) (gr_premium_justification r)) (\<lambda>routing.
      bindE (limit_evaluate (st_tier_mappings st) ws
               \<lparr>lr_tier = tier_value (rt_tier routing), lr_expected_tokens = gr_expected_total_tokens r,
                lr_expected_cost = gr_expected_estimated_cost r, lr_pricing_known = gr_pricing_known r\<rparr> d) (\<lambda>decision.
      let blocked = AiE (AIInvocationBlockedError (ld_requested_tier decision) (ld_reason_code decision)) in
      if ld_outcome decision = LIMIT_BLOCKED then Inl blocked
      else if rt_tier routing = TIER_NONE then Inr None
      else (case ld_tier decision of
              None \<Rightarrow> Inl blocked
            | Some t \<Rightarrow>
                bindE (resolve_tier (st_tier_mappings st) (tier_value t)) (\<lambda>sel.
                case (sel_provider sel, sel_model sel) of
                  (Some p, Some m) \<Rightarrow> bindE (build_llm st (Some m)) (\<lambda>client. Inr (Some (p, m, client)))
                | _ \<Rightarrow> Inl AssertionError)))))"

lemma gateway_plan_cases:
  assumes "gateway_invoke persist transport perf now g ws r d = (res, d')"
  obtains (refused) e where "gateway_plan g ws r d = Inl e" "res = Inl e" "d' = d"
  | (skipped) x where "gateway_plan g ws r d = Inr None" "res = Inr x" "\<not> gx_invoked x" "gx_content x = None"
      "gx_usage x = None" "d' = d"
  | (called) p m client routing decision sel where "gateway_plan g ws r d = Inr (Some (p, m, client))"
      "build_llm (gw_settings g) (Some m) = Inr client"
      "gateway_call persist transport perf now g ws r routing decision sel p m d = (res, d')"
proof -
  let ?st = "gw_settings g"
  let ?q = "\<lambda>routing. \<lparr>lr_tier = tier_value (rt_tier routing), lr_expected_tokens = gr_expected_total_tokens r,
     lr_expected_cost = gr_expected_estimated_cost r, lr_pricing_known = gr_pricing_known r\<rparr>"
  show thesis
  proof (cases "route (st_premium_enabled ?st) (gr_task r) (gr_premium_justification r)")
    case (Inl e)
    with assms show ?thesis by (intro refused [of e]) (simp_all add: gateway_invoke_def gateway_plan_def)
  next
    case routing: (Inr routing)
    show ?thesis
    proof (cases "limit_evaluate (st_tier_mappings ?st) ws (?q routing) d")
      case (Inl e)
      with assms routing show ?thesis
        by (intro refused [of e]) (simp_all add: gateway_invoke_def gateway_plan_def Let_def)
    next
      case decision: (Inr decision)
      note prefix = routing decision gateway_invoke_def gateway_plan_def Let_def
      show ?thesis
      proof (cases "ld_outcome decision = LIMIT_BLOCKED \<or> rt_tier routing = TIER_NONE \<or> ld_tier decision = None")
        case True
        show ?thesis
        proof (cases "ld_outcome decision \<noteq> LIMIT_BLOCKED \<and> rt_tier routing = TIER_NONE")
          case True
          with assms prefix(1,2) show ?thesis
            by (intro skipped [of "\<lparr>gx_invoked = False, gx_content = None, gx_routing = routing, gx_limit = decision,
              gx_selection = \<lparr>sel_tier = TIER_NONE, sel_provider = None, sel_model = None\<rparr>, gx_usage = None\<rparr>"])
              (simp_all add: prefix)
        next
          case False
          let ?e = "AiE (AIInvocationBlockedError (ld_requested_tier decision) (ld_reason_code decision))"
          show ?thesis
          proof (cases "ld_outcome decision = LIMIT_BLOCKED")
            case True
            with assms prefix(1,2) show ?thesis by (intro refused [of ?e]) (simp_all add: prefix)
          next
            case neq: False
            with True False have "rt_tier routing \<noteq> TIER_NONE" "ld_tier decision = None" by simp_all
            with neq assms prefix(1,2) show ?thesis by (intro refused [of ?e]) (simp_all add: prefix)
          qed
        qed
      next
        case False
        then obtain t where t: "ld_outcome decision \<noteq> LIMIT_BLOCKED" "rt_tier routing \<noteq> TIER_NONE" "ld_tier decision = Some t"
          by auto
        show ?thesis
        proof (cases "resolve_tier (st_tier_mappings ?st) (tier_value t)")
          case (Inl e)
          from assms t Inl have "res = Inl e" "d' = d" by (simp_all add: prefix)
          with t Inl show ?thesis by (intro refused [of e]) (simp_all add: prefix)
        next
          case sel: (Inr sel)
          show ?thesis
          proof (cases "\<exists>p m. sel_provider sel = Some p \<and> sel_model sel = Some m")
            case False
            with assms t sel show ?thesis
              by (intro refused [of AssertionError]) (auto simp: prefix split: option.splits)
          next
            case True
            then obtain p m where pm: "sel_provider sel = Some p" "sel_model sel = Some m" by blast
            with assms t sel have call: "gateway_call persist transport perf now g ws r routing decision sel p m d = (res, d')"
              by (simp add: prefix)
            show ?thesis
            proof (cases "build_llm ?st (Some m)")
              case (Inl e)
              with call have "res = Inl e" "d' = d" by (simp_all add: gateway_call_def)
              with Inl t sel pm show ?thesis by (intro refused [of e]) (simp_all add: prefix)
            next
              case (Inr client)
              with call t sel pm show ?thesis
                by (intro called [of p m client routing decision sel]) (simp_all add: prefix)
            qed
          qed
        qed
      qed
    qed
  qed
qed

text \<open>That a row is the account of a call, and that nothing keeps the account from being written.\<close>

definition usage_of ::
  "workspace \<Rightarrow> string \<Rightarrow> string \<Rightarrow> ai_status \<Rightarrow> int option \<Rightarrow> int option \<Rightarrow> ai_usage \<Rightarrow> bool" where
  "usage_of ws p m st i out u \<longleftrightarrow> au_workspace_id u = ws_id ws \<and> au_status u = st \<and> au_provider u = py_strip p \<and>
     au_model u = py_strip m \<and> au_input_tokens u = i \<and> au_output_tokens u = out"

definition accountable :: "persist \<Rightarrow> gateway_request \<Rightarrow> string \<Rightarrow> string \<Rightarrow> bool" where
  "accountable persist r p m \<longleftrightarrow> (\<forall>u. persist u \<noteq> None) \<and>
     (\<forall>v \<in> {gr_task_identifier r, gr_agent_identifier r, p, m}. py_strip v \<noteq> [] \<and> length (py_strip v) \<le> 200)"

lemma gateway_record_accounted:
  assumes pt: "usage_table persist" and tok: "canonical_tokens i out tot" and lat: "0 \<le> latency"
    and run: "gateway_record persist g ws r p m (i, out, tot) latency st now d = (res, d')"
  shows "case res of Inr u \<Rightarrow> ledger_rows d d' [u] \<and> usage_of ws p m st i out u
    | Inl _ \<Rightarrow> ledger_rows d d' [] \<and> \<not> accountable persist r p m"
proof -
  let ?u = "gateway_usage_input r p m (i, out, tot) latency st"
  note eff = usage_record_effect [OF pt run [unfolded gateway_record_def]]
  have "\<not> accountable persist r p m" if "res = Inl e" for e
  proof
    assume acc: "accountable persist r p m"
    then have "\<exists>row. usage_row (Some (gw_catalog g)) ws ?u now (next_id d) = Inr row \<and> au_status row = ui_status ?u"
      by (intro usage_row_canonical [OF tok])
        (use lat in \<open>auto simp: gateway_usage_input_def usage_identifier_def accountable_def\<close>)
    then obtain row where "usage_row (Some (gw_catalog g)) ws ?u now (next_id d) = Inr row" by blast
    moreover from acc obtain row' where "persist row = Some row'" by (auto simp: accountable_def)
    ultimately show False using run that by (simp add: gateway_record_def usage_record_def)
  qed
  with eff show ?thesis by (cases res) (simp_all add: usage_of_def gateway_usage_input_def)
qed

lemma record_failed_accounted:
  assumes pt: "usage_table persist" and d': "d' = record_failed persist g ws r p m (elapsed_ms perf) now d"
  shows "\<exists>us. ledger_rows d d' us \<and> length us \<le> 1 \<and> (\<forall>u \<in> set us. usage_of ws p m AI_FAILED None None u) \<and>
    (accountable persist r p m \<longrightarrow> us \<noteq> [])"
proof -
  obtain res d1 where run: "gateway_record persist g ws r p m (None, None, None) (elapsed_ms perf) AI_FAILED now d = (res, d1)"
    by fastforce
  have "canonical_tokens None None None" "0 \<le> elapsed_ms perf" by (simp_all add: canonical_tokens_def elapsed_ms_def)
  from gateway_record_accounted [OF pt this run] show ?thesis
    by (cases res) (auto simp: d' record_failed_def run intro: exI [of _ "[]"] exI [of _ "[_]"])
qed

text \<open>C21: What one invocation of the gateway does, on every path. If the policy chain refuses (routing, limits,
  tier, configuration), the caller gets its error and nothing changes; if no model is needed, the answer says so
  and nothing changes. Otherwise the client is asked once. A cancelled call changes nothing. A call that fails, or
  answers with usage metadata the client rejects, raises the client's error and leaves exactly one failed row without
  tokens for the provider and model, as long as the identifiers fit and the database takes rows. A completed
  call answers its content and leaves exactly its own successful row with its tokens; only if the identifiers do
  not fit or the database refuses rows it is an accounting error and leaves none. Nothing but the usage
  ledger is ever touched.\<close>

theorem gateway_effect:
  assumes pt: "usage_table persist"
    and run: "gateway_invoke persist transport perf now g ws r d = (res, d')"
  shows "case gateway_plan g ws r d of
      Inl e \<Rightarrow> res = Inl e \<and> d' = d
    | Inr None \<Rightarrow> d' = d \<and> (\<exists>x. res = Inr x \<and> \<not> gx_invoked x \<and> gx_content x = None \<and> gx_usage x = None)
    | Inr (Some (p, m, client)) \<Rightarrow>
        (case complete_with_metadata transport client (gr_system_prompt r) (gr_user_prompt r) of
           Inl e \<Rightarrow> res = Inl e \<and>
             (if e = CancelledError then d' = d
              else \<exists>us. ledger_rows d d' us \<and> length us \<le> 1 \<and> (\<forall>u \<in> set us. usage_of ws p m AI_FAILED None None u) \<and>
                (accountable persist r p m \<longrightarrow> us \<noteq> []))
         | Inr c \<Rightarrow>
             (case res of
                Inr x \<Rightarrow> gx_invoked x \<and> gx_content x = Some (co_content c) \<and>
                  (\<exists>u. gx_usage x = Some u \<and> ledger_rows d d' [u] \<and>
                     usage_of ws p m AI_SUCCESSFUL (co_input c) (co_output c) u)
              | Inl e \<Rightarrow> e = AiE AIInvocationAccountingError \<and> ledger_rows d d' [] \<and> \<not> accountable persist r p m))"
  using run
proof (cases rule: gateway_plan_cases)
  case (called p m client routing decision sel)
  show ?thesis
  proof (cases "complete_with_metadata transport client (gr_system_prompt r) (gr_user_prompt r)")
    case (Inl e)
    with called have "res = Inl e" "d' = (if e = CancelledError then d
        else record_failed persist g ws r p m (elapsed_ms perf) now d)" by (simp_all add: gateway_call_def)
    with called(1) Inl record_failed_accounted [OF pt, of d' g ws r p m perf now d] show ?thesis by simp
  next
    case c: (Inr c)
    from canonical_usage_metadata_Inr [OF completion_canonical [OF c]] obtain i out tot where
      all: "canonical_usage_metadata c = Inr (i, out, tot)" "canonical_tokens i out tot" by auto
    with canonical_usage_metadata_keeps [OF all(1)] have
      tokens: "canonical_usage_metadata c = Inr (co_input c, co_output c, tot)"
        "canonical_tokens (co_input c) (co_output c) tot" by simp_all
    obtain out d1 where rec: "gateway_record persist g ws r p m (co_input c, co_output c, tot) (elapsed_ms perf)
        AI_SUCCESSFUL now d = (out, d1)" by fastforce
    have "0 \<le> elapsed_ms perf" by (simp add: elapsed_ms_def)
    from gateway_record_accounted [OF pt tokens(2) this rec] called c tokens(1) rec show ?thesis
      by (cases out) (auto simp: gateway_call_def)
  qed
qed auto

definition sample_settings :: llm_settings where
  "sample_settings = \<lparr>st_llm_mode = DEMO, st_llm_api_key = [], st_llm_base_url = ''u'', st_llm_model = ''m'',
     st_tier_mappings = sample_mappings, st_pricing = [], st_premium_enabled = False\<rparr>"

definition sample_gateway :: gateway where
  "sample_gateway = \<lparr>gw_settings = sample_settings, gw_catalog = []\<rparr>"

definition sample_gateway_request :: gateway_request where
  "sample_gateway_request = \<lparr>gr_task = ''sales_conversation'', gr_task_identifier = ''t'',
     gr_agent_identifier = ''a'', gr_system_prompt = [], gr_user_prompt = [], gr_conversation_id = None,
     gr_premium_justification = None, gr_expected_total_tokens = None,
     gr_expected_estimated_cost = None, gr_pricing_known = None\<rparr>"

definition exact_table :: persist where
  "exact_table = Some"

lemma exact_table: "usage_table exact_table"
  by (simp add: usage_table_def exact_table_def) (metis ai_usage.surjective ai_usage.update_convs(12))

lemma sample_usage_row:
  "\<exists>u. usage_row (Some []) limited_ws
     (gateway_usage_input sample_gateway_request ''openai'' ''m'' (None, None, None) 0 AI_SUCCESSFUL) 7 k = Inr u"
  by (simp add: usage_row_def gateway_usage_input_def sample_gateway_request_def usage_identifier_def
      py_strip_def py_isspace_def optional_non_negative_def canonical_total_tokens_def usage_estimated_cost_def)

definition limited_db :: db where
  "limited_db = sample_db\<lparr>workspaces := [limited_ws]\<rparr>"

lemma sample_gateway_run:
  "(\<exists>x d'. gateway_invoke exact_table (\<lambda>_. HttpError) (\<lambda>_. 0) 7 sample_gateway limited_ws
     sample_gateway_request limited_db = (Inr x, d') \<and> gx_invoked x) \<and>
   gateway_plan sample_gateway limited_ws sample_gateway_request limited_db = Inr (Some (''openai'', ''m'', DemoLLM))"
proof -
  have route: "route False ''sales_conversation'' None = Inr (routed TIER_STANDARD STANDARD_CONVERSATION)"
    by (simp add: route_def task_of_value_def all_tasks_def LIGHTWEIGHT_TASKS_def STANDARD_TASKS_def)
  obtain u where u: "usage_row (Some []) limited_ws
     (gateway_usage_input sample_gateway_request ''openai'' ''m'' (None, None, None) 0 AI_SUCCESSFUL) 7
     (next_id limited_db) = Inr u"
    using sample_usage_row by blast
  have sel: "resolve_tier sample_mappings ''economy'' =
      Inr \<lparr>sel_tier = TIER_ECONOMY, sel_provider = Some ''openai'', sel_model = Some ''m''\<rparr>"
    by (simp add: resolve_tier_def tier_of_value_def all_tiers_def sample_mappings_def)
  have "limit_evaluate sample_mappings limited_ws \<lparr>lr_tier = ''standard'', lr_expected_tokens = None,
      lr_expected_cost = None, lr_pricing_known = None\<rparr> limited_db = Inr (downgraded TIER_STANDARD TIER_ECONOMY)"
    using sample_limit_evaluate limit_evaluate_usages [of limited_db sample_db]
    by (simp add: sample_limit_request_def limited_db_def)
  with route sel u show ?thesis
    by (simp add: gateway_invoke_def gateway_plan_def sample_gateway_def sample_settings_def sample_gateway_request_def
        gateway_call_def build_llm_def complete_with_metadata_def canonical_usage_metadata_def
        canonical_token_def elapsed_ms_def gateway_record_def usage_record_def exact_table_def Let_def)
qed

theorem gateway_effect_witness:
  "\<exists>x d' u. gateway_invoke exact_table (\<lambda>_. HttpError) (\<lambda>_. 0) 7 sample_gateway limited_ws
     sample_gateway_request limited_db = (Inr x, d') \<and> gx_usage x = Some u \<and> ledger_rows limited_db d' [u] \<and>
     usage_of limited_ws ''openai'' ''m'' AI_SUCCESSFUL None None u"
proof -
  obtain x d' where run: "gateway_invoke exact_table (\<lambda>_. HttpError) (\<lambda>_. 0) 7 sample_gateway limited_ws
     sample_gateway_request limited_db = (Inr x, d')"
    using sample_gateway_run by blast
  obtain c where c: "complete_with_metadata (\<lambda>_. HttpError) DemoLLM (gr_system_prompt sample_gateway_request)
      (gr_user_prompt sample_gateway_request) = Inr c" "co_input c = None" "co_output c = None"
    by (simp add: complete_with_metadata_def)
  from gateway_effect [OF exact_table run] sample_gateway_run c obtain u where
    "gx_usage x = Some u" "ledger_rows limited_db d' [u]" "usage_of limited_ws ''openai'' ''m'' AI_SUCCESSFUL None None u"
    by auto
  with run show ?thesis by blast
qed

section \<open>The invocation limit over every sequence of invocations\<close>

definition usage_count :: "uuid \<Rightarrow> db \<Rightarrow> nat" where
  "usage_count k d = length (filter (\<lambda>u. au_workspace_id u = k) (usages d))"

definition limits_respected :: "db \<Rightarrow> bool" where
  "limits_respected d = (\<forall>ws \<in> set (workspaces d). case ws_ai_invocation_limit ws of
     None \<Rightarrow> True | Some l \<Rightarrow> int (usage_count (ws_id ws) d) \<le> l)"

definition ledger_inv :: "db \<Rightarrow> bool" where
  "ledger_inv d = (distinct (map ws_id (workspaces d)) \<and> limits_respected d)"

text \<open>Any workspace of the database may invoke, with any settings, provider and request.\<close>

inductive gateway_step :: "persist \<Rightarrow> db \<Rightarrow> db \<Rightarrow> bool" for persist where
  invoke: "ws \<in> set (workspaces d) \<Longrightarrow>
    gateway_invoke persist transport perf now g ws r d = (res, d') \<Longrightarrow> gateway_step persist d d'"

lemma ledger_rowsD:
  assumes "ledger_rows d d' us"
  shows "usages d' = usages d @ us" "workspaces d' = workspaces d"
  using arg_cong [OF assms [unfolded ledger_rows_def], of usages]
    arg_cong [OF assms [unfolded ledger_rows_def], of workspaces] by simp_all

lemma su_invocations_count: "su_invocations (summarize_for_workspace ws d) = usage_count (ws_id ws) d"
  by (simp add: summarize_for_workspace_def summarize_def usage_list_def usage_count_def)

lemma granted_within_invocations:
  assumes "limit_evaluate mappings ws r d = Inr x" "ld_tier x = Some t" "lr_tier r \<noteq> tier_value TIER_NONE"
    and "ws_ai_invocation_limit ws = Some l"
  shows "int (usage_count (ws_id ws) d) + 1 \<le> l"
proof (rule limit_evaluate_InrE [OF assms(1)])
  fix tier c tokens cost
  assume tier: "lr_tier r = tier_value tier" and c: "limit_configuration ws = Inr c"
    and cases: "tier = TIER_NONE \<and> x = allowed tier \<or>
     tier \<noteq> TIER_NONE \<and>
       (hard_limit_decision tier c (summarize_for_workspace ws d) tokens cost (lr_pricing_known r) = Some x \<or>
        hard_limit_decision tier c (summarize_for_workspace ws d) tokens cost (lr_pricing_known r) = None \<and>
          (tier \<in> set (lc_permitted c) \<and> x = allowed tier \<or>
           tier \<notin> set (lc_permitted c) \<and>
             (x = blocked tier REQUESTED_TIER_NOT_PERMITTED \<or> x = blocked tier DOWNGRADE_TARGET_UNAVAILABLE \<or>
              (\<exists>target sel. lc_downgrades c tier = Some target \<and> target \<in> set (lc_permitted c) \<and>
                 resolve_tier mappings (tier_value target) = Inr sel \<and> x = downgraded tier target))))"
  from tier assms(3) have "tier \<noteq> TIER_NONE" by auto
  with cases assms(2) hard_limit_blocked
    [of tier c "summarize_for_workspace ws d" tokens cost "lr_pricing_known r" x]
  have "hard_limit_decision tier c (summarize_for_workspace ws d) tokens cost (lr_pricing_known r) = None"
    by auto
  from hard_limit_None_within [OF c this] assms(4) show ?thesis
    by (simp add: within_limits_def su_invocations_count)
qed

lemma gateway_step_inv:
  assumes pt: "usage_table persist" and "gateway_step persist d d'" and inv: "ledger_inv d"
  shows "ledger_inv d'"
  using assms(2)
proof cases
  case (invoke ws transport perf now g r res)
  obtain us where us: "ledger_rows d d' us" "length us \<le> 1" "\<forall>u \<in> set us. au_workspace_id u = ws_id ws"
    "us \<noteq> [] \<Longrightarrow> \<exists>q x t. limit_evaluate (st_tier_mappings (gw_settings g)) ws q d = Inr x \<and>
       ld_tier x = Some t \<and> lr_tier q \<noteq> tier_value TIER_NONE"
    using gateway_rows_granted [OF pt invoke(2)] by blast
  have granted: "int (usage_count (ws_id ws) d) + 1 \<le> l"
    if "us \<noteq> []" "ws_ai_invocation_limit ws = Some l" for l
    using us(4) [OF that(1)] granted_within_invocations that(2) by blast
  note rows = ledger_rowsD [OF us(1)]
  have own: "usage_count (ws_id w) d' = usage_count (ws_id w) d + (if w = ws then length us else 0)"
    if "w \<in> set (workspaces d)" for w
  proof -
    have "ws_id w = ws_id ws \<longleftrightarrow> w = ws"
      using inv that invoke(1) by (auto simp: ledger_inv_def distinct_map dest: inj_onD)
    then show ?thesis using us(3)
      by (auto simp: usage_count_def rows filter_empty_conv intro: arg_cong [of _ _ length] filter_True)
  qed
  have "case ws_ai_invocation_limit w of None \<Rightarrow> True | Some l \<Rightarrow> int (usage_count (ws_id w) d') \<le> l"
    if w: "w \<in> set (workspaces d)" for w
  proof (cases "ws_ai_invocation_limit w")
    case (Some l)
    from inv w Some have "int (usage_count (ws_id w) d) \<le> l"
      by (auto simp: ledger_inv_def limits_respected_def)
    with own [OF w] granted [of l] us(2) Some show ?thesis by (cases us) auto
  qed simp
  with inv rows(2) show ?thesis by (simp add: ledger_inv_def limits_respected_def)
qed


text \<open>The invariant of the ledger, for every table that keeps its promise.\<close>

interpretation ledger: invariant_system "gateway_step exact_table" ledger_inv
  by unfold_locales (rule gateway_step_inv [OF exact_table])

lemma gateway_system: "usage_table persist \<Longrightarrow> invariant_system (gateway_step persist) ledger_inv"
  by unfold_locales (rule gateway_step_inv)

lemma gateway_step_workspaces:
  assumes "usage_table persist" and "gateway_step persist d d'"
  shows "workspaces d' = workspaces d"
  using assms(2)
proof cases
  case (invoke ws transport perf now g r res)
  show ?thesis by (rule gateway_rows_granted [OF assms(1) invoke(2)]) (rule ledger_rowsD(2))
qed

lemma gateway_steps_inv:
  assumes "usage_table persist" and "(gateway_step persist)\<^sup>*\<^sup>* d d'" and "ledger_inv d"
  shows "ledger_inv d'" and "workspaces d' = workspaces d"
proof -
  show "ledger_inv d'"
    by (rule invariant_system.steps_inv [OF gateway_system [OF assms(1)] assms(2,3)])
  show "workspaces d' = workspaces d"
    by (rule invariant_system.steps_keep [OF gateway_system [OF assms(1)] _ assms(2,3)])
      (simp_all add: gateway_step_workspaces [OF assms(1)])
qed

text \<open>C22: The invocation limit of a workspace holds over every sequence of invocations, by any of the
  workspaces, with any tasks, model settings and provider behaviour: the ledger never has more
  rows of the workspace than its limit allows, failed invocations included.\<close>

theorem invocation_limit_never_exceeded:
  assumes "usage_table persist" and "(gateway_step persist)\<^sup>*\<^sup>* d d'" and "ledger_inv d"
    and "ws \<in> set (workspaces d)" and "ws_ai_invocation_limit ws = Some l"
  shows "int (usage_count (ws_id ws) d') \<le> l"
proof -
  from gateway_steps_inv [OF assms(1,2,3)] assms(4,5) show ?thesis
    by (auto simp: ledger_inv_def limits_respected_def)
qed

lemma limited_db_inv: "ledger_inv limited_db"
  by (simp add: ledger_inv_def limits_respected_def limited_db_def limited_ws_def usage_count_def
      sample_db_def empty_db_def)

theorem invocation_limit_never_exceeded_witness:
  "\<exists>d'. gateway_step exact_table limited_db d' \<and> usage_count 1 d' \<le> 2"
proof -
  have ws: "limited_ws \<in> set (workspaces limited_db)" by (simp add: limited_db_def)
  obtain x d' where "gateway_invoke exact_table (\<lambda>_. HttpError) (\<lambda>_. 0) 7 sample_gateway limited_ws
     sample_gateway_request limited_db = (Inr x, d')"
    using sample_gateway_run by blast
  from gateway_step.invoke [OF ws this] have step: "gateway_step exact_table limited_db d'" .
  then have "(gateway_step exact_table)\<^sup>*\<^sup>* limited_db d'" by simp
  from invocation_limit_never_exceeded [OF exact_table this limited_db_inv ws, of 2] step
  show ?thesis by (auto simp: limited_ws_def sample_ws_def)
qed

section \<open>What the provider is asked\<close>

text \<open>The provider is only ever asked for a model the workspace was granted: two providers that
  agree on the requests with exactly these prompts for the configured model of a permitted tier
  not above the routed one give the same result and the same ledger, so a refused, deterministic
  or misconfigured invocation asks nothing at all.\<close>

theorem provider_asked_granted_model:
  assumes agree: "\<And>rq t m routing. st_tier_mappings (gw_settings g) t = Some m \<Longrightarrow>
      route (st_premium_enabled (gw_settings g)) (gr_task r) (gr_premium_justification r) = Inr routing \<Longrightarrow>
      t \<le> rt_tier routing \<Longrightarrow> t \<noteq> TIER_NONE \<Longrightarrow>
      (case ws_ai_permitted_model_tiers ws of None \<Rightarrow> True | Some vs \<Rightarrow> tier_value t \<in> set vs) \<Longrightarrow>
      lq_model rq = tm_model m \<Longrightarrow> lq_system rq = gr_system_prompt r \<Longrightarrow> lq_user rq = gr_user_prompt r \<Longrightarrow>
      p1 rq = p2 rq"
  shows "gateway_invoke persist p1 perf now g ws r d = gateway_invoke persist p2 perf now g ws r d"
proof (cases "gateway_invoke persist p1 perf now g ws r d")
  case (Pair res d')
  have same: "gateway_call persist p1 perf now g ws r routing decision sel provider model d
      = gateway_call persist p2 perf now g ws r routing decision sel provider model d"
    if "route (st_premium_enabled (gw_settings g)) (gr_task r) (gr_premium_justification r) = Inr routing"
      "limit_evaluate (st_tier_mappings (gw_settings g)) ws
         \<lparr>lr_tier = tier_value (rt_tier routing), lr_expected_tokens = gr_expected_total_tokens r,
          lr_expected_cost = gr_expected_estimated_cost r, lr_pricing_known = gr_pricing_known r\<rparr> d = Inr decision"
      "rt_tier routing \<noteq> TIER_NONE" "ld_tier decision = Some t"
      "resolve_tier (st_tier_mappings (gw_settings g)) (tier_value t) = Inr sel" "sel_model sel = Some model"
    for routing decision t sel provider model
  proof -
    have "ld_requested_tier decision = rt_tier routing"
      using limit_decision_facts [OF that(2)] by (metis limit_request.select_convs(1) option.inject tier_of_value_value)
    with limit_decision_facts [OF that(2)] that(3,4)
    have t: "t \<le> rt_tier routing" "t \<noteq> TIER_NONE"
      "case ws_ai_permitted_model_tiers ws of None \<Rightarrow> True | Some vs \<Rightarrow> tier_value t \<in> set vs"
      by auto
    from that(5,6) t(2) obtain m where m: "st_tier_mappings (gw_settings g) t = Some m" "model = tm_model m"
      by (auto simp: resolve_tier_def split: option.splits)
    have "complete_with_metadata p1 c (gr_system_prompt r) (gr_user_prompt r)
        = complete_with_metadata p2 c (gr_system_prompt r) (gr_user_prompt r)"
      if "build_llm (gw_settings g) (Some model) = Inr c" for c
      using that agree [OF m(1) \<open>route _ _ _ = Inr routing\<close> t, of "llm_request ((gw_settings g)\<lparr>st_llm_model := model\<rparr>) (gr_system_prompt r) (gr_user_prompt r)"] m(2)
      by (auto simp: build_llm_def Let_def complete_with_metadata_def llm_request_def split: if_splits)
    then show ?thesis by (simp add: gateway_call_def split: sum.splits)
  qed
  then show ?thesis
    by (auto simp: gateway_invoke_def Let_def split: sum.splits option.splits)
qed


definition other_model_fails :: transport where
  "other_model_fails rq = (if lq_model rq = ''m'' then HttpError else HttpNotJson)"

theorem provider_asked_granted_model_witness:
  "gateway_invoke exact_table other_model_fails (\<lambda>_. 0) 7
     (sample_gateway\<lparr>gw_settings := sample_settings\<lparr>st_llm_mode := OPENAI_COMPATIBLE, st_llm_api_key := ''k''\<rparr>\<rparr>)
     limited_ws sample_gateway_request limited_db =
   gateway_invoke exact_table (\<lambda>_. HttpError) (\<lambda>_. 0) 7
     (sample_gateway\<lparr>gw_settings := sample_settings\<lparr>st_llm_mode := OPENAI_COMPATIBLE, st_llm_api_key := ''k''\<rparr>\<rparr>)
     limited_ws sample_gateway_request limited_db"
  by (rule provider_asked_granted_model)
    (auto simp: other_model_fails_def sample_settings_def sample_mappings_def split: if_splits)

section \<open>Accounting after a completed call\<close>

text \<open>After a completed call nothing but the caller's identifiers or the database can make the
  accounting fail: with the built-in clients the metadata error cannot occur, and an accounting
  error means that one of the four identifiers of the row is blank or longer than 200 characters,
  or that the database refused a successful row; the gateway checks the identifiers only after
  the provider has been paid.\<close>

theorem accounting_error_causes:
  assumes "gateway_invoke persist transport perf now g ws r d = (Inl e, d')"
  shows "e \<noteq> AiE AIInvocationProviderMetadataError \<and>
    (e = AiE AIInvocationAccountingError \<longrightarrow>
       (\<exists>t m. st_tier_mappings (gw_settings g) t = Some m \<and>
          (\<exists>v \<in> {gr_task_identifier r, gr_agent_identifier r, tm_provider m, tm_model m}.
             py_strip v = [] \<or> 200 < length (py_strip v))) \<or>
       (\<exists>row. persist row = None \<and> au_status row = AI_SUCCESSFUL))"
  using assms
proof (cases rule: gateway_invoke_cases)
  case (1 e')
  then show ?thesis by (auto simp: policy_errors_def)
next
  case (3 routing decision t sel provider model)
  obtain m where m: "st_tier_mappings (gw_settings g) t = Some m" "provider = tm_provider m" "model = tm_model m"
    using 3(5-7) by (auto simp: resolve_tier_def split: option.splits if_splits)
  note call = 3(8)
  have build: "e \<noteq> AiE AIInvocationProviderMetadataError \<and> e \<noteq> AiE AIInvocationAccountingError"
    if "build_llm (gw_settings g) (Some model) = Inl e"
    using that by (auto simp: build_llm_def Let_def split: if_splits)
  have complete: "e \<noteq> AiE AIInvocationProviderMetadataError \<and> e \<noteq> AiE AIInvocationAccountingError"
    if "complete_with_metadata transport c (gr_system_prompt r) (gr_user_prompt r) = Inl e" for c
    using that complete_with_metadata_Inl [OF that] by auto
  show ?thesis
  proof (cases "\<exists>c x. build_llm (gw_settings g) (Some model) = Inr c \<and>
      complete_with_metadata transport c (gr_system_prompt r) (gr_user_prompt r) = Inr x")
    case False
    with call build complete show ?thesis
      by (auto simp: gateway_call_def split: sum.splits)
  next
    case True
    then obtain c x where cx: "build_llm (gw_settings g) (Some model) = Inr c"
      "complete_with_metadata transport c (gr_system_prompt r) (gr_user_prompt r) = Inr x" by blast
    obtain tokens where tokens: "canonical_usage_metadata x = Inr tokens"
      "canonical_tokens (fst tokens) (fst (snd tokens)) (snd (snd tokens))"
      using canonical_usage_metadata_Inr [OF completion_canonical [OF cx(2)]] by blast
    let ?u = "gateway_usage_input r provider model tokens (elapsed_ms perf) AI_SUCCESSFUL"
    from call cx tokens(1) have e: "e = AiE AIInvocationAccountingError"
      by (auto simp: gateway_call_def split: prod.splits sum.splits)
    from call cx tokens(1) obtain y d1 where rec: "usage_record persist (Some (gw_catalog g)) ws ?u now d = (Inl y, d1)"
      by (auto simp: gateway_call_def gateway_record_def split: prod.splits sum.splits)
    have "(\<exists>v \<in> {gr_task_identifier r, gr_agent_identifier r, provider, model}.
        py_strip v = [] \<or> 200 < length (py_strip v)) \<or> (\<exists>row. persist row = None \<and> au_status row = AI_SUCCESSFUL)"
    proof (rule ccontr)
      assume neg: "\<not> ?thesis"
      then have "\<exists>row. usage_row (Some (gw_catalog g)) ws ?u now (next_id d) = Inr row \<and> au_status row = ui_status ?u"
        by (intro usage_row_canonical [OF tokens(2)])
          (auto simp: gateway_usage_input_def usage_identifier_def elapsed_ms_def)
      then obtain row where row: "usage_row (Some (gw_catalog g)) ws ?u now (next_id d) = Inr row"
        "au_status row = AI_SUCCESSFUL" by (auto simp: gateway_usage_input_def)
      have "persist row \<noteq> None"
      proof
        assume "persist row = None"
        with row(2) have "\<exists>row. persist row = None \<and> au_status row = AI_SUCCESSFUL"
          by (intro exI [of _ row] conjI)
        with neg show False by (simp only: disj_not1 simp_thms)
      qed
      then obtain row' where "persist row = Some row'" by blast
      with rec row(1) show False by (simp add: usage_record_def)
    qed
    with m e show ?thesis by blast
  qed
qed simp


lemma sample_accounting_run:
  "fst (gateway_invoke exact_table (\<lambda>_. HttpError) (\<lambda>_. 0) 7 sample_gateway limited_ws
     (sample_gateway_request\<lparr>gr_task_identifier := []\<rparr>) limited_db) = Inl (AiE AIInvocationAccountingError)"
proof -
  have route: "route False ''sales_conversation'' None = Inr (routed TIER_STANDARD STANDARD_CONVERSATION)"
    by (simp add: route_def task_of_value_def all_tasks_def LIGHTWEIGHT_TASKS_def STANDARD_TASKS_def)
  have sel: "resolve_tier sample_mappings ''economy'' =
      Inr \<lparr>sel_tier = TIER_ECONOMY, sel_provider = Some ''openai'', sel_model = Some ''m''\<rparr>"
    by (simp add: resolve_tier_def tier_of_value_def all_tiers_def sample_mappings_def)
  have "limit_evaluate sample_mappings limited_ws \<lparr>lr_tier = ''standard'', lr_expected_tokens = None,
      lr_expected_cost = None, lr_pricing_known = None\<rparr> limited_db = Inr (downgraded TIER_STANDARD TIER_ECONOMY)"
    using sample_limit_evaluate limit_evaluate_usages [of limited_db sample_db]
    by (simp add: sample_limit_request_def limited_db_def)
  with route sel show ?thesis
    by (simp add: gateway_invoke_def sample_gateway_def sample_settings_def sample_gateway_request_def
        gateway_call_def build_llm_def complete_with_metadata_def canonical_usage_metadata_def
        canonical_token_def gateway_record_def usage_record_def usage_row_def usage_identifier_def
        gateway_usage_input_def Let_def)
qed

theorem accounting_error_causes_witness:
  "\<exists>t m. sample_mappings t = Some m \<and>
     (\<exists>v \<in> {[], ''a'', tm_provider m, tm_model m}. py_strip v = [] \<or> 200 < length (py_strip v))"
proof -
  obtain d' where run: "gateway_invoke exact_table (\<lambda>_. HttpError) (\<lambda>_. 0) 7 sample_gateway limited_ws
     (sample_gateway_request\<lparr>gr_task_identifier := []\<rparr>) limited_db = (Inl (AiE AIInvocationAccountingError), d')"
    using sample_accounting_run by (metis prod.collapse)
  from accounting_error_causes [OF run] show ?thesis
    by (simp add: exact_table_def sample_gateway_def sample_settings_def sample_gateway_request_def)
qed

end
