(* ===== verification/Identity.thy ===== *)
theory Identity
  imports Samples
begin

text \<open>
  Users, memberships and workspaces: app/services/identity_memberships.py and workspaces.py.
  The SHA-256 of an integration key is the parameter \<open>sha256\<close>. Each \<open>utc_now()\<close> of a request
  reads the clock at its own call site.
\<close>

lemma find_append:
  "find P (xs @ ys) = (case find P xs of None \<Rightarrow> find P ys | Some x \<Rightarrow> Some x)"
  by (induction xs) auto

section \<open>Canonical forms\<close>

definition partition_at :: "string \<Rightarrow> string \<times> bool \<times> string" where
  "partition_at s = (takeWhile (\<lambda>c. c \<noteq> CHR ''@'') s, CHR ''@'' \<in> set s,
     tl (dropWhile (\<lambda>c. c \<noteq> CHR ''@'') s))"

definition normalize_user_email :: "string \<Rightarrow> error + string" where
  "normalize_user_email v =
     (let n = py_lower (py_strip v); (local, sep, domain) = partition_at n in
      if n = [] \<or> 320 < length n \<or> \<not> sep \<or> local = [] \<or> domain = [] \<or> CHR ''@'' \<in> set domain
         \<or> (\<exists>c \<in> set n. py_isspace c)
      then Inl (IdentityE UserIdentityValidationError) else Inr n)"

definition normalize_display_name :: "string option \<Rightarrow> error + string option" where
  "normalize_display_name v =
     (case v of None \<Rightarrow> Inr None
      | Some s \<Rightarrow>
          if py_strip s = [] then Inr None
          else if 200 < length (py_strip s) then Inl (IdentityE UserIdentityValidationError)
          else Inr (Some (py_strip s)))"

lemma normalize_user_email_idem:
  assumes "normalize_user_email v = Inr n"
  shows "normalize_user_email n = Inr n" and "n = py_lower (py_strip v)"
proof -
  show n: "n = py_lower (py_strip v)"
    using assms by (auto simp: normalize_user_email_def Let_def split: if_splits prod.splits)
  have "py_lower (py_strip n) = n" by (simp add: n py_strip_lower)
  with assms show "normalize_user_email n = Inr n"
    by (simp add: normalize_user_email_def n py_strip_lower)
qed

section \<open>Users and memberships\<close>

record principal =
  pl_user_id :: uuid
  pl_active :: bool

definition user_by_email :: "string \<Rightarrow> db \<Rightarrow> user option" where
  "user_by_email email d = find (\<lambda>u. us_email u = email) (users d)"

definition new_user :: "uuid \<Rightarrow> string \<Rightarrow> string option \<Rightarrow> clock \<Rightarrow> user" where
  "new_user k email name clk = \<lparr>us_id = k, us_email = email, us_display_name = name,
     us_active = True, us_created_at = utc (clk 0), us_updated_at = utc (clk 1)\<rparr>"

definition insert_user :: "user \<Rightarrow> db \<Rightarrow> db" where
  "insert_user u d = d\<lparr>users := users d @ [u]\<rparr>"

definition register_user :: "string \<Rightarrow> string option \<Rightarrow> clock \<Rightarrow> user op" where
  "register_user email name clk d =
     (case normalize_user_email email of
        Inl e \<Rightarrow> (Inl e, d)
      | Inr canonical \<Rightarrow>
          if user_by_email canonical d \<noteq> None then (Inl (IdentityE DuplicateUserEmailError), d)
          else case normalize_display_name name of
              Inl e \<Rightarrow> (Inl e, d)
            | Inr nm \<Rightarrow> let u = new_user (next_id d) canonical nm clk in (Inr u, take_id (insert_user u d)))"

definition get_user :: "uuid \<Rightarrow> db \<Rightarrow> error + user" where
  "get_user k d = (case get_user_row k d of None \<Rightarrow> Inl (IdentityE UserNotFoundError) | Some u \<Rightarrow> Inr u)"

definition get_user_by_email :: "string \<Rightarrow> db \<Rightarrow> error + user" where
  "get_user_by_email email d = bindE (normalize_user_email email) (\<lambda>canonical.
     case user_by_email canonical d of None \<Rightarrow> Inl (IdentityE UserNotFoundError) | Some u \<Rightarrow> Inr u)"

definition resolve_active_principal :: "uuid \<Rightarrow> db \<Rightarrow> error + principal" where
  "resolve_active_principal k d = bindE (get_user k d) (\<lambda>u.
     if \<not> us_active u then Inl (IdentityE InactiveUserError)
     else Inr \<lparr>pl_user_id = us_id u, pl_active = True\<rparr>)"

definition stored_workspace :: "uuid \<Rightarrow> db \<Rightarrow> error + workspace" where
  "stored_workspace k d =
     (case get_workspace_row k d of None \<Rightarrow> Inl (IdentityE WorkspaceNotFoundError) | Some w \<Rightarrow> Inr w)"

definition find_membership :: "uuid \<Rightarrow> uuid \<Rightarrow> db \<Rightarrow> workspace_member option" where
  "find_membership w u d = find (\<lambda>m. wm_workspace_id m = w \<and> wm_user_id m = u) (members d)"

definition validate_role :: "string \<Rightarrow> error + member_role" where
  "validate_role v = (case role_of_value v of
     None \<Rightarrow> Inl (IdentityE WorkspaceMemberRoleValidationError) | Some r \<Rightarrow> Inr r)"

definition insert_member :: "workspace_member \<Rightarrow> db \<Rightarrow> db" where
  "insert_member m d = d\<lparr>members := members d @ [m]\<rparr>"

definition add_membership :: "workspace \<Rightarrow> uuid \<Rightarrow> string \<Rightarrow> clock \<Rightarrow> workspace_member op" where
  "add_membership ws user_id role clk d =
     (case bindE (stored_workspace (ws_id ws) d) (\<lambda>w. bindE (get_user user_id d) (\<lambda>u.
            if \<not> us_active u then Inl (IdentityE InactiveUserError)
            else bindE (validate_role role) (\<lambda>r. Inr (w, u, r)))) of
        Inl e \<Rightarrow> (Inl e, d)
      | Inr (w, u, r) \<Rightarrow>
          if find_membership (ws_id w) (us_id u) d \<noteq> None
          then (Inl (IdentityE DuplicateWorkspaceMembershipError), d)
          else let m = \<lparr>wm_id = next_id d, wm_workspace_id = ws_id w, wm_user_id = us_id u, wm_role = r,
                        wm_active = True, wm_created_at = utc (clk 0)\<rparr>
            in (Inr m, take_id (insert_member m d)))"

definition resolve_active_membership :: "principal \<Rightarrow> workspace \<Rightarrow> db \<Rightarrow> error + workspace_member" where
  "resolve_active_membership p ws d =
     (if \<not> pl_active p then Inl (IdentityE InactiveUserError)
      else bindE (get_user (pl_user_id p) d) (\<lambda>u.
        if \<not> us_active u then Inl (IdentityE InactiveUserError)
        else bindE (stored_workspace (ws_id ws) d) (\<lambda>w.
          case find_membership (ws_id w) (us_id u) d of
            None \<Rightarrow> Inl (IdentityE WorkspaceMembershipNotFoundError)
          | Some m \<Rightarrow> if \<not> wm_active m then Inl (IdentityE InactiveWorkspaceMembershipError) else Inr m)))"

definition memberships_for_user :: "uuid \<Rightarrow> db \<Rightarrow> error + workspace_member list" where
  "memberships_for_user k d = bindE (get_user k d) (\<lambda>_.
     Inr (sort_key (\<lambda>m. dt_instant (wm_created_at m)) (filter (\<lambda>m. wm_user_id m = k) (members d))))"

definition memberships_for_workspace :: "workspace \<Rightarrow> db \<Rightarrow> error + workspace_member list" where
  "memberships_for_workspace ws d = bindE (stored_workspace (ws_id ws) d) (\<lambda>w.
     Inr (sort_key (\<lambda>m. dt_instant (wm_created_at m)) (filter (\<lambda>m. wm_workspace_id m = ws_id w) (members d))))"

definition deactivate_user :: "uuid \<Rightarrow> clock \<Rightarrow> user op" where
  "deactivate_user k clk d =
     (case get_user k d of
        Inl e \<Rightarrow> (Inl e, d)
      | Inr u \<Rightarrow> let u' = u\<lparr>us_active := False, us_updated_at := utc (clk 0)\<rparr> in (Inr u', save_user u' d))"

section \<open>Workspaces\<close>

definition workspace_by_slug_exact :: "string \<Rightarrow> db \<Rightarrow> workspace option" where
  "workspace_by_slug_exact slug d = find (\<lambda>w. ws_slug w = slug) (workspaces d)"

definition new_workspace :: "uuid \<Rightarrow> string \<Rightarrow> string \<Rightarrow> clock \<Rightarrow> workspace" where
  "new_workspace k slug name clk = \<lparr>ws_id = k, ws_slug = slug, ws_name = name, ws_active = True,
     ws_ai_invocation_limit = None, ws_ai_total_token_limit = None, ws_ai_estimated_spend_limit = None,
     ws_ai_permitted_model_tiers = None, ws_ai_model_tier_downgrade_mappings = [],
     ws_sales_instructions = None, ws_sales_preferred_language = None, ws_sales_preferred_script = None,
     ws_sales_preferred_tone = None, ws_created_at = utc (clk 0), ws_updated_at = utc (clk 1)\<rparr>"

definition insert_workspace :: "workspace \<Rightarrow> db \<Rightarrow> db" where
  "insert_workspace w d = d\<lparr>workspaces := workspaces d @ [w]\<rparr>"

lemma new_workspace_simps [simp]:
  "ws_id (new_workspace k slug name clk) = k" "ws_slug (new_workspace k slug name clk) = slug"
  "ws_active (new_workspace k slug name clk)"
  by (simp_all add: new_workspace_def)

definition owner_member :: "uuid \<Rightarrow> uuid \<Rightarrow> uuid \<Rightarrow> clock \<Rightarrow> workspace_member" where
  "owner_member k w u clk = \<lparr>wm_id = k, wm_workspace_id = w, wm_user_id = u, wm_role = OWNER,
     wm_active = True, wm_created_at = utc (clk 2)\<rparr>"

lemma owner_member_simps [simp]:
  "wm_workspace_id (owner_member k w u clk) = w" "wm_user_id (owner_member k w u clk) = u"
  "wm_role (owner_member k w u clk) = OWNER" "wm_active (owner_member k w u clk)"
  by (simp_all add: owner_member_def)

definition create_for_principal :: "string \<Rightarrow> string \<Rightarrow> principal \<Rightarrow> clock \<Rightarrow> workspace op" where
  "create_for_principal slug name p clk d =
     (case get_user_row (pl_user_id p) d of
        None \<Rightarrow> (Inl (IdentityE WorkspaceCreationPrincipalError), d)
      | Some u \<Rightarrow>
          if \<not> us_active u \<or> \<not> pl_active p then (Inl (IdentityE WorkspaceCreationPrincipalError), d)
          else if workspace_by_slug_exact slug d \<noteq> None then (Inl (IdentityE DuplicateWorkspaceSlugError), d)
          else let w = new_workspace (next_id d) slug name clk;
                   d1 = take_id (insert_workspace w d);
                   m = owner_member (next_id d1) (ws_id w) (pl_user_id p) clk
            in (Inr w, take_id (insert_member m d1)))"

definition get_workspace_by_slug :: "string \<Rightarrow> db \<Rightarrow> error + workspace" where
  "get_workspace_by_slug slug d =
     (case workspace_by_slug_exact (py_lower (py_strip slug)) d of
        None \<Rightarrow> Inl (IdentityE WorkspaceNotFoundError) | Some w \<Rightarrow> Inr w)"

definition require_active_workspace :: "string \<Rightarrow> db \<Rightarrow> error + workspace" where
  "require_active_workspace slug d = bindE (get_workspace_by_slug slug d) (\<lambda>w.
     if ws_active w then Inr w else Inl (IdentityE WorkspaceInactiveError))"

record integration_context =
  ic_account :: integration_account
  ic_workspace :: workspace

definition resolve_integration_account :: "(string \<Rightarrow> string) \<Rightarrow> string \<Rightarrow> db \<Rightarrow> error + integration_account" where
  "resolve_integration_account sha256 key d =
     (case find (\<lambda>a. ac_credential_hash a = sha256 key \<and> ac_active a) (accounts d) of
        None \<Rightarrow> Inl (IdentityE InvalidIntegrationContextError) | Some a \<Rightarrow> Inr a)"

definition resolve_integration_workspace_for_account :: "integration_account \<Rightarrow> db \<Rightarrow> error + workspace" where
  "resolve_integration_workspace_for_account a d =
     (case get_workspace_row (ac_workspace_id a) d of
        None \<Rightarrow> Inl (IdentityE InvalidIntegrationContextError)
      | Some w \<Rightarrow> if ws_active w then Inr w else Inl (IdentityE InvalidIntegrationContextError))"

definition resolve_integration_context :: "(string \<Rightarrow> string) \<Rightarrow> string \<Rightarrow> db \<Rightarrow> error + integration_context" where
  "resolve_integration_context sha256 key d =
     bindE (resolve_integration_account sha256 key d) (\<lambda>a.
     bindE (resolve_integration_workspace_for_account a d) (\<lambda>w.
     Inr \<lparr>ic_account = a, ic_workspace = w\<rparr>))"

definition resolve_integration_workspace :: "(string \<Rightarrow> string) \<Rightarrow> string \<Rightarrow> db \<Rightarrow> error + workspace" where
  "resolve_integration_workspace sha256 key d =
     bindE (resolve_integration_context sha256 key d) (\<lambda>c. Inr (ic_workspace c))"

end
