(* ===== verification/Authentication.thy ===== *)
theory Authentication
  imports Identity
begin

text \<open>
  Registration, login and access tokens: app/services/authentication.py with the routes of
  app/api/routes/auth.py. Argon2 (\<open>hash\<close> with its salt, \<open>verify\<close>), the JWT library
  (\<open>jwt_encode\<close>, \<open>jwt_decode\<close>) and the text form of a UUID (\<open>uuid_text\<close>, \<open>uuid_parse\<close>) are
  parameters; what the code relies on of them is stated by \<open>hasher_ok\<close>, \<open>jwt_ok\<close> and \<open>uuid_ok\<close>.
  An \<open>HTTPException\<close> that repeats the message of the exception it wraps has the empty detail.
\<close>

section \<open>Passwords\<close>

definition MIN_PASSWORD_LENGTH :: nat where "MIN_PASSWORD_LENGTH = 12"
definition MAX_PASSWORD_LENGTH :: nat where "MAX_PASSWORD_LENGTH = 1024"

definition validate_password :: "string \<Rightarrow> error + unit" where
  "validate_password p =
     (if p = [] then Inl (IdentityE PasswordPolicyError)
      else if length p < MIN_PASSWORD_LENGTH then Inl (IdentityE PasswordPolicyError)
      else if MAX_PASSWORD_LENGTH < length p then Inl (IdentityE PasswordPolicyError)
      else Inr ())"

type_synonym hasher = "nat \<Rightarrow> string \<Rightarrow> string"
type_synonym verifier = "string \<Rightarrow> string \<Rightarrow> bool"

definition hasher_ok :: "hasher \<Rightarrow> verifier \<Rightarrow> bool" where
  "hasher_ok hash verify = (\<forall>salt p q. verify (hash salt p) q \<longleftrightarrow> q = p)"

definition hash_password :: "hasher \<Rightarrow> nat \<Rightarrow> string \<Rightarrow> error + string" where
  "hash_password hash salt p = bindE (validate_password p) (\<lambda>_. Inr (hash salt p))"

definition credential_of :: "uuid \<Rightarrow> db \<Rightarrow> password_credential option" where
  "credential_of k d = find (\<lambda>c. pc_user_id c = k) (credentials d)"

definition insert_credential :: "password_credential \<Rightarrow> db \<Rightarrow> db" where
  "insert_credential c d = d\<lparr>credentials := credentials d @ [c]\<rparr>"

section \<open>Registration and login\<close>

definition register :: "hasher \<Rightarrow> nat \<Rightarrow> string \<Rightarrow> string \<Rightarrow> string option \<Rightarrow> clock \<Rightarrow> user op" where
  "register hash salt email password name clk d =
     (case bindE (normalize_user_email email) (\<lambda>canonical.
           bindE (normalize_display_name name) (\<lambda>nm.
           bindE (hash_password hash salt password) (\<lambda>h. Inr (canonical, nm, h)))) of
        Inl e \<Rightarrow> (Inl e, d)
      | Inr (canonical, nm, h) \<Rightarrow>
          if user_by_email canonical d \<noteq> None then (Inl (IdentityE DuplicateUserEmailError), d)
          else let u = new_user (next_id d) canonical nm clk; d1 = take_id (insert_user u d);
                   c = \<lparr>pc_id = next_id d1, pc_user_id = us_id u, pc_password_hash = h,
                        pc_created_at = utc (clk 2), pc_updated_at = utc (clk 3)\<rparr>
            in (Inr u, take_id (insert_credential c d1)))"

definition authenticate :: "verifier \<Rightarrow> string \<Rightarrow> string \<Rightarrow> db \<Rightarrow> error + user" where
  "authenticate verify email password d =
     (case normalize_user_email email of
        Inl _ \<Rightarrow> Inl (IdentityE InvalidCredentialsError)
      | Inr canonical \<Rightarrow>
          (case user_by_email canonical d of
             None \<Rightarrow> Inl (IdentityE InvalidCredentialsError)
           | Some u \<Rightarrow>
               if \<not> us_active u then Inl (IdentityE InvalidCredentialsError)
               else case credential_of (us_id u) d of
                   None \<Rightarrow> Inl (IdentityE InvalidCredentialsError)
                 | Some c \<Rightarrow> if verify (pc_password_hash c) password then Inr u
                     else Inl (IdentityE InvalidCredentialsError)))"

section \<open>Access tokens\<close>

record auth_settings =
  as_secret :: string
  as_expiration_seconds :: int
  as_issuer :: string

record claims =
  cl_sub :: string
  cl_iat :: int
  cl_exp :: int
  cl_iss :: string
  cl_jti :: string

type_synonym jwt_encoder = "claims \<Rightarrow> string \<Rightarrow> string"
type_synonym jwt_decoder = "string \<Rightarrow> string \<Rightarrow> string \<Rightarrow> int \<Rightarrow> claims option"

text \<open>The library signs with HS256 and accepts exactly the unexpired tokens of the issuer; its
  times are whole seconds, the current time is in microseconds.\<close>

definition jwt_ok :: "jwt_encoder \<Rightarrow> jwt_decoder \<Rightarrow> bool" where
  "jwt_ok enc deco = (\<forall>c secret iss now. deco (enc c secret) secret iss now =
     (if cl_iss c = iss \<and> now < seconds (cl_exp c) \<and> seconds (cl_iat c) \<le> now then Some c else None))"

definition uuid_ok :: "(uuid \<Rightarrow> string) \<Rightarrow> (string \<Rightarrow> uuid option) \<Rightarrow> bool" where
  "uuid_ok uuid_text uuid_parse = (\<forall>k. uuid_parse (uuid_text k) = Some k)"

definition token_secret :: "auth_settings \<Rightarrow> error + string" where
  "token_secret st = (if as_secret st = [] then Inl (IdentityE AuthenticationConfigurationError)
     else Inr (as_secret st))"

definition token_claims :: "(uuid \<Rightarrow> string) \<Rightarrow> auth_settings \<Rightarrow> user \<Rightarrow> string \<Rightarrow> int \<Rightarrow> claims" where
  "token_claims uuid_text st u jti now =
     \<lparr>cl_sub = uuid_text (us_id u), cl_iat = now div 1000000,
      cl_exp = (now + seconds (as_expiration_seconds st)) div 1000000,
      cl_iss = as_issuer st, cl_jti = jti\<rparr>"

definition issue_access_token ::
  "jwt_encoder \<Rightarrow> (uuid \<Rightarrow> string) \<Rightarrow> auth_settings \<Rightarrow> user \<Rightarrow> string \<Rightarrow> int \<Rightarrow> error + string" where
  "issue_access_token enc uuid_text st u jti now =
     (if \<not> us_active u then Inl (IdentityE InvalidCredentialsError)
      else bindE (token_secret st) (\<lambda>secret. Inr (enc (token_claims uuid_text st u jti now) secret)))"

definition resolve_principal_from_access_token ::
  "jwt_decoder \<Rightarrow> (string \<Rightarrow> uuid option) \<Rightarrow> auth_settings \<Rightarrow> string \<Rightarrow> int \<Rightarrow> db \<Rightarrow> error + principal" where
  "resolve_principal_from_access_token deco uuid_parse st token now d =
     bindE (token_secret st) (\<lambda>secret.
       case deco token secret (as_issuer st) now of
         None \<Rightarrow> Inl (IdentityE InvalidAccessTokenError)
       | Some c \<Rightarrow>
           (case uuid_parse (cl_sub c) of
              None \<Rightarrow> Inl (IdentityE InvalidAccessTokenError)
            | Some k \<Rightarrow>
                (case resolve_active_principal k d of
                   Inl _ \<Rightarrow> Inl (IdentityE InvalidAccessTokenError)
                 | Inr p \<Rightarrow> Inr p)))"

section \<open>Routes\<close>

definition route_register :: "hasher \<Rightarrow> nat \<Rightarrow> string \<Rightarrow> string \<Rightarrow> string option \<Rightarrow> clock \<Rightarrow> user op" where
  "route_register hash salt email password name clk d =
     (case register hash salt email password name clk d of
        (Inl e, d') \<Rightarrow>
          (if e = IdentityE PasswordPolicyError \<or> e = IdentityE UserIdentityValidationError
           then (Inl (HTTPException 422 []), d')
           else if e = IdentityE DuplicateUserEmailError
           then (Inl (HTTPException 409 ''A user with this email already exists''), d')
           else (Inl e, d'))
      | r \<Rightarrow> r)"

definition route_login ::
  "verifier \<Rightarrow> jwt_encoder \<Rightarrow> (uuid \<Rightarrow> string) \<Rightarrow> auth_settings \<Rightarrow> string \<Rightarrow> string \<Rightarrow> string \<Rightarrow> int \<Rightarrow> db
   \<Rightarrow> error + (string \<times> int)" where
  "route_login verify enc uuid_text st email password jti now d =
     (case bindE (authenticate verify email password d) (\<lambda>u. issue_access_token enc uuid_text st u jti now) of
        Inl e \<Rightarrow> if e = IdentityE InvalidCredentialsError
          then Inl (HTTPException 401 ''Invalid credentials'') else Inl e
      | Inr token \<Rightarrow> Inr (token, as_expiration_seconds st))"

definition route_me :: "principal \<Rightarrow> db \<Rightarrow> error + user" where
  "route_me p d = (case get_user_row (pl_user_id p) d of None \<Rightarrow> Inl AssertionError | Some u \<Rightarrow> Inr u)"

section \<open>The identity invariant\<close>

text \<open>What the identity operations keep: fresh identifiers, one user per canonical e-mail, one
  credential per user and one membership per user and workspace.\<close>

definition identity_inv :: "db \<Rightarrow> bool" where
  "identity_inv d =
     (distinct (map us_id (users d)) \<and> distinct (map us_email (users d)) \<and>
      distinct (map pc_user_id (credentials d)) \<and>
      distinct (map ws_id (workspaces d)) \<and> distinct (map ws_slug (workspaces d)) \<and>
      distinct (map (\<lambda>m. (wm_workspace_id m, wm_user_id m)) (members d)) \<and>
      (\<forall>u \<in> set (users d). us_id u < next_id d \<and> normalize_user_email (us_email u) = Inr (us_email u)) \<and>
      (\<forall>c \<in> set (credentials d). pc_user_id c < next_id d) \<and>
      (\<forall>w \<in> set (workspaces d). ws_id w < next_id d) \<and>
      (\<forall>m \<in> set (members d). wm_workspace_id m < next_id d))"


inductive identity_step :: "db \<Rightarrow> db \<Rightarrow> bool" where
  registered: "register hash salt email password name clk d = (res, d') \<Longrightarrow> identity_step d d'"
| user_added: "register_user email name clk d = (res, d') \<Longrightarrow> identity_step d d'"
| user_deactivated: "deactivate_user k clk d = (res, d') \<Longrightarrow> identity_step d d'"
| member_added: "add_membership ws k role clk d = (mres, d') \<Longrightarrow> identity_step d d'"
| workspace_created: "create_for_principal slug name p clk d = (wres, d') \<Longrightarrow> identity_step d d'"

lemma find_None_key: "find (\<lambda>x. f x = k) xs = None \<longleftrightarrow> k \<notin> f ` set xs"
  by (auto simp: find_None_iff)

lemma identity_inv_insert_user:
  assumes "identity_inv d" and "user_by_email e d = None" and "normalize_user_email v = Inr e"
  shows "identity_inv (take_id (insert_user (new_user (next_id d) e nm clk) d))"
proof -
  from assms(2) have "e \<notin> us_email ` set (users d)" by (simp add: user_by_email_def find_None_key)
  moreover have "next_id d \<notin> us_id ` set (users d)" using assms(1) by (auto simp: identity_inv_def)
  ultimately show ?thesis
    using assms(1) normalize_user_email_idem(1) [OF assms(3)]
    by (auto simp: identity_inv_def insert_user_def take_id_def new_user_def)
qed

lemma identity_inv_insert_credential:
  assumes "identity_inv d" and "pc_user_id c \<notin> pc_user_id ` set (credentials d)" and "pc_user_id c < next_id d"
  shows "identity_inv (take_id (insert_credential c d))"
  using assms by (auto simp: identity_inv_def insert_credential_def take_id_def)

lemma identity_inv_insert_member:
  assumes "identity_inv d" and "find_membership (wm_workspace_id m) (wm_user_id m) d = None"
    and "wm_workspace_id m < next_id d"
  shows "identity_inv (take_id (insert_member m d))"
proof -
  have "(wm_workspace_id m, wm_user_id m) \<notin> (\<lambda>m. (wm_workspace_id m, wm_user_id m)) ` set (members d)"
    using assms(2) by (auto simp: find_membership_def find_None_iff)
  with assms(1,3) show ?thesis
    by (auto simp: identity_inv_def insert_member_def take_id_def)
qed

lemma identity_inv_insert_workspace:
  assumes "identity_inv d" and "workspace_by_slug_exact slug d = None"
  shows "identity_inv (take_id (insert_workspace (new_workspace (next_id d) slug name clk) d))"
proof -
  have "slug \<notin> ws_slug ` set (workspaces d)"
    using assms(2) by (simp add: workspace_by_slug_exact_def find_None_key)
  moreover have "next_id d \<notin> ws_id ` set (workspaces d)" using assms(1) by (auto simp: identity_inv_def)
  ultimately show ?thesis using assms(1)
    by (auto simp: identity_inv_def insert_workspace_def take_id_def new_workspace_def)
qed

lemma find_membership_new_workspace:
  "identity_inv d \<Longrightarrow> find_membership (next_id d) k d = None"
  by (auto simp: identity_inv_def find_membership_def find_None_iff)

lemma find_membership_frames [simp]:
  "find_membership w k (take_id d) = find_membership w k d"
  "find_membership w k (insert_workspace x d) = find_membership w k d"
  by (simp_all add: find_membership_def take_id_def insert_workspace_def)

lemma credential_fresh: "identity_inv d \<Longrightarrow> next_id d \<notin> pc_user_id ` set (credentials d)"
  by (auto simp: identity_inv_def)

lemma register_SomeD:
  assumes "register hash salt email password name clk d = (Inr u, d')"
  obtains e nm h c where "normalize_user_email email = Inr e" "user_by_email e d = None"
    "validate_password password = Inr ()"
    "u = new_user (next_id d) e nm clk" "pc_user_id c = next_id d" "pc_password_hash c = hash salt password"
    "d' = take_id (insert_credential c (take_id (insert_user u d)))"
proof -
  from assms obtain e nm where e: "normalize_user_email email = Inr e"
    and n: "normalize_display_name name = Inr nm" and p: "validate_password password = Inr ()"
    by (auto simp: register_def hash_password_def bindE_Inl_iff bindE_Inr_iff split: sum.splits if_splits prod.splits)
  with assms show thesis
    by (intro that) (auto simp: register_def hash_password_def Let_def new_user_def split: if_splits)
qed

lemma identity_step_inv: "identity_step d d' \<Longrightarrow> identity_inv d \<Longrightarrow> identity_inv d'"
proof (induction rule: identity_step.induct)
  case (registered hash salt email password name clk d res d')
  show ?case
  proof (cases res)
    case (Inl e)
    with registered show ?thesis
      by (auto simp: register_def Let_def split: sum.splits prod.splits if_splits)
  next
    case (Inr u)
    with registered obtain e nm c where r: "normalize_user_email email = Inr e" "user_by_email e d = None"
      "u = new_user (next_id d) e nm clk" "pc_user_id c = next_id d"
      "d' = take_id (insert_credential c (take_id (insert_user u d)))"
      by (auto elim: register_SomeD)
    have "identity_inv (take_id (insert_user u d))"
      unfolding r(3) by (rule identity_inv_insert_user [OF registered(2) r(2,1)])
    from identity_inv_insert_credential [OF this, of c] credential_fresh [OF registered(2)] r(4,5)
    show ?thesis by (simp add: take_id_def insert_user_def)
  qed
next
  case (user_added email name clk d res d')
  then show ?case
    by (auto simp: register_user_def Let_def split: sum.splits if_splits
        intro!: identity_inv_insert_user)
next
  case (user_deactivated k clk d res d')
  show ?case
  proof (cases "get_user_row k d")
    case None
    with user_deactivated show ?thesis by (simp add: deactivate_user_def get_user_def)
  next
    case (Some u)
    then have u: "u \<in> set (users d)" "us_id u = k"
      by (auto simp: get_user_row_def dest: row_find_SomeD)
    define v where "v = u\<lparr>us_active := False, us_updated_at := utc (clk 0)\<rparr>"
    have d': "d' = save_user v d"
      using user_deactivated(1) Some by (simp add: deactivate_user_def get_user_def v_def Let_def)
    have "map us_email (row_update us_id v (users d)) = map us_email (users d)"
      by (rule row_update_frame)
        (use user_deactivated(2) u in \<open>auto simp: v_def identity_inv_def distinct_map dest: inj_onD\<close>)
    moreover have "us_id x < next_id d \<and> normalize_user_email (us_email x) = Inr (us_email x)"
      if "x \<in> set (row_update us_id v (users d))" for x
      using row_update_in_set [OF that] user_deactivated(2) u by (auto simp: v_def identity_inv_def)
    ultimately show ?thesis using user_deactivated(2) by (simp add: d' identity_inv_def save_user_def)
  qed
next
  case (member_added ws k role clk d mres d')
  then show ?case
  proof (cases "bindE (stored_workspace (ws_id ws) d) (\<lambda>w. bindE (get_user k d) (\<lambda>u.
            if \<not> us_active u then Inl (IdentityE InactiveUserError)
            else bindE (validate_role role) (\<lambda>r. Inr (w, u, r))))")
    case (Inr x)
    obtain w u r where x: "x = (w, u, r)" by (cases x)
    from Inr have "stored_workspace (ws_id ws) d = Inr w" by (auto simp: x bindE_Inr_iff split: if_splits)
    then have "w \<in> set (workspaces d)"
      by (auto simp: stored_workspace_def get_workspace_row_def split: option.splits dest: row_find_SomeD)
    then have "ws_id w < next_id d" using member_added(2) by (auto simp: identity_inv_def)
    with member_added Inr x show ?thesis
      by (auto simp: add_membership_def Let_def split: if_splits intro!: identity_inv_insert_member)
  qed (auto simp: add_membership_def)
next
  case (workspace_created slug name p clk d wres d')
  show ?case
  proof (cases "\<exists>u. get_user_row (pl_user_id p) d = Some u \<and> us_active u \<and> pl_active p \<and> workspace_by_slug_exact slug d = None")
    case False
    with workspace_created show ?thesis
      by (auto simp: create_for_principal_def split: option.splits if_splits)
  next
    case True
    let ?w = "new_workspace (next_id d) slug name clk"
    have inv: "identity_inv (take_id (insert_workspace ?w d))"
      by (rule identity_inv_insert_workspace) (use workspace_created(2) True in auto)
    let ?m = "owner_member (next_id (take_id (insert_workspace ?w d))) (next_id d) (pl_user_id p) clk"
    have d': "d' = take_id (insert_member ?m (take_id (insert_workspace ?w d)))"
      using True workspace_created(1) by (auto simp: create_for_principal_def Let_def)
    show ?thesis unfolding d'
    proof (rule identity_inv_insert_member [OF inv])
      show "find_membership (wm_workspace_id ?m) (wm_user_id ?m) (take_id (insert_workspace ?w d)) = None"
        by (simp add: find_membership_new_workspace [OF workspace_created(2)])
      show "wm_workspace_id ?m < next_id (take_id (insert_workspace ?w d))"
        by (simp add: take_id_def insert_workspace_def)
    qed
  qed
qed

interpretation idst: invariant_system identity_step identity_inv
  by unfold_locales (rule identity_step_inv)


section \<open>Login and tokens\<close>

text \<open>C24: A registered user can log in with exactly the password of the registration, under any
  spelling of the e-mail address with the same canonical form, and with no other password.\<close>

theorem register_login:
  assumes ok: "hasher_ok hash verify" and inv: "identity_inv d"
    and reg: "register hash salt email password name clk d = (Inr u, d')"
    and same: "normalize_user_email email' = normalize_user_email email"
  shows "authenticate verify email' q d' = (if q = password then Inr u else Inl (IdentityE InvalidCredentialsError))"
proof -
  from reg obtain e nm c where r: "normalize_user_email email = Inr e" "user_by_email e d = None"
    "u = new_user (next_id d) e nm clk" "pc_user_id c = next_id d" "pc_password_hash c = hash salt password"
    "d' = take_id (insert_credential c (take_id (insert_user u d)))"
    by (auto elim: register_SomeD)
  have "user_by_email e d' = Some u"
    using r(2) by (simp add: r(6) user_by_email_def insert_credential_def take_id_def insert_user_def
        find_append r(3) new_user_def)
  moreover have "credential_of (next_id d) d = None"
    using credential_fresh [OF inv] by (simp add: credential_of_def find_None_key)
  then have "credential_of (us_id u) d' = Some c"
    using r(4) by (simp add: r(6) r(3) credential_of_def insert_credential_def take_id_def insert_user_def
        find_append new_user_def)
  moreover have "us_active u" by (simp add: r(3) new_user_def)
  ultimately show ?thesis
    using ok same r(1,5) by (simp add: authenticate_def hasher_ok_def)
qed

definition plain_hash :: hasher where "plain_hash salt p = p"
definition plain_verify :: verifier where "plain_verify h p = (h = p)"

lemma plain_hasher_ok: "hasher_ok plain_hash plain_verify"
  by (auto simp: hasher_ok_def plain_hash_def plain_verify_def)

lemma sample_email: "normalize_user_email '' A@b '' = Inr ''a@b''" "normalize_user_email ''a@B'' = Inr ''a@b''"
  by code_simp+

theorem register_login_witness:
  "\<exists>u d'. register plain_hash 0 '' A@b '' ''correct-horse'' None (\<lambda>_. 0) empty_db = (Inr u, d') \<and>
     authenticate plain_verify ''a@B'' ''correct-horse'' d' = Inr u"
proof -
  have inv: "identity_inv empty_db" by (simp add: identity_inv_def empty_db_def)
  obtain u d' where reg: "register plain_hash 0 '' A@b '' ''correct-horse'' None (\<lambda>_. 0) empty_db = (Inr u, d')"
    by (simp add: register_def sample_email normalize_display_name_def hash_password_def validate_password_def
        MIN_PASSWORD_LENGTH_def MAX_PASSWORD_LENGTH_def user_by_email_def empty_db_def Let_def)
  from register_login [OF plain_hasher_ok inv reg, of "''a@B''" "''correct-horse''"] reg show ?thesis
    by (simp add: sample_email)
qed

text \<open>C25: An access token stands for its user from its issue until its expiry and no longer, and only
  while the stored user is active: deactivating the user refuses every token issued before.\<close>

theorem token_stands_for_active_user:
  assumes jwt: "jwt_ok enc deco" and uuid: "uuid_ok uuid_text uuid_parse"
    and issue: "issue_access_token enc uuid_text st u jti t1 = Inr token" and later: "t1 \<le> t2"
  shows "resolve_principal_from_access_token deco uuid_parse st token t2 d =
    (if t2 < seconds ((t1 + seconds (as_expiration_seconds st)) div 1000000) \<and>
        (\<exists>x. get_user_row (us_id u) d = Some x \<and> us_active x)
     then Inr \<lparr>pl_user_id = us_id u, pl_active = True\<rparr>
     else Inl (IdentityE InvalidAccessTokenError))"
proof -
  from issue have secret: "token_secret st = Inr (as_secret st)"
    and token: "token = enc (token_claims uuid_text st u jti t1) (as_secret st)"
    by (auto simp: issue_access_token_def token_secret_def split: if_splits)
  have "seconds (t1 div 1000000) \<le> t2" using later by (simp add: seconds_def)
  with jwt have deco: "deco token (as_secret st) (as_issuer st) t2 =
      (if t2 < seconds ((t1 + seconds (as_expiration_seconds st)) div 1000000)
       then Some (token_claims uuid_text st u jti t1) else None)"
    by (simp add: jwt_ok_def token token_claims_def)
  have parse: "uuid_parse (cl_sub (token_claims uuid_text st u jti t1)) = Some (us_id u)"
    using uuid by (simp add: uuid_ok_def token_claims_def)
  show ?thesis
    by (auto simp: resolve_principal_from_access_token_def secret deco parse resolve_active_principal_def
        get_user_def get_user_row_def split: option.splits dest: row_find_SomeD)
qed


text \<open>A codec that keeps the promise of the JWT library: fields with their length before them.\<close>

definition put_field :: "string \<Rightarrow> string \<Rightarrow> string" where
  "put_field s r = replicate (length s) CHR ''1'' @ CHR ''0'' # s @ r"

definition get_field :: "string \<Rightarrow> string \<times> string" where
  "get_field t = (let n = length (takeWhile (\<lambda>c. c = CHR ''1'') t); r = drop (Suc n) t in (take n r, drop n r))"

lemma get_put_field [simp]: "get_field (put_field s r) = (s, r)"
proof -
  have "takeWhile (\<lambda>c. c = CHR ''1'') (put_field s r) = replicate (length s) CHR ''1''"
    unfolding put_field_def by (subst takeWhile_append2) auto
  then show ?thesis by (simp add: get_field_def put_field_def Let_def)
qed

definition unary :: "int \<Rightarrow> string" where
  "unary i = (if i < 0 then CHR ''-'' else CHR ''+'') # replicate (nat \<bar>i\<bar>) CHR ''x''"

definition unary_value :: "string \<Rightarrow> int" where
  "unary_value s = (if s \<noteq> [] \<and> hd s = CHR ''-'' then - int (length (tl s)) else int (length (tl s)))"

lemma unary_value [simp]: "unary_value (unary i) = i"
  by (simp add: unary_def unary_value_def)

definition plain_encode :: jwt_encoder where
  "plain_encode c secret = put_field (cl_sub c) (put_field (unary (cl_iat c)) (put_field (unary (cl_exp c))
     (put_field (cl_iss c) (put_field (cl_jti c) secret))))"

definition plain_decode :: jwt_decoder where
  "plain_decode token secret iss now =
     (let (sub, r1) = get_field token; (iat, r2) = get_field r1; (ex, r3) = get_field r2;
          (is, r4) = get_field r3; (jti, s) = get_field r4;
          c = \<lparr>cl_sub = sub, cl_iat = unary_value iat, cl_exp = unary_value ex, cl_iss = is, cl_jti = jti\<rparr>
      in if s = secret \<and> is = iss \<and> now < seconds (cl_exp c) \<and> seconds (cl_iat c) \<le> now then Some c else None)"

lemma plain_jwt_ok: "jwt_ok plain_encode plain_decode"
  by (simp add: jwt_ok_def plain_encode_def plain_decode_def)

definition sample_auth :: auth_settings where
  "sample_auth = \<lparr>as_secret = ''s'', as_expiration_seconds = 1800, as_issuer = ''i''\<rparr>"

theorem token_stands_for_active_user_witness:
  "resolve_principal_from_access_token plain_decode (\<lambda>s. Some (length s)) sample_auth
     (plain_encode (token_claims (\<lambda>k. replicate k CHR ''x'') sample_auth sample_user ''j'' 0) ''s'') 5 sample_db
   = Inr \<lparr>pl_user_id = 2, pl_active = True\<rparr>"
proof -
  have uuid: "uuid_ok (\<lambda>k. replicate k CHR ''x'') (\<lambda>s. Some (length s))" by (simp add: uuid_ok_def)
  have "issue_access_token plain_encode (\<lambda>k. replicate k CHR ''x'') sample_auth sample_user ''j'' 0
      = Inr (plain_encode (token_claims (\<lambda>k. replicate k CHR ''x'') sample_auth sample_user ''j'' 0) ''s'')"
    by (simp add: issue_access_token_def sample_user_def token_secret_def sample_auth_def)
  from token_stands_for_active_user [OF plain_jwt_ok uuid this, of 5 sample_db] show ?thesis
    by (simp add: sample_auth_def seconds_def sample_defs get_user_row_def)
qed

end
