(* ===== verification/Workspace_Config.thy ===== *)
theory Workspace_Config
  imports Identity
begin

text \<open>
  The Sales configuration of a workspace (app/services/workspaces.py): the normal form of its
  instructions, with the search for lines that assign a credential, and the services that
  replace and clear the instructions and set the communication defaults.
\<close>

section \<open>Line ends\<close>

text \<open>\<open>value.replace("\r\n", "\n").replace("\r", "\n")\<close>.\<close>

abbreviation CR :: char where "CR \<equiv> CHR 0x0D"
abbreviation LF :: char where "LF \<equiv> CHR 0x0A"

fun replace_crlf :: "string \<Rightarrow> string" where
  "replace_crlf [] = []"
| "replace_crlf [c] = [c]"
| "replace_crlf (c # e # s) = (if c = CR \<and> e = LF then LF # replace_crlf s else c # replace_crlf (e # s))"

definition replace_cr :: "string \<Rightarrow> string" where
  "replace_cr s = map (\<lambda>c. if c = CR then LF else c) s"

definition unix_newlines :: "string \<Rightarrow> string" where
  "unix_newlines s = replace_cr (replace_crlf s)"

lemma replace_crlf_no_cr: "CR \<notin> set s \<Longrightarrow> replace_crlf s = s"
  by (induction s rule: replace_crlf.induct) auto

lemma unix_newlines_no_cr: "CR \<notin> set (unix_newlines s)"
  by (auto simp: unix_newlines_def replace_cr_def)

lemma unix_newlines_id: "CR \<notin> set s \<Longrightarrow> unix_newlines s = s"
  by (auto simp: unix_newlines_def replace_cr_def replace_crlf_no_cr intro!: map_idI)

lemma set_py_strip: "set (py_strip s) \<subseteq> set s"
  by (auto simp: py_strip_def dest!: set_dropWhileD)

section \<open>Credential assignments\<close>

fun drop_prefix :: "string \<Rightarrow> string \<Rightarrow> string option" where
  "drop_prefix [] s = Some s"
| "drop_prefix (p # ps) [] = None"
| "drop_prefix (p # ps) (c # s) = (if p = c then drop_prefix ps s else None)"

text \<open>The texts the alternatives of the pattern accept, in lower case.\<close>

definition CREDENTIAL_WORDS :: "string list" where
  "CREDENTIAL_WORDS = [''apikey'', ''api_key'', ''api key'', ''api-key'', ''password'', ''secret'',
     ''accesstoken'', ''access_token'', ''access token'', ''access-token'', ''authorization'']"

text \<open>The pattern at the start of a line: white space, a credential word in any case, white space,
  and a colon or an equals sign. White space may run over line ends.\<close>

definition credential_at :: "string \<Rightarrow> bool" where
  "credential_at s =
     (let t = dropWhile py_isspace (py_lower s) in
      list_ex (\<lambda>w. case drop_prefix w t of None \<Rightarrow> False
        | Some r \<Rightarrow> (case dropWhile py_isspace r of [] \<Rightarrow> False
            | c # _ \<Rightarrow> c = CHR '':'' \<or> c = CHR ''='')) CREDENTIAL_WORDS)"

fun credential_after_newline :: "string \<Rightarrow> bool" where
  "credential_after_newline [] = False"
| "credential_after_newline (c # s) = ((c = LF \<and> credential_at s) \<or> credential_after_newline s)"

definition credential_assignment :: "string \<Rightarrow> bool" where
  "credential_assignment s = (credential_at s \<or> credential_after_newline s)"

section \<open>The normal form of instructions\<close>

definition MAX_WORKSPACE_SALES_INSTRUCTIONS_LENGTH :: nat where
  "MAX_WORKSPACE_SALES_INSTRUCTIONS_LENGTH = 4000"

definition unsupported_control :: "char \<Rightarrow> bool" where
  "unsupported_control c = ((of_char c :: nat) < 32 \<and> c \<noteq> LF \<and> c \<noteq> CHR 0x09)"

definition normalize_sales_instructions :: "string \<Rightarrow> error + string option" where
  "normalize_sales_instructions v =
     (let n = py_strip (unix_newlines v); err = IdentityE WorkspaceSalesInstructionsValidationError in
      if list_ex unsupported_control n then Inl err
      else if n = [] then Inr None
      else if MAX_WORKSPACE_SALES_INSTRUCTIONS_LENGTH < length n then Inl err
      else if credential_assignment n then Inl err
      else Inr (Some n))"

definition replace_instructions :: "workspace \<Rightarrow> string \<Rightarrow> clock \<Rightarrow> workspace op" where
  "replace_instructions ws v clk d =
     (case normalize_sales_instructions v of
        Inl e \<Rightarrow> (Inl e, d)
      | Inr n \<Rightarrow> let w = ws\<lparr>ws_sales_instructions := n, ws_updated_at := utc (clk 0)\<rparr> in (Inr w, save_workspace w d))"

definition clear_instructions :: "workspace \<Rightarrow> clock \<Rightarrow> workspace op" where
  "clear_instructions ws clk d =
     (let w = ws\<lparr>ws_sales_instructions := None, ws_updated_at := utc (clk 0)\<rparr> in (Inr w, save_workspace w d))"

definition update_communication ::
  "workspace \<Rightarrow> sales_language option \<Rightarrow> writing_script option \<Rightarrow> sales_tone option \<Rightarrow> clock \<Rightarrow> workspace op" where
  "update_communication ws lang scr tone clk d =
     (let w = ws\<lparr>ws_sales_preferred_language := lang, ws_sales_preferred_script := scr,
                 ws_sales_preferred_tone := tone, ws_updated_at := utc (clk 0)\<rparr>
      in (Inr w, save_workspace w d))"

text \<open>C23: Stored instructions are in normal form: normalising what \<open>replace\<close> accepts changes nothing,
  and the result is not empty, has no white space at its ends, no carriage return or other control
  character, at most 4000 characters, and no line that assigns a credential.\<close>

theorem instructions_normal_form:
  assumes "normalize_sales_instructions v = Inr (Some n)"
  shows "normalize_sales_instructions n = Inr (Some n) \<and> n \<noteq> [] \<and> py_strip n = n \<and>
    CR \<notin> set n \<and> list_all (\<lambda>c. \<not> unsupported_control c) n \<and> length n \<le> 4000 \<and>
    \<not> credential_at n \<and> (\<forall>a b. n = a @ LF # b \<longrightarrow> \<not> credential_at b)"
proof -
  from assms have n: "n = py_strip (unix_newlines v)" and c: "\<not> list_ex unsupported_control n"
    and ne: "n \<noteq> []" and len: "length n \<le> MAX_WORKSPACE_SALES_INSTRUCTIONS_LENGTH"
    and cred: "\<not> credential_assignment n"
    by (auto simp: normalize_sales_instructions_def Let_def split: if_splits)
  have cr: "CR \<notin> set n"
    using set_py_strip [of "unix_newlines v"] unix_newlines_no_cr [of v] by (auto simp: n)
  have strip: "py_strip n = n" by (simp add: n)
  have "credential_after_newline (a @ LF # b)" if "credential_at b" for a b
    using that by (induction a) auto
  with cred have "\<forall>a b. n = a @ LF # b \<longrightarrow> \<not> credential_at b" by (auto simp: credential_assignment_def)
  with c ne len cred cr strip show ?thesis
    by (auto simp: normalize_sales_instructions_def unix_newlines_id credential_assignment_def
        list_ex_iff list_all_iff MAX_WORKSPACE_SALES_INSTRUCTIONS_LENGTH_def)
qed

theorem instructions_normal_form_witness:
  "normalize_sales_instructions ''be kind'' = Inr (Some ''be kind'') \<and> CR \<notin> set ''be kind''"
proof -
  have "normalize_sales_instructions '' be kind'' = Inr (Some ''be kind'')"
    by code_simp
  from instructions_normal_form [OF this] show ?thesis by simp
qed

end
