(* ===== verification/Access.thy ===== *)
theory Access
  imports Authentication Rbac Workspace_Config Approvals
begin

text \<open>
  The access layer of the API, app/api/dependencies.py: the bearer principal, the workspace
  context of a human request, its permissions, the actors handed to the services, and the
  routes of app/api/routes/workspaces.py on top of them.
\<close>

section \<open>Human access\<close>

definition bearer_error :: error where
  "bearer_error = HTTPException 401 ''Invalid bearer authentication''"

definition workspace_not_found_error :: error where
  "workspace_not_found_error = HTTPException 404 ''Workspace not found''"

definition permission_denied_error :: error where
  "permission_denied_error = HTTPException 403 ''Insufficient workspace permission''"

text \<open>The parsed \<open>Authorization\<close> header: its scheme and credentials, if it has that form.\<close>

type_synonym bearer = "(string \<times> string) option"

definition get_authenticated_principal ::
  "jwt_decoder \<Rightarrow> (string \<Rightarrow> uuid option) \<Rightarrow> auth_settings \<Rightarrow> bearer \<Rightarrow> int \<Rightarrow> db \<Rightarrow> error + principal" where
  "get_authenticated_principal deco uuid_parse st header now d =
     (case header of
        None \<Rightarrow> Inl bearer_error
      | Some (scheme, token) \<Rightarrow>
          if py_lower scheme \<noteq> ''bearer'' then Inl bearer_error
          else case resolve_principal_from_access_token deco uuid_parse st token now d of
              Inl e \<Rightarrow> if e = IdentityE InvalidAccessTokenError then Inl bearer_error else Inl e
            | Inr p \<Rightarrow> Inr p)"

record workspace_context =
  cx_principal :: principal
  cx_workspace :: workspace
  cx_membership :: workspace_member

definition resolve_workspace_context ::
  "principal \<Rightarrow> string \<Rightarrow> bool \<Rightarrow> db \<Rightarrow> error + workspace_context" where
  "resolve_workspace_context p slug require_active d =
     (case bindE (get_workspace_by_slug slug d) (\<lambda>w.
           bindE (resolve_active_membership p w d) (\<lambda>m. Inr (w, m))) of
        Inl e \<Rightarrow>
          (if e = IdentityE WorkspaceNotFoundError \<or> e = IdentityE WorkspaceMembershipNotFoundError
              \<or> e = IdentityE InactiveWorkspaceMembershipError then Inl workspace_not_found_error
           else if e = IdentityE UserNotFoundError \<or> e = IdentityE InactiveUserError then Inl bearer_error
           else Inl e)
      | Inr (w, m) \<Rightarrow>
          if require_active \<and> \<not> ws_active w
          then Inl (HTTPException 409 (''Workspace '' @ [CHR 0x27] @ ws_slug w @ [CHR 0x27] @ '' is inactive''))
          else Inr \<lparr>cx_principal = p, cx_workspace = w, cx_membership = m\<rparr>)"

definition authorize_context :: "workspace_context \<Rightarrow> workspace_permission \<Rightarrow> error + unit" where
  "authorize_context cx permission =
     (case require_permission (role_value (wm_role (cx_membership cx))) permission of
        Inl e \<Rightarrow> if e = IdentityE WorkspacePermissionDeniedError then Inl permission_denied_error else Inl e
      | Inr u \<Rightarrow> Inr u)"

text \<open>The dependencies of one endpoint: bearer, context, permission, in the order FastAPI solves them.\<close>

definition authorize ::
  "jwt_decoder \<Rightarrow> (string \<Rightarrow> uuid option) \<Rightarrow> auth_settings \<Rightarrow> int \<Rightarrow> bearer \<Rightarrow> string \<Rightarrow> bool
   \<Rightarrow> workspace_permission \<Rightarrow> db \<Rightarrow> error + workspace_context" where
  "authorize deco uuid_parse st now header slug require_active permission d =
     bindE (get_authenticated_principal deco uuid_parse st header now d) (\<lambda>p.
     bindE (resolve_workspace_context p slug require_active d) (\<lambda>cx.
     bindE (authorize_context cx permission) (\<lambda>_. Inr cx)))"

lemma resolve_active_membership_Inr_iff:
  "resolve_active_membership p ws d = Inr m \<longleftrightarrow>
     pl_active p \<and> (\<exists>u. get_user_row (pl_user_id p) d = Some u \<and> us_active u) \<and>
     (\<exists>w. get_workspace_row (ws_id ws) d = Some w) \<and>
     find_membership (ws_id ws) (pl_user_id p) d = Some m \<and> wm_active m"
proof -
  show ?thesis
  proof (cases "get_user_row (pl_user_id p) d")
    case None
    then show ?thesis by (simp add: resolve_active_membership_def get_user_def)
  next
    case u: (Some u)
    show ?thesis
    proof (cases "get_workspace_row (ws_id ws) d")
      case None
      with u show ?thesis by (simp add: resolve_active_membership_def get_user_def stored_workspace_def)
    next
      case (Some w)
      with u uss.get_ident [OF u] wss.get_ident [OF Some] show ?thesis
        by (auto simp: resolve_active_membership_def get_user_def stored_workspace_def split: option.splits)
    qed
  qed
qed

lemma get_workspace_by_slug_InrD:
  "get_workspace_by_slug slug d = Inr w \<Longrightarrow> w \<in> set (workspaces d) \<and> ws_slug w = py_lower (py_strip slug)"
  by (auto simp: get_workspace_by_slug_def workspace_by_slug_exact_def find_Some_iff split: option.splits)

lemma resolve_principal_InrD:
  assumes "resolve_principal_from_access_token deco uuid_parse st token now d = Inr p"
  shows "pl_active p" "\<exists>u. get_user_row (pl_user_id p) d = Some u \<and> us_active u"
    "\<exists>c. deco token (as_secret st) (as_issuer st) now = Some c \<and> uuid_parse (cl_sub c) = Some (pl_user_id p)"
    "as_secret st \<noteq> []"
proof -
  from assms have secret: "token_secret st = Inr (as_secret st)" "as_secret st \<noteq> []"
    by (auto simp: resolve_principal_from_access_token_def token_secret_def split: if_splits)
  with assms obtain c k where c: "deco token (as_secret st) (as_issuer st) now = Some c"
    "uuid_parse (cl_sub c) = Some k" "resolve_active_principal k d = Inr p"
    by (auto simp: resolve_principal_from_access_token_def split: option.splits sum.splits)
  from c(3) obtain u where u: "get_user_row k d = Some u" "us_active u" "p = \<lparr>pl_user_id = us_id u, pl_active = True\<rparr>"
    by (cases "get_user_row k d") (auto simp: resolve_active_principal_def get_user_def split: if_splits)
  with uss.get_ident [OF u(1)] c secret show "pl_active p"
    "\<exists>u. get_user_row (pl_user_id p) d = Some u \<and> us_active u"
    "\<exists>c. deco token (as_secret st) (as_issuer st) now = Some c \<and> uuid_parse (cl_sub c) = Some (pl_user_id p)"
    "as_secret st \<noteq> []" by auto
qed

lemma resolve_workspace_context_InrD:
  assumes "resolve_workspace_context p slug act d = Inr cx"
  shows "cx_principal cx = p" "get_workspace_by_slug slug d = Inr (cx_workspace cx)"
    "resolve_active_membership p (cx_workspace cx) d = Inr (cx_membership cx)"
    "act \<longrightarrow> ws_active (cx_workspace cx)"
  using assms
  by (auto simp: resolve_workspace_context_def bindE_Inr_iff bindE_Inl_iff split: sum.splits if_splits)

lemma authorize_InrD:
  assumes "authorize deco uuid_parse st now header slug act permission d = Inr cx"
  obtains scheme token where "header = Some (scheme, token)" "py_lower scheme = ''bearer''"
    "resolve_principal_from_access_token deco uuid_parse st token now d = Inr (cx_principal cx)"
    "resolve_workspace_context (cx_principal cx) slug act d = Inr cx"
    "permission \<in> set (ROLE_PERMISSIONS (wm_role (cx_membership cx)))"
proof -
  from assms obtain p where p: "get_authenticated_principal deco uuid_parse st header now d = Inr p"
    and cx: "resolve_workspace_context p slug act d = Inr cx"
    and perm: "authorize_context cx permission = Inr ()"
    by (auto simp: authorize_def bindE_Inr_iff)
  from p obtain scheme token where h: "header = Some (scheme, token)" "py_lower scheme = ''bearer''"
    "resolve_principal_from_access_token deco uuid_parse st token now d = Inr p"
    by (auto simp: get_authenticated_principal_def split: option.splits if_splits sum.splits)
  from perm have "permission \<in> set (ROLE_PERMISSIONS (wm_role (cx_membership cx)))"
    by (auto simp: authorize_context_def split: sum.splits if_splits)
  with h cx resolve_workspace_context_InrD(1) [OF cx] show thesis by (intro that) auto
qed

text \<open>C26: A human request reaches a service only as an active user with an active membership in the
  addressed workspace whose stored role has the permission of the endpoint: what the service is
  given as context is that user, that workspace and that membership.\<close>

theorem authorized_context:
  assumes "authorize deco uuid_parse st now header slug act permission d = Inr cx"
  shows "(\<exists>scheme token c. header = Some (scheme, token) \<and> py_lower scheme = ''bearer'' \<and>
      deco token (as_secret st) (as_issuer st) now = Some c \<and>
      uuid_parse (cl_sub c) = Some (pl_user_id (cx_principal cx)) \<and> as_secret st \<noteq> []) \<and>
    (\<exists>u \<in> set (users d). us_id u = pl_user_id (cx_principal cx) \<and> us_active u) \<and>
    cx_workspace cx \<in> set (workspaces d) \<and> ws_slug (cx_workspace cx) = py_lower (py_strip slug) \<and>
    (act \<longrightarrow> ws_active (cx_workspace cx)) \<and>
    cx_membership cx \<in> set (members d) \<and> wm_active (cx_membership cx) \<and>
    wm_workspace_id (cx_membership cx) = ws_id (cx_workspace cx) \<and>
    wm_user_id (cx_membership cx) = pl_user_id (cx_principal cx) \<and>
    permission \<in> set (ROLE_PERMISSIONS (wm_role (cx_membership cx)))"
proof -
  from assms obtain scheme token where h: "header = Some (scheme, token)" "py_lower scheme = ''bearer''"
    and tok: "resolve_principal_from_access_token deco uuid_parse st token now d = Inr (cx_principal cx)"
    and cx: "resolve_workspace_context (cx_principal cx) slug act d = Inr cx"
    and perm: "permission \<in> set (ROLE_PERMISSIONS (wm_role (cx_membership cx)))"
    by (rule authorize_InrD)
  note p = resolve_principal_InrD [OF tok] and c = resolve_workspace_context_InrD [OF cx]
  from c(3) have m: "find_membership (ws_id (cx_workspace cx)) (pl_user_id (cx_principal cx)) d = Some (cx_membership cx)"
    "wm_active (cx_membership cx)" by (simp_all add: resolve_active_membership_Inr_iff)
  then have mem: "cx_membership cx \<in> set (members d)"
    "wm_workspace_id (cx_membership cx) = ws_id (cx_workspace cx)"
    "wm_user_id (cx_membership cx) = pl_user_id (cx_principal cx)"
    by (auto simp: find_membership_def find_Some_iff)
  from p(2) have "\<exists>u \<in> set (users d). us_id u = pl_user_id (cx_principal cx) \<and> us_active u"
    by (auto simp: get_user_row_def dest: row_find_SomeD)
  with h p(3,4) c get_workspace_by_slug_InrD [OF c(2)] m(2) mem perm show ?thesis by blast
qed

text \<open>The API does not tell a caller which workspaces exist: for an active user the answer for a
  workspace he has no active membership of is the answer for a slug that no workspace has,
  whatever the endpoint requires.\<close>

theorem foreign_workspace_looks_absent:
  assumes p: "pl_active p" "get_user_row (pl_user_id p) d = Some u" "us_active u"
    and w: "get_workspace_by_slug slug d = Inr w" "get_workspace_row (ws_id w) d \<noteq> None"
    and none: "\<And>m. m \<in> set (members d) \<Longrightarrow> wm_workspace_id m = ws_id w \<Longrightarrow> wm_user_id m = pl_user_id p \<Longrightarrow> \<not> wm_active m"
    and absent: "get_workspace_by_slug missing d = Inl (IdentityE WorkspaceNotFoundError)"
  shows "resolve_workspace_context p slug act d = resolve_workspace_context p missing act' d"
proof -
  have u: "us_id u = pl_user_id p" using p(2) uss.get_ident by blast
  obtain w' where w': "get_workspace_row (ws_id w) d = Some w'" using w(2) by blast
  then have id: "ws_id w' = ws_id w" by (rule wss.get_ident)
  have "resolve_active_membership p w d = Inl (IdentityE WorkspaceMembershipNotFoundError) \<or>
      resolve_active_membership p w d = Inl (IdentityE InactiveWorkspaceMembershipError)"
  proof (cases "find_membership (ws_id w) (pl_user_id p) d")
    case None
    with p w' u id show ?thesis
      by (simp add: resolve_active_membership_def get_user_def stored_workspace_def)
  next
    case (Some m)
    then have "\<not> wm_active m" using none [of m] by (auto simp: find_membership_def find_Some_iff)
    with Some p w' u id show ?thesis
      by (simp add: resolve_active_membership_def get_user_def stored_workspace_def)
  qed
  then show ?thesis
    by (auto simp: resolve_workspace_context_def w absent)
qed


definition sample_token :: string where
  "sample_token = plain_encode (token_claims (\<lambda>k. replicate k CHR ''x'') sample_auth sample_user ''j'' 0) ''s''"

definition sample_parse :: "string \<Rightarrow> uuid option" where
  "sample_parse s = Some (length s)"

lemma sample_principal:
  "resolve_principal_from_access_token plain_decode sample_parse sample_auth sample_token 5 sample_db =
     Inr \<lparr>pl_user_id = 2, pl_active = True\<rparr>"
  by (simp add: resolve_principal_from_access_token_def token_secret_def sample_auth_def sample_token_def
      plain_decode_def plain_encode_def token_claims_def sample_parse_def seconds_def
      resolve_active_principal_def get_user_def get_user_row_def sample_defs Let_def)

lemma sample_slugs:
  "py_lower (py_strip '' ACME'') = ''acme''" "py_lower (py_strip ''acme'') = ''acme''"
  "py_lower ''Bearer'' = ''bearer''" "py_lower (py_strip ''other'') = ''other''"
  by code_simp+

lemma sample_authorized:
  "authorize plain_decode sample_parse sample_auth 5 (Some (''Bearer'', sample_token)) '' ACME'' True
     INTEGRATION_MANAGE sample_db =
   Inr \<lparr>cx_principal = \<lparr>pl_user_id = 2, pl_active = True\<rparr>, cx_workspace = sample_ws,
     cx_membership = sample_member OWNER\<rparr>"
proof -
  have "get_workspace_by_slug '' ACME'' sample_db = Inr sample_ws"
    by (simp add: get_workspace_by_slug_def workspace_by_slug_exact_def sample_slugs sample_defs)
  moreover have "resolve_active_membership \<lparr>pl_user_id = 2, pl_active = True\<rparr> sample_ws sample_db = Inr (sample_member OWNER)"
    by (simp add: resolve_active_membership_Inr_iff get_user_row_def get_workspace_row_def
        find_membership_def sample_defs)
  ultimately show ?thesis
    by (simp add: authorize_def get_authenticated_principal_def sample_slugs sample_principal
        resolve_workspace_context_def authorize_context_def require_permission_def
        all_permissions_complete sample_ws_def sample_member_def)
qed

theorem authorized_context_witness:
  "\<exists>u \<in> set (users sample_db). us_id u = 2 \<and> us_active u"
  using authorized_context [OF sample_authorized] by simp

theorem foreign_workspace_looks_absent_witness:
  "resolve_workspace_context \<lparr>pl_user_id = 2, pl_active = True\<rparr> ''acme'' True (sample_db\<lparr>members := []\<rparr>) =
   resolve_workspace_context \<lparr>pl_user_id = 2, pl_active = True\<rparr> ''other'' False (sample_db\<lparr>members := []\<rparr>)"
  by (rule foreign_workspace_looks_absent [of _ _ sample_user _ sample_ws])
    (simp_all add: get_workspace_by_slug_def workspace_by_slug_exact_def sample_slugs sample_defs
      get_user_row_def get_workspace_row_def)

section \<open>Actors\<close>

text \<open>The actor of approval decisions and the actor of assignments have the same columns.\<close>

definition get_approval_decision_actor :: "workspace_context \<Rightarrow> decision_actor" where
  "get_approval_decision_actor cx = \<lparr>actor_user_id = pl_user_id (cx_principal cx),
     actor_membership_id = wm_id (cx_membership cx), actor_workspace_id = ws_id (cx_workspace cx),
     actor_role = wm_role (cx_membership cx)\<rparr>"

definition get_operator_assignment_actor :: "workspace_context \<Rightarrow> decision_actor" where
  "get_operator_assignment_actor cx = \<lparr>actor_user_id = pl_user_id (cx_principal cx),
     actor_membership_id = wm_id (cx_membership cx), actor_workspace_id = ws_id (cx_workspace cx),
     actor_role = wm_role (cx_membership cx)\<rparr>"

section \<open>Workspace routes\<close>

definition route_create_workspace :: "string \<Rightarrow> string \<Rightarrow> principal \<Rightarrow> clock \<Rightarrow> workspace op" where
  "route_create_workspace slug name p clk d =
     (case create_for_principal (py_lower (py_strip slug)) (py_strip name) p clk d of
        (Inl e, d') \<Rightarrow> (Inl (if e = IdentityE DuplicateWorkspaceSlugError
             then HTTPException 409 ''A workspace with this slug already exists'' else e), d')
      | r \<Rightarrow> r)"

definition route_list_workspaces :: "principal \<Rightarrow> db \<Rightarrow> workspace list" where
  "route_list_workspaces p d =
     order_desc (\<lambda>w. dt_instant (ws_created_at w))
       (concat (map (\<lambda>w. map (\<lambda>_. w) (filter (\<lambda>m. wm_workspace_id m = ws_id w \<and> wm_user_id m = pl_user_id p \<and>
          wm_active m \<and> ws_active w) (members d))) (workspaces d)))"

definition route_replace_instructions :: "workspace \<Rightarrow> string \<Rightarrow> clock \<Rightarrow> string option op" where
  "route_replace_instructions ws v clk d =
     (case replace_instructions ws v clk d of
        (Inl e, d') \<Rightarrow> (Inl (if e = IdentityE WorkspaceSalesInstructionsValidationError
             then HTTPException 422 [] else e), d')
      | (Inr w, d') \<Rightarrow> (Inr (ws_sales_instructions w), d'))"

definition route_clear_instructions :: "workspace \<Rightarrow> clock \<Rightarrow> string option op" where
  "route_clear_instructions ws clk d =
     (case clear_instructions ws clk d of (Inl e, d') \<Rightarrow> (Inl e, d')
      | (Inr w, d') \<Rightarrow> (Inr (ws_sales_instructions w), d'))"

definition communication_read ::
  "workspace \<Rightarrow> sales_language option \<times> writing_script option \<times> sales_tone option" where
  "communication_read ws =
     (ws_sales_preferred_language ws, ws_sales_preferred_script ws, ws_sales_preferred_tone ws)"

definition route_update_communication ::
  "workspace \<Rightarrow> sales_language option \<Rightarrow> writing_script option \<Rightarrow> sales_tone option \<Rightarrow> clock
   \<Rightarrow> (sales_language option \<times> writing_script option \<times> sales_tone option) op" where
  "route_update_communication ws lang scr tone clk d =
     (case update_communication ws lang scr tone clk d of (Inl e, d') \<Rightarrow> (Inl e, d')
      | (Inr w, d') \<Rightarrow> (Inr (communication_read w), d'))"

text \<open>A workspace that was just created is found by its owner under the slug of the request.\<close>

lemma created_workspace_context:
  assumes "route_create_workspace slug name p clk d = (Inr w, d')" and "pl_active p"
    and ids: "\<And>w. w \<in> set (workspaces d) \<Longrightarrow> ws_id w < next_id d"
      "\<And>m. m \<in> set (members d) \<Longrightarrow> wm_workspace_id m < next_id d"
  shows "\<exists>cx. resolve_workspace_context p slug True d' = Inr cx \<and> cx_workspace cx = w \<and>
    wm_role (cx_membership cx) = OWNER"
proof -
  let ?slug = "py_lower (py_strip slug)"
  define m where "m = owner_member (next_id (take_id (insert_workspace w d))) (ws_id w) (pl_user_id p) clk"
  from assms(1) obtain u where u: "get_user_row (pl_user_id p) d = Some u" "us_active u"
    and none: "workspace_by_slug_exact ?slug d = None"
    and w: "w = new_workspace (next_id d) ?slug (py_strip name) clk"
    and d': "d' = take_id (insert_member m (take_id (insert_workspace w d)))"
    by (auto simp: route_create_workspace_def create_for_principal_def Let_def m_def
        split: option.splits if_splits)
  have "get_workspace_by_slug slug d' = Inr w"
    using none by (simp add: get_workspace_by_slug_def workspace_by_slug_exact_def d' insert_member_def
        insert_workspace_def take_id_def find_append w)
  moreover have "find_membership (next_id d) (pl_user_id p) d = None"
    using ids(2) by (fastforce simp: find_membership_def find_None_iff)
  then have "find_membership (ws_id w) (pl_user_id p) d' = Some m"
    by (simp add: d' find_membership_def insert_member_def take_id_def insert_workspace_def
        find_append w m_def)
  moreover have "get_workspace_row (ws_id w) d' \<noteq> None"
    by (simp add: d' get_workspace_row_def insert_member_def take_id_def insert_workspace_def
        row_find_append split: option.split)
  moreover have "get_user_row (pl_user_id p) d' = Some u"
    using u by (simp add: d' get_user_row_def insert_member_def take_id_def insert_workspace_def)
  ultimately have "resolve_active_membership p w d' = Inr m"
    using assms(2) u(2) by (auto simp: resolve_active_membership_Inr_iff m_def)
  with \<open>get_workspace_by_slug slug d' = Inr w\<close> show ?thesis
    by (simp add: resolve_workspace_context_def w m_def)
qed

end
