(* ===== verification/Sales_Repository.thy ===== *)
theory Sales_Repository
  imports Store
begin

text \<open>
  app/services/repository.py: the reads and writes of the Sales department, one definition per
  method of SalesRepository. A loaded ORM object is the value of its row; a method that changes
  one returns the changed value. \<open>t\<close> is the reading of the clock a new or changed row carries.
\<close>

section \<open>Leads and products\<close>

definition get_lead :: "uuid \<Rightarrow> db \<Rightarrow> error + lead" where
  "get_lead k d = (case get_lead_row k d of None \<Rightarrow> Inl (SalesE NotFoundError) | Some l \<Rightarrow> Inr l)"

definition list_leads :: "string \<Rightarrow> db \<Rightarrow> lead list" where
  "list_leads tenant d =
     order_desc (\<lambda>l. dt_instant (ld_created_at l)) (filter (\<lambda>l. ld_tenant_id l = tenant) (leads d))"

definition list_products :: "string \<Rightarrow> db \<Rightarrow> product list" where
  "list_products tenant d = filter (\<lambda>p. pr_tenant_id p = tenant \<and> pr_active p) (products d)"

definition researched_lead :: "lead \<Rightarrow> int \<Rightarrow> lead" where
  "researched_lead l t = l\<lparr>ld_status := LEAD_RESEARCHED, ld_updated_at := utc t\<rparr>"

definition save_research ::
  "lead \<Rightarrow> string \<Rightarrow> string list \<Rightarrow> string list \<Rightarrow> (string \<times> string option) list list \<Rightarrow> clock \<Rightarrow> db
   \<Rightarrow> lead_research \<times> db" where
  "save_research l summary pains opportunities evidence clk d =
     (let r = \<lparr>rs_id = next_id d, rs_lead_id = ld_id l, rs_summary = summary, rs_pain_points = pains,
              rs_opportunities = opportunities, rs_evidence = evidence, rs_created_at = utc (clk 0)\<rparr>
      in (r, take_id (save_lead (researched_lead l (clk 1)) d\<lparr>researches := researches d @ [r]\<rparr>)))"

definition clamp_score :: "int \<Rightarrow> int" where
  "clamp_score n = max 0 (min 100 n)"

definition update_lead_score :: "lead \<Rightarrow> int \<Rightarrow> bool \<Rightarrow> int \<Rightarrow> db \<Rightarrow> lead \<times> db" where
  "update_lead_score l score qualified t d =
     (let l' = l\<lparr>ld_score := clamp_score score,
               ld_status := (if qualified then LEAD_QUALIFIED else LEAD_UNQUALIFIED),
               ld_updated_at := utc t\<rparr>
      in (l', save_lead l' d))"

definition update_sales_stage :: "lead \<Rightarrow> sales_stage \<Rightarrow> int \<Rightarrow> db \<Rightarrow> lead \<times> db" where
  "update_sales_stage l stage t d =
     (let l' = l\<lparr>ld_sales_stage := stage, ld_updated_at := utc t\<rparr> in (l', save_lead l' d))"

section \<open>Messages\<close>

definition new_message ::
  "uuid \<Rightarrow> string \<Rightarrow> string \<Rightarrow> sales_stage \<Rightarrow> string \<Rightarrow> int \<Rightarrow> db \<Rightarrow> conversation_message" where
  "new_message lead_id direction channel stage content t d =
     \<lparr>cm_id = next_id d, cm_lead_id = lead_id, cm_direction = direction, cm_channel = channel,
      cm_stage = stage, cm_content = content, cm_created_at = utc t\<rparr>"

definition add_message :: "conversation_message \<Rightarrow> db \<Rightarrow> db" where
  "add_message m d = take_id (d\<lparr>messages := messages d @ [m]\<rparr>)"

definition conversation_history :: "uuid \<Rightarrow> nat \<Rightarrow> db \<Rightarrow> conversation_message list" where
  "conversation_history lead_id limit d =
     rev (take limit (order_desc (\<lambda>m. dt_instant (cm_created_at m))
       (filter (\<lambda>m. cm_lead_id m = lead_id) (messages d))))"

section \<open>Receipts of direct turns\<close>

definition find_turn_receipt :: "uuid \<Rightarrow> uuid \<Rightarrow> string \<Rightarrow> db \<Rightarrow> turn_receipt option" where
  "find_turn_receipt w l key d = find (\<lambda>r. tr_workspace_id r = w \<and> tr_lead_id r = l \<and>
     tr_idempotency_key r = key) (turn_receipts d)"

definition new_turn_receipt :: "workspace \<Rightarrow> lead \<Rightarrow> string \<Rightarrow> string \<Rightarrow> int \<Rightarrow> db \<Rightarrow> turn_receipt" where
  "new_turn_receipt ws l key fingerprint t d =
     \<lparr>tr_id = next_id d, tr_workspace_id = ws_id ws, tr_lead_id = ld_id l, tr_idempotency_key = key,
      tr_request_fingerprint = fingerprint, tr_status = TURN_IN_PROGRESS, tr_detected_stage = None,
      tr_draft_reply = None, tr_approval_id = None, tr_handoff_required = False,
      tr_handoff_reason_code = None, tr_created_at = utc t, tr_completed_at = None\<rparr>"

text \<open>The unique constraint on workspace, lead and key refuses a second reservation.\<close>

definition reserve_turn_receipt ::
  "workspace \<Rightarrow> lead \<Rightarrow> string \<Rightarrow> string \<Rightarrow> int \<Rightarrow> (turn_receipt \<times> bool) op" where
  "reserve_turn_receipt ws l key fingerprint t d =
     (if ld_tenant_id l \<noteq> ws_slug ws then (Inl (SalesE NotFoundError), d)
      else let r = new_turn_receipt ws l key fingerprint t d in
        (case find_turn_receipt (ws_id ws) (ld_id l) key d of
           None \<Rightarrow> (Inr (r, True), take_id (d\<lparr>turn_receipts := turn_receipts d @ [r]\<rparr>))
         | Some x \<Rightarrow> (Inr (x, False), take_id d)))"

definition save_turn_receipt :: "turn_receipt \<Rightarrow> db \<Rightarrow> db" where
  "save_turn_receipt r d = d\<lparr>turn_receipts := row_update tr_id r (turn_receipts d)\<rparr>"

definition complete_turn_receipt ::
  "turn_receipt \<Rightarrow> sales_stage \<Rightarrow> string \<Rightarrow> uuid option \<Rightarrow> bool \<Rightarrow> handoff_reason option \<Rightarrow> int \<Rightarrow> db
   \<Rightarrow> turn_receipt \<times> db" where
  "complete_turn_receipt r stage reply approval handoff reason t d =
     (let r' = r\<lparr>tr_status := TURN_COMPLETED, tr_detected_stage := Some stage, tr_draft_reply := Some reply,
               tr_approval_id := approval, tr_handoff_required := handoff,
               tr_handoff_reason_code := reason, tr_completed_at := Some (utc t)\<rparr>
      in (r', save_turn_receipt r' d))"

definition discard_turn_receipt :: "turn_receipt \<Rightarrow> db \<Rightarrow> db" where
  "discard_turn_receipt r d = d\<lparr>turn_receipts := filter (\<lambda>x. tr_id x \<noteq> tr_id r) (turn_receipts d)\<rparr>"

section \<open>Handoffs\<close>

definition handoffs_of :: "workspace \<Rightarrow> uuid \<Rightarrow> db \<Rightarrow> sales_handoff list" where
  "handoffs_of ws lead_id d = filter (\<lambda>h. ho_workspace_id h = ws_id ws \<and> ho_lead_id h = lead_id) (handoffs d)"

definition get_sales_handoff :: "workspace \<Rightarrow> uuid \<Rightarrow> db \<Rightarrow> sales_handoff option" where
  "get_sales_handoff ws lead_id d = find (\<lambda>h. ho_status h = HANDOFF_ACTIVE) (handoffs_of ws lead_id d)"

definition first_row :: "'a list \<Rightarrow> 'a option" where
  "first_row rows = (case rows of [] \<Rightarrow> None | r # _ \<Rightarrow> Some r)"

definition get_latest_sales_handoff :: "workspace \<Rightarrow> uuid \<Rightarrow> db \<Rightarrow> sales_handoff option" where
  "get_latest_sales_handoff ws lead_id d =
     first_row (order_desc (\<lambda>h. dt_instant (ho_created_at h)) (handoffs_of ws lead_id d))"

definition list_sales_handoffs :: "workspace \<Rightarrow> uuid \<Rightarrow> db \<Rightarrow> sales_handoff list" where
  "list_sales_handoffs ws lead_id d = sort_key (\<lambda>h. dt_instant (ho_created_at h)) (handoffs_of ws lead_id d)"

definition new_handoff :: "workspace \<Rightarrow> lead \<Rightarrow> handoff_reason \<Rightarrow> string \<Rightarrow> int \<Rightarrow> db \<Rightarrow> sales_handoff" where
  "new_handoff ws l reason explanation t d =
     \<lparr>ho_id = next_id d, ho_workspace_id = ws_id ws, ho_lead_id = ld_id l, ho_reason_code = reason,
      ho_explanation = explanation, ho_status = HANDOFF_ACTIVE, ho_created_at = utc t, ho_resolved_at = None\<rparr>"

definition ensure_sales_handoff ::
  "workspace \<Rightarrow> lead \<Rightarrow> handoff_reason \<Rightarrow> string \<Rightarrow> int \<Rightarrow> sales_handoff op" where
  "ensure_sales_handoff ws l reason explanation t d =
     (if ld_tenant_id l \<noteq> ws_slug ws then (Inl (SalesE NotFoundError), d)
      else case get_sales_handoff ws (ld_id l) d of
          Some h \<Rightarrow> (Inr h, d)
        | None \<Rightarrow> let h = new_handoff ws l reason explanation t d
                  in (Inr h, take_id (d\<lparr>handoffs := handoffs d @ [h]\<rparr>)))"

definition save_handoff :: "sales_handoff \<Rightarrow> db \<Rightarrow> db" where
  "save_handoff h d = d\<lparr>handoffs := row_update ho_id h (handoffs d)\<rparr>"

definition resolve_sales_handoff :: "workspace \<Rightarrow> lead \<Rightarrow> int \<Rightarrow> sales_handoff op" where
  "resolve_sales_handoff ws l t d =
     (if ld_tenant_id l \<noteq> ws_slug ws then (Inl (SalesE NotFoundError), d)
      else case get_sales_handoff ws (ld_id l) d of
          None \<Rightarrow>
            (case get_latest_sales_handoff ws (ld_id l) d of
               Some h \<Rightarrow> if ho_status h = HANDOFF_RESOLVED then (Inl (SalesE HandoffLifecycleConflictError), d)
                         else (Inl (SalesE NotFoundError), d)
             | None \<Rightarrow> (Inl (SalesE NotFoundError), d))
        | Some h \<Rightarrow>
            let h' = h\<lparr>ho_status := HANDOFF_RESOLVED, ho_resolved_at := Some (utc t)\<rparr>
            in (Inr h', save_handoff h' d))"

section \<open>Approval requests\<close>

definition new_approval ::
  "uuid \<Rightarrow> string \<Rightarrow> (string \<times> string) list \<Rightarrow> string \<Rightarrow> int \<Rightarrow> db \<Rightarrow> approval_request" where
  "new_approval lead_id channel payload action_type t d =
     \<lparr>ap_id = next_id d, ap_lead_id = Some lead_id, ap_action_type = action_type, ap_channel = channel,
      ap_payload = payload, ap_status = AP_PENDING, ap_assigned_to_membership_id = None,
      ap_assigned_at = None, ap_assigned_by_user_id = None, ap_assigned_by_membership_id = None,
      ap_reviewer_note = None, ap_created_at = utc t, ap_decided_at = None,
      ap_decided_by_user_id = None, ap_decided_by_membership_id = None, ap_decided_by_role = None\<rparr>"

definition create_approval :: "uuid \<Rightarrow> string \<Rightarrow> (string \<times> string) list \<Rightarrow> int \<Rightarrow> db \<Rightarrow> approval_request \<times> db" where
  "create_approval lead_id channel payload t d =
     (let a = new_approval lead_id channel payload ''send_message'' t d in (a, take_id (insert_approval a d)))"

definition list_approvals :: "string \<Rightarrow> approval_status option \<Rightarrow> db \<Rightarrow> approval_request list" where
  "list_approvals tenant status d =
     order_desc (\<lambda>a. dt_instant (ap_created_at a))
       (filter (\<lambda>a. (\<exists>l \<in> set (leads d). ap_lead_id a = Some (ld_id l) \<and> ld_tenant_id l = tenant) \<and>
                    (status = None \<or> status = Some (ap_status a))) (approvals d))"

section \<open>The stores as interfaces\<close>

lemma handoffs_frames [simp]:
  "handoffs_of ws k (take_id d) = handoffs_of ws k d"
  "handoffs_of ws k (add_message m d) = handoffs_of ws k d"
  "handoffs_of ws k (insert_approval a d) = handoffs_of ws k d"
  "handoffs_of ws k (save_turn_receipt r d) = handoffs_of ws k d"
  "handoffs_of ws k (discard_turn_receipt r d) = handoffs_of ws k d"
  by (simp_all add: handoffs_of_def take_id_def add_message_def insert_approval_def
      save_turn_receipt_def discard_turn_receipt_def)

definition get_turn_receipt :: "uuid \<Rightarrow> db \<Rightarrow> turn_receipt option" where
  "get_turn_receipt k d = row_find tr_id k (turn_receipts d)"

definition get_handoff :: "uuid \<Rightarrow> db \<Rightarrow> sales_handoff option" where
  "get_handoff k d = row_find ho_id k (handoffs d)"

interpretation trs: row_store get_turn_receipt save_turn_receipt tr_id
  by unfold_locales
    (auto simp: get_turn_receipt_def save_turn_receipt_def row_find_update dest: row_find_SomeD)

interpretation hos: row_store get_handoff save_handoff ho_id
  by unfold_locales (auto simp: get_handoff_def save_handoff_def row_find_update dest: row_find_SomeD)

end
