(* ===== verification/Sales_Policy.thy ===== *)
theory Sales_Policy
  imports Sales_Repository
begin

text \<open>
  The deterministic policies of the Sales department: the stage transitions of
  departments/sales/services/stage_transition_service.py, the handoff policy of
  departments/sales/handoff_policy.py with the resolution of handoff_service.py, and the router
  of departments/sales/supervisor/department_supervisor.py.
\<close>

section \<open>Stage transitions\<close>

record stage_result =
  sr_allowed :: bool
  sr_current :: sales_stage
  sr_requested :: sales_stage
  sr_resulting :: sales_stage
  sr_reason :: stage_transition_reason

fun allowed_next_stages :: "sales_stage \<Rightarrow> sales_stage list" where
  "allowed_next_stages INTRODUCTION = [DISCOVERY]"
| "allowed_next_stages DISCOVERY = [QUALIFICATION]"
| "allowed_next_stages QUALIFICATION = [VALUE_PROPOSITION]"
| "allowed_next_stages VALUE_PROPOSITION = [OBJECTION_HANDLING, CLOSING]"
| "allowed_next_stages OBJECTION_HANDLING = [VALUE_PROPOSITION, CLOSING, FOLLOW_UP]"
| "allowed_next_stages CLOSING = [FOLLOW_UP]"
| "allowed_next_stages FOLLOW_UP = [DISCOVERY]"

text \<open>The explanation of a result is a fixed text of its reason code.\<close>

fun stage_explanation :: "stage_transition_reason \<Rightarrow> string" where
  "stage_explanation SELF_TRANSITION = ''The lead is already at the requested Sales stage.''"
| "stage_explanation TRANSITION_ALLOWED = ''The requested Sales stage transition is allowed.''"
| "stage_explanation TRANSITION_NOT_ALLOWED =
     ''The requested Sales stage transition is not allowed from the current stage.''"

definition stage_evaluate :: "sales_stage \<Rightarrow> sales_stage \<Rightarrow> stage_result" where
  "stage_evaluate current requested =
     (if requested = current
      then \<lparr>sr_allowed = True, sr_current = current, sr_requested = requested, sr_resulting = current,
            sr_reason = SELF_TRANSITION\<rparr>
      else if requested \<in> set (allowed_next_stages current)
      then \<lparr>sr_allowed = True, sr_current = current, sr_requested = requested, sr_resulting = requested,
            sr_reason = TRANSITION_ALLOWED\<rparr>
      else \<lparr>sr_allowed = False, sr_current = current, sr_requested = requested, sr_resulting = current,
            sr_reason = TRANSITION_NOT_ALLOWED\<rparr>)"

definition stage_transition :: "workspace \<Rightarrow> uuid \<Rightarrow> sales_stage \<Rightarrow> int \<Rightarrow> stage_result op" where
  "stage_transition ws lead_id requested t d =
     (case get_lead lead_id d of
        Inl e \<Rightarrow> (Inl e, d)
      | Inr l \<Rightarrow>
          if ld_tenant_id l \<noteq> ws_slug ws then (Inl (SalesE NotFoundError), d)
          else let result = stage_evaluate (ld_sales_stage l) requested in
            if sr_allowed result \<and> sr_reason result \<noteq> SELF_TRANSITION
            then (Inr result, snd (update_sales_stage l (sr_resulting result) t d))
            else (Inr result, d))"

definition canonical_stage_for :: "workspace \<Rightarrow> lead \<Rightarrow> error + sales_stage" where
  "canonical_stage_for ws l =
     (if ld_tenant_id l \<noteq> ws_slug ws then Inl (SalesE NotFoundError) else Inr (ld_sales_stage l))"

section \<open>Handoff policy\<close>

datatype escalation = UNSUPPORTED_DISCOUNT | CUSTOM_PRICING | UNSUPPORTED_COMMITMENT

record handoff_signals =
  hs_human_requested :: bool
  hs_escalation :: "escalation option"
  hs_information_unavailable :: bool
  hs_approval_required :: bool

definition no_signals :: handoff_signals where
  "no_signals = \<lparr>hs_human_requested = False, hs_escalation = None, hs_information_unavailable = False,
     hs_approval_required = False\<rparr>"

record handoff_decision =
  hd_required :: bool
  hd_reason :: "handoff_reason option"
  hd_explanation :: "string option"

definition required_handoff :: "handoff_reason \<Rightarrow> string \<Rightarrow> handoff_decision" where
  "required_handoff reason explanation =
     \<lparr>hd_required = True, hd_reason = Some reason, hd_explanation = Some explanation\<rparr>"

definition decide_handoff :: "handoff_signals \<Rightarrow> handoff_decision" where
  "decide_handoff s =
     (if hs_human_requested s
      then required_handoff HUMAN_REQUESTED ''A team member needs to assist with this request.''
      else if hs_escalation s = Some UNSUPPORTED_DISCOUNT
      then required_handoff UNSUPPORTED_DISCOUNT_REQUEST
             ''A team member needs to review the requested commercial terms.''
      else if hs_escalation s = Some CUSTOM_PRICING
      then required_handoff CUSTOM_PRICING_REQUIRED
             ''A team member needs to review the requested commercial terms.''
      else if hs_escalation s = Some UNSUPPORTED_COMMITMENT
      then required_handoff UNSUPPORTED_COMMERCIAL_COMMITMENT
             ''A team member needs to review the requested commercial terms.''
      else if hs_information_unavailable s
      then required_handoff AUTHORITATIVE_INFORMATION_UNAVAILABLE
             ''A team member needs to confirm the requested information.''
      else if hs_approval_required s
      then required_handoff APPROVAL_REQUIRED ''A required approval is pending review.''
      else \<lparr>hd_required = False, hd_reason = None, hd_explanation = None\<rparr>)"

definition render_sales_handoff_reply :: "handoff_decision \<Rightarrow> error + string" where
  "render_sales_handoff_reply h =
     (case hd_explanation h of
        None \<Rightarrow> Inl ValueError
      | Some x \<Rightarrow> if \<not> hd_required h \<or> x = [] then Inl ValueError
                  else Inr (''I can'' @ [CHR 0x27] @ ''t confirm that request right now. '' @ x))"

lemma decide_handoff_required:
  "hd_required (decide_handoff s) \<Longrightarrow>
     \<exists>r x. hd_reason (decide_handoff s) = Some r \<and> hd_explanation (decide_handoff s) = Some x \<and> x \<noteq> []"
  by (auto simp: decide_handoff_def required_handoff_def split: if_splits)

lemma decide_handoff_not_required:
  "\<not> hd_required (decide_handoff s) \<Longrightarrow> hd_reason (decide_handoff s) = None"
  by (auto simp: decide_handoff_def required_handoff_def split: if_splits)

lemma decide_no_signals [simp]: "hd_required (decide_handoff no_signals) = False"
  by (simp add: decide_handoff_def no_signals_def)

text \<open>SalesConversationHandoffService.\<close>

record handoff_resolution =
  hr_lead_id :: uuid
  hr_reason :: handoff_reason
  hr_status :: handoff_status
  hr_created_at :: datetime
  hr_resolved_at :: datetime

definition resolve_active_handoff :: "workspace \<Rightarrow> uuid \<Rightarrow> int \<Rightarrow> handoff_resolution op" where
  "resolve_active_handoff ws lead_id t d =
     (case get_lead lead_id d of
        Inl e \<Rightarrow> (Inl e, d)
      | Inr l \<Rightarrow>
          (case resolve_sales_handoff ws l t d of
             (Inl e, d') \<Rightarrow> (Inl e, d')
           | (Inr h, d') \<Rightarrow>
               (case ho_resolved_at h of
                  None \<Rightarrow> (Inl AssertionError, d')
                | Some r \<Rightarrow> (Inr \<lparr>hr_lead_id = ld_id l, hr_reason = ho_reason_code h,
                    hr_status = ho_status h, hr_created_at = ho_created_at h, hr_resolved_at = r\<rparr>, d'))))"

section \<open>The router\<close>

datatype sales_event = NEW_LEAD | INBOUND_MESSAGE | FOLLOW_UP_DUE

fun supervisor_route :: "sales_event \<Rightarrow> string" where
  "supervisor_route NEW_LEAD = ''research_and_qualify''"
| "supervisor_route INBOUND_MESSAGE = ''sales_conversation''"
| "supervisor_route FOLLOW_UP_DUE = ''follow_up''"

end
