(* ===== verification/Language_Policy.thy ===== *)
theory Language_Policy
  imports Store
begin

text \<open>
  app/departments/sales/language_policy.py: the language, writing script and tone of a Sales
  reply. Customer messages may be Arabic, so the detection works on code points: a \<open>points\<close>
  list holds the code points of a text, and \<open>points\<close> gives those of a stored \<open>string\<close>.
  The case tables and the word characters are those of Latin-1, of U+0152, U+0153 and U+0178,
  and of the Arabic block U+0600 to U+06FF; other code points are outside the model.
\<close>

section \<open>Code points\<close>

type_synonym points = "nat list"

definition points :: "string \<Rightarrow> points" where
  "points s = map of_char s"

definition point_space :: "nat \<Rightarrow> bool" where
  "point_space n = ((9 \<le> n \<and> n \<le> 13) \<or> (28 \<le> n \<and> n \<le> 32) \<or> n = 133 \<or> n = 160 \<or> n = 5760 \<or>
     (8192 \<le> n \<and> n \<le> 8202) \<or> n = 8232 \<or> n = 8233 \<or> n = 8239 \<or> n = 8287 \<or> n = 12288)"

definition point_lower :: "nat \<Rightarrow> nat" where
  "point_lower n =
     (if (65 \<le> n \<and> n \<le> 90) \<or> (192 \<le> n \<and> n \<le> 222 \<and> n \<noteq> 215) then n + 32
      else if n = 338 then 339 else if n = 376 then 255 else n)"

definition point_fold :: "nat \<Rightarrow> points" where
  "point_fold n = (if n = 223 then [115, 115] else if n = 181 then [956] else [point_lower n])"

definition point_word :: "nat \<Rightarrow> bool" where
  "point_word n =
     ((48 \<le> n \<and> n \<le> 57) \<or> (65 \<le> n \<and> n \<le> 90) \<or> n = 95 \<or> (97 \<le> n \<and> n \<le> 122) \<or> n = 170 \<or>
      n = 178 \<or> n = 179 \<or> n = 181 \<or> n = 185 \<or> n = 186 \<or> (188 \<le> n \<and> n \<le> 190) \<or>
      (192 \<le> n \<and> n \<le> 214) \<or> (216 \<le> n \<and> n \<le> 246) \<or> (248 \<le> n \<and> n \<le> 255) \<or>
      n = 338 \<or> n = 339 \<or> n = 376 \<or>
      (1568 \<le> n \<and> n \<le> 1610) \<or> (1632 \<le> n \<and> n \<le> 1641) \<or> n = 1646 \<or> n = 1647 \<or>
      (1649 \<le> n \<and> n \<le> 1747) \<or> n = 1749 \<or> n = 1765 \<or> n = 1766 \<or> (1774 \<le> n \<and> n \<le> 1788) \<or> n = 1791)"

definition points_strip :: "points \<Rightarrow> points" where
  "points_strip t = rev (dropWhile point_space (rev (dropWhile point_space t)))"

definition points_lower :: "points \<Rightarrow> points" where
  "points_lower t = map point_lower t"

definition points_casefold :: "points \<Rightarrow> points" where
  "points_casefold t = concat (map point_fold t)"

text \<open>\<open>part in text\<close>.\<close>

fun points_in :: "points \<Rightarrow> points \<Rightarrow> bool" where
  "points_in w [] = (w = [])"
| "points_in w (c # t) = (take (length w) (c # t) = w \<or> points_in w t)"

text \<open>
  \<open>re.search\<close> of \<open>(?i)\b(?:w1|w2|...)\b\<close>: the flag says whether the preceding character is
  a word character, a boundary lies between two characters of which one is.
\<close>

definition word_next :: "points \<Rightarrow> bool" where
  "word_next t = (t \<noteq> [] \<and> point_word (hd t))"

definition word_here :: "points \<Rightarrow> points \<Rightarrow> bool" where
  "word_here w t = (w \<noteq> [] \<and> points_lower (take (length w) t) = w \<and>
     point_word (last (take (length w) t)) \<noteq> word_next (drop (length w) t))"

fun search_words :: "points list \<Rightarrow> bool \<Rightarrow> points \<Rightarrow> bool" where
  "search_words ws before [] = False"
| "search_words ws before (c # t) =
     ((before \<noteq> point_word c \<and> list_ex (\<lambda>w. word_here w (c # t)) ws) \<or> search_words ws (point_word c) t)"

section \<open>Detection\<close>

definition TUNISIAN_ARABIC_MARKERS :: "points list" where
  "TUNISIAN_ARABIC_MARKERS =
     [[1588, 1606, 1608, 1577], [1588, 1606, 1608], [1602, 1583, 1575, 1588], [1606, 1581, 1576],
      [1576, 1585, 1588, 1575], [1593, 1604, 1575, 1588], [1578, 1608, 1575], [1576, 1575, 1607, 1610],
      [1610, 1593, 1591, 1610, 1603, 32, 1575, 1604, 1589, 1581, 1577]]"

definition TUNISIAN_ARABIZI_WORDS :: "points list" where
  "TUNISIAN_ARABIZI_WORDS = map points
     [''9adeh'', ''9addeh'', ''9adech'', ''kadeh'', ''nheb'', ''n7eb'', ''barsha'', ''fama'',
      ''chneya'', ''chnowa'', ''chno'', ''kifeh'', ''m3a'', ''3andi'', ''3lech'', ''a5er'', ''bech'',
      ''tawa'', ''ma3andich'', ''behi'', ''yaatik'', ''ynajem'', ''ykhdem'']"

definition arabic_script :: "nat \<Rightarrow> bool" where
  "arabic_script n = (1536 \<le> n \<and> n \<le> 1791)"

definition latin_letter :: "nat \<Rightarrow> bool" where
  "latin_letter n = ((65 \<le> n \<and> n \<le> 90) \<or> (97 \<le> n \<and> n \<le> 122) \<or> (192 \<le> n \<and> n \<le> 214) \<or>
     (216 \<le> n \<and> n \<le> 246) \<or> (248 \<le> n \<and> n \<le> 255))"

definition FRENCH_WORDS :: "points list" where
  "FRENCH_WORDS = map points
     [''bonjour'', ''bonsoir'', ''merci'', ''prix'', ''combien'', ''vous'', ''je'', ''besoin'', ''souhaite'',
      ''voudrais'', ''est-ce'', ''comment'', ''mais'', ''pour'', ''moins'', ''ch'' @ [CHR 0xE8] @ ''re'']"

definition FRENCH_LETTERS :: points where
  "FRENCH_LETTERS = [224, 226, 231, 233, 232, 234, 235, 238, 239, 244, 249, 251, 252, 255, 339]"

definition french_marker :: "points \<Rightarrow> bool" where
  "french_marker t = (search_words FRENCH_WORDS False t \<or>
     list_ex (\<lambda>c. point_lower c \<in> set FRENCH_LETTERS) t)"

definition ENGLISH_WORDS :: "points list" where
  "ENGLISH_WORDS = map points
     [''hello'', ''hi'', ''thanks'', ''price'', ''cost'', ''how'', ''what'', ''need'', ''want'', ''please'',
      ''can'', ''would'']"

definition detect_sales_language :: "points \<Rightarrow> sales_language option" where
  "detect_sales_language t =
     (let normalized = points_strip t; folded = points_casefold normalized in
      if normalized = [] then None
      else if list_ex (\<lambda>m. points_in m folded) TUNISIAN_ARABIC_MARKERS then Some TUNISIAN_ARABIC
      else if search_words TUNISIAN_ARABIZI_WORDS False normalized then Some TUNISIAN_ARABIC
      else if list_ex arabic_script normalized then Some ARABIC
      else if french_marker normalized then Some FRENCH
      else if search_words ENGLISH_WORDS False normalized then Some ENGLISH
      else None)"

definition detect_sales_writing_script :: "points \<Rightarrow> writing_script option" where
  "detect_sales_writing_script t =
     (let normalized = points_strip t in
      if normalized = [] then None
      else if list_ex arabic_script normalized then Some SCRIPT_ARABIC
      else if list_ex latin_letter normalized then Some SCRIPT_LATIN
      else None)"

section \<open>Selection\<close>

definition DEFAULT_SALES_LANGUAGE :: sales_language where "DEFAULT_SALES_LANGUAGE = ENGLISH"
definition DEFAULT_SALES_TONE :: sales_tone where "DEFAULT_SALES_TONE = PROFESSIONAL"
definition DEFAULT_TUNISIAN_SCRIPT :: writing_script where "DEFAULT_TUNISIAN_SCRIPT = SCRIPT_LATIN"

text \<open>The loops over \<open>reversed(prior_customer_messages)\<close>: the first message with a clear answer.\<close>

fun first_clear :: "('m \<Rightarrow> 'a option) \<Rightarrow> 'm list \<Rightarrow> 'a option" where
  "first_clear f [] = None"
| "first_clear f (m # ms) = (case f m of None \<Rightarrow> first_clear f ms | Some x \<Rightarrow> Some x)"

definition select_sales_language :: "points \<Rightarrow> sales_language option \<Rightarrow> points list \<Rightarrow> sales_language" where
  "select_sales_language message preferred prior =
     (case preferred of
        Some l \<Rightarrow> l
      | None \<Rightarrow>
          (case detect_sales_language message of
             Some l \<Rightarrow> l
           | None \<Rightarrow>
               (case first_clear detect_sales_language (rev prior) of
                  Some l \<Rightarrow> l
                | None \<Rightarrow> DEFAULT_SALES_LANGUAGE)))"

record communication_style =
  cs_language :: sales_language
  cs_script :: writing_script

definition select_sales_communication_style ::
  "points \<Rightarrow> sales_language option \<Rightarrow> writing_script option \<Rightarrow> points list \<Rightarrow> communication_style" where
  "select_sales_communication_style message preferred_language preferred_script prior =
     (let language = select_sales_language message preferred_language prior;
          script = (case preferred_script of
             Some s \<Rightarrow> s
           | None \<Rightarrow>
               (case detect_sales_writing_script message of
                  Some s \<Rightarrow> s
                | None \<Rightarrow>
                    (case first_clear detect_sales_writing_script (rev prior) of
                       Some s \<Rightarrow> s
                     | None \<Rightarrow> if language = ARABIC then SCRIPT_ARABIC else DEFAULT_TUNISIAN_SCRIPT)))
      in \<lparr>cs_language = language, cs_script = script\<rparr>)"

definition select_sales_tone :: "sales_tone option \<Rightarrow> sales_tone" where
  "select_sales_tone preferred = (case preferred of None \<Rightarrow> DEFAULT_SALES_TONE | Some t \<Rightarrow> t)"

fun language_label :: "sales_language \<Rightarrow> string" where
  "language_label ENGLISH = ''English''"
| "language_label FRENCH = ''French''"
| "language_label ARABIC = ''Arabic''"
| "language_label TUNISIAN_ARABIC = ''Tunisian Arabic (Tunisian dialect)''"

fun tone_label :: "sales_tone \<Rightarrow> string" where
  "tone_label PROFESSIONAL = ''professional, friendly, and courteous''"
| "tone_label FRIENDLY = ''friendly and approachable''"
| "tone_label CONCISE = ''concise and professional''"

fun script_instruction :: "writing_script \<Rightarrow> string" where
  "script_instruction SCRIPT_LATIN =
     '' Write Tunisian conversational prose using Latin characters only. '' @
     ''Do not insert Arabic-script Tunisian words. Canonical product and '' @
     ''brand names, URLs, codes, currencies, and technical names may remain '' @
     ''in their authoritative form.''"
| "script_instruction SCRIPT_ARABIC =
     '' Write Tunisian conversational prose using Arabic script. Avoid '' @
     ''unnecessary Latin transliteration of Tunisian words. Canonical product '' @
     ''and brand names, URLs, codes, currencies, and technical names may '' @
     ''remain in their authoritative form.''"

definition render_sales_communication_instruction ::
  "sales_language \<Rightarrow> writing_script \<Rightarrow> sales_tone \<Rightarrow> string" where
  "render_sales_communication_instruction language script tone =
     ''Respond in '' @ language_label language @ ''. Use a '' @ tone_label tone @ '' Sales tone. '' @
     ''This language and tone guidance changes wording only; preserve all '' @
     ''authoritative commercial facts and policies.'' @
     (if language = TUNISIAN_ARABIC
      then '' Tunisian Arabizi may use numbers as Arabic-sound substitutions '' @
           ''(for example 9adeh, n7eb, 3andi, m3a, and a5er); interpret it as '' @
           ''normal Tunisian conversational text.'' @ script_instruction script
      else [])"

section \<open>Script consistency and conversation quality\<close>

record script_consistency =
  sc_consistent :: bool
  sc_reason :: string

text \<open>
  \<open>re.findall\<close> of \<open>(?i)\b[a-z][a-z0-9']*\b\<close>: at a boundary before a letter the longest run
  that ends at a boundary is taken, and the search goes on behind it.
\<close>

definition az_point :: "nat \<Rightarrow> bool" where
  "az_point n = ((65 \<le> n \<and> n \<le> 90) \<or> (97 \<le> n \<and> n \<le> 122))"

definition latin_word_point :: "nat \<Rightarrow> bool" where
  "latin_word_point n = (az_point n \<or> (48 \<le> n \<and> n \<le> 57) \<or> n = 39)"

definition latin_word_tail :: "nat \<Rightarrow> points \<Rightarrow> nat option" where
  "latin_word_tail c t =
     find (\<lambda>n. point_word (last (c # take n t)) \<noteq> word_next (drop n t))
       (rev [0..<Suc (length (takeWhile latin_word_point t))])"

function count_latin_words :: "bool \<Rightarrow> points \<Rightarrow> nat" where
  "count_latin_words before [] = 0"
| "count_latin_words before (c # t) =
     (case (if before \<noteq> point_word c \<and> az_point c then latin_word_tail c t else None) of
        None \<Rightarrow> count_latin_words (point_word c) t
      | Some n \<Rightarrow> Suc (count_latin_words (point_word (last (c # take n t))) (drop n t)))"
  by pat_completeness auto
termination
  by (relation "measure (\<lambda>(_, t). length t)") auto

definition validate_sales_script_consistency :: "points \<Rightarrow> communication_style \<Rightarrow> script_consistency" where
  "validate_sales_script_consistency t style =
     (let arabic_letters = length (filter arabic_script t);
          latin_words = count_latin_words False t in
      if cs_language style \<noteq> TUNISIAN_ARABIC then \<lparr>sc_consistent = True, sc_reason = ''not_applicable''\<rparr>
      else if cs_script style = SCRIPT_LATIN \<and> 3 \<le> arabic_letters
      then \<lparr>sc_consistent = False, sc_reason = ''unexpected_arabic_script''\<rparr>
      else if cs_script style = SCRIPT_ARABIC \<and> arabic_letters = 0 \<and> 4 \<le> latin_words
      then \<lparr>sc_consistent = False, sc_reason = ''predominantly_latin_script''\<rparr>
      else \<lparr>sc_consistent = True, sc_reason = ''consistent''\<rparr>)"

text \<open>app/departments/sales/conversation_quality.py.\<close>

record quality_evaluation =
  qe_repeated_question :: bool
  qe_excessive_question_load :: bool
  qe_script_consistent :: bool
  qe_empty_response :: bool

definition question_of :: "points \<Rightarrow> points" where
  "question_of t = points_strip (rev (dropWhile (\<lambda>c. c = 63) (rev (points_lower (points_strip t)))))"

definition evaluate_conversation_quality ::
  "points \<Rightarrow> points list \<Rightarrow> communication_style \<Rightarrow> quality_evaluation" where
  "evaluate_conversation_quality reply prior style =
     (let question = question_of reply; marks = count_list reply 63 in
      \<lparr>qe_repeated_question = (question \<noteq> [] \<and> marks \<noteq> 0 \<and> list_ex (\<lambda>m. question = question_of m) prior),
       qe_excessive_question_load = (1 < marks),
       qe_script_consistent = sc_consistent (validate_sales_script_consistency reply style),
       qe_empty_response = (points_strip reply = [])\<rparr>)"

end
