(* ===== verification/Sales_Agents.thy ===== *)
theory Sales_Agents
  imports Sales_Policy Language_Policy Prompt_Composition Ai_Gateway
begin

text \<open>
  The specialist agents of departments/sales/agents: the conversation agent (stage detection,
  demo replies, prompt, AI reply), lead research, qualification and follow-up tasks. An
  \<open>ai_env\<close> collects the parameters of an AI call (accounting table, HTTP transport, elapsed time) and
  Python's \<open>str\<close> of floats, lists and dictionaries.
\<close>

section \<open>Context\<close>

record sales_settings =
  ss_llm :: llm_settings
  ss_require_human_approval :: bool
  ss_default_channel :: string

record ai_env =
  en_persist :: persist
  en_transport :: transport
  en_perf :: "nat \<Rightarrow> rat"
  en_str :: "json \<Rightarrow> string"
  en_bracket_ok :: "string \<Rightarrow> bool"

record agent_context =
  ag_settings :: sales_settings
  ag_workspace :: "workspace option"
  ag_gateway :: "gateway option"

definition demo_mode :: "agent_context \<Rightarrow> bool" where
  "demo_mode a = (st_llm_mode (ss_llm (ag_settings a)) = DEMO)"

text \<open>\<open>a or b or c\<close> on optional texts.\<close>

definition truthy :: "string option \<Rightarrow> bool" where
  "truthy v = (case v of None \<Rightarrow> False | Some s \<Rightarrow> s \<noteq> [])"

definition contact_of :: "lead \<Rightarrow> string" where
  "contact_of l =
     (case ld_email l of
        Some (c # cs) \<Rightarrow> c # cs
      | _ \<Rightarrow> (case ld_phone l of Some (c # cs) \<Rightarrow> c # cs | _ \<Rightarrow> ld_full_name l))"

section \<open>Stage detection\<close>

definition QUALIFICATION_TERMS :: "points list" where
  "QUALIFICATION_TERMS = [points ''price'', points ''cost'', points ''how much'',
     [216, 179, 216, 185, 216, 177], [217, 8218, 216, 175, 216, 167, 216, 180], points ''prix'']"

definition OBJECTION_TERMS :: "points list" where
  "OBJECTION_TERMS = [points ''expensive'', points ''too much'',
     [216, 186, 216, 167, 217, 8222, 217, 352], points ''cher'', points ''not interested'']"

definition CLOSING_TERMS :: "points list" where
  "CLOSING_TERMS = [points ''buy'', points ''order'', points ''start'', points ''sign'',
     [217, 8224, 216, 173, 216, 168, 32, 217, 8224, 216, 167, 216, 174, 216, 176], points ''commander'']"

definition DISCOVERY_TERMS :: "points list" where
  "DISCOVERY_TERMS = [points ''need'', points ''problem'', points ''looking for'',
     [217, 8224, 216, 173, 216, 170, 216, 167, 216, 172], points ''besoin'']"

definition detect_stage :: "points \<Rightarrow> sales_stage" where
  "detect_stage message =
     (let t = points_lower message in
      if list_ex (\<lambda>w. points_in w t) QUALIFICATION_TERMS then QUALIFICATION
      else if list_ex (\<lambda>w. points_in w t) OBJECTION_TERMS then OBJECTION_HANDLING
      else if list_ex (\<lambda>w. points_in w t) CLOSING_TERMS then CLOSING
      else if list_ex (\<lambda>w. points_in w t) DISCOVERY_TERMS then DISCOVERY
      else VALUE_PROPOSITION)"

section \<open>Prompt of the conversation agent\<close>

definition product_context_of :: "product \<Rightarrow> product_context" where
  "product_context_of p =
     \<lparr>px_name = pr_name p, px_description = pr_description p, px_price = pr_price p,
      px_billing_period = (case map_of (pr_metadata_json p) ''billing'' of
         Some (JStr s) \<Rightarrow> if py_strip s \<noteq> [] then Some (py_strip s) else None
       | _ \<Rightarrow> None),
      px_active = pr_active p\<rparr>"

definition product_contexts :: "product list \<Rightarrow> product_context list" where
  "product_contexts ps = map product_context_of (take 10 ps)"

definition conversation_context :: "conversation_message list \<Rightarrow> prompt_message list" where
  "conversation_context history = map (\<lambda>m.
     \<lparr>pm_role = (if cm_direction m = ''inbound'' then ROLE_USER else ROLE_ASSISTANT),
      pm_content = cm_content m, pm_trust = UNTRUSTED\<rparr>) history"

definition prior_customer_messages :: "conversation_message list \<Rightarrow> string list" where
  "prior_customer_messages history =
     map cm_content (filter (\<lambda>m. cm_direction m = ''inbound'') history)"

definition workspace_instructions :: "agent_context \<Rightarrow> string option" where
  "workspace_instructions a = (case ag_workspace a of None \<Rightarrow> None
     | Some ws \<Rightarrow> if truthy (ws_sales_instructions ws) then ws_sales_instructions ws else None)"

definition reply_style :: "agent_context \<Rightarrow> string \<Rightarrow> conversation_message list \<Rightarrow> communication_style" where
  "reply_style a inbound history =
     select_sales_communication_style (points inbound)
       (Option.bind (ag_workspace a) ws_sales_preferred_language)
       (Option.bind (ag_workspace a) ws_sales_preferred_script)
       (map points (prior_customer_messages history))"

definition reply_tone :: "agent_context \<Rightarrow> sales_tone" where
  "reply_tone a = select_sales_tone (Option.bind (ag_workspace a) ws_sales_preferred_tone)"

definition current_task :: "lead \<Rightarrow> sales_stage \<Rightarrow> string \<Rightarrow> string" where
  "current_task l stage inbound =
     ''Sales stage: '' @ stage_value stage @ newline @
     ''Lead: '' @ ld_full_name l @ '' at '' @ ld_company_name l @ newline @
     ''Customer message: '' @ inbound"

definition sales_prompt_input ::
  "agent_context \<Rightarrow> lead \<Rightarrow> string \<Rightarrow> sales_stage \<Rightarrow> product list \<Rightarrow> conversation_message list
   \<Rightarrow> composition_input" where
  "sales_prompt_input a l inbound stage ps history =
     \<lparr>ci_platform_policy = SALES_PLATFORM_POLICY, ci_department_policy = SALES_DEPARTMENT_POLICY,
      ci_agent_instructions = ''Ask one useful next question.'',
      ci_current_task = current_task l stage inbound,
      ci_commercial_grounding_policy = Some SALES_COMMERCIAL_GROUNDING_POLICY,
      ci_strategy_policy = Some SALES_CONVERSATION_STRATEGY_POLICY,
      ci_quality_policy = Some SALES_CONVERSATION_QUALITY_POLICY,
      ci_handoff_policy = Some SALES_HANDOFF_POLICY,
      ci_handoff_instruction = None,
      ci_language_tone = Some (render_sales_communication_instruction
         (cs_language (reply_style a inbound history)) (cs_script (reply_style a inbound history))
         (reply_tone a)),
      ci_workspace_instructions = workspace_instructions a,
      ci_business_context = Some \<lparr>bc_company = map_option ws_name (ag_workspace a),
         bc_products = product_contexts ps\<rparr>,
      ci_untrusted_context = [],
      ci_conversation = conversation_context history\<rparr>"

definition compose_sales_prompt ::
  "agent_context \<Rightarrow> lead \<Rightarrow> string \<Rightarrow> sales_stage \<Rightarrow> product list \<Rightarrow> conversation_message list \<Rightarrow> composition" where
  "compose_sales_prompt a l inbound stage ps history =
     compose (sales_prompt_input a l inbound stage ps history)"

section \<open>Demo replies\<close>

definition first_name :: "lead \<Rightarrow> string" where
  "first_name l = takeWhile (\<lambda>c. \<not> py_isspace c) (py_strip (ld_full_name l))"

fun json_truthy :: "json \<Rightarrow> bool" where
  "json_truthy JNull = False"
| "json_truthy (JBool b) = b"
| "json_truthy (JInt n) = (n \<noteq> 0)"
| "json_truthy (JFloat x) = (x \<noteq> 0)"
| "json_truthy (JStr s) = (s \<noteq> [])"
| "json_truthy (JList xs) = (xs \<noteq> [])"
| "json_truthy (JObj fs) = (fs \<noteq> [])"

fun json_str :: "(json \<Rightarrow> string) \<Rightarrow> json \<Rightarrow> string" where
  "json_str other JNull = ''None''"
| "json_str other (JBool b) = (if b then ''True'' else ''False'')"
| "json_str other (JInt n) = py_int_str n"
| "json_str other (JStr s) = s"
| "json_str other j = other j"

definition billing_text :: "(json \<Rightarrow> string) \<Rightarrow> product \<Rightarrow> string" where
  "billing_text other p =
     (let billing = (case map_of (pr_metadata_json p) ''billing'' of None \<Rightarrow> JStr [] | Some j \<Rightarrow> j)
      in if json_truthy billing then '' '' @ json_str other billing else [])"

definition pricing_reply :: "(json \<Rightarrow> string) \<Rightarrow> string \<Rightarrow> product list \<Rightarrow> string" where
  "pricing_reply other name ps =
     (case ps of
        p # _ \<Rightarrow>
          (case pr_price p of
             Some price \<Rightarrow> ''Thanks '' @ name @ ''. Our '' @ pr_name p @ '' costs '' @ fixed2 price @
               billing_text other p @ ''. Would you like me to explain what is included?''
           | None \<Rightarrow> ''Thanks '' @ name @ ''. Pricing depends on message volume, channels, '' @
               ''and the level of automation. What channels do you currently use?'')
      | [] \<Rightarrow> ''Thanks '' @ name @ ''. Pricing depends on message volume, channels, '' @
          ''and the level of automation. What channels do you currently use?'')"

text \<open>The dictionary of replies has no entry for the introduction and follow-up stages.\<close>

fun demo_reply :: "(json \<Rightarrow> string) \<Rightarrow> string \<Rightarrow> product list \<Rightarrow> sales_stage \<Rightarrow> error + string" where
  "demo_reply other name ps DISCOVERY =
     Inr (''Thanks '' @ name @ ''. To recommend the right option, what is the main sales '' @
          ''problem you want to solve first: lead capture, faster replies, or follow-up?'')"
| "demo_reply other name ps QUALIFICATION = Inr (pricing_reply other name ps)"
| "demo_reply other name ps OBJECTION_HANDLING =
     Inr (''I understand, '' @ name @ ''. We should not add automation unless it saves more '' @
          ''time or revenue than it costs. Which part feels too expensive or unnecessary?'')"
| "demo_reply other name ps CLOSING =
     Inr (''Great, '' @ name @ ''. I can prepare the next step, but a human team member will '' @
          ''confirm the scope, final price, and payment details before anything is activated.'')"
| "demo_reply other name ps VALUE_PROPOSITION =
     Inr (''Thanks '' @ name @ ''. Our sales assistant can organize leads, draft personalized '' @
          ''replies, and schedule follow-ups while keeping a human approval step before sending.'')"
| "demo_reply other name ps INTRODUCTION = Inl KeyError"
| "demo_reply other name ps FOLLOW_UP = Inl KeyError"

section \<open>Drafting a reply\<close>

text \<open>
  The content of a completion: a missing or null content is the agent's RuntimeError. A chat
  completion's content is a text or null; another JSON value is outside the model (\<open>TypeError\<close>).
\<close>

definition completion_text :: "json option \<Rightarrow> error + string" where
  "completion_text c = (case c of
       None \<Rightarrow> Inl RuntimeError
     | Some JNull \<Rightarrow> Inl RuntimeError
     | Some (JStr s) \<Rightarrow> Inr s
     | Some _ \<Rightarrow> Inl TypeError)"

definition agent_request ::
  "string \<Rightarrow> string \<Rightarrow> string \<Rightarrow> composition \<Rightarrow> lead \<Rightarrow> gateway_request" where
  "agent_request task task_identifier agent c l =
     \<lparr>gr_task = task, gr_task_identifier = task_identifier, gr_agent_identifier = agent,
      gr_system_prompt = system_prompt c, gr_user_prompt = user_prompt c,
      gr_conversation_id = Some (ld_id l), gr_premium_justification = None,
      gr_expected_total_tokens = None, gr_expected_estimated_cost = None, gr_pricing_known = None\<rparr>"

definition agent_invoke ::
  "ai_env \<Rightarrow> agent_context \<Rightarrow> gateway_request \<Rightarrow> int \<Rightarrow> string op" where
  "agent_invoke e a r now d =
     (case ag_gateway a of
        None \<Rightarrow> (Inl RuntimeError, d)
      | Some g \<Rightarrow>
          (case ag_workspace a of
             None \<Rightarrow> (Inl RuntimeError, d)
           | Some ws \<Rightarrow>
               (case gateway_invoke (en_persist e) (en_transport e) (en_perf e) now g ws r d of
                  (Inl x, d') \<Rightarrow> (Inl x, d')
                | (Inr answer, d') \<Rightarrow> (completion_text (gx_content answer), d'))))"

definition draft_reply ::
  "ai_env \<Rightarrow> agent_context \<Rightarrow> lead \<Rightarrow> string \<Rightarrow> conversation_message list \<Rightarrow> sales_stage option \<Rightarrow> int
   \<Rightarrow> (sales_stage \<times> string) op" where
  "draft_reply e a l inbound history current now d =
     (let stage = detect_stage (points inbound);
          canonical = (case current of None \<Rightarrow> stage | Some st \<Rightarrow> st);
          ps = list_products (ld_tenant_id l) d
      in if demo_mode a
         then (bindE (demo_reply (en_str e) (first_name l) ps stage) (\<lambda>reply. Inr (stage, reply)), d)
         else case agent_invoke e a
                (agent_request ''sales_conversation'' ''sales.conversation.reply'' ''sales_conversation''
                   (compose_sales_prompt a l inbound canonical ps history) l) now d of
             (Inl x, d') \<Rightarrow> (Inl x, d')
           | (Inr reply, d') \<Rightarrow> (Inr (stage, reply), d'))"

section \<open>Lead research\<close>

text \<open>
  \<open>urlparse(url).netloc\<close>: leading control characters and blanks are dropped, tabs and line breaks
  removed, a scheme is cut off, and after \<open>//\<close> the authority extends to the next \<open>/\<close>, \<open>?\<close> or \<open>#\<close>.
  Unbalanced brackets raise ValueError, and so does a bracketed host that \<open>bracket_ok\<close> refuses, the check
  \<open>urlparse\<close> leaves to \<open>ipaddress\<close>.
\<close>

definition scheme_char :: "char \<Rightarrow> bool" where
  "scheme_char c = (is_lower_az c \<or> is_upper_AZ c \<or> is_digit09 c \<or> one_of ''+-.'' c)"

definition drop_scheme :: "string \<Rightarrow> string" where
  "drop_scheme u =
     (let scheme = takeWhile (\<lambda>c. c \<noteq> CHR '':'') u in
      if length scheme < length u \<and> scheme \<noteq> [] \<and> (is_lower_az (hd scheme) \<or> is_upper_AZ (hd scheme)) \<and>
         list_all scheme_char scheme
      then drop (Suc (length scheme)) u else u)"

definition url_netloc :: "(string \<Rightarrow> bool) \<Rightarrow> string \<Rightarrow> error + string" where
  "url_netloc bracket_ok url =
     (let u = drop_scheme (filter (\<lambda>c. c \<noteq> CHR 0x09 \<and> c \<noteq> CHR 0x0A \<and> c \<noteq> CHR 0x0D)
                (dropWhile (\<lambda>c. (of_char c :: nat) \<le> 32) url))
      in if take 2 u \<noteq> ''//'' then Inr []
         else let netloc = takeWhile (\<lambda>c. \<not> one_of ''/?#'' c) (drop 2 u);
                  l = (CHR 0x5B \<in> set netloc); r = (CHR 0x5D \<in> set netloc) in
           if l \<noteq> r \<or> (l \<and> r \<and> \<not> bracket_ok netloc) then Inl ValueError else Inr netloc)"

definition lead_domain :: "(string \<Rightarrow> bool) \<Rightarrow> lead \<Rightarrow> error + string" where
  "lead_domain bracket_ok l =
     (case ld_website l of
        None \<Rightarrow> Inr []
      | Some w \<Rightarrow> if w = [] then Inr []
                  else bindE (url_netloc bracket_ok w) (\<lambda>n. Inr (if n = [] then w else n)))"

definition lead_data :: "lead \<Rightarrow> string" where
  "lead_data l =
     ''Lead: '' @ ld_full_name l @ newline @ ''Company: '' @ ld_company_name l @ newline @
     ''Title: '' @ py_text (ld_job_title l) @ newline @ ''Website: '' @ py_text (ld_website l) @ newline @
     ''Notes: '' @ py_text (ld_notes l)"

definition research_prompt_input :: "agent_context \<Rightarrow> lead \<Rightarrow> composition_input" where
  "research_prompt_input a l =
     \<lparr>ci_platform_policy = SALES_PLATFORM_POLICY, ci_department_policy = SALES_DEPARTMENT_POLICY,
      ci_agent_instructions =
        ''You are a cautious B2B lead research agent. Use only the supplied '' @
        ''lead and business context; do not perform external research. Return a '' @
        ''compact research brief with likely pain points, opportunities, and '' @
        ''explicit uncertainty.'',
      ci_current_task = ''Create the requested lead research brief from the supplied context.'',
      ci_commercial_grounding_policy = None, ci_strategy_policy = None, ci_quality_policy = None,
      ci_handoff_policy = None, ci_handoff_instruction = None, ci_language_tone = None,
      ci_workspace_instructions = workspace_instructions a,
      ci_business_context = None,
      ci_untrusted_context = [\<lparr>uc_label = ''Supplied lead data (untrusted)'', uc_content = lead_data l\<rparr>],
      ci_conversation = []\<rparr>"

definition demo_research_summary :: "lead \<Rightarrow> string \<Rightarrow> string" where
  "demo_research_summary l domain =
     (let signals = filter (\<lambda>s. s \<noteq> [])
            (map (\<lambda>v. case v of None \<Rightarrow> [] | Some s \<Rightarrow> s) [ld_job_title l, ld_notes l, Some domain])
      in ''Initial research brief for '' @ ld_company_name l @ ''. '' @ ''Available signals: '' @
         (if signals = [] then ''basic lead data only'' else py_join '', '' signals) @
         ''. This is a demo brief and contains no external web research.'')"

record research_brief =
  rb_summary :: string
  rb_pain_points :: "string list"
  rb_opportunities :: "string list"
  rb_evidence :: "(string \<times> string option) list list"

definition demo_research :: "lead \<Rightarrow> string \<Rightarrow> research_brief" where
  "demo_research l domain =
     \<lparr>rb_summary = demo_research_summary l domain,
      rb_pain_points = [''Manual lead follow-up may consume sales time'',
        ''Customer information may be spread across different channels''],
      rb_opportunities = [''Centralize the lead pipeline and conversation history'',
        ''Use human-approved AI drafts to speed up sales responses''],
      rb_evidence =
        [[(''type'', Some ''lead_input''), (''field'', Some ''company_name''), (''value'', Some (ld_company_name l))],
         [(''type'', Some ''lead_input''), (''field'', Some ''website''), (''value'', ld_website l)]]\<rparr>"

definition ai_research :: "lead \<Rightarrow> string \<Rightarrow> research_brief" where
  "ai_research l summary =
     \<lparr>rb_summary = summary, rb_pain_points = [''Review the generated brief before outreach''],
      rb_opportunities = [''Prepare a personalized discovery message''],
      rb_evidence = [[(''type'', Some ''lead_input''), (''value'', Some (lead_data l))]]\<rparr>"

definition run_research :: "ai_env \<Rightarrow> agent_context \<Rightarrow> lead \<Rightarrow> clock \<Rightarrow> research_brief op" where
  "run_research e a l clk d =
     (case lead_domain (en_bracket_ok e) l of
        Inl x \<Rightarrow> (Inl x, d)
      | Inr domain \<Rightarrow>
          (case (if demo_mode a then (Inr (demo_research l domain), d)
                 else case agent_invoke e a
                        (agent_request ''simple_summary'' ''sales.lead_research'' ''lead_research''
                           (compose (research_prompt_input a l)) l) (clk 2) d of
                     (Inl x, d') \<Rightarrow> (Inl x, d')
                   | (Inr summary, d') \<Rightarrow> (Inr (ai_research l summary), d')) of
             (Inl x, d') \<Rightarrow> (Inl x, d')
           | (Inr b, d') \<Rightarrow>
               (Inr b, snd (save_research l (rb_summary b) (rb_pain_points b) (rb_opportunities b)
                              (rb_evidence b) clk d'))))"

section \<open>Qualification\<close>

record qualification_result =
  qr_score :: int
  qr_qualified :: bool
  qr_reasons :: "string list"

text \<open>The rules in the order of the code: points and reason of each that applies.\<close>

definition qualification_rules :: "lead \<Rightarrow> string list \<Rightarrow> (int \<times> string) list" where
  "qualification_rules l opportunities =
     (if truthy (ld_email l) \<or> truthy (ld_phone l) then [(20, ''A direct contact channel is available'')] else []) @
     (if truthy (ld_website l) then [(15, ''A company website is available'')] else []) @
     (if truthy (ld_job_title l) then [(15, ''The lead role is known'')] else []) @
     (case ld_notes l of None \<Rightarrow> []
      | Some n \<Rightarrow> if n \<noteq> [] \<and> 20 \<le> length (py_strip n) then [(15, ''Useful discovery notes are available'')] else []) @
     (if opportunities \<noteq> []
      then [(min 20 (int (length opportunities) * 10), ''The research brief identified relevant opportunities'')]
      else [])"

definition DEFAULT_THRESHOLD :: int where "DEFAULT_THRESHOLD = 55"

definition qualify :: "int \<Rightarrow> lead \<Rightarrow> string list \<Rightarrow> qualification_result" where
  "qualify threshold l opportunities =
     (let rules = qualification_rules l opportunities;
          score = min (10 + sum_list (map fst rules)) 100
      in \<lparr>qr_score = score, qr_qualified = (threshold \<le> score), qr_reasons = map snd rules\<rparr>)"

definition run_qualification :: "int \<Rightarrow> lead \<Rightarrow> string list \<Rightarrow> int \<Rightarrow> db \<Rightarrow> qualification_result \<times> db" where
  "run_qualification threshold l opportunities t d =
     (let q = qualify threshold l opportunities
      in (q, snd (update_lead_score l (qr_score q) (qr_qualified q) t d)))"

section \<open>Follow-up tasks\<close>

definition schedule_follow_up :: "lead \<Rightarrow> string \<Rightarrow> int \<Rightarrow> clock \<Rightarrow> db \<Rightarrow> follow_up_task \<times> db" where
  "schedule_follow_up l reason delay_days clk d =
     (let f = \<lparr>fu_id = next_id d, fu_lead_id = ld_id l, fu_due_at = utc (clk 0 + days (max 1 delay_days)),
              fu_reason = reason, fu_status = ''pending'', fu_created_at = utc (clk 1)\<rparr>
      in (f, take_id (d\<lparr>follow_ups := follow_ups d @ [f]\<rparr>)))"

end
