(* ===== verification/Webhook_Auth.thy ===== *)
theory Webhook_Auth
  imports Access Accounts
begin

text \<open>
  Authentication of inbound webhooks (app/services/webhook_authentication.py), the verified
  integration context of app/api/dependencies.py, and the reservation of inbound events in
  app/services/inbound_integrations.py. HMAC-SHA256 in hexadecimal and SHA-256 are parameters; a
  header is a Latin-1 text and a body a list of bytes, both written as characters.
\<close>

section \<open>Numerals and encodings\<close>

text \<open>\<open>int(text)\<close>: white space at the ends, a sign, digits with single underscores between them, at
  most 4300 digits; \<open>None\<close> is \<open>ValueError\<close>.\<close>

fun digits_underscored :: "string \<Rightarrow> bool" where
  "digits_underscored [] = False"
| "digits_underscored [c] = is_digit09 c"
| "digits_underscored (c # e # s) =
     (is_digit09 c \<and> (if e = CHR ''_'' then digits_underscored s else digits_underscored (e # s)))"

definition py_int :: "string \<Rightarrow> int option" where
  "py_int text =
     (let s = py_strip text;
          (sg, ds) = (case s of [] \<Rightarrow> (1, []) | c # r \<Rightarrow>
             if c = CHR ''-'' then (-1, r) else if c = CHR ''+'' then (1, r) else (1 :: int, s));
          n = filter (\<lambda>c. c \<noteq> CHR ''_'') ds
      in if \<not> digits_underscored ds \<or> 4300 < length n then None
         else Some (sg * fold (\<lambda>c v. 10 * v + (of_char c - 48)) n 0))"

definition is_ascii :: "string \<Rightarrow> bool" where
  "is_ascii s = list_all (\<lambda>c. (of_char c :: nat) < 128) s"

definition utf8 :: "string \<Rightarrow> string" where
  "utf8 s = concat (map (\<lambda>c. let n = (of_char c :: nat) in
     if n < 128 then [c] else [char_of (192 + n div 64), char_of (128 + n mod 64)]) s)"

text \<open>An integer of this size has no \<open>float\<close>: subtracting it from \<open>time.time()\<close> raises.\<close>

definition float_overflow :: "int \<Rightarrow> bool" where
  "float_overflow n = (2 ^ 1024 - 2 ^ 970 \<le> \<bar>n\<bar>)"

section \<open>The generic HMAC verifier\<close>

record verified_metadata =
  vm_provider :: string
  vm_timestamp :: int
  vm_event_id :: "string option"

type_synonym hmac = "string \<Rightarrow> string \<Rightarrow> string"

abbreviation webhook_error :: error where
  "webhook_error \<equiv> IdentityE WebhookAuthenticationError"

text \<open>\<open>hmac.compare_digest\<close> on two texts raises \<open>TypeError\<close> unless both are ASCII; the digest is.\<close>

definition compare_digest :: "string \<Rightarrow> string \<Rightarrow> error + bool" where
  "compare_digest a b = (if is_ascii a \<and> is_ascii b then Inr (a = b) else Inl TypeError)"

definition hmac_verify ::
  "hmac \<Rightarrow> rat \<Rightarrow> string \<Rightarrow> string option \<Rightarrow> string option \<Rightarrow> string option \<Rightarrow> string option \<Rightarrow> int
   \<Rightarrow> error + verified_metadata" where
  "hmac_verify hmac now payload signature timestamp event_id secret max_age =
     (case (secret, signature, timestamp) of
        (Some sec, Some sig, Some ts) \<Rightarrow>
          if sec = [] \<or> sig = [] \<or> ts = [] then Inl webhook_error
          else (case py_int ts of
              None \<Rightarrow> Inl webhook_error
            | Some t \<Rightarrow>
                if float_overflow t then Inl OverflowError
                else if of_int max_age < \<bar>now - of_int t\<bar> then Inl webhook_error
                else if \<not> is_ascii ts then Inl UnicodeEncodeError
                else bindE (compare_digest sig (hmac (utf8 sec) (ts @ ''.'' @ payload))) (\<lambda>same.
                  if \<not> same then Inl webhook_error
                  else Inr \<lparr>vm_provider = ''generic_hmac'', vm_timestamp = t, vm_event_id = event_id\<rparr>))
      | _ \<Rightarrow> Inl webhook_error)"

definition webhook_authenticate ::
  "hmac \<Rightarrow> (string \<times> string) list \<Rightarrow> int \<Rightarrow> rat \<Rightarrow> integration_account \<Rightarrow> string \<Rightarrow> string option
   \<Rightarrow> string option \<Rightarrow> string option \<Rightarrow> error + verified_metadata" where
  "webhook_authenticate hmac env max_age now account payload signature timestamp event_id =
     (if ac_provider account \<noteq> ''generic_hmac'' then Inl webhook_error
      else hmac_verify hmac now payload signature timestamp event_id
             (env_resolve env (ac_secret_reference account)) max_age)"

definition get_verified_integration_context ::
  "(string \<Rightarrow> string) \<Rightarrow> hmac \<Rightarrow> (string \<times> string) list \<Rightarrow> int \<Rightarrow> rat \<Rightarrow> string \<Rightarrow> string \<Rightarrow> string option
   \<Rightarrow> string option \<Rightarrow> string option \<Rightarrow> db \<Rightarrow> error + integration_context" where
  "get_verified_integration_context sha256 hmac env max_age now key payload signature timestamp event_id d =
     (case bindE (resolve_integration_account sha256 key d) (\<lambda>a.
           bindE (webhook_authenticate hmac env max_age now a payload signature timestamp event_id) (\<lambda>_.
           bindE (resolve_integration_workspace_for_account a d) (\<lambda>w.
           Inr \<lparr>ic_account = a, ic_workspace = w\<rparr>))) of
        Inl e \<Rightarrow>
          if e = IdentityE InvalidIntegrationContextError \<or> e = webhook_error
          then Inl (HTTPException 401 ''Invalid webhook authentication'') else Inl e
      | Inr c \<Rightarrow> Inr c)"

lemma hmac_verify_Inr_iff:
  "hmac_verify hmac now payload signature timestamp event_id secret max_age = Inr m \<longleftrightarrow>
   (\<exists>sec sig ts t. secret = Some sec \<and> signature = Some sig \<and> timestamp = Some ts \<and>
      sec \<noteq> [] \<and> sig \<noteq> [] \<and> ts \<noteq> [] \<and> py_int ts = Some t \<and> \<not> float_overflow t \<and>
      \<bar>now - of_int t\<bar> \<le> of_int max_age \<and> is_ascii ts \<and> is_ascii sig \<and>
      sig = hmac (utf8 sec) (ts @ ''.'' @ payload) \<and>
      m = \<lparr>vm_provider = ''generic_hmac'', vm_timestamp = t, vm_event_id = event_id\<rparr>)"
proof (cases secret; cases signature; cases timestamp)
  fix sec sig ts assume "secret = Some sec" "signature = Some sig" "timestamp = Some ts"
  then show ?thesis
    by (cases "py_int ts") (auto simp: hmac_verify_def compare_digest_def bindE_def split: if_splits)
qed (simp_all add: hmac_verify_def)

text \<open>C27: An inbound request is accepted only with proof of the account's secret: the accepted context
  is the active account whose credential hash the integration key has and its active workspace,
  the secret comes from the reserved namespace of the environment, and the signature is the HMAC of the
  timestamp, a point and the body under that secret, with a timestamp at most the maximal age away.\<close>

theorem verified_context_authentic:
  assumes "get_verified_integration_context sha256 hmac env max_age now key payload signature timestamp event_id d = Inr c"
  shows "ic_account c \<in> set (accounts d) \<and> ac_active (ic_account c) \<and>
    ac_credential_hash (ic_account c) = sha256 key \<and>
    ic_workspace c \<in> set (workspaces d) \<and> ws_active (ic_workspace c) \<and>
    ws_id (ic_workspace c) = ac_workspace_id (ic_account c) \<and>
    (\<exists>name secret ts t. ac_secret_reference (ic_account c) = Some (secret_prefix @ name) \<and>
       map_of env (secret_prefix @ name) = Some secret \<and> secret \<noteq> [] \<and>
       timestamp = Some ts \<and> py_int ts = Some t \<and> \<bar>now - of_int t\<bar> \<le> of_int max_age \<and>
       signature = Some (hmac (utf8 secret) (ts @ ''.'' @ payload)))"
proof -
  obtain a m w where a: "resolve_integration_account sha256 key d = Inr a"
    and m: "webhook_authenticate hmac env max_age now a payload signature timestamp event_id = Inr m"
    and w: "resolve_integration_workspace_for_account a d = Inr w"
    and c: "c = \<lparr>ic_account = a, ic_workspace = w\<rparr>"
    using assms by (auto simp: get_verified_integration_context_def bindE_def split: sum.splits if_splits)
  from a have acc: "a \<in> set (accounts d)" "ac_active a" "ac_credential_hash a = sha256 key"
    by (auto simp: resolve_integration_account_def find_Some_iff split: option.splits)
  from w have ws: "w \<in> set (workspaces d)" "ws_active w" "ws_id w = ac_workspace_id a"
    by (auto simp: resolve_integration_workspace_for_account_def get_workspace_row_def
        split: option.splits if_splits dest: row_find_SomeD)
  from m obtain secret sig ts t where s: "env_resolve env (ac_secret_reference a) = Some secret" "secret \<noteq> []"
    "signature = Some sig" "timestamp = Some ts" "py_int ts = Some t" "\<bar>now - of_int t\<bar> \<le> of_int max_age"
    "sig = hmac (utf8 secret) (ts @ ''.'' @ payload)"
    by (auto simp: webhook_authenticate_def hmac_verify_Inr_iff split: if_splits)
  from env_resolve_namespace [OF s(1)] obtain name where n: "ac_secret_reference a = Some (secret_prefix @ name)"
    by blast
  with s(1) have "map_of env (secret_prefix @ name) = Some secret"
    by (simp add: env_resolve_def split: if_splits)
  with acc ws s n c show ?thesis by simp
qed


definition sample_webhook_account :: integration_account where
  "sample_webhook_account = (sample_account ''h'')\<lparr>ac_provider := ''generic_hmac'',
     ac_secret_reference := Some (secret_prefix @ ''A'')\<rparr>"

definition webhook_db :: db where
  "webhook_db = sample_db\<lparr>accounts := [sample_webhook_account]\<rparr>"

definition plain_hmac :: hmac where
  "plain_hmac key text = replicate (length key + length text) CHR ''a''"

lemma sample_int: "py_int ''7'' = Some 7"
  by code_simp

lemma sample_webhook_run:
  "get_verified_integration_context (\<lambda>k. k) plain_hmac [(secret_prefix @ ''A'', ''s'')] 300 9 ''h'' ''{}''
     (Some ''aaaaa'') (Some ''7'') None webhook_db =
   Inr \<lparr>ic_account = sample_webhook_account, ic_workspace = sample_ws\<rparr>"
proof -
  have env: "env_resolve [(secret_prefix @ ''A'', ''s'')] (Some (secret_prefix @ ''A'')) = Some ''s''"
    by (simp add: env_resolve_def secret_is_allowed_def secret_validate_def secret_reference_matches_def
        is_upper_AZ_def)
  have "hmac_verify plain_hmac 9 ''{}'' (Some ''aaaaa'') (Some ''7'') None (Some ''s'') 300 =
      Inr \<lparr>vm_provider = ''generic_hmac'', vm_timestamp = 7, vm_event_id = None\<rparr>"
    by (simp add: hmac_verify_Inr_iff sample_int float_overflow_def is_ascii_def plain_hmac_def utf8_def
        numeral_eq_Suc)
  then show ?thesis
    by (simp add: get_verified_integration_context_def resolve_integration_account_def webhook_db_def
        sample_webhook_account_def webhook_authenticate_def env
        resolve_integration_workspace_for_account_def get_workspace_row_def sample_defs)
qed

theorem verified_context_authentic_witness:
  "ac_active sample_webhook_account \<and> sample_webhook_account \<in> set (accounts webhook_db)"
  using verified_context_authentic [OF sample_webhook_run] by simp

text \<open>C28: Every rejected webhook request is answered with the one error 401, except three kinds of
  malformed headers that escape as unhandled exceptions: a signature with a character outside
  ASCII, a timestamp that is a numeral surrounded by non-ASCII white space, and a timestamp too
  large for a floating-point number.\<close>

theorem webhook_rejections:
  assumes ascii: "\<And>k m. is_ascii (hmac k m)"
    and rej: "get_verified_integration_context sha256 hmac env max_age now key payload signature timestamp event_id d = Inl e"
  shows "e = HTTPException 401 ''Invalid webhook authentication'' \<or>
    (e = TypeError \<and> (\<exists>sig. signature = Some sig \<and> \<not> is_ascii sig)) \<or>
    (e = UnicodeEncodeError \<and> (\<exists>ts. timestamp = Some ts \<and> py_int ts \<noteq> None \<and> \<not> is_ascii ts)) \<or>
    (e = OverflowError \<and> (\<exists>ts t. timestamp = Some ts \<and> py_int ts = Some t \<and> float_overflow t))"
proof -
  have acc: "x = IdentityE InvalidIntegrationContextError" if "resolve_integration_account sha256 key d = Inl x" for x
    using that by (simp add: resolve_integration_account_def split: option.splits)
  have ws: "x = IdentityE InvalidIntegrationContextError"
    if "resolve_integration_workspace_for_account a d = Inl x" for a x
    using that by (simp add: resolve_integration_workspace_for_account_def split: option.splits if_splits)
  have auth: "x = webhook_error \<or>
      (x = TypeError \<and> (\<exists>sig. signature = Some sig \<and> \<not> is_ascii sig)) \<or>
      (x = UnicodeEncodeError \<and> (\<exists>ts. timestamp = Some ts \<and> py_int ts \<noteq> None \<and> \<not> is_ascii ts)) \<or>
      (x = OverflowError \<and> (\<exists>ts t. timestamp = Some ts \<and> py_int ts = Some t \<and> float_overflow t))"
    if "webhook_authenticate hmac env max_age now a payload signature timestamp event_id = Inl x" for a x
    using that
    by (auto simp: webhook_authenticate_def hmac_verify_def compare_digest_def ascii bindE_def
        split: if_splits option.splits)
  show ?thesis
  proof (cases "resolve_integration_account sha256 key d")
    case (Inl x)
    with acc [OF Inl] rej show ?thesis by (simp add: get_verified_integration_context_def)
  next
    case a: (Inr a)
    show ?thesis
    proof (cases "webhook_authenticate hmac env max_age now a payload signature timestamp event_id")
      case (Inl x)
      with auth [OF Inl] a rej show ?thesis by (auto simp: get_verified_integration_context_def)
    next
      case (Inr m)
      with a rej show ?thesis
        by (cases "resolve_integration_workspace_for_account a d")
          (auto simp: get_verified_integration_context_def dest: ws)
    qed
  qed
qed

lemma ascii_plain_hmac: "is_ascii (plain_hmac k m)"
  by (simp add: is_ascii_def plain_hmac_def list_all_iff)

lemma sample_webhook_type_error:
  "get_verified_integration_context (\<lambda>k. k) plain_hmac [(secret_prefix @ ''A'', ''s'')] 300 9 ''h'' ''{}''
     (Some [CHR 0xE9]) (Some ''7'') None webhook_db = Inl TypeError"
proof -
  have env: "env_resolve [(secret_prefix @ ''A'', ''s'')] (Some (secret_prefix @ ''A'')) = Some ''s''"
    by (simp add: env_resolve_def secret_is_allowed_def secret_validate_def secret_reference_matches_def
        is_upper_AZ_def)
  show ?thesis
    by (simp add: get_verified_integration_context_def resolve_integration_account_def webhook_db_def
        sample_webhook_account_def webhook_authenticate_def env hmac_verify_def sample_int
        float_overflow_def compare_digest_def is_ascii_def sample_account_def)
qed

theorem webhook_rejections_witness:
  "\<exists>sig. Some [CHR 0xE9] = Some sig \<and> \<not> is_ascii sig"
  using webhook_rejections [OF ascii_plain_hmac sample_webhook_type_error] by simp

section \<open>Inbound events\<close>

definition event_id_pattern :: "string \<Rightarrow> bool" where
  "event_id_pattern = head_tail_match (\<lambda>c. is_lower_az c \<or> is_upper_AZ c \<or> is_digit09 c)
     (\<lambda>c. is_lower_az c \<or> is_upper_AZ c \<or> is_digit09 c \<or> one_of ''._:-'' c) 199"

definition normalize_external_event_id :: "string \<Rightarrow> error + string" where
  "normalize_external_event_id v =
     (if event_id_pattern (py_strip v) then Inr (py_strip v)
      else Inl (SalesE InboundIntegrationEventIdValidationError))"

record event_reservation =
  er_receipt :: inbound_receipt
  er_first_delivery :: bool

definition find_receipt :: "workspace \<Rightarrow> integration_account \<Rightarrow> string \<Rightarrow> db \<Rightarrow> inbound_receipt option" where
  "find_receipt ws acc ev d = find (\<lambda>r. ir_workspace_id r = ws_id ws \<and>
     ir_integration_account_id r = ac_id acc \<and> ir_external_event_id r = ev) (inbound_receipts d)"

text \<open>The unique constraint decides: the insert is refused when a receipt has the three columns, and
  the row that was not stored has used an identifier and a correlation identifier.\<close>

definition reserve_event :: "workspace \<Rightarrow> integration_account \<Rightarrow> string \<Rightarrow> clock \<Rightarrow> event_reservation op" where
  "reserve_event ws acc ev clk d =
     (case normalize_external_event_id ev of
        Inl e \<Rightarrow> (Inl e, d)
      | Inr n \<Rightarrow>
          let r = \<lparr>ir_id = next_id d, ir_workspace_id = ws_id ws, ir_integration_account_id = ac_id acc,
                   ir_external_event_id = n, ir_correlation_id = Suc (next_id d), ir_created_at = utc (clk 0)\<rparr>;
              d1 = take_id (take_id d)
          in (case find_receipt ws acc n d of
                None \<Rightarrow> (Inr \<lparr>er_receipt = r, er_first_delivery = True\<rparr>,
                          d1\<lparr>inbound_receipts := inbound_receipts d @ [r]\<rparr>)
              | Some x \<Rightarrow> (Inr \<lparr>er_receipt = x, er_first_delivery = False\<rparr>, d1)))"

inductive reserve_step :: "db \<Rightarrow> db \<Rightarrow> bool" where
  "reserve_event ws acc ev clk d = (res, d') \<Longrightarrow> reserve_step d d'"

lemma reserve_event_receipts:
  assumes "reserve_event ws acc ev clk d = (res, d')"
  shows "\<exists>rs. inbound_receipts d' = inbound_receipts d @ rs"
  using assms by (auto simp: reserve_event_def Let_def take_id_def split: sum.splits option.splits)

lemma find_receipt_stable:
  assumes "reserve_step\<^sup>*\<^sup>* d d'" and "find_receipt ws acc n d = Some x"
  shows "find_receipt ws acc n d' = Some x"
  using assms(1)
proof (induction rule: rtranclp_induct)
  case (step y z)
  from step.hyps(2) obtain rs where "inbound_receipts z = inbound_receipts y @ rs"
    by cases (use reserve_event_receipts in blast)
  with step.IH show ?case by (simp add: find_receipt_def find_append)
qed (rule assms(2))

text \<open>C29: An inbound event is dispatched at most once: after it was reserved for the first time, every
  later reservation of the same event by the same account, whatever other events were reserved
  in between and however the identifier is padded with white space, answers with the stored
  receipt as a duplicate.\<close>

theorem event_reserved_once:
  assumes first: "reserve_event ws acc ev clk d = (Inr r, d1)"
    and between: "reserve_step\<^sup>*\<^sup>* d1 d2" and same: "py_strip ev' = py_strip ev"
  shows "\<exists>d3. reserve_event ws acc ev' clk' d2 = (Inr \<lparr>er_receipt = er_receipt r, er_first_delivery = False\<rparr>, d3) \<and>
    inbound_receipts d3 = inbound_receipts d2"
proof -
  from first have n: "normalize_external_event_id ev = Inr (py_strip ev)"
    by (auto simp: reserve_event_def normalize_external_event_id_def split: if_splits)
  have "find_receipt ws acc (py_strip ev) d1 = Some (er_receipt r)"
    using first by (auto simp: reserve_event_def n Let_def find_receipt_def find_append take_id_def
        split: option.splits)
  from find_receipt_stable [OF between this] n same show ?thesis
    by (simp add: reserve_event_def normalize_external_event_id_def Let_def take_id_def split: if_splits)
qed

theorem event_reserved_once_witness:
  "\<exists>r d1 d3. reserve_event sample_ws (sample_account ''h'') ''ev1'' (\<lambda>_. 0) sample_db = (Inr r, d1) \<and>
     reserve_event sample_ws (sample_account ''h'') '' ev1'' (\<lambda>_. 0) d1 =
       (Inr \<lparr>er_receipt = er_receipt r, er_first_delivery = False\<rparr>, d3)"
proof -
  have s: "py_strip ''ev1'' = ''ev1''" "py_strip '' ev1'' = ''ev1''" "event_id_pattern ''ev1''"
    by code_simp+
  obtain r d1 where run: "reserve_event sample_ws (sample_account ''h'') ''ev1'' (\<lambda>_. 0) sample_db = (Inr r, d1)"
    by (simp add: reserve_event_def normalize_external_event_id_def s find_receipt_def sample_db_def
        empty_db_def Let_def)
  have "reserve_step\<^sup>*\<^sup>* d1 d1" by simp
  from event_reserved_once [OF run this, of "'' ev1''"] run s show ?thesis by auto
qed

end
