(* ===== verification/Sales_Turn.thy ===== *)
theory Sales_Turn
  imports Sales_Agents Webhook_Auth
begin

text \<open>
  One Sales conversation turn (departments/sales/services/conversation_turn_service.py), the retry
  protection of direct turns (direct_conversation_turn_idempotency.py), the turn an inbound
  integration event triggers (app/services/inbound_integrations.py and its route), and the routes
  of app/api/routes/conversations.py. Readings of the clock: 0 a new handoff, 1 the inbound
  message, 2 the approval request or outbound message, 3 the AI usage row, 4 the reservation and
  5 the completion of a direct turn, 6 the reservation of an inbound event. The reservation of a direct turn is
  released by \<open>except Exception\<close>, which a cancellation of the request passes.
\<close>

section \<open>The turn\<close>

record turn_input =
  ti_lead_id :: uuid
  ti_channel :: string
  ti_message :: string
  ti_signals :: "handoff_signals option"

record turn_result =
  to_lead_id :: uuid
  to_stage :: sales_stage
  to_reply :: string
  to_approval_id :: "uuid option"
  to_handoff_required :: bool
  to_handoff_reason :: "handoff_reason option"
  to_ai_invoked :: bool

text \<open>The service with its dependencies; without a gateway of the caller it builds its own.\<close>

record turn_service =
  sv_settings :: sales_settings
  sv_workspace :: workspace
  sv_gateway :: gateway

definition make_turn_service :: "sales_settings \<Rightarrow> workspace \<Rightarrow> gateway option \<Rightarrow> error + turn_service" where
  "make_turn_service st ws g =
     bindE (case g of Some x \<Rightarrow> Inr x | None \<Rightarrow> make_gateway (ss_llm st)) (\<lambda>gw.
       Inr \<lparr>sv_settings = st, sv_workspace = ws, sv_gateway = gw\<rparr>)"

definition turn_agent_context :: "turn_service \<Rightarrow> agent_context" where
  "turn_agent_context s = \<lparr>ag_settings = sv_settings s, ag_workspace = Some (sv_workspace s),
     ag_gateway = Some (sv_gateway s)\<rparr>"

definition turn_handoff :: "workspace \<Rightarrow> uuid \<Rightarrow> handoff_signals option \<Rightarrow> db \<Rightarrow> handoff_decision" where
  "turn_handoff ws lead_id signals d =
     (case get_sales_handoff ws lead_id d of
        Some h \<Rightarrow> \<lparr>hd_required = True, hd_reason = Some (ho_reason_code h), hd_explanation = Some (ho_explanation h)\<rparr>
      | None \<Rightarrow> decide_handoff (case signals of None \<Rightarrow> no_signals | Some s \<Rightarrow> s))"

text \<open>The reply of a turn: stage, text and whether AI was asked.\<close>

definition turn_reply ::
  "ai_env \<Rightarrow> turn_service \<Rightarrow> lead \<Rightarrow> turn_input \<Rightarrow> handoff_decision \<Rightarrow> conversation_message list \<Rightarrow> sales_stage
   \<Rightarrow> clock \<Rightarrow> (sales_stage \<times> string \<times> bool) op" where
  "turn_reply e s l i h history canonical clk d =
     (if hd_required h
      then (case (hd_reason h, hd_explanation h) of
              (Some reason, Some explanation) \<Rightarrow>
                (case ensure_sales_handoff (sv_workspace s) l reason explanation (clk 0) d of
                   (Inl x, d') \<Rightarrow> (Inl x, d')
                 | (Inr _, d') \<Rightarrow>
                     (bindE (render_sales_handoff_reply h) (\<lambda>reply.
                        Inr (detect_stage (points (ti_message i)), reply, False)), d'))
            | _ \<Rightarrow> (Inl AssertionError, d))
      else case draft_reply e (turn_agent_context s) l (ti_message i) history (Some canonical) (clk 3) d of
             (Inl x, d') \<Rightarrow> (Inl x, d')
           | (Inr (stage, reply), d') \<Rightarrow>
               (Inr (stage, reply, st_llm_mode (ss_llm (sv_settings s)) \<noteq> DEMO), d'))"

text \<open>The rows a turn with a reply leaves behind.\<close>

definition reply_payload :: "lead \<Rightarrow> sales_stage \<Rightarrow> string \<Rightarrow> (string \<times> string) list" where
  "reply_payload l stage reply =
     [(''recipient'', contact_of l), (''content'', reply), (''stage'', stage_value stage)]"

definition persist_turn ::
  "turn_service \<Rightarrow> lead \<Rightarrow> turn_input \<Rightarrow> sales_stage \<Rightarrow> string \<Rightarrow> clock \<Rightarrow> db \<Rightarrow> uuid option \<times> db" where
  "persist_turn s l i stage reply clk d =
     (let d1 = add_message (new_message (ld_id l) ''inbound'' (ti_channel i) stage (ti_message i) (clk 1) d) d
      in if ss_require_human_approval (sv_settings s)
         then let (a, d2) = create_approval (ld_id l) (ti_channel i) (reply_payload l stage reply) (clk 2) d1
              in (Some (ap_id a), d2)
         else (None, add_message (new_message (ld_id l) ''outbound'' (ti_channel i) stage reply (clk 2) d1) d1))"

definition process_turn :: "ai_env \<Rightarrow> turn_service \<Rightarrow> turn_input \<Rightarrow> clock \<Rightarrow> turn_result op" where
  "process_turn e s i clk d =
     (case get_lead (ti_lead_id i) d of
        Inl x \<Rightarrow> (Inl x, d)
      | Inr l \<Rightarrow>
      if ld_tenant_id l \<noteq> ws_slug (sv_workspace s) then (Inl (SalesE NotFoundError), d)
      else case canonical_stage_for (sv_workspace s) l of
        Inl x \<Rightarrow> (Inl x, d)
      | Inr canonical \<Rightarrow>
      let h = turn_handoff (sv_workspace s) (ld_id l) (ti_signals i) d in
      case turn_reply e s l i h (conversation_history (ld_id l) 20 d) canonical clk d of
        (Inl x, d1) \<Rightarrow> (Inl x, d1)
      | (Inr (stage, reply, ai), d1) \<Rightarrow>
          let (approval, d2) = persist_turn s l i stage reply clk d1 in
          (Inr \<lparr>to_lead_id = ld_id l, to_stage = stage, to_reply = reply, to_approval_id = approval,
             to_handoff_required = hd_required h, to_handoff_reason = hd_reason h, to_ai_invoked = ai\<rparr>, d2))"

section \<open>Direct turns\<close>

record direct_outcome =
  dt_result :: turn_result
  dt_duplicate :: bool

definition direct_key_pattern :: "string \<Rightarrow> bool" where
  "direct_key_pattern = head_tail_match (\<lambda>c. is_lower_az c \<or> is_upper_AZ c \<or> is_digit09 c)
     (\<lambda>c. is_lower_az c \<or> is_upper_AZ c \<or> is_digit09 c \<or> one_of ''._:-'' c) 199"

definition normalize_key :: "string \<Rightarrow> error + string" where
  "normalize_key v =
     (if direct_key_pattern (py_strip v) then Inr (py_strip v)
      else Inl (SalesE DirectConversationTurnIdempotencyValidationError))"

text \<open>\<open>json.dumps\<close> without \<open>ensure_ascii\<close>: only quotes, backslashes and control characters are escaped.\<close>

definition json_raw_char :: "char \<Rightarrow> string" where
  "json_raw_char c = (let n = (of_char c :: nat) in
     if n < 32 \<or> n = 34 \<or> n = 92 then json_escape_char c else [c])"

definition json_raw_string :: "string \<Rightarrow> string" where
  "json_raw_string s = CHR 0x22 # concat (map json_raw_char s) @ [CHR 0x22]"

definition fingerprint_payload :: "turn_input \<Rightarrow> string" where
  "fingerprint_payload i =
     ''{'' @ json_raw_string ''channel'' @ '':'' @ json_raw_string (ti_channel i) @ '','' @
     json_raw_string ''customer_message'' @ '':'' @ json_raw_string (ti_message i) @ ''}''"

definition request_fingerprint :: "(string \<Rightarrow> string) \<Rightarrow> turn_input \<Rightarrow> string" where
  "request_fingerprint sha256 i = sha256 (utf8 (fingerprint_payload i))"

definition replay_or_raise :: "turn_receipt \<Rightarrow> string \<Rightarrow> error + direct_outcome" where
  "replay_or_raise r fingerprint =
     (if tr_request_fingerprint r \<noteq> fingerprint
      then Inl (SalesE DirectConversationTurnIdempotencyConflictError)
      else if tr_status r = TURN_IN_PROGRESS
      then Inl (SalesE DirectConversationTurnIdempotencyConflictError)
      else case (tr_detected_stage r, tr_draft_reply r) of
          (Some stage, Some reply) \<Rightarrow>
            Inr \<lparr>dt_result = \<lparr>to_lead_id = tr_lead_id r, to_stage = stage, to_reply = reply,
                   to_approval_id = tr_approval_id r, to_handoff_required = tr_handoff_required r,
                   to_handoff_reason = tr_handoff_reason_code r, to_ai_invoked = False\<rparr>,
                 dt_duplicate = True\<rparr>
        | _ \<Rightarrow> Inl RuntimeError)"

record direct_service =
  ds_settings :: sales_settings
  ds_workspace :: workspace
  ds_gateway :: "gateway option"

definition direct_turn :: "ai_env \<Rightarrow> direct_service \<Rightarrow> turn_input \<Rightarrow> clock \<Rightarrow> turn_result op" where
  "direct_turn e s i clk d =
     (case make_turn_service (ds_settings s) (ds_workspace s) (ds_gateway s) of
        Inl x \<Rightarrow> (Inl x, d)
      | Inr sv \<Rightarrow> process_turn e sv i clk d)"

definition process_direct ::
  "(string \<Rightarrow> string) \<Rightarrow> ai_env \<Rightarrow> direct_service \<Rightarrow> turn_input \<Rightarrow> string option \<Rightarrow> clock \<Rightarrow> direct_outcome op" where
  "process_direct sha256 e s i key clk d =
     (case key of
        None \<Rightarrow>
          (case direct_turn e s i clk d of
             (Inl x, d') \<Rightarrow> (Inl x, d')
           | (Inr r, d') \<Rightarrow> (Inr \<lparr>dt_result = r, dt_duplicate = False\<rparr>, d'))
      | Some k \<Rightarrow>
      case normalize_key k of
        Inl x \<Rightarrow> (Inl x, d)
      | Inr nk \<Rightarrow>
      let fingerprint = request_fingerprint sha256 i in
      case get_lead (ti_lead_id i) d of
        Inl x \<Rightarrow> (Inl x, d)
      | Inr l \<Rightarrow>
      if ld_tenant_id l \<noteq> ws_slug (ds_workspace s) then (Inl (SalesE NotFoundError), d)
      else case reserve_turn_receipt (ds_workspace s) l nk fingerprint (clk 4) d of
        (Inl x, d') \<Rightarrow> (Inl x, d')
      | (Inr (receipt, reserved), d1) \<Rightarrow>
      if \<not> reserved then (replay_or_raise receipt fingerprint, d1)
      else case direct_turn e s i clk d1 of
        (Inl x, d2) \<Rightarrow> (Inl x, if x = CancelledError then d2 else discard_turn_receipt receipt d2)
      | (Inr r, d2) \<Rightarrow>
          (Inr \<lparr>dt_result = r, dt_duplicate = False\<rparr>,
           snd (complete_turn_receipt receipt (to_stage r) (to_reply r) (to_approval_id r)
                  (to_handoff_required r) (to_handoff_reason r) (clk 5) d2)))"

section \<open>Inbound events\<close>

record inbound_event =
  ie_lead_id :: uuid
  ie_channel :: string
  ie_content :: string

definition handle_event ::
  "ai_env \<Rightarrow> sales_settings \<Rightarrow> inbound_event \<Rightarrow> workspace \<Rightarrow> clock \<Rightarrow> turn_result op" where
  "handle_event e st ev ws clk d =
     (case get_lead (ie_lead_id ev) d of
        Inl x \<Rightarrow> (Inl x, d)
      | Inr l \<Rightarrow>
          if ld_tenant_id l \<noteq> ws_slug ws then (Inl (SalesE NotFoundError), d)
          else case bindE (make_gateway (ss_llm st)) (\<lambda>g. make_turn_service st ws (Some g)) of
              Inl x \<Rightarrow> (Inl x, d)
            | Inr sv \<Rightarrow> process_turn e sv \<lparr>ti_lead_id = ld_id l, ti_channel = ie_channel ev,
                ti_message = ie_content ev, ti_signals = None\<rparr> clk d)"

text \<open>The answers of the route: a duplicate with its correlation, or a reply, with the correlation of
  the reserved receipt when the header was sent.\<close>

datatype inbound_answer = InboundDuplicate uuid | InboundReply turn_result "uuid option"

definition inbound_route_error :: "error \<Rightarrow> error" where
  "inbound_route_error x =
     (if x = SalesE InboundIntegrationEventIdValidationError
      then HTTPException 422 ''External event identifier is invalid''
      else if x = SalesE NotFoundError then HTTPException 404 ''Lead not found'' else x)"

definition receive_inbound_event ::
  "ai_env \<Rightarrow> sales_settings \<Rightarrow> integration_context \<Rightarrow> inbound_event \<Rightarrow> string option \<Rightarrow> clock
   \<Rightarrow> inbound_answer op" where
  "receive_inbound_event e st cx ev event_id clk d =
     (let ws = ic_workspace cx in
      case event_id of
        None \<Rightarrow>
          (case handle_event e st ev ws clk d of
             (Inl x, d') \<Rightarrow> (Inl (inbound_route_error x), d')
           | (Inr r, d') \<Rightarrow> (Inr (InboundReply r None), d'))
      | Some k \<Rightarrow>
          (case reserve_event ws (ic_account cx) k (\<lambda>_. clk 6) d of
             (Inl x, d') \<Rightarrow> (Inl (inbound_route_error x), d')
           | (Inr rv, d1) \<Rightarrow>
               if \<not> er_first_delivery rv
               then (Inr (InboundDuplicate (ir_correlation_id (er_receipt rv))), d1)
               else (case handle_event e st ev ws clk d1 of
                       (Inl x, d') \<Rightarrow> (Inl (inbound_route_error x), d')
                     | (Inr r, d') \<Rightarrow>
                         (Inr (InboundReply r (Some (ir_correlation_id (er_receipt rv)))), d'))))"

section \<open>Routes of conversations\<close>

definition lead_not_found :: error where
  "lead_not_found = HTTPException 404 ''Lead not found''"

definition route_history :: "workspace \<Rightarrow> uuid \<Rightarrow> nat \<Rightarrow> db \<Rightarrow> error + conversation_message list" where
  "route_history ws lead_id limit d =
     (case get_lead lead_id d of
        Inl _ \<Rightarrow> Inl lead_not_found
      | Inr l \<Rightarrow> if ld_tenant_id l \<noteq> ws_slug ws then Inl lead_not_found
                 else Inr (conversation_history lead_id limit d))"

definition direct_route_error :: "error \<Rightarrow> error" where
  "direct_route_error x =
     (if x = SalesE NotFoundError then lead_not_found
      else if x = SalesE DirectConversationTurnIdempotencyValidationError then HTTPException 422 []
      else if x = SalesE DirectConversationTurnIdempotencyConflictError then HTTPException 409 []
      else x)"

definition route_draft_reply ::
  "(string \<Rightarrow> string) \<Rightarrow> ai_env \<Rightarrow> sales_settings \<Rightarrow> workspace \<Rightarrow> uuid \<Rightarrow> string \<Rightarrow> string \<Rightarrow> string option
   \<Rightarrow> clock \<Rightarrow> direct_outcome op" where
  "route_draft_reply sha256 e st ws lead_id content channel key clk d =
     (case process_direct sha256 e \<lparr>ds_settings = st, ds_workspace = ws, ds_gateway = None\<rparr>
             \<lparr>ti_lead_id = lead_id, ti_channel = channel, ti_message = content, ti_signals = None\<rparr> key clk d of
        (Inl x, d') \<Rightarrow> (Inl (direct_route_error x), d')
      | (Inr r, d') \<Rightarrow> (Inr r, d'))"

definition route_resolve_handoff :: "workspace \<Rightarrow> uuid \<Rightarrow> int \<Rightarrow> handoff_resolution op" where
  "route_resolve_handoff ws lead_id t d =
     (case resolve_active_handoff ws lead_id t d of
        (Inl x, d') \<Rightarrow>
          (Inl (if x = SalesE NotFoundError then lead_not_found
                else if x = SalesE HandoffLifecycleConflictError then HTTPException 409 [] else x), d')
      | (Inr r, d') \<Rightarrow> (Inr r, d'))"

end
