(* ===== verification/Sales_Turn_Props.thy ===== *)
theory Sales_Turn_Props
  imports Sales_Turn Ai_Props
begin

text \<open>
  What a Sales turn does to the database, on every path, and what follows for the retry keys of
  direct turns and for handoffs over any sequence of turns, resolutions, stage transitions and
  approval decisions.
\<close>

section \<open>The effect of a turn\<close>

text \<open>An AI call changes nothing but the usage ledger.\<close>

definition usage_frame :: "db \<Rightarrow> db \<Rightarrow> bool" where
  "usage_frame d d' = (d' = d\<lparr>usages := usages d', next_id := next_id d'\<rparr> \<and> next_id d \<le> next_id d')"

lemma usage_frame_refl [simp]: "usage_frame d d"
  by (simp add: usage_frame_def)

lemma gateway_record_frame:
  "gateway_record persist g ws r provider model tok lat st now d = (x, y) \<Longrightarrow> usage_frame d y"
  by (auto simp: gateway_record_def usage_record_def take_id_def usage_frame_def split: sum.splits option.splits)

lemma record_failed_frame: "usage_frame d (record_failed persist g ws r provider model lat now d)"
  unfolding record_failed_def
  by (cases "gateway_record persist g ws r provider model (None, None, None) lat AI_FAILED now d")
    (use gateway_record_frame in simp)

lemma gateway_call_frame:
  "gateway_call persist transport perf now g ws r routing decision sel provider model d = (res, d') \<Longrightarrow>
   usage_frame d d'"
  by (auto simp: gateway_call_def split: sum.splits prod.splits intro: record_failed_frame dest: gateway_record_frame)

lemma gateway_invoke_frame:
  assumes "gateway_invoke persist transport perf now g ws r d = (res, d')"
  shows "usage_frame d d'"
  using assms by (cases rule: gateway_invoke_cases) (auto dest: gateway_call_frame)

lemma agent_invoke_frame: "agent_invoke e a r now d = (x, y) \<Longrightarrow> usage_frame d y"
  by (auto simp: agent_invoke_def split: option.splits prod.splits sum.splits dest: gateway_invoke_frame)

lemma draft_reply_frame: "draft_reply e a l m history current now d = (res, d') \<Longrightarrow> usage_frame d d'"
  by (auto simp: draft_reply_def Let_def split: if_splits prod.splits sum.splits dest: agent_invoke_frame)

lemma draft_reply_stage:
  "draft_reply e a l m history current now d = (Inr (stage, reply), d') \<Longrightarrow> stage = detect_stage (points m)"
  by (auto simp: draft_reply_def Let_def bindE_Inr_iff split: if_splits prod.splits sum.splits)

text \<open>The workspaces and leads with an active handoff.\<close>

definition active_handoffs :: "db \<Rightarrow> (uuid \<times> uuid) list" where
  "active_handoffs d = map (\<lambda>h. (ho_workspace_id h, ho_lead_id h))
     (filter (\<lambda>h. ho_status h = HANDOFF_ACTIVE) (handoffs d))"

lemma get_sales_handoff_None_iff:
  "get_sales_handoff ws k d = None \<longleftrightarrow> (ws_id ws, k) \<notin> set (active_handoffs d)"
  by (force simp: get_sales_handoff_def handoffs_of_def active_handoffs_def find_None_iff)

lemma get_sales_handoff_SomeD:
  "get_sales_handoff ws k d = Some h \<Longrightarrow>
   h \<in> set (handoffs d) \<and> ho_status h = HANDOFF_ACTIVE \<and> ho_workspace_id h = ws_id ws \<and> ho_lead_id h = k"
  by (auto simp: get_sales_handoff_def handoffs_of_def find_Some_iff dest: nth_mem)

text \<open>At most one handoff is added, a new active one for a lead that had none.\<close>

definition handoff_added :: "db \<Rightarrow> db \<Rightarrow> sales_handoff list \<Rightarrow> bool" where
  "handoff_added d d' hs = (handoffs d' = handoffs d @ hs \<and>
     (hs = [] \<or> (\<exists>h. hs = [h] \<and> next_id d \<le> ho_id h \<and> ho_id h < next_id d' \<and> ho_status h = HANDOFF_ACTIVE \<and>
        (ho_workspace_id h, ho_lead_id h) \<notin> set (active_handoffs d))))"

definition reply_frame :: "db \<Rightarrow> db \<Rightarrow> bool" where
  "reply_frame d d' = (d' = d\<lparr>usages := usages d', handoffs := handoffs d', next_id := next_id d'\<rparr> \<and>
     next_id d \<le> next_id d' \<and> (\<exists>hs. handoff_added d d' hs))"

lemma reply_frame_usage: "usage_frame d d' \<Longrightarrow> reply_frame d d'"
proof -
  assume u: "usage_frame d d'"
  then have "handoffs d' = handoffs (d\<lparr>usages := usages d', next_id := next_id d'\<rparr>)"
    unfolding usage_frame_def by simp
  then have "handoffs d' = handoffs d" by simp
  with u show ?thesis unfolding usage_frame_def reply_frame_def handoff_added_def by simp
qed

lemma reply_frame_refl: "reply_frame d d"
  by (simp add: reply_frame_usage)

lemma ensure_sales_handoff_frame:
  assumes "ensure_sales_handoff ws l reason x t d = (res, d')"
  shows "reply_frame d d'"
proof (cases "ld_tenant_id l = ws_slug ws \<and> get_sales_handoff ws (ld_id l) d = None")
  case True
  with assms have d': "d' = take_id (d\<lparr>handoffs := handoffs d @ [new_handoff ws l reason x t d]\<rparr>)"
    by (auto simp: ensure_sales_handoff_def Let_def)
  from True have "(ws_id ws, ld_id l) \<notin> set (active_handoffs d)" by (simp add: get_sales_handoff_None_iff)
  then show ?thesis
    unfolding reply_frame_def handoff_added_def d' take_id_def by (simp add: new_handoff_def)
next
  case False
  with assms have "d' = d" by (auto simp: ensure_sales_handoff_def split: if_splits option.splits)
  then show ?thesis by (simp add: reply_frame_refl)
qed

lemma turn_reply_frame:
  assumes "turn_reply e s l i h history canonical clk d = (res, d')"
  shows "reply_frame d d'"
proof (cases "hd_required h")
  case True
  show ?thesis
  proof (cases "hd_reason h")
    case None
    with True assms show ?thesis by (simp add: turn_reply_def reply_frame_refl)
  next
    case (Some reason)
    show ?thesis
    proof (cases "hd_explanation h")
      case None
      with True Some assms show ?thesis by (simp add: turn_reply_def reply_frame_refl)
    next
      case x: (Some x)
      obtain r y where y: "ensure_sales_handoff (sv_workspace s) l reason x (clk 0) d = (r, y)" by fastforce
      with True Some x assms have "d' = y" by (auto simp: turn_reply_def split: sum.splits)
      with ensure_sales_handoff_frame [OF y] show ?thesis by simp
    qed
  qed
next
  case False
  obtain r y where y: "draft_reply e (turn_agent_context s) l (ti_message i) history (Some canonical) (clk 3) d = (r, y)"
    by fastforce
  with False assms have "d' = y" by (auto simp: turn_reply_def split: sum.splits prod.splits)
  with draft_reply_frame [OF y] show ?thesis by (auto simp: reply_frame_usage)
qed

lemma turn_reply_stage:
  "turn_reply e s l i h history canonical clk d = (Inr (stage, reply, ai), d') \<Longrightarrow>
   stage = detect_stage (points (ti_message i)) \<and> (hd_required h \<longrightarrow> \<not> ai)"
  by (auto simp: turn_reply_def bindE_Inr_iff dest: draft_reply_stage
      split: if_splits option.splits prod.splits sum.splits)

text \<open>The rows a finished turn adds.\<close>

definition turn_rows ::
  "turn_service \<Rightarrow> turn_input \<Rightarrow> turn_result \<Rightarrow> db \<Rightarrow> conversation_message list \<Rightarrow> approval_request list \<Rightarrow> bool" where
  "turn_rows s i r d ms as = (\<exists>l m. get_lead_row (ti_lead_id i) d = Some l \<and>
     ld_tenant_id l = ws_slug (sv_workspace s) \<and> to_lead_id r = ti_lead_id i \<and>
     to_stage r = detect_stage (points (ti_message i)) \<and>
     cm_lead_id m = ti_lead_id i \<and> cm_direction m = ''inbound'' \<and> cm_channel m = ti_channel i \<and>
     cm_stage m = to_stage r \<and> cm_content m = ti_message i \<and>
     (if ss_require_human_approval (sv_settings s)
      then ms = [m] \<and> (\<exists>a. as = [a] \<and> to_approval_id r = Some (ap_id a) \<and> ap_status a = AP_PENDING \<and>
             ap_lead_id a = Some (ti_lead_id i) \<and> ap_channel a = ti_channel i \<and>
             ap_payload a = reply_payload l (to_stage r) (to_reply r))
      else as = [] \<and> to_approval_id r = None \<and> (\<exists>m'. ms = [m, m'] \<and> cm_lead_id m' = ti_lead_id i \<and>
             cm_direction m' = ''outbound'' \<and> cm_channel m' = ti_channel i \<and>
             cm_stage m' = to_stage r \<and> cm_content m' = to_reply r)))"

lemma persist_turn_effect:
  assumes "persist_turn s l i stage reply clk d = (approval, d')"
    and "get_lead_row (ti_lead_id i) d0 = Some l" "ld_tenant_id l = ws_slug (sv_workspace s)"
    and "stage = detect_stage (points (ti_message i))" and "to_lead_id r = ld_id l" "to_stage r = stage"
    and "to_reply r = reply" "to_approval_id r = approval"
  shows "\<exists>ms qs n. turn_rows s i r d0 ms qs \<and> next_id d \<le> n \<and>
    d' = d\<lparr>messages := messages d @ ms, approvals := approvals d @ qs, next_id := n\<rparr>"
proof -
  let ?m = "new_message (ld_id l) ''inbound'' (ti_channel i) stage (ti_message i) (clk 1) d"
  let ?d1 = "add_message ?m d"
  let ?m' = "new_message (ld_id l) ''outbound'' (ti_channel i) stage reply (clk 2) ?d1"
  let ?a = "new_approval (ld_id l) (ti_channel i) (reply_payload l stage reply) ''send_message'' (clk 2) ?d1"
  have id: "ld_id l = ti_lead_id i" using assms(2) lds.get_ident by blast
  show ?thesis
  proof (cases "ss_require_human_approval (sv_settings s)")
    case True
    with assms(1) have "approval = Some (ap_id ?a)"
      "d' = d\<lparr>messages := messages d @ [?m], approvals := approvals d @ [?a], next_id := Suc (Suc (next_id d))\<rparr>"
      by (auto simp: persist_turn_def create_approval_def Let_def add_message_def take_id_def insert_approval_def)
    moreover have "turn_rows s i r d0 [?m] [?a]"
      unfolding turn_rows_def using assms(2-) True id calculation(1)
      by (intro exI [of _ l] exI [of _ ?m]) (simp add: new_message_def new_approval_def)
    ultimately show ?thesis
      by (intro exI [of _ "[?m]"] exI [of _ "[?a]"] exI [of _ "Suc (Suc (next_id d))"]) simp
  next
    case False
    with assms(1) have "approval = None"
      "d' = d\<lparr>messages := messages d @ [?m, ?m'], approvals := approvals d @ [], next_id := Suc (Suc (next_id d))\<rparr>"
      by (auto simp: persist_turn_def Let_def add_message_def take_id_def)
    moreover have "turn_rows s i r d0 [?m, ?m'] []"
      unfolding turn_rows_def using assms(2-) False id calculation(1)
      by (intro exI [of _ l] exI [of _ ?m]) (simp add: new_message_def)
    ultimately show ?thesis
      by (intro exI [of _ "[?m, ?m']"] exI [of _ "[]"] exI [of _ "Suc (Suc (next_id d))"]) simp
  qed
qed

lemma reply_frame_same:
  assumes "reply_frame d d'"
  shows "messages d' = messages d" "approvals d' = approvals d" "leads d' = leads d"
    "turn_receipts d' = turn_receipts d" "usages d' = usages d'" "inbound_receipts d' = inbound_receipts d"
proof -
  from assms have e: "d' = d\<lparr>usages := usages d', handoffs := handoffs d', next_id := next_id d'\<rparr>"
    by (simp add: reply_frame_def)
  show "messages d' = messages d" "approvals d' = approvals d" "leads d' = leads d"
    "turn_receipts d' = turn_receipts d" "usages d' = usages d'" "inbound_receipts d' = inbound_receipts d"
    by (subst e, simp)+
qed

lemma process_turn_cases:
  assumes "process_turn e s i clk d = (res, d')"
  obtains (refused) x where "res = Inl x" "reply_frame d d'"
    | (replied) r d1 ms qs where "res = Inr r" "reply_frame d d1" "turn_rows s i r d ms qs" "next_id d1 \<le> next_id d'"
        "d' = d1\<lparr>messages := messages d @ ms, approvals := approvals d @ qs, next_id := next_id d'\<rparr>"
        "to_handoff_required r \<longrightarrow> \<not> to_ai_invoked r"
proof -
  let ?ws = "sv_workspace s"
  show thesis
  proof (cases "get_lead (ti_lead_id i) d")
    case (Inl x)
    with assms show ?thesis by (auto simp: process_turn_def reply_frame_refl intro: refused)
  next
    case (Inr l)
    then have row: "get_lead_row (ti_lead_id i) d = Some l" by (simp add: get_lead_def split: option.splits)
    show ?thesis
    proof (cases "ld_tenant_id l = ws_slug ?ws")
      case False
      with assms Inr show ?thesis by (auto simp: process_turn_def reply_frame_refl intro: refused)
    next
      case own: True
      let ?h = "turn_handoff ?ws (ld_id l) (ti_signals i) d"
      obtain x d1 where reply: "turn_reply e s l i ?h (conversation_history (ld_id l) 20 d) (ld_sales_stage l) clk d = (x, d1)"
        by fastforce
      note frame = turn_reply_frame [OF reply]
      show ?thesis
      proof (cases x)
        case (Inl y)
        with assms Inr own reply frame show ?thesis
          by (auto simp: process_turn_def canonical_stage_for_def Let_def intro: refused)
      next
        case x: (Inr y)
        obtain stage body ai where y: "y = (stage, body, ai)" by (cases y) auto
        note stage = turn_reply_stage [OF reply [unfolded x y]]
        obtain approval d2 where p: "persist_turn s l i stage body clk d1 = (approval, d2)" by fastforce
        let ?r = "\<lparr>to_lead_id = ld_id l, to_stage = stage, to_reply = body, to_approval_id = approval,
             to_handoff_required = hd_required ?h, to_handoff_reason = hd_reason ?h, to_ai_invoked = ai\<rparr>"
        from assms Inr own reply x y p have res: "res = Inr ?r" "d' = d2"
          by (auto simp: process_turn_def canonical_stage_for_def Let_def)
        obtain ms qs n where eff: "turn_rows s i ?r d ms qs" "next_id d1 \<le> n"
            "d2 = d1\<lparr>messages := messages d1 @ ms, approvals := approvals d1 @ qs, next_id := n\<rparr>"
          using persist_turn_effect [OF p row own, of ?r] stage by auto
        then have "d' = d1\<lparr>messages := messages d @ ms, approvals := approvals d @ qs, next_id := next_id d'\<rparr>"
          "next_id d1 \<le> next_id d'"
          using reply_frame_same [OF frame] res(2) by simp_all
        with replied res(1) frame eff(1) stage show ?thesis by simp
      qed
    qed
  qed
qed

lemma reply_frame_later:
  assumes f: "reply_frame d d1" and n: "next_id d1 \<le> n"
  shows "reply_frame d (d1\<lparr>next_id := n\<rparr>)"
proof -
  from f have e: "d1 = d\<lparr>usages := usages d1, handoffs := handoffs d1, next_id := next_id d1\<rparr>"
    and le: "next_id d \<le> next_id d1" and h: "\<exists>hs. handoff_added d d1 hs"
    by (simp_all add: reply_frame_def)
  have "d1\<lparr>next_id := n\<rparr> = d\<lparr>usages := usages d1, handoffs := handoffs d1, next_id := next_id d1\<rparr>\<lparr>next_id := n\<rparr>"
    by (rule arg_cong [OF e])
  with le h n show ?thesis
    unfolding reply_frame_def handoff_added_def by (auto intro: order_trans less_le_trans)
qed

text \<open>C32: What one Sales turn leaves behind: a refused turn adds no message and no approval request, at
  most usage rows and a new active handoff; a turn that replied stored the customer's message with
  the detected stage and, under the approval policy, exactly one pending approval request that
  carries the reply to the lead's contact, otherwise the reply itself as outbound message. Nothing
  else in the database changes.\<close>

theorem turn_effect:
  assumes "process_turn e s i clk d = (res, d')"
  shows "case res of
      Inl _ \<Rightarrow> reply_frame d d'
    | Inr r \<Rightarrow> \<exists>ms qs. turn_rows s i r d ms qs \<and> messages d' = messages d @ ms \<and> approvals d' = approvals d @ qs \<and>
        reply_frame d (d'\<lparr>messages := messages d, approvals := approvals d\<rparr>)"
  using assms
proof (cases rule: process_turn_cases)
  case (replied r d1 ms qs)
  have "d'\<lparr>messages := messages d, approvals := approvals d\<rparr> = d1\<lparr>next_id := next_id d'\<rparr>"
    using reply_frame_same [OF replied(2)] by (subst replied(5)) simp
  moreover have "reply_frame d (d1\<lparr>next_id := next_id d'\<rparr>)"
    using replied(2,4) by (rule reply_frame_later)
  moreover have "messages d' = messages d @ ms" "approvals d' = approvals d @ qs"
    by (subst replied(5), simp)+
  ultimately show ?thesis using replied(1,3) by auto
qed simp

section \<open>Turns that need no AI\<close>

lemma demo_reply_detected: "\<exists>reply. demo_reply other name ps (detect_stage m) = Inr reply"
  by (simp add: detect_stage_def Let_def)

lemma demo_draft:
  assumes "demo_mode a"
  shows "\<exists>reply. \<forall>current now. draft_reply e a l m history current now d = (Inr (detect_stage (points m), reply), d)"
proof -
  obtain reply where "demo_reply (en_str e) (first_name l) (list_products (ld_tenant_id l) d) (detect_stage (points m)) = Inr reply"
    using demo_reply_detected by blast
  with assms show ?thesis by (auto simp: draft_reply_def Let_def)
qed

text \<open>In demo mode a turn of a lead of the workspace that has no handoff returns a reply.\<close>

lemma demo_turn_returns:
  assumes mode: "st_llm_mode (ss_llm (sv_settings s)) = DEMO"
    and l: "get_lead_row (ti_lead_id i) d = Some l" "ld_tenant_id l = ws_slug (sv_workspace s)"
    and h: "get_sales_handoff (sv_workspace s) (ti_lead_id i) d = None" "ti_signals i = None"
  shows "\<exists>r d'. process_turn e s i clk d = (Inr r, d')"
proof -
  have id: "ld_id l = ti_lead_id i" using l(1) lds.get_ident by blast
  have "demo_mode (turn_agent_context s)" using mode by (simp add: demo_mode_def turn_agent_context_def)
  from demo_draft [OF this] obtain reply where "\<And>now. draft_reply e (turn_agent_context s) l (ti_message i)
      (conversation_history (ti_lead_id i) 20 d) (Some (ld_sales_stage l)) now d = (Inr (detect_stage (points (ti_message i)), reply), d)"
    by metis
  with l h id show ?thesis
    by (auto simp: process_turn_def get_lead_def canonical_stage_for_def turn_handoff_def turn_reply_def Let_def
        split: prod.splits)
qed

definition sample_env :: ai_env where
  "sample_env = \<lparr>en_persist = Some, en_transport = (\<lambda>_. HttpError), en_perf = (\<lambda>_. 0), en_str = (\<lambda>_. []),
     en_bracket_ok = (\<lambda>_. True)\<rparr>"

definition sample_sales :: sales_settings where
  "sample_sales = \<lparr>ss_llm = sample_settings, ss_require_human_approval = True, ss_default_channel = ''console''\<rparr>"

definition sample_service :: turn_service where
  "sample_service = \<lparr>sv_settings = sample_sales, sv_workspace = sample_ws, sv_gateway = sample_gateway\<rparr>"

definition sample_turn :: turn_input where
  "sample_turn = \<lparr>ti_lead_id = 5, ti_channel = ''whatsapp'', ti_message = ''What is the price?'', ti_signals = None\<rparr>"

lemma sample_lead_row: "get_lead_row 5 sample_db = Some sample_lead" "ld_tenant_id sample_lead = ws_slug sample_ws"
  by (simp_all add: get_lead_row_def sample_defs)

lemma sample_turn_run: "\<exists>r d'. process_turn sample_env sample_service sample_turn (\<lambda>_. 0) sample_db = (Inr r, d')"
  by (rule demo_turn_returns [where l = sample_lead])
    (simp_all add: sample_service_def sample_sales_def sample_settings_def sample_turn_def sample_lead_row
      get_sales_handoff_def handoffs_of_def, simp add: sample_db_def empty_db_def)

theorem turn_effect_witness:
  "\<exists>r d' ms a. process_turn sample_env sample_service sample_turn (\<lambda>_. 0) sample_db = (Inr r, d') \<and>
     turn_rows sample_service sample_turn r sample_db ms [a] \<and> approvals d' = [a]"
proof -
  obtain r d' where run: "process_turn sample_env sample_service sample_turn (\<lambda>_. 0) sample_db = (Inr r, d')"
    using sample_turn_run by blast
  from turn_effect [OF run] obtain ms qs where "turn_rows sample_service sample_turn r sample_db ms qs"
    "approvals d' = approvals sample_db @ qs" by auto
  moreover from this have "\<exists>a. qs = [a]" by (auto simp: turn_rows_def sample_service_def sample_sales_def)
  ultimately show ?thesis using run by (auto simp: sample_db_def empty_db_def)
qed

text \<open>C33: While a lead has an active handoff its turns never ask the AI: the result and the database
  after the turn are the same whatever the provider would answer, no usage is recorded, the reply
  is the fixed text of the stored handoff, and the handoff stays as it is.\<close>

theorem handoff_turn_without_ai:
  assumes l: "get_lead_row (ti_lead_id i) d = Some l" "ld_tenant_id l = ws_slug (sv_workspace s)"
    and h: "get_sales_handoff (sv_workspace s) (ti_lead_id i) d = Some h" "ho_explanation h \<noteq> []"
  shows "\<exists>r d'. (\<forall>e. process_turn e s i clk d = (Inr r, d')) \<and> usages d' = usages d \<and> handoffs d' = handoffs d \<and>
    to_handoff_required r \<and> to_handoff_reason r = Some (ho_reason_code h) \<and> \<not> to_ai_invoked r \<and>
    to_reply r = ''I can'' @ [CHR 0x27] @ ''t confirm that request right now. '' @ ho_explanation h"
proof -
  have id: "ld_id l = ti_lead_id i" using l(1) lds.get_ident by blast
  let ?stage = "detect_stage (points (ti_message i))"
  let ?reply = "''I can'' @ [CHR 0x27] @ ''t confirm that request right now. '' @ ho_explanation h"
  let ?h = "\<lparr>hd_required = True, hd_reason = Some (ho_reason_code h), hd_explanation = Some (ho_explanation h)\<rparr>"
  have render: "render_sales_handoff_reply ?h = Inr ?reply" using h(2) by (simp add: render_sales_handoff_reply_def)
  have reply: "turn_reply e s l i ?h history canonical clk d = (Inr (?stage, ?reply, False), d)" for e history canonical
    using l h id by (simp add: turn_reply_def ensure_sales_handoff_def render)
  obtain approval d' where p: "persist_turn s l i ?stage ?reply clk d = (approval, d')" by fastforce
  then have frame: "usages d' = usages d" "handoffs d' = handoffs d"
    by (auto simp: persist_turn_def create_approval_def Let_def add_message_def take_id_def insert_approval_def
        split: if_splits)
  have "process_turn e s i clk d = (Inr \<lparr>to_lead_id = ld_id l, to_stage = ?stage, to_reply = ?reply,
      to_approval_id = approval, to_handoff_required = True, to_handoff_reason = Some (ho_reason_code h),
      to_ai_invoked = False\<rparr>, d')" for e
    using l h id p
    by (simp add: process_turn_def get_lead_def canonical_stage_for_def turn_handoff_def reply Let_def)
  with frame show ?thesis by simp
qed

definition handoff_row :: sales_handoff where
  "handoff_row = \<lparr>ho_id = 50, ho_workspace_id = 1, ho_lead_id = 5, ho_reason_code = HUMAN_REQUESTED,
     ho_explanation = ''x'', ho_status = HANDOFF_ACTIVE, ho_created_at = utc 0, ho_resolved_at = None\<rparr>"

theorem handoff_turn_without_ai_witness:
  "\<exists>r d'. (\<forall>e. process_turn e (sample_service\<lparr>sv_settings := sample_sales\<lparr>ss_llm :=
       sample_settings\<lparr>st_llm_mode := OPENAI_COMPATIBLE\<rparr>\<rparr>\<rparr>) sample_turn (\<lambda>_. 0)
     (sample_db\<lparr>handoffs := [handoff_row]\<rparr>) = (Inr r, d')) \<and> usages d' = [] \<and> \<not> to_ai_invoked r"
  using handoff_turn_without_ai [where i = sample_turn and d = "sample_db\<lparr>handoffs := [handoff_row]\<rparr>"
      and l = sample_lead and h = handoff_row and clk = "\<lambda>_. 0" and s = "sample_service\<lparr>sv_settings := sample_sales\<lparr>ss_llm :=
       sample_settings\<lparr>st_llm_mode := OPENAI_COMPATIBLE\<rparr>\<rparr>\<rparr>"]
  by (simp add: sample_turn_def sample_service_def get_lead_row_def sample_defs get_sales_handoff_def
      handoffs_of_def handoff_row_def) blast

end
