(* ===== verification/Sales_System.thy ===== *)
theory Sales_System
  imports Sales_Turn_Props Approvals
begin

text \<open>
  The Sales conversations of all workspaces as one system: any sequence of direct turns, inbound
  events, handoff resolutions, stage transitions and approval decisions, with the invariant of the
  retry receipts and of the handoffs, and what the API promises over such sequences.
\<close>

section \<open>Retry receipts\<close>

definition receipt_key :: "turn_receipt \<Rightarrow> uuid \<times> uuid \<times> string" where
  "receipt_key r = (tr_workspace_id r, tr_lead_id r, tr_idempotency_key r)"

text \<open>A receipt is in progress (its turn was cancelled) or holds the answer of its turn.\<close>

definition receipt_wf :: "turn_receipt \<Rightarrow> bool" where
  "receipt_wf r = (tr_status r = TURN_IN_PROGRESS \<or>
     (tr_status r = TURN_COMPLETED \<and> tr_detected_stage r \<noteq> None \<and> tr_draft_reply r \<noteq> None))"

definition receipts_inv :: "db \<Rightarrow> bool" where
  "receipts_inv d = (distinct (map receipt_key (turn_receipts d)) \<and>
     (\<forall>r \<in> set (turn_receipts d). tr_id r < next_id d \<and> receipt_wf r))"

lemma find_turn_receipt_None_iff:
  "find_turn_receipt w l k d = None \<longleftrightarrow> (w, l, k) \<notin> set (map receipt_key (turn_receipts d))"
  by (force simp: find_turn_receipt_def find_None_iff receipt_key_def)

lemma find_turn_receipt_SomeD:
  "find_turn_receipt w l k d = Some r \<Longrightarrow> r \<in> set (turn_receipts d) \<and> receipt_key r = (w, l, k)"
  by (auto simp: find_turn_receipt_def find_Some_iff receipt_key_def)

text \<open>What a turn itself, apart from its retry receipt, does to the rows of this theory.\<close>

definition core_frame :: "db \<Rightarrow> db \<Rightarrow> bool" where
  "core_frame d d' = (turn_receipts d' = turn_receipts d \<and> leads d' = leads d \<and> next_id d \<le> next_id d' \<and>
     (\<exists>hs. handoff_added d d' hs))"

lemma core_frame_refl [simp]: "core_frame d d"
  by (simp add: core_frame_def handoff_added_def)

lemma process_turn_core:
  assumes "process_turn e s i clk d = (res, d')"
  shows "core_frame d d'"
proof -
  have reply: "core_frame d x" if "reply_frame d x" for x
    using that reply_frame_same [OF that] by (simp add: reply_frame_def core_frame_def)
  from assms show ?thesis
  proof (cases rule: process_turn_cases)
    case (refused x)
    with reply show ?thesis by simp
  next
    case (replied r d1 ms qs)
    from reply [OF replied(2)] replied(4) show ?thesis
      unfolding core_frame_def handoff_added_def
      by (subst (1 2 3 4) replied(5)) (auto intro: less_le_trans)
  qed
qed

lemma direct_turn_core: "direct_turn e s i clk d = (res, d') \<Longrightarrow> core_frame d d'"
  by (auto simp: direct_turn_def split: sum.splits dest: process_turn_core)

text \<open>A receipt a direct turn adds, under a new key.\<close>

definition receipts_added :: "db \<Rightarrow> db \<Rightarrow> turn_receipt list \<Rightarrow> bool" where
  "receipts_added d d' rs = (turn_receipts d' = turn_receipts d @ rs \<and>
     (rs = [] \<or> (\<exists>r. rs = [r] \<and> next_id d \<le> tr_id r \<and> tr_id r < next_id d' \<and> receipt_wf r \<and>
        receipt_key r \<notin> set (map receipt_key (turn_receipts d)))))"

definition direct_frame :: "db \<Rightarrow> db \<Rightarrow> bool" where
  "direct_frame d d' = (leads d' = leads d \<and> next_id d \<le> next_id d' \<and> (\<exists>hs. handoff_added d d' hs) \<and>
     (\<exists>rs. receipts_added d d' rs))"

lemma direct_frame_core: "core_frame d d' \<Longrightarrow> direct_frame d d'"
  by (auto simp: core_frame_def direct_frame_def receipts_added_def)

text \<open>The answer a completed receipt gives to the request it was stored for.\<close>

definition as_duplicate :: "direct_outcome \<Rightarrow> direct_outcome" where
  "as_duplicate o' = \<lparr>dt_result = (dt_result o')\<lparr>to_ai_invoked := False\<rparr>, dt_duplicate = True\<rparr>"

definition completed_receipt :: "turn_receipt \<Rightarrow> turn_result \<Rightarrow> int \<Rightarrow> turn_receipt" where
  "completed_receipt r x t = fst (complete_turn_receipt r (to_stage x) (to_reply x) (to_approval_id x)
     (to_handoff_required x) (to_handoff_reason x) t undefined)"

lemma complete_turn_receipt_eq:
  "complete_turn_receipt r (to_stage x) (to_reply x) (to_approval_id x) (to_handoff_required x) (to_handoff_reason x) t d
   = (completed_receipt r x t, save_turn_receipt (completed_receipt r x t) d)"
  by (simp add: completed_receipt_def complete_turn_receipt_def Let_def)

lemma completed_receipt_simps [simp]:
  "tr_id (completed_receipt r x t) = tr_id r" "receipt_key (completed_receipt r x t) = receipt_key r"
  "receipt_wf (completed_receipt r x t)" "tr_status (completed_receipt r x t) = TURN_COMPLETED"
  "tr_request_fingerprint (completed_receipt r x t) = tr_request_fingerprint r"
  by (simp_all add: completed_receipt_def complete_turn_receipt_def receipt_key_def receipt_wf_def Let_def)

lemma replay_completed:
  "to_lead_id x = tr_lead_id r \<Longrightarrow> replay_or_raise (completed_receipt r x t) (tr_request_fingerprint r) =
     Inr (as_duplicate \<lparr>dt_result = x, dt_duplicate = False\<rparr>)"
  by (simp add: replay_or_raise_def completed_receipt_def complete_turn_receipt_def as_duplicate_def Let_def)

lemma replay_receipt:
  "replay_or_raise r fp = Inr y \<Longrightarrow> y = as_duplicate y"
  by (auto simp: replay_or_raise_def as_duplicate_def split: if_splits option.splits)

lemma direct_turn_lead: "direct_turn e s i clk d = (Inr x, d') \<Longrightarrow> to_lead_id x = ti_lead_id i"
  by (auto simp: direct_turn_def turn_rows_def split: sum.splits elim!: process_turn_cases)

text \<open>What a stored receipt answers: a conflict for another request or a turn still in progress,
  otherwise the stored answer, marked as a duplicate.\<close>

definition answers_conflict :: "turn_receipt \<Rightarrow> string \<Rightarrow> bool" where
  "answers_conflict r fp = (tr_request_fingerprint r \<noteq> fp \<or> tr_status r = TURN_IN_PROGRESS)"

lemma replay_wf:
  assumes "receipt_wf r"
  shows "if answers_conflict r fp
    then replay_or_raise r fp = Inl (SalesE DirectConversationTurnIdempotencyConflictError)
    else \<exists>out. replay_or_raise r fp = Inr out \<and> dt_duplicate out \<and> tr_detected_stage r = Some (to_stage (dt_result out)) \<and>
      tr_draft_reply r = Some (to_reply (dt_result out))"
  using assms by (auto simp: replay_or_raise_def answers_conflict_def receipt_wf_def)

text \<open>A keyed direct turn on every path: refused without a reservation, answered from the stored
  receipt, cancelled with the reservation standing, failed with the reservation released, or completed.\<close>

lemma process_direct_keyed:
  assumes run: "process_direct sha256 e s i (Some k) clk d = (res, d')"
    and inv: "\<forall>r \<in> set (turn_receipts d). tr_id r < next_id d"
  obtains (refused) x where "res = Inl x" "d' = d"
      "normalize_key k = Inl x \<or> x = SalesE NotFoundError"
      "normalize_key k \<noteq> Inr (py_strip k) \<or>
        \<not> (\<exists>l. get_lead_row (ti_lead_id i) d = Some l \<and> ld_tenant_id l = ws_slug (ds_workspace s))"
    | (replayed) l r where "normalize_key k = Inr (py_strip k)"
        "get_lead_row (ti_lead_id i) d = Some l" "ld_tenant_id l = ws_slug (ds_workspace s)"
        "find_turn_receipt (ws_id (ds_workspace s)) (ti_lead_id i) (py_strip k) d = Some r"
        "res = replay_or_raise r (request_fingerprint sha256 i)" "d' = take_id d"
    | (cancelled) r where "res = Inl CancelledError" "normalize_key k = Inr (py_strip k)"
        "receipt_key r = (ws_id (ds_workspace s), ti_lead_id i, py_strip k)" "tr_status r = TURN_IN_PROGRESS"
        "next_id d \<le> tr_id r" "tr_id r < next_id d'"
        "find_turn_receipt (ws_id (ds_workspace s)) (ti_lead_id i) (py_strip k) d = None"
        "leads d' = leads d" "next_id d \<le> next_id d'" "\<exists>hs. handoff_added d d' hs"
        "turn_receipts d' = turn_receipts d @ [r]"
    | (failed) x where "res = Inl x" "x \<noteq> CancelledError" "core_frame d d'" "normalize_key k = Inr (py_strip k)"
        "find_turn_receipt (ws_id (ds_workspace s)) (ti_lead_id i) (py_strip k) d = None"
    | (done') r x where "res = Inr \<lparr>dt_result = x, dt_duplicate = False\<rparr>" "to_lead_id x = ti_lead_id i"
        "receipt_key r = (ws_id (ds_workspace s), ti_lead_id i, py_strip k)" "next_id d \<le> tr_id r" "tr_id r < next_id d'"
        "find_turn_receipt (ws_id (ds_workspace s)) (ti_lead_id i) (py_strip k) d = None"
        "tr_request_fingerprint r = request_fingerprint sha256 i" "tr_lead_id r = ti_lead_id i"
        "leads d' = leads d" "next_id d \<le> next_id d'" "\<exists>hs. handoff_added d d' hs"
        "turn_receipts d' = turn_receipts d @ [completed_receipt r x (clk 5)]"
proof -
  let ?ws = "ds_workspace s" and ?fp = "request_fingerprint sha256 i"
  show thesis
  proof (cases "normalize_key k")
    case (Inl x)
    with run show ?thesis by (intro refused [of x]) (simp_all add: process_direct_def)
  next
    case (Inr nk)
    then have key: "nk = py_strip k" by (simp add: normalize_key_def split: if_splits)
    show ?thesis
    proof (cases "\<exists>l. get_lead_row (ti_lead_id i) d = Some l \<and> ld_tenant_id l = ws_slug ?ws")
      case False
      with run Inr show ?thesis
        by (intro refused [of "SalesE NotFoundError"])
          (auto simp: process_direct_def get_lead_def Let_def split: option.splits if_splits)
    next
      case True
      then obtain l where l: "get_lead_row (ti_lead_id i) d = Some l" "ld_tenant_id l = ws_slug ?ws" by blast
      then have id: "ld_id l = ti_lead_id i" using lds.get_ident by blast
      show ?thesis
      proof (cases "find_turn_receipt (ws_id ?ws) (ti_lead_id i) nk d")
        case (Some r)
        with run Inr key l id show ?thesis
          by (intro replayed [of l r])
            (auto simp: process_direct_def get_lead_def reserve_turn_receipt_def Let_def)
      next
        case None
        let ?r = "new_turn_receipt ?ws l nk ?fp (clk 4) d"
        let ?d1 = "take_id (d\<lparr>turn_receipts := turn_receipts d @ [?r]\<rparr>)"
        obtain out d2 where turn: "direct_turn e s i clk ?d1 = (out, d2)" by fastforce
        from direct_turn_core [OF turn] have core: "turn_receipts d2 = turn_receipts d @ [?r]" "leads d2 = leads d"
          "Suc (next_id d) \<le> next_id d2" "\<exists>hs. handoff_added d d2 hs"
          by (auto simp: core_frame_def take_id_def handoff_added_def active_handoffs_def)
        have r: "tr_id ?r = next_id d" "receipt_key ?r = (ws_id ?ws, ti_lead_id i, nk)"
          "tr_request_fingerprint ?r = ?fp" "tr_lead_id ?r = ti_lead_id i"
          using id by (simp_all add: new_turn_receipt_def receipt_key_def)
        have fresh: "tr_id y \<noteq> next_id d" if "y \<in> set (turn_receipts d)" for y using inv that by auto
        show ?thesis
        proof (cases out)
          case (Inl x)
          with run Inr l id None turn have out: "res = Inl x"
              "d' = (if x = CancelledError then d2 else discard_turn_receipt ?r d2)"
            by (auto simp: process_direct_def get_lead_def reserve_turn_receipt_def Let_def)
          show ?thesis
          proof (cases "x = CancelledError")
            case True
            with out Inr key r core None show ?thesis
              by (intro cancelled [of ?r]) (simp_all add: new_turn_receipt_def)
          next
            case False
            with out have res: "res = Inl x" "d' = discard_turn_receipt ?r d2" by simp_all
            have "filter (\<lambda>y. tr_id y \<noteq> tr_id ?r) (turn_receipts d) = turn_receipts d"
              using fresh r(1) by (auto simp: filter_id_conv)
            then have rs: "turn_receipts d' = turn_receipts d"
              by (simp add: res(2) discard_turn_receipt_def core(1))
            moreover have "core_frame d d'"
              using core rs by (simp add: core_frame_def res(2) discard_turn_receipt_def handoff_added_def)
            ultimately show ?thesis using res(1) False None Inr key
              by (intro failed [of x]) (simp_all add: find_turn_receipt_def)
          qed
        next
          case out: (Inr x)
          let ?c = "completed_receipt ?r x (clk 5)"
          from run Inr l id None turn out have res: "res = Inr \<lparr>dt_result = x, dt_duplicate = False\<rparr>"
            "d' = save_turn_receipt ?c d2"
            by (auto simp: process_direct_def get_lead_def reserve_turn_receipt_def Let_def complete_turn_receipt_eq)
          have "tr_id ?c \<notin> tr_id ` set (turn_receipts d)"
            using fresh r(1) by (metis completed_receipt_simps(1) imageE)
          then have "row_update tr_id ?c (turn_receipts d) = turn_receipts d"
            by (rule row_update_not_in)
          then have "turn_receipts d' = turn_receipts d @ [?c]"
            by (simp add: res(2) save_turn_receipt_def core(1) row_update_def)
          moreover have "leads d' = leads d" "next_id d' = next_id d2" "handoffs d' = handoffs d2"
            using core by (simp_all add: res(2) save_turn_receipt_def)
          ultimately show ?thesis
            using res(1) r core None key direct_turn_lead [OF turn [unfolded out]]
            by (intro done' [of x ?r]) (simp_all add: handoff_added_def)
        qed
      qed
    qed
  qed
qed

lemma process_direct_frame:
  assumes run: "process_direct sha256 e s i key clk d = (res, d')" and inv: "receipts_inv d"
  shows "direct_frame d d'"
proof (cases key)
  case None
  with run show ?thesis
    by (auto simp: process_direct_def split: prod.splits sum.splits dest!: direct_turn_core direct_frame_core)
next
  case (Some k)
  have ids: "\<forall>r \<in> set (turn_receipts d). tr_id r < next_id d" using inv by (simp add: receipts_inv_def)
  from run [unfolded Some] ids show ?thesis
  proof (cases rule: process_direct_keyed)
    case (replayed l r)
    then show ?thesis
      by (simp add: direct_frame_def take_id_def receipts_added_def handoff_added_def)
  next
    case (cancelled r)
    have "receipts_added d d' [r]"
      using cancelled by (simp add: receipts_added_def find_turn_receipt_None_iff receipt_wf_def)
    with cancelled show ?thesis unfolding direct_frame_def by blast
  next
    case (done' r x)
    have "receipts_added d d' [completed_receipt r x (clk 5)]"
      using done' by (simp add: receipts_added_def find_turn_receipt_None_iff)
    with done' show ?thesis unfolding direct_frame_def by blast
  qed (simp_all add: direct_frame_core)
qed

section \<open>The system\<close>

inductive sales_step :: "(string \<Rightarrow> string) \<Rightarrow> db \<Rightarrow> db \<Rightarrow> bool" for sha256 where
  ss_direct: "process_direct sha256 e s i key clk d = (res, d') \<Longrightarrow> sales_step sha256 d d'"
| ss_inbound: "receive_inbound_event e st cx ev event_id clk d = (ans, d') \<Longrightarrow> sales_step sha256 d d'"
| ss_resolve: "resolve_active_handoff ws k t d = (r, d') \<Longrightarrow> sales_step sha256 d d'"
| ss_stage: "stage_transition ws k st t d = (sr, d') \<Longrightarrow> sales_step sha256 d d'"
| ss_decide: "decision_step actor k d d' \<Longrightarrow> sales_step sha256 d d'"

inductive_cases sales_stepE: "sales_step sha256 d d'"

text \<open>What every step does: leads keep their workspace, receipts are only added, and the handoffs stay,
  gain one, or one active handoff is resolved.\<close>

definition lead_tenant :: "uuid \<Rightarrow> db \<Rightarrow> string option" where
  "lead_tenant k d = map_option ld_tenant_id (get_lead_row k d)"

definition handoff_resolved :: "db \<Rightarrow> db \<Rightarrow> bool" where
  "handoff_resolved d d' = (\<exists>h t. h \<in> set (handoffs d) \<and> ho_status h = HANDOFF_ACTIVE \<and>
     handoffs d' = row_update ho_id (h\<lparr>ho_status := HANDOFF_RESOLVED, ho_resolved_at := Some (utc t)\<rparr>) (handoffs d))"

definition sales_effect :: "db \<Rightarrow> db \<Rightarrow> bool" where
  "sales_effect d d' = ((\<forall>k. lead_tenant k d' = lead_tenant k d) \<and> next_id d \<le> next_id d' \<and>
     (\<exists>rs. receipts_added d d' rs) \<and> ((\<exists>hs. handoff_added d d' hs) \<or> handoff_resolved d d'))"

lemma sales_effect_direct: "direct_frame d d' \<Longrightarrow> sales_effect d d'"
  by (auto simp: direct_frame_def sales_effect_def lead_tenant_def get_lead_row_def)

lemma sales_effect_core: "core_frame d d' \<Longrightarrow> sales_effect d d'"
  by (simp add: sales_effect_direct direct_frame_core)

lemma handle_event_core: "handle_event e st ev ws clk d = (res, d') \<Longrightarrow> core_frame d d'"
  by (auto simp: handle_event_def split: sum.splits if_splits dest: process_turn_core)

lemma reserve_event_core:
  "reserve_event ws acc ev clk d = (res, d') \<Longrightarrow>
   core_frame d d' \<and> handoffs d' = handoffs d"
  by (auto simp: reserve_event_def Let_def take_id_def core_frame_def handoff_added_def
      split: sum.splits option.splits)

lemma core_frame_after:
  "core_frame d x \<Longrightarrow> handoffs x = handoffs d \<Longrightarrow> core_frame x y \<Longrightarrow> core_frame d y"
  by (auto simp: core_frame_def handoff_added_def active_handoffs_def)

lemma receive_inbound_core:
  assumes "receive_inbound_event e st cx ev event_id clk d = (res, d')"
  shows "core_frame d d'"
proof (cases event_id)
  case None
  with assms show ?thesis
    by (auto simp: receive_inbound_event_def split: prod.splits sum.splits dest: handle_event_core)
next
  case (Some k)
  obtain out d1 where rv: "reserve_event (ic_workspace cx) (ic_account cx) k (\<lambda>_. clk 6) d = (out, d1)" by fastforce
  note r = reserve_event_core [OF rv]
  from assms Some rv r show ?thesis
    by (auto simp: receive_inbound_event_def split: prod.splits sum.splits if_splits
        intro: core_frame_after dest: handle_event_core)
qed

lemma resolve_effect:
  assumes "resolve_active_handoff ws k t d = (res, d')"
  shows "sales_effect d d'"
proof (cases "\<exists>l h. get_lead k d = Inr l \<and> ld_tenant_id l = ws_slug ws \<and> get_sales_handoff ws (ld_id l) d = Some h")
  case True
  then obtain l h where l: "get_lead k d = Inr l" "ld_tenant_id l = ws_slug ws" "get_sales_handoff ws (ld_id l) d = Some h"
    by blast
  with assms have d': "d' = save_handoff (h\<lparr>ho_status := HANDOFF_RESOLVED, ho_resolved_at := Some (utc t)\<rparr>) d"
    by (auto simp: resolve_active_handoff_def resolve_sales_handoff_def Let_def split: option.splits)
  from get_sales_handoff_SomeD [OF l(3)] have "handoff_resolved d d'"
    by (auto simp: handoff_resolved_def d' save_handoff_def)
  then show ?thesis
    by (simp add: sales_effect_def d' save_handoff_def lead_tenant_def get_lead_row_def receipts_added_def)
next
  case False
  with assms have "d' = d"
    by (auto simp: resolve_active_handoff_def resolve_sales_handoff_def split: sum.splits if_splits option.splits)
  then show ?thesis by (simp add: sales_effect_core)
qed

lemma stage_effect:
  assumes "stage_transition ws k st t d = (res, d')"
  shows "sales_effect d d'"
proof (cases "d' = d")
  case True
  then show ?thesis by (simp add: sales_effect_core)
next
  case False
  with assms obtain l where l: "get_lead_row k d = Some l"
    "d' = save_lead (l\<lparr>ld_sales_stage := sr_resulting (stage_evaluate (ld_sales_stage l) st), ld_updated_at := utc t\<rparr>) d"
    by (auto simp: stage_transition_def get_lead_def update_sales_stage_def Let_def split: option.splits if_splits)
  have "lead_tenant j d' = lead_tenant j d" for j
    using l lds.get_ident [OF l(1)] by (auto simp: lead_tenant_def lds.get_put)
  then show ?thesis
    by (simp add: sales_effect_def l(2) save_lead_def receipts_added_def handoff_added_def)
qed

lemma decision_effect: "decision_step actor k d d' \<Longrightarrow> sales_effect d d'"
  by (erule decision_stepE; intro sales_effect_core)
    (auto simp: approve_def reject_def Let_def core_frame_def handoff_added_def take_id_def save_approval_def
      split: sum.splits option.splits if_splits)

lemma sales_step_effect:
  assumes "sales_step sha256 d d'" and "receipts_inv d"
  shows "sales_effect d d'"
  using assms(1)
proof cases
  case (ss_direct e s i key clk res)
  from process_direct_frame [OF this assms(2)] show ?thesis by (rule sales_effect_direct)
next
  case (ss_inbound e st cx ev event_id clk ans)
  from receive_inbound_core [OF this] show ?thesis by (rule sales_effect_core)
qed (auto intro: resolve_effect stage_effect decision_effect)

section \<open>The invariant\<close>

definition handoffs_inv :: "db \<Rightarrow> bool" where
  "handoffs_inv d = (distinct (map ho_id (handoffs d)) \<and> (\<forall>h \<in> set (handoffs d). ho_id h < next_id d) \<and>
     distinct (active_handoffs d))"

definition sales_inv :: "db \<Rightarrow> bool" where
  "sales_inv d = (receipts_inv d \<and> handoffs_inv d)"

lemma filter_row_update_drop:
  "\<not> P r \<Longrightarrow> filter P (row_update key r rows) = filter (\<lambda>x. P x \<and> key x \<noteq> key r) rows"
  by (induction rows) (auto simp: row_simps)

lemma distinct_map_filter_conj:
  assumes "distinct (map f (filter P xs))"
  shows "distinct (map f (filter (\<lambda>x. P x \<and> Q x) xs))"
  using distinct_map_filter [OF assms, of Q] by (simp add: conj_commute)

lemma receipts_added_inv:
  assumes "receipts_inv d" "receipts_added d d' rs" "next_id d \<le> next_id d'"
  shows "receipts_inv d'"
  using assms by (auto simp: receipts_inv_def receipts_added_def intro: less_le_trans)

lemma handoff_added_inv:
  assumes inv: "handoffs_inv d" and hs: "handoff_added d d' hs" and le: "next_id d \<le> next_id d'"
  shows "handoffs_inv d'"
proof -
  from hs consider "handoffs d' = handoffs d" | h where "handoffs d' = handoffs d @ [h]" "next_id d \<le> ho_id h"
      "ho_id h < next_id d'" "ho_status h = HANDOFF_ACTIVE" "(ho_workspace_id h, ho_lead_id h) \<notin> set (active_handoffs d)"
    by (auto simp: handoff_added_def)
  then show ?thesis
  proof cases
    case 1
    with inv le show ?thesis by (auto simp: handoffs_inv_def active_handoffs_def intro: less_le_trans)
  next
    case (2 h)
    have "ho_id h \<notin> ho_id ` set (handoffs d)" using inv 2(2) by (fastforce simp: handoffs_inv_def)
    moreover have "active_handoffs d' = active_handoffs d @ [(ho_workspace_id h, ho_lead_id h)]"
      using 2 by (simp add: active_handoffs_def)
    ultimately show ?thesis using inv le 2 by (auto simp: handoffs_inv_def intro: less_le_trans)
  qed
qed

lemma handoff_resolved_inv:
  assumes inv: "handoffs_inv d" and r: "handoff_resolved d d'" and le: "next_id d \<le> next_id d'"
  shows "handoffs_inv d'"
proof -
  from r obtain h t where h: "h \<in> set (handoffs d)"
    and d': "handoffs d' = row_update ho_id (h\<lparr>ho_status := HANDOFF_RESOLVED, ho_resolved_at := Some (utc t)\<rparr>) (handoffs d)"
    by (auto simp: handoff_resolved_def)
  let ?pair = "\<lambda>x. (ho_workspace_id x, ho_lead_id x)"
  have "active_handoffs d' = map ?pair (filter (\<lambda>x. ho_status x = HANDOFF_ACTIVE \<and> ho_id x \<noteq> ho_id h) (handoffs d))"
    by (simp add: active_handoffs_def d' filter_row_update_drop)
  then have "distinct (active_handoffs d')"
    using inv by (simp add: handoffs_inv_def active_handoffs_def distinct_map_filter_conj)
  moreover have "ho_id x < next_id d'" if "x \<in> set (handoffs d')" for x
    using that h inv le unfolding d'
    by (auto dest!: row_update_in_set simp: handoffs_inv_def intro: less_le_trans)
  ultimately show ?thesis using inv by (simp add: handoffs_inv_def d')
qed

lemma sales_step_inv: "sales_step sha256 d d' \<Longrightarrow> sales_inv d \<Longrightarrow> sales_inv d'"
  using sales_step_effect [of sha256 d d']
  by (auto simp: sales_inv_def sales_effect_def intro: receipts_added_inv handoff_added_inv handoff_resolved_inv)

interpretation sales: invariant_system "sales_step sha256" sales_inv for sha256
  by unfold_locales (rule sales_step_inv)

lemma sales_inv_sample: "sales_inv sample_db"
  by (simp add: sales_inv_def receipts_inv_def handoffs_inv_def active_handoffs_def sample_db_def empty_db_def)

section \<open>Handoffs over time\<close>

lemma resolved_stays:
  assumes "sales_step sha256 d d'" "sales_inv d" "h \<in> set (handoffs d)" "ho_status h = HANDOFF_RESOLVED"
  shows "h \<in> set (handoffs d')"
proof -
  have "sales_effect d d'" using assms(1,2) by (simp add: sales_step_effect sales_inv_def)
  then consider hs where "handoff_added d d' hs" | "handoff_resolved d d'" by (auto simp: sales_effect_def)
  then show ?thesis
  proof cases
    case 1
    with assms(3) show ?thesis by (auto simp: handoff_added_def)
  next
    case 2
    then obtain a t where a: "a \<in> set (handoffs d)" "ho_status a = HANDOFF_ACTIVE"
      "handoffs d' = row_update ho_id (a\<lparr>ho_status := HANDOFF_RESOLVED, ho_resolved_at := Some (utc t)\<rparr>) (handoffs d)"
      by (auto simp: handoff_resolved_def)
    have "inj_on ho_id (set (handoffs d))" using assms(2) by (simp add: sales_inv_def handoffs_inv_def distinct_map)
    with a(1,2) assms(3,4) have "ho_id h \<noteq> ho_id a" by (metis handoff_status.distinct(1) inj_onD)
    with a(3) assms(3) show ?thesis by (auto simp: row_update_def image_iff intro!: bexI [of _ h])
  qed
qed

text \<open>C34: Over any sequence of turns, inbound events, resolutions, stage transitions and decisions, a lead
  has at most one active handoff in a workspace, and a resolved handoff is never changed or removed.\<close>

theorem one_active_handoff:
  assumes steps: "(sales_step sha256)\<^sup>*\<^sup>* d d'" and inv: "sales_inv d"
  shows "length (filter (\<lambda>h. ho_status h = HANDOFF_ACTIVE) (handoffs_of ws k d')) \<le> 1 \<and>
    (\<forall>h \<in> set (handoffs d). ho_status h = HANDOFF_RESOLVED \<longrightarrow> h \<in> set (handoffs d'))"
proof
  let ?pair = "\<lambda>x. (ho_workspace_id x, ho_lead_id x)"
  let ?hs = "filter (\<lambda>h. ho_status h = HANDOFF_ACTIVE) (handoffs_of ws k d')"
  have "?hs = filter (\<lambda>x. ho_status x = HANDOFF_ACTIVE \<and> ho_workspace_id x = ws_id ws \<and> ho_lead_id x = k) (handoffs d')"
    by (simp add: handoffs_of_def conj_commute)
  moreover have "distinct (active_handoffs d')"
    using sales.steps_inv [OF steps inv] by (simp add: sales_inv_def handoffs_inv_def)
  ultimately have "distinct (map ?pair ?hs)" by (simp add: active_handoffs_def distinct_map_filter_conj)
  moreover have "set (map ?pair ?hs) \<subseteq> {(ws_id ws, k)}" by (auto simp: handoffs_of_def)
  ultimately show "length ?hs \<le> 1"
    using card_mono [of "{(ws_id ws, k)}" "set (map ?pair ?hs)"] distinct_card [of "map ?pair ?hs"] by simp
next
  show "\<forall>h \<in> set (handoffs d). ho_status h = HANDOFF_RESOLVED \<longrightarrow> h \<in> set (handoffs d')"
  proof (intro ballI impI)
    fix h assume h: "h \<in> set (handoffs d)" "ho_status h = HANDOFF_RESOLVED"
    show "h \<in> set (handoffs d')"
      by (rule sales.steps_keep [where P = "\<lambda>x. h \<in> set (handoffs x)", OF _ steps inv h(1)])
        (rule resolved_stays [OF _ _ _ h(2)])
  qed
qed

definition handoff_db :: db where
  "handoff_db = sample_db\<lparr>handoffs := [handoff_row]\<rparr>"

lemma handoff_db_inv: "sales_inv handoff_db"
  by (simp add: sales_inv_def receipts_inv_def handoffs_inv_def active_handoffs_def handoff_db_def
      sample_db_def empty_db_def handoff_row_def)

theorem one_active_handoff_witness:
  "\<exists>d'. resolve_active_handoff sample_ws 5 9 handoff_db =
      (Inr \<lparr>hr_lead_id = 5, hr_reason = HUMAN_REQUESTED, hr_status = HANDOFF_RESOLVED, hr_created_at = utc 0,
        hr_resolved_at = utc 9\<rparr>, d') \<and>
     length (filter (\<lambda>h. ho_status h = HANDOFF_ACTIVE) (handoffs_of sample_ws 5 d')) \<le> 1"
proof -
  have run: "\<exists>d'. resolve_active_handoff sample_ws 5 9 handoff_db =
      (Inr \<lparr>hr_lead_id = 5, hr_reason = HUMAN_REQUESTED, hr_status = HANDOFF_RESOLVED, hr_created_at = utc 0,
        hr_resolved_at = utc 9\<rparr>, d')"
    by (simp add: resolve_active_handoff_def resolve_sales_handoff_def get_lead_def get_lead_row_def handoff_db_def
        sample_defs get_sales_handoff_def handoffs_of_def handoff_row_def Let_def)
  then obtain d' where d': "resolve_active_handoff sample_ws 5 9 handoff_db =
      (Inr \<lparr>hr_lead_id = 5, hr_reason = HUMAN_REQUESTED, hr_status = HANDOFF_RESOLVED, hr_created_at = utc 0,
        hr_resolved_at = utc 9\<rparr>, d')" by blast
  have "(sales_step undefined)\<^sup>*\<^sup>* handoff_db d'" by (rule r_into_rtranclp) (rule ss_resolve [OF d'])
  from one_active_handoff [OF this handoff_db_inv, of sample_ws 5] d' show ?thesis by blast
qed

section \<open>Retries of direct turns\<close>

lemma receipt_stays:
  assumes "(sales_step sha256)\<^sup>*\<^sup>* d d'" "sales_inv d" "find_turn_receipt w l k d = Some r"
  shows "find_turn_receipt w l k d' = Some r"
  using assms(1,2,3)
proof (rule sales.steps_keep [where P = "\<lambda>x. find_turn_receipt w l k x = Some r", rotated 1])
  fix s t
  assume "sales_step sha256 s t" "sales_inv s" and f: "find_turn_receipt w l k s = Some r"
  then have "sales_effect s t" by (simp add: sales_step_effect sales_inv_def)
  then obtain rs where "turn_receipts t = turn_receipts s @ rs"
    by (auto simp: sales_effect_def receipts_added_def)
  with f show "find_turn_receipt w l k t = Some r" by (simp add: find_turn_receipt_def find_append)
qed

lemma lead_tenant_stays:
  assumes "(sales_step sha256)\<^sup>*\<^sup>* d d'" "sales_inv d"
  shows "lead_tenant k d' = lead_tenant k d"
  using assms(1,2) refl
proof (rule sales.steps_keep [where P = "\<lambda>x. lead_tenant k x = lead_tenant k d", rotated 1])
  fix s t
  assume "sales_step sha256 s t" "sales_inv s" "lead_tenant k s = lead_tenant k d"
  then show "lead_tenant k t = lead_tenant k d"
    using sales_step_effect [of sha256 s t] by (simp add: sales_effect_def sales_inv_def)
qed

lemma lead_tenant_SomeD:
  "lead_tenant k d = Some t \<Longrightarrow> \<exists>l. get_lead k d = Inr l \<and> ld_tenant_id l = t \<and> ld_id l = k"
  by (auto simp: lead_tenant_def get_lead_def dest: lds.get_ident)

text \<open>A keyed turn that returned has left a receipt that gives its answer again.\<close>

lemma process_direct_stored:
  assumes run: "process_direct sha256 e s i (Some k) clk d = (Inr out, d')" and inv: "sales_inv d"
  shows "\<exists>r. find_turn_receipt (ws_id (ds_workspace s)) (ti_lead_id i) (py_strip k) d' = Some r \<and>
      replay_or_raise r (request_fingerprint sha256 i) = Inr (as_duplicate out) \<and>
      normalize_key k = Inr (py_strip k) \<and> lead_tenant (ti_lead_id i) d' = Some (ws_slug (ds_workspace s))"
proof -
  have ids: "\<forall>r \<in> set (turn_receipts d). tr_id r < next_id d" using inv by (simp add: sales_inv_def receipts_inv_def)
  have key: "normalize_key k = Inr (py_strip k)" and l: "lead_tenant (ti_lead_id i) d = Some (ws_slug (ds_workspace s))"
    using run by (auto simp: process_direct_def normalize_key_def get_lead_def lead_tenant_def Let_def
        split: sum.splits if_splits option.splits)
  have l': "lead_tenant (ti_lead_id i) d' = Some (ws_slug (ds_workspace s))"
    using process_direct_frame [OF run] inv l by (simp add: direct_frame_def lead_tenant_def get_lead_row_def sales_inv_def)
  from run ids show ?thesis
  proof (cases rule: process_direct_keyed)
    case (replayed l r)
    from replayed(5) have rep: "replay_or_raise r (request_fingerprint sha256 i) = Inr out" by simp
    from replayed(4,6) rep replay_receipt [OF rep] key l' show ?thesis
      by (simp add: find_turn_receipt_def take_id_def)
  next
    case (done' r x)
    let ?c = "completed_receipt r x (clk 5)"
    have k3: "tr_workspace_id ?c = ws_id (ds_workspace s)" "tr_lead_id ?c = ti_lead_id i" "tr_idempotency_key ?c = py_strip k"
      using done'(3) completed_receipt_simps(2) [of r x "clk 5"] unfolding receipt_key_def by simp_all
    have "find_turn_receipt (ws_id (ds_workspace s)) (ti_lead_id i) (py_strip k) d' = Some ?c"
      using done'(6) k3 by (simp add: find_turn_receipt_def done'(12) find_append)
    moreover have "replay_or_raise ?c (request_fingerprint sha256 i) = Inr (as_duplicate out)"
      using replay_completed [of x r "clk 5"] done'(1,2,7,8) by simp
    ultimately show ?thesis using key l' by blast
  qed (simp_all)
qed

text \<open>C30: A direct turn is executed at most once per key: after a keyed request returned, the same request
  (same workspace, lead, channel, message, and key up to surrounding white space), repeated after
  any further turns, events, resolutions, stage transitions and decisions and whatever the AI
  provider or the settings are by then, answers with the same result, marked as a duplicate and as
  not having invoked AI, and no row is added or changed.\<close>

theorem direct_turn_replayed:
  assumes inv: "sales_inv d"
    and first: "process_direct sha256 e s i (Some k) clk d = (Inr out, d1)"
    and between: "(sales_step sha256)\<^sup>*\<^sup>* d1 d2"
    and same: "py_strip k' = py_strip k" "ds_workspace s' = ds_workspace s" "ti_lead_id i' = ti_lead_id i"
      "ti_channel i' = ti_channel i" "ti_message i' = ti_message i"
  shows "process_direct sha256 e' s' i' (Some k') clk' d2 =
    (Inr \<lparr>dt_result = (dt_result out)\<lparr>to_ai_invoked := False\<rparr>, dt_duplicate = True\<rparr>, take_id d2)"
proof -
  have inv1: "sales_inv d1" by (rule sales_step_inv [OF ss_direct [OF first] inv])
  from process_direct_stored [OF first inv] obtain r where
    r: "find_turn_receipt (ws_id (ds_workspace s)) (ti_lead_id i) (py_strip k) d1 = Some r"
    and rep: "replay_or_raise r (request_fingerprint sha256 i) = Inr (as_duplicate out)"
    and key: "normalize_key k = Inr (py_strip k)"
    and l: "lead_tenant (ti_lead_id i) d1 = Some (ws_slug (ds_workspace s))" by blast
  from receipt_stays [OF between inv1 r] have r2: "find_turn_receipt (ws_id (ds_workspace s)) (ti_lead_id i) (py_strip k) d2 = Some r" .
  from lead_tenant_stays [OF between inv1] l have "lead_tenant (ti_lead_id i) d2 = Some (ws_slug (ds_workspace s))" by simp
  then obtain lead where lead: "get_lead (ti_lead_id i) d2 = Inr lead" "ld_tenant_id lead = ws_slug (ds_workspace s)"
    "ld_id lead = ti_lead_id i" using lead_tenant_SomeD by blast
  have key': "normalize_key k' = Inr (py_strip k)" using key same(1) by (simp add: normalize_key_def split: if_splits)
  have fp: "request_fingerprint sha256 i' = request_fingerprint sha256 i"
    using same by (simp add: request_fingerprint_def fingerprint_payload_def)
  from key' lead r2 rep fp same show ?thesis
    by (simp add: process_direct_def reserve_turn_receipt_def Let_def as_duplicate_def)
qed

definition sample_direct :: direct_service where
  "sample_direct = \<lparr>ds_settings = sample_sales, ds_workspace = sample_ws, ds_gateway = Some sample_gateway\<rparr>"

lemma sample_direct_turn:
  assumes "leads d = [sample_lead]" "handoffs d = []"
  shows "\<exists>r d'. direct_turn sample_env sample_direct sample_turn (\<lambda>_. 0) d = (Inr r, d')"
proof -
  have "\<exists>r d'. process_turn sample_env sample_service sample_turn (\<lambda>_. 0) d = (Inr r, d')"
  proof (rule demo_turn_returns [where l = sample_lead])
    show "get_lead_row (ti_lead_id sample_turn) d = Some sample_lead"
      using assms(1) by (simp add: get_lead_row_def sample_turn_def sample_lead_def)
    show "get_sales_handoff (sv_workspace sample_service) (ti_lead_id sample_turn) d = None"
      using assms(2) by (simp add: get_sales_handoff_def handoffs_of_def)
  qed (simp_all add: sample_service_def sample_sales_def sample_settings_def sample_lead_def sample_ws_def sample_turn_def)
  then show ?thesis by (simp add: direct_turn_def make_turn_service_def sample_direct_def sample_service_def)
qed

lemma sample_key: "normalize_key ''k1'' = Inr ''k1''" "normalize_key '' k1'' = Inr ''k1''" "py_strip ''k1'' = ''k1''"
  "py_strip '' k1'' = ''k1''"
  by code_simp+

lemma sample_direct_run:
  "\<exists>out d1. process_direct (\<lambda>x. x) sample_env sample_direct sample_turn (Some ''k1'') (\<lambda>_. 0) sample_db = (Inr out, d1)"
proof -
  let ?r = "new_turn_receipt sample_ws sample_lead ''k1'' (request_fingerprint (\<lambda>x. x) sample_turn) 0 sample_db"
  let ?d = "take_id (sample_db\<lparr>turn_receipts := turn_receipts sample_db @ [?r]\<rparr>)"
  have ls: "leads ?d = [sample_lead]" "handoffs ?d = []" by (simp_all add: take_id_def sample_db_def empty_db_def)
  from sample_direct_turn [OF ls] obtain r d'
    where run: "direct_turn sample_env sample_direct sample_turn (\<lambda>_. 0) ?d = (Inr r, d')" by blast
  have lead: "get_lead (ti_lead_id sample_turn) sample_db = Inr sample_lead"
    by (simp add: get_lead_def sample_turn_def sample_lead_row)
  have none: "find_turn_receipt (ws_id sample_ws) (ld_id sample_lead) ''k1'' sample_db = None"
    by (simp add: find_turn_receipt_def sample_db_def empty_db_def)
  have ws: "ds_workspace sample_direct = sample_ws" by (simp add: sample_direct_def)
  show ?thesis
    by (simp add: process_direct_def sample_key lead ws sample_lead_row(2) reserve_turn_receipt_def none run Let_def)
qed

theorem direct_turn_replayed_witness:
  "\<exists>out d1. process_direct (\<lambda>x. x) sample_env sample_direct sample_turn (Some ''k1'') (\<lambda>_. 0) sample_db = (Inr out, d1) \<and>
     process_direct (\<lambda>x. x) sample_env sample_direct sample_turn (Some '' k1'') (\<lambda>_. 8) d1 =
       (Inr \<lparr>dt_result = (dt_result out)\<lparr>to_ai_invoked := False\<rparr>, dt_duplicate = True\<rparr>, take_id d1)"
proof -
  obtain out d1 where run: "process_direct (\<lambda>x. x) sample_env sample_direct sample_turn (Some ''k1'') (\<lambda>_. 0) sample_db = (Inr out, d1)"
    using sample_direct_run by blast
  from direct_turn_replayed [OF sales_inv_sample run rtranclp.rtrancl_refl, of "'' k1''" sample_direct sample_turn
      sample_env "\<lambda>_. 8"] run show ?thesis by (auto simp: sample_key)
qed

text \<open>A receipt in progress keeps refusing every request under its key, whatever happens in between.\<close>

lemma in_progress_refused:
  assumes inv: "sales_inv d" and steps: "(sales_step sha256)\<^sup>*\<^sup>* d d2"
    and r: "find_turn_receipt (ws_id ws) k key d = Some r" "tr_status r = TURN_IN_PROGRESS"
    and l: "lead_tenant k d = Some (ws_slug ws)" and key: "normalize_key raw = Inr key"
    and s: "ds_workspace s = ws" "ti_lead_id i = k"
  shows "process_direct sha256 e s i (Some raw) clk d2 =
    (Inl (SalesE DirectConversationTurnIdempotencyConflictError), take_id d2)"
proof -
  from receipt_stays [OF steps inv r(1)] have r2: "find_turn_receipt (ws_id ws) k key d2 = Some r" .
  from lead_tenant_stays [OF steps inv] l obtain lead where "get_lead k d2 = Inr lead"
      "ld_tenant_id lead = ws_slug ws" "ld_id lead = k" using lead_tenant_SomeD by metis
  with r2 r(2) key s show ?thesis
    by (simp add: process_direct_def reserve_turn_receipt_def replay_or_raise_def Let_def)
qed

text \<open>C31: What becomes of a keyed direct turn of a lead of the workspace, in every reachable state. If the key has
  a receipt, no turn runs: the answer is a conflict when the receipt stands for another request or is in
  progress, and the stored stage and reply otherwise. If the key is free, the turn runs: when it returns, the key has a
  completed receipt of this request; when it fails, the receipts are as before, so the key is free for a retry;
  only when it is cancelled does the key keep a receipt in progress, and then every request under
  that key is refused as a conflict, whatever turns, events, resolutions, stage transitions and
  decisions happen in between: no operation ever releases it.\<close>

theorem retry_key_released_unless_cancelled:
  assumes inv: "sales_inv d0" and steps: "(sales_step sha256)\<^sup>*\<^sup>* d0 d"
    and key: "direct_key_pattern (py_strip k)"
    and l: "get_lead_row (ti_lead_id i) d = Some l" "ld_tenant_id l = ws_slug (ds_workspace s)"
    and run: "process_direct sha256 e s i (Some k) clk d = (res, d')"
  shows "case find_turn_receipt (ws_id (ds_workspace s)) (ti_lead_id i) (py_strip k) d of
      Some r \<Rightarrow> d' = take_id d \<and>
        (if answers_conflict r (request_fingerprint sha256 i)
         then res = Inl (SalesE DirectConversationTurnIdempotencyConflictError)
         else \<exists>out. res = Inr out \<and> dt_duplicate out \<and> tr_detected_stage r = Some (to_stage (dt_result out)) \<and>
           tr_draft_reply r = Some (to_reply (dt_result out)))
    | None \<Rightarrow>
        (case res of
           Inr out \<Rightarrow> \<not> dt_duplicate out \<and>
             (\<exists>r. find_turn_receipt (ws_id (ds_workspace s)) (ti_lead_id i) (py_strip k) d' = Some r \<and>
               \<not> answers_conflict r (request_fingerprint sha256 i))
         | Inl x \<Rightarrow>
             if x = CancelledError then
               (\<exists>r. find_turn_receipt (ws_id (ds_workspace s)) (ti_lead_id i) (py_strip k) d' = Some r \<and>
                  tr_status r = TURN_IN_PROGRESS) \<and>
               (\<forall>d2 e2 s2 i2 k2 clk2. (sales_step sha256)\<^sup>*\<^sup>* d' d2 \<longrightarrow> ds_workspace s2 = ds_workspace s \<longrightarrow>
                  ti_lead_id i2 = ti_lead_id i \<longrightarrow> py_strip k2 = py_strip k \<longrightarrow>
                  process_direct sha256 e2 s2 i2 (Some k2) clk2 d2 =
                    (Inl (SalesE DirectConversationTurnIdempotencyConflictError), take_id d2))
             else turn_receipts d' = turn_receipts d)"
proof -
  let ?find = "find_turn_receipt (ws_id (ds_workspace s)) (ti_lead_id i) (py_strip k)"
  from sales.steps_inv [OF steps inv] have r: "receipts_inv d" and si: "sales_inv d" by (simp_all add: sales_inv_def)
  then have ids: "\<forall>r \<in> set (turn_receipts d). tr_id r < next_id d" by (simp add: receipts_inv_def)
  have nk: "normalize_key j = Inr (py_strip k)" if "py_strip j = py_strip k" for j
    using key that by (simp add: normalize_key_def)
  from run ids show ?thesis
  proof (cases rule: process_direct_keyed)
    case refused
    with l nk [OF refl] show ?thesis by blast
  next
    case (replayed l' y)
    have "receipt_wf y" using r find_turn_receipt_SomeD [OF replayed(4)] by (auto simp: receipts_inv_def)
    from replay_wf [OF this] replayed(4-6) show ?thesis by simp
  next
    case (cancelled y)
    then have y: "?find d' = Some y" by (simp add: find_turn_receipt_def find_append receipt_key_def)
    have inv': "sales_inv d'" by (rule sales_step_inv [OF ss_direct [OF run] si])
    have "lead_tenant (ti_lead_id i) d' = Some (ws_slug (ds_workspace s))"
      using l cancelled(8) by (simp add: lead_tenant_def get_lead_row_def)
    from in_progress_refused [OF inv' _ y cancelled(4) this nk] y cancelled(1,4,7) show ?thesis by simp
  next
    case (failed x)
    then show ?thesis by (simp add: core_frame_def)
  next
    case (done' y x)
    let ?c = "completed_receipt y x (clk 5)"
    have "receipt_key ?c = (ws_id (ds_workspace s), ti_lead_id i, py_strip k)" using done'(3) by simp
    then have "?find d' = Some ?c"
      using done'(6) unfolding receipt_key_def by (simp add: find_turn_receipt_def done'(12) find_append)
    with done'(1,6,7) show ?thesis by (simp add: answers_conflict_def)
  qed
qed

text \<open>A turn whose AI call is cancelled, in a workspace without limits.\<close>

definition live_gateway :: gateway where
  "live_gateway = \<lparr>gw_settings = sample_settings\<lparr>st_llm_mode := OPENAI_COMPATIBLE, st_llm_api_key := ''k'',
     st_tier_mappings := [TIER_STANDARD \<mapsto> \<lparr>tm_provider = ''openai'', tm_model = ''m''\<rparr>]\<rparr>, gw_catalog = []\<rparr>"

definition live_direct :: direct_service where
  "live_direct = \<lparr>ds_settings = sample_sales\<lparr>ss_llm := gw_settings live_gateway\<rparr>, ds_workspace = sample_ws,
     ds_gateway = Some live_gateway\<rparr>"

definition cancelling_env :: ai_env where
  "cancelling_env = sample_env\<lparr>en_transport := \<lambda>_. HttpCancelled\<rparr>"

lemma cancelled_invocation:
  assumes "gr_task r = ''sales_conversation''" "gr_premium_justification r = None" "gr_expected_total_tokens r = None"
    "gr_expected_estimated_cost r = None" "gr_pricing_known r = None"
  shows "gateway_invoke persist (\<lambda>_. HttpCancelled) perf now live_gateway sample_ws r d = (Inl CancelledError, d)"
proof -
  have route: "route False ''sales_conversation'' None = Inr (routed TIER_STANDARD STANDARD_CONVERSATION)"
    by (simp add: route_def task_of_value_def all_tasks_def LIGHTWEIGHT_TASKS_def STANDARD_TASKS_def)
  have config: "limit_configuration sample_ws = Inr \<lparr>lc_invocation_limit = None, lc_total_token_limit = None,
      lc_spend_limit = None, lc_permitted = all_tiers, lc_downgrades = Map.empty\<rparr>"
    by (simp add: limit_configuration_def permitted_tiers_def non_negative_limit_def checked_amount_def sample_ws_def)
  have limit: "limit_evaluate m sample_ws \<lparr>lr_tier = ''standard'', lr_expected_tokens = None, lr_expected_cost = None,
      lr_pricing_known = None\<rparr> d = Inr (allowed TIER_STANDARD)" for m
    by (simp add: limit_evaluate_def config limit_tier_def tier_of_value_def all_tiers_def non_negative_limit_def
        checked_amount_def validate_pricing_estimate_def hard_limit_decision_def token_limit_reason_def
        spend_limit_reason_def Let_def)
  show ?thesis
    by (simp add: gateway_invoke_def live_gateway_def sample_settings_def assms route limit allowed_def routed_def
        resolve_tier_def tier_of_value_def all_tiers_def gateway_call_def build_llm_def complete_with_metadata_def Let_def)
qed

lemma cancelled_turn:
  assumes "leads d = [sample_lead]" "handoffs d = []"
  shows "direct_turn cancelling_env live_direct sample_turn clk d = (Inl CancelledError, d)"
proof -
  have "get_lead 5 d = Inr sample_lead" "get_sales_handoff sample_ws (ld_id sample_lead) d = None"
    "ld_tenant_id sample_lead = ws_slug sample_ws"
    using assms by (simp_all add: get_lead_def get_lead_row_def get_sales_handoff_def handoffs_of_def sample_lead_def sample_ws_def)
  then show ?thesis
    by (simp add: direct_turn_def make_turn_service_def live_direct_def process_turn_def sample_turn_def canonical_stage_for_def
        turn_handoff_def decide_handoff_def no_signals_def turn_reply_def draft_reply_def demo_mode_def turn_agent_context_def
        live_gateway_def sample_settings_def sample_sales_def agent_invoke_def agent_request_def Let_def cancelling_env_def
        cancelled_invocation [unfolded live_gateway_def sample_settings_def, simplified])
qed

lemma cancelled_direct:
  "\<exists>d'. process_direct (\<lambda>x. x) cancelling_env live_direct sample_turn (Some ''k1'') (\<lambda>_. 0) sample_db = (Inl CancelledError, d')"
proof -
  let ?r = "new_turn_receipt sample_ws sample_lead ''k1'' (request_fingerprint (\<lambda>x. x) sample_turn) 0 sample_db"
  let ?d = "take_id (sample_db\<lparr>turn_receipts := turn_receipts sample_db @ [?r]\<rparr>)"
  have ls: "leads ?d = [sample_lead]" "handoffs ?d = []" by (simp_all add: take_id_def sample_db_def empty_db_def)
  note run = cancelled_turn [OF ls, of "\<lambda>_. 0"]
  have lead: "get_lead (ti_lead_id sample_turn) sample_db = Inr sample_lead"
    by (simp add: get_lead_def sample_turn_def sample_lead_row)
  have none: "find_turn_receipt (ws_id sample_ws) (ld_id sample_lead) ''k1'' sample_db = None"
    by (simp add: find_turn_receipt_def sample_db_def empty_db_def)
  have ws: "ds_workspace live_direct = sample_ws" by (simp add: live_direct_def)
  show ?thesis
    by (simp add: process_direct_def sample_key lead ws sample_lead_row(2) reserve_turn_receipt_def none run Let_def)
qed

text \<open>A turn that returns, and one that is cancelled and whose key is refused ever after.\<close>

theorem retry_key_released_unless_cancelled_witness:
  "(\<exists>out d' r. process_direct (\<lambda>x. x) sample_env sample_direct sample_turn (Some ''k1'') (\<lambda>_. 0) sample_db = (Inr out, d') \<and>
      \<not> dt_duplicate out \<and> find_turn_receipt 1 5 ''k1'' d' = Some r) \<and>
   (\<exists>d'. process_direct (\<lambda>x. x) cancelling_env live_direct sample_turn (Some ''k1'') (\<lambda>_. 0) sample_db = (Inl CancelledError, d') \<and>
      process_direct (\<lambda>x. x) sample_env sample_direct sample_turn (Some ''k1'') (\<lambda>_. 9) d' =
        (Inl (SalesE DirectConversationTurnIdempotencyConflictError), take_id d'))"
proof -
  have key: "direct_key_pattern (py_strip ''k1'')" by code_simp
  have lead: "get_lead_row (ti_lead_id sample_turn) sample_db = Some sample_lead"
    by (simp add: sample_turn_def sample_lead_row)
  have tenant: "ld_tenant_id sample_lead = ws_slug (ds_workspace sample_direct)"
    "ds_workspace live_direct = ds_workspace sample_direct"
    by (simp_all add: sample_direct_def live_direct_def sample_lead_row)
  have none: "find_turn_receipt (ws_id (ds_workspace sample_direct)) (ti_lead_id sample_turn) (py_strip ''k1'') sample_db = None"
    by (simp add: find_turn_receipt_def sample_db_def empty_db_def)
  obtain out d' where run: "process_direct (\<lambda>x. x) sample_env sample_direct sample_turn (Some ''k1'') (\<lambda>_. 0) sample_db = (Inr out, d')"
    using sample_direct_run by blast
  obtain d2 where cancel: "process_direct (\<lambda>x. x) cancelling_env live_direct sample_turn (Some ''k1'') (\<lambda>_. 0) sample_db = (Inl CancelledError, d2)"
    using cancelled_direct by blast
  note fate = retry_key_released_unless_cancelled [OF sales_inv_sample rtranclp.rtrancl_refl key lead]
  from fate [OF tenant(1) run] none run have first: "\<not> dt_duplicate out" "\<exists>r. find_turn_receipt 1 5 ''k1'' d' = Some r"
    by (auto simp: sample_key sample_direct_def sample_ws_def sample_turn_def)
  from fate [of live_direct, unfolded tenant(2), OF tenant(1) cancel] none
  have "process_direct (\<lambda>x. x) sample_env sample_direct sample_turn (Some ''k1'') (\<lambda>_. 9) d2 =
      (Inl (SalesE DirectConversationTurnIdempotencyConflictError), take_id d2)" by simp
  with run cancel first show ?thesis by blast
qed

end
