(* ===== verification/Events.thy ===== *)
theory Events
  imports Store
begin

text \<open>
  Business events (app/core): the registry of event types and their payload models
  (event_types.py, event_payloads.py), the envelope (events.py), its factory
  (event_factory.py) and the in-memory dispatcher (event_dispatcher.py). A payload value is a
  constructor of \<open>event_payload\<close>; \<open>make_payload\<close> is the model's validation. The dispatcher's
  dictionary is a map from event types to handler lists; what a handler does is a parameter,
  on a state that may hold the dispatcher itself.
\<close>

section \<open>Event types and payloads\<close>

datatype event_type = LEAD_GENERATED_EVENT | LEAD_QUALIFIED_EVENT | SALES_INBOUND_MESSAGE_EVENT

fun event_type_value :: "event_type \<Rightarrow> string" where
  "event_type_value LEAD_GENERATED_EVENT = ''lead.generated''"
| "event_type_value LEAD_QUALIFIED_EVENT = ''lead.qualified''"
| "event_type_value SALES_INBOUND_MESSAGE_EVENT = ''sales.inbound_message''"

definition normalize_event_type :: "string \<Rightarrow> error + event_type" where
  "normalize_event_type v =
     (case find (\<lambda>e. event_type_value e = v)
          [LEAD_GENERATED_EVENT, LEAD_QUALIFIED_EVENT, SALES_INBOUND_MESSAGE_EVENT] of
        None \<Rightarrow> Inl (EventE (UnsupportedEventTypeError v))
      | Some e \<Rightarrow> Inr e)"

datatype qualification_status = STATUS_QUALIFIED | STATUS_UNQUALIFIED | STATUS_NEEDS_REVIEW

fun qualification_status_value :: "qualification_status \<Rightarrow> string" where
  "qualification_status_value STATUS_QUALIFIED = ''qualified''"
| "qualification_status_value STATUS_UNQUALIFIED = ''unqualified''"
| "qualification_status_value STATUS_NEEDS_REVIEW = ''needs_review''"

datatype event_payload =
  EventPayload
  | LeadGeneratedPayload (lg_lead_id: string) (lg_source: string)
      (lg_customer_name: "string option") (lg_customer_email: "string option")
  | LeadQualifiedPayload (lq_lead_id: string) (lq_score: int) (lq_status: qualification_status)
      (lq_reason: string)
  | InboundSalesMessagePayload (im_lead_id: string) (im_channel: string) (im_content: string)
      (im_external_event_id: "string option")

definition str_len :: "nat \<Rightarrow> nat \<Rightarrow> string \<Rightarrow> bool" where
  "str_len lo hi s \<longleftrightarrow> lo \<le> length s \<and> length s \<le> hi"

fun lead_generated_valid :: "event_payload \<Rightarrow> bool" where
  "lead_generated_valid (LeadGeneratedPayload k src name email) =
     (str_len 1 100 k \<and> str_len 1 100 src \<and> pred_option (str_len 0 200) name \<and>
      pred_option (str_len 0 320) email)"
| "lead_generated_valid p = True"

fun lead_qualified_valid :: "event_payload \<Rightarrow> bool" where
  "lead_qualified_valid (LeadQualifiedPayload k score st reason) =
     (str_len 1 100 k \<and> 0 \<le> score \<and> score \<le> 100 \<and> str_len 1 1000 reason)"
| "lead_qualified_valid p = True"

fun inbound_message_valid :: "event_payload \<Rightarrow> bool" where
  "inbound_message_valid (InboundSalesMessagePayload k channel content ext) =
     (str_len 1 100 k \<and> str_len 1 50 channel \<and> str_len 1 10000 content \<and>
      pred_option (str_len 0 200) ext)"
| "inbound_message_valid p = True"

definition make_payload :: "event_payload \<Rightarrow> error + event_payload" where
  "make_payload p =
     (if lead_generated_valid p \<and> lead_qualified_valid p \<and> inbound_message_valid p
      then Inr p else Inl ValueError)"

fun payload_class :: "event_payload \<Rightarrow> string" where
  "payload_class EventPayload = ''EventPayload''"
| "payload_class (LeadGeneratedPayload _ _ _ _) = ''LeadGeneratedPayload''"
| "payload_class (LeadQualifiedPayload _ _ _ _) = ''LeadQualifiedPayload''"
| "payload_class (InboundSalesMessagePayload _ _ _ _) = ''InboundSalesMessagePayload''"

fun EVENT_PAYLOAD_TYPES :: "event_type \<Rightarrow> string" where
  "EVENT_PAYLOAD_TYPES LEAD_GENERATED_EVENT = ''LeadGeneratedPayload''"
| "EVENT_PAYLOAD_TYPES LEAD_QUALIFIED_EVENT = ''LeadQualifiedPayload''"
| "EVENT_PAYLOAD_TYPES SALES_INBOUND_MESSAGE_EVENT = ''InboundSalesMessagePayload''"

definition validate_event_payload :: "string \<Rightarrow> event_payload \<Rightarrow> error + event_type" where
  "validate_event_payload v p =
     bindE (normalize_event_type v) (\<lambda>e.
       if payload_class p \<noteq> EVENT_PAYLOAD_TYPES e
       then Inl (EventE (EventPayloadMismatchError
          (''Event '' @ [CHR 0x27] @ event_type_value e @ [CHR 0x27] @ '' requires '' @ EVENT_PAYLOAD_TYPES e @
           '', but received '' @ payload_class p)))
       else Inr e)"

text \<open>\<open>payload.model_dump(mode="json")\<close>: the fields in their order, absent text as null.\<close>

definition opt_json :: "string option \<Rightarrow> json" where
  "opt_json v = (case v of None \<Rightarrow> JNull | Some s \<Rightarrow> JStr s)"

fun payload_dump :: "event_payload \<Rightarrow> (string \<times> json) list" where
  "payload_dump EventPayload = []"
| "payload_dump (LeadGeneratedPayload k src name email) =
     [(''lead_id'', JStr k), (''source'', JStr src), (''customer_name'', opt_json name),
      (''customer_email'', opt_json email)]"
| "payload_dump (LeadQualifiedPayload k score st reason) =
     [(''lead_id'', JStr k), (''qualification_score'', JInt score),
      (''qualification_status'', JStr (qualification_status_value st)), (''reason'', JStr reason)]"
| "payload_dump (InboundSalesMessagePayload k channel content ext) =
     [(''lead_id'', JStr k), (''channel'', JStr channel), (''content'', JStr content),
      (''external_event_id'', opt_json ext)]"

section \<open>The envelope and its factory\<close>

datatype department = DEP_BUSINESS | DEP_SALES | DEP_MARKETING | DEP_BACK_OFFICE | DEP_PLATFORM

datatype event_priority = EP_LOW | EP_NORMAL | EP_HIGH | EP_CRITICAL

datatype risk_level = RISK_LOW | RISK_MEDIUM | RISK_HIGH | RISK_CRITICAL

record business_event =
  be_event_id :: uuid
  be_workspace_id :: uuid
  be_correlation_id :: uuid
  be_causation_id :: "uuid option"
  be_execution_id :: uuid
  be_event_type :: string
  be_schema_version :: string
  be_source_department :: department
  be_destination_department :: department
  be_priority :: event_priority
  be_risk_level :: risk_level
  be_payload :: "(string \<times> json) list"
  be_created_at :: datetime

text \<open>\<open>fresh\<close> gives what \<open>uuid4\<close> returns for the identifiers that the caller leaves out.\<close>

definition create_business_event ::
  "uuid \<Rightarrow> string \<Rightarrow> department \<Rightarrow> department \<Rightarrow> event_payload \<Rightarrow> uuid option \<Rightarrow> uuid option \<Rightarrow> uuid option
   \<Rightarrow> event_priority \<Rightarrow> risk_level \<Rightarrow> (nat \<Rightarrow> uuid) \<Rightarrow> int \<Rightarrow> error + business_event" where
  "create_business_event wid v src dst p correlation causation execution priority risk fresh t =
     bindE (validate_event_payload v p) (\<lambda>e. Inr
       \<lparr>be_event_id = fresh 0, be_workspace_id = wid,
        be_correlation_id = (case correlation of Some c \<Rightarrow> c | None \<Rightarrow> fresh 1),
        be_causation_id = causation,
        be_execution_id = (case execution of Some x \<Rightarrow> x | None \<Rightarrow> fresh 2),
        be_event_type = event_type_value e, be_schema_version = ''1.0'',
        be_source_department = src, be_destination_department = dst,
        be_priority = priority, be_risk_level = risk, be_payload = payload_dump p,
        be_created_at = utc t\<rparr>)"

section \<open>The dispatcher\<close>

type_synonym 'h handlers = "string \<Rightarrow> 'h list option"

definition handlers_for :: "'h handlers \<Rightarrow> string \<Rightarrow> 'h list" where
  "handlers_for m t = (case m t of None \<Rightarrow> [] | Some hs \<Rightarrow> hs)"

definition subscribe :: "string \<Rightarrow> 'h \<Rightarrow> 'h handlers \<Rightarrow> (error + unit) \<times> 'h handlers" where
  "subscribe event_type h m =
     (let t = py_strip event_type in
      if t = [] then (Inl ValueError, m)
      else let hs = handlers_for m t in
        if h \<in> set hs then (Inl (EventE (DuplicateEventHandlerError t)), m)
        else (Inr (), m(t := Some (hs @ [h]))))"

definition unsubscribe :: "string \<Rightarrow> 'h \<Rightarrow> 'h handlers \<Rightarrow> bool \<times> 'h handlers" where
  "unsubscribe event_type h m =
     (let t = py_strip event_type in
      case m t of
        None \<Rightarrow> (False, m)
      | Some hs \<Rightarrow>
          if hs = [] \<or> h \<notin> set hs then (False, m)
          else let hs' = remove1 h hs in (True, m(t := if hs' = [] then None else Some hs')))"

definition handler_count :: "string \<Rightarrow> 'h handlers \<Rightarrow> nat" where
  "handler_count event_type m = length (handlers_for m (py_strip event_type))"

text \<open>Handlers run one after the other; an exception ends the publication.\<close>

fun run_handlers :: "('h \<Rightarrow> 'e \<Rightarrow> 's \<Rightarrow> (error + unit) \<times> 's) \<Rightarrow> 'h list \<Rightarrow> 'e \<Rightarrow> 's \<Rightarrow> (error + unit) \<times> 's" where
  "run_handlers run [] ev s = (Inr (), s)"
| "run_handlers run (h # hs) ev s =
     (case run h ev s of (Inl x, s') \<Rightarrow> (Inl x, s') | (Inr _, s') \<Rightarrow> run_handlers run hs ev s')"

definition publish ::
  "('h \<Rightarrow> business_event \<Rightarrow> 's \<Rightarrow> (error + unit) \<times> 's) \<Rightarrow> ('s \<Rightarrow> 'h handlers) \<Rightarrow> business_event \<Rightarrow> 's
   \<Rightarrow> (error + nat) \<times> 's" where
  "publish run dispatcher ev s =
     (let hs = handlers_for (dispatcher s) (be_event_type ev) in
      case run_handlers run hs ev s of (Inl x, s') \<Rightarrow> (Inl x, s') | (Inr _, s') \<Rightarrow> (Inr (length hs), s'))"

end
