(* ===== verification/Sales_Workflow.thy ===== *)
theory Sales_Workflow
  imports Sales_Turn Ai_Props Events
begin

text \<open>
  The workflow of a new lead (departments/sales/workflows/new_lead.py: load, research, qualify, then
  an outreach draft for approval or a stop), the department service that routes business events
  (services/department_service.py) and the workflow route (app/api/routes/workflows.py). The graph
  library runs the nodes in the order of its edges; a node's returned entries update the state.
  Readings of the clock: 0 and 1 the research and its lead, 2 the AI usage row, 3 the
  qualification, 4 the approval request.
\<close>

section \<open>Nodes\<close>

record workflow_state =
  wf_lead_id :: uuid
  wf_lead :: "lead option"
  wf_research :: "research_brief option"
  wf_score :: "int option"
  wf_qualified :: "bool option"
  wf_reasons :: "string list"
  wf_draft :: "string option"
  wf_approval_id :: "uuid option"
  wf_next_action :: string
  wf_status :: string

definition initial_state :: "uuid \<Rightarrow> workflow_state" where
  "initial_state k = \<lparr>wf_lead_id = k, wf_lead = None, wf_research = None, wf_score = None, wf_qualified = None,
     wf_reasons = [], wf_draft = None, wf_approval_id = None, wf_next_action = [], wf_status = []\<rparr>"

text \<open>A loaded lead is the live row: reading it after a commit sees the saved values.\<close>

definition live_lead :: "workflow_state \<Rightarrow> db \<Rightarrow> error + lead" where
  "live_lead w d = (case wf_lead w of None \<Rightarrow> Inl KeyError
     | Some l \<Rightarrow> (case get_lead_row (ld_id l) d of None \<Rightarrow> Inr l | Some l' \<Rightarrow> Inr l'))"

type_synonym node = "workflow_state \<Rightarrow> workflow_state op"

definition load_lead :: node where
  "load_lead w d = (bindE (get_lead (wf_lead_id w) d) (\<lambda>l.
     Inr (w\<lparr>wf_lead := Some l, wf_status := ''lead_loaded''\<rparr>)), d)"

definition research_lead :: "ai_env \<Rightarrow> agent_context \<Rightarrow> clock \<Rightarrow> node" where
  "research_lead e a clk w d =
     (case live_lead w d of
        Inl x \<Rightarrow> (Inl x, d)
      | Inr l \<Rightarrow>
          (case run_research e a l clk d of
             (Inl x, d') \<Rightarrow> (Inl x, d')
           | (Inr b, d') \<Rightarrow> (Inr (w\<lparr>wf_research := Some b, wf_status := ''researched''\<rparr>), d')))"

definition qualify_lead :: "clock \<Rightarrow> node" where
  "qualify_lead clk w d =
     (case live_lead w d of
        Inl x \<Rightarrow> (Inl x, d)
      | Inr l \<Rightarrow>
          (case wf_research w of
             None \<Rightarrow> (Inl KeyError, d)
           | Some b \<Rightarrow>
               let (q, d') = run_qualification DEFAULT_THRESHOLD l (rb_opportunities b) (clk 3) d in
               (Inr (w\<lparr>wf_score := Some (qr_score q), wf_qualified := Some (qr_qualified q),
                  wf_reasons := qr_reasons q,
                  wf_status := (if qr_qualified q then ''qualified'' else ''unqualified'')\<rparr>), d')))"

definition outreach_draft :: "lead \<Rightarrow> string \<Rightarrow> string" where
  "outreach_draft l opportunity =
     ''Hello '' @ ld_full_name l @ '', '' @ ''I reviewed the information available about '' @
     ld_company_name l @ ''. '' @ opportunity @ '' '' @ ''Would it be useful to discuss your current '' @
     ''sales process for 15 minutes?''"

definition prepare_outreach :: "agent_context \<Rightarrow> clock \<Rightarrow> node" where
  "prepare_outreach a clk w d =
     (case live_lead w d of
        Inl x \<Rightarrow> (Inl x, d)
      | Inr l \<Rightarrow>
          (case wf_research w of
             None \<Rightarrow> (Inl KeyError, d)
           | Some b \<Rightarrow>
               (case rb_opportunities b of
                  [] \<Rightarrow> (Inl IndexError, d)
                | opportunity # _ \<Rightarrow>
                    let draft = outreach_draft l opportunity;
                        (p, d') = create_approval (ld_id l) (ss_default_channel (ag_settings a))
                          [(''recipient'', contact_of l), (''content'', draft)] (clk 4) d
                    in (Inr (w\<lparr>wf_draft := Some draft, wf_approval_id := Some (ap_id p),
                          wf_next_action := ''human_approval'', wf_status := ''awaiting_approval''\<rparr>), d'))))"

definition stop_unqualified :: node where
  "stop_unqualified w d = (Inr (w\<lparr>wf_draft := None, wf_approval_id := None,
     wf_next_action := ''collect_more_information_or_archive'', wf_status := ''unqualified''\<rparr>), d)"

definition qualification_route :: "workflow_state \<Rightarrow> bool" where
  "qualification_route w = (wf_qualified w = Some True)"

text \<open>The graph: its edges compose the nodes, an exception ends the run.\<close>

definition then_node :: "node \<Rightarrow> node \<Rightarrow> node" where
  "then_node m n w d = (case m w d of (Inl x, d') \<Rightarrow> (Inl x, d') | (Inr w', d') \<Rightarrow> n w' d')"

definition new_lead_graph :: "ai_env \<Rightarrow> agent_context \<Rightarrow> clock \<Rightarrow> node" where
  "new_lead_graph e a clk =
     then_node load_lead (then_node (research_lead e a clk) (then_node (qualify_lead clk)
       (\<lambda>w. if qualification_route w then prepare_outreach a clk w else stop_unqualified w)))"

definition run_new_lead :: "ai_env \<Rightarrow> agent_context \<Rightarrow> uuid \<Rightarrow> clock \<Rightarrow> workflow_state op" where
  "run_new_lead e a k clk = new_lead_graph e a clk (initial_state k)"

section \<open>The department service\<close>

definition run_new_lead_workflow :: "ai_env \<Rightarrow> agent_context \<Rightarrow> uuid \<Rightarrow> clock \<Rightarrow> workflow_state op" where
  "run_new_lead_workflow e a k clk d =
     (if supervisor_route NEW_LEAD \<noteq> ''research_and_qualify'' then (Inl RuntimeError, d)
      else run_new_lead e a k clk d)"

definition draft_sales_reply ::
  "ai_env \<Rightarrow> agent_context \<Rightarrow> lead \<Rightarrow> string \<Rightarrow> string \<Rightarrow> handoff_signals option \<Rightarrow> clock \<Rightarrow> turn_result op" where
  "draft_sales_reply e a l channel content signals clk d =
     (if supervisor_route INBOUND_MESSAGE \<noteq> ''sales_conversation'' then (Inl RuntimeError, d)
      else case ag_workspace a of
          None \<Rightarrow> (Inl RuntimeError, d)
        | Some ws \<Rightarrow>
            (case make_turn_service (ag_settings a) ws (ag_gateway a) of
               Inl x \<Rightarrow> (Inl x, d)
             | Inr sv \<Rightarrow> process_turn e sv \<lparr>ti_lead_id = ld_id l, ti_channel = channel, ti_message = content,
                 ti_signals = signals\<rparr> clk d))"

text \<open>\<open>uuid_parse\<close> is \<open>UUID(str(v))\<close>.\<close>

datatype event_answer = WorkflowAnswer workflow_state | ReplyAnswer turn_result

definition event_lead_id ::
  "(json \<Rightarrow> string) \<Rightarrow> (string \<Rightarrow> uuid option) \<Rightarrow> business_event \<Rightarrow> error + uuid" where
  "event_lead_id str uuid_parse ev =
     (case map_of (be_payload ev) ''lead_id'' of
        None \<Rightarrow> Inl ValueError
      | Some v \<Rightarrow> if \<not> json_truthy v then Inl ValueError
                  else (case uuid_parse (json_str str v) of None \<Rightarrow> Inl ValueError | Some k \<Rightarrow> Inr k))"

definition event_text :: "(json \<Rightarrow> string) \<Rightarrow> business_event \<Rightarrow> string \<Rightarrow> error + string" where
  "event_text str ev key =
     (case map_of (be_payload ev) key of None \<Rightarrow> Inl KeyError | Some v \<Rightarrow> Inr (json_str str v))"

definition department_handle_event ::
  "ai_env \<Rightarrow> (string \<Rightarrow> uuid option) \<Rightarrow> agent_context \<Rightarrow> business_event \<Rightarrow> clock \<Rightarrow> event_answer op" where
  "department_handle_event e uuid_parse a ev clk d =
     (if be_event_type ev = ''lead.generated''
      then case event_lead_id (en_str e) uuid_parse ev of
          Inl x \<Rightarrow> (Inl x, d)
        | Inr k \<Rightarrow>
            (case run_new_lead_workflow e a k clk d of
               (Inl x, d') \<Rightarrow> (Inl x, d')
             | (Inr w, d') \<Rightarrow> (Inr (WorkflowAnswer w), d'))
      else if be_event_type ev = ''sales.inbound_message''
      then case bindE (event_lead_id (en_str e) uuid_parse ev) (\<lambda>k.
                bindE (get_lead k d) (\<lambda>l.
                bindE (event_text (en_str e) ev ''channel'') (\<lambda>channel.
                bindE (event_text (en_str e) ev ''content'') (\<lambda>content. Inr (l, channel, content))))) of
          Inl x \<Rightarrow> (Inl x, d)
        | Inr (l, channel, content) \<Rightarrow>
            (case draft_sales_reply e a l channel content None clk d of
               (Inl x, d') \<Rightarrow> (Inl x, d')
             | (Inr r, d') \<Rightarrow> (Inr (ReplyAnswer r), d'))
      else (Inl ValueError, d))"

section \<open>The route\<close>

definition route_run_workflow ::
  "ai_env \<Rightarrow> sales_settings \<Rightarrow> workspace \<Rightarrow> uuid \<Rightarrow> clock \<Rightarrow> workflow_state op" where
  "route_run_workflow e st ws k clk d =
     (case get_lead k d of
        Inl _ \<Rightarrow> (Inl lead_not_found, d)
      | Inr l \<Rightarrow>
          if ld_tenant_id l \<noteq> ws_slug ws then (Inl lead_not_found, d)
          else case make_gateway (ss_llm st) of
              Inl x \<Rightarrow> (Inl x, d)
            | Inr g \<Rightarrow>
                (case run_new_lead_workflow e \<lparr>ag_settings = st, ag_workspace = Some ws, ag_gateway = Some g\<rparr> k clk d of
                   (Inl x, d') \<Rightarrow> (Inl (if x = SalesE NotFoundError then HTTPException 404 [] else x), d')
                 | (Inr w, d') \<Rightarrow> (Inr w, d')))"

end
