(* ===== verification/Events_Props.thy ===== *)
theory Events_Props
  imports Events Sales_Workflow
begin

text \<open>
  The dispatcher's handler table implements a plain list of subscriptions, a publication runs the
  subscribed handlers in order up to the first failure, and what the factory writes into an event
  is what the Sales Department reads from it.
\<close>

section \<open>The handler table\<close>

datatype 'h dispatcher_op = Subscribe string 'h | Unsubscribe string 'h | HandlerCount string

datatype dispatcher_answer = Subscribed "error + unit" | Unsubscribed bool | Counted nat

fun dispatcher_step :: "'h dispatcher_op \<Rightarrow> 'h handlers \<Rightarrow> dispatcher_answer \<times> 'h handlers" where
  "dispatcher_step (Subscribe t h) m = (let (r, m') = subscribe t h m in (Subscribed r, m'))"
| "dispatcher_step (Unsubscribe t h) m = (let (r, m') = unsubscribe t h m in (Unsubscribed r, m'))"
| "dispatcher_step (HandlerCount t) m = (Counted (handler_count t m), m)"

text \<open>The abstract table: the subscriptions that stand, in the order they were made.\<close>

fun subscription_step ::
  "'h dispatcher_op \<Rightarrow> (string \<times> 'h) list \<Rightarrow> dispatcher_answer \<times> (string \<times> 'h) list" where
  "subscription_step (Subscribe v h) ps =
     (let t = py_strip v in
      if t = [] then (Subscribed (Inl ValueError), ps)
      else if (t, h) \<in> set ps then (Subscribed (Inl (EventE (DuplicateEventHandlerError t))), ps)
      else (Subscribed (Inr ()), ps @ [(t, h)]))"
| "subscription_step (Unsubscribe v h) ps =
     (let t = py_strip v in (Unsubscribed ((t, h) \<in> set ps), remove1 (t, h) ps))"
| "subscription_step (HandlerCount v) ps = (Counted (length (filter (\<lambda>p. fst p = py_strip v) ps)), ps)"

definition subscribed_to :: "(string \<times> 'h) list \<Rightarrow> string \<Rightarrow> 'h list" where
  "subscribed_to ps t = map snd (filter (\<lambda>p. fst p = t) ps)"

definition table_implements :: "'h handlers \<Rightarrow> (string \<times> 'h) list \<Rightarrow> bool" where
  "table_implements m ps \<longleftrightarrow>
     distinct ps \<and> (\<forall>t. m t = (if subscribed_to ps t = [] then None else Some (subscribed_to ps t)))"

lemma in_subscribed_to: "h \<in> set (subscribed_to ps t) \<longleftrightarrow> (t, h) \<in> set ps"
  by (force simp: subscribed_to_def)

lemma subscribed_to_append:
  "subscribed_to (ps @ [(t, h)]) u = subscribed_to ps u @ (if u = t then [h] else [])"
  by (simp add: subscribed_to_def)

lemma subscribed_to_remove1:
  "subscribed_to (remove1 (t, h) ps) u = (if u = t then remove1 h (subscribed_to ps u) else subscribed_to ps u)"
  by (induction ps) (auto simp: subscribed_to_def)

lemma table_handlers: "table_implements m ps \<Longrightarrow> handlers_for m t = subscribed_to ps t"
  by (simp add: table_implements_def handlers_for_def)

lemma table_subscribe:
  "table_implements m ps \<Longrightarrow> (t, h) \<notin> set ps \<Longrightarrow>
   table_implements (m(t := Some (handlers_for m t @ [h]))) (ps @ [(t, h)])"
  by (simp add: table_implements_def handlers_for_def subscribed_to_append)

lemma table_unsubscribe:
  assumes "table_implements m ps"
  shows "table_implements (m(t := if remove1 h (subscribed_to ps t) = [] then None
     else Some (remove1 h (subscribed_to ps t)))) (remove1 (t, h) ps)"
  using assms by (simp add: table_implements_def subscribed_to_remove1)

interpretation dispatcher: machine_refinement dispatcher_step subscription_step table_implements
proof
  fix m :: "'h handlers" and ps p
  assume rel: "table_implements m ps"
  note h = table_handlers [OF rel] and get = rel [unfolded table_implements_def, THEN conjunct2, rule_format]
  have "table_implements (snd (dispatcher_step p m)) (snd (subscription_step p ps)) \<and>
      fst (dispatcher_step p m) = fst (subscription_step p ps)"
  proof (cases p)
    case (Subscribe v k)
    then show ?thesis
      using rel table_subscribe [OF rel, of "py_strip v" k] by (simp add: subscribe_def Let_def h in_subscribed_to)
  next
    case (Unsubscribe v k)
    then show ?thesis
      using rel table_unsubscribe [OF rel, of "py_strip v" k]
      by (auto simp: unsubscribe_def Let_def get in_subscribed_to [symmetric] remove1_idem subscribed_to_remove1
          split: option.splits if_splits)
  next
    case (HandlerCount v)
    then show ?thesis using rel by (simp add: handler_count_def h) (simp add: subscribed_to_def)
  qed
  then show "table_implements (snd (dispatcher_step p m)) (snd (subscription_step p ps))"
    "fst (dispatcher_step p m) = fst (subscription_step p ps)" by simp_all
qed

lemma table_empty: "table_implements (\<lambda>_. None) []"
  by (simp add: table_implements_def subscribed_to_def)

text \<open>After any sequence of subscriptions and cancellations the dispatcher holds, for every event
  type, exactly the handlers subscribed to it and not cancelled since, each once and in the order
  of subscription, and it answers every further operation as that list of subscriptions does.\<close>

theorem dispatcher_implements_subscriptions:
  "let m = fold (\<lambda>p. snd \<circ> dispatcher_step p) ps (\<lambda>_. None);
       subs = fold (\<lambda>p. snd \<circ> subscription_step p) ps [] in
   distinct subs \<and> handlers_for m t = map snd (filter (\<lambda>p. fst p = t) subs) \<and>
   fst (dispatcher_step q m) = fst (subscription_step q subs)"
  using dispatcher.run_rel [OF table_empty, of ps] dispatcher.run_answer [OF table_empty, of q ps]
    table_handlers [OF dispatcher.run_rel [OF table_empty, of ps]]
  by (simp add: Let_def table_implements_def subscribed_to_def)

section \<open>Publication\<close>

lemma run_handlers_append:
  "run_handlers run (hs @ hs') ev s =
     (case run_handlers run hs ev s of (Inl x, s') \<Rightarrow> (Inl x, s') | (Inr _, s') \<Rightarrow> run_handlers run hs' ev s')"
  by (induction hs arbitrary: s) (auto split: prod.splits sum.splits)

lemma run_handlers_Inl:
  "run_handlers run hs ev s = (Inl x, s') \<Longrightarrow>
   \<exists>before h after s1. hs = before @ h # after \<and> run_handlers run before ev s = (Inr (), s1) \<and> run h ev s1 = (Inl x, s')"
proof (induction hs arbitrary: s)
  case Nil
  then show ?case by simp
next
  case (Cons h hs)
  show ?case
  proof (cases "run h ev s")
    case (Pair r s1)
    show ?thesis
    proof (cases r)
      case (Inl y)
      with Cons.prems Pair show ?thesis by (intro exI [of _ "[]"]) auto
    next
      case (Inr u)
      with Cons.prems Pair have "run_handlers run hs ev s1 = (Inl x, s')" by simp
      from Cons.IH [OF this] obtain before k after s2 where
        "hs = before @ k # after" "run_handlers run before ev s1 = (Inr (), s2)" "run k ev s2 = (Inl x, s')" by blast
      with Inr Pair show ?thesis by (intro exI [of _ "h # before"] exI [of _ k] exI [of _ after] exI [of _ s2]) simp
    qed
  qed
qed

text \<open>A publication runs the handlers that stand when it starts, in their order, even when a handler
  changes the subscriptions: it returns their number when all of them completed, and otherwise ends
  with the first exception, with the effects of the handlers before it and none after.\<close>

theorem publication_order:
  "case publish run table ev s of
     (Inr n, s') \<Rightarrow> n = length (handlers_for (table s) (be_event_type ev)) \<and>
        run_handlers run (handlers_for (table s) (be_event_type ev)) ev s = (Inr (), s')
   | (Inl x, s') \<Rightarrow> \<exists>before h after s1. handlers_for (table s) (be_event_type ev) = before @ h # after \<and>
        run_handlers run before ev s = (Inr (), s1) \<and> run h ev s1 = (Inl x, s')"
  using run_handlers_Inl [of run "handlers_for (table s) (be_event_type ev)" ev s]
  by (simp add: publish_def Let_def split: prod.splits sum.splits)

section \<open>From the factory to the department\<close>

lemma normalize_event_type_value [simp]: "normalize_event_type (event_type_value e) = Inr e"
  by (cases e) (simp_all add: normalize_event_type_def)

lemma normalize_event_type_Inr: "normalize_event_type v = Inr e \<Longrightarrow> event_type_value e = v"
  by (auto simp: normalize_event_type_def split: option.splits if_splits)

lemma create_business_event_InrD:
  assumes "create_business_event wid v src dst p corr caus exec pri risk fresh t = Inr ev"
  shows "be_event_type ev = v" "be_payload ev = payload_dump p" "be_workspace_id ev = wid"
    "\<exists>e. normalize_event_type v = Inr e \<and> payload_class p = EVENT_PAYLOAD_TYPES e"
  using assms
  by (auto simp: create_business_event_def validate_event_payload_def bindE_Inr_iff
      dest: normalize_event_type_Inr split: if_splits)

lemma payload_of_class:
  "payload_class p = ''InboundSalesMessagePayload'' \<Longrightarrow> \<exists>k c m x. p = InboundSalesMessagePayload k c m x"
  "payload_class p = ''LeadGeneratedPayload'' \<Longrightarrow> \<exists>k s n m. p = LeadGeneratedPayload k s n m"
  by (cases p; simp)+

text \<open>C38: The factory and the department agree on events: an event that the factory accepts with a valid
  payload reaches exactly the operation of its type with the values of its payload (a generated
  lead its workflow, an inbound message the conversation turn with its channel and text), and the
  department refuses the one remaining type, a qualified lead, without touching the database.\<close>

theorem event_reaches_its_operation:
  assumes ev: "create_business_event wid v src dst p corr caus exec pri risk fresh t = Inr ev"
    and valid: "make_payload p = Inr p"
  shows "case p of
      LeadGeneratedPayload k _ _ _ \<Rightarrow>
        department_handle_event e uuid_parse a ev clk d =
        (case uuid_parse k of None \<Rightarrow> (Inl ValueError, d)
         | Some i \<Rightarrow> (case run_new_lead_workflow e a i clk d of (Inl x, d') \<Rightarrow> (Inl x, d')
                      | (Inr w, d') \<Rightarrow> (Inr (WorkflowAnswer w), d')))
    | InboundSalesMessagePayload k channel content _ \<Rightarrow>
        department_handle_event e uuid_parse a ev clk d =
        (case bindE (case uuid_parse k of None \<Rightarrow> Inl ValueError | Some i \<Rightarrow> Inr i) (\<lambda>i. get_lead i d) of
           Inl x \<Rightarrow> (Inl x, d)
         | Inr l \<Rightarrow> (case draft_sales_reply e a l channel content None clk d of (Inl x, d') \<Rightarrow> (Inl x, d')
                     | (Inr r, d') \<Rightarrow> (Inr (ReplyAnswer r), d')))
    | LeadQualifiedPayload _ _ _ _ \<Rightarrow> department_handle_event e uuid_parse a ev clk d = (Inl ValueError, d)
    | EventPayload \<Rightarrow> False"
proof -
  note E = create_business_event_InrD [OF ev]
  from E(4) obtain ty where ty: "v = event_type_value ty" "payload_class p = EVENT_PAYLOAD_TYPES ty"
    by (metis normalize_event_type_Inr)
  show ?thesis
  proof (cases p)
    case (LeadGeneratedPayload k src' name email)
    with ty have "v = ''lead.generated''" by (cases ty) simp_all
    moreover from LeadGeneratedPayload valid have "k \<noteq> []" by (auto simp: make_payload_def str_len_def split: if_splits)
    ultimately show ?thesis using E LeadGeneratedPayload
      by (simp add: department_handle_event_def event_lead_id_def split: option.split)
  next
    case (InboundSalesMessagePayload k channel content ext)
    with ty have "v = ''sales.inbound_message''" by (cases ty) simp_all
    moreover from InboundSalesMessagePayload valid have "k \<noteq> []"
      by (auto simp: make_payload_def str_len_def split: if_splits)
    ultimately show ?thesis using E InboundSalesMessagePayload
      by (auto simp: department_handle_event_def event_lead_id_def event_text_def bindE_def
          split: option.splits sum.splits prod.splits)
  next
    case (LeadQualifiedPayload k score st reason)
    with ty have "v = ''lead.qualified''" by (cases ty) simp_all
    with E LeadQualifiedPayload show ?thesis by (simp add: department_handle_event_def)
  next
    case EventPayload
    with ty show ?thesis by (cases ty) simp_all
  qed
qed

definition sample_inbound_payload :: event_payload where
  "sample_inbound_payload = InboundSalesMessagePayload (replicate 5 CHR ''x'') ''console'' ''hello'' None"

theorem event_reaches_its_operation_witness:
  "\<exists>ev. create_business_event 1 ''sales.inbound_message'' DEP_PLATFORM DEP_SALES sample_inbound_payload
      None None None EP_NORMAL RISK_LOW (\<lambda>i. i) 0 = Inr ev \<and>
    (\<forall>e a clk. department_handle_event e (\<lambda>s. Some (length s)) a ev clk sample_db =
    (case draft_sales_reply e a sample_lead ''console'' ''hello'' None clk sample_db of
       (Inl x, d') \<Rightarrow> (Inl x, d') | (Inr r, d') \<Rightarrow> (Inr (ReplyAnswer r), d')))"
proof -
  have "\<exists>ev. create_business_event 1 ''sales.inbound_message'' DEP_PLATFORM DEP_SALES sample_inbound_payload
      None None None EP_NORMAL RISK_LOW (\<lambda>i. i) 0 = Inr ev"
    by (simp add: create_business_event_def validate_event_payload_def normalize_event_type_def sample_inbound_payload_def)
  then obtain ev where ev: "create_business_event 1 ''sales.inbound_message'' DEP_PLATFORM DEP_SALES sample_inbound_payload
      None None None EP_NORMAL RISK_LOW (\<lambda>i. i) 0 = Inr ev" by blast
  have "make_payload sample_inbound_payload = Inr sample_inbound_payload"
    by (simp add: make_payload_def sample_inbound_payload_def str_len_def)
  from event_reaches_its_operation [OF ev this, of _ "\<lambda>s. Some (length s)" _ _ sample_db]
  have "department_handle_event e (\<lambda>s. Some (length s)) a ev clk sample_db =
    (case draft_sales_reply e a sample_lead ''console'' ''hello'' None clk sample_db of
       (Inl x, d') \<Rightarrow> (Inl x, d') | (Inr r, d') \<Rightarrow> (Inr (ReplyAnswer r), d'))" for e a clk
    by (simp add: sample_inbound_payload_def get_lead_def get_lead_row_def sample_db_def empty_db_def sample_lead_def)
  then have "\<forall>e a clk. department_handle_event e (\<lambda>s. Some (length s)) a ev clk sample_db =
    (case draft_sales_reply e a sample_lead ''console'' ''hello'' None clk sample_db of
       (Inl x, d') \<Rightarrow> (Inl x, d') | (Inr r, d') \<Rightarrow> (Inr (ReplyAnswer r), d'))" by blast
  with ev show ?thesis by blast
qed

end
