(* ===== verification/Integration_Reads.thy ===== *)
theory Integration_Reads
  imports Outbound_Reads Outbound_Props Outbound_Ops Webhook_Auth
begin

text \<open>
  The read models of integration accounts: health (integration_health.py), the operational
  summary of a workspace (integration_operational_summary.py), the trace of one inbound event
  and the actions it caused (integration_execution_trace.py), and the configuration readiness
  of an account (integration_runtime_readiness.py with its reasons). None of them changes the
  database, so they are functions of it.

  Parameters: \<open>uuid_str\<close> is \<open>str\<close> of an identifier, \<open>env\<close> the process environment, and
  \<open>bracket_ok\<close> the check of a bracketed host that \<open>urlparse\<close> leaves to \<open>ipaddress\<close>.
\<close>

section \<open>Aggregates\<close>

definition count_where :: "('a \<Rightarrow> bool) \<Rightarrow> 'a list \<Rightarrow> nat" where
  "count_where P xs = length (filter P xs)"

definition max_created_at :: "outbound_action list \<Rightarrow> datetime option" where
  "max_created_at as =
     (case order_desc (\<lambda>a. dt_instant (oa_created_at a)) as of [] \<Rightarrow> None | a # _ \<Rightarrow> Some (oa_created_at a))"

definition created_since :: "datetime \<Rightarrow> outbound_action \<Rightarrow> bool" where
  "created_since cutoff a \<longleftrightarrow> dt_instant cutoff \<le> dt_instant (oa_created_at a)"

section \<open>Health of an account\<close>

datatype health = HEALTH_INACTIVE | HEALTH_DEGRADED | HEALTH_ATTENTION | HEALTH_HEALTHY

record health_view =
  hv_account :: integration_account
  hv_health :: health
  hv_most_recent_outbound_at :: "datetime option"
  hv_recent_delivered_count :: nat
  hv_recent_failed_count :: nat
  hv_pending_action_count :: nat
  hv_failed_action_count :: nat

definition classify_health :: "bool \<Rightarrow> nat \<Rightarrow> nat \<Rightarrow> nat \<Rightarrow> nat \<Rightarrow> health" where
  "classify_health active recent_delivered recent_failed pending failed =
     (if \<not> active then HEALTH_INACTIVE
      else if recent_failed \<noteq> 0 \<and> recent_delivered = 0 then HEALTH_DEGRADED
      else if pending \<noteq> 0 \<or> failed \<noteq> 0 then HEALTH_ATTENTION
      else HEALTH_HEALTHY)"

definition actions_of_account :: "workspace \<Rightarrow> integration_account \<Rightarrow> db \<Rightarrow> outbound_action list" where
  "actions_of_account ws account d =
     filter (\<lambda>a. oa_workspace_id a = ws_id ws \<and> oa_integration_account_id a = ac_id account) (actions d)"

definition health_for_account :: "workspace \<Rightarrow> uuid \<Rightarrow> int \<Rightarrow> datetime \<Rightarrow> db \<Rightarrow> error + health_view" where
  "health_for_account ws account_id window_days now d =
     bindE (get_for_workspace ws account_id d) (\<lambda>account.
     let cutoff = dt_plus now (- days window_days);
         base = actions_of_account ws account d;
         recent_delivered = count_where (\<lambda>a. oa_status a = DELIVERED \<and> created_since cutoff a) base;
         recent_failed = count_where (\<lambda>a. oa_status a = FAILED \<and> created_since cutoff a) base;
         pending = count_where (\<lambda>a. oa_status a = PENDING) base;
         failed = count_where (\<lambda>a. oa_status a = FAILED) base
     in Inr \<lparr>hv_account = account,
             hv_health = classify_health (ac_active account) recent_delivered recent_failed pending failed,
             hv_most_recent_outbound_at = max_created_at base,
             hv_recent_delivered_count = recent_delivered, hv_recent_failed_count = recent_failed,
             hv_pending_action_count = pending, hv_failed_action_count = failed\<rparr>)"

section \<open>Operational summary of a workspace\<close>

record operational_summary =
  os_active_accounts :: nat
  os_pending :: nat
  os_delivered :: nat
  os_failed :: nat
  os_retryable_failed :: nat
  os_cancelled :: nat
  os_expired :: nat
  os_most_recent_outbound_at :: "datetime option"
  os_recent_delivered :: nat
  os_recent_failed :: nat
  os_priority_counts :: "action_priority \<Rightarrow> nat"
  os_owned :: nat
  os_unowned :: nat
  os_archived :: nat
  os_unarchived :: nat

text \<open>
  The largest attempt number per failed action, of the attempts of the workspace: the rows of the
  grouped query as an association list, with \<open>get(.., 0) or 0\<close> as the lookup.
\<close>

definition attempt_numbers :: "workspace \<Rightarrow> outbound_action list \<Rightarrow> db \<Rightarrow> (uuid \<times> nat) list" where
  "attempt_numbers ws failed d =
     (let rows = filter (\<lambda>x. da_workspace_id x = ws_id ws \<and>
                   da_outbound_integration_action_id x \<in> oa_id ` set failed) (attempts d)
      in map (\<lambda>k. (k, fold max (map da_attempt_number
                        (filter (\<lambda>x. da_outbound_integration_action_id x = k) rows)) 0))
           (remdups (map da_outbound_integration_action_id rows)))"

definition attempt_number_of :: "(uuid \<times> nat) list \<Rightarrow> uuid \<Rightarrow> nat" where
  "attempt_number_of counts k = (case map_of counts k of None \<Rightarrow> 0 | Some n \<Rightarrow> n)"

definition failed_eligibilities ::
  "retry_policy \<Rightarrow> workspace \<Rightarrow> outbound_action list \<Rightarrow> db \<Rightarrow> error + eligibility list" where
  "failed_eligibilities pol ws failed d =
     (let counts = attempt_numbers ws failed d in
      map_res (\<lambda>a. retry_evaluate pol (int (attempt_number_of counts (oa_id a))) (oa_failure_code a)
                     (oa_failure_classification a)) failed)"

definition summarize_operations ::
  "retry_policy \<Rightarrow> workspace \<Rightarrow> int \<Rightarrow> datetime \<Rightarrow> db \<Rightarrow> error + operational_summary" where
  "summarize_operations pol ws window_days now d =
     (let cutoff = dt_plus now (- days window_days);
          rows = filter (\<lambda>a. oa_workspace_id a = ws_id ws) (actions d);
          failed = filter (\<lambda>a. oa_status a = FAILED) rows
      in bindE (failed_eligibilities pol ws failed d) (\<lambda>es. Inr
        \<lparr>os_active_accounts = count_where (\<lambda>c. ac_workspace_id c = ws_id ws \<and> ac_active c) (accounts d),
         os_pending = count_where (\<lambda>a. oa_status a = PENDING) rows,
         os_delivered = count_where (\<lambda>a. oa_status a = DELIVERED) rows,
         os_failed = count_where (\<lambda>a. oa_status a = FAILED) rows,
         os_retryable_failed = count_where el_allowed es,
         os_cancelled = count_where (\<lambda>a. oa_status a = CANCELLED) rows,
         os_expired = count_where (\<lambda>a. oa_status a = EXPIRED) rows,
         os_most_recent_outbound_at = max_created_at rows,
         os_recent_delivered = count_where (\<lambda>a. oa_status a = DELIVERED \<and> created_since cutoff a) rows,
         os_recent_failed = count_where (\<lambda>a. oa_status a = FAILED \<and> created_since cutoff a) rows,
         os_priority_counts = (\<lambda>p. count_where (\<lambda>a. oa_priority a = p) rows),
         os_owned = count_where (\<lambda>a. oa_owner_reference a \<noteq> None) rows,
         os_unowned = count_where (\<lambda>a. oa_owner_reference a = None) rows,
         os_archived = count_where (\<lambda>a. oa_archived_at a \<noteq> None) rows,
         os_unarchived = count_where (\<lambda>a. oa_archived_at a = None) rows\<rparr>))"

section \<open>Execution trace\<close>

record trace_action_view =
  ta_action :: outbound_action
  ta_account :: integration_account
  ta_approval :: "approval_request option"
  ta_delivery_attempts :: "delivery_attempt list"

record trace_view =
  tv_receipt :: inbound_receipt
  tv_account :: integration_account
  tv_outbound_actions :: "trace_action_view list"

definition outbound_action_view ::
  "workspace \<Rightarrow> outbound_action \<Rightarrow> integration_account \<Rightarrow> db \<Rightarrow> trace_action_view" where
  "outbound_action_view ws action account d =
     \<lparr>ta_action = action, ta_account = account,
      ta_approval = (case oa_approval_request_id action of None \<Rightarrow> None | Some k \<Rightarrow> get_approval k d),
      ta_delivery_attempts =
        sort_key (\<lambda>x. (dt_instant (da_started_at x), da_attempt_number x, da_id x))
          (filter (\<lambda>x. da_workspace_id x = ws_id ws \<and> da_integration_account_id x = ac_id account \<and>
                       da_outbound_integration_action_id x = oa_id action) (attempts d))\<rparr>"

definition trace_receipt :: "workspace \<Rightarrow> uuid \<Rightarrow> db \<Rightarrow> (inbound_receipt \<times> integration_account) option" where
  "trace_receipt ws correlation_id d =
     (case [(r, c). r \<leftarrow> inbound_receipts d, c \<leftarrow> accounts d, ac_id c = ir_integration_account_id r,
                    ir_correlation_id r = correlation_id, ir_workspace_id r = ws_id ws,
                    ac_workspace_id c = ws_id ws] of
        [] \<Rightarrow> None | x # _ \<Rightarrow> Some x)"

definition trace_actions ::
  "(uuid \<Rightarrow> string) \<Rightarrow> workspace \<Rightarrow> uuid \<Rightarrow> db \<Rightarrow> (outbound_action \<times> integration_account) list" where
  "trace_actions uuid_str ws correlation_id d =
     sort_key (\<lambda>(a, c). (dt_instant (oa_created_at a), oa_id a))
       (filter (\<lambda>(a, c). oa_workspace_id a = ws_id ws \<and> ac_workspace_id c = ws_id ws \<and>
                  oa_correlation_id a = Some (uuid_str correlation_id)) (action_account_join d))"

definition trace_for_workspace ::
  "(uuid \<Rightarrow> string) \<Rightarrow> workspace \<Rightarrow> uuid \<Rightarrow> db \<Rightarrow> error + trace_view" where
  "trace_for_workspace uuid_str ws correlation_id d =
     (case trace_receipt ws correlation_id d of
        None \<Rightarrow> Inl (OutboundE IntegrationExecutionTraceNotFoundError)
      | Some (r, c) \<Rightarrow> Inr
          \<lparr>tv_receipt = r, tv_account = c,
           tv_outbound_actions = map (\<lambda>(a, ac). outbound_action_view ws a ac d)
             (trace_actions uuid_str ws (ir_correlation_id r) d)\<rparr>)"

section \<open>Configuration readiness\<close>

datatype runtime_reason =
  WORKSPACE_INACTIVE | INBOUND_VERIFIER_NOT_CONFIGURED | SECRET_REFERENCE_MISSING
  | SECRET_REFERENCE_INVALID | SECRET_UNRESOLVABLE | OUTBOUND_ADAPTER_NOT_REGISTERED
  | OUTBOUND_ADAPTER_CAPABILITY_MISMATCH | OUTBOUND_CONFIGURATION_MISSING
  | OUTBOUND_CONFIGURATION_INVALID

fun runtime_readiness_reason_message :: "runtime_reason \<Rightarrow> string" where
  "runtime_readiness_reason_message WORKSPACE_INACTIVE = ''The workspace is inactive.''"
| "runtime_readiness_reason_message INBOUND_VERIFIER_NOT_CONFIGURED =
     ''No supported inbound webhook verifier is configured for this provider.''"
| "runtime_readiness_reason_message SECRET_REFERENCE_MISSING =
     ''The required integration secret reference is missing.''"
| "runtime_readiness_reason_message SECRET_REFERENCE_INVALID =
     ''The integration secret reference does not satisfy the configured policy.''"
| "runtime_readiness_reason_message SECRET_UNRESOLVABLE =
     ''The required integration secret cannot be resolved by the configured backend.''"
| "runtime_readiness_reason_message OUTBOUND_ADAPTER_NOT_REGISTERED =
     ''No outbound delivery adapter is registered for this provider.''"
| "runtime_readiness_reason_message OUTBOUND_ADAPTER_CAPABILITY_MISMATCH =
     ''The outbound delivery adapter does not support the MVP message action.''"
| "runtime_readiness_reason_message OUTBOUND_CONFIGURATION_MISSING =
     ''The required outbound transport configuration is missing.''"
| "runtime_readiness_reason_message OUTBOUND_CONFIGURATION_INVALID =
     ''The outbound transport configuration is invalid.''"

datatype readiness_code = RuntimeReason runtime_reason | DeliveryReason readiness_reason

fun blocker_message :: "readiness_code \<Rightarrow> string" where
  "blocker_message (DeliveryReason r) = readiness_reason_message r"
| "blocker_message (RuntimeReason r) = runtime_readiness_reason_message r"

record runtime_readiness =
  rr_account :: integration_account
  rr_configuration_ready :: bool
  rr_blockers :: "(readiness_code \<times> string) list"

record runtime_settings =
  rs_outbound_webhook_url :: string
  rs_outbound_webhook_signing_enabled :: bool

text \<open>\<open>dict.fromkeys\<close> keeps the first occurrence of each code.\<close>

fun first_occurrences :: "'a list \<Rightarrow> 'a list" where
  "first_occurrences [] = []"
| "first_occurrences (x # xs) = x # filter (\<lambda>y. y \<noteq> x) (first_occurrences xs)"

definition has_inbound_verifier :: "integration_account \<Rightarrow> bool" where
  "has_inbound_verifier account \<longleftrightarrow> ac_provider account = ''generic_hmac''"

definition secret_blockers :: "(string \<times> string) list \<Rightarrow> integration_account \<Rightarrow> readiness_code list" where
  "secret_blockers env account =
     (let reference = ac_secret_reference account in
      if reference = None \<or> reference = Some [] then [RuntimeReason SECRET_REFERENCE_MISSING]
      else if \<not> secret_is_allowed reference then [RuntimeReason SECRET_REFERENCE_INVALID]
      else if (case env_resolve env reference of None \<Rightarrow> True | Some s \<Rightarrow> s = [])
      then [RuntimeReason SECRET_UNRESOLVABLE] else [])"

text \<open>
  The scheme and the network location that \<open>urllib.parse.urlparse\<close> reads off a Latin-1 text:
  leading blanks and control characters are dropped, tabs and line ends removed, the scheme is
  the part before the first colon when it has only scheme characters, and the location is the
  part between two slashes and the next of slash, question mark and hash.
\<close>

definition url_scheme_char :: "char \<Rightarrow> bool" where
  "url_scheme_char c \<longleftrightarrow> is_lower_az c \<or> is_upper_AZ c \<or> is_digit09 c \<or> one_of ''+-.'' c"

definition url_clean :: "string \<Rightarrow> string" where
  "url_clean u = filter (\<lambda>c. of_char c \<notin> {9::nat, 10, 13}) (dropWhile (\<lambda>c. of_char c \<le> (32::nat)) u)"

definition url_scheme :: "string \<Rightarrow> string \<times> string" where
  "url_scheme u =
     (let s = takeWhile (\<lambda>c. c \<noteq> CHR '':'') u in
      if CHR '':'' \<in> set u \<and> s \<noteq> [] \<and> (is_lower_az (hd s) \<or> is_upper_AZ (hd s)) \<and> list_all url_scheme_char s
      then (py_lower s, drop (Suc (length s)) u) else ([], u))"

definition parsed_netloc :: "(string \<Rightarrow> bool) \<Rightarrow> string \<Rightarrow> error + string" where
  "parsed_netloc bracket_ok u =
     (if take 2 u \<noteq> ''//'' then Inr []
      else let n = takeWhile (\<lambda>c. \<not> one_of ''/?#'' c) (drop 2 u);
               l = (CHR ''['' \<in> set n); r = (CHR '']'' \<in> set n) in
        if l \<noteq> r \<or> (l \<and> r \<and> \<not> bracket_ok n) then Inl ValueError else Inr n)"

definition urlparse :: "(string \<Rightarrow> bool) \<Rightarrow> string \<Rightarrow> error + string \<times> string" where
  "urlparse bracket_ok u =
     (let (scheme, rest) = url_scheme (url_clean u) in
      bindE (parsed_netloc bracket_ok rest) (\<lambda>netloc. Inr (scheme, netloc)))"

definition webhook_configuration_blockers ::
  "(string \<Rightarrow> bool) \<Rightarrow> runtime_settings \<Rightarrow> error + readiness_code list" where
  "webhook_configuration_blockers bracket_ok st =
     (let endpoint = py_strip (rs_outbound_webhook_url st) in
      if endpoint = [] then Inr [RuntimeReason OUTBOUND_CONFIGURATION_MISSING]
      else bindE (urlparse bracket_ok endpoint) (\<lambda>(scheme, netloc).
        Inr (if scheme \<notin> {''http'', ''https''} \<or> netloc = []
             then [RuntimeReason OUTBOUND_CONFIGURATION_INVALID] else [])))"

definition runtime_readiness_evaluate ::
  "(string \<Rightarrow> bool) \<Rightarrow> (string \<times> string) list \<Rightarrow> runtime_settings \<Rightarrow> registry \<Rightarrow> workspace \<Rightarrow> uuid \<Rightarrow> db
   \<Rightarrow> error + runtime_readiness" where
  "runtime_readiness_evaluate bracket_ok env st reg ws account_id d =
     bindE (get_for_workspace ws account_id d) (\<lambda>account.
     let c0 = (if \<not> ws_active ws then [RuntimeReason WORKSPACE_INACTIVE] else []);
         c1 = (if \<not> ac_active account then [DeliveryReason INTEGRATION_ACCOUNT_INACTIVE] else []);
         c2 = (if \<not> has_inbound_verifier account then [RuntimeReason INBOUND_VERIFIER_NOT_CONFIGURED]
               else secret_blockers env account);
         c3 = (case (registry_get reg (ac_provider account), capabilities_for reg (ac_provider account)) of
                 (Some _, Some caps) \<Rightarrow>
                   if SEND_MESSAGE \<notin> set (cap_supported_action_types caps)
                   then [RuntimeReason OUTBOUND_ADAPTER_CAPABILITY_MISMATCH] else []
               | _ \<Rightarrow> [RuntimeReason OUTBOUND_ADAPTER_NOT_REGISTERED])
     in bindE (if ac_provider account = ''generic_webhook''
               then bindE (webhook_configuration_blockers bracket_ok st) (\<lambda>c4. Inr
                 (c4 @ (if rs_outbound_webhook_signing_enabled st then secret_blockers env account else [])))
               else Inr []) (\<lambda>c4.
       let blockers = map (\<lambda>c. (c, blocker_message c)) (first_occurrences (c0 @ c1 @ c2 @ c3 @ c4))
       in Inr \<lparr>rr_account = account, rr_configuration_ready = (blockers = []), rr_blockers = blockers\<rparr>))"

end
