(* ===== verification/Integration_Props.thy ===== *)
theory Integration_Props
  imports Integration_Reads
begin

text \<open>
  What the read models of Integration_Reads promise: the operational summary counts every action
  once and counts as retryable exactly what the retry operation would accept, a trace shows
  exactly the records of one correlation of its own workspace, and what the configuration
  readiness verdict amounts to with the adapters the application installs.
\<close>

section \<open>The operational summary\<close>

lemma count_where_Cons [simp]:
  "count_where P [] = 0"
  "count_where P (x # xs) = (if P x then 1 else 0) + count_where P xs"
  by (simp_all add: count_where_def)

lemma count_where_le: "(\<And>x. P x \<Longrightarrow> Q x) \<Longrightarrow> count_where P xs \<le> count_where Q xs"
  by (induction xs) auto

lemma count_status_total:
  "count_where (\<lambda>a. oa_status a = PENDING) xs + count_where (\<lambda>a. oa_status a = DELIVERED) xs +
   count_where (\<lambda>a. oa_status a = FAILED) xs + count_where (\<lambda>a. oa_status a = CANCELLED) xs +
   count_where (\<lambda>a. oa_status a = EXPIRED) xs = length xs"
  by (induction xs) (use action_status.exhaust in auto)

lemma count_priority_total:
  "count_where (\<lambda>a. oa_priority a = LOW) xs + count_where (\<lambda>a. oa_priority a = NORMAL) xs +
   count_where (\<lambda>a. oa_priority a = HIGH) xs + count_where (\<lambda>a. oa_priority a = URGENT) xs = length xs"
  by (induction xs) (use action_priority.exhaust in auto)

lemma count_split_total: "count_where (\<lambda>a. f a \<noteq> None) xs + count_where (\<lambda>a. f a = None) xs = length xs"
  by (induction xs) auto

lemma fold_max_Nil_filter: "(\<And>x. x \<in> set xs \<Longrightarrow> \<not> P x) \<Longrightarrow> fold max (map f (filter P xs)) (0::nat) = 0"
  by (simp add: filter_False)

text \<open>The grouped query gives the number the retry operation computes for each failed action.\<close>

lemma attempt_number_of_failed:
  assumes inv: "outbound_inv d" and a: "a \<in> set failed" "a \<in> set (actions d)" "oa_workspace_id a = ws_id ws"
  shows "attempt_number_of (attempt_numbers ws failed d) (oa_id a) = attempt_count a d"
proof -
  let ?rows = "filter (\<lambda>x. da_workspace_id x = ws_id ws \<and>
      da_outbound_integration_action_id x \<in> oa_id ` set failed) (attempts d)"
  let ?n = "\<lambda>k. fold max (map da_attempt_number (filter (\<lambda>x. da_outbound_integration_action_id x = k) ?rows)) 0"
  have scoped: "da_workspace_id x = ws_id ws"
    if "x \<in> set (attempts d)" "da_outbound_integration_action_id x = oa_id a" for x
    using outbound_invD(1) [OF inv a(2)] that a(3) by (auto simp: view_ok_def attempts_coherent_def attempts_of_def)
  have "filter (\<lambda>x. da_outbound_integration_action_id x = oa_id a) ?rows = attempts_of (oa_id a) d"
    unfolding attempts_of_def filter_filter using a(1) scoped by (intro filter_cong) auto
  then have n: "?n (oa_id a) = attempt_count a d" by (simp add: attempt_count_def)
  have "attempt_number_of (attempt_numbers ws failed d) (oa_id a) = ?n (oa_id a)"
  proof (cases "oa_id a \<in> set (map da_outbound_integration_action_id ?rows)")
    case True
    then show ?thesis
      by (simp add: attempt_number_of_def attempt_numbers_def Let_def map_of_map_restrict restrict_map_def)
  next
    case False
    then have "filter (\<lambda>x. da_outbound_integration_action_id x = oa_id a) ?rows = []"
      unfolding filter_empty_conv by (metis (no_types) image_eqI set_map)
    moreover have "map_of (attempt_numbers ws failed d) (oa_id a) = None"
      using False by (simp add: attempt_numbers_def Let_def map_of_map_restrict restrict_map_def)
    ultimately show ?thesis by (simp add: attempt_number_of_def del: filter_filter)
  qed
  with n show ?thesis by simp
qed

lemma count_where_map_res:
  assumes "map_res f xs = Inr ys"
  shows "count_where P ys = count_where (\<lambda>x. \<exists>y. f x = Inr y \<and> P y) xs"
  using assms by (induction xs arbitrary: ys) (auto simp: bindE_Inr_iff)

lemma count_where_cong: "(\<And>x. x \<in> set xs \<Longrightarrow> P x = Q x) \<Longrightarrow> count_where P xs = count_where Q xs"
  by (induction xs) auto

lemma summarize_operations_fields:
  assumes "summarize_operations pol ws window_days now d = Inr s"
  defines "rows \<equiv> filter (\<lambda>a. oa_workspace_id a = ws_id ws) (actions d)"
    and "recent \<equiv> created_since (dt_plus now (- days window_days))"
  shows "os_pending s = count_where (\<lambda>a. oa_status a = PENDING) rows"
    "os_delivered s = count_where (\<lambda>a. oa_status a = DELIVERED) rows"
    "os_failed s = count_where (\<lambda>a. oa_status a = FAILED) rows"
    "os_cancelled s = count_where (\<lambda>a. oa_status a = CANCELLED) rows"
    "os_expired s = count_where (\<lambda>a. oa_status a = EXPIRED) rows"
    "os_recent_delivered s = count_where (\<lambda>a. oa_status a = DELIVERED \<and> recent a) rows"
    "os_recent_failed s = count_where (\<lambda>a. oa_status a = FAILED \<and> recent a) rows"
    "os_priority_counts s p = count_where (\<lambda>a. oa_priority a = p) rows"
    "os_owned s = count_where (\<lambda>a. oa_owner_reference a \<noteq> None) rows"
    "os_unowned s = count_where (\<lambda>a. oa_owner_reference a = None) rows"
    "os_archived s = count_where (\<lambda>a. oa_archived_at a \<noteq> None) rows"
    "os_unarchived s = count_where (\<lambda>a. oa_archived_at a = None) rows"
  using assms(1) unfolding rows_def recent_def by (auto simp: summarize_operations_def Let_def bindE_Inr_iff)

text \<open>The verdict of the retry operation on one action of an active account.\<close>

definition retry_accepts :: "retry_policy \<Rightarrow> outbound_action \<Rightarrow> db \<Rightarrow> bool" where
  "retry_accepts pol a d \<longleftrightarrow>
     (\<exists>e. retry_evaluate pol (int (attempt_count a d)) (oa_failure_code a) (oa_failure_classification a) = Inr e \<and>
          el_allowed e)"

lemma found_action:
  assumes "outbound_inv d" "a \<in> set (actions d)" "oa_workspace_id a = ws_id ws"
    "oa_integration_account_id a = ac_id acc"
  shows "get_action_for_account ws acc (oa_id a) d = Inr a"
proof -
  have "find (\<lambda>x. oa_id x = oa_id a \<and> oa_workspace_id x = ws_id ws \<and> oa_integration_account_id x = ac_id acc)
      (actions d) = Some a"
  proof (cases "find (\<lambda>x. oa_id x = oa_id a \<and> oa_workspace_id x = ws_id ws \<and>
      oa_integration_account_id x = ac_id acc) (actions d)")
    case None
    with assms show ?thesis by (auto simp: find_None_iff)
  next
    case (Some x)
    then have "x \<in> set (actions d)" "oa_id x = oa_id a" by (auto simp: find_Some_iff)
    with assms(1,2) have "x = a" by (metis option.inject outbound_invD(2))
    with Some show ?thesis by simp
  qed
  then show ?thesis by (simp add: get_action_for_account_def)
qed

lemma retry_accepts_iff:
  assumes inv: "outbound_inv d" and a: "a \<in> set (actions d)" "oa_workspace_id a = ws_id ws"
    and acc: "get_for_workspace ws (oa_integration_account_id a) d = Inr acc" "ac_active acc"
  shows "(\<exists>x d'. retry_failed_action reg pol ws (oa_integration_account_id a) (oa_id a) clk d = (Inr x, d')) \<longleftrightarrow>
    oa_status a = FAILED \<and> retry_accepts pol a d"
proof -
  have "ac_id acc = oa_integration_account_id a"
    using acc(1) by (auto simp: get_for_workspace_def find_Some_iff split: option.splits)
  with found_action [OF inv a] have found: "get_action_for_account ws acc (oa_id a) d = Inr a" by simp
  have ids: "\<forall>x \<in> set (attempts d). da_id x < next_id d" using inv by (simp add: outbound_inv_def)
  have "\<exists>x d'. deliver_action reg a acc clk (audit_record a AU_RETRIED (clk 4) d) = Inr (x, d')"
    if "oa_status a = FAILED"
    using deliver_action_effect [of a "audit_record a AU_RETRIED (clk 4) d" reg acc clk] that ids
    by (fastforce simp: audit_record_def take_id_def)
  then show ?thesis
    by (auto simp: retry_failed_action_def acc found require_retry_attempt_def retry_accepts_def
        split: sum.splits if_splits)
qed

text \<open>C19: The operational summary counts every action of the workspace once by status, once by
  priority, once by owner and once by archive state, and its number of retryable failed actions
  is the number of failed actions for which the retry operation, on an active account, returns.\<close>

theorem summary_counts_each_action_once:
  assumes inv: "outbound_inv d" and run: "summarize_operations pol ws window_days now d = Inr s"
  shows "let rows = filter (\<lambda>a. oa_workspace_id a = ws_id ws) (actions d) in
     os_pending s + os_delivered s + os_failed s + os_cancelled s + os_expired s = length rows \<and>
     os_priority_counts s LOW + os_priority_counts s NORMAL + os_priority_counts s HIGH +
       os_priority_counts s URGENT = length rows \<and>
     os_owned s + os_unowned s = length rows \<and> os_archived s + os_unarchived s = length rows \<and>
     os_recent_delivered s \<le> os_delivered s \<and> os_recent_failed s \<le> os_failed s \<and>
     os_retryable_failed s = length (filter (\<lambda>a. oa_status a = FAILED \<and> retry_accepts pol a d) rows) \<and>
     (\<forall>a \<in> set rows. \<forall>acc. get_for_workspace ws (oa_integration_account_id a) d = Inr acc \<and> ac_active acc \<longrightarrow>
        ((\<exists>x d'. retry_failed_action reg pol ws (oa_integration_account_id a) (oa_id a) clk d = (Inr x, d')) \<longleftrightarrow>
         oa_status a = FAILED \<and> retry_accepts pol a d))"
proof -
  let ?rows = "filter (\<lambda>a. oa_workspace_id a = ws_id ws) (actions d)"
  let ?failed = "filter (\<lambda>a. oa_status a = FAILED) ?rows"
  from run obtain es where es: "failed_eligibilities pol ws ?failed d = Inr es"
    and s: "os_retryable_failed s = count_where el_allowed es"
    by (auto simp: summarize_operations_def Let_def bindE_Inr_iff)
  have "count_where el_allowed es = count_where (\<lambda>a. \<exists>e. retry_evaluate pol
      (int (attempt_number_of (attempt_numbers ws ?failed d) (oa_id a))) (oa_failure_code a)
      (oa_failure_classification a) = Inr e \<and> el_allowed e) ?failed"
    using es by (intro count_where_map_res) (simp add: failed_eligibilities_def Let_def)
  also have "\<dots> = count_where (\<lambda>a. retry_accepts pol a d) ?failed"
    by (rule count_where_cong) (simp add: attempt_number_of_failed [OF inv] retry_accepts_def)
  also have "\<dots> = length (filter (\<lambda>a. oa_status a = FAILED \<and> retry_accepts pol a d) ?rows)"
    by (simp add: count_where_def conj_ac)
  finally have retryable: "os_retryable_failed s =
      length (filter (\<lambda>a. oa_status a = FAILED \<and> retry_accepts pol a d) ?rows)" using s by simp
  note f = summarize_operations_fields [OF run] and c = count_status_total [of ?rows] count_priority_total [of ?rows]
    count_split_total [of oa_owner_reference ?rows] count_split_total [of oa_archived_at ?rows]
  have "os_recent_delivered s \<le> os_delivered s" "os_recent_failed s \<le> os_failed s"
    unfolding f by (rule count_where_le, simp)+
  moreover have "\<forall>a \<in> set ?rows. \<forall>acc. get_for_workspace ws (oa_integration_account_id a) d = Inr acc \<and> ac_active acc \<longrightarrow>
      ((\<exists>x d'. retry_failed_action reg pol ws (oa_integration_account_id a) (oa_id a) clk d = (Inr x, d')) \<longleftrightarrow>
       oa_status a = FAILED \<and> retry_accepts pol a d)"
    using retry_accepts_iff [OF inv] by simp
  ultimately show ?thesis using c retryable unfolding Let_def f by blast
qed

definition sample_failed_db :: db where
  "sample_failed_db = sample_db\<lparr>
     actions := [(sample_action FAILED)\<lparr>oa_failed_at := Some (utc 0), oa_failure_code := Some ''rate_limited'',
        oa_failure_message := Some ''slow down'', oa_correlation_id := Some ''xxxx''\<rparr>],
     attempts := [\<lparr>da_id = 20, da_workspace_id = 1, da_integration_account_id = 4,
        da_outbound_integration_action_id = 6, da_attempt_number = 1, da_status = FAILED,
        da_provider_delivery_id = None, da_started_at = utc 0, da_completed_at = Some (utc 0),
        da_failure_code = Some ''rate_limited'', da_failure_message = Some ''slow down'',
        da_failure_classification = None\<rparr>],
     inbound_receipts := [\<lparr>ir_id = 21, ir_workspace_id = 1, ir_integration_account_id = 4,
        ir_external_event_id = ''e'', ir_correlation_id = 4, ir_created_at = utc 0\<rparr>],
     audit_events := map (\<lambda>e. \<lparr>ae_id = 10, ae_workspace_id = 1, ae_integration_account_id = 4,
       ae_outbound_integration_action_id = 6, ae_action = e, ae_created_at = utc 0\<rparr>)
       [AU_CREATED, AU_DELIVERY_ATTEMPTED, AU_FAILED]\<rparr>"

lemma sample_failed_inv: "outbound_inv sample_failed_db"
  by (simp add: outbound_inv_def approvals_inv_def sample_failed_db_def sample_defs view_ok_def
      status_coherent_def attempts_coherent_def attempts_of_def events_of_def replay_def is_terminal_def event_scoped_def)

lemma sample_rate_limited: "normalize_failure_code ''rate_limited'' = Inr ''rate_limited''"
  by code_simp

lemma sample_failed_accepts:
  "retry_accepts sample_policy (hd (actions sample_failed_db)) sample_failed_db"
  by (simp add: retry_accepts_def sample_failed_db_def sample_action_def attempt_count_def attempts_of_def
      retry_evaluate_def sample_policy_def sample_rate_limited allowed_eligibility_def)

theorem summary_counts_each_action_once_witness:
  "\<exists>s. summarize_operations sample_policy sample_ws 30 (utc 0) sample_failed_db = Inr s \<and> os_retryable_failed s = 1 \<and>
     os_pending s + os_delivered s + os_failed s + os_cancelled s + os_expired s = 1"
proof -
  have "\<exists>s. summarize_operations sample_policy sample_ws 30 (utc 0) sample_failed_db = Inr s"
    by (simp add: summarize_operations_def Let_def failed_eligibilities_def attempt_numbers_def attempt_number_of_def
        sample_failed_db_def sample_action_def sample_ws_def retry_evaluate_def sample_policy_def
        sample_rate_limited)
  then obtain s where s: "summarize_operations sample_policy sample_ws 30 (utc 0) sample_failed_db = Inr s" by blast
  have rows: "filter (\<lambda>a. oa_workspace_id a = ws_id sample_ws) (actions sample_failed_db) = [hd (actions sample_failed_db)]"
    "oa_status (hd (actions sample_failed_db)) = FAILED"
    by (simp_all add: sample_failed_db_def sample_action_def sample_ws_def)
  from summary_counts_each_action_once [OF sample_failed_inv s] rows sample_failed_accepts
  have "os_retryable_failed s = 1"
    "os_pending s + os_delivered s + os_failed s + os_cancelled s + os_expired s = 1"
    by (simp_all add: Let_def)
  with s show ?thesis by blast
qed

section \<open>Configuration readiness\<close>

lemma first_occurrences_Nil_iff [simp]: "first_occurrences xs = [] \<longleftrightarrow> xs = []"
  by (cases xs) auto

lemma set_first_occurrences [simp]: "set (first_occurrences xs) = set xs"
  by (induction xs) auto

lemma distinct_first_occurrences [simp]: "distinct (first_occurrences xs)"
  by (induction xs) auto

lemma secret_blockers_Nil_iff:
  "secret_blockers env account = [] \<longleftrightarrow> (\<exists>s. env_resolve env (ac_secret_reference account) = Some s \<and> s \<noteq> [])"
  by (auto simp: secret_blockers_def Let_def env_resolve_def secret_is_allowed_def secret_validate_def
      secret_reference_matches_def secret_prefix_def split: option.splits)

lemma default_registry_capabilities:
  "registry_get (default_registry uuid_str (Some w)) ''generic_hmac'' = Some (noop_adapter uuid_str)"
  "capabilities_for (default_registry uuid_str (Some w)) ''generic_hmac'' = Some DEFAULT_CAPABILITIES"
  by (simp_all add: registry_get_def capabilities_for_def default_registry_def noop_adapter_def)

lemma runtime_readiness_InrD:
  assumes "runtime_readiness_evaluate bracket_ok env st reg ws k d = Inr r"
  shows "get_for_workspace ws k d = Inr (rr_account r)"
    and "rr_configuration_ready r \<longleftrightarrow> rr_blockers r = []"
    and "distinct (rr_blockers r)"
    and "\<forall>b \<in> set (rr_blockers r). snd b = blocker_message (fst b)"
  using assms by (auto simp: runtime_readiness_evaluate_def bindE_Inr_iff Let_def distinct_map inj_on_def)

text \<open>C18: With the adapters the application installs, the configuration verdict is ready exactly for an
  active generic_hmac account of an active workspace whose secret resolves. For such an account
  a webhook signed with that secret within the accepted age is authenticated, and its outbound
  deliveries are answered by the development adapter; an account of the only provider with a
  real transport, generic_webhook, is never ready.\<close>

theorem configuration_ready_means:
  assumes run: "runtime_readiness_evaluate bracket_ok env st (default_registry uuid_str (Some w)) ws k d = Inr r"
    and digest: "\<And>key msg. hmac key msg \<noteq> [] \<and> is_ascii (hmac key msg)"
  shows "(rr_configuration_ready r \<longleftrightarrow> ws_active ws \<and> ac_active (rr_account r) \<and>
      ac_provider (rr_account r) = ''generic_hmac'' \<and>
      (\<exists>s. env_resolve env (ac_secret_reference (rr_account r)) = Some s \<and> s \<noteq> [])) \<and>
    (rr_configuration_ready r \<longrightarrow>
      (\<exists>s. env_resolve env (ac_secret_reference (rr_account r)) = Some s \<and>
        (\<forall>ts t payload now max_age ev. py_int ts = Some t \<and> is_ascii ts \<and> ts \<noteq> [] \<and> \<not> float_overflow t \<and>
           \<bar>now - of_int t\<bar> \<le> of_int max_age \<longrightarrow>
           webhook_authenticate hmac env max_age now (rr_account r) payload
             (Some (hmac (utf8 s) (ts @ ''.'' @ payload))) (Some ts) ev =
           Inr \<lparr>vm_provider = ''generic_hmac'', vm_timestamp = t, vm_event_id = ev\<rparr>)) \<and>
      (\<forall>a. oa_action_type a \<in> set (cap_supported_action_types DEFAULT_CAPABILITIES) \<longrightarrow>
         run_adapter (default_registry uuid_str (Some w)) a (rr_account r) =
         result_success (Some (''noop-'' @ uuid_str (oa_id a)))))"
proof (intro conjI impI)
  let ?acc = "rr_account r"
  show iff: "rr_configuration_ready r \<longleftrightarrow> ws_active ws \<and> ac_active ?acc \<and>
      ac_provider ?acc = ''generic_hmac'' \<and>
      (\<exists>s. env_resolve env (ac_secret_reference ?acc) = Some s \<and> s \<noteq> [])"
  proof (cases "ac_provider ?acc = ''generic_hmac''")
    case True
    with run show ?thesis
      by (auto simp: runtime_readiness_evaluate_def bindE_Inr_iff Let_def has_inbound_verifier_def
          default_registry_capabilities secret_blockers_Nil_iff DEFAULT_CAPABILITIES_def split: if_splits)
  next
    case False
    with run show ?thesis
      by (auto simp: runtime_readiness_evaluate_def bindE_Inr_iff Let_def has_inbound_verifier_def)
  qed
  assume ready: "rr_configuration_ready r"
  with iff obtain s where s: "env_resolve env (ac_secret_reference ?acc) = Some s" "s \<noteq> []"
    and p: "ac_provider ?acc = ''generic_hmac''" by blast
  then show "\<exists>s. env_resolve env (ac_secret_reference ?acc) = Some s \<and>
        (\<forall>ts t payload now max_age ev. py_int ts = Some t \<and> is_ascii ts \<and> ts \<noteq> [] \<and> \<not> float_overflow t \<and>
           \<bar>now - of_int t\<bar> \<le> of_int max_age \<longrightarrow>
           webhook_authenticate hmac env max_age now ?acc payload
             (Some (hmac (utf8 s) (ts @ ''.'' @ payload))) (Some ts) ev =
           Inr \<lparr>vm_provider = ''generic_hmac'', vm_timestamp = t, vm_event_id = ev\<rparr>)"
    using digest by (intro exI [of _ s]) (simp add: webhook_authenticate_def hmac_verify_Inr_iff)
  show "\<forall>a. oa_action_type a \<in> set (cap_supported_action_types DEFAULT_CAPABILITIES) \<longrightarrow>
         run_adapter (default_registry uuid_str (Some w)) a ?acc =
         result_success (Some (''noop-'' @ uuid_str (oa_id a)))"
    using p by (simp add: run_adapter_def validate_action_def default_registry_capabilities)
      (simp add: DEFAULT_CAPABILITIES_def noop_adapter_def noop_deliver_def)
qed

theorem configuration_ready_means_witness:
  "\<exists>r. runtime_readiness_evaluate (\<lambda>_. True) [(secret_prefix @ ''A'', ''s'')]
     \<lparr>rs_outbound_webhook_url = [], rs_outbound_webhook_signing_enabled = False\<rparr>
     (default_registry (\<lambda>k. replicate k CHR ''x'') (Some (noop_adapter (\<lambda>_. [])))) sample_ws 4 webhook_db = Inr r \<and>
   rr_configuration_ready r"
proof -
  let ?run = "runtime_readiness_evaluate (\<lambda>_. True) [(secret_prefix @ ''A'', ''s'')]
     \<lparr>rs_outbound_webhook_url = [], rs_outbound_webhook_signing_enabled = False\<rparr>
     (default_registry (\<lambda>k. replicate k CHR ''x'') (Some (noop_adapter (\<lambda>_. [])))) sample_ws 4 webhook_db"
  have acc: "get_for_workspace sample_ws 4 webhook_db = Inr sample_webhook_account"
    by (simp add: get_for_workspace_def webhook_db_def sample_webhook_account_def sample_defs)
  have "\<exists>r. ?run = Inr r"
    by (simp add: runtime_readiness_evaluate_def acc Let_def) (simp add: sample_webhook_account_def)
  then obtain r where r: "?run = Inr r" by blast
  with runtime_readiness_InrD(1) [OF r] acc have "rr_account r = sample_webhook_account" by simp
  moreover have "secret_is_allowed (Some (secret_prefix @ ''A''))" by code_simp
  ultimately show ?thesis
    using r configuration_ready_means [OF r, of "\<lambda>_ _. ''a''"]
    by (simp add: is_ascii_def) (simp add: sample_webhook_account_def sample_ws_def sample_account_def env_resolve_def)
qed

section \<open>Execution traces\<close>

lemma trace_receipt_SomeD:
  assumes "trace_receipt ws c d = Some (r, acc)"
  shows "r \<in> set (inbound_receipts d)" "acc \<in> set (accounts d)" "ac_id acc = ir_integration_account_id r"
    "ir_correlation_id r = c" "ir_workspace_id r = ws_id ws" "ac_workspace_id acc = ws_id ws"
proof -
  have "(r, acc) \<in> set [(r, c'). r \<leftarrow> inbound_receipts d, c' \<leftarrow> accounts d, ac_id c' = ir_integration_account_id r,
                    ir_correlation_id r = c, ir_workspace_id r = ws_id ws, ac_workspace_id c' = ws_id ws]"
    using assms unfolding trace_receipt_def by (metis (no_types, lifting) list.case_eq_if list.set_sel(1) option.distinct(1) option.inject)
  then show "r \<in> set (inbound_receipts d)" "acc \<in> set (accounts d)" "ac_id acc = ir_integration_account_id r"
    "ir_correlation_id r = c" "ir_workspace_id r = ws_id ws" "ac_workspace_id acc = ws_id ws"
    by (auto split: if_splits)
qed

lemma trace_actions_iff:
  "(a, acc) \<in> set (trace_actions uuid_str ws c d) \<longleftrightarrow>
   a \<in> set (actions d) \<and> acc \<in> set (accounts d) \<and> ac_id acc = oa_integration_account_id a \<and>
   oa_workspace_id a = ws_id ws \<and> ac_workspace_id acc = ws_id ws \<and> oa_correlation_id a = Some (uuid_str c)"
  by (auto simp: trace_actions_def action_account_join_def split: if_splits)

lemma view_fields [simp]:
  "ta_action (outbound_action_view ws a acc d) = a" "ta_account (outbound_action_view ws a acc d) = acc"
  by (simp_all add: outbound_action_view_def)

lemma view_attempts:
  assumes "outbound_inv d" "a \<in> set (actions d)" "oa_workspace_id a = ws_id ws" "ac_id acc = oa_integration_account_id a"
  shows "set (ta_delivery_attempts (outbound_action_view ws a acc d)) = set (attempts_of (oa_id a) d)"
  using outbound_invD(1) [OF assms(1,2)] assms(3,4)
  by (auto simp: outbound_action_view_def attempts_of_def view_ok_def attempts_coherent_def)

text \<open>C20: A trace that is found belongs to a receipt of the asking workspace, and shows every outbound
  action of that workspace with the receipt's correlation, no others, each with its own account
  and all its delivery attempts; a correlation of another workspace is not found.\<close>

theorem trace_shows_own_execution:
  assumes inv: "outbound_inv d"
  shows "case trace_for_workspace uuid_str ws c d of
      Inl e \<Rightarrow> e = OutboundE IntegrationExecutionTraceNotFoundError
    | Inr v \<Rightarrow>
        tv_receipt v \<in> set (inbound_receipts d) \<and> ir_correlation_id (tv_receipt v) = c \<and>
        ir_workspace_id (tv_receipt v) = ws_id ws \<and> ac_workspace_id (tv_account v) = ws_id ws \<and>
        ta_action ` set (tv_outbound_actions v) =
          {a \<in> set (actions d). oa_workspace_id a = ws_id ws \<and> oa_correlation_id a = Some (uuid_str c) \<and>
             (\<exists>acc \<in> set (accounts d). ac_id acc = oa_integration_account_id a \<and> ac_workspace_id acc = ws_id ws)} \<and>
        (\<forall>x \<in> set (tv_outbound_actions v). ac_id (ta_account x) = oa_integration_account_id (ta_action x) \<and>
           set (ta_delivery_attempts x) = set (attempts_of (oa_id (ta_action x)) d))"
proof (cases "trace_receipt ws c d")
  case None
  then show ?thesis by (simp add: trace_for_workspace_def)
next
  case (Some p)
  then obtain r acc where p: "trace_receipt ws c d = Some (r, acc)" by (cases p) auto
  note r = trace_receipt_SomeD [OF p]
  let ?xs = "trace_actions uuid_str ws c d"
  have "ta_action ` set (map (\<lambda>(a, ac). outbound_action_view ws a ac d) ?xs) = {a. \<exists>acc. (a, acc) \<in> set ?xs}"
    by (force simp: image_image)
  also have "\<dots> = {a \<in> set (actions d). oa_workspace_id a = ws_id ws \<and> oa_correlation_id a = Some (uuid_str c) \<and>
             (\<exists>acc \<in> set (accounts d). ac_id acc = oa_integration_account_id a \<and> ac_workspace_id acc = ws_id ws)}"
    unfolding trace_actions_iff by blast
  finally have actions: "ta_action ` set (map (\<lambda>(a, ac). outbound_action_view ws a ac d) ?xs) = \<dots>" .
  have "\<forall>x \<in> set (map (\<lambda>(a, ac). outbound_action_view ws a ac d) ?xs).
      ac_id (ta_account x) = oa_integration_account_id (ta_action x) \<and>
      set (ta_delivery_attempts x) = set (attempts_of (oa_id (ta_action x)) d)"
  proof
    fix x
    assume "x \<in> set (map (\<lambda>(a, ac). outbound_action_view ws a ac d) ?xs)"
    then obtain a ac where x: "x = outbound_action_view ws a ac d" "(a, ac) \<in> set ?xs" by auto
    then show "ac_id (ta_account x) = oa_integration_account_id (ta_action x) \<and>
      set (ta_delivery_attempts x) = set (attempts_of (oa_id (ta_action x)) d)"
      using view_attempts [OF inv] by (simp add: trace_actions_iff)
  qed
  with actions r p show ?thesis by (simp add: trace_for_workspace_def)
qed

theorem trace_shows_own_execution_witness:
  "\<exists>v. trace_for_workspace (\<lambda>k. replicate k CHR ''x'') sample_ws 4 sample_failed_db = Inr v \<and>
     ta_action ` set (tv_outbound_actions v) = set (actions sample_failed_db)"
proof -
  let ?run = "trace_for_workspace (\<lambda>k. replicate k CHR ''x'') sample_ws 4 sample_failed_db"
  have "trace_receipt sample_ws 4 sample_failed_db \<noteq> None"
    by (simp add: trace_receipt_def sample_failed_db_def sample_defs)
  then obtain v where v: "?run = Inr v" by (auto simp: trace_for_workspace_def split: option.splits)
  from trace_shows_own_execution [OF sample_failed_inv, where uuid_str = "\<lambda>k. replicate k CHR ''x''" and ws = sample_ws and c = 4] v
  have "ta_action ` set (tv_outbound_actions v) =
      {a \<in> set (actions sample_failed_db). oa_workspace_id a = ws_id sample_ws \<and>
         oa_correlation_id a = Some (replicate 4 CHR ''x'') \<and>
         (\<exists>acc \<in> set (accounts sample_failed_db). ac_id acc = oa_integration_account_id a \<and>
            ac_workspace_id acc = ws_id sample_ws)}" by simp
  also have "\<dots> = set (actions sample_failed_db)"
    by (auto simp: sample_failed_db_def sample_defs numeral_eq_Suc)
  finally show ?thesis using v by blast
qed

end
