(* ===== verification/Api_Views.thy ===== *)
theory Api_Views
  imports Integration_Reads Ai_Usage
begin

text \<open>
  The response schemas of app/schemas.py that the integration routes return, as records (a subclass
  as a record extension), and the functions of app/api/routes/integrations.py that render rows and
  service views into them. Where a schema has exactly the fields of a service view (state history,
  timeline, approval status, readiness, transition validation, operational summary), the view is
  the response. The second part are the request schemas' field constraints: a request that breaks
  one is answered 422 before the route runs (the list of details of that answer is not modelled).
\<close>

section \<open>Accounts\<close>

record account_read =
  ar_id :: uuid
  ar_workspace_id :: uuid
  ar_provider :: string
  ar_external_account_id :: "string option"
  ar_active :: bool
  ar_created_at :: datetime
  ar_updated_at :: datetime

record account_credential_read = account_read +
  ar_inbound_credential :: string

definition render_account :: "integration_account \<Rightarrow> account_read" where
  "render_account a = \<lparr>ar_id = ac_id a, ar_workspace_id = ac_workspace_id a, ar_provider = ac_provider a,
     ar_external_account_id = ac_external_account_id a, ar_active = ac_active a,
     ar_created_at = ac_created_at a, ar_updated_at = ac_updated_at a\<rparr>"

definition render_account_credential :: "integration_account \<Rightarrow> string \<Rightarrow> account_credential_read" where
  "render_account_credential a credential =
     account_read.extend (render_account a) \<lparr>ar_inbound_credential = credential\<rparr>"

record account_audit_read =
  aar_id :: uuid
  aar_workspace_id :: uuid
  aar_integration_account_id :: uuid
  aar_action :: account_audit_action
  aar_created_at :: datetime

definition render_account_audit :: "account_audit_event \<Rightarrow> account_audit_read" where
  "render_account_audit e = \<lparr>aar_id = aa_id e, aar_workspace_id = aa_workspace_id e,
     aar_integration_account_id = aa_integration_account_id e, aar_action = aa_action e,
     aar_created_at = aa_created_at e\<rparr>"

record account_health_read =
  ahr_id :: uuid
  ahr_provider :: string
  ahr_active :: bool
  ahr_health :: health
  ahr_most_recent_outbound_at :: "datetime option"
  ahr_recent_delivered_count :: nat
  ahr_recent_failed_count :: nat
  ahr_pending_action_count :: nat
  ahr_failed_action_count :: nat

definition render_health :: "health_view \<Rightarrow> account_health_read" where
  "render_health v = \<lparr>ahr_id = ac_id (hv_account v), ahr_provider = ac_provider (hv_account v),
     ahr_active = ac_active (hv_account v), ahr_health = hv_health v,
     ahr_most_recent_outbound_at = hv_most_recent_outbound_at v,
     ahr_recent_delivered_count = hv_recent_delivered_count v,
     ahr_recent_failed_count = hv_recent_failed_count v,
     ahr_pending_action_count = hv_pending_action_count v,
     ahr_failed_action_count = hv_failed_action_count v\<rparr>"

record runtime_readiness_read =
  rrr_id :: uuid
  rrr_provider :: string
  rrr_status :: string
  rrr_configuration_ready :: bool
  rrr_availability_checked :: bool
  rrr_blocking_reasons :: "readiness_code list"
  rrr_details :: "(readiness_code \<times> string) list"

definition render_runtime_readiness :: "runtime_readiness \<Rightarrow> runtime_readiness_read" where
  "render_runtime_readiness v = \<lparr>rrr_id = ac_id (rr_account v), rrr_provider = ac_provider (rr_account v),
     rrr_status = (if rr_configuration_ready v then ''ready'' else ''blocked''),
     rrr_configuration_ready = rr_configuration_ready v, rrr_availability_checked = False,
     rrr_blocking_reasons = map fst (rr_blockers v), rrr_details = rr_blockers v\<rparr>"

section \<open>Outbound actions\<close>

text \<open>
  The full response. The route also passes the priority, which the schema does not declare and
  drops; scheduling times are rendered in UTC.
\<close>

record action_read =
  or_id :: uuid
  or_workspace_id :: uuid
  or_integration_account_id :: uuid
  or_provider :: string
  or_external_target_id :: string
  or_action_type :: action_type
  or_content :: string
  or_correlation_id :: "string option"
  or_requires_approval :: bool
  or_approval_request_id :: "uuid option"
  or_owner_reference :: "string option"
  or_archived_at :: "datetime option"
  or_status :: action_status
  or_provider_delivery_id :: "string option"
  or_delivered_at :: "datetime option"
  or_failed_at :: "datetime option"
  or_cancelled_at :: "datetime option"
  or_not_before :: "datetime option"
  or_expires_at :: "datetime option"
  or_expired_at :: "datetime option"
  or_failure_code :: "string option"
  or_failure_message :: "string option"
  or_created_at :: datetime

definition render_action :: "outbound_action \<Rightarrow> integration_account \<Rightarrow> action_read" where
  "render_action a c = \<lparr>or_id = oa_id a, or_workspace_id = oa_workspace_id a,
     or_integration_account_id = oa_integration_account_id a, or_provider = ac_provider c,
     or_external_target_id = oa_external_target_id a, or_action_type = oa_action_type a,
     or_content = oa_content a, or_correlation_id = oa_correlation_id a,
     or_requires_approval = oa_requires_approval a, or_approval_request_id = oa_approval_request_id a,
     or_owner_reference = oa_owner_reference a, or_archived_at = oa_archived_at a,
     or_status = oa_status a, or_provider_delivery_id = oa_provider_delivery_id a,
     or_delivered_at = oa_delivered_at a, or_failed_at = oa_failed_at a,
     or_cancelled_at = oa_cancelled_at a, or_not_before = map_option as_utc (oa_not_before a),
     or_expires_at = oa_expires_at a, or_expired_at = oa_expired_at a,
     or_failure_code = oa_failure_code a, or_failure_message = oa_failure_message a,
     or_created_at = oa_created_at a\<rparr>"

record action_summary_read =
  asr_id :: uuid
  asr_integration_account_id :: uuid
  asr_provider :: string
  asr_external_target_id :: string
  asr_action_type :: action_type
  asr_status :: action_status
  asr_priority :: action_priority
  asr_owner_reference :: "string option"
  asr_archived_at :: "datetime option"
  asr_provider_delivery_id :: "string option"
  asr_delivered_at :: "datetime option"
  asr_failed_at :: "datetime option"
  asr_cancelled_at :: "datetime option"
  asr_not_before :: "datetime option"
  asr_expires_at :: "datetime option"
  asr_expired_at :: "datetime option"
  asr_failure_code :: "string option"
  asr_created_at :: datetime

record action_detail_read = action_summary_read +
  asr_failure_message :: "string option"

definition render_action_summary :: "outbound_action \<Rightarrow> string \<Rightarrow> action_summary_read" where
  "render_action_summary a provider = \<lparr>asr_id = oa_id a,
     asr_integration_account_id = oa_integration_account_id a, asr_provider = provider,
     asr_external_target_id = oa_external_target_id a, asr_action_type = oa_action_type a,
     asr_status = oa_status a, asr_priority = oa_priority a, asr_owner_reference = oa_owner_reference a,
     asr_archived_at = oa_archived_at a, asr_provider_delivery_id = oa_provider_delivery_id a,
     asr_delivered_at = oa_delivered_at a, asr_failed_at = oa_failed_at a,
     asr_cancelled_at = oa_cancelled_at a, asr_not_before = map_option as_utc (oa_not_before a),
     asr_expires_at = oa_expires_at a, asr_expired_at = oa_expired_at a,
     asr_failure_code = oa_failure_code a, asr_created_at = oa_created_at a\<rparr>"

definition render_action_detail :: "outbound_action \<Rightarrow> string \<Rightarrow> action_detail_read" where
  "render_action_detail a provider =
     action_summary_read.extend (render_action_summary a provider) \<lparr>asr_failure_message = oa_failure_message a\<rparr>"

record annotation_read =
  anr_id :: uuid
  anr_outbound_integration_action_id :: uuid
  anr_text :: string
  anr_created_at :: datetime

definition render_annotation :: "action_annotation \<Rightarrow> annotation_read" where
  "render_annotation n = \<lparr>anr_id = an_id n,
     anr_outbound_integration_action_id = an_outbound_integration_action_id n, anr_text = an_text n,
     anr_created_at = an_created_at n\<rparr>"

record label_read =
  lbr_label :: string
  lbr_created_at :: datetime

definition render_label :: "action_label \<Rightarrow> label_read" where
  "render_label l = \<lparr>lbr_label = lb_label l, lbr_created_at = lb_created_at l\<rparr>"

record delivery_attempt_read =
  dar_id :: uuid
  dar_workspace_id :: uuid
  dar_integration_account_id :: uuid
  dar_outbound_integration_action_id :: uuid
  dar_attempt_number :: nat
  dar_status :: action_status
  dar_provider_delivery_id :: "string option"
  dar_started_at :: datetime
  dar_completed_at :: "datetime option"
  dar_failure_code :: "string option"
  dar_failure_message :: "string option"

definition render_attempt :: "delivery_attempt \<Rightarrow> delivery_attempt_read" where
  "render_attempt x = \<lparr>dar_id = da_id x, dar_workspace_id = da_workspace_id x,
     dar_integration_account_id = da_integration_account_id x,
     dar_outbound_integration_action_id = da_outbound_integration_action_id x,
     dar_attempt_number = da_attempt_number x, dar_status = da_status x,
     dar_provider_delivery_id = da_provider_delivery_id x, dar_started_at = da_started_at x,
     dar_completed_at = da_completed_at x, dar_failure_code = da_failure_code x,
     dar_failure_message = da_failure_message x\<rparr>"

record audit_event_read =
  aer_id :: uuid
  aer_workspace_id :: uuid
  aer_integration_account_id :: uuid
  aer_outbound_integration_action_id :: uuid
  aer_action :: audit_action
  aer_created_at :: datetime

definition render_audit_event :: "audit_event \<Rightarrow> audit_event_read" where
  "render_audit_event e = \<lparr>aer_id = ae_id e, aer_workspace_id = ae_workspace_id e,
     aer_integration_account_id = ae_integration_account_id e,
     aer_outbound_integration_action_id = ae_outbound_integration_action_id e, aer_action = ae_action e,
     aer_created_at = ae_created_at e\<rparr>"

record delivery_status_read =
  dsr_id :: uuid
  dsr_provider :: string
  dsr_external_target_id :: string
  dsr_action_type :: action_type
  dsr_status :: action_status
  dsr_archived_at :: "datetime option"
  dsr_created_at :: datetime
  dsr_provider_delivery_id :: "string option"
  dsr_delivered_at :: "datetime option"
  dsr_failed_at :: "datetime option"
  dsr_failure_code :: "string option"
  dsr_failure_message :: "string option"
  dsr_attempt_count :: nat
  dsr_retry_allowed :: bool
  dsr_retry_denial_reason :: "string option"
  dsr_next_retry_at :: "datetime option"

definition render_delivery_status :: "delivery_status_view \<Rightarrow> delivery_status_read" where
  "render_delivery_status v = (let a = sv_action v in
     \<lparr>dsr_id = oa_id a, dsr_provider = ac_provider (sv_account v),
      dsr_external_target_id = oa_external_target_id a, dsr_action_type = oa_action_type a,
      dsr_status = oa_status a, dsr_archived_at = oa_archived_at a, dsr_created_at = oa_created_at a,
      dsr_provider_delivery_id = oa_provider_delivery_id a, dsr_delivered_at = oa_delivered_at a,
      dsr_failed_at = oa_failed_at a, dsr_failure_code = oa_failure_code a,
      dsr_failure_message = oa_failure_message a, dsr_attempt_count = sv_attempt_count v,
      dsr_retry_allowed = el_allowed (sv_retry_eligibility v),
      dsr_retry_denial_reason = el_denial_reason (sv_retry_eligibility v),
      dsr_next_retry_at = sv_next_retry_at v\<rparr>)"

section \<open>Execution traces and AI usage\<close>

record trace_receipt_read =
  trr_integration_account_id :: uuid
  trr_provider :: string
  trr_external_account_id :: "string option"
  trr_external_event_id :: string
  trr_correlation_id :: uuid
  trr_received_at :: datetime

record trace_attempt_read =
  tar_id :: uuid
  tar_attempt_number :: nat
  tar_status :: action_status
  tar_provider_delivery_id :: "string option"
  tar_started_at :: datetime
  tar_completed_at :: "datetime option"
  tar_failure_code :: "string option"
  tar_failure_message :: "string option"

record trace_action_read =
  tac_id :: uuid
  tac_integration_account_id :: uuid
  tac_provider :: string
  tac_external_target_id :: string
  tac_action_type :: action_type
  tac_status :: action_status
  tac_requires_approval :: bool
  tac_approval_request_id :: "uuid option"
  tac_approval_status :: "approval_status option"
  tac_provider_delivery_id :: "string option"
  tac_delivered_at :: "datetime option"
  tac_failed_at :: "datetime option"
  tac_cancelled_at :: "datetime option"
  tac_expired_at :: "datetime option"
  tac_created_at :: datetime
  tac_delivery_attempts :: "trace_attempt_read list"

record trace_read =
  trd_correlation_id :: uuid
  trd_inbound :: trace_receipt_read
  trd_outbound_actions :: "trace_action_read list"

definition render_trace_attempt :: "delivery_attempt \<Rightarrow> trace_attempt_read" where
  "render_trace_attempt x = \<lparr>tar_id = da_id x, tar_attempt_number = da_attempt_number x,
     tar_status = da_status x, tar_provider_delivery_id = da_provider_delivery_id x,
     tar_started_at = da_started_at x, tar_completed_at = da_completed_at x,
     tar_failure_code = da_failure_code x, tar_failure_message = da_failure_message x\<rparr>"

definition render_trace_action :: "trace_action_view \<Rightarrow> trace_action_read" where
  "render_trace_action v = (let a = ta_action v in
     \<lparr>tac_id = oa_id a, tac_integration_account_id = oa_integration_account_id a,
      tac_provider = ac_provider (ta_account v), tac_external_target_id = oa_external_target_id a,
      tac_action_type = oa_action_type a, tac_status = oa_status a,
      tac_requires_approval = oa_requires_approval a,
      tac_approval_request_id = oa_approval_request_id a,
      tac_approval_status = map_option ap_status (ta_approval v),
      tac_provider_delivery_id = oa_provider_delivery_id a, tac_delivered_at = oa_delivered_at a,
      tac_failed_at = oa_failed_at a, tac_cancelled_at = oa_cancelled_at a,
      tac_expired_at = oa_expired_at a, tac_created_at = oa_created_at a,
      tac_delivery_attempts = map render_trace_attempt (ta_delivery_attempts v)\<rparr>)"

definition render_trace :: "trace_view \<Rightarrow> trace_read" where
  "render_trace v = (let r = tv_receipt v; c = tv_account v in
     \<lparr>trd_correlation_id = ir_correlation_id r,
      trd_inbound = \<lparr>trr_integration_account_id = ir_integration_account_id r, trr_provider = ac_provider c,
        trr_external_account_id = ac_external_account_id c, trr_external_event_id = ir_external_event_id r,
        trr_correlation_id = ir_correlation_id r, trr_received_at = ir_created_at r\<rparr>,
      trd_outbound_actions = map render_trace_action (tv_outbound_actions v)\<rparr>)"

record ai_usage_read =
  aur_id :: uuid
  aur_workspace_id :: uuid
  aur_conversation_id :: "uuid option"
  aur_task_identifier :: string
  aur_agent_identifier :: string
  aur_provider :: string
  aur_model :: string
  aur_input_tokens :: "int option"
  aur_output_tokens :: "int option"
  aur_total_tokens :: "int option"
  aur_latency_ms :: int
  aur_estimated_cost :: "rat option"
  aur_pricing_known :: bool
  aur_status :: ai_status
  aur_created_at :: datetime

definition pricing_known :: "ai_usage \<Rightarrow> bool" where
  "pricing_known u \<longleftrightarrow> au_estimated_cost u \<noteq> None"

definition render_usage :: "ai_usage \<Rightarrow> ai_usage_read" where
  "render_usage u = \<lparr>aur_id = au_id u, aur_workspace_id = au_workspace_id u,
     aur_conversation_id = au_conversation_id u, aur_task_identifier = au_task_identifier u,
     aur_agent_identifier = au_agent_identifier u, aur_provider = au_provider u, aur_model = au_model u,
     aur_input_tokens = au_input_tokens u, aur_output_tokens = au_output_tokens u,
     aur_total_tokens = au_total_tokens u, aur_latency_ms = au_latency_ms u,
     aur_estimated_cost = au_estimated_cost u, aur_pricing_known = pricing_known u,
     aur_status = au_status u, aur_created_at = au_created_at u\<rparr>"

section \<open>Request schemas\<close>

definition text_between :: "nat \<Rightarrow> nat \<Rightarrow> string \<Rightarrow> bool" where
  "text_between lo hi s \<longleftrightarrow> lo \<le> length s \<and> length s \<le> hi"

definition account_provision_valid :: "string \<Rightarrow> string option \<Rightarrow> string \<Rightarrow> bool" where
  "account_provision_valid provider external_account_id secret_reference \<longleftrightarrow>
     text_between 1 100 provider \<and> pred_option (text_between 0 255) external_account_id \<and>
     text_between 1 255 secret_reference"

definition secret_reference_update_valid :: "string \<Rightarrow> bool" where
  "secret_reference_update_valid s \<longleftrightarrow> text_between 1 255 s"

text \<open>
  The validator of \<open>not_before\<close> refuses a time without a zone and converts the others to UTC, which raises
  \<open>OverflowError\<close> at the ends of the calendar; that is no validation error, so it leaves the schema at once, whatever
  the other fields hold. \<open>expires_at\<close> passes as it is.
\<close>

definition normalize_not_before_to_utc :: "datetime option \<Rightarrow> error + datetime option" where
  "normalize_not_before_to_utc v =
     (case v of None \<Rightarrow> Inr None
      | Some t \<Rightarrow> if dt_naive t then Inl ValueError
          else (case to_utc t of None \<Rightarrow> Inl OverflowError | Some u \<Rightarrow> Inr (Some u)))"

definition action_create_valid :: "action_input \<Rightarrow> string \<Rightarrow> bool" where
  "action_create_valid i key \<longleftrightarrow>
     text_between 1 255 (in_external_target_id i) \<and> text_between 1 10000 (in_content i) \<and>
     pred_option (text_between 1 200) (in_correlation_id i) \<and> text_between 1 200 key"

definition parse_action_create :: "action_input \<Rightarrow> string \<Rightarrow> error + action_input" where
  "parse_action_create i key =
     (case normalize_not_before_to_utc (in_not_before i) of
        Inl e \<Rightarrow> Inl e
      | Inr t \<Rightarrow> if action_create_valid i key then Inr (i\<lparr>in_not_before := t\<rparr>) else Inl ValueError)"

text \<open>What passes is in UTC, so that \<open>as_utc\<close> leaves it as it is when it is read.\<close>

lemma parse_action_create_utc:
  "parse_action_create i key = Inr j \<Longrightarrow> map_option as_utc (in_not_before j) = in_not_before j"
  by (auto simp: parse_action_create_def normalize_not_before_to_utc_def to_utc_def
      split: sum.splits option.splits if_splits)

definition annotation_create_valid :: "string \<Rightarrow> bool" where
  "annotation_create_valid s \<longleftrightarrow> text_between 1 1000 s"

definition label_create_valid :: "string \<Rightarrow> bool" where
  "label_create_valid s \<longleftrightarrow> text_between 1 64 s"

definition owner_reference_update_valid :: "string option \<Rightarrow> bool" where
  "owner_reference_update_valid s \<longleftrightarrow> pred_option (text_between 0 200) s"

definition limit_valid :: "int \<Rightarrow> int \<Rightarrow> bool" where
  "limit_valid maximum n \<longleftrightarrow> 1 \<le> n \<and> n \<le> maximum"

definition action_query_valid :: "action_filter \<Rightarrow> bool" where
  "action_query_valid f \<longleftrightarrow>
     pred_option (text_between 1 64) (qf_label f) \<and> pred_option (text_between 1 200) (qf_owner_reference f) \<and>
     pred_option (text_between 1 100) (qf_provider f)"

end
