(* ===== verification/Integration_Routes.thy ===== *)
theory Integration_Routes
  imports Api_Views
begin

text \<open>
  The endpoints of app/api/routes/integrations.py, one definition per function: the service call,
  the except clauses that turn its exceptions into HTTP answers, and the rendering of the result.
  The workspace is the one the dependencies resolved (Access). An exception without a clause is
  passed on, which the framework answers with status 500. Readings of the clock: those of the
  service, 20 for a route's own \<open>utc_now()\<close>, and 21 (in seconds) for the webhook signature.
\<close>

section \<open>Environment and settings\<close>

record integration_settings =
  is_retention_days :: int
  is_health_window_days :: int
  is_max_attempts :: int
  is_non_retryable_codes :: string
  is_non_retryable_classes :: string
  is_delay_strategy :: delay_strategy
  is_delay_seconds :: int
  is_delay_max_seconds :: int
  is_runtime :: runtime_settings

text \<open>What the routes use of the outside: identifiers as text, hashing, fresh credentials, the
  process environment, the keyed hash, the webhook transport and the bracketed-host check.\<close>

record api_env =
  xe_uuid_str :: "uuid \<Rightarrow> string"
  xe_sha :: "string \<Rightarrow> string"
  xe_tokens :: "nat \<Rightarrow> string"
  xe_environ :: "(string \<times> string) list"
  xe_hmac :: hmac
  xe_transport :: "string \<Rightarrow> string \<Rightarrow> (string \<times> string) list \<Rightarrow> transport_outcome"
  xe_bracket_ok :: "string \<Rightarrow> bool"

definition delivery_registry :: "api_env \<Rightarrow> integration_settings \<Rightarrow> int \<Rightarrow> registry" where
  "delivery_registry x st now =
     default_registry (xe_uuid_str x) (Some (webhook_adapter (xe_uuid_str x) (xe_hmac x) (xe_environ x) now
       (xe_transport x) (make_webhook_config (rs_outbound_webhook_url (is_runtime st))
          (rs_outbound_webhook_signing_enabled (is_runtime st)))))"

definition settings_retry_policy :: "integration_settings \<Rightarrow> error + retry_policy" where
  "settings_retry_policy st =
     retry_policy_from_settings (is_max_attempts st) (is_non_retryable_codes st) (is_non_retryable_classes st)"

definition settings_delay_policy :: "integration_settings \<Rightarrow> error + delay_policy" where
  "settings_delay_policy st = make_delay_policy (is_delay_strategy st) (is_delay_seconds st) (is_delay_max_seconds st)"

section \<open>Exceptions as answers\<close>

definition answer_error :: "(error \<Rightarrow> (nat \<times> string) option) \<Rightarrow> error \<Rightarrow> error" where
  "answer_error clauses e = (case clauses e of None \<Rightarrow> e | Some (code, detail) \<Rightarrow> HTTPException code detail)"

definition catching :: "(error \<Rightarrow> (nat \<times> string) option) \<Rightarrow> (error + 'a) \<times> 'd \<Rightarrow> (error + 'a) \<times> 'd" where
  "catching clauses r = (case r of (Inl e, d) \<Rightarrow> (Inl (answer_error clauses e), d) | (Inr x, d) \<Rightarrow> (Inr x, d))"

definition catchingE :: "(error \<Rightarrow> (nat \<times> string) option) \<Rightarrow> error + 'a \<Rightarrow> error + 'a" where
  "catchingE clauses r = (case r of Inl e \<Rightarrow> Inl (answer_error clauses e) | Inr x \<Rightarrow> Inr x)"

definition rendering :: "('a \<Rightarrow> 'b) \<Rightarrow> (error + 'a) \<times> 'd \<Rightarrow> (error + 'b) \<times> 'd" where
  "rendering f r = (case r of (Inl e, d) \<Rightarrow> (Inl e, d) | (Inr x, d) \<Rightarrow> (Inr (f x), d))"

definition renderingE :: "('a \<Rightarrow> 'b) \<Rightarrow> error + 'a \<Rightarrow> error + 'b" where
  "renderingE f r = bindE r (\<lambda>x. Inr (f x))"

definition account_clause :: "error \<times> nat \<times> string" where
  "account_clause = (AccountE IntegrationAccountNotFoundError, 404, ''Integration account not found'')"

definition action_clause :: "error \<times> nat \<times> string" where
  "action_clause = (OutboundE OutboundIntegrationActionNotFoundError, 404, ''Outbound integration action not found'')"

definition query_action_clause :: "error \<times> nat \<times> string" where
  "query_action_clause =
     (OperatorE OutboundIntegrationActionQueryNotFoundError, 404, ''Outbound integration action not found'')"

definition secret_clause :: "error \<times> nat \<times> string" where
  "secret_clause = (AccountE SecretReferenceValidationError, 422, ''Secret reference is not allowed'')"

section \<open>Accounts\<close>

definition provision_integration_account ::
  "api_env \<Rightarrow> workspace \<Rightarrow> string \<Rightarrow> string option \<Rightarrow> string \<Rightarrow> clock \<Rightarrow> db
   \<Rightarrow> ((error + account_credential_read) \<times> db) option" where
  "provision_integration_account x ws provider external_account_id secret_reference clk d =
     map_option (rendering (\<lambda>(a, c). render_account_credential a c) \<circ> catching (map_of [secret_clause]))
       (provision (xe_sha x) (xe_tokens x) ws provider external_account_id secret_reference clk d)"

definition list_integration_accounts :: "workspace \<Rightarrow> db \<Rightarrow> account_read list" where
  "list_integration_accounts ws d = map render_account (list_accounts ws d)"

definition deactivate_integration_account :: "workspace \<Rightarrow> uuid \<Rightarrow> clock \<Rightarrow> account_read op" where
  "deactivate_integration_account ws account_id clk d =
     rendering render_account (catching (map_of [account_clause]) (deactivate ws account_id clk d))"

definition reactivate_integration_account :: "workspace \<Rightarrow> uuid \<Rightarrow> clock \<Rightarrow> account_read op" where
  "reactivate_integration_account ws account_id clk d =
     rendering render_account (catching (map_of [account_clause]) (reactivate ws account_id clk d))"

definition rotate_integration_account_credential ::
  "api_env \<Rightarrow> workspace \<Rightarrow> uuid \<Rightarrow> clock \<Rightarrow> db \<Rightarrow> ((error + account_credential_read) \<times> db) option" where
  "rotate_integration_account_credential x ws account_id clk d =
     map_option (rendering (\<lambda>(a, c). render_account_credential a c) \<circ> catching (map_of [account_clause]))
       (rotate_credential (xe_sha x) (xe_tokens x) ws account_id clk d)"

definition update_integration_account_secret_reference ::
  "workspace \<Rightarrow> uuid \<Rightarrow> string \<Rightarrow> clock \<Rightarrow> account_read op" where
  "update_integration_account_secret_reference ws account_id secret_reference clk d =
     rendering render_account (catching (map_of [account_clause, secret_clause])
       (update_secret_reference ws account_id secret_reference clk d))"

definition get_integration_account_health ::
  "integration_settings \<Rightarrow> workspace \<Rightarrow> uuid \<Rightarrow> clock \<Rightarrow> db \<Rightarrow> error + account_health_read" where
  "get_integration_account_health st ws account_id clk d =
     renderingE render_health (catchingE (map_of [account_clause])
       (health_for_account ws account_id (is_health_window_days st) (utc (clk 20)) d))"

definition get_integration_runtime_readiness ::
  "api_env \<Rightarrow> integration_settings \<Rightarrow> workspace \<Rightarrow> uuid \<Rightarrow> clock \<Rightarrow> db \<Rightarrow> error + runtime_readiness_read" where
  "get_integration_runtime_readiness x st ws account_id clk d =
     renderingE render_runtime_readiness (catchingE (map_of [account_clause])
       (runtime_readiness_evaluate (xe_bracket_ok x) (xe_environ x) (is_runtime st)
          (delivery_registry x st (clk 21)) ws account_id d))"

definition list_integration_account_audit_events ::
  "workspace \<Rightarrow> uuid \<Rightarrow> account_audit_action option \<Rightarrow> datetime option \<Rightarrow> datetime option \<Rightarrow> int \<Rightarrow> db
   \<Rightarrow> error + account_audit_read list" where
  "list_integration_account_audit_events ws account_id action after before limit d =
     bindE (catchingE (map_of [account_clause]) (get_for_workspace ws account_id d)) (\<lambda>_.
     renderingE (map render_account_audit)
       (catchingE (map_of [(AccountE AuditQueryValidationError, 422, ''created_after must not be later than created_before'')])
         (account_audit_list ws (Some account_id) action after before limit d)))"

definition list_workspace_integration_account_audit_events ::
  "workspace \<Rightarrow> account_audit_action option \<Rightarrow> datetime option \<Rightarrow> datetime option \<Rightarrow> int \<Rightarrow> db
   \<Rightarrow> error + account_audit_read list" where
  "list_workspace_integration_account_audit_events ws action after before limit d =
     renderingE (map render_account_audit)
       (catchingE (map_of [(AccountE AuditQueryValidationError, 422, ''created_after must not be later than created_before'')])
         (account_audit_list ws None action after before limit d))"

definition cleanup_workspace_integration_account_audit_events ::
  "integration_settings \<Rightarrow> workspace \<Rightarrow> clock \<Rightarrow> (nat \<times> datetime) op" where
  "cleanup_workspace_integration_account_audit_events st ws clk d =
     (case retention_policy (is_retention_days st) of
        Inl e \<Rightarrow> (Inl e, d)
      | Inr retention \<Rightarrow> cleanup_for_workspace ws retention (utc (clk 20)) 100 d)"

section \<open>Workspace reads\<close>

definition get_integration_operational_summary ::
  "integration_settings \<Rightarrow> workspace \<Rightarrow> clock \<Rightarrow> db \<Rightarrow> error + operational_summary" where
  "get_integration_operational_summary st ws clk d =
     bindE (settings_retry_policy st) (\<lambda>pol.
     summarize_operations pol ws (is_health_window_days st) (utc (clk 20)) d)"

definition get_workspace_ai_invocation_usage_summary :: "workspace \<Rightarrow> db \<Rightarrow> usage_summary" where
  "get_workspace_ai_invocation_usage_summary ws d = summarize_for_workspace ws d"

definition list_workspace_ai_invocation_usage :: "workspace \<Rightarrow> db \<Rightarrow> ai_usage_read list" where
  "list_workspace_ai_invocation_usage ws d = map render_usage (usage_list ws d)"

definition list_outbound_integration_audit_events ::
  "workspace \<Rightarrow> audit_action option \<Rightarrow> uuid option \<Rightarrow> uuid option \<Rightarrow> datetime option \<Rightarrow> datetime option \<Rightarrow> int
   \<Rightarrow> db \<Rightarrow> error + audit_event_read list" where
  "list_outbound_integration_audit_events ws action account_id action_id after before limit d =
     renderingE (map render_audit_event)
       (catchingE (map_of [(OutboundE OutboundAuditQueryValidationError, 422, ''created_after must not be later than created_before'')])
         (audit_list_for_workspace ws action account_id action_id after before limit d))"

definition get_integration_execution_trace :: "api_env \<Rightarrow> workspace \<Rightarrow> uuid \<Rightarrow> db \<Rightarrow> error + trace_read" where
  "get_integration_execution_trace x ws correlation_id d =
     renderingE render_trace
       (catchingE (map_of [(OutboundE IntegrationExecutionTraceNotFoundError, 404, ''Integration execution trace not found'')])
         (trace_for_workspace (xe_uuid_str x) ws correlation_id d))"

section \<open>Outbound actions: creation, queries and operator columns\<close>

definition create_outbound_integration_action ::
  "workspace \<Rightarrow> uuid \<Rightarrow> action_input \<Rightarrow> string \<Rightarrow> clock \<Rightarrow> action_read op" where
  "create_outbound_integration_action ws account_id input key clk d =
     rendering (\<lambda>(a, c). render_action a c) (catching (map_of [account_clause,
         (OutboundE InactiveIntegrationAccountError, 409, ''Integration account is inactive''),
         (OutboundE OutboundIntegrationActionIdempotencyConflictError, 409,
            ''Idempotency key has already been used for a different action'')])
       (create_action ws account_id input key clk d))"

text \<open>The two messages of a refused query: a time range that is empty, or contradictory owner filters.\<close>

definition query_detail :: "action_filter \<Rightarrow> string" where
  "query_detail f =
     (case validate_range (OperatorE OutboundActionQueryValidationError) (qf_created_after f) (qf_created_before f) of
        Inl _ \<Rightarrow> ''created_after must be earlier than or equal to created_before''
      | Inr _ \<Rightarrow> ''owner_reference and unowned cannot be combined'')"

definition label_pattern_detail :: string where
  "label_pattern_detail = ''Label must use lowercase letters, numbers, hyphens, or underscores''"

definition owner_pattern_detail :: string where
  "owner_pattern_detail =
     ''Owner reference must use letters, numbers, periods, colons, hyphens, or underscores''"

definition list_outbound_integration_actions ::
  "workspace \<Rightarrow> action_filter \<Rightarrow> int \<Rightarrow> db \<Rightarrow> error + action_summary_read list" where
  "list_outbound_integration_actions ws f limit d =
     renderingE (map (\<lambda>(a, p). render_action_summary a p))
       (catchingE (map_of [(OperatorE OutboundActionQueryValidationError, 422, query_detail f),
           (OperatorE OutboundActionLabelValidationError, 422, label_pattern_detail),
           (OperatorE OutboundActionOwnerReferenceValidationError, 422, owner_pattern_detail)])
         (bindE (case qf_label f of None \<Rightarrow> Inr None
                 | Some l \<Rightarrow> bindE (label_normalize l) (\<lambda>n. Inr (Some n))) (\<lambda>label.
          bindE (owner_normalize (qf_owner_reference f)) (\<lambda>own.
          query_list_for_workspace ws (f\<lparr>qf_label := label, qf_owner_reference := own\<rparr>) limit d))))"

definition cleanup_expired_outbound_actions :: "workspace \<Rightarrow> clock \<Rightarrow> (nat \<times> datetime) op" where
  "cleanup_expired_outbound_actions ws clk d =
     rendering (\<lambda>n. (n, utc (clk 20))) (cleanup_expired_for_workspace ws (utc (clk 20)) d)"

definition get_outbound_integration_action_detail :: "workspace \<Rightarrow> uuid \<Rightarrow> db \<Rightarrow> error + action_detail_read" where
  "get_outbound_integration_action_detail ws action_id d =
     renderingE (\<lambda>(a, p). render_action_detail a p)
       (catchingE (map_of [query_action_clause]) (query_get_for_workspace ws action_id d))"

definition create_outbound_action_annotation :: "workspace \<Rightarrow> uuid \<Rightarrow> string \<Rightarrow> clock \<Rightarrow> annotation_read op" where
  "create_outbound_action_annotation ws action_id text clk d =
     rendering render_annotation
       (catching (map_of [query_action_clause]) (create_annotation ws action_id text clk d))"

definition list_outbound_action_annotations ::
  "workspace \<Rightarrow> uuid \<Rightarrow> int \<Rightarrow> db \<Rightarrow> error + annotation_read list" where
  "list_outbound_action_annotations ws action_id limit d =
     renderingE (map render_annotation)
       (catchingE (map_of [query_action_clause]) (list_annotations ws action_id limit d))"

definition label_detail :: "string \<Rightarrow> string" where
  "label_detail raw = (case label_normalize raw of Inl _ \<Rightarrow> label_pattern_detail
     | Inr _ \<Rightarrow> ''An outbound action can have at most 10 labels'')"

definition add_outbound_action_label :: "workspace \<Rightarrow> uuid \<Rightarrow> string \<Rightarrow> clock \<Rightarrow> label_read op" where
  "add_outbound_action_label ws action_id label clk d =
     rendering render_label (catching (map_of [query_action_clause,
         (OperatorE OutboundActionLabelValidationError, 422, label_detail label)])
       (add_label ws action_id label clk d))"

definition list_outbound_action_labels :: "workspace \<Rightarrow> uuid \<Rightarrow> int \<Rightarrow> db \<Rightarrow> error + label_read list" where
  "list_outbound_action_labels ws action_id limit d =
     renderingE (map render_label)
       (catchingE (map_of [query_action_clause]) (list_labels ws action_id limit d))"

definition remove_outbound_action_label :: "workspace \<Rightarrow> uuid \<Rightarrow> string \<Rightarrow> unit op" where
  "remove_outbound_action_label ws action_id label d =
     catching (map_of [query_action_clause,
         (OperatorE OutboundActionLabelNotFoundError, 404, ''Outbound action label not found''),
         (OperatorE OutboundActionLabelValidationError, 422, label_pattern_detail)])
       (remove_label ws action_id label d)"

text \<open>The routes that change one column answer with the changed row and its account's provider.\<close>

definition with_provider :: "workspace \<Rightarrow> uuid \<Rightarrow> (error + outbound_action) \<times> db
   \<Rightarrow> (error + outbound_action \<times> string) \<times> db" where
  "with_provider ws action_id r =
     (case r of
        (Inl e, d) \<Rightarrow> (Inl e, d)
      | (Inr a, d) \<Rightarrow> (bindE (query_get_for_workspace ws action_id d) (\<lambda>(_, p). Inr (a, p)), d))"

definition update_outbound_action_priority :: "workspace \<Rightarrow> uuid \<Rightarrow> action_priority \<Rightarrow> action_detail_read op" where
  "update_outbound_action_priority ws action_id priority d =
     rendering (\<lambda>(a, p). render_action_detail a p) (catching (map_of [query_action_clause])
       (with_provider ws action_id (set_priority ws action_id priority d)))"

definition update_outbound_action_owner_reference ::
  "workspace \<Rightarrow> uuid \<Rightarrow> string option \<Rightarrow> action_detail_read op" where
  "update_outbound_action_owner_reference ws action_id own d =
     rendering (\<lambda>(a, p). render_action_detail a p) (catching (map_of [query_action_clause,
         (OperatorE OutboundActionOwnerReferenceValidationError, 422, owner_pattern_detail)])
       (with_provider ws action_id (set_owner_reference ws action_id own d)))"

definition archive_outbound_integration_action :: "workspace \<Rightarrow> uuid \<Rightarrow> clock \<Rightarrow> action_detail_read op" where
  "archive_outbound_integration_action ws action_id clk d =
     rendering (\<lambda>(a, p). render_action_detail a p) (catching (map_of [query_action_clause,
         (OperatorE OutboundIntegrationActionNotArchivableError, 409,
            ''Only terminal outbound integration actions can be archived''),
         (OperatorE OutboundIntegrationActionAlreadyArchivedError, 409,
            ''Outbound integration action is already archived'')])
       (with_provider ws action_id (archive ws action_id clk d)))"

definition unarchive_outbound_integration_action :: "workspace \<Rightarrow> uuid \<Rightarrow> clock \<Rightarrow> action_detail_read op" where
  "unarchive_outbound_integration_action ws action_id clk d =
     rendering (\<lambda>(a, p). render_action_detail a p) (catching (map_of [query_action_clause,
         (OperatorE OutboundIntegrationActionNotArchivedError, 409, ''Outbound integration action is not archived'')])
       (with_provider ws action_id (unarchive ws action_id clk d)))"

section \<open>Outbound actions: delivery\<close>

definition deliver_outbound_integration_action ::
  "api_env \<Rightarrow> integration_settings \<Rightarrow> workspace \<Rightarrow> uuid \<Rightarrow> uuid \<Rightarrow> clock \<Rightarrow> action_read op" where
  "deliver_outbound_integration_action x st ws account_id action_id clk d =
     rendering (\<lambda>(a, c). render_action a c) (catching (map_of [account_clause, action_clause,
         (OutboundE InactiveIntegrationAccountError, 409, ''Integration account is inactive''),
         (OutboundE OutboundIntegrationActionAlreadyProcessedError, 409,
            ''Outbound integration action has already reached a terminal state''),
         (OutboundE OutboundIntegrationActionExpiredError, 409, ''Outbound integration action has expired''),
         (OutboundE OutboundIntegrationActionNotReadyError, 409,
            ''Outbound integration action is not available before its not-before time''),
         (OutboundE OutboundDeliveryApprovalRequiredError, 409,
            ''Outbound integration action requires approval before delivery''),
         (OutboundE OutboundDeliveryApprovalRejectedError, 409,
            ''Outbound integration action approval was rejected'')])
       (deliver_pending_action (delivery_registry x st (clk 21)) ws account_id action_id clk d))"

definition cancel_outbound_integration_action :: "workspace \<Rightarrow> uuid \<Rightarrow> uuid \<Rightarrow> clock \<Rightarrow> action_read op" where
  "cancel_outbound_integration_action ws account_id action_id clk d =
     rendering (\<lambda>(a, c). render_action a c) (catching (map_of [account_clause, action_clause,
         (OutboundE OutboundIntegrationActionNotCancellableError, 409,
            ''Only pending outbound integration actions can be cancelled'')])
       (cancel_pending_action ws account_id action_id clk d))"

definition retry_clauses :: "error \<Rightarrow> (nat \<times> string) option" where
  "retry_clauses e =
     (case e of
        OutboundE (OutboundIntegrationActionRetryDeniedError reason) \<Rightarrow>
          Some (409, ''Outbound integration action retry is not eligible: '' @
            (case reason of None \<Rightarrow> ''None'' | Some r \<Rightarrow> r))
      | _ \<Rightarrow> map_of [account_clause, action_clause,
            (OutboundE InactiveIntegrationAccountError, 409, ''Integration account is inactive''),
            (OutboundE OutboundIntegrationActionNotRetryableError, 409,
               ''Only failed outbound integration actions can be retried'')] e)"

definition retry_failed_outbound_integration_action ::
  "api_env \<Rightarrow> integration_settings \<Rightarrow> workspace \<Rightarrow> uuid \<Rightarrow> uuid \<Rightarrow> clock \<Rightarrow> action_read op" where
  "retry_failed_outbound_integration_action x st ws account_id action_id clk d =
     (case settings_retry_policy st of
        Inl e \<Rightarrow> (Inl e, d)
      | Inr pol \<Rightarrow> rendering (\<lambda>(a, c). render_action a c) (catching retry_clauses
          (retry_failed_action (delivery_registry x st (clk 21)) pol ws account_id action_id clk d)))"

definition get_outbound_delivery_readiness ::
  "api_env \<Rightarrow> integration_settings \<Rightarrow> workspace \<Rightarrow> uuid \<Rightarrow> uuid \<Rightarrow> clock \<Rightarrow> db \<Rightarrow> error + readiness" where
  "get_outbound_delivery_readiness x st ws account_id action_id clk d =
     bindE (settings_retry_policy st) (\<lambda>pol.
     bindE (settings_delay_policy st) (\<lambda>dpol.
     catchingE (map_of [account_clause, action_clause])
       (readiness_evaluate (delivery_registry x st (clk 21)) pol dpol ws account_id action_id clk d)))"

definition get_outbound_approval_status ::
  "workspace \<Rightarrow> uuid \<Rightarrow> uuid \<Rightarrow> db \<Rightarrow> error + approval_status_view" where
  "get_outbound_approval_status ws account_id action_id d =
     catchingE (map_of [account_clause,
         (OutboundE OutboundApprovalStatusNotFoundError, 404, ''Outbound integration action not found'')])
       (approval_status_for_action ws account_id action_id d)"

definition list_outbound_action_state_history ::
  "workspace \<Rightarrow> uuid \<Rightarrow> uuid \<Rightarrow> int \<Rightarrow> db \<Rightarrow> error + state_history_entry list" where
  "list_outbound_action_state_history ws account_id action_id limit d =
     catchingE (map_of [account_clause, action_clause,
         (ValueError, 422, ''Outbound state history limit must be between 1 and 100'')])
       (state_history ws account_id action_id limit d)"

definition timeline_detail :: "int \<Rightarrow> string" where
  "timeline_detail limit =
     (if \<not> (1 \<le> limit \<and> limit \<le> MAX_TIMELINE_LIMIT)
      then ''Outbound action timeline limit must be between 1 and 100''
      else ''created_after must not be later than created_before'')"

definition list_outbound_action_timeline ::
  "api_env \<Rightarrow> workspace \<Rightarrow> uuid \<Rightarrow> uuid \<Rightarrow> timeline_category option \<Rightarrow> timeline_event option \<Rightarrow> datetime option
   \<Rightarrow> datetime option \<Rightarrow> int \<Rightarrow> db \<Rightarrow> error + timeline_entry list" where
  "list_outbound_action_timeline x ws account_id action_id category event after before limit d =
     catchingE (map_of [account_clause, action_clause, (ValueError, 422, timeline_detail limit)])
       (timeline (xe_uuid_str x) ws account_id action_id category event after before limit d)"

definition validate_outbound_action_transition ::
  "workspace \<Rightarrow> uuid \<Rightarrow> uuid \<Rightarrow> action_status \<Rightarrow> db \<Rightarrow> error + transition_validation" where
  "validate_outbound_action_transition ws account_id action_id target d =
     catchingE (map_of [account_clause, action_clause]) (validate_transition ws account_id action_id target d)"

definition get_outbound_integration_delivery_status ::
  "integration_settings \<Rightarrow> workspace \<Rightarrow> uuid \<Rightarrow> uuid \<Rightarrow> clock \<Rightarrow> db \<Rightarrow> error + delivery_status_read" where
  "get_outbound_integration_delivery_status st ws account_id action_id clk d =
     bindE (settings_retry_policy st) (\<lambda>pol.
     bindE (settings_delay_policy st) (\<lambda>dpol.
     renderingE render_delivery_status (catchingE (map_of [account_clause, action_clause])
       (get_status_for_action pol dpol ws account_id action_id (clk 0) d))))"

definition list_outbound_integration_delivery_attempts ::
  "workspace \<Rightarrow> uuid \<Rightarrow> uuid \<Rightarrow> action_status option \<Rightarrow> datetime option \<Rightarrow> datetime option \<Rightarrow> bool \<Rightarrow> int \<Rightarrow> db
   \<Rightarrow> error + delivery_attempt_read list" where
  "list_outbound_integration_delivery_attempts ws account_id action_id st after before newest_first limit d =
     renderingE (map render_attempt) (catchingE (map_of [account_clause, action_clause,
         (OutboundE OutboundDeliveryAttemptQueryValidationError, 422,
            ''started_after must be earlier than or equal to started_before'')])
       (list_attempts_for_action ws account_id action_id st after before newest_first limit d))"

end
