(* ===== verification/Integration_Api.thy ===== *)
theory Integration_Api
  imports Integration_Routes
begin

text \<open>
  The integration API as one function of a request: the dependencies (bearer, workspace, permission
  of app/api/dependencies.py), then the field constraints, then the route. One constructor per
  endpoint of app/api/routes/integrations.py, except the inbound-event endpoint, which
  authenticates differently (Sales_Turn). \<open>None\<close> means that the request does not return, which only
  the search for an unused credential can do.
\<close>

section \<open>Requests and answers\<close>

datatype api_request =
    RqListOutboundAudit "audit_action option" "uuid option" "uuid option" "datetime option" "datetime option" int
  | RqProvisionAccount string "string option" string
  | RqListAccounts
  | RqOperationalSummary
  | RqAiUsageSummary
  | RqListAiUsage
  | RqAccountHealth uuid
  | RqRuntimeReadiness uuid
  | RqListAccountAudit uuid "account_audit_action option" "datetime option" "datetime option" int
  | RqListWorkspaceAudit "account_audit_action option" "datetime option" "datetime option" int
  | RqCleanupAudit
  | RqDeactivate uuid
  | RqReactivate uuid
  | RqRotateCredential uuid
  | RqUpdateSecretReference uuid string
  | RqCreateAction uuid action_input string
  | RqListActions action_filter int
  | RqCleanupActions
  | RqActionDetail uuid
  | RqCreateAnnotation uuid string
  | RqListAnnotations uuid int
  | RqAddLabel uuid string
  | RqListLabels uuid int
  | RqRemoveLabel uuid string
  | RqSetPriority uuid action_priority
  | RqSetOwnerReference uuid "string option"
  | RqArchive uuid
  | RqUnarchive uuid
  | RqDeliver uuid uuid
  | RqCancel uuid uuid
  | RqRetry uuid uuid
  | RqDeliveryReadiness uuid uuid
  | RqApprovalStatus uuid uuid
  | RqStateHistory uuid uuid int
  | RqTimeline uuid uuid "timeline_category option" "timeline_event option" "datetime option" "datetime option" int
  | RqValidateTransition uuid uuid action_status
  | RqDeliveryStatus uuid uuid
  | RqListAttempts uuid uuid "action_status option" "datetime option" "datetime option" bool int
  | RqTrace uuid

datatype api_answer =
    AnOutboundAudit "audit_event_read list"
  | AnCredential account_credential_read
  | AnAccounts "account_read list"
  | AnAccount account_read
  | AnOperationalSummary operational_summary
  | AnAiUsageSummary usage_summary
  | AnAiUsage "ai_usage_read list"
  | AnHealth account_health_read
  | AnRuntimeReadiness runtime_readiness_read
  | AnAccountAudit "account_audit_read list"
  | AnCleanup "nat \<times> datetime"
  | AnAction action_read
  | AnActions "action_summary_read list"
  | AnActionDetail action_detail_read
  | AnAnnotation annotation_read
  | AnAnnotations "annotation_read list"
  | AnLabel label_read
  | AnLabels "label_read list"
  | AnNothing
  | AnDeliveryReadiness readiness
  | AnApprovalStatus approval_status_view
  | AnStateHistory "state_history_entry list"
  | AnTimeline "timeline_entry list"
  | AnTransition transition_validation
  | AnDeliveryStatus delivery_status_read
  | AnAttempts "delivery_attempt_read list"
  | AnTrace trace_read

text \<open>The permission each endpoint declares, and whether it needs an active workspace.\<close>

fun request_permission :: "api_request \<Rightarrow> workspace_permission" where
  "request_permission (RqProvisionAccount _ _ _) = INTEGRATION_MANAGE"
| "request_permission RqCleanupAudit = INTEGRATION_MANAGE"
| "request_permission (RqDeactivate _) = INTEGRATION_MANAGE"
| "request_permission (RqReactivate _) = INTEGRATION_MANAGE"
| "request_permission (RqRotateCredential _) = INTEGRATION_MANAGE"
| "request_permission (RqUpdateSecretReference _ _) = INTEGRATION_MANAGE"
| "request_permission RqCleanupActions = INTEGRATION_MANAGE"
| "request_permission (RqCreateAction _ _ _) = OUTBOUND_ACTION_OPERATE"
| "request_permission (RqCreateAnnotation _ _) = OUTBOUND_ACTION_OPERATE"
| "request_permission (RqAddLabel _ _) = OUTBOUND_ACTION_OPERATE"
| "request_permission (RqRemoveLabel _ _) = OUTBOUND_ACTION_OPERATE"
| "request_permission (RqSetPriority _ _) = OUTBOUND_ACTION_OPERATE"
| "request_permission (RqSetOwnerReference _ _) = OUTBOUND_ACTION_OPERATE"
| "request_permission (RqArchive _) = OUTBOUND_ACTION_OPERATE"
| "request_permission (RqUnarchive _) = OUTBOUND_ACTION_OPERATE"
| "request_permission (RqDeliver _ _) = OUTBOUND_ACTION_OPERATE"
| "request_permission (RqCancel _ _) = OUTBOUND_ACTION_OPERATE"
| "request_permission (RqRetry _ _) = OUTBOUND_ACTION_OPERATE"
| "request_permission RqAiUsageSummary = AI_USAGE_READ"
| "request_permission RqListAiUsage = AI_USAGE_READ"
| "request_permission _ = INTEGRATION_READ"

fun request_needs_active :: "api_request \<Rightarrow> bool" where
  "request_needs_active (RqRuntimeReadiness _) = False"
| "request_needs_active _ = True"

definition request_validation_error :: error where
  "request_validation_error = HTTPException 422 []"

text \<open>The declared field constraints, answered 422; a creation request is also brought into the form its schema returns.\<close>

fun request_valid :: "api_request \<Rightarrow> error + api_request" where
  "request_valid (RqListOutboundAudit a b c d e n) =
     (if limit_valid MAX_OUTBOUND_AUDIT_EVENT_LIMIT n then Inr (RqListOutboundAudit a b c d e n) else Inl request_validation_error)"
| "request_valid (RqProvisionAccount p e s) =
     (if account_provision_valid p e s then Inr (RqProvisionAccount p e s) else Inl request_validation_error)"
| "request_valid (RqListAccountAudit k a b c n) =
     (if limit_valid MAX_AUDIT_EVENT_LIMIT n then Inr (RqListAccountAudit k a b c n) else Inl request_validation_error)"
| "request_valid (RqListWorkspaceAudit a b c n) =
     (if limit_valid MAX_AUDIT_EVENT_LIMIT n then Inr (RqListWorkspaceAudit a b c n) else Inl request_validation_error)"
| "request_valid (RqUpdateSecretReference k s) =
     (if secret_reference_update_valid s then Inr (RqUpdateSecretReference k s) else Inl request_validation_error)"
| "request_valid (RqCreateAction k i key) = 
     (case parse_action_create i key of
        Inl e \<Rightarrow> Inl (if e = ValueError then request_validation_error else e)
      | Inr j \<Rightarrow> Inr (RqCreateAction k j key))"
| "request_valid (RqListActions f n) =
     (if action_query_valid f \<and> limit_valid 100 n then Inr (RqListActions f n) else Inl request_validation_error)"
| "request_valid (RqCreateAnnotation k s) = (if annotation_create_valid s then Inr (RqCreateAnnotation k s) else Inl request_validation_error)"
| "request_valid (RqListAnnotations k n) = (if limit_valid 100 n then Inr (RqListAnnotations k n) else Inl request_validation_error)"
| "request_valid (RqAddLabel k s) = (if label_create_valid s then Inr (RqAddLabel k s) else Inl request_validation_error)"
| "request_valid (RqListLabels k n) =
     (if limit_valid (int MAX_OUTBOUND_ACTION_LABELS) n then Inr (RqListLabels k n) else Inl request_validation_error)"
| "request_valid (RqSetOwnerReference k s) =
     (if owner_reference_update_valid s then Inr (RqSetOwnerReference k s) else Inl request_validation_error)"
| "request_valid (RqStateHistory c k n) =
     (if limit_valid MAX_STATE_HISTORY_LIMIT n then Inr (RqStateHistory c k n) else Inl request_validation_error)"
| "request_valid (RqTimeline c k a b d e n) =
     (if limit_valid MAX_TIMELINE_LIMIT n then Inr (RqTimeline c k a b d e n) else Inl request_validation_error)"
| "request_valid (RqListAttempts c k a b d e n) =
     (if limit_valid 100 n then Inr (RqListAttempts c k a b d e n) else Inl request_validation_error)"
| "request_valid r = Inr r"

section \<open>Running a request\<close>

definition answering :: "('a \<Rightarrow> api_answer) \<Rightarrow> (error + 'a) \<times> db \<Rightarrow> ((error + api_answer) \<times> db) option" where
  "answering f r = Some (rendering f r)"

definition reading :: "('a \<Rightarrow> api_answer) \<Rightarrow> error + 'a \<Rightarrow> db \<Rightarrow> ((error + api_answer) \<times> db) option" where
  "reading f r d = Some (renderingE f r, d)"

fun run_request ::
  "api_env \<Rightarrow> integration_settings \<Rightarrow> workspace \<Rightarrow> clock \<Rightarrow> api_request \<Rightarrow> db
   \<Rightarrow> ((error + api_answer) \<times> db) option" where
  "run_request x st ws clk (RqListOutboundAudit a c k t0 t1 n) d =
     reading AnOutboundAudit (list_outbound_integration_audit_events ws a c k t0 t1 n d) d"
| "run_request x st ws clk (RqProvisionAccount p e s) d =
     map_option (rendering AnCredential) (provision_integration_account x ws p e s clk d)"
| "run_request x st ws clk RqListAccounts d = reading AnAccounts (Inr (list_integration_accounts ws d)) d"
| "run_request x st ws clk RqOperationalSummary d =
     reading AnOperationalSummary (get_integration_operational_summary st ws clk d) d"
| "run_request x st ws clk RqAiUsageSummary d =
     reading AnAiUsageSummary (Inr (get_workspace_ai_invocation_usage_summary ws d)) d"
| "run_request x st ws clk RqListAiUsage d = reading AnAiUsage (Inr (list_workspace_ai_invocation_usage ws d)) d"
| "run_request x st ws clk (RqAccountHealth c) d =
     reading AnHealth (get_integration_account_health st ws c clk d) d"
| "run_request x st ws clk (RqRuntimeReadiness c) d =
     reading AnRuntimeReadiness (get_integration_runtime_readiness x st ws c clk d) d"
| "run_request x st ws clk (RqListAccountAudit c a t0 t1 n) d =
     reading AnAccountAudit (list_integration_account_audit_events ws c a t0 t1 n d) d"
| "run_request x st ws clk (RqListWorkspaceAudit a t0 t1 n) d =
     reading AnAccountAudit (list_workspace_integration_account_audit_events ws a t0 t1 n d) d"
| "run_request x st ws clk RqCleanupAudit d =
     answering AnCleanup (cleanup_workspace_integration_account_audit_events st ws clk d)"
| "run_request x st ws clk (RqDeactivate c) d = answering AnAccount (deactivate_integration_account ws c clk d)"
| "run_request x st ws clk (RqReactivate c) d = answering AnAccount (reactivate_integration_account ws c clk d)"
| "run_request x st ws clk (RqRotateCredential c) d =
     map_option (rendering AnCredential) (rotate_integration_account_credential x ws c clk d)"
| "run_request x st ws clk (RqUpdateSecretReference c s) d =
     answering AnAccount (update_integration_account_secret_reference ws c s clk d)"
| "run_request x st ws clk (RqCreateAction c i key) d =
     answering AnAction (create_outbound_integration_action ws c i key clk d)"
| "run_request x st ws clk (RqListActions f n) d = reading AnActions (list_outbound_integration_actions ws f n d) d"
| "run_request x st ws clk RqCleanupActions d = answering AnCleanup (cleanup_expired_outbound_actions ws clk d)"
| "run_request x st ws clk (RqActionDetail k) d =
     reading AnActionDetail (get_outbound_integration_action_detail ws k d) d"
| "run_request x st ws clk (RqCreateAnnotation k s) d =
     answering AnAnnotation (create_outbound_action_annotation ws k s clk d)"
| "run_request x st ws clk (RqListAnnotations k n) d =
     reading AnAnnotations (list_outbound_action_annotations ws k n d) d"
| "run_request x st ws clk (RqAddLabel k s) d = answering AnLabel (add_outbound_action_label ws k s clk d)"
| "run_request x st ws clk (RqListLabels k n) d = reading AnLabels (list_outbound_action_labels ws k n d) d"
| "run_request x st ws clk (RqRemoveLabel k s) d =
     answering (\<lambda>_. AnNothing) (remove_outbound_action_label ws k s d)"
| "run_request x st ws clk (RqSetPriority k p) d =
     answering AnActionDetail (update_outbound_action_priority ws k p d)"
| "run_request x st ws clk (RqSetOwnerReference k s) d =
     answering AnActionDetail (update_outbound_action_owner_reference ws k s d)"
| "run_request x st ws clk (RqArchive k) d =
     answering AnActionDetail (archive_outbound_integration_action ws k clk d)"
| "run_request x st ws clk (RqUnarchive k) d =
     answering AnActionDetail (unarchive_outbound_integration_action ws k clk d)"
| "run_request x st ws clk (RqDeliver c k) d =
     answering AnAction (deliver_outbound_integration_action x st ws c k clk d)"
| "run_request x st ws clk (RqCancel c k) d =
     answering AnAction (cancel_outbound_integration_action ws c k clk d)"
| "run_request x st ws clk (RqRetry c k) d =
     answering AnAction (retry_failed_outbound_integration_action x st ws c k clk d)"
| "run_request x st ws clk (RqDeliveryReadiness c k) d =
     reading AnDeliveryReadiness (get_outbound_delivery_readiness x st ws c k clk d) d"
| "run_request x st ws clk (RqApprovalStatus c k) d =
     reading AnApprovalStatus (get_outbound_approval_status ws c k d) d"
| "run_request x st ws clk (RqStateHistory c k n) d =
     reading AnStateHistory (list_outbound_action_state_history ws c k n d) d"
| "run_request x st ws clk (RqTimeline c k cat ev t0 t1 n) d =
     reading AnTimeline (list_outbound_action_timeline x ws c k cat ev t0 t1 n d) d"
| "run_request x st ws clk (RqValidateTransition c k t) d =
     reading AnTransition (validate_outbound_action_transition ws c k t d) d"
| "run_request x st ws clk (RqDeliveryStatus c k) d =
     reading AnDeliveryStatus (get_outbound_integration_delivery_status st ws c k clk d) d"
| "run_request x st ws clk (RqListAttempts c k s t0 t1 newest n) d =
     reading AnAttempts (list_outbound_integration_delivery_attempts ws c k s t0 t1 newest n d) d"
| "run_request x st ws clk (RqTrace k) d = reading AnTrace (get_integration_execution_trace x ws k d) d"

record caller =
  ca_header :: bearer
  ca_slug :: string
  ca_now :: int

definition integration_api ::
  "jwt_decoder \<Rightarrow> (string \<Rightarrow> uuid option) \<Rightarrow> auth_settings \<Rightarrow> api_env \<Rightarrow> integration_settings \<Rightarrow> caller \<Rightarrow> clock
   \<Rightarrow> api_request \<Rightarrow> db \<Rightarrow> ((error + api_answer) \<times> db) option" where
  "integration_api deco uuid_parse auth x st c clk rq d =
     (case authorize deco uuid_parse auth (ca_now c) (ca_header c) (ca_slug c) (request_needs_active rq)
             (request_permission rq) d of
        Inl e \<Rightarrow> Some (Inl e, d)
      | Inr cx \<Rightarrow>
          (case request_valid rq of
             Inl e \<Rightarrow> Some (Inl e, d)
           | Inr rq' \<Rightarrow> run_request x st (cx_workspace cx) clk rq' d))"

end
