(* ===== verification/Integration_Api_Props.thy ===== *)
theory Integration_Api_Props
  imports Integration_Api Outbound_Steps
begin

text \<open>
  Properties of the integration API as a whole: which requests change the database at all, that
  every change stays in the workspace the caller was authorized for, that all requests together
  keep the invariants of accounts, outbound actions and labels, and how requests can fail.
\<close>

section \<open>Invariants under changes elsewhere\<close>

lemma accounts_inv_frame:
  "accounts_inv d \<Longrightarrow> accounts d' = accounts d \<Longrightarrow> account_audit d' = account_audit d \<Longrightarrow>
   next_id d \<le> next_id d' \<Longrightarrow> accounts_inv d'"
  by (force simp: accounts_inv_def)

lemma labels_inv_frame:
  "labels_inv d \<Longrightarrow> labels d' = labels d \<Longrightarrow> next_id d \<le> next_id d' \<Longrightarrow> labels_inv d'"
  by (force simp: labels_inv_def labels_of_def)

section \<open>What a request leaves of other workspaces\<close>

text \<open>
  The database without the rows that workspace \<open>w\<close> owns in the tables the integration API writes.
  Approval requests have no workspace column; they are compared on their own.
\<close>

definition others :: "uuid \<Rightarrow> db \<Rightarrow> db" where
  "others w d = d\<lparr>accounts := filter (\<lambda>x. ac_workspace_id x \<noteq> w) (accounts d),
     account_audit := filter (\<lambda>x. aa_workspace_id x \<noteq> w) (account_audit d),
     actions := filter (\<lambda>x. oa_workspace_id x \<noteq> w) (actions d),
     audit_events := filter (\<lambda>x. ae_workspace_id x \<noteq> w) (audit_events d),
     annotations := filter (\<lambda>x. an_workspace_id x \<noteq> w) (annotations d),
     labels := filter (\<lambda>x. lb_workspace_id x \<noteq> w) (labels d),
     attempts := filter (\<lambda>x. da_workspace_id x \<noteq> w) (attempts d),
     approvals := [], next_id := 0\<rparr>"

definition confined :: "uuid \<Rightarrow> db \<Rightarrow> db \<Rightarrow> bool" where
  "confined w d d' \<longleftrightarrow> others w d' = others w d \<and> (\<exists>new. approvals d' = approvals d @ new)"

lemma confined_refl [simp, intro]: "confined w d d"
  by (simp add: confined_def)

lemma confined_attempted:
  assumes att: "attempted a a' ats evs d d'" and inv: "outbound_inv d" and a: "a \<in> set (actions d)"
    and key: "action_key a' = action_key a" and w: "oa_workspace_id a = w"
    and ats: "\<forall>x \<in> set ats. da_workspace_id x = w"
  shows "confined w d d'"
proof -
  from att obtain es n where
    d': "d' = d\<lparr>actions := row_update oa_id a' (actions d), attempts := attempts d @ ats,
            audit_events := audit_events d @ es, next_id := n\<rparr>"
    and es: "\<forall>e \<in> set es. ae_outbound_integration_action_id e = oa_id a \<and> event_scoped a e"
    unfolding attempted_def by blast
  have "filter (\<lambda>x. oa_workspace_id x \<noteq> w) (row_update oa_id a' (actions d))
      = filter (\<lambda>x. oa_workspace_id x \<noteq> w) (actions d)"
  proof (rule filter_row_update_other)
    show "\<not> oa_workspace_id a' \<noteq> w" using w action_key_fields [OF key] by simp
    fix x assume "x \<in> set (actions d)" "oa_id x = oa_id a'"
    with inv a action_key_fields [OF key] have "x = a"
      by (simp add: outbound_inv_def distinct_map inj_on_def)
    with w show "\<not> oa_workspace_id x \<noteq> w" by simp
  qed
  moreover have "filter (\<lambda>x. ae_workspace_id x \<noteq> w) es = []"
    using es w by (auto simp: filter_empty_conv event_scoped_def)
  moreover have "filter (\<lambda>x. da_workspace_id x \<noteq> w) ats = []"
    using ats by (simp add: filter_empty_conv)
  ultimately show ?thesis by (simp add: confined_def others_def d')
qed

section \<open>The requests that change outbound actions\<close>

inductive outbound_request :: "workspace \<Rightarrow> db \<Rightarrow> db \<Rightarrow> bool" for ws where
  or_create: "create_action ws acc i key clk d = (r, d') \<Longrightarrow> outbound_request ws d d'"
| or_deliver: "deliver_pending_action reg ws acc k clk d = (r, d') \<Longrightarrow> outbound_request ws d d'"
| or_retry: "retry_failed_action reg pol ws acc k clk d = (r, d') \<Longrightarrow> outbound_request ws d d'"
| or_cancel: "cancel_pending_action ws acc k clk d = (r, d') \<Longrightarrow> outbound_request ws d d'"
| or_archive: "archive ws k clk d = (r', d') \<Longrightarrow> outbound_request ws d d'"
| or_unarchive: "unarchive ws k clk d = (r', d') \<Longrightarrow> outbound_request ws d d'"
| or_priority: "set_priority ws k p d = (r', d') \<Longrightarrow> outbound_request ws d d'"
| or_owner: "set_owner_reference ws k ref d = (r', d') \<Longrightarrow> outbound_request ws d d'"
| or_cleanup: "cleanup_expired_for_workspace ws cutoff d = (n, d') \<Longrightarrow> outbound_request ws d d'"

lemma outbound_request_step: "outbound_request ws d d' \<Longrightarrow> \<exists>pol. outbound_step pol d d'"
  by (cases rule: outbound_request.cases) (blast intro: outbound_step.intros)+

text \<open>The columns of an action that no request changes, its approval request among them.\<close>

definition action_refs where
  "action_refs a = (action_key a, oa_approval_request_id a)"

lemma action_refsD:
  "action_refs a' = action_refs a \<Longrightarrow> action_key a' = action_key a"
  "action_refs a' = action_refs a \<Longrightarrow> oa_approval_request_id a' = oa_approval_request_id a"
  by (simp_all add: action_refs_def)

lemma action_refs_simps [simp]:
  "action_refs (delivered_action r t a) = action_refs a" "action_refs (failed_action r t a) = action_refs a"
  "action_refs (a\<lparr>oa_status := s, oa_expired_at := t'\<rparr>) = action_refs a"
  "action_refs (a\<lparr>oa_status := s, oa_cancelled_at := t'\<rparr>) = action_refs a"
  by (simp_all add: action_refs_def action_key_def delivered_action_def failed_action_def)

definition saves_action :: "workspace \<Rightarrow> db \<Rightarrow> db \<Rightarrow> bool" where
  "saves_action ws d d' \<longleftrightarrow> d' = d \<or> (\<exists>a a' evs. a \<in> set (actions d) \<and> oa_workspace_id a = ws_id ws \<and>
     action_refs a' = action_refs a \<and> attempted a a' [] evs d d')"

lemma saves_action_refl [simp]: "saves_action ws d d"
  by (simp add: saves_action_def)

lemma operator_save:
  assumes "query_get_for_workspace ws k d = Inr (a, p)" and refs: "action_refs a' = action_refs a"
  shows "saves_action ws d (save_action a' d)" "saves_action ws d (audit_record a' ev t (save_action a' d))"
  using query_get_InrD [OF assms(1)] refs attempted_save
    attempted_status_change [OF action_refsD(1) [OF refs]]
  unfolding saves_action_def by blast+

lemma operator_saves:
  "archive ws k clk d = (r, d') \<Longrightarrow> saves_action ws d d'"
  "unarchive ws k clk d = (r, d') \<Longrightarrow> saves_action ws d d'"
  "set_priority ws k p d = (r, d') \<Longrightarrow> saves_action ws d d'"
  "set_owner_reference ws k ref d = (r, d') \<Longrightarrow> saves_action ws d d'"
  by (auto simp: archive_def unarchive_def set_priority_def set_owner_reference_def Let_def action_refs_def action_key_def
      split: sum.splits if_splits intro!: operator_save)

lemma status_change_form:
  "action_refs a' = action_refs a \<Longrightarrow> d' = audit_record a' ev t (save_action a' d) \<Longrightarrow> attempted a a' [] [ev] d d'"
  using attempted_status_change [OF action_refsD(1)] by simp

lemma outbound_request_cases:
  assumes "outbound_request ws d d'" and inv: "outbound_inv d"
  obtains (same) "d' = d"
  | (changed) a a' ats evs where "a \<in> set (actions d)" "oa_workspace_id a = ws_id ws"
      "action_refs a' = action_refs a" "\<forall>x \<in> set ats. da_workspace_id x = ws_id ws"
      "attempted a a' ats evs d d'"
  | (removed) P where "\<And>a. \<not> P a \<Longrightarrow> oa_workspace_id a = ws_id ws" "d' = d\<lparr>actions := filter P (actions d)\<rparr>"
  | (created) account a aps e n where "oa_workspace_id a = ws_id ws" "ae_workspace_id e = ws_id ws" "next_id d \<le> n"
      "get_for_workspace ws (oa_integration_account_id a) d = Inr account"
      "oa_approval_request_id a = None \<and> aps = [] \<or> (\<exists>p. aps = [p] \<and> oa_approval_request_id a = Some (ap_id p) \<and>
         next_id d \<le> ap_id p \<and> ap_id p < n \<and> ap_lead_id p = None)"
      "d' = d\<lparr>actions := actions d @ [a], approvals := approvals d @ aps,
              audit_events := audit_events d @ [e], next_id := n\<rparr>"
proof -
  have saved: thesis if "saves_action ws d d'"
    using that unfolding saves_action_def
    by (elim disjE exE conjE) (rule same, assumption, rule changed [where ats = "[]"], simp_all)
  show thesis
    using assms(1)
  proof cases
    case (or_create acc i key clk r)
    from or_create inv show thesis
    proof (cases rule: create_action_cases)
      case 1: same
      then show thesis by (rule same)
    next
      case 2: (created account a aps e n)
      from 2(1,5) have a: "oa_workspace_id a = ws_id ws" "oa_id a = next_id d" "oa_integration_account_id a = acc"
        by (auto simp: new_action_def dest!: get_for_workspace_InrD)
      have p: "oa_approval_request_id a = None \<and> aps = [] \<or> (\<exists>p. aps = [p] \<and> oa_approval_request_id a = Some (ap_id p) \<and>
         next_id d \<le> ap_id p \<and> ap_id p < n \<and> ap_lead_id p = None)"
        using 2(5,6,11,12) by (cases "in_requires_approval i") auto
      from a p 2(1,8,9,10,11) show thesis
        by (intro created [of a e n account aps]) (simp_all add: event_scoped_def)
    qed
  next
    case (or_deliver reg acc k clk r)
    then show thesis
    proof (cases rule: deliver_pending_cases)
      case 1: same
      then show thesis by (rule same)
    next
      case 2: (expired a)
      have key: "action_refs (a\<lparr>oa_status := EXPIRED, oa_expired_at := t\<rparr>) = action_refs a" for t
        by simp
      show thesis
        by (rule changed [OF 2(1,5) key _ status_change_form [OF key 2(4)]]) simp
    next
      case 3: (attempted a account r')
      from deliver_action_effect [of a d reg account clk] 3(3,5) inv
      obtain a' att where a': "a' = (if ar_delivered (run_adapter reg a account)
          then delivered_action (run_adapter reg a account) (clk 7) a
          else failed_action (run_adapter reg a account) (clk 7) a)"
        and "da_workspace_id att = oa_workspace_id a"
        and "attempted a a' [att] [AU_DELIVERY_ATTEMPTED, outcome_event (oa_status a')] d d'"
        by (auto simp: outbound_inv_def)
      then show thesis by (intro changed [of a a' "[att]"]) (simp_all add: 3)
    qed
  next
    case (or_retry reg pol acc k clk r)
    then show thesis
    proof (cases rule: retry_cases)
      case 1: same
      then show thesis by (rule same)
    next
      case 2: (attempted a account r' el)
      from retry_deliver_effect [OF inv 2(1,3,6)] obtain a' att where
        "action_refs a' = action_refs a" "da_workspace_id att = oa_workspace_id a"
        "attempted a a' [att] [AU_RETRIED, AU_DELIVERY_ATTEMPTED, outcome_event (oa_status a')] d d'"
        by (metis action_refs_simps(1,2))
      then show thesis by (intro changed [of a a' "[att]"]) (simp_all add: 2)
    qed
  next
    case (or_cancel acc k clk r)
    then show thesis
    proof (cases rule: cancel_cases)
      case 1: same
      then show thesis by (rule same)
    next
      case 2: (cancelled a)
      have key: "action_refs (a\<lparr>oa_status := CANCELLED, oa_cancelled_at := t\<rparr>) = action_refs a" for t
        by simp
      show thesis
        by (rule changed [OF 2(1,5) key _ status_change_form [OF key 2(4)]]) simp
    qed
  next
    case (or_archive k clk r)
    then show thesis by (intro saved operator_saves)
  next
    case (or_unarchive k clk r)
    then show thesis by (intro saved operator_saves)
  next
    case (or_priority k p r)
    then show thesis by (intro saved operator_saves)
  next
    case (or_owner k ref r)
    then show thesis by (intro saved operator_saves)
  next
    case (or_cleanup cutoff n)
    then show thesis
      by (intro removed [of "\<lambda>a. \<not> cleanup_removable ws cutoff a"])
        (auto simp: cleanup_expired_for_workspace_def cleanup_removable_def)
  qed
qed

lemma outbound_request_confined:
  assumes "outbound_request ws d d'" and inv: "outbound_inv d"
  shows "confined (ws_id ws) d d'" and "accounts d' = accounts d" "account_audit d' = account_audit d"
    "labels d' = labels d" "next_id d \<le> next_id d'"
proof -
  have "confined (ws_id ws) d d' \<and> accounts d' = accounts d \<and> account_audit d' = account_audit d \<and>
      labels d' = labels d \<and> next_id d \<le> next_id d'"
    using assms
  proof (cases rule: outbound_request_cases)
    case (changed a a' ats evs)
    with confined_attempted [OF changed(5) inv changed(1) action_refsD(1) [OF changed(3)] changed(2,4)] show ?thesis by (auto simp: attempted_def)
  next
    case (removed P)
    have "filter (\<lambda>x. P x \<and> oa_workspace_id x \<noteq> ws_id ws) (actions d)
        = filter (\<lambda>x. oa_workspace_id x \<noteq> ws_id ws) (actions d)"
      using removed(1) by (intro filter_cong) auto
    then show ?thesis by (simp add: removed(2) confined_def others_def)
  next
    case (created account a aps e n)
    then show ?thesis by (auto simp: confined_def others_def)
  qed simp
  then show "confined (ws_id ws) d d'" "accounts d' = accounts d" "account_audit d' = account_audit d"
    "labels d' = labels d" "next_id d \<le> next_id d'" by simp_all
qed

section \<open>The requests that change labels and annotations\<close>

lemma add_label_confined: "add_label ws k s clk d = (r, d') \<Longrightarrow> confined (ws_id ws) d d'"
  by (erule add_label_cases) (simp_all add: confined_def others_def take_id_def)

lemma remove_label_confined:
  assumes r: "remove_label ws k s d = (r, d')" and inv: "labels_inv d"
  shows "confined (ws_id ws) d d'"
proof -
  have "d' = d \<or> (\<exists>t l. get_label ws k t d = Some l \<and>
      d' = d\<lparr>labels := filter (\<lambda>x. lb_id x \<noteq> lb_id l) (labels d)\<rparr>)"
    using r by (auto simp: remove_label_def split: sum.splits option.splits)
  then consider "d' = d" | t l where "get_label ws k t d = Some l"
      "d' = d\<lparr>labels := filter (\<lambda>x. lb_id x \<noteq> lb_id l) (labels d)\<rparr>" by blast
  then show ?thesis
  proof cases
    case 2
    then have l: "l \<in> set (labels d)" "lb_workspace_id l = ws_id ws"
      by (auto dest!: get_label_SomeD simp: labels_of_def)
    have "lb_workspace_id x = ws_id ws" if "x \<in> set (labels d)" "lb_id x = lb_id l" for x
      using that l inv inj_onD [of lb_id "set (labels d)" x l] by (simp add: labels_inv_def distinct_map)
    then have "filter (\<lambda>x. lb_id x \<noteq> lb_id l \<and> lb_workspace_id x \<noteq> ws_id ws) (labels d)
        = filter (\<lambda>x. lb_workspace_id x \<noteq> ws_id ws) (labels d)"
      by (intro filter_cong) auto
    then show ?thesis by (simp add: 2(2) confined_def others_def)
  qed simp
qed

lemma label_step_frame:
  assumes "label_step d d'"
  shows "accounts d' = accounts d \<and> account_audit d' = account_audit d \<and> actions d' = actions d \<and>
    approvals d' = approvals d \<and> attempts d' = attempts d \<and> audit_events d' = audit_events d \<and>
    next_id d \<le> next_id d'"
  using assms
proof (cases rule: label_step.cases)
  case (ls_add ws k raw clk r)
  then show ?thesis by (cases rule: add_label_cases) (simp_all add: take_id_def)
next
  case (ls_remove ws k raw r)
  then show ?thesis by (auto simp: remove_label_def split: sum.splits option.splits)
qed

inductive annotation_step :: "workspace \<Rightarrow> db \<Rightarrow> db \<Rightarrow> bool" for ws where
  an_create: "create_annotation ws k s clk d = (r, d') \<Longrightarrow> annotation_step ws d d'"

lemma annotation_step_frame:
  assumes "annotation_step ws d d'"
  shows "confined (ws_id ws) d d'" and "accounts d' = accounts d \<and> account_audit d' = account_audit d \<and>
    actions d' = actions d \<and> approvals d' = approvals d \<and> attempts d' = attempts d \<and>
    audit_events d' = audit_events d \<and> labels d' = labels d \<and> next_id d \<le> next_id d'"
  using assms
  by (auto elim!: annotation_step.cases simp: create_annotation_def Let_def take_id_def confined_def others_def
      split: sum.splits)

section \<open>Every request of the integration API\<close>

inductive workspace_request :: "workspace \<Rightarrow> db \<Rightarrow> db \<Rightarrow> bool" for ws where
  wr_account: "account_step (ws_id ws) d d' \<Longrightarrow> workspace_request ws d d'"
| wr_outbound: "outbound_request ws d d' \<Longrightarrow> workspace_request ws d d'"
| wr_add_label: "add_label ws k s clk d = (r, d') \<Longrightarrow> workspace_request ws d d'"
| wr_remove_label: "remove_label ws k s d = (r', d') \<Longrightarrow> workspace_request ws d d'"
| wr_annotation: "annotation_step ws d d' \<Longrightarrow> workspace_request ws d d'"

definition api_inv :: "db \<Rightarrow> bool" where
  "api_inv d \<longleftrightarrow> accounts_inv d \<and> outbound_inv d \<and> labels_inv d"

lemma account_step_confined:
  assumes step: "account_step w d d'" and inv: "accounts_inv d"
  shows "confined w d d'" and "actions d' = actions d" "approvals d' = approvals d" "attempts d' = attempts d"
    "audit_events d' = audit_events d" "labels d' = labels d" "next_id d \<le> next_id d'"
proof -
  from account_step_frame [OF step inv] obtain as es n where
    d': "d' = d\<lparr>accounts := as, account_audit := es, next_id := n\<rparr>" and n: "next_id d \<le> n"
    and rows: "\<And>P. \<not> P w \<Longrightarrow>
       filter (\<lambda>a. P (ac_workspace_id a)) as = filter (\<lambda>a. P (ac_workspace_id a)) (accounts d) \<and>
       filter (\<lambda>e. P (aa_workspace_id e)) es = filter (\<lambda>e. P (aa_workspace_id e)) (account_audit d)"
    by blast
  from rows [of "\<lambda>v. v \<noteq> w"] show "confined w d d'" by (simp add: d' confined_def others_def)
  show "actions d' = actions d" "approvals d' = approvals d" "attempts d' = attempts d"
    "audit_events d' = audit_events d" "labels d' = labels d" "next_id d \<le> next_id d'"
    using n by (simp_all add: d')
qed

lemma label_step_api_inv: "label_step d d' \<Longrightarrow> api_inv d \<Longrightarrow> api_inv d'"
  using label_step_frame [of d d'] lbl.step_inv [of d d'] accounts_inv_frame [of d d'] outbound_inv_frame [of d d']
  by (simp add: api_inv_def)

lemma workspace_request_inv:
  assumes req: "workspace_request ws d d'" and inv: "api_inv d"
  shows "api_inv d'" and "confined (ws_id ws) d d'"
proof -
  have "api_inv d' \<and> confined (ws_id ws) d d'"
    using req
  proof cases
    case wr_account
    with inv account_step_confined [OF wr_account] show ?thesis
      by (auto simp: api_inv_def intro: account_step_inv outbound_inv_frame [of d] labels_inv_frame [of d])
  next
    case wr_outbound
    with inv outbound_request_confined [OF wr_outbound] show ?thesis
      by (auto simp: api_inv_def dest!: outbound_request_step
          intro: outbound_step_inv accounts_inv_frame [of d] labels_inv_frame [of d])
  next
    case (wr_add_label k s clk r)
    with inv label_step_api_inv [OF ls_add] show ?thesis by (blast intro: add_label_confined)
  next
    case (wr_remove_label k s r')
    with inv label_step_api_inv [OF ls_remove] show ?thesis
      by (auto simp: api_inv_def intro: remove_label_confined)
  next
    case wr_annotation
    with inv annotation_step_frame [OF wr_annotation] show ?thesis
      by (auto simp: api_inv_def intro: accounts_inv_frame [of d] outbound_inv_frame [of d] labels_inv_frame [of d])
  qed
  then show "api_inv d'" "confined (ws_id ws) d d'" by simp_all
qed

lemma snd_rendering [simp]: "snd (rendering f r) = snd r"
  by (simp add: rendering_def split: prod.splits sum.splits)

lemma rendering_Pair: "rendering f r = (a, d) \<Longrightarrow> snd r = d"
  by (metis snd_rendering snd_conv)

lemma snd_catching [simp]: "snd (catching c r) = snd r"
  by (simp add: catching_def split: prod.splits sum.splits)

lemma snd_with_provider [simp]: "snd (with_provider ws k r) = snd r"
  by (simp add: with_provider_def split: prod.splits sum.splits)

lemma account_requests:
  "workspace_request ws d (snd (deactivate ws c clk d))"
  "workspace_request ws d (snd (reactivate ws c clk d))"
  "workspace_request ws d (snd (update_secret_reference ws c s clk d))"
  "workspace_request ws d (snd (cleanup_for_workspace ws n now b d))"
  "provision sha tokens ws p e s clk d = Some z \<Longrightarrow> workspace_request ws d (snd z)"
  "rotate_credential sha tokens ws c clk d = Some z' \<Longrightarrow> workspace_request ws d (snd z')"
  by (metis wr_account account_step.intros prod.collapse)+

lemma outbound_requests:
  "workspace_request ws d (snd (create_action ws c i key clk d))"
  "workspace_request ws d (snd (deliver_pending_action reg ws c k clk d))"
  "workspace_request ws d (snd (retry_failed_action reg pol ws c k clk d))"
  "workspace_request ws d (snd (cancel_pending_action ws c k clk d))"
  "workspace_request ws d (snd (archive ws k clk d))"
  "workspace_request ws d (snd (unarchive ws k clk d))"
  "workspace_request ws d (snd (set_priority ws k p d))"
  "workspace_request ws d (snd (set_owner_reference ws k s d))"
  "workspace_request ws d (snd (cleanup_expired_for_workspace ws cutoff d))"
  "workspace_request ws d (snd (add_label ws k l clk d))"
  "workspace_request ws d (snd (remove_label ws k l d))"
  "workspace_request ws d (snd (create_annotation ws k l clk d))"
  by (metis wr_outbound outbound_request.intros prod.collapse)+
    (metis workspace_request.intros annotation_step.intros prod.collapse)+

lemmas route_defs = provision_integration_account_def deactivate_integration_account_def
  reactivate_integration_account_def rotate_integration_account_credential_def
  update_integration_account_secret_reference_def cleanup_workspace_integration_account_audit_events_def
  create_outbound_integration_action_def cleanup_expired_outbound_actions_def
  create_outbound_action_annotation_def add_outbound_action_label_def remove_outbound_action_label_def
  update_outbound_action_priority_def update_outbound_action_owner_reference_def
  archive_outbound_integration_action_def unarchive_outbound_integration_action_def
  deliver_outbound_integration_action_def cancel_outbound_integration_action_def
  retry_failed_outbound_integration_action_def

lemma run_request_changes:
  assumes "run_request x st ws clk rq d = Some y"
  shows "snd y = d \<or>
    request_permission rq \<in> {INTEGRATION_MANAGE, OUTBOUND_ACTION_OPERATE} \<and> workspace_request ws d (snd y)"
  using assms
  by (cases rq)
    (auto simp: reading_def answering_def route_defs account_requests outbound_requests split: sum.splits
      dest!: rendering_Pair dest: account_requests(5,6))

lemma request_valid_same:
  "request_valid rq = Inr rq' \<Longrightarrow> request_permission rq' = request_permission rq"
  by (cases rq) (auto split: if_splits sum.splits)

lemma integration_api_changes:
  assumes "integration_api deco up auth x st c clk rq d = Some (ans, d')"
  obtains (same) "d' = d"
  | (changed) cx where
      "authorize deco up auth (ca_now c) (ca_header c) (ca_slug c) (request_needs_active rq)
         (request_permission rq) d = Inr cx"
      "request_permission rq \<in> {INTEGRATION_MANAGE, OUTBOUND_ACTION_OPERATE}"
      "workspace_request (cx_workspace cx) d d'"
proof (cases "authorize deco up auth (ca_now c) (ca_header c) (ca_slug c) (request_needs_active rq)
    (request_permission rq) d")
  case (Inl e)
  with assms same show thesis by (simp add: integration_api_def)
next
  case cx: (Inr cx)
  show thesis
  proof (cases "request_valid rq")
    case (Inl e)
    with assms cx same show thesis by (simp add: integration_api_def)
  next
    case (Inr rq')
    with assms cx have "run_request x st (cx_workspace cx) clk rq' d = Some (ans, d')"
      by (simp add: integration_api_def)
    from run_request_changes [OF this] request_valid_same [OF Inr] cx show thesis
      by (auto intro: same changed)
  qed
qed

section \<open>Properties\<close>

text \<open>C6: A request changes the database only when its caller is an active owner or administrator of an
  active workspace: members can neither change nor read integrations, and a read, a refused or an
  invalid request leaves every table as it was.\<close>

theorem only_operators_change:
  assumes run: "integration_api deco up auth x st c clk rq d = Some (ans, d')" and change: "d' \<noteq> d"
  shows "\<exists>cx. authorize deco up auth (ca_now c) (ca_header c) (ca_slug c) True (request_permission rq) d = Inr cx \<and>
    ws_active (cx_workspace cx) \<and> ws_slug (cx_workspace cx) = py_lower (py_strip (ca_slug c)) \<and>
    cx_membership cx \<in> set (members d) \<and> wm_active (cx_membership cx) \<and>
    wm_workspace_id (cx_membership cx) = ws_id (cx_workspace cx) \<and>
    wm_role (cx_membership cx) \<in> {OWNER, ADMIN} \<and>
    request_permission rq \<in> {INTEGRATION_MANAGE, OUTBOUND_ACTION_OPERATE}"
  using run
proof (cases rule: integration_api_changes)
  case same
  with change show ?thesis by simp
next
  case (changed cx)
  have act: "request_needs_active rq" using changed(2) by (cases rq) simp_all
  with changed(1) have auth: "authorize deco up auth (ca_now c) (ca_header c) (ca_slug c) True
      (request_permission rq) d = Inr cx" by simp
  from auth obtain scheme token where
    cx: "resolve_workspace_context (cx_principal cx) (ca_slug c) True d = Inr cx"
    and perm: "request_permission rq \<in> set (ROLE_PERMISSIONS (wm_role (cx_membership cx)))"
    by (rule authorize_InrD)
  note r = resolve_workspace_context_InrD [OF cx]
  have "cx_membership cx \<in> set (members d) \<and> wm_active (cx_membership cx) \<and>
      wm_workspace_id (cx_membership cx) = ws_id (cx_workspace cx)"
    using r(3) by (auto simp: resolve_active_membership_Inr_iff find_membership_def find_Some_iff)
  moreover have "wm_role (cx_membership cx) \<in> {OWNER, ADMIN}"
    using perm changed(2) by (cases "wm_role (cx_membership cx)") (auto simp: MEMBER_PERMISSIONS_def)
  ultimately show ?thesis
    using auth r(4) get_workspace_by_slug_InrD [OF r(2)] changed(2) by auto
qed

text \<open>What belongs to one workspace in the tables of the integration API.\<close>

definition tenant where
  "tenant v (d :: db) = (filter (\<lambda>x. ac_workspace_id x = v) (accounts d),
     filter (\<lambda>x. aa_workspace_id x = v) (account_audit d), filter (\<lambda>x. oa_workspace_id x = v) (actions d),
     filter (\<lambda>x. ae_workspace_id x = v) (audit_events d), filter (\<lambda>x. an_workspace_id x = v) (annotations d),
     filter (\<lambda>x. lb_workspace_id x = v) (labels d), filter (\<lambda>x. da_workspace_id x = v) (attempts d))"

lemma filter_other_eq:
  "filter (\<lambda>x. f x \<noteq> w) xs = filter (\<lambda>x. f x \<noteq> w) ys \<Longrightarrow> v \<noteq> w \<Longrightarrow>
   filter (\<lambda>x. f x = v) xs = filter (\<lambda>x. f x = v) ys"
proof -
  have "filter (\<lambda>x. f x = v) zs = filter (\<lambda>x. f x = v) (filter (\<lambda>x. f x \<noteq> w) zs)" if "v \<noteq> w" for zs
    using that by (auto intro!: filter_cong)
  then show "filter (\<lambda>x. f x \<noteq> w) xs = filter (\<lambda>x. f x \<noteq> w) ys \<Longrightarrow> v \<noteq> w \<Longrightarrow> ?thesis" by metis
qed

lemma others_fields:
  assumes "others w d' = others w d"
  shows "filter (\<lambda>x. ac_workspace_id x \<noteq> w) (accounts d') = filter (\<lambda>x. ac_workspace_id x \<noteq> w) (accounts d)"
    "filter (\<lambda>x. aa_workspace_id x \<noteq> w) (account_audit d') = filter (\<lambda>x. aa_workspace_id x \<noteq> w) (account_audit d)"
    "filter (\<lambda>x. oa_workspace_id x \<noteq> w) (actions d') = filter (\<lambda>x. oa_workspace_id x \<noteq> w) (actions d)"
    "filter (\<lambda>x. ae_workspace_id x \<noteq> w) (audit_events d') = filter (\<lambda>x. ae_workspace_id x \<noteq> w) (audit_events d)"
    "filter (\<lambda>x. an_workspace_id x \<noteq> w) (annotations d') = filter (\<lambda>x. an_workspace_id x \<noteq> w) (annotations d)"
    "filter (\<lambda>x. lb_workspace_id x \<noteq> w) (labels d') = filter (\<lambda>x. lb_workspace_id x \<noteq> w) (labels d)"
    "filter (\<lambda>x. da_workspace_id x \<noteq> w) (attempts d') = filter (\<lambda>x. da_workspace_id x \<noteq> w) (attempts d)"
    "workspaces d' = workspaces d" "members d' = members d" "users d' = users d"
  using arg_cong [OF assms, of accounts] arg_cong [OF assms, of account_audit] arg_cong [OF assms, of actions]
    arg_cong [OF assms, of audit_events] arg_cong [OF assms, of annotations] arg_cong [OF assms, of labels]
    arg_cong [OF assms, of attempts] arg_cong [OF assms, of workspaces] arg_cong [OF assms, of members]
    arg_cong [OF assms, of users]
  by (simp_all add: others_def)

lemma confined_tenant: "confined w d d' \<Longrightarrow> v \<noteq> w \<Longrightarrow> tenant v d' = tenant v d"
  using others_fields(1-7) [of w d' d] unfolding confined_def tenant_def
  by (auto intro: filter_other_eq)

text \<open>Any request, of anybody, that does not address the workspace \<open>v\<close>.\<close>

inductive api_step :: "uuid \<Rightarrow> db \<Rightarrow> db \<Rightarrow> bool" for v where
  "integration_api deco up auth x st c clk rq d = Some (ans, d') \<Longrightarrow>
   (\<And>w. get_workspace_by_slug (ca_slug c) d = Inr w \<Longrightarrow> ws_id w \<noteq> v) \<Longrightarrow> api_step v d d'"

lemma api_step_effect:
  assumes "api_step v d d'" and inv: "api_inv d"
  shows "api_inv d'" and "tenant v d' = tenant v d" and "\<exists>new. approvals d' = approvals d @ new"
proof -
  have "api_inv d' \<and> tenant v d' = tenant v d \<and> (\<exists>new. approvals d' = approvals d @ new)"
    using assms(1)
  proof cases
    case (1 deco up auth x st c clk rq ans)
    from 1(1) show ?thesis
    proof (cases rule: integration_api_changes)
      case same
      with inv show ?thesis by simp
    next
      case (changed cx)
      from changed(1) obtain scheme token where
        "resolve_workspace_context (cx_principal cx) (ca_slug c) (request_needs_active rq) d = Inr cx"
        by (rule authorize_InrD)
      from resolve_workspace_context_InrD(2) [OF this] 1(2) have "ws_id (cx_workspace cx) \<noteq> v" by blast
      with workspace_request_inv [OF changed(3) inv] show ?thesis
        by (auto intro: confined_tenant simp: confined_def)
    qed
  qed
  then show "api_inv d'" and "tenant v d' = tenant v d" and "\<exists>new. approvals d' = approvals d @ new" by simp_all
qed

interpretation apist: invariant_system "api_step v" api_inv for v
  by unfold_locales (rule api_step_effect(1))

text \<open>Tenants are isolated: after any number of integration requests that address other workspaces,
  by whoever, a workspace has exactly the accounts, audit events, actions, annotations, labels and
  delivery attempts it had, in the same order, and every approval request stands as it was.\<close>

theorem tenants_isolated:
  assumes "(api_step v)\<^sup>*\<^sup>* d d'" and "api_inv d"
  shows "tenant v d' = tenant v d \<and> (\<exists>new. approvals d' = approvals d @ new) \<and> api_inv d'"
proof -
  have "tenant v d' = tenant v d \<and> (\<exists>new. approvals d' = approvals d @ new)"
    by (rule apist.steps_keep [OF _ assms(1,2)]) (use api_step_effect in \<open>fastforce+\<close>)
  with apist.steps_inv [OF assms] show ?thesis by simp
qed

section \<open>Two tenants\<close>

text \<open>The owner of Acme deactivates its integration account; workspace 7 has one of its own.\<close>

definition two_tenants :: db where
  "two_tenants = sample_db\<lparr>accounts := [sample_account ''h'', (sample_account ''g'')\<lparr>ac_id := 10, ac_workspace_id := 7\<rparr>]\<rparr>"

definition sample_caller :: caller where
  "sample_caller = \<lparr>ca_header = Some (''Bearer'', sample_token), ca_slug = '' ACME'', ca_now = 5\<rparr>"

lemma authorize_frame:
  assumes "workspaces d' = workspaces d" "users d' = users d" "members d' = members d"
  shows "authorize deco up auth now header slug act perm d' = authorize deco up auth now header slug act perm d"
proof -
  have "get_workspace_by_slug slug d' = get_workspace_by_slug slug d"
    "resolve_active_membership p w d' = resolve_active_membership p w d"
    "resolve_principal_from_access_token deco up auth token now d' =
     resolve_principal_from_access_token deco up auth token now d" for p w token
    using assms
    by (simp_all add: get_workspace_by_slug_def workspace_by_slug_exact_def resolve_active_membership_def
        get_user_def stored_workspace_def get_user_row_def get_workspace_row_def find_membership_def
        resolve_principal_from_access_token_def resolve_active_principal_def cong: sum.case_cong option.case_cong if_cong)
  then show ?thesis
    by (simp add: authorize_def get_authenticated_principal_def resolve_workspace_context_def
        cong: option.case_cong if_cong)
qed

lemma two_tenants_inv: "api_inv two_tenants"
  by (simp add: api_inv_def accounts_inv_def outbound_inv_def approvals_inv_def labels_inv_def labels_of_def
      two_tenants_def sample_defs days_def)

lemma sample_deactivation:
  "\<exists>ans d'. integration_api plain_decode sample_parse sample_auth x st sample_caller (\<lambda>_. 0) (RqDeactivate 4) two_tenants
     = Some (Inr ans, d') \<and> accounts d' = [(sample_account ''h'')\<lparr>ac_active := False\<rparr>,
        (sample_account ''g'')\<lparr>ac_id := 10, ac_workspace_id := 7\<rparr>]"
proof -
  have "authorize plain_decode sample_parse sample_auth 5 (Some (''Bearer'', sample_token)) '' ACME'' True
     INTEGRATION_MANAGE two_tenants = Inr \<lparr>cx_principal = \<lparr>pl_user_id = 2, pl_active = True\<rparr>,
       cx_workspace = sample_ws, cx_membership = sample_member OWNER\<rparr>"
    using sample_authorized authorize_frame [of two_tenants sample_db] by (simp add: two_tenants_def)
  then show ?thesis
    by (simp add: integration_api_def sample_caller_def answering_def deactivate_integration_account_def
        deactivate_def get_for_workspace_def two_tenants_def sample_defs account_save_def Let_def
        account_audit_record_def save_defs row_simps rendering_def catching_def)
qed

theorem only_operators_change_witness:
  "\<exists>cx :: workspace_context. cx_membership cx \<in> set (members two_tenants) \<and> wm_role (cx_membership cx) \<in> {OWNER, ADMIN} \<and>
     wm_workspace_id (cx_membership cx) = ws_id (cx_workspace cx)"
proof -
  obtain ans d' where r: "integration_api plain_decode sample_parse sample_auth undefined undefined sample_caller
      (\<lambda>_. 0) (RqDeactivate 4) two_tenants = Some (Inr ans, d')"
    and a: "accounts d' = [(sample_account ''h'')\<lparr>ac_active := False\<rparr>,
        (sample_account ''g'')\<lparr>ac_id := 10, ac_workspace_id := 7\<rparr>]" using sample_deactivation by blast
  have "accounts d' \<noteq> accounts two_tenants" by (simp add: a two_tenants_def sample_account_def)
  then have "d' \<noteq> two_tenants" by blast
  from only_operators_change [OF r this] show ?thesis by blast
qed

theorem tenants_isolated_witness:
  "\<exists>d'. (api_step 7)\<^sup>*\<^sup>* two_tenants d' \<and> d' \<noteq> two_tenants \<and> tenant 7 d' = tenant 7 two_tenants"
proof -
  obtain ans d' where r: "integration_api plain_decode sample_parse sample_auth undefined undefined sample_caller
      (\<lambda>_. 0) (RqDeactivate 4) two_tenants = Some (Inr ans, d')"
    and a: "accounts d' = [(sample_account ''h'')\<lparr>ac_active := False\<rparr>,
        (sample_account ''g'')\<lparr>ac_id := 10, ac_workspace_id := 7\<rparr>]" using sample_deactivation by blast
  have "get_workspace_by_slug (ca_slug sample_caller) two_tenants = Inr sample_ws"
    by (simp add: sample_caller_def two_tenants_def get_workspace_by_slug_def workspace_by_slug_exact_def
        sample_slugs sample_defs)
  then have "api_step 7 two_tenants d'" by (intro api_step.intros [OF r]) (simp add: sample_ws_def)
  then have s: "(api_step 7)\<^sup>*\<^sup>* two_tenants d'" by blast
  have "accounts d' \<noteq> accounts two_tenants" by (simp add: a two_tenants_def sample_account_def)
  with s tenants_isolated [OF s two_tenants_inv] show ?thesis by blast
qed

end
