(* ===== verification/Integration_Failures.thy ===== *)
theory Integration_Failures
  imports Integration_Api_Props
begin

text \<open>
  How requests of the integration API fail: a refused request changes nothing, with one exception
  the code makes on purpose, and every failure is an HTTP answer or one of a few exceptions that no
  clause of the routes maps.
\<close>

section \<open>Failures change nothing\<close>

definition atomic :: "db \<Rightarrow> ('e + 'a) \<times> db \<Rightarrow> bool" where
  "atomic d r \<longleftrightarrow> (\<forall>e. fst r = Inl e \<longrightarrow> snd r = d)"

lemma atomic_rendering [simp]: "atomic d (rendering f r) = atomic d r"
  by (auto simp: atomic_def rendering_def split: prod.splits sum.splits)

lemma atomic_catching [simp]: "atomic d (catching c r) = atomic d r"
  by (auto simp: atomic_def catching_def split: prod.splits sum.splits)

lemma atomic_rendered: "rendering f r = y \<Longrightarrow> atomic d r \<Longrightarrow> atomic d y"
  using atomic_rendering by blast

lemma atomic_simps [simp]: "atomic d (Inl e, d') = (d' = d)" "atomic d (Inr x, d')" "atomic d (r, d)"
  by (auto simp: atomic_def)

lemma account_ops_atomic:
  "atomic d (deactivate ws c clk d)" "atomic d (reactivate ws c clk d)"
  "atomic d (update_secret_reference ws c s clk d)" "atomic d (cleanup_for_workspace ws n now b d)"
  "provision sha tokens ws p e s clk d = Some z \<Longrightarrow> atomic d z"
  "rotate_credential sha tokens ws c clk d = Some z' \<Longrightarrow> atomic d z'"
  by (auto simp: deactivate_def reactivate_def update_secret_reference_def cleanup_for_workspace_def
      provision_def rotate_credential_def account_save_def Let_def split: sum.splits option.splits prod.splits if_splits)

lemma outbound_ops_atomic:
  "atomic d (create_action ws c i key clk d)" "atomic d (retry_failed_action reg pol ws c k clk d)"
  "atomic d (cancel_pending_action ws c k clk d)" "atomic d (cleanup_expired_for_workspace ws cutoff d)"
  "atomic d (add_label ws k l clk d)" "atomic d (remove_label ws k l d)" "atomic d (create_annotation ws k l clk d)"
  by (auto simp: create_action_def retry_failed_action_def cancel_pending_action_def
      cleanup_expired_for_workspace_def add_label_def remove_label_def create_annotation_def
      require_transition_def record_transition_audit_def audit_event_for_transition_def Let_def
      split: sum.splits option.splits prod.splits if_splits)

text \<open>The row that was changed is still found when the route reads its provider.\<close>

lemma query_get_found:
  "(\<exists>x. query_get_for_workspace ws k d = Inr x) \<longleftrightarrow>
   (\<exists>a \<in> set (actions d). \<exists>c \<in> set (accounts d). ac_id c = oa_integration_account_id a \<and> oa_id a = k \<and>
      oa_workspace_id a = ws_id ws \<and> ac_workspace_id c = ws_id ws)"
proof -
  let ?P = "\<lambda>(a, c). oa_id a = k \<and> oa_workspace_id a = ws_id ws \<and> ac_workspace_id c = ws_id ws"
  have "(\<exists>x. query_get_for_workspace ws k d = Inr x) \<longleftrightarrow> find ?P (action_account_join d) \<noteq> None"
    by (auto simp: query_get_for_workspace_def split: option.splits)
  also have "\<dots> \<longleftrightarrow> (\<exists>a c. (a, c) \<in> set (action_account_join d) \<and> ?P (a, c))"
    by (force simp: find_None_iff)
  also have "\<dots> \<longleftrightarrow> (\<exists>a \<in> set (actions d). \<exists>c \<in> set (accounts d). ac_id c = oa_integration_account_id a \<and>
      oa_id a = k \<and> oa_workspace_id a = ws_id ws \<and> ac_workspace_id c = ws_id ws)"
    unfolding action_account_join_mem by blast
  finally show ?thesis .
qed

lemma query_get_saved:
  assumes "query_get_for_workspace ws k d = Inr (a, p)" and "action_key a' = action_key a"
  shows "\<exists>b q. query_get_for_workspace ws k (save_action a' d) = Inr (b, q)"
    "\<exists>b q. query_get_for_workspace ws k (audit_record a' ev t (save_action a' d)) = Inr (b, q)"
proof -
  from query_get_InrD [OF assms(1)] obtain c where a: "a \<in> set (actions d)" "oa_id a = k" "oa_workspace_id a = ws_id ws"
    and c: "c \<in> set (accounts d)" "ac_id c = oa_integration_account_id a" "ac_workspace_id c = ws_id ws" by blast
  from a action_key_fields [OF assms(2)] have "a' \<in> set (row_update oa_id a' (actions d))"
    unfolding row_update_def by (force simp: image_iff)
  with a c action_key_fields [OF assms(2)] have
    "\<exists>x. query_get_for_workspace ws k (save_action a' d) = Inr x"
    "\<exists>x. query_get_for_workspace ws k (audit_record a' ev t (save_action a' d)) = Inr x"
    unfolding query_get_found
    by (auto simp: save_action_def audit_record_def take_id_def intro!: bexI [of _ a'] bexI [of _ c])
  then show "\<exists>b q. query_get_for_workspace ws k (save_action a' d) = Inr (b, q)"
    "\<exists>b q. query_get_for_workspace ws k (audit_record a' ev t (save_action a' d)) = Inr (b, q)"
    by auto
qed

lemma atomic_with_provider:
  assumes "atomic d r" and "\<And>a. fst r = Inr a \<Longrightarrow> \<exists>b q. query_get_for_workspace ws k (snd r) = Inr (b, q)"
  shows "atomic d (with_provider ws k r)"
  using assms by (cases r; cases "fst r") (fastforce simp: with_provider_def atomic_def)+

lemma operator_ops_atomic:
  "atomic d (with_provider ws k (set_priority ws k p d))"
  "atomic d (with_provider ws k (set_owner_reference ws k s d))"
  "atomic d (with_provider ws k (archive ws k clk d))"
  "atomic d (with_provider ws k (unarchive ws k clk d))"
  by (rule atomic_with_provider;
      auto simp: set_priority_def set_owner_reference_def archive_def unarchive_def Let_def action_key_def
        split: sum.splits if_splits intro!: query_get_saved)+

text \<open>A delivery that finds its action expired is the exception: the change to \<open>EXPIRED\<close> is committed
  and the request refused.\<close>

lemma deliver_failure:
  assumes "deliver_pending_action reg ws acc k clk d = (Inl e, d')" and "d' \<noteq> d"
  shows "e = OutboundE OutboundIntegrationActionExpiredError \<and>
    (\<exists>a \<in> set (actions d). oa_id a = k \<and> oa_workspace_id a = ws_id ws \<and> oa_status a = PENDING \<and> is_expired a (clk 0) \<and>
       d' = audit_record (a\<lparr>oa_status := EXPIRED, oa_expired_at := Some (utc (clk 1))\<rparr>) AU_EXPIRED (clk 2)
         (save_action (a\<lparr>oa_status := EXPIRED, oa_expired_at := Some (utc (clk 1))\<rparr>) d))"
  using assms(1)
proof (cases rule: deliver_pending_cases)
  case same
  with assms(2) show ?thesis by simp
next
  case (expired a)
  then show ?thesis by blast
next
  case (attempted a account r')
  then show ?thesis by simp
qed

lemma run_request_failure:
  assumes run: "run_request x st ws clk rq d = Some (Inl e, d')" and change: "d' \<noteq> d"
  obtains acc k where "rq = RqDeliver acc k"
    "deliver_outbound_integration_action x st ws acc k clk d = (Inl e, d')"
proof -
  have "atomic d y" if "run_request x st ws clk rq d = Some y" "\<And>acc k. rq \<noteq> RqDeliver acc k" for y
    using that
    by (cases rq)
      (auto simp: reading_def answering_def route_defs account_ops_atomic outbound_ops_atomic operator_ops_atomic
        split: sum.splits dest: account_ops_atomic(5,6) elim!: atomic_rendered)
  from this [OF run] change obtain acc k where rq: "rq = RqDeliver acc k" by (auto simp: atomic_def)
  with run have "deliver_outbound_integration_action x st ws acc k clk d = (Inl e, d')"
    by (auto simp: answering_def rendering_def split: prod.splits sum.splits)
  with rq that show thesis by blast
qed

section \<open>What a failure can be\<close>

definition fails_with :: "error + 'a \<Rightarrow> error set \<Rightarrow> bool" where
  "fails_with r E \<longleftrightarrow> (\<forall>e. r = Inl e \<longrightarrow> e \<in> E)"

named_theorems failures

lemma fails_simps [simp]: "fails_with (Inr x) E" "fails_with (Inl e) E = (e \<in> E)"
  by (simp_all add: fails_with_def)

lemma fails_bindE [intro]: "fails_with r E \<Longrightarrow> (\<And>x. r = Inr x \<Longrightarrow> fails_with (f x) E) \<Longrightarrow> fails_with (bindE r f) E"
  by (cases r) simp_all

lemma fails_renderingE [simp]: "fails_with (renderingE f r) E = fails_with r E"
  by (cases r) (simp_all add: renderingE_def)

lemma fails_rendering [simp]: "fails_with (fst (rendering f r)) E = fails_with (fst r) E"
  by (auto simp: rendering_def split: prod.splits sum.splits)

lemma fails_mono: "fails_with r E \<Longrightarrow> E \<subseteq> F \<Longrightarrow> fails_with r F"
  by (auto simp: fails_with_def)

lemma fails_catchingE:
  "fails_with r E \<Longrightarrow> (\<And>e. e \<in> E \<Longrightarrow> answer_error c e \<in> F) \<Longrightarrow> fails_with (catchingE c r) F"
  by (auto simp: fails_with_def catchingE_def split: sum.splits)

lemma fails_catching:
  "fails_with (fst r) E \<Longrightarrow> (\<And>e. e \<in> E \<Longrightarrow> answer_error c e \<in> F) \<Longrightarrow> fails_with (fst (catching c r)) F"
  by (auto simp: fails_with_def catching_def split: prod.splits sum.splits)

text \<open>The exceptions of each service operation.\<close>

lemma fails_lookup [failures]:
  "fails_with (get_for_workspace ws k d) {AccountE IntegrationAccountNotFoundError}"
  "fails_with (get_action_for_account ws acc k d) {OutboundE OutboundIntegrationActionNotFoundError}"
  "fails_with (query_get_for_workspace ws k d) {OperatorE OutboundIntegrationActionQueryNotFoundError}"
  "fails_with (label_normalize s) {OperatorE OutboundActionLabelValidationError}"
  "fails_with (owner_normalize own) {OperatorE OutboundActionOwnerReferenceValidationError}"
  "fails_with (retention_policy n) {ValueError}"
  "fails_with (validate_range err a b) {err, TypeError}"
  by (auto simp: get_for_workspace_def get_action_for_account_def query_get_for_workspace_def
      label_normalize_def owner_normalize_def retention_policy_def validate_range_def Let_def
      split: option.splits prod.splits)

lemma fails_map_res: "(\<And>x. fails_with (f x) E) \<Longrightarrow> fails_with (map_res f xs) E"
  by (induction xs) (auto intro!: fails_bindE)

lemma fails_filter_res: "(\<And>x. fails_with (f x) E) \<Longrightarrow> fails_with (filter_res f xs) E"
  by (induction xs) (auto intro!: fails_bindE)

text \<open>A reading is outside the calendar once it is brought to UTC.\<close>

lemma fails_as_utc [failures]:
  "fails_with (checked_as_utc t) {OverflowError}" "fails_with (optional_as_utc v) {OverflowError}"
  "fails_with (explanation_for a code next) {OverflowError}" "fails_with (in_time_range t t0 t1) {OverflowError}"
proof -
  show utc: "fails_with (checked_as_utc t) {OverflowError}" for t
    by (simp add: checked_as_utc_def split: option.split)
  show opt: "fails_with (optional_as_utc v) {OverflowError}" for v
    by (auto simp: optional_as_utc_def utc split: option.split intro!: fails_bindE)
  show "fails_with (explanation_for a code next) {OverflowError}"
    unfolding explanation_for_def by (intro fails_bindE opt) simp
  show "fails_with (in_time_range t t0 t1) {OverflowError}"
    by (auto simp: in_time_range_def utc split: option.split intro!: fails_bindE)
qed

lemma fails_policies [failures]:
  "fails_with (retry_policy_from_settings m c k) {OutboundE OutboundDeliveryRetryPolicyConfigurationError}"
  "fails_with (make_delay_policy s a b) {OutboundE OutboundDeliveryRetryDelayPolicyConfigurationError}"
  "fails_with (retry_evaluate pol n code cl) {OutboundE OutboundDeliveryRetryPolicyConfigurationError}"
proof -
  have codes: "fails_with (normalize_failure_code v) {OutboundE OutboundDeliveryRetryPolicyConfigurationError}"
    "fails_with (normalize_failure_classification v) {OutboundE OutboundDeliveryRetryPolicyConfigurationError}" for v
    by (auto simp: normalize_failure_code_def normalize_failure_classification_def Let_def split: option.splits)
  show "fails_with (retry_policy_from_settings m c k) {OutboundE OutboundDeliveryRetryPolicyConfigurationError}"
    by (auto simp: retry_policy_from_settings_def make_retry_policy_def intro!: fails_bindE fails_map_res codes)
  show "fails_with (make_delay_policy s a b) {OutboundE OutboundDeliveryRetryDelayPolicyConfigurationError}"
    by (simp add: make_delay_policy_def)
  show "fails_with (retry_evaluate pol n code cl) {OutboundE OutboundDeliveryRetryPolicyConfigurationError}"
    by (cases code; cases cl) (auto simp: retry_evaluate_def normalize_failure_code_def Let_def)
qed

lemma fails_filters [failures]:
  "fails_with (account_audit_list ws c' a t0 t1 l d) {AccountE AuditQueryValidationError, TypeError}"
  "fails_with (audit_list_for_workspace ws a' c k' t0 t1 l d) {OutboundE OutboundAuditQueryValidationError, TypeError}"
  by (simp_all add: account_audit_list_def account_audit_validate_query_def audit_list_for_workspace_def
      audit_validate_query_def failures fails_bindE)

lemma fails_query_list [failures]:
  "fails_with (query_list_for_workspace ws f l d) {OperatorE OutboundActionQueryValidationError, TypeError}"
  unfolding query_list_for_workspace_def Let_def
  by (rule fails_bindE) (simp_all add: failures)

lemma fails_account_reads [failures]:
  "fails_with (health_for_account ws c n now d) {AccountE IntegrationAccountNotFoundError}"
  "fails_with (trace_for_workspace us ws k d) {OutboundE IntegrationExecutionTraceNotFoundError}"
  "fails_with (list_annotations ws k l d) {OperatorE OutboundIntegrationActionQueryNotFoundError}"
  "fails_with (list_labels ws k l d) {OperatorE OutboundIntegrationActionQueryNotFoundError}"
  by (simp_all add: health_for_account_def list_annotations_def list_labels_def Let_def failures fails_bindE
      trace_for_workspace_def split: option.split prod.split)

lemma fails_summary [failures]:
  "fails_with (summarize_operations pol ws n now d) {OutboundE OutboundDeliveryRetryPolicyConfigurationError}"
  by (simp add: summarize_operations_def failed_eligibilities_def Let_def failures fails_bindE fails_map_res)

lemmas failing = failures [THEN fails_mono] fails_bindE

lemma fails_readiness [failures]:
  "fails_with (runtime_readiness_evaluate ok env rs reg ws c d) {AccountE IntegrationAccountNotFoundError, ValueError}"
proof -
  have "fails_with (webhook_configuration_blockers ok rs) {AccountE IntegrationAccountNotFoundError, ValueError}"
    by (auto simp: webhook_configuration_blockers_def urlparse_def parsed_netloc_def Let_def split: prod.split
        intro!: fails_bindE)
  then show ?thesis
    unfolding runtime_readiness_evaluate_def Let_def by (auto simp: failing intro!: fails_bindE)
qed

lemma fails_action_reads [failures]:
  "fails_with (validate_transition ws c k s d)
     {AccountE IntegrationAccountNotFoundError, OutboundE OutboundIntegrationActionNotFoundError}"
  "fails_with (approval_status_for_action ws c k d)
     {AccountE IntegrationAccountNotFoundError, OutboundE OutboundApprovalStatusNotFoundError}"
  "fails_with (list_attempts_for_action ws c k st t0 t1 newest l d)
     {AccountE IntegrationAccountNotFoundError, OutboundE OutboundIntegrationActionNotFoundError,
      OutboundE OutboundDeliveryAttemptQueryValidationError, TypeError}"
  by (auto simp: validate_transition_def approval_status_for_action_def approval_status_get_action_def
      list_attempts_for_action_def Let_def failing split: option.split sum.split intro!: fails_bindE)

lemma fails_unbounded:
  "fails_with (audit_list_for_workspace ws a c k None None 100 d) {}"
  by (simp add: audit_list_for_workspace_def audit_validate_query_def validate_range_def
      MAX_OUTBOUND_AUDIT_EVENT_LIMIT_def)

lemma fails_history [failures]:
  "fails_with (state_history ws c k l d)
     {AccountE IntegrationAccountNotFoundError, OutboundE OutboundIntegrationActionNotFoundError, ValueError}"
  by (auto simp: state_history_def failing MAX_STATE_HISTORY_LIMIT_def fails_unbounded [THEN fails_mono] intro!: fails_bindE)

lemma fails_timeline [failures]:
  "fails_with (timeline us ws c k cat ev t0 t1 l d)
     {AccountE IntegrationAccountNotFoundError, OutboundE OutboundIntegrationActionNotFoundError, ValueError, OverflowError}"
proof -
  let ?E = "{AccountE IntegrationAccountNotFoundError, OutboundE OutboundIntegrationActionNotFoundError, ValueError, OverflowError}"
  have "fails_with (attempt_entries us ws c' k' d) ?E" for c' k'
    by (auto simp: attempt_entries_def list_attempts_for_action_def validate_range_def Let_def failing intro!: fails_bindE)
  moreover have "fails_with (timeline_validate_query t0 t1 l) ?E"
    by (auto simp: timeline_validate_query_def split: option.split intro!: fails_bindE fails_as_utc [THEN fails_mono])
  moreover have "fails_with (filter_res (\<lambda>(x, _, _).
      if (cat = None \<or> Some (tl_category x) = cat) \<and> (ev = None \<or> Some (tl_event x) = ev)
      then in_time_range (tl_created_at x) t0 t1 else Inr False) es) ?E" for es :: "keyed_entry list"
    by (rule fails_filter_res) (simp add: fails_as_utc [THEN fails_mono] split: prod.split)
  ultimately show ?thesis
    by (auto simp: timeline_def audit_entries_def MAX_TIMELINE_LIMIT_def Let_def failing
        fails_unbounded [THEN fails_mono] intro!: fails_bindE)
qed

lemma fails_status [failures]:
  "fails_with (get_status_for_action pol dpol ws c k now d)
     {AccountE IntegrationAccountNotFoundError, OutboundE OutboundIntegrationActionNotFoundError,
      OutboundE OutboundDeliveryRetryPolicyConfigurationError}"
  by (auto simp: get_status_for_action_def retry_evaluate_action_def Let_def failing intro!: fails_bindE)

lemma fails_delivery_readiness [failures]:
  "fails_with (readiness_evaluate reg pol dpol ws c k clk d)
     {AccountE IntegrationAccountNotFoundError, OutboundE OutboundIntegrationActionNotFoundError,
      OutboundE OutboundDeliveryRetryPolicyConfigurationError, OverflowError}"
  unfolding readiness_evaluate_def Let_def
  by (intro fails_bindE fails_status [THEN fails_mono] fails_map_res fails_as_utc(3) [THEN fails_mono]) auto

text \<open>The operations that write.\<close>

lemma fails_InlD: "fails_with r E \<Longrightarrow> r = Inl e \<Longrightarrow> e \<in> E"
  by (simp add: fails_with_def)

lemma fails_account_ops [failures]:
  "fails_with (fst (deactivate ws c clk d)) {AccountE IntegrationAccountNotFoundError}"
  "fails_with (fst (reactivate ws c clk d)) {AccountE IntegrationAccountNotFoundError}"
  "fails_with (fst (update_secret_reference ws c s clk d))
     {AccountE IntegrationAccountNotFoundError, AccountE SecretReferenceValidationError}"
  "fails_with (fst (cleanup_for_workspace ws n now 100 d)) {}"
  "provision sha tokens ws p e s clk d = Some z \<Longrightarrow> fails_with (fst z) {AccountE SecretReferenceValidationError}"
  "rotate_credential sha tokens ws c clk d = Some z' \<Longrightarrow> fails_with (fst z') {AccountE IntegrationAccountNotFoundError}"
  by (auto simp: fails_with_def deactivate_def reactivate_def update_secret_reference_def cleanup_for_workspace_def
      provision_def rotate_credential_def account_save_def secret_validate_def Let_def
      split: sum.splits option.splits prod.splits if_splits
      dest: fails_InlD [OF fails_lookup(1)])

lemma fails_create [failures]:
  "fails_with (fst (create_action ws c i key clk d))
     {AccountE IntegrationAccountNotFoundError, OutboundE InactiveIntegrationAccountError,
      OutboundE OutboundIntegrationActionIdempotencyConflictError}"
  by (auto simp: fails_with_def create_action_def Let_def split: sum.splits option.splits prod.splits if_splits
      dest: fails_InlD [OF fails_lookup(1)])

lemma fails_operator [failures]:
  "fails_with (fst (cleanup_expired_for_workspace ws cutoff d)) {}"
  "fails_with (fst (create_annotation ws k s clk d)) {OperatorE OutboundIntegrationActionQueryNotFoundError}"
  "fails_with (fst (add_label ws k s clk d))
     {OperatorE OutboundIntegrationActionQueryNotFoundError, OperatorE OutboundActionLabelValidationError}"
  "fails_with (fst (remove_label ws k s d))
     {OperatorE OutboundIntegrationActionQueryNotFoundError, OperatorE OutboundActionLabelValidationError,
      OperatorE OutboundActionLabelNotFoundError}"
  by (auto simp: fails_with_def cleanup_expired_for_workspace_def create_annotation_def add_label_def
      remove_label_def Let_def bindE_Inl_iff split: sum.splits option.splits prod.splits if_splits
      dest: fails_InlD [OF fails_lookup(3)] fails_InlD [OF fails_lookup(4)])

lemma fails_with_provider:
  "fails_with (fst r) E \<Longrightarrow> OperatorE OutboundIntegrationActionQueryNotFoundError \<in> E \<Longrightarrow>
   fails_with (fst (with_provider ws k r)) E"
  by (auto simp: with_provider_def failing split: prod.split sum.split)

lemma fails_operator_columns [failures]:
  "fails_with (fst (set_priority ws k p d)) {OperatorE OutboundIntegrationActionQueryNotFoundError}"
  "fails_with (fst (set_owner_reference ws k s d))
     {OperatorE OutboundIntegrationActionQueryNotFoundError, OperatorE OutboundActionOwnerReferenceValidationError}"
  "fails_with (fst (archive ws k clk d))
     {OperatorE OutboundIntegrationActionQueryNotFoundError, OperatorE OutboundIntegrationActionNotArchivableError,
      OperatorE OutboundIntegrationActionAlreadyArchivedError}"
  "fails_with (fst (unarchive ws k clk d))
     {OperatorE OutboundIntegrationActionQueryNotFoundError, OperatorE OutboundIntegrationActionNotArchivedError}"
  by (auto simp: fails_with_def set_priority_def set_owner_reference_def archive_def unarchive_def Let_def
      split: sum.splits option.splits prod.splits if_splits
      dest: fails_InlD [OF fails_lookup(3)] fails_InlD [OF fails_lookup(5)])

lemma fails_cancel [failures]:
  "fails_with (fst (cancel_pending_action ws c k clk d))
     {AccountE IntegrationAccountNotFoundError, OutboundE OutboundIntegrationActionNotFoundError,
      OutboundE OutboundIntegrationActionNotCancellableError}"
  by (auto simp: fails_with_def cancel_pending_action_def require_transition_def record_transition_audit_def
      audit_event_for_transition_def Let_def split: sum.splits if_splits
      dest: fails_InlD [OF fails_lookup(1)] fails_InlD [OF fails_lookup(2)])

lemma deliver_action_records:
  assumes "oa_status a = PENDING \<or> oa_status a = FAILED"
  shows "\<exists>r d'. deliver_action reg a acc clk d = Inr (r, d')"
proof -
  obtain att d1 where att: "new_attempt a (clk 5) d = (att, d1)" by fastforce
  obtain a' d' where "persist_outcome a att (run_adapter reg a acc) (clk 7) (clk 8)
      (audit_record a AU_DELIVERY_ATTEMPTED (clk 6) d1) = Inr (a', d')"
    using persist_outcome_form [OF assms] by blast
  with att show ?thesis by (simp add: deliver_action_def Let_def)
qed

lemma fails_deliver [failures]:
  "fails_with (fst (deliver_pending_action reg ws c k clk d))
     {AccountE IntegrationAccountNotFoundError, OutboundE OutboundIntegrationActionNotFoundError,
      OutboundE InactiveIntegrationAccountError, OutboundE OutboundIntegrationActionAlreadyProcessedError,
      OutboundE OutboundIntegrationActionExpiredError, OutboundE OutboundIntegrationActionNotReadyError,
      OutboundE OutboundDeliveryApprovalRequiredError, OutboundE OutboundDeliveryApprovalRejectedError}"
proof -
  have gate: "require_approved ws a d = Inl e \<Longrightarrow> e \<in>
      {OutboundE OutboundDeliveryApprovalRequiredError, OutboundE OutboundDeliveryApprovalRejectedError}" for a e
    by (auto simp: require_approved_def Let_def split: if_splits)
  have del: "oa_status a = PENDING \<Longrightarrow> deliver_action reg a acc clk d \<noteq> Inl e" for a acc e
    using deliver_action_records [of a reg acc clk d] by auto
  show ?thesis
    by (auto simp: fails_with_def deliver_pending_action_def require_transition_def record_transition_audit_def
        audit_event_for_transition_def require_pending_delivery_def Let_def del split: sum.splits if_splits
        dest: fails_InlD [OF fails_lookup(1)] fails_InlD [OF fails_lookup(2)] gate)
qed

lemma fails_retry:
  assumes "fst (retry_failed_action reg pol ws c k clk d) = Inl e"
  shows "(\<exists>reason. e = OutboundE (OutboundIntegrationActionRetryDeniedError reason)) \<or>
    e \<in> {AccountE IntegrationAccountNotFoundError, OutboundE OutboundIntegrationActionNotFoundError,
      OutboundE InactiveIntegrationAccountError, OutboundE OutboundIntegrationActionNotRetryableError,
      OutboundE OutboundDeliveryRetryPolicyConfigurationError}"
proof -
  have del: "oa_status a = FAILED \<Longrightarrow> deliver_action reg a acc clk d' \<noteq> Inl e" for a acc e d'
    using deliver_action_records [of a reg acc clk d'] by auto
  show ?thesis
    using assms
    by (auto simp: retry_failed_action_def require_retry_attempt_def del split: sum.splits if_splits prod.splits
        dest: fails_InlD [OF fails_lookup(1)] fails_InlD [OF fails_lookup(2)] fails_InlD [OF fails_policies(3)])
qed

text \<open>The exceptions of each endpoint that no clause maps, so that the framework answers 500.\<close>

fun unmapped :: "api_request \<Rightarrow> error set" where
  "unmapped (RqListOutboundAudit _ _ _ _ _ _) = {TypeError}"
| "unmapped (RqListAccountAudit _ _ _ _ _) = {TypeError}"
| "unmapped (RqListWorkspaceAudit _ _ _ _) = {TypeError}"
| "unmapped (RqListActions _ _) = {TypeError}"
| "unmapped (RqListAttempts _ _ _ _ _ _ _) = {TypeError}"
| "unmapped RqCleanupAudit = {ValueError}"
| "unmapped (RqRuntimeReadiness _) = {ValueError}"
| "unmapped RqOperationalSummary = {OutboundE OutboundDeliveryRetryPolicyConfigurationError}"
| "unmapped (RqRetry _ _) = {OutboundE OutboundDeliveryRetryPolicyConfigurationError}"
| "unmapped (RqCreateAction _ _ _) = {OverflowError}"
| "unmapped (RqTimeline _ _ _ _ _ _ _) = {OverflowError}"
| "unmapped (RqDeliveryReadiness _ _) = {OutboundE OutboundDeliveryRetryPolicyConfigurationError,
     OutboundE OutboundDeliveryRetryDelayPolicyConfigurationError, OverflowError}"
| "unmapped (RqDeliveryStatus _ _) = {OutboundE OutboundDeliveryRetryPolicyConfigurationError,
     OutboundE OutboundDeliveryRetryDelayPolicyConfigurationError}"
| "unmapped _ = {}"

definition http_errors :: "nat set \<Rightarrow> error set" where
  "http_errors codes = {HTTPException c detail | c detail. c \<in> codes}"

lemma http_errors_iff [simp]:
  "HTTPException c s \<in> http_errors codes \<longleftrightarrow> c \<in> codes"
  by (simp add: http_errors_def)

lemmas clause_defs = answer_error_def account_clause_def action_clause_def query_action_clause_def secret_clause_def

lemma fails_caughtE: "fails_with r E \<Longrightarrow> \<forall>e \<in> E. answer_error c e \<in> F \<Longrightarrow> fails_with (catchingE c r) F"
  by (rule fails_catchingE) auto

lemma fails_caught: "fails_with (fst r) E \<Longrightarrow> \<forall>e \<in> E. answer_error c e \<in> F \<Longrightarrow> fails_with (fst (catching c r)) F"
  by (rule fails_catching) auto

definition answers :: "error set \<Rightarrow> error set" where
  "answers E = http_errors {404, 409, 422} \<union> E"

lemma answers_iff [simp]: "e \<in> answers E \<longleftrightarrow> e \<in> http_errors {404, 409, 422} \<or> e \<in> E"
  by (simp add: answers_def)

text \<open>A route fails with what its clauses leave of the failures of its service.\<close>

lemmas caughtE = fails_lookup [THEN fails_caughtE] fails_filters [THEN fails_caughtE]
  fails_query_list [THEN fails_caughtE] fails_account_reads [THEN fails_caughtE] fails_readiness [THEN fails_caughtE]
  fails_action_reads [THEN fails_caughtE] fails_history [THEN fails_caughtE] fails_timeline [THEN fails_caughtE]
  fails_status [THEN fails_caughtE] fails_delivery_readiness [THEN fails_caughtE]

lemmas caught = fails_account_ops(1-4) [THEN fails_caught] fails_create [THEN fails_caught]
  fails_operator [THEN fails_caught] fails_cancel [THEN fails_caught] fails_deliver [THEN fails_caught]

lemma account_routes_fail:
  "fails_with (fst (deactivate_integration_account ws c clk d)) (answers {})"
  "fails_with (fst (reactivate_integration_account ws c clk d)) (answers {})"
  "fails_with (fst (update_integration_account_secret_reference ws c s clk d)) (answers {})"
  "fails_with (fst (cleanup_workspace_integration_account_audit_events st ws clk d)) (answers {ValueError})"
  "provision_integration_account x ws p e s clk d = Some z \<Longrightarrow> fails_with (fst z) (answers {})"
  "rotate_integration_account_credential x ws c clk d = Some z' \<Longrightarrow> fails_with (fst z') (answers {})"
proof -
  show "fails_with (fst (cleanup_workspace_integration_account_audit_events st ws clk d)) (answers {ValueError})"
    using fails_account_ops(4) [THEN fails_mono, of "answers {ValueError}"]
    by (auto simp: cleanup_workspace_integration_account_audit_events_def split: sum.split
        dest: fails_InlD [OF fails_lookup(6)])
  show "provision_integration_account x ws p e s clk d = Some z \<Longrightarrow> fails_with (fst z) (answers {})"
    by (auto simp: provision_integration_account_def clause_defs intro!: fails_caught [OF fails_account_ops(5)])
  show "rotate_integration_account_credential x ws c clk d = Some z' \<Longrightarrow> fails_with (fst z') (answers {})"
    by (auto simp: rotate_integration_account_credential_def clause_defs intro!: fails_caught [OF fails_account_ops(6)])
qed (simp_all add: deactivate_integration_account_def reactivate_integration_account_def
    update_integration_account_secret_reference_def clause_defs caught)

lemma read_routes_fail:
  "fails_with (get_integration_account_health st ws c clk d) (answers {})"
  "fails_with (get_integration_runtime_readiness x st ws c clk d) (answers {ValueError})"
  "fails_with (list_integration_account_audit_events ws c act t0 t1 l d) (answers {TypeError})"
  "fails_with (list_workspace_integration_account_audit_events ws act t0 t1 l d) (answers {TypeError})"
  "fails_with (get_integration_operational_summary st ws clk d)
     (answers {OutboundE OutboundDeliveryRetryPolicyConfigurationError})"
  "fails_with (list_outbound_integration_audit_events ws a' c' k' t0 t1 l d) (answers {TypeError})"
  "fails_with (get_integration_execution_trace x ws k d) (answers {})"
  by (simp_all add: get_integration_account_health_def get_integration_runtime_readiness_def
      list_integration_account_audit_events_def list_workspace_integration_account_audit_events_def
      get_integration_operational_summary_def list_outbound_integration_audit_events_def
      get_integration_execution_trace_def settings_retry_policy_def clause_defs caughtE fails_bindE
      fails_policies [THEN fails_mono] fails_summary [THEN fails_mono])

lemma action_routes_fail:
  "fails_with (fst (create_outbound_integration_action ws c i key clk d)) (answers {})"
  "fails_with (fst (cleanup_expired_outbound_actions ws clk d)) (answers {})"
  "fails_with (fst (create_outbound_action_annotation ws k s clk d)) (answers {})"
  "fails_with (fst (add_outbound_action_label ws k s clk d)) (answers {})"
  "fails_with (fst (remove_outbound_action_label ws k s d)) (answers {})"
  "fails_with (fst (deliver_outbound_integration_action x st ws c k clk d)) (answers {})"
  "fails_with (fst (cancel_outbound_integration_action ws c k clk d)) (answers {})"
  by (simp_all add: create_outbound_integration_action_def cleanup_expired_outbound_actions_def
      create_outbound_action_annotation_def add_outbound_action_label_def remove_outbound_action_label_def
      deliver_outbound_integration_action_def cancel_outbound_integration_action_def clause_defs caught
      fails_operator(1) [THEN fails_mono])

lemma column_routes_fail:
  "fails_with (fst (update_outbound_action_priority ws k p d)) (answers {})"
  "fails_with (fst (update_outbound_action_owner_reference ws k own d)) (answers {})"
  "fails_with (fst (archive_outbound_integration_action ws k clk d)) (answers {})"
  "fails_with (fst (unarchive_outbound_integration_action ws k clk d)) (answers {})"
  by (simp_all add: update_outbound_action_priority_def update_outbound_action_owner_reference_def
      archive_outbound_integration_action_def unarchive_outbound_integration_action_def clause_defs
      fails_operator_columns [THEN fails_with_provider, THEN fails_caught])

lemma retry_route_fails:
  "fails_with (fst (retry_failed_outbound_integration_action x st ws c k clk d))
     (answers {OutboundE OutboundDeliveryRetryPolicyConfigurationError})"
proof (cases "settings_retry_policy st")
  case (Inl e)
  with fails_InlD [OF fails_policies(1)] show ?thesis
    by (fastforce simp: retry_failed_outbound_integration_action_def settings_retry_policy_def)
next
  case (Inr pol)
  have "answer_error retry_clauses e \<in> answers {OutboundE OutboundDeliveryRetryPolicyConfigurationError}"
    if "fst (retry_failed_action (delivery_registry x st (clk 21)) pol ws c k clk d) = Inl e" for e
    using fails_retry [OF that] by (auto simp: retry_clauses_def clause_defs)
  with Inr show ?thesis
    by (auto simp: retry_failed_outbound_integration_action_def fails_with_def catching_def rendering_def
        split: prod.splits sum.splits)
qed

lemma action_reads_fail:
  "fails_with (list_outbound_integration_actions ws f n d) (answers {TypeError})"
  "fails_with (get_outbound_integration_action_detail ws k d) (answers {})"
  "fails_with (list_outbound_action_annotations ws k n d) (answers {})"
  "fails_with (list_outbound_action_labels ws k n d) (answers {})"
  "fails_with (get_outbound_approval_status ws c k d) (answers {})"
  "fails_with (list_outbound_action_state_history ws c k n d) (answers {})"
  "fails_with (list_outbound_action_timeline x ws c k cat ev t0 t1 n d) (answers {OverflowError})"
  "fails_with (validate_outbound_action_transition ws c k s d) (answers {})"
  "fails_with (list_outbound_integration_delivery_attempts ws c k s' t0 t1 newest n d) (answers {TypeError})"
proof -
  have "fails_with (bindE (case qf_label f of None \<Rightarrow> Inr None | Some l \<Rightarrow> bindE (label_normalize l) (\<lambda>n. Inr (Some n)))
      (\<lambda>label. bindE (owner_normalize (qf_owner_reference f)) (\<lambda>own.
        query_list_for_workspace ws (f\<lparr>qf_label := label, qf_owner_reference := own\<rparr>) n d)))
     {OperatorE OutboundActionQueryValidationError, OperatorE OutboundActionLabelValidationError,
      OperatorE OutboundActionOwnerReferenceValidationError, TypeError}"
    by (auto intro!: fails_bindE simp: fails_lookup [THEN fails_mono] fails_query_list [THEN fails_mono] split: option.split)
  from fails_caughtE [OF this] show "fails_with (list_outbound_integration_actions ws f n d) (answers {TypeError})"
    by (simp add: list_outbound_integration_actions_def clause_defs)
qed (simp_all add: get_outbound_integration_action_detail_def
      list_outbound_action_annotations_def list_outbound_action_labels_def get_outbound_approval_status_def
      list_outbound_action_state_history_def list_outbound_action_timeline_def validate_outbound_action_transition_def
      list_outbound_integration_delivery_attempts_def clause_defs caughtE)

lemma delivery_reads_fail:
  "fails_with (get_outbound_delivery_readiness x st ws c k clk d)
     (answers {OutboundE OutboundDeliveryRetryPolicyConfigurationError,
        OutboundE OutboundDeliveryRetryDelayPolicyConfigurationError, OverflowError})"
  "fails_with (get_outbound_integration_delivery_status st ws c k clk d)
     (answers {OutboundE OutboundDeliveryRetryPolicyConfigurationError, OutboundE OutboundDeliveryRetryDelayPolicyConfigurationError})"
  by (simp_all add: get_outbound_delivery_readiness_def get_outbound_integration_delivery_status_def
      settings_retry_policy_def settings_delay_policy_def clause_defs caughtE fails_bindE fails_policies [THEN fails_mono])

lemma run_request_fails:
  assumes "run_request x st ws clk rq d = Some y"
  shows "fails_with (fst y) (answers (unmapped rq))"
proof -
  have create: "fails_with (fst (create_outbound_integration_action ws c i key clk d)) (answers {OverflowError})" for c i key
    by (rule fails_mono [OF action_routes_fail(1)]) auto
  show ?thesis
    using assms
    by (cases rq)
      (auto simp: reading_def answering_def create account_routes_fail read_routes_fail action_routes_fail(2-)
        column_routes_fail retry_route_fails action_reads_fail delivery_reads_fail dest: account_routes_fail(5,6))
qed

lemma fails_authorize:
  "fails_with (authorize deco up auth now header slug act perm d)
     (http_errors {401, 403, 404, 409} \<union> {IdentityE AuthenticationConfigurationError})"
proof -
  let ?E = "http_errors {401, 403, 404, 409} \<union> {IdentityE AuthenticationConfigurationError}"
  have tok: "resolve_principal_from_access_token deco up auth token now d = Inl e \<Longrightarrow>
      e \<in> {IdentityE AuthenticationConfigurationError, IdentityE InvalidAccessTokenError}" for token e
    by (auto simp: resolve_principal_from_access_token_def token_secret_def split: option.splits sum.splits if_splits)
  have "fails_with (get_authenticated_principal deco up auth header now d) ?E"
    using tok by (auto simp: get_authenticated_principal_def bearer_error_def split: option.split sum.split)
  moreover have "fails_with (resolve_workspace_context p slug act d) ?E" for p
    by (auto simp: resolve_workspace_context_def get_workspace_by_slug_def resolve_active_membership_def get_user_def
        stored_workspace_def bindE_Inl_iff workspace_not_found_error_def bearer_error_def
        split: sum.split option.splits if_splits)
  moreover have "fails_with (authorize_context cx perm) ?E" for cx :: workspace_context
    by (auto simp: authorize_context_def require_permission_def permission_denied_error_def split: sum.split)
  ultimately show ?thesis unfolding authorize_def by (intro fails_bindE) simp_all
qed

lemma request_valid_unmapped: "request_valid rq = Inr rq' \<Longrightarrow> unmapped rq' = unmapped rq"
  by (cases rq) (auto split: if_splits sum.splits)

lemma request_valid_fails: "request_valid rq = Inl e \<Longrightarrow> e = request_validation_error \<or> e \<in> unmapped rq"
  by (cases rq)
    (auto simp: parse_action_create_def normalize_not_before_to_utc_def split: if_splits sum.splits option.splits)

section \<open>Properties\<close>

text \<open>C9: How a request can fail: with an HTTP answer of status 401, 403, 404, 409 or 422, or with one of
  the exceptions no route maps, which the framework answers 500: a missing token secret, and, only on
  the endpoints named by \<open>unmapped\<close>, time ranges that mix naive and aware times, times that leave the
  calendar when they are brought to UTC (a \<open>not_before\<close>, a bound of a timeline, an expiry a readiness answer
  shows), a stored retention or webhook URL the code refuses, and retry settings the policies refuse.\<close>

theorem request_failures:
  assumes "integration_api deco up auth x st c clk rq d = Some (Inl e, d')"
  shows "(\<exists>code detail. e = HTTPException code detail \<and> code \<in> {401, 403, 404, 409, 422}) \<or>
    e = IdentityE AuthenticationConfigurationError \<or> e \<in> unmapped rq"
proof (cases "authorize deco up auth (ca_now c) (ca_header c) (ca_slug c) (request_needs_active rq)
    (request_permission rq) d")
  case (Inl e')
  with assms fails_authorize [THEN fails_InlD, OF Inl] show ?thesis
    by (auto simp: integration_api_def http_errors_def)
next
  case cx: (Inr cx)
  show ?thesis
  proof (cases "request_valid rq")
    case (Inl v)
    with assms cx have "e = v" by (simp add: integration_api_def)
    with request_valid_fails [OF Inl] show ?thesis by (auto simp: request_validation_error_def)
  next
    case (Inr rq')
    with assms cx have "run_request x st (cx_workspace cx) clk rq' d = Some (Inl e, d')"
      by (simp add: integration_api_def)
    from run_request_fails [OF this] request_valid_unmapped [OF Inr] show ?thesis
      by (auto simp: http_errors_def)
  qed
qed

text \<open>C8: A request that fails has changed nothing, with one exception: delivering an action whose time has
  passed commits its expiry, exactly once and with its audit event, and answers 409.\<close>

theorem failed_request_changes_nothing:
  assumes run: "integration_api deco up auth x st c clk rq d = Some (Inl e, d')" and change: "d' \<noteq> d"
  shows "\<exists>acc k a. rq = RqDeliver acc k \<and> e = HTTPException 409 ''Outbound integration action has expired'' \<and>
    a \<in> set (actions d) \<and> oa_id a = k \<and> oa_status a = PENDING \<and> is_expired a (clk 0) \<and>
    d' = audit_record (a\<lparr>oa_status := EXPIRED, oa_expired_at := Some (utc (clk 1))\<rparr>) AU_EXPIRED (clk 2)
      (save_action (a\<lparr>oa_status := EXPIRED, oa_expired_at := Some (utc (clk 1))\<rparr>) d)"
proof -
  from run change obtain cx :: workspace_context and rq' where valid: "request_valid rq = Inr rq'"
    and req: "run_request x st (cx_workspace cx) clk rq' d = Some (Inl e, d')"
    by (auto simp: integration_api_def split: sum.splits)
  from run_request_failure [OF req change] obtain acc k where rq': "rq' = RqDeliver acc k"
    and del: "deliver_outbound_integration_action x st (cx_workspace cx) acc k clk d = (Inl e, d')" by blast
  have rq: "rq = RqDeliver acc k" using valid rq' by (cases rq) (auto split: if_splits sum.splits)
  from del obtain e0 where e0: "deliver_pending_action (delivery_registry x st (clk 21)) (cx_workspace cx) acc k clk d
      = (Inl e0, d')" and e: "e = answer_error (map_of [account_clause, action_clause,
         (OutboundE InactiveIntegrationAccountError, 409, ''Integration account is inactive''),
         (OutboundE OutboundIntegrationActionAlreadyProcessedError, 409,
            ''Outbound integration action has already reached a terminal state''),
         (OutboundE OutboundIntegrationActionExpiredError, 409, ''Outbound integration action has expired''),
         (OutboundE OutboundIntegrationActionNotReadyError, 409,
            ''Outbound integration action is not available before its not-before time''),
         (OutboundE OutboundDeliveryApprovalRequiredError, 409,
            ''Outbound integration action requires approval before delivery''),
         (OutboundE OutboundDeliveryApprovalRejectedError, 409,
            ''Outbound integration action approval was rejected'')]) e0"
    unfolding deliver_outbound_integration_action_def
    by (auto simp: rendering_def catching_def split: prod.splits sum.splits)
  from deliver_failure [OF e0 change] have e0': "e0 = OutboundE OutboundIntegrationActionExpiredError"
    and "\<exists>a \<in> set (actions d). oa_id a = k \<and> oa_status a = PENDING \<and> is_expired a (clk 0) \<and>
       d' = audit_record (a\<lparr>oa_status := EXPIRED, oa_expired_at := Some (utc (clk 1))\<rparr>) AU_EXPIRED (clk 2)
         (save_action (a\<lparr>oa_status := EXPIRED, oa_expired_at := Some (utc (clk 1))\<rparr>) d)" by blast+
  moreover have "e = HTTPException 409 ''Outbound integration action has expired''"
    by (simp add: e e0' clause_defs)
  ultimately show ?thesis using rq by blast
qed

lemma two_tenants_authorized:
  assumes "workspaces d = workspaces two_tenants" "users d = users two_tenants" "members d = members two_tenants"
    and "perm \<in> {INTEGRATION_MANAGE, OUTBOUND_ACTION_OPERATE}"
  shows "\<exists>cx. authorize plain_decode sample_parse sample_auth 5 (Some (''Bearer'', sample_token)) '' ACME'' True
     perm d = Inr cx \<and> cx_workspace cx = sample_ws"
proof -
  have "authorize plain_decode sample_parse sample_auth 5 (Some (''Bearer'', sample_token)) '' ACME'' True perm d =
      authorize plain_decode sample_parse sample_auth 5 (Some (''Bearer'', sample_token)) '' ACME'' True perm sample_db"
    using assms by (intro authorize_frame) (simp_all add: two_tenants_def)
  moreover have "authorize plain_decode sample_parse sample_auth 5 (Some (''Bearer'', sample_token)) '' ACME'' True perm sample_db =
      authorize plain_decode sample_parse sample_auth 5 (Some (''Bearer'', sample_token)) '' ACME'' True INTEGRATION_MANAGE sample_db"
    using sample_authorized
    by (auto simp: authorize_def bindE_Inr_iff authorize_context_def require_permission_def
        sample_member_def all_permissions_complete)
  ultimately show ?thesis using sample_authorized by simp
qed

lemma sample_run:
  assumes "workspaces d = workspaces two_tenants" "users d = users two_tenants" "members d = members two_tenants"
    and "request_permission rq \<in> {INTEGRATION_MANAGE, OUTBOUND_ACTION_OPERATE}" "request_valid rq = Inr rq"
  shows "integration_api plain_decode sample_parse sample_auth x st sample_caller clk rq d = run_request x st sample_ws clk rq d"
proof -
  have "request_needs_active rq" using assms(4) by (cases rq) simp_all
  with two_tenants_authorized [OF assms(1-4)] assms(5) show ?thesis
    by (auto simp: integration_api_def sample_caller_def)
qed

text \<open>A request for an account that does not exist, and one whose \<open>not_before\<close> is the first midnight of the
  calendar five hours east of UTC, and so before it.\<close>

definition first_midnight :: action_input where
  "first_midnight = (sample_input None)\<lparr>in_not_before := Some (Aware MIN_INSTANT (5 * 3600 * 1000000))\<rparr>"

theorem request_failures_witness:
  "(\<exists>e d'. integration_api plain_decode sample_parse sample_auth undefined undefined sample_caller (\<lambda>_. 0)
     (RqDeactivate 99) two_tenants = Some (Inl e, d') \<and>
     ((\<exists>code detail. e = HTTPException code detail \<and> code \<in> {401, 403, 404, 409, 422}) \<or>
      e = IdentityE AuthenticationConfigurationError)) \<and>
   integration_api plain_decode sample_parse sample_auth undefined undefined sample_caller (\<lambda>_. 0)
     (RqCreateAction 4 first_midnight ''k'') two_tenants = Some (Inl OverflowError, two_tenants)"
proof
  let ?run = "integration_api plain_decode sample_parse sample_auth undefined undefined sample_caller (\<lambda>_. 0)
     (RqDeactivate 99) two_tenants"
  have "\<exists>e d'. ?run = Some (Inl e, d')"
    by (simp add: sample_run answering_def deactivate_integration_account_def deactivate_def get_for_workspace_def
        two_tenants_def sample_defs rendering_def catching_def)
  then obtain e d' where r: "?run = Some (Inl e, d')" by blast
  from request_failures [OF r] r show "\<exists>e d'. ?run = Some (Inl e, d') \<and>
     ((\<exists>code detail. e = HTTPException code detail \<and> code \<in> {401, 403, 404, 409, 422}) \<or>
      e = IdentityE AuthenticationConfigurationError)" by auto
next
  have "request_valid (RqCreateAction 4 first_midnight ''k'') = Inl OverflowError"
    by (simp add: parse_action_create_def normalize_not_before_to_utc_def first_midnight_def to_utc_def)
  with two_tenants_authorized [of two_tenants OUTBOUND_ACTION_OPERATE]
  show "integration_api plain_decode sample_parse sample_auth undefined undefined sample_caller (\<lambda>_. 0)
     (RqCreateAction 4 first_midnight ''k'') two_tenants = Some (Inl OverflowError, two_tenants)"
    by (auto simp: integration_api_def sample_caller_def)
qed

definition expired_db :: db where
  "expired_db = two_tenants\<lparr>actions := [(sample_action PENDING)\<lparr>oa_expires_at := Some (utc 0)\<rparr>]\<rparr>"

theorem failed_request_changes_nothing_witness:
  "\<exists>d'. integration_api plain_decode sample_parse sample_auth undefined undefined sample_caller (\<lambda>_. 5)
     (RqDeliver 4 6) expired_db = Some (Inl (HTTPException 409 ''Outbound integration action has expired''), d') \<and>
     map oa_status (actions d') = [EXPIRED]"
proof -
  let ?run = "integration_api plain_decode sample_parse sample_auth undefined undefined sample_caller (\<lambda>_. 5)
     (RqDeliver 4 6) expired_db"
  have "\<exists>e d'. ?run = Some (Inl e, d') \<and> map oa_status (actions d') = [EXPIRED]"
    by (simp add: sample_run answering_def
        deliver_outbound_integration_action_def deliver_pending_action_def get_for_workspace_def
        get_action_for_account_def is_expired_def now_like_def utc_def expired_db_def two_tenants_def sample_defs
        require_transition_def can_transition_def record_transition_audit_def audit_event_for_transition_def
        rendering_def catching_def Let_def audit_record_def take_id_def save_action_def row_simps)
  then obtain e d' where r: "?run = Some (Inl e, d')" and st: "map oa_status (actions d') = [EXPIRED]"
    by (elim exE conjE) (rule that)
  then have "d' \<noteq> expired_db" by (auto simp: expired_db_def sample_action_def)
  from failed_request_changes_nothing [OF r this]
  have e: "e = HTTPException 409 ''Outbound integration action has expired''" by (elim exE conjE)
  show ?thesis by (rule exI [of _ d']) (use r st in \<open>simp only: e simp_thms\<close>)
qed

end
