(* ===== verification/App_Settings.thy ===== *)
theory App_Settings
  imports Integration_Failures Sales_Workflow
begin

text \<open>
  app/config.py: the settings with their defaults, declared bounds and validators, as the records of
  the components that use them. The properties say what the components can rely on: which of their
  own configuration checks a validated setting can still fail.
\<close>

section \<open>Settings\<close>

datatype environment = DEVELOPMENT | TEST_ENVIRONMENT | PRODUCTION

record app_settings =
  cfg_environment :: environment
  cfg_auth :: auth_settings
  cfg_llm :: llm_settings
  cfg_llm_timeout_seconds :: rat
  cfg_require_human_approval :: bool
  cfg_default_channel :: string
  cfg_webhook_max_age_seconds :: int
  cfg_integration :: integration_settings
  cfg_connect_timeout_seconds :: rat
  cfg_read_timeout_seconds :: rat

definition default_settings :: app_settings where
  "default_settings = \<lparr>cfg_environment = DEVELOPMENT,
     cfg_auth = \<lparr>as_secret = [], as_expiration_seconds = 1800, as_issuer = ''smart-sales-agency''\<rparr>,
     cfg_llm = \<lparr>st_llm_mode = DEMO, st_llm_api_key = [], st_llm_base_url = ''https://api.openai.com/v1'',
       st_llm_model = ''gpt-4.1-mini'', st_tier_mappings = Map.empty, st_pricing = [], st_premium_enabled = False\<rparr>,
     cfg_llm_timeout_seconds = 45, cfg_require_human_approval = True, cfg_default_channel = ''console'',
     cfg_webhook_max_age_seconds = 300,
     cfg_integration = \<lparr>is_retention_days = 90, is_health_window_days = 30, is_max_attempts = 3,
       is_non_retryable_codes = [], is_non_retryable_classes = [], is_delay_strategy = FIXED,
       is_delay_seconds = 0, is_delay_max_seconds = 3600,
       is_runtime = \<lparr>rs_outbound_webhook_url = [], rs_outbound_webhook_signing_enabled = False\<rparr>\<rparr>,
     cfg_connect_timeout_seconds = 5, cfg_read_timeout_seconds = 15\<rparr>"

definition settings_bounds :: "app_settings \<Rightarrow> bool" where
  "settings_bounds s \<longleftrightarrow>
     60 \<le> as_expiration_seconds (cfg_auth s) \<and> as_expiration_seconds (cfg_auth s) \<le> 3600 \<and>
     0 < cfg_llm_timeout_seconds s \<and> cfg_llm_timeout_seconds s \<le> 180 \<and>
     cfg_default_channel s \<in> {''console'', ''whatsapp'', ''email''} \<and>
     0 < cfg_webhook_max_age_seconds s \<and> cfg_webhook_max_age_seconds s \<le> 3600 \<and>
     0 < cfg_connect_timeout_seconds s \<and> cfg_connect_timeout_seconds s \<le> 60 \<and>
     0 < cfg_read_timeout_seconds s \<and> cfg_read_timeout_seconds s \<le> 120 \<and>
     (let i = cfg_integration s in
        1 \<le> is_retention_days i \<and> is_retention_days i \<le> 3650 \<and>
        1 \<le> is_max_attempts i \<and> is_max_attempts i \<le> 100 \<and>
        0 \<le> is_delay_seconds i \<and> is_delay_seconds i \<le> 86400 \<and>
        0 \<le> is_delay_max_seconds i \<and> is_delay_max_seconds i \<le> 86400 \<and>
        1 \<le> is_health_window_days i \<and> is_health_window_days i \<le> 90)"

section \<open>Validators\<close>

text \<open>\<open>str.isalpha\<close> and \<open>str.isalnum\<close> of one character; both are false of the empty text.\<close>

definition py_isalpha_char :: "char \<Rightarrow> bool" where
  "py_isalpha_char c = (let n = (of_char c :: nat) in
     (65 \<le> n \<and> n \<le> 90) \<or> (97 \<le> n \<and> n \<le> 122) \<or> n \<in> {170, 181, 186} \<or>
     (192 \<le> n \<and> n \<noteq> 215 \<and> n \<noteq> 247))"

definition py_isalnum_char :: "char \<Rightarrow> bool" where
  "py_isalnum_char c = (let n = (of_char c :: nat) in
     py_isalpha_char c \<or> (48 \<le> n \<and> n \<le> 57) \<or> n \<in> {178, 179, 185, 188, 189, 190})"

definition py_isalnum :: "string \<Rightarrow> bool" where
  "py_isalnum s = (s \<noteq> [] \<and> list_all py_isalnum_char s)"

definition setting_items :: "string \<Rightarrow> string list" where
  "setting_items value =
     map (\<lambda>w. py_lower (py_strip w)) (filter (\<lambda>w. py_strip w \<noteq> []) (py_split CHR '','' value))"

definition setting_code_ok :: "string \<Rightarrow> bool" where
  "setting_code_ok code \<longleftrightarrow>
     py_isalnum (filter (\<lambda>c. c \<noteq> CHR ''_'') code) \<and> py_isalpha_char (hd code) \<and> length code \<le> 100"

definition validate_failure_codes :: "string \<Rightarrow> error + string" where
  "validate_failure_codes value =
     (let codes = setting_items value in
      if \<not> list_all setting_code_ok codes then Inl ValueError
      else if \<not> distinct codes then Inl ValueError
      else Inr (py_join '','' codes))"

definition setting_classes :: "string list" where
  "setting_classes = [''temporary'', ''permanent'', ''authentication'', ''rate_limit'', ''validation'', ''unknown'']"

definition validate_failure_classes :: "string \<Rightarrow> error + string" where
  "validate_failure_classes value =
     (let classes = setting_items value in
      if \<not> list_all (\<lambda>c. c \<in> set setting_classes) classes then Inl ValueError
      else if \<not> distinct classes then Inl ValueError
      else Inr (py_join '','' classes))"

text \<open>The validator of the whole object.\<close>

definition validate_ai_model_tier_mappings :: "app_settings \<Rightarrow> error + app_settings" where
  "validate_ai_model_tier_mappings s =
     (if cfg_environment s = PRODUCTION \<and> as_secret (cfg_auth s) = [] then Inl ValueError
      else if st_tier_mappings (cfg_llm s) TIER_NONE \<noteq> None then Inl ValueError
      else if \<not> distinct (map (\<lambda>e. (pg_provider e, pg_model e)) (st_pricing (cfg_llm s))) then Inl ValueError
      else Inr s)"

text \<open>\<open>Settings(...)\<close>: bounds, field validators, then the validator of the object; any failure is a
  \<open>ValidationError\<close>, which is a \<open>ValueError\<close>.\<close>

definition make_settings :: "app_settings \<Rightarrow> error + app_settings" where
  "make_settings s =
     (if \<not> settings_bounds s then Inl ValueError
      else bindE (validate_failure_codes (is_non_retryable_codes (cfg_integration s))) (\<lambda>codes.
           bindE (validate_failure_classes (is_non_retryable_classes (cfg_integration s))) (\<lambda>classes.
           validate_ai_model_tier_mappings
             (s\<lparr>cfg_integration := (cfg_integration s)\<lparr>is_non_retryable_codes := codes,
                  is_non_retryable_classes := classes\<rparr>\<rparr>))))"

definition sales_settings_of :: "app_settings \<Rightarrow> sales_settings" where
  "sales_settings_of s = \<lparr>ss_llm = cfg_llm s, ss_require_human_approval = cfg_require_human_approval s,
     ss_default_channel = cfg_default_channel s\<rparr>"

section \<open>Splitting and joining\<close>

lemma py_split_no_sep: "w \<in> set (py_split sep s) \<Longrightarrow> sep \<notin> set w"
proof (induction s arbitrary: w)
  case (Cons c s)
  obtain v vs where v: "py_split sep s = v # vs" by (cases "py_split sep s") auto
  with Cons.IH [of v] Cons.IH [of w] Cons.prems show ?case by (auto split: if_splits)
qed simp

lemma py_split_word: "sep \<notin> set w \<Longrightarrow> py_split sep w = [w]"
  by (induction w) auto

lemma py_split_append: "sep \<notin> set w \<Longrightarrow> py_split sep (w @ sep # s) = w # py_split sep s"
  by (induction w) auto

lemma py_split_join:
  "ws \<noteq> [] \<Longrightarrow> \<forall>w \<in> set ws. sep \<notin> set w \<Longrightarrow> py_split sep (py_join [sep] ws) = ws"
proof (induction ws)
  case (Cons w ws)
  show ?case
  proof (cases ws)
    case Nil
    with Cons.prems show ?thesis by (simp add: py_split_word)
  next
    case (Cons v vs)
    with Cons.prems Cons.IH show ?thesis by (simp add: py_split_append)
  qed
qed simp

lemma set_strip: "set (py_strip s) \<subseteq> set s"
  unfolding py_strip_def by (auto dest!: set_dropWhileD)

lemma comma_lower: "py_lower_char c = CHR '','' \<Longrightarrow> c = CHR '',''"
proof -
  assume a: "py_lower_char c = CHR '',''"
  then have "(of_char (py_lower_char c) :: nat) = 44" by simp
  then have "(of_char c :: nat) = 44" by (auto simp: of_char_py_lower Let_def split: if_splits)
  then have "(of_char c :: nat) = of_char (CHR '','')" by simp
  then show ?thesis by (simp only: of_char_eq_iff)
qed

lemma setting_items_fixed:
  assumes "w \<in> set (setting_items v)"
  shows "py_lower (py_strip w) = w" "w \<noteq> []" "CHR '','' \<notin> set w" "py_strip w = w" "py_lower w = w"
proof -
  from assms obtain x where x: "x \<in> set (py_split CHR '','' v)" "py_strip x \<noteq> []" "w = py_lower (py_strip x)"
    by (auto simp: setting_items_def)
  then show "py_lower (py_strip w) = w" "w \<noteq> []" "py_strip w = w" "py_lower w = w"
    by (simp_all add: py_strip_lower)
  show "CHR '','' \<notin> set w"
    using py_split_no_sep [OF x(1)] set_strip [of x] comma_lower by (force simp: x(3) py_lower_def)
qed

lemma setting_items_join: "setting_items (py_join '','' (setting_items v)) = setting_items v"
proof (cases "setting_items v = []")
  case True
  then show ?thesis by (simp add: setting_items_def)
next
  case False
  then have "py_split CHR '','' (py_join '','' (setting_items v)) = setting_items v"
    by (intro py_split_join) (auto dest: setting_items_fixed)
  moreover have "filter (\<lambda>w. py_strip w \<noteq> []) (setting_items v) = setting_items v"
    by (simp add: filter_id_conv setting_items_fixed(2,4))
  moreover have "map (\<lambda>w. py_lower (py_strip w)) (setting_items v) = setting_items v"
    by (rule map_idI) (rule setting_items_fixed)
  ultimately show ?thesis by (subst setting_items_def) simp
qed

text \<open>What the retry policy reads from a joined list: the list itself.\<close>

lemma settings_split_join:
  assumes "ws = setting_items v"
  shows "(if py_join '','' ws \<noteq> [] then py_split CHR '','' (py_join '','' ws) else []) = ws"
proof (cases ws)
  case Nil
  then show ?thesis by simp
next
  case (Cons w vs)
  with assms have "w \<in> set (setting_items v)" by (metis list.set_intros(1))
  then have "w \<noteq> []" by (rule setting_items_fixed(2))
  then have "py_join '','' ws \<noteq> []" by (cases vs) (simp_all add: Cons)
  moreover have "py_split CHR '','' (py_join '','' ws) = ws"
    using assms Cons by (intro py_split_join) (auto dest: setting_items_fixed)
  ultimately show ?thesis by simp
qed

section \<open>Failure codes\<close>

lemma ascii_letters:
  assumes "py_lower_char c = c" and "(of_char c :: nat) < 128"
  shows "py_isalpha_char c \<longleftrightarrow> is_lower_az c" "py_isalnum_char c \<longleftrightarrow> is_lower_az c \<or> is_digit09 c"
  using arg_cong [OF assms(1), of "of_char :: char \<Rightarrow> nat"] assms(2)
  by (auto simp: of_char_py_lower py_isalpha_char_def py_isalnum_char_def is_lower_az_def is_digit09_def Let_def
      split: if_splits)

lemma failure_code_pattern_ascii: "failure_code_pattern c \<Longrightarrow> is_ascii c"
  unfolding failure_code_pattern_def is_ascii_def
  by (erule head_tail_match_all) (auto simp: is_lower_az_def is_digit09_def one_of_def Let_def)

lemma setting_code_pattern:
  assumes ok: "setting_code_ok c" and low: "py_lower c = c" and ne: "c \<noteq> []" and asc: "is_ascii c"
  shows "failure_code_pattern c"
proof -
  obtain x xs where c: "c = x # xs" using ne by (cases c) auto
  have fixed: "py_lower_char y = y \<and> (of_char y :: nat) < 128" if "y \<in> set c" for y
    using low asc that by (auto simp: py_lower_def is_ascii_def list_all_iff map_eq_conv [of _ _ id, simplified])
  have "is_lower_az x" using ok fixed [of x] ascii_letters(1) [of x] by (simp add: setting_code_ok_def c)
  moreover have "is_lower_az y \<or> is_digit09 y \<or> one_of ''_'' y" if "y \<in> set xs" for y
  proof (cases "y = CHR ''_''")
    case False
    with ok that have "py_isalnum_char y" by (auto simp: setting_code_ok_def py_isalnum_def list_all_iff c)
    with fixed [of y] that ascii_letters(2) [of y] show ?thesis by (auto simp: c)
  qed (simp add: one_of_def)
  ultimately show ?thesis
    using ok by (auto simp: failure_code_pattern_def setting_code_ok_def c list_all_iff)
qed

section \<open>Properties\<close>

lemma settings_bounds_lists [simp]:
  "settings_bounds (s\<lparr>cfg_integration := (cfg_integration s)\<lparr>is_non_retryable_codes := x,
     is_non_retryable_classes := y\<rparr>\<rparr>) = settings_bounds s"
  by (simp add: settings_bounds_def Let_def)

lemma make_settings_InrD:
  assumes "make_settings s = Inr t"
  shows "settings_bounds t"
    and "cfg_environment t = PRODUCTION \<longrightarrow> as_secret (cfg_auth t) \<noteq> []"
    and "st_tier_mappings (cfg_llm t) TIER_NONE = None"
    and "distinct (map (\<lambda>e. (pg_provider e, pg_model e)) (st_pricing (cfg_llm t)))"
    and "\<exists>v. is_non_retryable_codes (cfg_integration t) = py_join '','' (setting_items v) \<and>
      list_all setting_code_ok (setting_items v) \<and> distinct (setting_items v)"
    and "\<exists>v. is_non_retryable_classes (cfg_integration t) = py_join '','' (setting_items v) \<and>
      list_all (\<lambda>c. c \<in> set setting_classes) (setting_items v) \<and> distinct (setting_items v)"
  using assms
  by (auto simp: make_settings_def bindE_Inr_iff validate_failure_codes_def validate_failure_classes_def
      validate_ai_model_tier_mappings_def Let_def split: if_splits)

lemma fold_catalog:
  "distinct (map (\<lambda>e. (pg_provider e, pg_model e)) es) \<Longrightarrow>
   \<forall>e \<in> set es. map_of c (pg_provider e, pg_model e) = None \<Longrightarrow>
   \<exists>c'. fold (\<lambda>e c. bindE c (catalog_add e)) es (Inr c) = Inr c'"
proof (induction es arbitrary: c)
  case (Cons e es)
  let ?k = "(pg_provider e, pg_model e)"
  have "\<exists>c'. fold (\<lambda>e c. bindE c (catalog_add e)) es (Inr (c @ [(?k, e)])) = Inr c'"
    using Cons.prems by (intro Cons.IH) (auto simp: map_add_def image_iff)
  moreover have "catalog_add e c = Inr (c @ [(?k, e)])"
    using Cons.prems by (simp add: catalog_add_def)
  ultimately show ?case by simp
qed simp

lemma setting_class_known: "w \<in> set setting_classes \<Longrightarrow> \<exists>k. failure_class_of_value w = Some k"
  by (auto simp: setting_classes_def failure_class_of_value_def all_failure_classes_def)

lemma map_res_total: "(\<exists>ys. map_res f xs = Inr ys) \<longleftrightarrow> (\<forall>x \<in> set xs. \<exists>y. f x = Inr y)"
  by (induction xs) (auto simp: bindE_Inr_iff)

text \<open>C39: What a validated setting guarantees to the components that read it, and what it does not: the
  audit retention, the pricing catalogue, the tier mappings and, in production, the token secret are
  accepted by the components' own checks; the retry policy is accepted exactly when all failure
  codes are ASCII, and the retry delay policy exactly when the delay is at most its maximum.
  Validating a validated setting changes nothing.\<close>

theorem validated_settings:
  assumes ok: "make_settings s = Inr t"
  shows "make_settings t = Inr t \<and>
    retention_policy (is_retention_days (cfg_integration t)) = Inr (is_retention_days (cfg_integration t)) \<and>
    (\<exists>c. make_catalog (st_pricing (cfg_llm t)) = Inr c) \<and>
    st_tier_mappings (cfg_llm t) TIER_NONE = None \<and>
    (cfg_environment t = PRODUCTION \<longrightarrow> token_secret (cfg_auth t) = Inr (as_secret (cfg_auth t))) \<and>
    ((\<exists>p. settings_retry_policy (cfg_integration t) = Inr p) \<longleftrightarrow>
       is_ascii (is_non_retryable_codes (cfg_integration t))) \<and>
    ((\<exists>p. settings_delay_policy (cfg_integration t) = Inr p) \<longleftrightarrow>
       is_delay_seconds (cfg_integration t) \<le> is_delay_max_seconds (cfg_integration t))"
proof -
  note t = make_settings_InrD [OF ok]
  let ?i = "cfg_integration t"
  obtain u where u: "is_non_retryable_codes ?i = py_join '','' (setting_items u)"
    "list_all setting_code_ok (setting_items u)" "distinct (setting_items u)" using t(5) by blast
  obtain v where v: "is_non_retryable_classes ?i = py_join '','' (setting_items v)"
    "list_all (\<lambda>c. c \<in> set setting_classes) (setting_items v)" "distinct (setting_items v)" using t(6) by blast
  have "validate_failure_codes (is_non_retryable_codes ?i) = Inr (is_non_retryable_codes ?i)"
    using u by (simp add: validate_failure_codes_def setting_items_join)
  moreover have "validate_failure_classes (is_non_retryable_classes ?i) = Inr (is_non_retryable_classes ?i)"
    using v by (simp add: validate_failure_classes_def setting_items_join)
  ultimately have again: "make_settings t = Inr t"
    using t(1-4) by (simp add: make_settings_def validate_ai_model_tier_mappings_def)
  have catalog: "\<exists>c. make_catalog (st_pricing (cfg_llm t)) = Inr c"
    unfolding make_catalog_def by (rule fold_catalog) (use t(4) in simp_all)
  have classes: "\<exists>ks. map_res normalize_failure_classification (setting_items v) = Inr ks"
    unfolding map_res_total
  proof
    fix w assume w: "w \<in> set (setting_items v)"
    with v(2) have "w \<in> set setting_classes" by (simp add: list_all_iff)
    with setting_class_known setting_items_fixed(1) [OF w]
    show "\<exists>k. normalize_failure_classification w = Inr k"
      by (auto simp: normalize_failure_classification_def split: option.split)
  qed
  have code: "(\<exists>n. normalize_failure_code w = Inr n) \<longleftrightarrow> is_ascii w" if w: "w \<in> set (setting_items u)" for w
    using setting_items_fixed [OF w] u(2) w setting_code_pattern [of w] failure_code_pattern_ascii [of w]
    by (auto simp: normalize_failure_code_def list_all_iff)
  have joined: "is_ascii (py_join '','' ws) \<longleftrightarrow> (\<forall>w \<in> set ws. is_ascii w)" for ws
  proof (induction ws)
    case (Cons w ws)
    then show ?case by (cases ws) (auto simp: is_ascii_def list_all_iff)
  qed (simp add: is_ascii_def)
  have bounds: "1 \<le> is_max_attempts ?i \<and> is_max_attempts ?i \<le> 100"
    "1 \<le> is_retention_days ?i \<and> is_retention_days ?i \<le> 3650"
    "0 \<le> is_delay_seconds ?i \<and> 0 \<le> is_delay_max_seconds ?i"
    using t(1) by (simp_all add: settings_bounds_def Let_def)
  have "(\<exists>p. settings_retry_policy ?i = Inr p) \<longleftrightarrow>
      (\<exists>cs. map_res normalize_failure_code (setting_items u) = Inr cs)"
    using bounds(1) classes
    by (auto simp: settings_retry_policy_def retry_policy_from_settings_def make_retry_policy_def u(1) v(1)
        settings_split_join [OF refl] bindE_Inr_iff)
  also have "\<dots> \<longleftrightarrow> is_ascii (is_non_retryable_codes ?i)"
    by (simp add: map_res_total code joined u(1))
  finally have retry: "(\<exists>p. settings_retry_policy ?i = Inr p) \<longleftrightarrow> is_ascii (is_non_retryable_codes ?i)" .
  show ?thesis
    using again catalog retry t(2,3) bounds(2,3)
    by (auto simp: retention_policy_def token_secret_def settings_delay_policy_def make_delay_policy_def)
qed

text \<open>Codes written with blanks and capital letters; the retry delay exceeds its maximum.\<close>

definition sample_app_settings :: app_settings where
  "sample_app_settings = default_settings\<lparr>cfg_integration := (cfg_integration default_settings)
     \<lparr>is_non_retryable_codes := '' Http_4, bad,'', is_non_retryable_classes := ''permanent'',
      is_delay_seconds := 60, is_delay_max_seconds := 30\<rparr>\<rparr>"

theorem validated_settings_witness:
  "\<exists>t p. make_settings sample_app_settings = Inr t \<and> is_non_retryable_codes (cfg_integration t) = ''http_4,bad'' \<and>
     settings_retry_policy (cfg_integration t) = Inr p \<and> \<not> (\<exists>q. settings_delay_policy (cfg_integration t) = Inr q)"
proof -
  have "validate_failure_codes '' Http_4, bad,'' = Inr ''http_4,bad''" by code_simp
  moreover have "validate_failure_classes ''permanent'' = Inr ''permanent''" by code_simp
  ultimately obtain t where t: "make_settings sample_app_settings = Inr t"
    "is_non_retryable_codes (cfg_integration t) = ''http_4,bad''"
    "is_delay_seconds (cfg_integration t) = 60" "is_delay_max_seconds (cfg_integration t) = 30"
    by (simp add: make_settings_def sample_app_settings_def default_settings_def settings_bounds_def
        validate_ai_model_tier_mappings_def)
  have "is_ascii ''http_4,bad''" by code_simp
  with validated_settings [OF t(1)] t show ?thesis by auto
qed

end
