(* ===== verification/Sales_Api.thy ===== *)
theory Sales_Api
  imports Integration_Api Assignments Sales_Workflow
begin

text \<open>
  The routes people of a workspace use for its Sales data: app/api/routes/leads.py, products.py,
  approvals.py, the assignment routes of conversations.py, the remaining workspace routes, and the
  schemas of app/schemas.py they read and answer with. At the end all these endpoints, with those
  of conversations and workflows, become one function of a request behind the dependencies of
  Access, as Integration_Api does for integrations.
\<close>

section \<open>Leads\<close>

record lead_create =
  lc_tenant_id :: string
  lc_full_name :: string
  lc_company_name :: string
  lc_job_title :: "string option"
  lc_email :: "string option"
  lc_phone :: "string option"
  lc_website :: "string option"
  lc_source :: string
  lc_notes :: "string option"

record lead_read = lead_create +
  lr_id :: uuid
  lr_status :: lead_status
  lr_sales_stage :: sales_stage
  lr_score :: int
  lr_assignment :: "assignment_snapshot option"
  lr_created_at :: datetime
  lr_updated_at :: datetime

text \<open>The declared bounds of the names, which the response schema inherits from the request schema.\<close>

definition lead_names_valid :: "string \<Rightarrow> string \<Rightarrow> bool" where
  "lead_names_valid full_name company \<longleftrightarrow> text_between 2 200 full_name \<and> text_between 2 200 company"

definition lead_create_valid :: "lead_create \<Rightarrow> bool" where
  "lead_create_valid p \<longleftrightarrow> lead_names_valid (lc_full_name p) (lc_company_name p)"

definition render_lead :: "lead \<Rightarrow> db \<Rightarrow> error + lead_read" where
  "render_lead l d =
     (if \<not> lead_names_valid (ld_full_name l) (ld_company_name l) then Inl ValueError
      else Inr \<lparr>lc_tenant_id = ld_tenant_id l, lc_full_name = ld_full_name l,
        lc_company_name = ld_company_name l, lc_job_title = ld_job_title l, lc_email = ld_email l,
        lc_phone = ld_phone l, lc_website = ld_website l, lc_source = ld_source l, lc_notes = ld_notes l,
        lr_id = ld_id l, lr_status = ld_status l, lr_sales_stage = ld_sales_stage l, lr_score = ld_score l,
        lr_assignment = resolve_lead_assignment l d, lr_created_at = ld_created_at l,
        lr_updated_at = ld_updated_at l\<rparr>)"

text \<open>The row of a new lead: the workspace's slug replaces whatever tenant the client sent.\<close>

definition new_lead :: "workspace \<Rightarrow> lead_create \<Rightarrow> uuid \<Rightarrow> clock \<Rightarrow> lead" where
  "new_lead ws p k clk = \<lparr>ld_id = k, ld_tenant_id = ws_slug ws, ld_full_name = lc_full_name p,
     ld_company_name = lc_company_name p, ld_job_title = lc_job_title p, ld_email = lc_email p,
     ld_phone = lc_phone p, ld_website = lc_website p, ld_source = lc_source p, ld_status = LEAD_NEW,
     ld_sales_stage = INTRODUCTION, ld_assigned_to_membership_id = None, ld_assigned_at = None,
     ld_assigned_by_user_id = None, ld_assigned_by_membership_id = None, ld_score = 0,
     ld_notes = lc_notes p, ld_created_at = utc (clk 0), ld_updated_at = utc (clk 1)\<rparr>"

text \<open>A stored row is read again for the answer; that reading cannot fail for a row just inserted,
  but its rendering can, after the commit.\<close>

definition rendered :: "('a \<Rightarrow> db \<Rightarrow> error + 'b) \<Rightarrow> (error + 'a) \<times> db \<Rightarrow> (error + 'b) \<times> db" where
  "rendered f r = (case r of (Inl e, d) \<Rightarrow> (Inl e, d) | (Inr x, d) \<Rightarrow> (f x d, d))"

definition create_lead :: "workspace \<Rightarrow> lead_create \<Rightarrow> clock \<Rightarrow> lead_read op" where
  "create_lead ws p clk d =
     (let l = new_lead ws p (next_id d) clk
      in rendered render_lead (Inr l, take_id (d\<lparr>leads := leads d @ [l]\<rparr>)))"

definition route_list_leads :: "workspace \<Rightarrow> db \<Rightarrow> error + lead_read list" where
  "route_list_leads ws d =
     map_res (\<lambda>l. render_lead l d)
       (order_desc (\<lambda>l. dt_instant (ld_created_at l)) (filter (\<lambda>l. ld_tenant_id l = ws_slug ws) (leads d)))"

definition route_get_lead :: "workspace \<Rightarrow> uuid \<Rightarrow> db \<Rightarrow> error + lead_read" where
  "route_get_lead ws lead_id d =
     (case get_lead_row lead_id d of
        None \<Rightarrow> Inl lead_not_found
      | Some l \<Rightarrow> if ld_tenant_id l \<noteq> ws_slug ws then Inl lead_not_found else render_lead l d)"

definition lead_clauses :: "(error \<times> nat \<times> string) list" where
  "lead_clauses = [(OperatorE OperatorAssignmentNotFoundError, 404, ''Lead not found''),
     (OperatorE OperatorAssignmentActorWorkspaceMismatchError, 404, ''Lead not found'')]"

definition assign_conversation_operator ::
  "workspace \<Rightarrow> uuid \<Rightarrow> uuid \<Rightarrow> decision_actor \<Rightarrow> clock \<Rightarrow> lead_read op" where
  "assign_conversation_operator ws lead_id target actor clk d =
     rendered render_lead (catching (map_of lead_clauses) (assign_lead ws lead_id target actor clk d))"

definition clear_conversation_operator :: "workspace \<Rightarrow> uuid \<Rightarrow> decision_actor \<Rightarrow> lead_read op" where
  "clear_conversation_operator ws lead_id actor d =
     rendered render_lead (catching (map_of lead_clauses) (clear_lead ws lead_id actor d))"

section \<open>Products\<close>

record product_create =
  pc_tenant_id :: string
  pc_name :: string
  pc_description :: string
  pc_price :: "rat option"
  pc_minimum_price :: "rat option"
  pc_metadata_json :: "(string \<times> json) list"

definition new_product :: "workspace \<Rightarrow> product_create \<Rightarrow> uuid \<Rightarrow> product" where
  "new_product ws p k = \<lparr>pr_id = k, pr_tenant_id = ws_slug ws, pr_name = pc_name p,
     pr_description = pc_description p, pr_price = pc_price p, pr_minimum_price = pc_minimum_price p,
     pr_active = True, pr_metadata_json = pc_metadata_json p\<rparr>"

definition create_product :: "workspace \<Rightarrow> product_create \<Rightarrow> product op" where
  "create_product ws p d =
     (let r = new_product ws p (next_id d) in (Inr r, take_id (d\<lparr>products := products d @ [r]\<rparr>)))"

definition route_list_products :: "workspace \<Rightarrow> db \<Rightarrow> product list" where
  "route_list_products ws d = filter (\<lambda>p. pr_tenant_id p = ws_slug ws \<and> pr_active p) (products d)"

section \<open>Approvals\<close>

record approval_read =
  apr_id :: uuid
  apr_lead_id :: "uuid option"
  apr_action_type :: string
  apr_channel :: string
  apr_payload :: "(string \<times> string) list"
  apr_status :: approval_status
  apr_reviewer_note :: "string option"
  apr_created_at :: datetime
  apr_decided_at :: "datetime option"
  apr_decided_by_user_id :: "uuid option"
  apr_decided_by_membership_id :: "uuid option"
  apr_decided_by_role :: "member_role option"
  apr_assignment :: "assignment_snapshot option"

definition render_approval :: "approval_request \<Rightarrow> db \<Rightarrow> approval_read" where
  "render_approval a d = \<lparr>apr_id = ap_id a, apr_lead_id = ap_lead_id a, apr_action_type = ap_action_type a,
     apr_channel = ap_channel a, apr_payload = ap_payload a, apr_status = ap_status a,
     apr_reviewer_note = ap_reviewer_note a, apr_created_at = ap_created_at a,
     apr_decided_at = ap_decided_at a, apr_decided_by_user_id = ap_decided_by_user_id a,
     apr_decided_by_membership_id = ap_decided_by_membership_id a,
     apr_decided_by_role = ap_decided_by_role a, apr_assignment = resolve_approval_assignment a d\<rparr>"

definition rendered_approval :: "(error + approval_request) \<times> db \<Rightarrow> (error + approval_read) \<times> db" where
  "rendered_approval = rendered (\<lambda>a d. Inr (render_approval a d))"

definition route_list_approvals :: "workspace \<Rightarrow> approval_status option \<Rightarrow> db \<Rightarrow> approval_read list" where
  "route_list_approvals ws status d = map (\<lambda>a. render_approval a d) (list_approvals (ws_slug ws) status d)"

definition assignment_clauses :: "(error \<times> nat \<times> string) list" where
  "assignment_clauses =
     [(OperatorE OperatorAssignmentNotFoundError, 404, ''Approval request not found''),
      (OperatorE OperatorAssignmentActorWorkspaceMismatchError, 404, ''Approval request not found''),
      (OperatorE OperatorAssignmentConflictError, 409, ''Approval assignment can only be changed while pending'')]"

definition assign_approval_operator ::
  "workspace \<Rightarrow> uuid \<Rightarrow> uuid \<Rightarrow> decision_actor \<Rightarrow> clock \<Rightarrow> approval_read op" where
  "assign_approval_operator ws approval_id target actor clk d =
     rendered_approval (catching (map_of assignment_clauses) (assign_approval ws approval_id target actor clk d))"

definition clear_approval_operator :: "workspace \<Rightarrow> uuid \<Rightarrow> decision_actor \<Rightarrow> approval_read op" where
  "clear_approval_operator ws approval_id actor d =
     rendered_approval (catching (map_of assignment_clauses) (clear_approval ws approval_id actor d))"

definition reject_clauses :: "(error \<times> nat \<times> string) list" where
  "reject_clauses =
     [(ApprovalE ApprovalDecisionNotFoundError, 404, ''Approval request not found''),
      (ApprovalE ApprovalDecisionActorWorkspaceMismatchError, 404, ''Approval request not found''),
      (ApprovalE ApprovalDecisionConflictError, 409, ''Approval request is already decided'')]"

definition approve_clauses :: "error \<Rightarrow> (nat \<times> string) option" where
  "approve_clauses e =
     (case e of
        ApprovalE (ApprovalDecisionDeliveryError detail) \<Rightarrow> Some (502, detail)
      | _ \<Rightarrow> map_of reject_clauses e)"

definition approve_action :: "workspace \<Rightarrow> uuid \<Rightarrow> string option \<Rightarrow> decision_actor \<Rightarrow> clock \<Rightarrow> approval_read op" where
  "approve_action ws approval_id remark actor clk d =
     rendered_approval (catching approve_clauses (approve ws approval_id remark actor clk d))"

definition reject_action :: "workspace \<Rightarrow> uuid \<Rightarrow> string option \<Rightarrow> decision_actor \<Rightarrow> clock \<Rightarrow> approval_read op" where
  "reject_action ws approval_id remark actor clk d =
     rendered_approval (catching (map_of reject_clauses) (reject ws approval_id remark actor clk d))"

section \<open>Workspaces\<close>

definition get_workspace_sales_instructions :: "workspace \<Rightarrow> string option" where
  "get_workspace_sales_instructions ws = ws_sales_instructions ws"

definition get_workspace_sales_communication ::
  "workspace \<Rightarrow> sales_language option \<times> writing_script option \<times> sales_tone option" where
  "get_workspace_sales_communication ws = communication_read ws"

section \<open>One function of a request\<close>

datatype sales_request =
    SqCreateLead lead_create
  | SqListLeads
  | SqGetLead uuid
  | SqCreateProduct product_create
  | SqListProducts
  | SqListApprovals "approval_status option"
  | SqAssignApproval uuid uuid
  | SqClearApproval uuid
  | SqApprove uuid "string option"
  | SqReject uuid "string option"
  | SqHistory uuid int
  | SqAssignLead uuid uuid
  | SqClearLead uuid
  | SqReply uuid string string "string option"
  | SqResolveHandoff uuid
  | SqRunWorkflow uuid
  | SqGetInstructions
  | SqReplaceInstructions string
  | SqClearInstructions
  | SqGetCommunication
  | SqUpdateCommunication "sales_language option" "writing_script option" "sales_tone option"

datatype sales_answer =
    AsLead lead_read
  | AsLeads "lead_read list"
  | AsProduct product
  | AsProducts "product list"
  | AsApproval approval_read
  | AsApprovals "approval_read list"
  | AsHistory "conversation_message list"
  | AsReply direct_outcome
  | AsHandoff handoff_resolution
  | AsWorkflow workflow_state
  | AsInstructions "string option"
  | AsCommunication "sales_language option \<times> writing_script option \<times> sales_tone option"

fun sales_permission :: "sales_request \<Rightarrow> workspace_permission" where
  "sales_permission (SqCreateLead _) = SALES_DATA_WRITE"
| "sales_permission (SqCreateProduct _) = SALES_DATA_WRITE"
| "sales_permission (SqAssignApproval _ _) = OPERATOR_ASSIGNMENT_MANAGE"
| "sales_permission (SqClearApproval _) = OPERATOR_ASSIGNMENT_MANAGE"
| "sales_permission (SqAssignLead _ _) = OPERATOR_ASSIGNMENT_MANAGE"
| "sales_permission (SqClearLead _) = OPERATOR_ASSIGNMENT_MANAGE"
| "sales_permission (SqApprove _ _) = APPROVAL_DECIDE"
| "sales_permission (SqReject _ _) = APPROVAL_DECIDE"
| "sales_permission (SqHistory _ _) = CONVERSATION_OPERATE"
| "sales_permission (SqReply _ _ _ _) = CONVERSATION_OPERATE"
| "sales_permission (SqResolveHandoff _) = CONVERSATION_OPERATE"
| "sales_permission (SqRunWorkflow _) = CONVERSATION_OPERATE"
| "sales_permission SqGetInstructions = WORKSPACE_READ"
| "sales_permission SqGetCommunication = WORKSPACE_READ"
| "sales_permission (SqReplaceInstructions _) = WORKSPACE_SETTINGS_MANAGE"
| "sales_permission SqClearInstructions = WORKSPACE_SETTINGS_MANAGE"
| "sales_permission (SqUpdateCommunication _ _ _) = WORKSPACE_SETTINGS_MANAGE"
| "sales_permission _ = SALES_DATA_READ"

text \<open>The declared bounds of the request bodies and query parameters.\<close>

definition inbound_message_content_valid :: "string \<Rightarrow> bool" where
  "inbound_message_content_valid content \<longleftrightarrow> text_between 1 10000 content"

fun sales_request_valid :: "sales_request \<Rightarrow> bool" where
  "sales_request_valid (SqCreateLead p) = lead_create_valid p"
| "sales_request_valid (SqHistory _ n) = limit_valid 200 n"
| "sales_request_valid (SqReply _ content _ _) = inbound_message_content_valid content"
| "sales_request_valid _ = True"

record sales_env =
  se_sha256 :: "string \<Rightarrow> string"
  se_ai :: ai_env
  se_settings :: sales_settings

fun run_sales_request :: "sales_env \<Rightarrow> workspace_context \<Rightarrow> clock \<Rightarrow> sales_request \<Rightarrow> sales_answer op" where
  "run_sales_request e cx clk (SqCreateLead p) d = rendering AsLead (create_lead (cx_workspace cx) p clk d)"
| "run_sales_request e cx clk SqListLeads d = (renderingE AsLeads (route_list_leads (cx_workspace cx) d), d)"
| "run_sales_request e cx clk (SqGetLead k) d = (renderingE AsLead (route_get_lead (cx_workspace cx) k d), d)"
| "run_sales_request e cx clk (SqCreateProduct p) d = rendering AsProduct (create_product (cx_workspace cx) p d)"
| "run_sales_request e cx clk SqListProducts d = (Inr (AsProducts (route_list_products (cx_workspace cx) d)), d)"
| "run_sales_request e cx clk (SqListApprovals s) d =
     (Inr (AsApprovals (route_list_approvals (cx_workspace cx) s d)), d)"
| "run_sales_request e cx clk (SqAssignApproval k target) d =
     rendering AsApproval (assign_approval_operator (cx_workspace cx) k target (get_operator_assignment_actor cx) clk d)"
| "run_sales_request e cx clk (SqClearApproval k) d =
     rendering AsApproval (clear_approval_operator (cx_workspace cx) k (get_operator_assignment_actor cx) d)"
| "run_sales_request e cx clk (SqApprove k remark) d =
     rendering AsApproval (approve_action (cx_workspace cx) k remark (get_approval_decision_actor cx) clk d)"
| "run_sales_request e cx clk (SqReject k remark) d =
     rendering AsApproval (reject_action (cx_workspace cx) k remark (get_approval_decision_actor cx) clk d)"
| "run_sales_request e cx clk (SqHistory k n) d =
     (renderingE AsHistory (route_history (cx_workspace cx) k (nat n) d), d)"
| "run_sales_request e cx clk (SqAssignLead k target) d =
     rendering AsLead (assign_conversation_operator (cx_workspace cx) k target (get_operator_assignment_actor cx) clk d)"
| "run_sales_request e cx clk (SqClearLead k) d =
     rendering AsLead (clear_conversation_operator (cx_workspace cx) k (get_operator_assignment_actor cx) d)"
| "run_sales_request e cx clk (SqReply k content channel key) d =
     rendering AsReply (route_draft_reply (se_sha256 e) (se_ai e) (se_settings e) (cx_workspace cx) k content channel key clk d)"
| "run_sales_request e cx clk (SqResolveHandoff k) d =
     rendering AsHandoff (route_resolve_handoff (cx_workspace cx) k (clk 0) d)"
| "run_sales_request e cx clk (SqRunWorkflow k) d =
     rendering AsWorkflow (route_run_workflow (se_ai e) (se_settings e) (cx_workspace cx) k clk d)"
| "run_sales_request e cx clk SqGetInstructions d =
     (Inr (AsInstructions (get_workspace_sales_instructions (cx_workspace cx))), d)"
| "run_sales_request e cx clk (SqReplaceInstructions s) d =
     rendering AsInstructions (route_replace_instructions (cx_workspace cx) s clk d)"
| "run_sales_request e cx clk SqClearInstructions d =
     rendering AsInstructions (route_clear_instructions (cx_workspace cx) clk d)"
| "run_sales_request e cx clk SqGetCommunication d =
     (Inr (AsCommunication (get_workspace_sales_communication (cx_workspace cx))), d)"
| "run_sales_request e cx clk (SqUpdateCommunication a b c) d =
     rendering AsCommunication (route_update_communication (cx_workspace cx) a b c clk d)"

definition sales_api ::
  "jwt_decoder \<Rightarrow> (string \<Rightarrow> uuid option) \<Rightarrow> auth_settings \<Rightarrow> sales_env \<Rightarrow> caller \<Rightarrow> clock
   \<Rightarrow> sales_request \<Rightarrow> sales_answer op" where
  "sales_api deco uuid_parse auth e c clk rq d =
     (case authorize deco uuid_parse auth (ca_now c) (ca_header c) (ca_slug c) True (sales_permission rq) d of
        Inl x \<Rightarrow> (Inl x, d)
      | Inr cx \<Rightarrow>
          if \<not> sales_request_valid rq then (Inl request_validation_error, d)
          else run_sales_request e cx clk rq d)"

end
