(* ===== verification/Sales_Scope.thy ===== *)
theory Sales_Scope
  imports Sales_Workflow Sales_System Assignments
begin

text \<open>
  The rows a Sales operation of one workspace may touch: leads and products by slug, handoffs,
  receipts and usage rows by identifier, messages, research and approval requests through the lead
  or the outbound action they belong to. Every operation of the Sales components is local to the
  workspace it runs for; the operations of a conversation or of the workflow besides leave every
  approval request as it is and only add pending ones.
\<close>

section \<open>Ownership\<close>

definition owns :: "workspace \<Rightarrow> db \<Rightarrow> uuid \<Rightarrow> bool" where
  "owns ws d k \<longleftrightarrow> (\<exists>l \<in> set (leads d). ld_id l = k \<and> ld_tenant_id l = ws_slug ws)"

definition owns_approval :: "workspace \<Rightarrow> db \<Rightarrow> approval_request \<Rightarrow> bool" where
  "owns_approval ws d a \<longleftrightarrow> (\<exists>k. ap_lead_id a = Some k \<and> owns ws d k) \<or>
     (\<exists>x \<in> set (actions d). oa_approval_request_id x = Some (ap_id a) \<and> oa_workspace_id x = ws_id ws)"

text \<open>The database without the rows of a workspace; \<open>e\<close> says which leads are whose.\<close>

definition sales_others :: "workspace \<Rightarrow> db \<Rightarrow> db \<Rightarrow> db" where
  "sales_others ws e d = d\<lparr>leads := filter (\<lambda>l. ld_tenant_id l \<noteq> ws_slug ws) (leads d),
     products := filter (\<lambda>p. pr_tenant_id p \<noteq> ws_slug ws) (products d),
     handoffs := filter (\<lambda>h. ho_workspace_id h \<noteq> ws_id ws) (handoffs d),
     turn_receipts := filter (\<lambda>r. tr_workspace_id r \<noteq> ws_id ws) (turn_receipts d),
     usages := filter (\<lambda>u. au_workspace_id u \<noteq> ws_id ws) (usages d),
     workspaces := filter (\<lambda>w. ws_id w \<noteq> ws_id ws) (workspaces d),
     messages := filter (\<lambda>m. \<not> owns ws e (cm_lead_id m)) (messages d),
     researches := filter (\<lambda>r. \<not> owns ws e (rs_lead_id r)) (researches d),
     approvals := filter (\<lambda>a. \<not> owns_approval ws e a) (approvals d), next_id := 0\<rparr>"

text \<open>Identifiers are unique and from the past; the approval request of an outbound action has no
  lead and belongs to actions of one workspace.\<close>

definition fresh_ids :: "('r \<Rightarrow> uuid) \<Rightarrow> 'r list \<Rightarrow> uuid \<Rightarrow> bool" where
  "fresh_ids key rows n \<longleftrightarrow> distinct (map key rows) \<and> (\<forall>r \<in> set rows. key r < n)"

definition sales_ids :: "db \<Rightarrow> bool" where
  "sales_ids d \<longleftrightarrow> fresh_ids ld_id (leads d) (next_id d) \<and> fresh_ids ap_id (approvals d) (next_id d) \<and>
     fresh_ids ho_id (handoffs d) (next_id d) \<and> fresh_ids tr_id (turn_receipts d) (next_id d)"

definition one_owner :: "outbound_action list \<Rightarrow> bool" where
  "one_owner xs \<longleftrightarrow> (\<forall>x \<in> set xs. \<forall>y \<in> set xs. \<forall>k. oa_approval_request_id x = Some k \<longrightarrow>
     oa_approval_request_id y = Some k \<longrightarrow> oa_workspace_id y = oa_workspace_id x)"

definition action_links :: "db \<Rightarrow> bool" where
  "action_links d \<longleftrightarrow> one_owner (actions d) \<and>
     (\<forall>x \<in> set (actions d). \<forall>k. oa_approval_request_id x = Some k \<longrightarrow> k < next_id d) \<and>
     (\<forall>x \<in> set (actions d). \<forall>a \<in> set (approvals d). oa_approval_request_id x = Some (ap_id a) \<longrightarrow> ap_lead_id a = None)"

definition sales_links :: "db \<Rightarrow> bool" where
  "sales_links d \<longleftrightarrow> sales_ids d \<and> action_links d"

definition sales_local :: "workspace \<Rightarrow> db \<Rightarrow> db \<Rightarrow> bool" where
  "sales_local ws d d' \<longleftrightarrow> next_id d \<le> next_id d' \<and> (sales_links d \<longrightarrow>
     sales_links d' \<and> sales_others ws d' d' = sales_others ws d' d \<and> (\<forall>k. owns ws d k \<longrightarrow> owns ws d' k))"

text \<open>A request for approval as an operation files it: pending, with no decision.\<close>

definition requested :: "approval_request \<Rightarrow> bool" where
  "requested a \<longleftrightarrow> ap_status a = AP_PENDING \<and> approval_wf a"

definition sales_work :: "workspace \<Rightarrow> db \<Rightarrow> db \<Rightarrow> bool" where
  "sales_work ws d d' \<longleftrightarrow> sales_local ws d d' \<and> workspaces d' = workspaces d \<and>
     (\<forall>k. owns ws d k \<longrightarrow> owns ws d' k) \<and>
     (\<exists>new. approvals d' = approvals d @ new \<and> (\<forall>a \<in> set new. requested a))"

lemma fresh_ids_mono: "fresh_ids key rows n \<Longrightarrow> n \<le> m \<Longrightarrow> fresh_ids key rows m"
  by (fastforce simp: fresh_ids_def)

lemma fresh_ids_Suc [simp]: "fresh_ids key rows n \<Longrightarrow> fresh_ids key rows (Suc n)"
  by (erule fresh_ids_mono) simp

lemma fresh_ids_append: "fresh_ids key rows n \<Longrightarrow> key r = n \<Longrightarrow> fresh_ids key (rows @ [r]) (Suc n)"
  by (auto simp: fresh_ids_def)

lemma fresh_ids_update: "fresh_ids key rows n \<Longrightarrow> fresh_ids key (row_update key r rows) n"
proof -
  assume f: "fresh_ids key rows n"
  have "key x \<in> key ` set rows" if "x \<in> set (row_update key r rows)" for x
    using that by (metis map_key_row_update image_eqI set_map)
  then have "key x < n" if "x \<in> set (row_update key r rows)" for x
    using that f by (fastforce simp: fresh_ids_def)
  with f show ?thesis by (simp add: fresh_ids_def)
qed

lemma fresh_ids_filter: "fresh_ids key rows n \<Longrightarrow> fresh_ids key (filter P rows) n"
  by (simp add: fresh_ids_def distinct_map_filter)

lemma fresh_ids_eq: "fresh_ids key rows n \<Longrightarrow> x \<in> set rows \<Longrightarrow> y \<in> set rows \<Longrightarrow> key x = key y \<Longrightarrow> x = y"
  by (auto simp: fresh_ids_def distinct_map dest: inj_onD)

lemma sales_local_refl [simp, intro]: "sales_local ws d d"
  by (simp add: sales_local_def)

lemma sales_work_refl [simp, intro]: "sales_work ws d d"
  by (simp add: sales_work_def)

lemma sales_work_local: "sales_work ws d d' \<Longrightarrow> sales_local ws d d'"
  by (simp add: sales_work_def)

lemma owns_approval_mono:
  "owns_approval ws d a \<Longrightarrow> (\<And>k. owns ws d k \<Longrightarrow> owns ws d' k) \<Longrightarrow> actions d' = actions d \<Longrightarrow>
   owns_approval ws d' a"
  by (auto simp: owns_approval_def)

lemma filter_neither: "(\<And>x. A x \<Longrightarrow> B x) \<Longrightarrow> filter (\<lambda>x. \<not> A x \<and> \<not> B x) xs = filter (\<lambda>x. \<not> B x) xs"
  by (rule filter_cong) auto

lemma sales_others_absorb:
  assumes own: "\<And>k. owns ws e k \<Longrightarrow> owns ws e' k" and "actions e' = actions e"
  shows "sales_others ws e' (sales_others ws e d) = sales_others ws e' d"
proof -
  note fold = filter_neither [where A = "owns_approval ws e" and B = "owns_approval ws e'", OF owns_approval_mono [OF _ assms]]
    filter_neither [where A = "\<lambda>m. owns ws e (cm_lead_id m)" and B = "\<lambda>m. owns ws e' (cm_lead_id m)", OF own]
    filter_neither [where A = "\<lambda>m. owns ws e (rs_lead_id m)" and B = "\<lambda>m. owns ws e' (rs_lead_id m)", OF own]
  show ?thesis by (simp add: sales_others_def fold)
qed

lemma sales_others_fields:
  "actions (sales_others ws e d) = actions d" "members (sales_others ws e d) = members d"
  "users (sales_others ws e d) = users d"
  by (simp_all add: sales_others_def)

lemma sales_others_actions: "sales_others ws e d' = sales_others ws e d \<Longrightarrow> actions d' = actions d"
  by (metis sales_others_fields(1))

lemma sales_local_trans:
  assumes "sales_local ws d d'" "sales_local ws d' d''"
  shows "sales_local ws d d''"
  unfolding sales_local_def
proof (rule conjI, use assms in \<open>simp add: sales_local_def\<close>, rule impI)
  assume "sales_links d"
  with assms have a: "sales_links d'" "sales_others ws d' d' = sales_others ws d' d" "\<And>k. owns ws d k \<Longrightarrow> owns ws d' k"
    and b: "sales_links d''" "sales_others ws d'' d'' = sales_others ws d'' d'" "\<And>k. owns ws d' k \<Longrightarrow> owns ws d'' k"
    by (simp_all add: sales_local_def)
  have "sales_others ws d'' (sales_others ws d' d') = sales_others ws d'' (sales_others ws d' d)" by (simp add: a(2))
  then have "sales_others ws d'' d' = sales_others ws d'' d"
    by (simp add: sales_others_absorb [of ws d' d'', OF b(3) sales_others_actions [OF b(2)]])
  with a b show "sales_links d'' \<and> sales_others ws d'' d'' = sales_others ws d'' d \<and> (\<forall>k. owns ws d k \<longrightarrow> owns ws d'' k)"
    by simp
qed

lemma sales_work_trans: "sales_work ws d d' \<Longrightarrow> sales_work ws d' d'' \<Longrightarrow> sales_work ws d d''"
proof -
  assume a: "sales_work ws d d'" and b: "sales_work ws d' d''"
  then obtain n1 n2 where "approvals d' = approvals d @ n1" "\<forall>a \<in> set n1. requested a"
    "approvals d'' = approvals d' @ n2" "\<forall>a \<in> set n2. requested a"
    by (auto simp: sales_work_def)
  then have "approvals d'' = approvals d @ (n1 @ n2) \<and> (\<forall>a \<in> set (n1 @ n2). requested a)" by auto
  moreover have "sales_local ws d d''" "workspaces d'' = workspaces d" "\<forall>k. owns ws d k \<longrightarrow> owns ws d'' k"
    using a b sales_local_trans [of ws d d' d''] by (simp_all add: sales_work_def)
  ultimately show ?thesis unfolding sales_work_def by blast
qed

lemma sales_work_owns: "sales_work ws d d' \<Longrightarrow> owns ws d k \<Longrightarrow> owns ws d' k"
  by (simp add: sales_work_def)

text \<open>A last change that is local because of what came before it.\<close>

lemma sales_work_then:
  assumes w: "sales_work ws d d1" and last: "sales_links d \<Longrightarrow> sales_work ws d1 d2"
    and frame: "workspaces d2 = workspaces d1" "approvals d2 = approvals d1" "leads d2 = leads d1"
      "next_id d1 \<le> next_id d2"
  shows "sales_work ws d d2"
proof -
  have "sales_local ws d d2"
  proof (cases "sales_links d")
    case True
    from sales_local_trans [OF sales_work_local [OF w] sales_work_local [OF last [OF True]]] show ?thesis .
  next
    case False
    with w frame show ?thesis by (simp add: sales_local_def sales_work_def)
  qed
  with w frame show ?thesis by (simp add: sales_work_def owns_def)
qed

section \<open>Rows\<close>

lemma sales_ids_frame:
  assumes "sales_ids d" "leads d' = leads d" "approvals d' = approvals d" "handoffs d' = handoffs d"
    "turn_receipts d' = turn_receipts d" "next_id d \<le> next_id d'"
  shows "sales_ids d'"
  using assms by (simp add: sales_ids_def) (blast intro: fresh_ids_mono)

lemma action_links_frame:
  assumes "action_links d" "approvals d' = approvals d" "actions d' = actions d" "next_id d \<le> next_id d'"
  shows "action_links d'"
proof -
  have "k < next_id d'" if "x \<in> set (actions d)" "oa_approval_request_id x = Some k" for x k
    using that assms(1,4) unfolding action_links_def by (meson less_le_trans)
  then show ?thesis using assms(1) by (simp add: action_links_def assms(2,3))
qed

lemma owns_simps [simp]:
  "owns ws (d\<lparr>messages := m\<rparr>) = owns ws d" "owns ws (d\<lparr>researches := r\<rparr>) = owns ws d"
  "owns ws (d\<lparr>approvals := a\<rparr>) = owns ws d" "owns ws (d\<lparr>handoffs := h\<rparr>) = owns ws d"
  "owns ws (d\<lparr>turn_receipts := t\<rparr>) = owns ws d" "owns ws (d\<lparr>usages := u\<rparr>) = owns ws d"
  "owns ws (d\<lparr>products := p\<rparr>) = owns ws d" "owns ws (d\<lparr>workspaces := w\<rparr>) = owns ws d"
  "owns ws (d\<lparr>next_id := n\<rparr>) = owns ws d"
  by (simp_all add: owns_def fun_eq_iff)

lemma owns_approval_simps [simp]:
  "owns_approval ws (d\<lparr>messages := m\<rparr>) = owns_approval ws d" "owns_approval ws (d\<lparr>researches := r\<rparr>) = owns_approval ws d"
  "owns_approval ws (d\<lparr>approvals := a\<rparr>) = owns_approval ws d" "owns_approval ws (d\<lparr>handoffs := h\<rparr>) = owns_approval ws d"
  "owns_approval ws (d\<lparr>turn_receipts := t\<rparr>) = owns_approval ws d" "owns_approval ws (d\<lparr>usages := u\<rparr>) = owns_approval ws d"
  "owns_approval ws (d\<lparr>products := p\<rparr>) = owns_approval ws d" "owns_approval ws (d\<lparr>workspaces := w\<rparr>) = owns_approval ws d"
  "owns_approval ws (d\<lparr>next_id := n\<rparr>) = owns_approval ws d"
  by (simp_all add: owns_approval_def fun_eq_iff)

lemma sales_others_cong:
  assumes "leads e' = leads e" "actions e' = actions e"
  shows "sales_others ws e' d = sales_others ws e d"
proof -
  have "owns ws e' = owns ws e" "owns_approval ws e' = owns_approval ws e"
    using assms by (simp_all add: owns_def owns_approval_def fun_eq_iff)
  then show ?thesis by (simp add: sales_others_def)
qed

text \<open>How a change that leaves the leads shows local.\<close>

lemma sales_localI:
  assumes "sales_links d \<Longrightarrow> sales_links d'" "leads d' = leads d"
    and "sales_links d \<Longrightarrow> sales_others ws d d' = sales_others ws d d" and "next_id d \<le> next_id d'"
  shows "sales_local ws d d'"
  unfolding sales_local_def
proof (rule conjI [OF assms(4)], rule impI)
  assume l: "sales_links d"
  have "owns ws d' = owns ws d" using assms(2) by (simp add: owns_def fun_eq_iff)
  moreover have "sales_others ws d' x = sales_others ws d x" for x
    by (rule sales_others_cong [OF assms(2) sales_others_actions [OF assms(3) [OF l]]])
  ultimately show "sales_links d' \<and> sales_others ws d' d' = sales_others ws d' d \<and> (\<forall>k. owns ws d k \<longrightarrow> owns ws d' k)"
    using assms(1,3) l by simp
qed

lemma sales_workI:
  assumes "sales_links d \<Longrightarrow> sales_links d'" "leads d' = leads d"
    and "sales_links d \<Longrightarrow> sales_others ws d d' = sales_others ws d d"
    and "workspaces d' = workspaces d" "approvals d' = approvals d @ new" "\<forall>a \<in> set new. requested a" "next_id d \<le> next_id d'"
  shows "sales_work ws d d'"
  unfolding sales_work_def using sales_localI [OF assms(1-3,7)] assms(2,4-6) by (auto simp: owns_def)

lemma sales_links_frame:
  assumes "sales_links d" "leads d' = leads d" "approvals d' = approvals d" "handoffs d' = handoffs d"
    "turn_receipts d' = turn_receipts d" "actions d' = actions d" "next_id d \<le> next_id d'"
  shows "sales_links d'"
  unfolding sales_links_def
  using sales_ids_frame [OF _ assms(2-5,7)] action_links_frame [OF _ assms(3,6,7)] assms(1)
  by (simp add: sales_links_def)

lemma work_take_id [simp, intro]: "sales_work ws d (take_id d)"
  by (rule sales_workI [where new = "[]"]) (auto simp: take_id_def sales_others_def elim: sales_links_frame)

lemma work_next: "next_id d \<le> n \<Longrightarrow> sales_work ws d (d\<lparr>next_id := n\<rparr>)"
  by (rule sales_workI [where new = "[]"]) (auto simp: sales_others_def elim: sales_links_frame)

lemma work_message: "owns ws d (cm_lead_id m) \<Longrightarrow> sales_work ws d (add_message m d)"
  by (rule sales_workI [where new = "[]"]) (auto simp: add_message_def take_id_def sales_others_def elim: sales_links_frame)

lemma work_usage:
  "au_workspace_id u = ws_id ws \<Longrightarrow> sales_work ws d (take_id d\<lparr>usages := usages d @ [u]\<rparr>)"
  by (rule sales_workI [where new = "[]"]) (auto simp: take_id_def sales_others_def elim: sales_links_frame)

lemma work_product:
  "pr_tenant_id p = ws_slug ws \<Longrightarrow> sales_work ws d (take_id (d\<lparr>products := products d @ [p]\<rparr>))"
  by (rule sales_workI [where new = "[]"]) (auto simp: take_id_def sales_others_def elim: sales_links_frame)

lemma work_research:
  "owns ws d (rs_lead_id r) \<Longrightarrow> sales_work ws d (take_id (d\<lparr>researches := researches d @ [r]\<rparr>))"
  by (rule sales_workI [where new = "[]"]) (auto simp: take_id_def sales_others_def elim: sales_links_frame)

lemma work_handoff:
  assumes h: "ho_workspace_id h = ws_id ws" "ho_id h = next_id d"
  shows "sales_work ws d (take_id (d\<lparr>handoffs := handoffs d @ [h]\<rparr>))" (is "sales_work ws d ?d")
proof (rule sales_workI [where new = "[]"])
  assume l: "sales_links d"
  have "action_links ?d"
    by (rule action_links_frame [of d]) (use l in \<open>simp_all add: sales_links_def take_id_def\<close>)
  with l show "sales_links ?d"
    by (simp add: sales_links_def sales_ids_def take_id_def fresh_ids_append h)
qed (simp_all add: take_id_def sales_others_def h)

lemma work_receipt:
  assumes r: "tr_workspace_id r = ws_id ws" "tr_id r = next_id d"
  shows "sales_work ws d (take_id (d\<lparr>turn_receipts := turn_receipts d @ [r]\<rparr>))" (is "sales_work ws d ?d")
proof (rule sales_workI [where new = "[]"])
  assume l: "sales_links d"
  have "action_links ?d"
    by (rule action_links_frame [of d]) (use l in \<open>simp_all add: sales_links_def take_id_def\<close>)
  with l show "sales_links ?d"
    by (simp add: sales_links_def sales_ids_def take_id_def fresh_ids_append r)
qed (simp_all add: take_id_def sales_others_def r)

lemma work_approval:
  assumes a: "ap_lead_id a = Some k" "owns ws d k" "ap_id a = next_id d" "requested a"
  shows "sales_work ws d (take_id (insert_approval a d))" (is "sales_work ws d ?d")
proof (rule sales_workI [where new = "[a]"])
  assume l: "sales_links d"
  then have links: "action_links d" by (simp add: sales_links_def)
  have "k < Suc (next_id d) \<and> k \<noteq> next_id d" if "x \<in> set (actions d)" "oa_approval_request_id x = Some k" for x k
    using that links unfolding action_links_def by (metis less_SucI less_irrefl)
  then have "action_links ?d"
    using links by (auto simp: action_links_def take_id_def insert_approval_def a)
  with l show "sales_links ?d"
    by (simp add: sales_links_def sales_ids_def take_id_def insert_approval_def fresh_ids_append a)
qed (use a in \<open>simp_all add: take_id_def insert_approval_def sales_others_def owns_approval_def\<close>)

text \<open>Changed rows: with unique identifiers a changed row of the workspace replaces only itself.\<close>

lemma work_new_lead:
  assumes l: "ld_tenant_id l = ws_slug ws" "ld_id l = next_id d"
  shows "sales_work ws d (take_id (d\<lparr>leads := leads d @ [l]\<rparr>))" (is "sales_work ws d ?d")
proof -
  have "sales_links ?d" if "sales_links d"
  proof -
    have "action_links ?d"
      by (rule action_links_frame [of d]) (use that in \<open>simp_all add: sales_links_def take_id_def\<close>)
    with that show ?thesis
      by (simp add: sales_links_def sales_ids_def take_id_def fresh_ids_append l)
  qed
  then show ?thesis
    by (auto simp: sales_work_def sales_local_def sales_others_def take_id_def owns_def l)
qed

lemma work_save_lead:
  assumes own: "owns ws d (ld_id l)" and t: "ld_tenant_id l = ws_slug ws"
  shows "sales_work ws d (save_lead l d)"
proof -
  have mono: "owns ws (save_lead l d) k" if "owns ws d k" for k
  proof -
    from that obtain x where x: "x \<in> set (leads d)" "ld_id x = k" "ld_tenant_id x = ws_slug ws"
      by (auto simp: owns_def)
    then have "(if ld_id x = ld_id l then l else x) \<in> set (row_update ld_id l (leads d))"
      by (auto simp: row_update_def)
    with x t show ?thesis by (auto simp: owns_def save_lead_def split: if_splits)
  qed
  have "sales_local ws d (save_lead l d)"
    unfolding sales_local_def
  proof (rule conjI, simp add: save_lead_def, rule impI)
    assume links: "sales_links d"
    then have ids: "fresh_ids ld_id (leads d) (next_id d)" by (simp add: sales_links_def sales_ids_def)
    from own obtain l0 where l0: "l0 \<in> set (leads d)" "ld_id l0 = ld_id l" "ld_tenant_id l0 = ws_slug ws"
      by (auto simp: owns_def)
    have only: "x = l0" if "x \<in> set (leads d)" "ld_id x = ld_id l" for x
      using fresh_ids_eq [OF ids that(1) l0(1)] that(2) l0(2) by simp
    have rows: "filter (\<lambda>l. ld_tenant_id l \<noteq> ws_slug ws) (row_update ld_id l (leads d))
        = filter (\<lambda>l. ld_tenant_id l \<noteq> ws_slug ws) (leads d)"
      by (rule filter_row_update_other) (use t in simp, metis only l0(3))
    have "action_links (save_lead l d)"
      by (rule action_links_frame [of d]) (use links in \<open>simp_all add: sales_links_def save_lead_def\<close>)
    then have "sales_links (save_lead l d)"
      using links by (simp add: sales_links_def sales_ids_def save_lead_def fresh_ids_update)
    then show "sales_links (save_lead l d) \<and>
        sales_others ws (save_lead l d) (save_lead l d) = sales_others ws (save_lead l d) d \<and>
        (\<forall>k. owns ws d k \<longrightarrow> owns ws (save_lead l d) k)"
      using rows mono by (simp add: sales_others_def save_lead_def)
  qed
  with mono show ?thesis by (simp add: sales_work_def save_lead_def)
qed

lemma local_save_approval:
  assumes a: "a \<in> set (approvals d)" "owns_approval ws d a" "ap_id a' = ap_id a" "ap_lead_id a' = ap_lead_id a"
  shows "sales_local ws d (save_approval a' d)"
proof (rule sales_localI)
  assume links: "sales_links d"
  then have ids: "fresh_ids ap_id (approvals d) (next_id d)" by (simp add: sales_links_def sales_ids_def)
  have only: "x = a" if "x \<in> set (approvals d)" "ap_id x = ap_id a'" for x
    using fresh_ids_eq [OF ids that(1) a(1)] that(2) a(3) by simp
  have "owns_approval ws d a'" using a(2-4) by (simp add: owns_approval_def)
  then have "filter (\<lambda>x. \<not> owns_approval ws d x) (row_update ap_id a' (approvals d))
      = filter (\<lambda>x. \<not> owns_approval ws d x) (approvals d)"
    by (intro filter_row_update_other) (simp, metis only a(2))
  then show "sales_others ws d (save_approval a' d) = sales_others ws d d"
    by (simp add: sales_others_def save_approval_def)
  have "action_links (save_approval a' d)"
    using links a by (auto simp: sales_links_def action_links_def save_approval_def dest!: row_update_in_set)
  with links show "sales_links (save_approval a' d)"
    by (simp add: sales_links_def sales_ids_def save_approval_def fresh_ids_update)
qed (simp_all add: save_approval_def)

lemma work_save_handoff:
  assumes h: "h \<in> set (handoffs d)" "ho_workspace_id h = ws_id ws" "ho_id h' = ho_id h" "ho_workspace_id h' = ws_id ws"
  shows "sales_work ws d (save_handoff h' d)"
proof (rule sales_workI [where new = "[]"])
  assume links: "sales_links d"
  then have ids: "fresh_ids ho_id (handoffs d) (next_id d)" by (simp add: sales_links_def sales_ids_def)
  have only: "x = h" if "x \<in> set (handoffs d)" "ho_id x = ho_id h'" for x
    using fresh_ids_eq [OF ids that(1) h(1)] that(2) h(3) by simp
  have "filter (\<lambda>x. ho_workspace_id x \<noteq> ws_id ws) (row_update ho_id h' (handoffs d))
      = filter (\<lambda>x. ho_workspace_id x \<noteq> ws_id ws) (handoffs d)"
    by (intro filter_row_update_other) (use h(4) in simp, metis only h(2))
  then show "sales_others ws d (save_handoff h' d) = sales_others ws d d"
    by (simp add: sales_others_def save_handoff_def)
  have "action_links (save_handoff h' d)"
    by (rule action_links_frame [of d]) (use links in \<open>simp_all add: sales_links_def save_handoff_def\<close>)
  with links show "sales_links (save_handoff h' d)"
    by (simp add: sales_links_def sales_ids_def save_handoff_def fresh_ids_update)
qed (simp_all add: save_handoff_def)

text \<open>A receipt is completed or released under the identifier it was reserved with.\<close>

lemma work_receipts:
  assumes rows: "filter (\<lambda>r. tr_workspace_id r \<noteq> ws_id ws) rs = filter (\<lambda>r. tr_workspace_id r \<noteq> ws_id ws) (turn_receipts d)"
    and ids: "fresh_ids tr_id (turn_receipts d) (next_id d) \<Longrightarrow> fresh_ids tr_id rs (next_id d)"
  shows "sales_work ws d (d\<lparr>turn_receipts := rs\<rparr>)"
proof (rule sales_workI [where new = "[]"])
  assume links: "sales_links d"
  have "action_links (d\<lparr>turn_receipts := rs\<rparr>)"
    by (rule action_links_frame [of d]) (use links in \<open>simp_all add: sales_links_def\<close>)
  with links ids show "sales_links (d\<lparr>turn_receipts := rs\<rparr>)"
    by (simp add: sales_links_def sales_ids_def)
qed (simp_all add: sales_others_def rows)

lemma work_save_receipt:
  assumes "tr_workspace_id r = ws_id ws" "\<And>x. x \<in> set (turn_receipts d) \<Longrightarrow> tr_id x = tr_id r \<Longrightarrow> tr_workspace_id x = ws_id ws"
  shows "sales_work ws d (save_turn_receipt r d)" "sales_work ws d (discard_turn_receipt r d)"
proof -
  show "sales_work ws d (save_turn_receipt r d)" unfolding save_turn_receipt_def
    by (intro work_receipts filter_row_update_other fresh_ids_update) (use assms in auto)
  have "filter (\<lambda>x. tr_id x \<noteq> tr_id r \<and> tr_workspace_id x \<noteq> ws_id ws) (turn_receipts d)
      = filter (\<lambda>x. tr_workspace_id x \<noteq> ws_id ws) (turn_receipts d)"
    using assms(2) by (intro filter_cong) auto
  then show "sales_work ws d (discard_turn_receipt r d)" unfolding discard_turn_receipt_def
    by (intro work_receipts fresh_ids_filter) simp_all
qed

lemma local_save_workspace:
  assumes "ws_id w = ws_id ws"
  shows "sales_local ws d (save_workspace w d)"
proof (rule sales_localI)
  have "filter (\<lambda>x. ws_id x \<noteq> ws_id ws) (row_update ws_id w (workspaces d)) = filter (\<lambda>x. ws_id x \<noteq> ws_id ws) (workspaces d)"
    by (rule filter_row_update_other) (use assms in auto)
  then show "sales_others ws d (save_workspace w d) = sales_others ws d d"
    by (simp add: sales_others_def save_workspace_def)
qed (auto simp: save_workspace_def elim: sales_links_frame)

section \<open>AI calls\<close>

lemma usage_record_work:
  assumes "usage_table persist" "usage_record persist c ws u now d = (r, d')"
  shows "sales_work ws d d'"
proof (cases "usage_row c ws u now (next_id d)")
  case (Inl x)
  with assms(2) show ?thesis by (simp add: usage_record_def)
next
  case row: (Inr row)
  show ?thesis
  proof (cases "persist row")
    case None
    with assms(2) row have "d' = take_id d" by (simp add: usage_record_def)
    then show ?thesis by simp
  next
    case (Some row')
    with assms(2) row have "d' = take_id d\<lparr>usages := usages d @ [row']\<rparr>" by (simp add: usage_record_def)
    moreover have "au_workspace_id row' = ws_id ws"
      using usage_tableD(1) [OF assms(1) Some] usage_row_InrD(1) [OF row] by simp
    ultimately show ?thesis by (simp add: work_usage)
  qed
qed

lemma record_failed_work: "usage_table persist \<Longrightarrow> sales_work ws d (record_failed persist g ws r provider model lat now d)"
  unfolding record_failed_def gateway_record_def
  by (rule usage_record_work) (assumption, rule prod.collapse [symmetric])

lemma gateway_call_work:
  assumes "usage_table persist"
    and "gateway_call persist transport perf now g ws r routing decision sel provider model d = (res, d')"
  shows "sales_work ws d d'"
  using assms
  by (auto simp: gateway_call_def gateway_record_def split: sum.splits prod.splits
      intro: record_failed_work dest: usage_record_work)

lemma gateway_invoke_work:
  assumes "gateway_invoke persist transport perf now g ws r d = (res, d')" and "usage_table persist"
  shows "sales_work ws d d'"
  using assms(1) by (cases rule: gateway_invoke_cases) (auto dest: gateway_call_work [OF assms(2)])

lemma agent_invoke_work:
  "agent_invoke e a r now d = (x, y) \<Longrightarrow> usage_table (en_persist e) \<Longrightarrow> ag_workspace a = Some ws \<Longrightarrow> sales_work ws d y"
  by (auto simp: agent_invoke_def split: option.splits prod.splits sum.splits dest: gateway_invoke_work)

lemma draft_reply_work:
  "draft_reply e a l m history current now d = (x, y) \<Longrightarrow> usage_table (en_persist e) \<Longrightarrow> ag_workspace a = Some ws \<Longrightarrow>
   sales_work ws d y"
  by (auto simp: draft_reply_def Let_def split: if_splits prod.splits sum.splits dest: agent_invoke_work)

section \<open>Turns\<close>

lemma owns_row: "get_lead_row k d = Some l \<Longrightarrow> ld_tenant_id l = ws_slug ws \<Longrightarrow> owns ws d k"
  by (auto simp: get_lead_row_def owns_def dest: row_find_SomeD)

lemma ensure_handoff_work:
  assumes "ensure_sales_handoff ws l reason x t d = (res, d')"
  shows "sales_work ws d d'"
  using assms
  by (auto simp: ensure_sales_handoff_def Let_def new_handoff_def intro!: work_handoff split: if_splits option.splits)

lemma turn_reply_work:
  assumes "turn_reply e s l i h history canonical clk d = (res, d')" and "usage_table (en_persist e)"
  shows "sales_work (sv_workspace s) d d'"
  using assms
  by (auto simp: turn_reply_def turn_agent_context_def split: if_splits option.splits prod.splits sum.splits
      dest: ensure_handoff_work draft_reply_work)

lemma persist_turn_work:
  assumes "persist_turn s l i stage reply clk d = (res, d')" and own: "owns ws d (ld_id l)"
  shows "sales_work ws d d'"
proof -
  let ?d1 = "add_message (new_message (ld_id l) ''inbound'' (ti_channel i) stage (ti_message i) (clk 1) d) d"
  have first: "sales_work ws d ?d1" by (rule work_message) (simp add: new_message_def own)
  have own1: "owns ws ?d1 (ld_id l)" using own by (simp add: add_message_def take_id_def)
  have "sales_work ws ?d1 d'"
  proof (cases "ss_require_human_approval (sv_settings s)")
    case True
    with assms(1) have "d' = take_id (insert_approval (new_approval (ld_id l) (ti_channel i)
        (reply_payload l stage reply) ''send_message'' (clk 2) ?d1) ?d1)"
      by (simp add: persist_turn_def create_approval_def Let_def)
    then show ?thesis using own1
      by (auto simp: new_approval_def requested_def approval_wf_def intro: work_approval [where k = "ld_id l"])
  next
    case False
    with assms(1) have "d' = add_message (new_message (ld_id l) ''outbound'' (ti_channel i) stage reply (clk 2) ?d1) ?d1"
      by (simp add: persist_turn_def Let_def)
    then show ?thesis using own1 by (auto simp: new_message_def intro!: work_message)
  qed
  with first show ?thesis by (rule sales_work_trans)
qed

lemma process_turn_work:
  assumes run: "process_turn e s i clk d = (res, d')" and ut: "usage_table (en_persist e)"
  shows "sales_work (sv_workspace s) d d'"
proof (cases "\<exists>l. get_lead_row (ti_lead_id i) d = Some l \<and> ld_tenant_id l = ws_slug (sv_workspace s)")
  case False
  with run have "d' = d" by (auto simp: process_turn_def get_lead_def split: option.splits if_splits)
  then show ?thesis by simp
next
  case True
  let ?ws = "sv_workspace s"
  from True obtain l where l: "get_lead_row (ti_lead_id i) d = Some l" "ld_tenant_id l = ws_slug ?ws" by blast
  let ?h = "turn_handoff ?ws (ld_id l) (ti_signals i) d"
  obtain x d1 where reply: "turn_reply e s l i ?h (conversation_history (ld_id l) 20 d) (ld_sales_stage l) clk d = (x, d1)"
    by fastforce
  note w1 = turn_reply_work [OF reply ut]
  show ?thesis
  proof (cases x)
    case (Inl y)
    with run l reply have "d' = d1"
      by (auto simp: process_turn_def get_lead_def canonical_stage_for_def Let_def)
    with w1 show ?thesis by simp
  next
    case (Inr y)
    obtain stage body ai where y: "y = (stage, body, ai)" by (cases y) auto
    obtain approval d2 where p: "persist_turn s l i stage body clk d1 = (approval, d2)" by fastforce
    from run l reply Inr y p have "d' = d2"
      by (auto simp: process_turn_def get_lead_def canonical_stage_for_def Let_def)
    moreover have "owns ?ws d1 (ld_id l)"
      using owns_row [OF l] lds.get_ident [OF l(1)] reply_frame_same(3) [OF turn_reply_frame [OF reply]]
      by (simp add: owns_def)
    ultimately show ?thesis using sales_work_trans [OF w1 persist_turn_work [OF p]] by simp
  qed
qed

lemma direct_turn_work:
  assumes "direct_turn e s i clk d = (res, d')" and "usage_table (en_persist e)"
  shows "sales_work (ds_workspace s) d d'"
  using assms
  by (auto simp: direct_turn_def make_turn_service_def bindE_Inr_iff split: sum.splits dest: process_turn_work)

text \<open>The receipt a turn reserves is still its workspace's when the turn has ended.\<close>

lemma receipt_still_own:
  assumes w: "sales_work ws d d'" and links: "sales_links d"
    and r: "r \<in> set (turn_receipts d)" "tr_workspace_id r = ws_id ws"
    and x: "x \<in> set (turn_receipts d')" "tr_id x = tr_id r"
  shows "tr_workspace_id x = ws_id ws"
proof (rule ccontr)
  assume "tr_workspace_id x \<noteq> ws_id ws"
  with x(1) have "x \<in> set (turn_receipts (sales_others ws d' d'))" by (simp add: sales_others_def)
  also have "sales_others ws d' d' = sales_others ws d' d" using w links by (simp add: sales_work_def sales_local_def)
  finally have "x \<in> set (turn_receipts d)" "tr_workspace_id x \<noteq> ws_id ws" by (simp_all add: sales_others_def)
  moreover have "x = r"
    by (rule fresh_ids_eq [of tr_id "turn_receipts d" "next_id d"]) (use links calculation(1) r(1) x(2) in \<open>simp_all add: sales_links_def sales_ids_def\<close>)
  ultimately show False using r(2) by simp
qed

lemma process_direct_work:
  assumes run: "process_direct sha256 e s i key clk d = (res, d')" and ut: "usage_table (en_persist e)"
  shows "sales_work (ds_workspace s) d d'"
proof -
  let ?ws = "ds_workspace s"
  have plain: ?thesis if "key = None"
    using run ut that by (auto simp: process_direct_def split: prod.splits sum.splits dest: direct_turn_work)
  show ?thesis
  proof (cases "\<exists>k nk l. key = Some k \<and> normalize_key k = Inr nk \<and> get_lead_row (ti_lead_id i) d = Some l \<and>
      ld_tenant_id l = ws_slug ?ws")
    case False
    with run plain have "d' = d \<or> ?thesis"
      by (cases key) (auto simp: process_direct_def get_lead_def Let_def split: sum.splits option.splits if_splits)
    then show ?thesis by auto
  next
    case True
    then obtain k nk l where k: "key = Some k" "normalize_key k = Inr nk"
      and l: "get_lead_row (ti_lead_id i) d = Some l" "ld_tenant_id l = ws_slug ?ws" by blast
    show ?thesis
    proof (cases "find_turn_receipt (ws_id ?ws) (ld_id l) nk d")
      case (Some r)
      with run k l have "d' = take_id d"
        by (auto simp: process_direct_def get_lead_def reserve_turn_receipt_def Let_def)
      then show ?thesis by simp
    next
      case None
      let ?r = "new_turn_receipt ?ws l nk (request_fingerprint sha256 i) (clk 4) d"
      let ?d1 = "take_id (d\<lparr>turn_receipts := turn_receipts d @ [?r]\<rparr>)"
      have r: "tr_workspace_id ?r = ws_id ?ws" "tr_id ?r = next_id d" by (simp_all add: new_turn_receipt_def)
      have first: "sales_work ?ws d ?d1" by (rule work_receipt [OF r])
      obtain out d2 where turn: "direct_turn e s i clk ?d1 = (out, d2)" by fastforce
      note work = direct_turn_work [OF turn ut]
      have own: "tr_workspace_id x = ws_id ?ws"
        if "sales_links d" "x \<in> set (turn_receipts d2)" "tr_id x = tr_id ?r" for x
        by (rule receipt_still_own [OF work _ _ r(1) that(2,3)])
          (use first that(1) in \<open>simp_all add: sales_work_def sales_local_def take_id_def\<close>)
      have "d' = d2 \<or> d' = discard_turn_receipt ?r d2 \<or>
          (\<exists>r'. tr_workspace_id r' = ws_id ?ws \<and> tr_id r' = tr_id ?r \<and> d' = save_turn_receipt r' d2)"
      proof (cases out)
        case (Inl x)
        with run k l None turn show ?thesis
          by (auto simp: process_direct_def get_lead_def reserve_turn_receipt_def Let_def)
      next
        case (Inr x)
        with run k l None turn have "d' = save_turn_receipt (completed_receipt ?r x (clk 5)) d2"
          by (auto simp: process_direct_def get_lead_def reserve_turn_receipt_def Let_def complete_turn_receipt_eq)
        then show ?thesis
          by (intro disjI2 exI [of _ "completed_receipt ?r x (clk 5)"]) (simp add: completed_receipt_def complete_turn_receipt_def Let_def r)
      qed
      then show ?thesis
      proof (elim disjE exE conjE)
        assume "d' = d2"
        with sales_work_trans [OF first work] show ?thesis by simp
      next
        assume d': "d' = discard_turn_receipt ?r d2"
        show ?thesis
          by (rule sales_work_then [OF sales_work_trans [OF first work]])
            (use own r(1) in \<open>auto simp: d' discard_turn_receipt_def intro!: work_save_receipt(2) [unfolded discard_turn_receipt_def]\<close>)
      next
        fix r' assume r': "tr_workspace_id r' = ws_id ?ws" "tr_id r' = tr_id ?r" and d': "d' = save_turn_receipt r' d2"
        show ?thesis
          by (rule sales_work_then [OF sales_work_trans [OF first work]])
            (use own r' in \<open>auto simp: d' save_turn_receipt_def intro!: work_save_receipt(1) [unfolded save_turn_receipt_def]\<close>)
      qed
    qed
  qed
qed

section \<open>The workflow\<close>

text \<open>A node that keeps the loaded lead the workspace's and works for it.\<close>

definition own_state :: "workspace \<Rightarrow> workflow_state \<Rightarrow> db \<Rightarrow> bool" where
  "own_state ws w d \<longleftrightarrow> (\<forall>l. wf_lead w = Some l \<longrightarrow> owns ws d (ld_id l) \<and> ld_tenant_id l = ws_slug ws)"

definition node_work :: "workspace \<Rightarrow> node \<Rightarrow> bool" where
  "node_work ws n \<longleftrightarrow> (\<forall>w d r d'. n w d = (r, d') \<longrightarrow> sales_links d \<longrightarrow> own_state ws w d \<longrightarrow>
     sales_work ws d d' \<and> (\<forall>w'. r = Inr w' \<longrightarrow> own_state ws w' d'))"

lemma node_workI:
  assumes "\<And>w d r d'. n w d = (r, d') \<Longrightarrow> sales_links d \<Longrightarrow> own_state ws w d \<Longrightarrow> sales_work ws d d'"
    and "\<And>w d w' d'. n w d = (Inr w', d') \<Longrightarrow> wf_lead w' = wf_lead w"
  shows "node_work ws n"
  unfolding node_work_def
proof (intro allI impI)
  fix w d r d' assume n: "n w d = (r, d')" and links: "sales_links d" and own: "own_state ws w d"
  note work = assms(1) [OF n links own]
  moreover have "own_state ws w' d'" if "r = Inr w'" for w'
    using own assms(2) [OF n [unfolded that]] sales_work_owns [OF work] by (simp add: own_state_def)
  ultimately show "sales_work ws d d' \<and> (\<forall>w'. r = Inr w' \<longrightarrow> own_state ws w' d')" by blast
qed

lemma node_work_links: "sales_work ws d d' \<Longrightarrow> sales_links d \<Longrightarrow> sales_links d'"
  by (simp add: sales_work_def sales_local_def)

lemma then_node_work:
  assumes m: "node_work ws m" and n: "node_work ws n"
  shows "node_work ws (then_node m n)"
  unfolding node_work_def
proof (intro allI impI)
  fix w d r d' assume run: "then_node m n w d = (r, d')" and links: "sales_links d" and own: "own_state ws w d"
  obtain x d1 where x: "m w d = (x, d1)" by fastforce
  with m links own have w1: "sales_work ws d d1" and own1: "\<And>w'. x = Inr w' \<Longrightarrow> own_state ws w' d1"
    unfolding node_work_def by blast+
  show "sales_work ws d d' \<and> (\<forall>w'. r = Inr w' \<longrightarrow> own_state ws w' d')"
  proof (cases x)
    case (Inl e)
    with run x w1 show ?thesis by (auto simp: then_node_def)
  next
    case (Inr w')
    with run x have "n w' d1 = (r, d')" by (simp add: then_node_def)
    with n own1 [OF Inr] node_work_links [OF w1 links]
    have "sales_work ws d1 d' \<and> (\<forall>w'. r = Inr w' \<longrightarrow> own_state ws w' d')"
      unfolding node_work_def by blast
    with sales_work_trans [OF w1] show ?thesis by blast
  qed
qed

lemma live_lead_own:
  assumes "live_lead w d = Inr l" and own: "own_state ws w d" and links: "sales_links d"
  shows "owns ws d (ld_id l)" "ld_tenant_id l = ws_slug ws"
proof -
  from assms(1) obtain l0 where l0: "wf_lead w = Some l0"
    and l: "get_lead_row (ld_id l0) d = Some l \<or> (get_lead_row (ld_id l0) d = None \<and> l = l0)"
    by (auto simp: live_lead_def split: option.splits)
  from own l0 obtain x where x: "x \<in> set (leads d)" "ld_id x = ld_id l0" "ld_tenant_id x = ws_slug ws"
    by (auto simp: own_state_def owns_def)
  with l have row: "l \<in> set (leads d)" "ld_id l = ld_id l0"
    by (auto simp: get_lead_row_def row_find_None_iff image_iff dest: row_find_SomeD)
  have "l = x"
    by (rule fresh_ids_eq [of ld_id "leads d" "next_id d"]) (use links row x in \<open>simp_all add: sales_links_def sales_ids_def\<close>)
  with x show "owns ws d (ld_id l)" "ld_tenant_id l = ws_slug ws" by (auto simp: owns_def)
qed

lemma save_research_work:
  assumes "save_research l s ps os ev clk d = (r, d')" and "owns ws d (ld_id l)" "ld_tenant_id l = ws_slug ws"
  shows "sales_work ws d d'"
proof -
  let ?d1 = "save_lead (researched_lead l (clk 1)) d"
  have first: "sales_work ws d ?d1" by (rule work_save_lead) (use assms in \<open>simp_all add: researched_lead_def\<close>)
  have d': "d' = take_id (?d1\<lparr>researches := researches ?d1 @ [r]\<rparr>)" and r: "rs_lead_id r = ld_id l"
    using assms(1) by (auto simp: save_research_def Let_def save_lead_def)
  have "sales_work ws ?d1 d'" unfolding d'
    by (rule work_research) (use sales_work_owns [OF first assms(2)] r in simp)
  with first show ?thesis by (rule sales_work_trans)
qed

lemma run_research_work:
  assumes run: "run_research e a l clk d = (res, d')" and ut: "usage_table (en_persist e)"
    and a: "ag_workspace a = Some ws" and own: "owns ws d (ld_id l)" "ld_tenant_id l = ws_slug ws"
  shows "sales_work ws d d'"
proof (cases "lead_domain (en_bracket_ok e) l")
  case (Inl x)
  with run show ?thesis by (simp add: run_research_def)
next
  case (Inr domain)
  obtain y d1 where y: "(if demo_mode a then (Inr (demo_research l domain), d)
      else case agent_invoke e a (agent_request ''simple_summary'' ''sales.lead_research'' ''lead_research''
             (compose (research_prompt_input a l)) l) (clk 2) d of
          (Inl x, d') \<Rightarrow> (Inl x, d')
        | (Inr summary, d') \<Rightarrow> (Inr (ai_research l summary), d')) = (y, d1)"
    by fastforce
  then have first: "sales_work ws d d1"
    using agent_invoke_work [OF _ ut a] by (auto split: if_splits prod.splits sum.splits)
  show ?thesis
  proof (cases y)
    case (Inl x)
    with run Inr y first show ?thesis by (simp add: run_research_def)
  next
    case b: (Inr b)
    obtain r d2 where s: "save_research l (rb_summary b) (rb_pain_points b) (rb_opportunities b) (rb_evidence b) clk d1 = (r, d2)"
      by fastforce
    with run Inr y b have "d' = d2" by (simp add: run_research_def)
    with sales_work_trans [OF first save_research_work [OF s sales_work_owns [OF first own(1)] own(2)]] show ?thesis by simp
  qed
qed

lemma research_node: "usage_table (en_persist e) \<Longrightarrow> ag_workspace a = Some ws \<Longrightarrow> node_work ws (research_lead e a clk)"
proof (rule node_workI)
  fix w d r d'
  assume ut: "usage_table (en_persist e)" and a: "ag_workspace a = Some ws"
    and run: "research_lead e a clk w d = (r, d')" and links: "sales_links d" and own: "own_state ws w d"
  show "sales_work ws d d'"
  proof (cases "live_lead w d")
    case (Inl x)
    with run show ?thesis by (simp add: research_lead_def)
  next
    case (Inr l)
    with run show ?thesis
      by (auto simp: research_lead_def split: prod.splits sum.splits
          dest: run_research_work [OF _ ut a live_lead_own [OF Inr own links]])
  qed
qed (auto simp: research_lead_def split: prod.splits sum.splits)

lemma qualify_node: "node_work ws (qualify_lead clk)"
proof (rule node_workI)
  fix w d r d'
  assume run: "qualify_lead clk w d = (r, d')" and links: "sales_links d" and own: "own_state ws w d"
  show "sales_work ws d d'"
  proof (cases "live_lead w d")
    case (Inl x)
    with run show ?thesis by (simp add: qualify_lead_def)
  next
    case (Inr l)
    note l = live_lead_own [OF Inr own links]
    from run Inr show ?thesis
      by (auto simp: qualify_lead_def run_qualification_def update_lead_score_def Let_def l
          split: option.splits intro!: work_save_lead)
  qed
qed (auto simp: qualify_lead_def Let_def split: prod.splits sum.splits option.splits)

lemma prepare_node: "node_work ws (prepare_outreach a clk)"
proof (rule node_workI)
  fix w d r d'
  assume run: "prepare_outreach a clk w d = (r, d')" and links: "sales_links d" and own: "own_state ws w d"
  show "sales_work ws d d'"
  proof (cases "live_lead w d")
    case (Inl x)
    with run show ?thesis by (simp add: prepare_outreach_def)
  next
    case (Inr l)
    note l = live_lead_own [OF Inr own links]
    from run Inr show ?thesis
      by (auto simp: prepare_outreach_def create_approval_def new_approval_def Let_def requested_def approval_wf_def
          split: option.splits list.splits intro!: work_approval [OF _ l(1)])
  qed
qed (auto simp: prepare_outreach_def Let_def split: prod.splits sum.splits option.splits list.splits)

lemma stop_node: "node_work ws stop_unqualified"
  by (rule node_workI) (auto simp: stop_unqualified_def)

lemma choice_node: "node_work ws m \<Longrightarrow> node_work ws n \<Longrightarrow> node_work ws (\<lambda>w. if P w then m w else n w)"
  by (simp add: node_work_def split: if_splits)

lemma run_new_lead_work:
  assumes run: "run_new_lead e a k clk d = (res, d')" and ut: "usage_table (en_persist e)"
    and a: "ag_workspace a = Some ws" and l: "get_lead_row k d = Some l" "ld_tenant_id l = ws_slug ws"
    and links: "sales_links d"
  shows "sales_work ws d d'"
proof -
  let ?n = "then_node (research_lead e a clk) (then_node (qualify_lead clk)
       (\<lambda>w. if qualification_route w then prepare_outreach a clk w else stop_unqualified w))"
  have n: "node_work ws ?n"
    by (intro then_node_work research_node [OF ut a] qualify_node choice_node prepare_node stop_node)
  have start: "load_lead (initial_state k) d = (Inr ((initial_state k)\<lparr>wf_lead := Some l, wf_status := ''lead_loaded''\<rparr>), d)"
    by (simp add: load_lead_def get_lead_def initial_state_def l)
  have "own_state ws ((initial_state k)\<lparr>wf_lead := Some l, wf_status := ''lead_loaded''\<rparr>) d"
    using owns_row [OF l] lds.get_ident [OF l(1)] l(2) by (simp add: own_state_def)
  moreover have "?n ((initial_state k)\<lparr>wf_lead := Some l, wf_status := ''lead_loaded''\<rparr>) d = (res, d')"
    using run start by (simp add: run_new_lead_def new_lead_graph_def then_node_def [of load_lead])
  ultimately show ?thesis using n links unfolding node_work_def by blast
qed

end
