(* ===== verification/Sales_Api_Props.thy ===== *)
theory Sales_Api_Props
  imports Sales_Api Sales_Scope Integration_Api_Props
begin

text \<open>
  Properties of the Sales endpoints as a whole: every request is local to the workspace the caller
  was authorized for, only owners and administrators decide or assign approval requests and change
  the settings of a workspace, a created lead is the workspace's whatever tenant the client sent,
  and which approval requests the listing shows.
\<close>

section \<open>Requests are local\<close>

lemma snd_answers [simp]:
  "snd (rendering f r) = snd r" "snd (catching c r) = snd r" "snd (rendered g r) = snd r"
  "snd (rendered_approval q) = snd q"
  by (auto simp: rendering_def catching_def rendered_def rendered_approval_def split: sum.splits prod.splits)

lemma scoped_approval_owned:
  "get_scoped_approval ws k d = Inr a \<Longrightarrow> a \<in> set (approvals d) \<and> owns_approval ws d a"
  by (drule get_scoped_approval_InrD) (auto simp: owns_approval_def owns_def)

lemma assignment_approval_owned:
  "assignment_scoped_approval ws k d = Inr a \<Longrightarrow> a \<in> set (approvals d) \<and> owns_approval ws d a"
  by (auto simp: assignment_scoped_approval_def lead_scoped_approval_def find_Some_iff owns_approval_def owns_def
      split: option.splits)

lemma scoped_lead_owned:
  "get_scoped_lead ws k d = Inr l \<Longrightarrow> owns ws d (ld_id l) \<and> ld_tenant_id l = ws_slug ws"
  using get_scoped_lead_InrD [of ws k d l] owns_row by auto

lemma decision_local:
  assumes a: "pending_scoped_approval ws k actor d = Inr a"
  shows "sales_local ws d (save_approval (record_decision st n actor t a) d)"
  using scoped_approval_owned pending_scoped_InrD [OF a] by (intro local_save_approval [of a]) auto

lemma approve_local: "sales_local ws d (snd (approve ws k remark actor clk d))"
proof (cases "pending_scoped_approval ws k actor d")
  case (Inl e)
  then show ?thesis by (simp add: approve_def)
next
  case a: (Inr a)
  show ?thesis
  proof (cases "ap_lead_id a")
    case None
    with a show ?thesis by (simp add: approve_def Let_def decision_local [OF a])
  next
    case (Some lead)
    let ?a = "record_decision AP_EXECUTED remark actor (clk 0) a"
    let ?d = "save_approval ?a d"
    let ?m = "\<lparr>cm_id = next_id d, cm_lead_id = lead, cm_direction = ''outbound'', cm_channel = ap_channel ?a,
      cm_stage = message_stage ?a, cm_content = payload_get ?a ''content'' [], cm_created_at = utc (clk 1)\<rparr>"
    have eq: "snd (approve ws k remark actor clk d) = add_message ?m ?d"
      using a Some by (simp add: approve_def Let_def console_send_def add_message_def save_approval_def)
    have "sales_local ws d (add_message ?m ?d)" if links: "sales_links d"
    proof -
      have o: "a \<in> set (approvals d)" "owns_approval ws d a"
        using scoped_approval_owned pending_scoped_InrD [OF a] by auto
      with links Some have "owns ws d lead"
        by (fastforce simp: owns_approval_def sales_links_def action_links_def)
      then have "sales_work ws ?d (add_message ?m ?d)" by (intro work_message) (simp add: save_approval_def)
      with sales_local_trans [OF decision_local [OF a] sales_work_local] show ?thesis by blast
    qed
    then show ?thesis unfolding eq
      by (cases "sales_links d") (simp_all add: sales_local_def add_message_def take_id_def save_approval_def)
  qed
qed

lemma reject_local: "sales_local ws d (snd (reject ws k remark actor clk d))"
  by (cases "pending_scoped_approval ws k actor d") (simp_all add: reject_def Let_def decision_local)

lemma assign_approval_local: "sales_local ws d (snd (assign_approval ws k target actor clk d))"
  by (auto simp: assign_approval_def bindE_Inr_iff Let_def set_approval_assignment_def split: sum.splits
      dest!: assignment_approval_owned intro!: local_save_approval)

lemma clear_approval_local: "sales_local ws d (snd (clear_approval ws k actor d))"
  by (auto simp: clear_approval_def bindE_Inr_iff Let_def clear_approval_assignment_def split: sum.splits
      dest!: assignment_approval_owned intro!: local_save_approval)

lemma assign_lead_work: "sales_work ws d (snd (assign_lead ws k target actor clk d))"
  by (auto simp: assign_lead_def bindE_Inr_iff Let_def set_lead_assignment_def split: sum.splits
      dest!: scoped_lead_owned intro!: work_save_lead)

lemma clear_lead_work: "sales_work ws d (snd (clear_lead ws k actor d))"
  by (auto simp: clear_lead_def bindE_Inr_iff Let_def clear_lead_assignment_def split: sum.splits
      dest!: scoped_lead_owned intro!: work_save_lead)

lemma create_lead_work: "sales_work ws d (snd (create_lead ws p clk d))"
  by (simp add: create_lead_def Let_def) (rule work_new_lead; simp add: new_lead_def)

lemma create_product_work: "sales_work ws d (snd (create_product ws p d))"
  by (simp add: create_product_def Let_def) (rule work_product; simp add: new_product_def)

lemma reply_work:
  "usage_table (en_persist e) \<Longrightarrow> sales_work ws d (snd (route_draft_reply sha256 e st ws k content channel key clk d))"
  by (auto simp: route_draft_reply_def split: prod.splits sum.splits dest: process_direct_work)

lemma resolve_work: "sales_work ws d (snd (route_resolve_handoff ws k t d))"
proof -
  have "sales_work ws d (snd (resolve_active_handoff ws k t d))"
  proof (cases "\<exists>l h. get_lead k d = Inr l \<and> ld_tenant_id l = ws_slug ws \<and> get_sales_handoff ws (ld_id l) d = Some h")
    case True
    then obtain l h where l: "get_lead k d = Inr l" "ld_tenant_id l = ws_slug ws" "get_sales_handoff ws (ld_id l) d = Some h"
      by blast
    then have "snd (resolve_active_handoff ws k t d)
        = save_handoff (h\<lparr>ho_status := HANDOFF_RESOLVED, ho_resolved_at := Some (utc t)\<rparr>) d"
      by (simp add: resolve_active_handoff_def resolve_sales_handoff_def Let_def)
    with get_sales_handoff_SomeD [OF l(3)] show ?thesis by (auto intro: work_save_handoff)
  next
    case False
    then have "snd (resolve_active_handoff ws k t d) = d"
      by (auto simp: resolve_active_handoff_def resolve_sales_handoff_def split: sum.splits option.splits)
    then show ?thesis by simp
  qed
  then show ?thesis by (auto simp: route_resolve_handoff_def split: prod.splits sum.splits)
qed

lemma workflow_work:
  assumes ut: "usage_table (en_persist e)" and links: "sales_links d"
  shows "sales_work ws d (snd (route_run_workflow e st ws k clk d))"
proof (cases "\<exists>l g. get_lead_row k d = Some l \<and> ld_tenant_id l = ws_slug ws \<and> make_gateway (ss_llm st) = Inr g")
  case False
  then have "snd (route_run_workflow e st ws k clk d) = d"
    by (auto simp: route_run_workflow_def get_lead_def split: sum.splits option.splits)
  then show ?thesis by simp
next
  case True
  then obtain l g where l: "get_lead_row k d = Some l" "ld_tenant_id l = ws_slug ws" and g: "make_gateway (ss_llm st) = Inr g"
    by blast
  let ?a = "\<lparr>ag_settings = st, ag_workspace = Some ws, ag_gateway = Some g\<rparr>"
  obtain r d' where run: "run_new_lead_workflow e ?a k clk d = (r, d')" by fastforce
  then have "snd (route_run_workflow e st ws k clk d) = d'"
    using l g by (auto simp: route_run_workflow_def get_lead_def split: sum.splits)
  moreover have "d' = d \<or> run_new_lead e ?a k clk d = (r, d')"
    using run by (auto simp: run_new_lead_workflow_def split: if_splits)
  then have "sales_work ws d d'"
    using run_new_lead_work [OF _ ut _ l links, of ?a clk r d'] by auto
  ultimately show ?thesis by simp
qed

lemma settings_local:
  "sales_local ws d (snd (route_replace_instructions ws v clk d))"
  "sales_local ws d (snd (route_clear_instructions ws clk d))"
  "sales_local ws d (snd (route_update_communication ws x y z clk d))"
  by (auto simp: route_replace_instructions_def replace_instructions_def route_clear_instructions_def
      clear_instructions_def route_update_communication_def update_communication_def Let_def
      split: sum.splits intro!: local_save_workspace)

text \<open>The permissions a member has: its requests never touch a decided thing or the settings.\<close>

lemma run_sales_local:
  assumes ut: "usage_table (en_persist (se_ai e))" and links: "sales_links d"
  shows "sales_local (cx_workspace cx) d (snd (run_sales_request e cx clk rq d))"
    and "sales_permission rq \<in> set MEMBER_PERMISSIONS \<Longrightarrow>
      sales_work (cx_workspace cx) d (snd (run_sales_request e cx clk rq d))"
proof -
  note works = create_lead_work create_product_work assign_lead_work clear_lead_work reply_work [OF ut] resolve_work
    workflow_work [OF ut links]
  note locals = works [THEN sales_work_local] approve_local reject_local assign_approval_local clear_approval_local
    settings_local
  show "sales_local (cx_workspace cx) d (snd (run_sales_request e cx clk rq d))"
    by (cases rq) (simp_all add: locals assign_approval_operator_def clear_approval_operator_def approve_action_def
        reject_action_def assign_conversation_operator_def clear_conversation_operator_def)
  show "sales_permission rq \<in> set MEMBER_PERMISSIONS \<Longrightarrow>
      sales_work (cx_workspace cx) d (snd (run_sales_request e cx clk rq d))"
    by (cases rq) (simp_all add: works MEMBER_PERMISSIONS_def)
qed

lemma sales_api_cases:
  assumes "sales_api deco up auth e c clk rq d = (ans, d')"
  obtains (same) "d' = d"
    | (run) cx where "authorize deco up auth (ca_now c) (ca_header c) (ca_slug c) True (sales_permission rq) d = Inr cx"
        "d' = snd (run_sales_request e cx clk rq d)"
  using assms by (auto simp: sales_api_def split: sum.splits if_splits)

section \<open>Isolation of tenants\<close>

text \<open>What belongs to one workspace in the Sales tables.\<close>

definition sales_tenant where
  "sales_tenant v (d :: db) = (filter (\<lambda>l. ld_tenant_id l = ws_slug v) (leads d),
     filter (\<lambda>p. pr_tenant_id p = ws_slug v) (products d), filter (\<lambda>h. ho_workspace_id h = ws_id v) (handoffs d),
     filter (\<lambda>r. tr_workspace_id r = ws_id v) (turn_receipts d), filter (\<lambda>u. au_workspace_id u = ws_id v) (usages d),
     filter (\<lambda>w. ws_id w = ws_id v) (workspaces d), filter (\<lambda>m. owns v d (cm_lead_id m)) (messages d),
     filter (\<lambda>r. owns v d (rs_lead_id r)) (researches d), filter (owns_approval v d) (approvals d))"

lemma filter_through:
  assumes "filter Q ys = filter Q xs" "\<And>x. x \<in> set xs \<union> set ys \<Longrightarrow> P x \<Longrightarrow> Q x"
  shows "filter P ys = filter P xs"
proof -
  have "filter P zs = filter P (filter Q zs)" if "set zs \<subseteq> set xs \<union> set ys" for zs
    using assms(2) that by (auto intro!: filter_cong)
  then show ?thesis by (metis assms(1) sup_ge1 sup_ge2)
qed

lemma owns_disjoint: "sales_ids d \<Longrightarrow> owns v d k \<Longrightarrow> owns ws d k \<Longrightarrow> ws_slug v = ws_slug ws"
  unfolding owns_def sales_ids_def by (metis fresh_ids_eq)

lemma sales_others_tables:
  assumes "sales_others ws e d' = sales_others ws e d"
  shows "filter (\<lambda>l. ld_tenant_id l \<noteq> ws_slug ws) (leads d') = filter (\<lambda>l. ld_tenant_id l \<noteq> ws_slug ws) (leads d)"
    "filter (\<lambda>p. pr_tenant_id p \<noteq> ws_slug ws) (products d') = filter (\<lambda>p. pr_tenant_id p \<noteq> ws_slug ws) (products d)"
    "filter (\<lambda>h. ho_workspace_id h \<noteq> ws_id ws) (handoffs d') = filter (\<lambda>h. ho_workspace_id h \<noteq> ws_id ws) (handoffs d)"
    "filter (\<lambda>r. tr_workspace_id r \<noteq> ws_id ws) (turn_receipts d') = filter (\<lambda>r. tr_workspace_id r \<noteq> ws_id ws) (turn_receipts d)"
    "filter (\<lambda>u. au_workspace_id u \<noteq> ws_id ws) (usages d') = filter (\<lambda>u. au_workspace_id u \<noteq> ws_id ws) (usages d)"
    "filter (\<lambda>w. ws_id w \<noteq> ws_id ws) (workspaces d') = filter (\<lambda>w. ws_id w \<noteq> ws_id ws) (workspaces d)"
    "filter (\<lambda>m. \<not> owns ws e (cm_lead_id m)) (messages d') = filter (\<lambda>m. \<not> owns ws e (cm_lead_id m)) (messages d)"
    "filter (\<lambda>r. \<not> owns ws e (rs_lead_id r)) (researches d') = filter (\<lambda>r. \<not> owns ws e (rs_lead_id r)) (researches d)"
    "filter (\<lambda>a. \<not> owns_approval ws e a) (approvals d') = filter (\<lambda>a. \<not> owns_approval ws e a) (approvals d)"
  using arg_cong [OF assms, of leads] arg_cong [OF assms, of products] arg_cong [OF assms, of handoffs]
    arg_cong [OF assms, of turn_receipts] arg_cong [OF assms, of usages] arg_cong [OF assms, of workspaces]
    arg_cong [OF assms, of messages] arg_cong [OF assms, of researches] arg_cong [OF assms, of approvals]
  by (simp_all add: sales_others_def)

lemma sales_local_tenant:
  assumes loc: "sales_local ws d d'" and links: "sales_links d" and other: "ws_id ws \<noteq> ws_id v" "ws_slug ws \<noteq> ws_slug v"
  shows "sales_tenant v d' = sales_tenant v d"
proof -
  from loc links have links': "sales_links d'" and eq: "sales_others ws d' d' = sales_others ws d' d"
    by (simp_all add: sales_local_def)
  note t = sales_others_tables [OF eq] and act = sales_others_actions [OF eq]
  have own: "owns v d' = owns v d"
  proof -
    have char: "owns v x k \<longleftrightarrow> k \<in> ld_id ` set (filter (\<lambda>l. ld_tenant_id l = ws_slug v) (leads x))" for x k
      by (auto simp: owns_def)
    have "filter (\<lambda>l. ld_tenant_id l = ws_slug v) (leads d') = filter (\<lambda>l. ld_tenant_id l = ws_slug v) (leads d)"
      by (rule filter_other_eq [OF t(1)]) (use other(2) in simp)
    then show ?thesis by (intro ext) (simp only: char)
  qed
  have app: "owns_approval v d' = owns_approval v d" by (simp add: owns_approval_def own act fun_eq_iff)
  have disj: "\<not> owns ws d' k" if "owns v d' k" for k
    using owns_disjoint [of d' v k ws] links' other(2) that by (auto simp: sales_links_def)
  have free: "ap_lead_id a = None" if "a \<in> set (approvals d) \<union> set (approvals d')" "x \<in> set (actions d')"
    "oa_approval_request_id x = Some (ap_id a)" for a x
    using that links links' act by (auto simp: sales_links_def action_links_def)
  have one: "oa_workspace_id y = oa_workspace_id x" if "x \<in> set (actions d')" "y \<in> set (actions d')"
    "oa_approval_request_id x = Some k" "oa_approval_request_id y = Some k" for x y k
  proof -
    have "one_owner (actions d')" using links' by (simp add: sales_links_def action_links_def)
    with that show ?thesis unfolding one_owner_def by blast
  qed
  have disja: "\<not> owns_approval ws d' a" if old: "a \<in> set (approvals d) \<union> set (approvals d')" and vo: "owns_approval v d' a" for a
  proof
    assume w: "owns_approval ws d' a"
    show False
    proof (cases "ap_lead_id a")
      case (Some k)
      then have "owns v d' k" "owns ws d' k"
        using vo w free [OF old] by (fastforce simp: owns_approval_def)+
      with disj show False by blast
    next
      case None
      then obtain x y where "x \<in> set (actions d')" "oa_approval_request_id x = Some (ap_id a)" "oa_workspace_id x = ws_id v"
        "y \<in> set (actions d')" "oa_approval_request_id y = Some (ap_id a)" "oa_workspace_id y = ws_id ws"
        using vo w by (auto simp: owns_approval_def)
      with one [of x y] other(1) show False by simp
    qed
  qed
  have "filter (owns_approval v d') (approvals d') = filter (owns_approval v d') (approvals d)"
    by (rule filter_through [OF t(9)]) (rule disja)
  moreover have "filter (\<lambda>m. owns v d' (cm_lead_id m)) (messages d') = filter (\<lambda>m. owns v d' (cm_lead_id m)) (messages d)"
    by (rule filter_through [OF t(7)]) (rule disj)
  moreover have "filter (\<lambda>r. owns v d' (rs_lead_id r)) (researches d') = filter (\<lambda>r. owns v d' (rs_lead_id r)) (researches d)"
    by (rule filter_through [OF t(8)]) (rule disj)
  ultimately show ?thesis
    using filter_other_eq [OF t(1)] filter_other_eq [OF t(2)] filter_other_eq [OF t(3)] filter_other_eq [OF t(4)]
      filter_other_eq [OF t(5)] filter_other_eq [OF t(6)] other
    by (simp add: sales_tenant_def own app)
qed

text \<open>Any Sales request, of anybody, that does not address the workspace \<open>v\<close>.\<close>

inductive sales_api_step :: "workspace \<Rightarrow> db \<Rightarrow> db \<Rightarrow> bool" for v where
  "sales_api deco up auth e c clk rq d = (ans, d') \<Longrightarrow> usage_table (en_persist (se_ai e)) \<Longrightarrow>
   (\<And>w. get_workspace_by_slug (ca_slug c) d = Inr w \<Longrightarrow> ws_id w \<noteq> ws_id v \<and> ws_slug w \<noteq> ws_slug v) \<Longrightarrow>
   sales_api_step v d d'"

lemma sales_api_step_effect:
  assumes "sales_api_step v d d'" and links: "sales_links d"
  shows "sales_links d'" and "sales_tenant v d' = sales_tenant v d"
proof -
  have "sales_links d' \<and> sales_tenant v d' = sales_tenant v d"
    using assms(1)
  proof cases
    case (1 deco up auth e c clk rq ans)
    from 1(1) show ?thesis
    proof (cases rule: sales_api_cases)
      case same
      with links show ?thesis by simp
    next
      case (run cx)
      from run(1) obtain scheme token where "resolve_workspace_context (cx_principal cx) (ca_slug c) True d = Inr cx"
        by (rule authorize_InrD)
      from resolve_workspace_context_InrD(2) [OF this] 1(3)
      have other: "ws_id (cx_workspace cx) \<noteq> ws_id v" "ws_slug (cx_workspace cx) \<noteq> ws_slug v" by blast+
      have loc: "sales_local (cx_workspace cx) d d'" unfolding run(2) by (rule run_sales_local(1) [OF 1(2) links])
      with links sales_local_tenant [OF loc links other] show ?thesis by (simp add: sales_local_def)
    qed
  qed
  then show "sales_links d'" "sales_tenant v d' = sales_tenant v d" by simp_all
qed

interpretation sapi: invariant_system "sales_api_step v" sales_links for v
  by unfold_locales (rule sales_api_step_effect(1))

text \<open>Sales tenants are isolated: after any number of Sales requests that address other workspaces, by
  whoever, a workspace has exactly the leads, products, handoffs, retry receipts, usage rows,
  settings, messages, research briefs and approval requests it had.\<close>

theorem sales_tenants_isolated:
  assumes "(sales_api_step v)\<^sup>*\<^sup>* d d'" and "sales_links d"
  shows "sales_tenant v d' = sales_tenant v d \<and> sales_links d'"
proof -
  have "sales_tenant v d' = sales_tenant v d"
    by (rule sapi.steps_keep [OF _ assms]) (use sales_api_step_effect(2) in \<open>fastforce+\<close>)
  with sapi.steps_inv [OF assms] show ?thesis by simp
qed

text \<open>C7: Only an active owner or administrator decides, assigns or withdraws anything: whatever a member does
  through the Sales endpoints, every approval request stands as it was, new ones are pending, and
  the settings of the workspaces are unchanged.\<close>

theorem members_cannot_decide:
  assumes run: "sales_api deco up auth e c clk rq d = (ans, d')"
    and ut: "usage_table (en_persist (se_ai e))" and links: "sales_links d"
    and decided: "workspaces d' \<noteq> workspaces d \<or>
      \<not> (\<exists>new. approvals d' = approvals d @ new \<and> (\<forall>a \<in> set new. ap_status a = AP_PENDING))"
  shows "\<exists>cx. authorize deco up auth (ca_now c) (ca_header c) (ca_slug c) True (sales_permission rq) d = Inr cx \<and>
    cx_membership cx \<in> set (members d) \<and> wm_active (cx_membership cx) \<and>
    wm_workspace_id (cx_membership cx) = ws_id (cx_workspace cx) \<and>
    wm_role (cx_membership cx) \<in> {OWNER, ADMIN} \<and>
    sales_permission rq \<in> {APPROVAL_DECIDE, OPERATOR_ASSIGNMENT_MANAGE, WORKSPACE_SETTINGS_MANAGE}"
  using run
proof (cases rule: sales_api_cases)
  case same
  with decided show ?thesis by simp
next
  case (run cx)
  have perm: "sales_permission rq \<notin> set MEMBER_PERMISSIONS"
  proof
    assume "sales_permission rq \<in> set MEMBER_PERMISSIONS"
    from run_sales_local(2) [OF ut links this] have "sales_work (cx_workspace cx) d d'" by (simp add: run(2))
    then obtain new where "workspaces d' = workspaces d" "approvals d' = approvals d @ new" "\<forall>a \<in> set new. requested a"
      unfolding sales_work_def by blast
    with decided show False by (auto simp: requested_def)
  qed
  from run(1) obtain scheme token where
    cx: "resolve_workspace_context (cx_principal cx) (ca_slug c) True d = Inr cx"
    and role: "sales_permission rq \<in> set (ROLE_PERMISSIONS (wm_role (cx_membership cx)))"
    by (rule authorize_InrD)
  from resolve_workspace_context_InrD(3) [OF cx] have "cx_membership cx \<in> set (members d) \<and>
      wm_active (cx_membership cx) \<and> wm_workspace_id (cx_membership cx) = ws_id (cx_workspace cx)"
    by (auto simp: resolve_active_membership_Inr_iff find_membership_def find_Some_iff)
  moreover have "wm_role (cx_membership cx) \<in> {OWNER, ADMIN}"
    using role perm by (cases "wm_role (cx_membership cx)") auto
  moreover have "sales_permission rq \<in> {APPROVAL_DECIDE, OPERATOR_ASSIGNMENT_MANAGE, WORKSPACE_SETTINGS_MANAGE}"
    using perm by (cases rq) (simp_all add: MEMBER_PERMISSIONS_def)
  ultimately show ?thesis using run(1) by blast
qed

section \<open>Leads and approvals\<close>

lemma render_lead_tables:
  "members d' = members d \<Longrightarrow> users d' = users d \<Longrightarrow> render_lead l d' = render_lead l d"
  by (simp add: render_lead_def resolve_lead_assignment_def resolve_assignment_def get_member_def get_user_row_def
      cong: option.case_cong if_cong)

text \<open>C37: A created lead belongs to the workspace of the request, whatever tenant the client sent: its
  workspace reads back the answer of the creation, any other workspace is told that there is no
  such lead, and its list is the list it had.\<close>

theorem created_lead_scoped:
  assumes valid: "lead_create_valid p" and ids: "\<forall>l \<in> set (leads d). ld_id l < next_id d"
  shows "\<exists>r d'. create_lead ws p clk d = (Inr r, d') \<and> lc_tenant_id r = ws_slug ws \<and>
    lc_full_name r = lc_full_name p \<and> lr_status r = LEAD_NEW \<and> route_get_lead ws (lr_id r) d' = Inr r \<and>
    (\<forall>w. ws_slug w \<noteq> ws_slug ws \<longrightarrow>
       route_get_lead w (lr_id r) d' = Inl lead_not_found \<and> route_list_leads w d' = route_list_leads w d)"
proof -
  let ?l = "new_lead ws p (next_id d) clk"
  let ?d = "take_id (d\<lparr>leads := leads d @ [?l]\<rparr>)"
  have names: "lead_names_valid (ld_full_name ?l) (ld_company_name ?l)"
    using valid by (simp add: new_lead_def lead_create_valid_def)
  then obtain r where r: "render_lead ?l ?d = Inr r" by (simp add: render_lead_def)
  then have fields: "lc_tenant_id r = ws_slug ws" "lc_full_name r = lc_full_name p" "lr_status r = LEAD_NEW"
    "lr_id r = next_id d"
    using names by (auto simp: render_lead_def new_lead_def)
  have row: "get_lead_row (next_id d) ?d = Some ?l"
  proof -
    have "row_find ld_id (next_id d) (leads d) = None" using ids by (auto simp: row_find_None_iff)
    then show ?thesis by (simp add: get_lead_row_def take_id_def row_find_append new_lead_def)
  qed
  have "route_list_leads w ?d = route_list_leads w d" if "ws_slug w \<noteq> ws_slug ws" for w
  proof -
    have "render_lead l ?d = render_lead l d" for l
      by (rule render_lead_tables) (simp_all add: take_id_def)
    moreover have "leads ?d = leads d @ [?l]" by (simp add: take_id_def)
    ultimately show ?thesis using that by (simp add: route_list_leads_def new_lead_def)
  qed
  moreover have "create_lead ws p clk d = (Inr r, ?d)" by (simp add: create_lead_def rendered_def r Let_def)
  ultimately show ?thesis
    using fields row r by (intro exI [of _ r] exI [of _ ?d]) (auto simp: route_get_lead_def new_lead_def)
qed

text \<open>The approval listing shows exactly the requests that belong to a lead of the workspace. A pending
  request of one of its outbound actions is decided through the same router, but no listing shows it.\<close>

theorem approval_listing:
  "apr_id ` set (route_list_approvals ws None d) =
     ap_id ` {a \<in> set (approvals d). \<exists>k. ap_lead_id a = Some k \<and> owns ws d k}"
proof -
  have eq: "(\<exists>k. ap_lead_id a = Some k \<and> owns ws d k) \<longleftrightarrow>
      (\<exists>l \<in> set (leads d). ap_lead_id a = Some (ld_id l) \<and> ld_tenant_id l = ws_slug ws)" for a
    by (auto simp: owns_def)
  have "apr_id (render_approval a d) = ap_id a" for a by (simp add: render_approval_def)
  then show ?thesis by (simp add: route_list_approvals_def list_approvals_def image_image eq)
qed

theorem action_approval_unlisted:
  assumes a: "a \<in> set (approvals d)" "ap_status a = AP_PENDING" "ap_lead_id a = None" and ids: "distinct (map ap_id (approvals d))"
    and x: "x \<in> set (actions d)" "oa_approval_request_id x = Some (ap_id a)" "oa_workspace_id x = ws_id ws"
    and actor: "actor_workspace_id actor = ws_id ws"
  shows "(\<exists>r d'. approve_action ws (ap_id a) remark actor clk d = (Inr r, d') \<and> apr_status r = AP_APPROVED) \<and>
    (\<forall>status. ap_id a \<notin> apr_id ` set (route_list_approvals ws status d))"
proof -
  have only: "b = a" if "b \<in> set (approvals d)" "ap_id b = ap_id a" for b
    using that a(1) ids by (auto simp: distinct_map dest: inj_onD)
  have "lead_scoped_approval ws (ap_id a) d = None"
    by (simp add: lead_scoped_approval_def find_None_iff) (metis only a(3) option.distinct(1))
  moreover have "get_scoped_outbound_approval ws (ap_id a) d = Some a"
  proof -
    have "\<exists>b. get_scoped_outbound_approval ws (ap_id a) d = Some b"
      using a(1) x by (force simp: get_scoped_outbound_approval_def find_None_iff simp flip: not_None_eq)
    then obtain b where b: "get_scoped_outbound_approval ws (ap_id a) d = Some b" by blast
    then have "b \<in> set (approvals d)" "ap_id b = ap_id a"
      by (auto simp: get_scoped_outbound_approval_def find_Some_iff)
    with b only show ?thesis by simp
  qed
  ultimately have "pending_scoped_approval ws (ap_id a) actor d = Inr a"
    by (simp add: pending_scoped_approval_def get_scoped_approval_def actor a(2))
  then have "\<exists>r d'. approve_action ws (ap_id a) remark actor clk d = (Inr r, d') \<and> apr_status r = AP_APPROVED"
    by (simp add: approve_action_def rendered_approval_def rendered_def catching_def approve_def Let_def a(3)
        render_approval_def)
  moreover have "ap_id a \<notin> apr_id ` set (route_list_approvals ws status d)" for status
  proof
    assume "ap_id a \<in> apr_id ` set (route_list_approvals ws status d)"
    then obtain b where "b \<in> set (approvals d)" "ap_id b = ap_id a" and b: "ap_lead_id b \<noteq> None"
      by (auto simp: route_list_approvals_def list_approvals_def render_approval_def)
    then have "b = a" by (intro only)
    with b a(3) show False by simp
  qed
  ultimately show ?thesis by blast
qed

section \<open>Samples\<close>

lemma authorize_owner:
  assumes "authorize deco up auth now h s act p d = Inr cx" and "wm_role (cx_membership cx) \<in> {OWNER, ADMIN}"
  shows "authorize deco up auth now h s act q d = Inr cx"
  using assms
  by (auto simp: authorize_def bindE_Inr_iff authorize_context_def require_permission_def all_permissions_complete
      split: sum.splits if_splits)

definition sales_sample_env :: sales_env where
  "sales_sample_env = \<lparr>se_sha256 = (\<lambda>s. s), se_ai = sample_env, se_settings = sample_sales\<rparr>"

lemma sales_sample_table: "usage_table (en_persist (se_ai sales_sample_env))"
  using exact_table by (simp add: sales_sample_env_def sample_env_def exact_table_def)

text \<open>Acme with one pending approval request of its lead, and a lead of another workspace.\<close>

definition other_ws :: workspace where
  "other_ws = sample_ws\<lparr>ws_id := 7, ws_slug := ''beta''\<rparr>"

definition sales_sample_db :: db where
  "sales_sample_db = sample_db\<lparr>leads := [sample_lead, sample_lead\<lparr>ld_id := 11, ld_tenant_id := ''beta''\<rparr>],
     approvals := [sample_approval AP_PENDING]\<rparr>"

lemma sales_sample_authorized:
  "authorize plain_decode sample_parse sample_auth 5 (Some (''Bearer'', sample_token)) '' ACME'' True p sales_sample_db =
   Inr \<lparr>cx_principal = \<lparr>pl_user_id = 2, pl_active = True\<rparr>, cx_workspace = sample_ws, cx_membership = sample_member OWNER\<rparr>"
proof (rule authorize_owner)
  show "authorize plain_decode sample_parse sample_auth 5 (Some (''Bearer'', sample_token)) '' ACME'' True
      INTEGRATION_MANAGE sales_sample_db =
    Inr \<lparr>cx_principal = \<lparr>pl_user_id = 2, pl_active = True\<rparr>, cx_workspace = sample_ws, cx_membership = sample_member OWNER\<rparr>"
    using sample_authorized authorize_frame [of sales_sample_db sample_db] by (simp add: sales_sample_db_def)
qed (simp add: sample_member_def)

lemma sales_sample_links: "sales_links sales_sample_db"
  by (simp add: sales_links_def sales_ids_def action_links_def one_owner_def fresh_ids_def sales_sample_db_def sample_defs)

lemma sales_sample_run:
  "sales_api plain_decode sample_parse sample_auth sales_sample_env sample_caller (\<lambda>_. 0) rq sales_sample_db =
   (if \<not> sales_request_valid rq then (Inl request_validation_error, sales_sample_db)
    else run_sales_request sales_sample_env \<lparr>cx_principal = \<lparr>pl_user_id = 2, pl_active = True\<rparr>,
      cx_workspace = sample_ws, cx_membership = sample_member OWNER\<rparr> (\<lambda>_. 0) rq sales_sample_db)"
  by (simp add: sales_api_def sample_caller_def sales_sample_authorized)

lemma sales_sample_rejection:
  "\<exists>ans d'. sales_api plain_decode sample_parse sample_auth sales_sample_env sample_caller (\<lambda>_. 0) (SqReject 7 None)
     sales_sample_db = (ans, d') \<and> map ap_status (approvals d') = [AP_REJECTED]"
  unfolding sales_sample_run
  by (simp add: reject_action_def rendered_approval_def rendered_def catching_def rendering_def reject_def
      pending_scoped_approval_def get_approval_decision_actor_def get_scoped_approval_def lead_scoped_approval_def
      sales_sample_db_def sample_defs Let_def save_approval_def row_simps)

theorem sales_tenants_isolated_witness:
  "\<exists>d'. (sales_api_step other_ws)\<^sup>*\<^sup>* sales_sample_db d' \<and> d' \<noteq> sales_sample_db \<and>
     sales_tenant other_ws d' = sales_tenant other_ws sales_sample_db \<and> fst (sales_tenant other_ws d') \<noteq> []"
proof -
  obtain ans d' where r: "sales_api plain_decode sample_parse sample_auth sales_sample_env sample_caller (\<lambda>_. 0)
      (SqReject 7 None) sales_sample_db = (ans, d')" and a: "map ap_status (approvals d') = [AP_REJECTED]"
    using sales_sample_rejection by metis
  have "get_workspace_by_slug (ca_slug sample_caller) sales_sample_db = Inr sample_ws"
    by (simp add: sample_caller_def sales_sample_db_def get_workspace_by_slug_def workspace_by_slug_exact_def
        sample_slugs sample_defs)
  then have "sales_api_step other_ws sales_sample_db d'"
    by (intro sales_api_step.intros [OF r sales_sample_table]) (simp add: sample_ws_def other_ws_def)
  then have s: "(sales_api_step other_ws)\<^sup>*\<^sup>* sales_sample_db d'" by blast
  have "d' \<noteq> sales_sample_db" using a by (auto simp: sales_sample_db_def sample_approval_def)
  moreover have "fst (sales_tenant other_ws sales_sample_db) \<noteq> []"
    by (simp add: sales_tenant_def other_ws_def sales_sample_db_def sample_defs)
  ultimately show ?thesis using s sales_tenants_isolated [OF s sales_sample_links] by auto
qed

theorem members_cannot_decide_witness:
  "\<exists>cx :: workspace_context. cx_membership cx \<in> set (members sales_sample_db) \<and> wm_role (cx_membership cx) \<in> {OWNER, ADMIN} \<and>
     wm_workspace_id (cx_membership cx) = ws_id (cx_workspace cx)"
proof -
  obtain ans d' where r: "sales_api plain_decode sample_parse sample_auth sales_sample_env sample_caller (\<lambda>_. 0)
      (SqReject 7 None) sales_sample_db = (ans, d')" and a: "map ap_status (approvals d') = [AP_REJECTED]"
    using sales_sample_rejection by metis
  have "workspaces d' \<noteq> workspaces sales_sample_db \<or> \<not> (\<exists>new. approvals d' = approvals sales_sample_db @ new \<and>
      (\<forall>a \<in> set new. ap_status a = AP_PENDING))"
    using a by (auto simp: sales_sample_db_def sample_approval_def)
  from members_cannot_decide [OF r sales_sample_table sales_sample_links this] show ?thesis by blast
qed

definition sample_lead_create :: lead_create where
  "sample_lead_create = \<lparr>lc_tenant_id = ''beta'', lc_full_name = ''Ada L'', lc_company_name = ''Engines'', lc_job_title = None,
     lc_email = None, lc_phone = None, lc_website = None, lc_source = ''manual'', lc_notes = None\<rparr>"

theorem created_lead_scoped_witness:
  "\<exists>r d'. create_lead sample_ws sample_lead_create (\<lambda>_. 0) sample_db = (Inr r, d') \<and> lc_tenant_id r = ''acme'' \<and>
     route_get_lead sample_ws (lr_id r) d' = Inr r \<and> route_get_lead other_ws (lr_id r) d' = Inl lead_not_found"
proof -
  have valid: "lead_create_valid sample_lead_create" by code_simp
  have ids: "\<forall>l \<in> set (leads sample_db). ld_id l < next_id sample_db" by (simp add: sample_defs)
  have "ws_slug other_ws \<noteq> ws_slug sample_ws" "ws_slug sample_ws = ''acme''" by (simp_all add: other_ws_def sample_ws_def)
  with created_lead_scoped [OF valid ids, of sample_ws "\<lambda>_. 0"] show ?thesis by metis
qed

text \<open>An outbound action of Acme whose approval request is pending.\<close>

theorem action_approval_unlisted_witness:
  "\<exists>r d'. approve_action sample_ws 7 None \<lparr>actor_user_id = 2, actor_membership_id = 3, actor_workspace_id = 1,
       actor_role = OWNER\<rparr> (\<lambda>_. 0)
     (sample_db\<lparr>actions := [(sample_action PENDING)\<lparr>oa_approval_request_id := Some 7\<rparr>],
        approvals := [(sample_approval AP_PENDING)\<lparr>ap_lead_id := None\<rparr>]\<rparr>) = (Inr r, d') \<and> apr_status r = AP_APPROVED"
  using action_approval_unlisted [of "(sample_approval AP_PENDING)\<lparr>ap_lead_id := None\<rparr>"
      "sample_db\<lparr>actions := [(sample_action PENDING)\<lparr>oa_approval_request_id := Some 7\<rparr>],
        approvals := [(sample_approval AP_PENDING)\<lparr>ap_lead_id := None\<rparr>]\<rparr>"
      "(sample_action PENDING)\<lparr>oa_approval_request_id := Some 7\<rparr>" sample_ws
      "\<lparr>actor_user_id = 2, actor_membership_id = 3, actor_workspace_id = 1, actor_role = OWNER\<rparr>" None "\<lambda>_. 0"]
  by (simp add: sample_approval_def sample_action_def sample_ws_def)

end
