(* ===== verification/Tenant_View.thy ===== *)
theory Tenant_View
  imports Sales_Api_Props
begin

text \<open>
  What a workspace can see of the database: its own rows. Every read of the integration and of the Sales
  endpoints gives the answer it gives on the database with the rows of all other workspaces removed,
  so no answer depends on, or shows, anything of another tenant.
\<close>

section \<open>The rows of a workspace\<close>

definition own_rows :: "workspace \<Rightarrow> db \<Rightarrow> db" where
  "own_rows ws d = d\<lparr>workspaces := filter (\<lambda>x. ws_id x = ws_id ws) (workspaces d), credentials := [],
     accounts := filter (\<lambda>x. ac_workspace_id x = ws_id ws) (accounts d),
     account_audit := filter (\<lambda>x. aa_workspace_id x = ws_id ws) (account_audit d),
     inbound_receipts := filter (\<lambda>x. ir_workspace_id x = ws_id ws) (inbound_receipts d),
     usages := filter (\<lambda>x. au_workspace_id x = ws_id ws) (usages d),
     actions := filter (\<lambda>x. oa_workspace_id x = ws_id ws) (actions d),
     audit_events := filter (\<lambda>x. ae_workspace_id x = ws_id ws) (audit_events d),
     annotations := filter (\<lambda>x. an_workspace_id x = ws_id ws) (annotations d),
     labels := filter (\<lambda>x. lb_workspace_id x = ws_id ws) (labels d),
     attempts := filter (\<lambda>x. da_workspace_id x = ws_id ws) (attempts d),
     leads := filter (\<lambda>x. ld_tenant_id x = ws_slug ws) (leads d),
     products := filter (\<lambda>x. pr_tenant_id x = ws_slug ws) (products d),
     researches := filter (\<lambda>x. owns ws d (rs_lead_id x)) (researches d),
     messages := filter (\<lambda>x. owns ws d (cm_lead_id x)) (messages d),
     turn_receipts := filter (\<lambda>x. tr_workspace_id x = ws_id ws) (turn_receipts d),
     handoffs := filter (\<lambda>x. ho_workspace_id x = ws_id ws) (handoffs d),
     approvals := filter (owns_approval ws d) (approvals d),
     follow_ups := [], next_id := 0\<rparr>"

lemma own_rows_tables [simp]:
  "accounts (own_rows ws d) = filter (\<lambda>x. ac_workspace_id x = ws_id ws) (accounts d)"
  "account_audit (own_rows ws d) = filter (\<lambda>x. aa_workspace_id x = ws_id ws) (account_audit d)"
  "inbound_receipts (own_rows ws d) = filter (\<lambda>x. ir_workspace_id x = ws_id ws) (inbound_receipts d)"
  "usages (own_rows ws d) = filter (\<lambda>x. au_workspace_id x = ws_id ws) (usages d)"
  "actions (own_rows ws d) = filter (\<lambda>x. oa_workspace_id x = ws_id ws) (actions d)"
  "audit_events (own_rows ws d) = filter (\<lambda>x. ae_workspace_id x = ws_id ws) (audit_events d)"
  "annotations (own_rows ws d) = filter (\<lambda>x. an_workspace_id x = ws_id ws) (annotations d)"
  "labels (own_rows ws d) = filter (\<lambda>x. lb_workspace_id x = ws_id ws) (labels d)"
  "attempts (own_rows ws d) = filter (\<lambda>x. da_workspace_id x = ws_id ws) (attempts d)"
  "leads (own_rows ws d) = filter (\<lambda>x. ld_tenant_id x = ws_slug ws) (leads d)"
  "products (own_rows ws d) = filter (\<lambda>x. pr_tenant_id x = ws_slug ws) (products d)"
  "messages (own_rows ws d) = filter (\<lambda>x. owns ws d (cm_lead_id x)) (messages d)"
  "approvals (own_rows ws d) = filter (owns_approval ws d) (approvals d)"
  "researches (own_rows ws d) = filter (\<lambda>x. owns ws d (rs_lead_id x)) (researches d)"
  "turn_receipts (own_rows ws d) = filter (\<lambda>x. tr_workspace_id x = ws_id ws) (turn_receipts d)"
  "handoffs (own_rows ws d) = filter (\<lambda>x. ho_workspace_id x = ws_id ws) (handoffs d)"
  "workspaces (own_rows ws d) = filter (\<lambda>x. ws_id x = ws_id ws) (workspaces d)"
  "credentials (own_rows ws d) = []" "follow_ups (own_rows ws d) = []" "next_id (own_rows ws d) = 0"
  "users (own_rows ws d) = users d"
  "members (own_rows ws d) = members d"
  by (simp_all add: own_rows_def)

text \<open>A query that asks for the workspace does not notice that the other rows are gone.\<close>

lemma filter_within: "(\<And>x. x \<in> set xs \<Longrightarrow> P x \<Longrightarrow> Q x) \<Longrightarrow> filter P (filter Q xs) = filter P xs"
  by (auto intro: filter_cong)

lemma find_within: "(\<And>x. x \<in> set xs \<Longrightarrow> P x \<Longrightarrow> Q x) \<Longrightarrow> find P (filter Q xs) = find P xs"
  by (induction xs) auto

lemma find_filter: "find P (filter Q xs) = find (\<lambda>x. Q x \<and> P x) xs"
  by (induction xs) auto

lemma row_find_within:
  "(\<And>x. x \<in> set xs \<Longrightarrow> key x = k \<Longrightarrow> Q x) \<Longrightarrow> row_find key k (filter Q xs) = row_find key k xs"
  by (simp add: row_find_def find_within)

section \<open>Reads of accounts and actions\<close>

text \<open>The account of an action belongs to the action's workspace; accounts are identified by their key.\<close>

definition action_accounts :: "db \<Rightarrow> bool" where
  "action_accounts d \<longleftrightarrow> distinct (map ac_id (accounts d)) \<and>
     (\<forall>a \<in> set (actions d). \<exists>c \<in> set (accounts d). ac_id c = oa_integration_account_id a \<and>
        ac_workspace_id c = oa_workspace_id a)"

lemma own_lookups [simp]:
  "get_for_workspace ws k (own_rows ws d) = get_for_workspace ws k d"
  "get_action_for_account ws acc k (own_rows ws d) = get_action_for_account ws acc k d"
  "approval_status_get_action ws acc k (own_rows ws d) = approval_status_get_action ws acc k d"
  "labels_of ws k (own_rows ws d) = labels_of ws k d"
  by (simp_all add: get_for_workspace_def get_action_for_account_def approval_status_get_action_def labels_of_def
      find_filter conj_ac)

lemma own_lists [simp]:
  "list_accounts ws (own_rows ws d) = list_accounts ws d"
  "account_audit_list ws k a t0 t1 n (own_rows ws d) = account_audit_list ws k a t0 t1 n d"
  "audit_list_for_workspace ws e c k t0 t1 n (own_rows ws d) = audit_list_for_workspace ws e c k t0 t1 n d"
  "list_attempts_for_action ws i j st t0 t1 newest n (own_rows ws d) =
     list_attempts_for_action ws i j st t0 t1 newest n d"
  "usage_list ws (own_rows ws d) = usage_list ws d"
  "status_attempt_count ws acc oa (own_rows ws d) = status_attempt_count ws acc oa d"
  "actions_of_account ws acc (own_rows ws d) = actions_of_account ws acc d"
  by (simp_all add: list_accounts_def account_audit_list_def audit_list_for_workspace_def list_attempts_for_action_def
      usage_list_def status_attempt_count_def actions_of_account_def Let_def)

text \<open>The approval request of an own action is an own row.\<close>

lemma own_approval:
  assumes "a \<in> set (actions d)" "oa_workspace_id a = ws_id ws" "oa_approval_request_id a = Some k"
  shows "get_approval k (own_rows ws d) = get_approval k d"
  using assms by (auto simp: get_approval_def owns_approval_def intro!: row_find_within)

lemma own_gate:
  assumes "a \<in> set (actions d)" "oa_workspace_id a = ws_id ws"
  shows "get_for_action ws a (own_rows ws d) = get_for_action ws a d"
    "gate_evaluate ws a (own_rows ws d) = gate_evaluate ws a d"
  using own_approval [OF assms] by (auto simp: get_for_action_def gate_evaluate_def split: option.split)

text \<open>Joins of actions with their accounts.\<close>

lemma filter_join:
  "filter (\<lambda>(a, c). P a \<and> Q c) [(a, c). a \<leftarrow> xs, c \<leftarrow> ys, R a c] =
   [(a, c). a \<leftarrow> filter P xs, c \<leftarrow> filter Q ys, R a c]"
proof (induction xs)
  case (Cons x xs)
  have "filter (\<lambda>(a, c). P a \<and> Q c) (concat (map (\<lambda>c. if R x c then [(x, c)] else []) ys)) =
      (if P x then concat (map (\<lambda>c. if R x c then [(x, c)] else []) (filter Q ys)) else [])"
    by (induction ys) auto
  with Cons show ?case by simp
qed simp

lemma own_join:
  "action_account_join (own_rows ws d) =
     filter (\<lambda>(a, c). oa_workspace_id a = ws_id ws \<and> ac_workspace_id c = ws_id ws) (action_account_join d)"
  by (simp only: action_account_join_def filter_join own_rows_tables)

lemma own_join_action:
  assumes "action_accounts d"
  shows "filter (\<lambda>(a, c). oa_workspace_id a = ws_id ws) (action_account_join (own_rows ws d)) =
    filter (\<lambda>(a, c). oa_workspace_id a = ws_id ws) (action_account_join d)"
  unfolding own_join
proof (rule filter_within, clarsimp)
  fix a c assume ac: "(a, c) \<in> set (action_account_join d)" "oa_workspace_id a = ws_id ws"
  then have m: "a \<in> set (actions d)" "c \<in> set (accounts d)" "ac_id c = oa_integration_account_id a"
    by (simp_all add: action_account_join_mem)
  with assms obtain c' where "c' \<in> set (accounts d)" "ac_id c' = ac_id c" "ac_workspace_id c' = oa_workspace_id a"
    by (auto simp: action_accounts_def)
  with assms m(2) ac(2) show "ac_workspace_id c = ws_id ws"
    by (auto simp: action_accounts_def distinct_map dest: inj_onD)
qed

lemma own_queries:
  "query_get_for_workspace ws k (own_rows ws d) = query_get_for_workspace ws k d"
  "list_labels ws k n (own_rows ws d) = list_labels ws k n d"
  "list_annotations ws k n (own_rows ws d) = list_annotations ws k n d"
proof -
  show q: "query_get_for_workspace ws k (own_rows ws d) = query_get_for_workspace ws k d"
    unfolding query_get_for_workspace_def own_join by (subst find_within) auto
  show "list_labels ws k n (own_rows ws d) = list_labels ws k n d"
    "list_annotations ws k n (own_rows ws d) = list_annotations ws k n d"
    by (simp_all add: list_labels_def list_annotations_def q)
qed

lemma own_query_list:
  assumes "action_accounts d"
  shows "query_list_for_workspace ws f n (own_rows ws d) = query_list_for_workspace ws f n d"
proof -
  have lab: "[(a, c). (a, c) \<leftarrow> rows, x \<leftarrow> labels (own_rows ws d), lb_outbound_integration_action_id x = oa_id a \<and>
        lb_workspace_id x = ws_id ws \<and> lb_label x = l] =
      [(a, c). (a, c) \<leftarrow> rows, x \<leftarrow> labels d, lb_outbound_integration_action_id x = oa_id a \<and>
        lb_workspace_id x = ws_id ws \<and> lb_label x = l]" for rows :: "(outbound_action \<times> integration_account) list" and l
  proof -
    have "concat (map (\<lambda>x. if lb_outbound_integration_action_id x = oa_id a \<and> lb_workspace_id x = ws_id ws \<and> lb_label x = l
          then [(a, c)] else []) (filter (\<lambda>x. lb_workspace_id x = ws_id ws) xs)) =
        concat (map (\<lambda>x. if lb_outbound_integration_action_id x = oa_id a \<and> lb_workspace_id x = ws_id ws \<and> lb_label x = l
          then [(a, c)] else []) xs)" for xs :: "action_label list" and a :: outbound_action and c :: integration_account
      by (induction xs) auto
    then show ?thesis by (simp only: own_rows_tables)
  qed
  show ?thesis
    unfolding query_list_for_workspace_def own_join_action [OF assms] lab by simp
qed

section \<open>Views of several tables\<close>

lemma own_views:
  "health_for_account ws k win now (own_rows ws d) = health_for_account ws k win now d"
  "runtime_readiness_evaluate br env rs reg ws k (own_rows ws d) = runtime_readiness_evaluate br env rs reg ws k d"
  "get_status_for_action pol dpol ws acc k t (own_rows ws d) = get_status_for_action pol dpol ws acc k t d"
  "validate_transition ws acc k target (own_rows ws d) = validate_transition ws acc k target d"
  "state_history ws acc k n (own_rows ws d) = state_history ws acc k n d"
  "summarize_for_workspace ws (own_rows ws d) = summarize_for_workspace ws d"
  by (simp_all add: health_for_account_def runtime_readiness_evaluate_def get_status_for_action_def
      validate_transition_def state_history_def summarize_for_workspace_def)

lemma own_summary: "summarize_operations pol ws win now (own_rows ws d) = summarize_operations pol ws win now d"
proof -
  have "attempt_numbers ws failed (own_rows ws d) = attempt_numbers ws failed d" for failed
    by (simp add: attempt_numbers_def)
  moreover have "count_where (\<lambda>c. ac_workspace_id c = ws_id ws \<and> ac_active c) (accounts (own_rows ws d)) =
      count_where (\<lambda>c. ac_workspace_id c = ws_id ws \<and> ac_active c) (accounts d)"
    by (simp add: count_where_def)
  ultimately show ?thesis by (simp add: summarize_operations_def failed_eligibilities_def)
qed

lemma get_action_for_account_InrD':
  "get_action_for_account ws acc k d = Inr a \<Longrightarrow> a \<in> set (actions d) \<and> oa_workspace_id a = ws_id ws"
  using get_action_for_account_InrD [of ws acc k d a] by simp

lemma own_readiness:
  "readiness_evaluate reg pol dpol ws acc k clk (own_rows ws d) = readiness_evaluate reg pol dpol ws acc k clk d"
proof (cases "get_status_for_action pol dpol ws acc k (clk 0) d")
  case (Inr view)
  then have "get_action_for_account ws (sv_account view) k d = Inr (sv_action view)" by (simp add: get_status_InrD)
  from own_gate(2) [of "sv_action view" d ws] get_action_for_account_InrD' [OF this]
  have "readiness_reasons reg ws view clk (own_rows ws d) = readiness_reasons reg ws view clk d"
    by (simp add: readiness_reasons_def)
  with Inr show ?thesis by (simp add: readiness_evaluate_def own_views)
qed (simp add: readiness_evaluate_def own_views)

lemma own_approval_status:
  "approval_status_for_action ws acc k (own_rows ws d) = approval_status_for_action ws acc k d"
proof (cases "get_for_workspace ws acc d")
  case (Inr account)
  show ?thesis
  proof (cases "approval_status_get_action ws account k d")
    case a: (Inr a)
    then have "a \<in> set (actions d)" "oa_workspace_id a = ws_id ws"
      by (auto simp: approval_status_get_action_def find_Some_iff split: option.splits)
    from own_approval [OF this] Inr a show ?thesis
      by (cases "oa_approval_request_id a") (simp_all add: approval_status_for_action_def)
  qed (use Inr in \<open>simp add: approval_status_for_action_def\<close>)
qed (simp add: approval_status_for_action_def)

lemma own_timeline:
  "timeline us ws acc k cat ev t0 t1 n (own_rows ws d) = timeline us ws acc k cat ev t0 t1 n d"
proof -
  have entries: "audit_entries us ws i j (own_rows ws d) = audit_entries us ws i j d"
    "attempt_entries us ws i j (own_rows ws d) = attempt_entries us ws i j d" for i j
    by (simp_all add: audit_entries_def attempt_entries_def)
  show ?thesis
  proof (cases "get_for_workspace ws acc d")
    case (Inr account)
    show ?thesis
    proof (cases "get_action_for_account ws account k d")
      case a: (Inr a)
      from own_gate(1) [of a d ws] get_action_for_account_InrD' [OF a]
      have "approval_entries us ws a (own_rows ws d) = approval_entries us ws a d" by (simp add: approval_entries_def)
      with Inr a show ?thesis by (simp add: timeline_def entries)
    qed (use Inr in \<open>simp add: timeline_def\<close>)
  qed (simp add: timeline_def)
qed

lemma own_trace: "trace_for_workspace us ws c (own_rows ws d) = trace_for_workspace us ws c d"
proof -
  have receipt: "trace_receipt ws c (own_rows ws d) = trace_receipt ws c d"
  proof -
    let ?join = "\<lambda>rs cs. [(r, x). r \<leftarrow> rs, x \<leftarrow> cs, ac_id x = ir_integration_account_id r, ir_correlation_id r = c,
        ir_workspace_id r = ws_id ws, ac_workspace_id x = ws_id ws]"
    have accs: "concat (map (\<lambda>x. if ac_id x = ir_integration_account_id r then
          if ir_correlation_id r = c then if ir_workspace_id r = ws_id ws then
          if ac_workspace_id x = ws_id ws then [(r, x)] else [] else [] else [] else [])
          (filter (\<lambda>x. ac_workspace_id x = ws_id ws) cs)) =
        concat (map (\<lambda>x. if ac_id x = ir_integration_account_id r then
          if ir_correlation_id r = c then if ir_workspace_id r = ws_id ws then
          if ac_workspace_id x = ws_id ws then [(r, x)] else [] else [] else [] else []) cs)" for cs r
      by (induction cs) auto
    have "?join (filter (\<lambda>r. ir_workspace_id r = ws_id ws) rs) cs = ?join rs cs" for rs :: "inbound_receipt list" and cs :: "integration_account list"
      by (induction rs) auto
    then show ?thesis by (simp only: trace_receipt_def own_rows_tables accs)
  qed
  have acts: "trace_actions us ws k (own_rows ws d) = trace_actions us ws k d" for k
  proof -
    have "filter (\<lambda>(a, c). oa_workspace_id a = ws_id ws \<and> ac_workspace_id c = ws_id ws \<and> oa_correlation_id a = Some (us k))
        (filter (\<lambda>(a, c). oa_workspace_id a = ws_id ws \<and> ac_workspace_id c = ws_id ws) xs) =
        filter (\<lambda>(a, c). oa_workspace_id a = ws_id ws \<and> ac_workspace_id c = ws_id ws \<and> oa_correlation_id a = Some (us k)) xs"
      for xs :: "(outbound_action \<times> integration_account) list"
      by (rule filter_within) auto
    then show ?thesis by (simp only: trace_actions_def own_join)
  qed
  have view: "outbound_action_view ws a acc (own_rows ws d) = outbound_action_view ws a acc d"
    if "(a, acc) \<in> set (trace_actions us ws k d)" for a acc k
  proof -
    from that have "a \<in> set (actions d)" "oa_workspace_id a = ws_id ws"
      by (auto simp: trace_actions_def action_account_join_mem)
    from own_approval [OF this] show ?thesis
      by (cases "oa_approval_request_id a") (simp_all add: outbound_action_view_def)
  qed
  have "map (\<lambda>(a, acc). outbound_action_view ws a acc (own_rows ws d)) (trace_actions us ws k d) =
      map (\<lambda>(a, acc). outbound_action_view ws a acc d) (trace_actions us ws k d)" for k
    using view by (auto intro: map_cong)
  then show ?thesis by (simp add: trace_for_workspace_def receipt acts split: option.split)
qed

section \<open>Every read of the integration endpoints\<close>

text \<open>C12: An integration read answers from the rows of its workspace alone: with the rows of every other
  workspace removed, their accounts, actions, approvals and workspaces included, the answer is the
  same, errors included, and the database is unchanged.\<close>

theorem reads_see_own_rows:
  assumes rq: "request_permission rq \<in> {INTEGRATION_READ, AI_USAGE_READ}" and links: "action_accounts d"
  shows "\<exists>r. run_request x st ws clk rq d = Some (r, d) \<and>
    run_request x st ws clk rq (own_rows ws d) = Some (r, own_rows ws d)"
  using rq own_query_list [OF links]
  by (cases rq) (simp_all add: reading_def own_views own_summary own_readiness own_approval_status own_timeline own_trace
      own_queries
      list_outbound_integration_audit_events_def list_integration_accounts_def get_integration_operational_summary_def
      get_workspace_ai_invocation_usage_summary_def list_workspace_ai_invocation_usage_def
      get_integration_account_health_def get_integration_runtime_readiness_def
      list_integration_account_audit_events_def list_workspace_integration_account_audit_events_def
      list_outbound_integration_actions_def get_outbound_integration_action_detail_def list_outbound_action_annotations_def
      list_outbound_action_labels_def get_outbound_delivery_readiness_def get_outbound_approval_status_def
      list_outbound_action_state_history_def list_outbound_action_timeline_def validate_outbound_action_transition_def
      get_outbound_integration_delivery_status_def list_outbound_integration_delivery_attempts_def
      get_integration_execution_trace_def)

section \<open>Every read of the Sales endpoints\<close>

fun sales_reads :: "sales_request \<Rightarrow> bool" where
  "sales_reads SqListLeads = True"
| "sales_reads (SqGetLead _) = True"
| "sales_reads SqListProducts = True"
| "sales_reads (SqListApprovals _) = True"
| "sales_reads (SqHistory _ _) = True"
| "sales_reads SqGetInstructions = True"
| "sales_reads SqGetCommunication = True"
| "sales_reads _ = False"

lemma own_assignment: "resolve_assignment to_id since by_user by_member (own_rows ws d) =
    resolve_assignment to_id since by_user by_member d"
  by (cases to_id) (simp_all add: resolve_assignment_def get_member_def get_user_row_def cong: option.case_cong)

lemma own_renders [simp]:
  "render_lead l (own_rows ws d) = render_lead l d" "render_approval a (own_rows ws d) = render_approval a d"
  by (simp_all add: render_lead_def render_approval_def resolve_lead_assignment_def resolve_approval_assignment_def
      own_assignment)

lemma own_lead:
  assumes "fresh_ids ld_id (leads d) n"
  shows "get_lead_row k (own_rows ws d) = (case get_lead_row k d of None \<Rightarrow> None
    | Some l \<Rightarrow> if ld_tenant_id l = ws_slug ws then Some l else None)"
proof (cases "get_lead_row k d")
  case None
  then have "get_lead_row k (own_rows ws d) = None" by (auto simp: get_lead_row_def row_find_None_iff)
  with None show ?thesis by simp
next
  case (Some l)
  then have l: "l \<in> set (leads d)" "ld_id l = k" by (auto simp: get_lead_row_def dest: row_find_SomeD)
  have only: "x = l" if "x \<in> set (leads d)" "ld_id x = k" for x
    using fresh_ids_eq [OF assms that(1) l(1)] that(2) l(2) by simp
  show ?thesis
  proof (cases "ld_tenant_id l = ws_slug ws")
    case True
    then have "get_lead_row k (own_rows ws d) = get_lead_row k d"
      unfolding get_lead_row_def own_rows_tables by (intro row_find_within) (metis only)
    with Some True show ?thesis by simp
  next
    case False
    then have "get_lead_row k (own_rows ws d) = None"
      by (auto simp: get_lead_row_def row_find_None_iff dest: only)
    with Some False show ?thesis by simp
  qed
qed

lemma own_approval_listing: "list_approvals (ws_slug ws) s (own_rows ws d) = list_approvals (ws_slug ws) s d"
proof -
  have "filter (\<lambda>a. (\<exists>l \<in> set (leads (own_rows ws d)). ap_lead_id a = Some (ld_id l) \<and> ld_tenant_id l = ws_slug ws) \<and>
          (s = None \<or> s = Some (ap_status a))) (filter (owns_approval ws d) (approvals d)) =
      filter (\<lambda>a. (\<exists>l \<in> set (leads d). ap_lead_id a = Some (ld_id l) \<and> ld_tenant_id l = ws_slug ws) \<and>
          (s = None \<or> s = Some (ap_status a))) (approvals d)"
    unfolding filter_filter by (rule filter_cong) (auto simp: owns_approval_def owns_def)
  then show ?thesis by (simp only: list_approvals_def own_rows_tables)
qed

lemma own_history:
  assumes "owns ws d k"
  shows "conversation_history k n (own_rows ws d) = conversation_history k n d"
proof -
  have "filter (\<lambda>m. cm_lead_id m = k) (filter (\<lambda>x. owns ws d (cm_lead_id x)) (messages d)) =
      filter (\<lambda>m. cm_lead_id m = k) (messages d)"
    by (rule filter_within) (use assms in simp)
  then show ?thesis by (simp only: conversation_history_def own_rows_tables)
qed

text \<open>The same for the reads of the Sales endpoints: leads, products, approval requests, conversation
  history and settings.\<close>

theorem sales_reads_see_own_rows:
  assumes rq: "sales_reads rq" and links: "sales_links d"
  shows "run_sales_request e cx clk rq (own_rows (cx_workspace cx) d) =
      (fst (run_sales_request e cx clk rq d), own_rows (cx_workspace cx) d) \<and> snd (run_sales_request e cx clk rq d) = d"
proof -
  let ?ws = "cx_workspace cx"
  from links have ids: "fresh_ids ld_id (leads d) (next_id d)" by (simp add: sales_links_def sales_ids_def)
  have lead: "route_get_lead ?ws k (own_rows ?ws d) = route_get_lead ?ws k d" for k
    by (auto simp: route_get_lead_def own_lead [OF ids] split: option.split)
  have history: "route_history ?ws k n (own_rows ?ws d) = route_history ?ws k n d" for k n
  proof (cases "get_lead_row k d")
    case (Some l)
    then have "l \<in> set (leads d)" "ld_id l = k" by (auto simp: get_lead_row_def dest: row_find_SomeD)
    then have "ld_tenant_id l = ws_slug ?ws \<Longrightarrow> owns ?ws d k" by (auto simp: owns_def)
    with Some show ?thesis by (simp add: route_history_def get_lead_def own_lead [OF ids] own_history)
  qed (simp add: route_history_def get_lead_def own_lead [OF ids])
  show ?thesis
    using rq
    by (cases rq) (simp_all add: lead history own_approval_listing route_list_leads_def route_list_products_def
        route_list_approvals_def)
qed

section \<open>A read in a database of two tenants\<close>

theorem reads_see_own_rows_witness:
  "\<exists>r. run_request undefined undefined sample_ws (\<lambda>_. 0) RqListAccounts two_tenants = Some (Inr (AnAccounts r), two_tenants) \<and>
     run_request undefined undefined sample_ws (\<lambda>_. 0) RqListAccounts (own_rows sample_ws two_tenants) =
       Some (Inr (AnAccounts r), own_rows sample_ws two_tenants) \<and> length r = 1"
proof -
  have "action_accounts two_tenants" by (simp add: action_accounts_def two_tenants_def sample_defs)
  from reads_see_own_rows [OF _ this, of RqListAccounts undefined undefined sample_ws "\<lambda>_. 0"]
  obtain r where r: "run_request undefined undefined sample_ws (\<lambda>_. 0) RqListAccounts two_tenants = Some (r, two_tenants)"
    "run_request undefined undefined sample_ws (\<lambda>_. 0) RqListAccounts (own_rows sample_ws two_tenants) =
       Some (r, own_rows sample_ws two_tenants)" by auto
  have "\<exists>xs. r = Inr (AnAccounts xs) \<and> length xs = 1"
    using r(1) by (auto simp: reading_def renderingE_def list_integration_accounts_def list_accounts_def order_desc_def
        two_tenants_def sample_defs)
  with r show ?thesis by auto
qed

end
