(* ===== verification/Service.thy ===== *)
theory Service
  imports Tenant_View
begin

text \<open>
  The service as a whole: integration requests, Sales requests and verified webhooks, of all tenants, in any
  order. Together they keep one invariant, and whatever the others do, a workspace reads what it read.
\<close>

section \<open>What integration requests leave of the Sales tables\<close>

lemma others_sales_tables:
  assumes "others w d' = others w d"
  shows "leads d' = leads d" "products d' = products d" "handoffs d' = handoffs d"
    "turn_receipts d' = turn_receipts d" "usages d' = usages d" "messages d' = messages d"
    "researches d' = researches d" "inbound_receipts d' = inbound_receipts d"
  using arg_cong [OF assms, of leads] arg_cong [OF assms, of products] arg_cong [OF assms, of handoffs]
    arg_cong [OF assms, of turn_receipts] arg_cong [OF assms, of usages] arg_cong [OF assms, of messages]
    arg_cong [OF assms, of researches] arg_cong [OF assms, of inbound_receipts]
  by (simp_all add: others_def)

text \<open>The requests filed for actions have no lead and are new.\<close>

definition action_request :: "db \<Rightarrow> approval_request \<Rightarrow> bool" where
  "action_request d p \<longleftrightarrow> ap_lead_id p = None \<and> next_id d \<le> ap_id p"

text \<open>What the links say of an action depends on its workspace and approval request only.\<close>

abbreviation link :: "outbound_action \<Rightarrow> uuid option \<times> uuid" where
  "link x \<equiv> (oa_approval_request_id x, oa_workspace_id x)"

definition no_new_links :: "db \<Rightarrow> db \<Rightarrow> bool" where
  "no_new_links d d' \<longleftrightarrow>
     (\<forall>x \<in> set (actions d'). oa_approval_request_id x \<noteq> None \<longrightarrow> link x \<in> link ` set (actions d))"

lemma action_links_subset:
  assumes links: "action_links d" and sub: "no_new_links d d'"
    and same: "approvals d' = approvals d" and n: "next_id d \<le> next_id d'"
  shows "action_links d'"
proof -
  have old: "\<exists>y \<in> set (actions d). link y = link x"
    if "x \<in> set (actions d')" "oa_approval_request_id x = Some k" for x k
    using sub that unfolding no_new_links_def by (metis (no_types, lifting) image_iff option.discI)
  show ?thesis
    unfolding action_links_def one_owner_def
  proof (intro conjI ballI allI impI)
    fix x y k assume x: "x \<in> set (actions d')" "oa_approval_request_id x = Some k"
      and y: "y \<in> set (actions d')" "oa_approval_request_id y = Some k"
    from old [OF x] old [OF y] obtain x' y' where "x' \<in> set (actions d)" "link x' = link x"
      "y' \<in> set (actions d)" "link y' = link y" by blast
    with links x(2) y(2) show "oa_workspace_id y = oa_workspace_id x"
      unfolding action_links_def one_owner_def by (metis prod.inject)
  next
    fix x k assume x: "x \<in> set (actions d')" "oa_approval_request_id x = Some k"
    from old [OF x] obtain x' where "x' \<in> set (actions d)" "link x' = link x" by blast
    with links x(2) have "k < next_id d" by (auto simp: action_links_def)
    with n show "k < next_id d'" by simp
  next
    fix x a assume x: "x \<in> set (actions d')" "oa_approval_request_id x = Some (ap_id a)" and a: "a \<in> set (approvals d')"
    from old [OF x] obtain x' where "x' \<in> set (actions d)" "link x' = link x" by blast
    with links x(2) a same show "ap_lead_id a = None" by (auto simp: action_links_def)
  qed
qed

lemma sales_links_subset:
  assumes "sales_links d" "no_new_links d d'" "approvals d' = approvals d"
    "next_id d \<le> next_id d'" "leads d' = leads d" "handoffs d' = handoffs d" "turn_receipts d' = turn_receipts d"
  shows "sales_links d'"
  using assms action_links_subset [of d d'] sales_ids_frame [of d d'] by (simp add: sales_links_def)

lemma outbound_request_links:
  assumes req: "outbound_request ws d d'" and inv: "outbound_inv d" and links: "sales_links d"
  shows "sales_links d'" and "\<exists>new. approvals d' = approvals d @ new \<and> (\<forall>p \<in> set new. action_request d p)"
proof -
  have "sales_links d' \<and> (\<exists>new. approvals d' = approvals d @ new \<and> (\<forall>p \<in> set new. action_request d p))"
    using req inv
  proof (cases rule: outbound_request_cases)
    case same
    with links show ?thesis by simp
  next
    case (changed a a' ats evs)
    from changed(5) obtain es n where
      d': "d' = d\<lparr>actions := row_update oa_id a' (actions d), attempts := attempts d @ ats,
              audit_events := audit_events d @ es, next_id := n\<rparr>" and n: "next_id d \<le> n"
      unfolding attempted_def by blast
    have "link a' = link a"
      using action_key_fields [OF action_refsD(1) [OF changed(3)]] action_refsD(2) [OF changed(3)] by simp
    then have "no_new_links d d'"
      using changed(1) by (auto simp: no_new_links_def d' dest!: row_update_in_set)
    then have "sales_links d'" using n by (intro sales_links_subset [OF links]) (simp_all add: d')
    then show ?thesis by (simp add: d')
  next
    case (removed P)
    then have "no_new_links d d'" by (auto simp: no_new_links_def)
    with removed(2) show ?thesis using sales_links_subset [OF links, of d'] by simp
  next
    case (created account a aps e n)
    from links have ids: "sales_ids d" and old: "action_links d" by (simp_all add: sales_links_def)
    have app: "ap_id p < next_id d" if "p \<in> set (approvals d)" for p
      using ids that by (simp add: sales_ids_def fresh_ids_def)
    have "action_links d'"
      using created(5)
    proof (elim disjE exE conjE)
      assume none: "oa_approval_request_id a = None" "aps = []"
      then have "no_new_links d d'" by (auto simp: no_new_links_def created(6))
      then show ?thesis by (rule action_links_subset [OF old]) (use created(3) none in \<open>simp_all add: created(6)\<close>)
    next
      fix p assume p: "aps = [p]" "oa_approval_request_id a = Some (ap_id p)" "next_id d \<le> ap_id p" "ap_id p < n"
        "ap_lead_id p = None"
      have which: "x \<in> set (actions d) \<and> k < next_id d \<or> x = a \<and> k = ap_id p"
        if "x \<in> set (actions d')" "oa_approval_request_id x = Some k" for x k
      proof (cases "x = a")
        case True
        with that(2) p(2) show ?thesis by simp
      next
        case False
        with that(1) have "x \<in> set (actions d)" by (simp add: created(6))
        with old that(2) show ?thesis by (simp add: action_links_def)
      qed
      have lead: "ap_lead_id q = None" if "x \<in> set (actions d')" "oa_approval_request_id x = Some (ap_id q)"
        "q \<in> set (approvals d')" for x q
      proof (cases "q \<in> set (approvals d)")
        case True
        with app p(3) which [OF that(1,2)] have "x \<in> set (actions d)" by fastforce
        with old that(2) True show ?thesis by (simp add: action_links_def)
      next
        case False
        with that(3) p(1,5) show ?thesis by (simp add: created(6))
      qed
      have owner: "oa_workspace_id y = oa_workspace_id x"
        if "x \<in> set (actions d')" "oa_approval_request_id x = Some k" "y \<in> set (actions d')"
          "oa_approval_request_id y = Some k" for x y k
      proof -
        have "x \<in> set (actions d) \<and> y \<in> set (actions d) \<or> x = y"
          using which [OF that(1,2)] which [OF that(3,4)] p(3) by (metis leD)
        moreover have "one_owner (actions d)" using old by (simp add: action_links_def)
        ultimately show ?thesis using that(2,4) unfolding one_owner_def by blast
      qed
      have "next_id d' = n" by (simp add: created(6))
      then have "k < next_id d'" if "x \<in> set (actions d')" "oa_approval_request_id x = Some k" for x k
        using which [OF that] p(4) created(3) by auto
      with lead owner show ?thesis unfolding action_links_def one_owner_def by blast
    qed
    moreover have "sales_ids d'"
    proof -
      have "fresh_ids ap_id (approvals d @ aps) n"
        using created(5)
      proof (elim disjE exE conjE)
        assume "aps = []"
        then show ?thesis using ids by (auto simp: sales_ids_def intro: fresh_ids_mono [OF _ created(3)])
      next
        fix p assume p: "aps = [p]" "next_id d \<le> ap_id p" "ap_id p < n"
        have "ap_id q \<noteq> ap_id p" if "q \<in> set (approvals d)" for q using app [OF that] p(2) by simp
        then have "ap_id p \<notin> ap_id ` set (approvals d)" by (metis image_iff)
        moreover have "fresh_ids ap_id (approvals d) n" using ids by (auto simp: sales_ids_def intro: fresh_ids_mono [OF _ created(3)])
        ultimately show ?thesis using p(1,3) by (simp add: fresh_ids_def)
      qed
      with ids show ?thesis by (auto simp: sales_ids_def created(6) intro: fresh_ids_mono [OF _ created(3)])
    qed
    moreover have "\<forall>p \<in> set aps. action_request d p" using created(5) by (auto simp: action_request_def)
    ultimately show ?thesis by (simp add: sales_links_def created(6))
  qed
  then show "sales_links d'" "\<exists>new. approvals d' = approvals d @ new \<and> (\<forall>p \<in> set new. action_request d p)" by simp_all
qed

lemma workspace_request_links:
  assumes req: "workspace_request ws d d'" and inv: "api_inv d" and links: "sales_links d"
  shows "sales_links d'" and "\<exists>new. approvals d' = approvals d @ new \<and> (\<forall>p \<in> set new. action_request d p)"
proof -
  from workspace_request_inv(2) [OF req inv] have "others (ws_id ws) d' = others (ws_id ws) d" by (simp add: confined_def)
  note tables = others_sales_tables [OF this]
  have plain: "sales_links d' \<and> (\<exists>new. approvals d' = approvals d @ new \<and> (\<forall>p \<in> set new. action_request d p))"
    if "actions d' = actions d" "approvals d' = approvals d" "next_id d \<le> next_id d'"
    using sales_links_frame [OF links tables(1) that(2) tables(3,4) that(1,3)] that by simp
  have "sales_links d' \<and> (\<exists>new. approvals d' = approvals d @ new \<and> (\<forall>p \<in> set new. action_request d p))"
    using req
  proof cases
    case wr_account
    with inv show ?thesis by (intro plain) (auto simp: api_inv_def dest: account_step_confined)
  next
    case wr_outbound
    with inv links outbound_request_links [OF wr_outbound] show ?thesis by (simp add: api_inv_def)
  next
    case (wr_add_label k s clk r)
    then have "label_step d d'" by (rule ls_add)
    then show ?thesis by (intro plain) (auto dest: label_step_frame)
  next
    case (wr_remove_label k s r)
    then have "label_step d d'" by (rule ls_remove)
    then show ?thesis by (intro plain) (auto dest: label_step_frame)
  next
    case wr_annotation
    then show ?thesis by (intro plain) (auto dest: annotation_step_frame)
  qed
  then show "sales_links d'" "\<exists>new. approvals d' = approvals d @ new \<and> (\<forall>p \<in> set new. action_request d p)" by simp_all
qed

section \<open>Actions and their accounts\<close>

abbreviation account_key :: "integration_account \<Rightarrow> uuid \<times> uuid" where
  "account_key c \<equiv> (ac_id c, ac_workspace_id c)"

lemma action_accounts_iff:
  "action_accounts d \<longleftrightarrow> distinct (map ac_id (accounts d)) \<and>
     (\<forall>a \<in> set (actions d). (oa_integration_account_id a, oa_workspace_id a) \<in> account_key ` set (accounts d))"
  by (force simp: action_accounts_def image_iff)

lemma account_step_keys:
  assumes step: "account_step w d d'" and inv: "accounts_inv d"
  shows "account_key ` set (accounts d) \<subseteq> account_key ` set (accounts d')"
  using step
proof (cases rule: account_step_cases)
  case saved
  then obtain a r act clk where a: "a \<in> set (accounts d)" "ac_workspace_id a = w"
    and r: "ac_id r = ac_id a" "ac_workspace_id r = w" and d': "snd (account_save r act clk d) = d'"
    unfolding saves_account_def by blast
  let ?r = "r\<lparr>ac_updated_at := utc (clk 0)\<rparr>"
  have acc: "accounts d' = row_update ac_id ?r (accounts d)"
    by (simp add: d' [symmetric] account_save_def Let_def account_audit_record_def save_defs)
  have "account_key x \<in> account_key ` set (accounts d')" if x: "x \<in> set (accounts d)" for x
  proof -
    have m: "(if ac_id x = ac_id ?r then ?r else x) \<in> set (accounts d')" using x by (auto simp: acc row_update_def)
    have "account_key x = account_key (if ac_id x = ac_id ?r then ?r else x)"
    proof (cases "ac_id x = ac_id ?r")
      case True
      with a(1) r(1) x inv have "x = a" by (simp add: accounts_inv_def distinct_map inj_on_def)
      with a(2) r show ?thesis by simp
    qed simp
    then show ?thesis by (rule rev_image_eqI [OF m])
  qed
  then show ?thesis by blast
next
  case (provisioned sha tokens ws p x s clk r)
  then show ?thesis
    by (auto simp: provision_def account_audit_record_def take_id_def insert_account_def Let_def
        split: sum.splits option.splits if_splits prod.splits)
qed auto

lemma workspace_request_accounts:
  assumes req: "workspace_request ws d d'" and inv: "api_inv d" and acc: "action_accounts d"
  shows "action_accounts d'"
proof -
  have "distinct (map ac_id (accounts d'))"
    using workspace_request_inv(1) [OF req inv] by (simp add: api_inv_def accounts_inv_def)
  moreover have "(oa_integration_account_id a, oa_workspace_id a) \<in> account_key ` set (accounts d')"
    if a: "a \<in> set (actions d')" for a
  proof -
    have plain: ?thesis if "actions d' = actions d" "account_key ` set (accounts d) \<subseteq> account_key ` set (accounts d')"
      using acc a that by (auto simp: action_accounts_iff)
    from req show ?thesis
    proof cases
      case wr_account
      with inv show ?thesis
        by (intro plain account_step_keys) (auto simp: api_inv_def dest: account_step_confined)
    next
      case wr_outbound
      from inv have o: "outbound_inv d" by (simp add: api_inv_def)
      note accs = outbound_request_confined(2) [OF wr_outbound o]
      from wr_outbound o show ?thesis
      proof (cases rule: outbound_request_cases)
        case same
        with acc a show ?thesis by (simp add: action_accounts_iff)
      next
        case (changed b b' ats evs)
        have "oa_integration_account_id b' = oa_integration_account_id b" "oa_workspace_id b' = oa_workspace_id b"
          using action_key_fields [OF action_refsD(1) [OF changed(3)]] by simp_all
        moreover have "a \<in> set (actions d) \<or> a = b'"
          using changed(5) a by (auto simp: attempted_def dest!: row_update_in_set)
        ultimately show ?thesis using acc changed(1) accs by (auto simp: action_accounts_iff)
      next
        case (removed P)
        with acc a accs show ?thesis by (auto simp: action_accounts_iff)
      next
        case (created account b aps e n)
        from get_for_workspace_InrD [OF created(4)] have m: "account \<in> set (accounts d)" and
          "(oa_integration_account_id b, oa_workspace_id b) = account_key account" using created(1) by simp_all
        from this(2) have "(oa_integration_account_id b, oa_workspace_id b) \<in> account_key ` set (accounts d)"
          by (rule rev_image_eqI [OF m])
        with acc a accs show ?thesis by (auto simp: action_accounts_iff created(6))
      qed
    next
      case (wr_add_label k s clk r)
      then have "label_step d d'" by (rule ls_add)
      then show ?thesis by (intro plain) (auto dest: label_step_frame)
    next
      case (wr_remove_label k s r)
      then have "label_step d d'" by (rule ls_remove)
      then show ?thesis by (intro plain) (auto dest: label_step_frame)
    next
      case wr_annotation
      then show ?thesis by (intro plain) (auto dest: annotation_step_frame)
    qed
  qed
  ultimately show ?thesis by (simp add: action_accounts_iff)
qed

section \<open>The rows of a workspace under the requests of others\<close>

lemma own_rows_eqI:
  assumes tenant: "tenant (ws_id v) d' = tenant (ws_id v) d" and sales: "sales_tenant v d' = sales_tenant v d"
    and "filter (\<lambda>r. ir_workspace_id r = ws_id v) (inbound_receipts d') = filter (\<lambda>r. ir_workspace_id r = ws_id v) (inbound_receipts d)"
    and "users d' = users d" "members d' = members d"
  shows "own_rows v d' = own_rows v d"
proof -
  note t = tenant [unfolded tenant_def prod.inject] and u = sales [unfolded sales_tenant_def prod.inject]
  show ?thesis
    by (rule db.equality) (simp_all add: t u assms(3-5))
qed

lemma owns_approval_cong:
  assumes "leads d' = leads d"
    "filter (\<lambda>x. oa_workspace_id x = ws_id v) (actions d') = filter (\<lambda>x. oa_workspace_id x = ws_id v) (actions d)"
  shows "owns v d' = owns v d" "owns_approval v d' = owns_approval v d"
proof -
  show o: "owns v d' = owns v d" by (simp add: owns_def assms(1) fun_eq_iff)
  have "(\<exists>x \<in> set (actions d'). oa_approval_request_id x = k \<and> oa_workspace_id x = ws_id v) \<longleftrightarrow>
      (\<exists>x \<in> set (actions d). oa_approval_request_id x = k \<and> oa_workspace_id x = ws_id v)" for k
    using arg_cong [OF assms(2), of set] by (auto simp: set_eq_iff)
  then show "owns_approval v d' = owns_approval v d" by (simp add: owns_approval_def o fun_eq_iff)
qed

lemma workspace_request_own_rows:
  assumes req: "workspace_request ws d d'" and inv: "api_inv d" and links: "sales_links d" and other: "ws_id ws \<noteq> ws_id v"
  shows "own_rows v d' = own_rows v d"
proof (rule own_rows_eqI)
  note conf = workspace_request_inv(2) [OF req inv]
  then have eq: "others (ws_id ws) d' = others (ws_id ws) d" by (simp add: confined_def)
  note t = others_sales_tables [OF eq] others_fields(8-10) [OF eq]
  show tenant: "tenant (ws_id v) d' = tenant (ws_id v) d" using conf other by (auto intro: confined_tenant)
  show "users d' = users d" "members d' = members d"
    "filter (\<lambda>r. ir_workspace_id r = ws_id v) (inbound_receipts d') = filter (\<lambda>r. ir_workspace_id r = ws_id v) (inbound_receipts d)"
    by (simp_all add: t)
  have acts: "filter (\<lambda>x. oa_workspace_id x = ws_id v) (actions d') = filter (\<lambda>x. oa_workspace_id x = ws_id v) (actions d)"
    using tenant by (simp add: tenant_def)
  note own = owns_approval_cong [OF t(1) acts]
  from workspace_request_links(2) [OF req inv links] obtain new where
    new: "approvals d' = approvals d @ new" "\<forall>p \<in> set new. action_request d p" by blast
  have "\<not> owns_approval v d p" if "p \<in> set new" for p
  proof -
    from new(2) that have p: "ap_lead_id p = None" "next_id d \<le> ap_id p" by (simp_all add: action_request_def)
    have "k < next_id d" if "x \<in> set (actions d)" "oa_approval_request_id x = Some k" for x k
      using links that by (simp add: sales_links_def action_links_def)
    with p show ?thesis by (fastforce simp: owns_approval_def)
  qed
  then have "filter (owns_approval v d) (approvals d') = filter (owns_approval v d) (approvals d)"
    by (simp add: new(1) filter_empty_conv)
  then show "sales_tenant v d' = sales_tenant v d" by (simp add: sales_tenant_def t own)
qed

section \<open>What Sales requests leave of the integration tables\<close>

lemma sales_others_integration:
  assumes "sales_others ws e d' = sales_others ws e d"
  shows "accounts d' = accounts d" "account_audit d' = account_audit d" "actions d' = actions d"
    "audit_events d' = audit_events d" "annotations d' = annotations d" "labels d' = labels d"
    "attempts d' = attempts d" "inbound_receipts d' = inbound_receipts d" "users d' = users d" "members d' = members d"
  using arg_cong [OF assms, of accounts] arg_cong [OF assms, of account_audit] arg_cong [OF assms, of actions]
    arg_cong [OF assms, of audit_events] arg_cong [OF assms, of annotations] arg_cong [OF assms, of labels]
    arg_cong [OF assms, of attempts] arg_cong [OF assms, of inbound_receipts] arg_cong [OF assms, of users]
    arg_cong [OF assms, of members]
  by (simp_all add: sales_others_def)

lemma outbound_inv_requested:
  assumes inv: "outbound_inv d" and t: "actions d' = actions d" "attempts d' = attempts d" "audit_events d' = audit_events d"
    and n: "next_id d \<le> next_id d'" and app: "approvals d' = approvals d @ new" "\<forall>a \<in> set new. requested a"
    and ids: "fresh_ids ap_id (approvals d') (next_id d')"
  shows "outbound_inv d'"
proof -
  have views: "attempts_of k d' = attempts_of k d" "events_of k d' = events_of k d" for k
    by (simp_all add: attempts_of_def events_of_def t)
  have state: "approval_state a d' = approval_state a d" if a: "a \<in> set (actions d)" for a
  proof (cases "oa_approval_request_id a")
    case (Some k)
    from inv a have v: "view_ok a (attempts_of (oa_id a) d) (events_of (oa_id a) d) (approval_state a d)"
      by (simp add: outbound_inv_def)
    with Some have "approval_state a d \<noteq> None" by (auto simp: view_ok_def status_coherent_def)
    with Some obtain p where "get_approval k d = Some p" by (auto simp: approval_state_def)
    with Some show ?thesis by (simp add: approval_state_def get_approval_def app(1) row_find_append)
  qed (simp add: approval_state_def)
  have "approvals_inv d'"
    using inv app ids by (auto simp: outbound_inv_def approvals_inv_def fresh_ids_def requested_def)
  moreover have "\<forall>p \<in> set (approvals d'). ap_id p < next_id d'" using ids by (simp add: fresh_ids_def)
  moreover have "\<forall>a \<in> set (actions d). oa_id a < next_id d'"
    "\<forall>x \<in> set (attempts d). da_id x < next_id d' \<and> da_outbound_integration_action_id x < next_id d'"
    "\<forall>e \<in> set (audit_events d). ae_outbound_integration_action_id e < next_id d'"
    using inv n by (auto simp: outbound_inv_def intro: less_le_trans)
  ultimately show ?thesis
    using inv by (simp add: outbound_inv_def t views state)
qed

lemma sales_work_outbound_inv:
  assumes work: "sales_work ws d d'" and inv: "outbound_inv d" and links: "sales_links d"
  shows "outbound_inv d'"
proof -
  from work links have l: "sales_links d'" "sales_others ws d' d' = sales_others ws d' d" "next_id d \<le> next_id d'"
    by (simp_all add: sales_work_def sales_local_def)
  from work obtain new where new: "approvals d' = approvals d @ new" "\<forall>a \<in> set new. requested a"
    by (auto simp: sales_work_def)
  note t = sales_others_integration [OF l(2)]
  show ?thesis
    by (rule outbound_inv_requested [OF inv t(3,7,4) l(3) new]) (use l(1) in \<open>simp add: sales_links_def sales_ids_def\<close>)
qed

lemma decision_outbound_inv:
  assumes "outbound_inv d"
  shows "outbound_inv (snd (approve ws k remark actor clk d))" "outbound_inv (snd (reject ws k remark actor clk d))"
    "outbound_inv (snd (assign_approval ws k target actor clk d))" "outbound_inv (snd (clear_approval ws k actor d))"
proof -
  have step: "outbound_step pol d d' \<Longrightarrow> outbound_inv d'" for pol d' using assms by (rule ost.step_inv [rotated])
  show "outbound_inv (snd (approve ws k remark actor clk d))"
    by (rule step [OF os_decide [OF ds_approve]]) (rule surjective_pairing)
  show "outbound_inv (snd (reject ws k remark actor clk d))"
    by (rule step [OF os_decide [OF ds_reject]]) (rule surjective_pairing)
  show "outbound_inv (snd (assign_approval ws k target actor clk d))"
    by (rule step [OF os_assign]) (rule surjective_pairing)
  show "outbound_inv (snd (clear_approval ws k actor d))"
    by (rule step [OF os_unassign]) (rule surjective_pairing)
qed

lemma save_workspace_outbound_inv: "outbound_inv d \<Longrightarrow> outbound_inv (save_workspace w d)"
  by (rule outbound_inv_frame [of d]) (simp_all add: save_workspace_def)

lemma settings_outbound_inv:
  assumes "outbound_inv d"
  shows "outbound_inv (snd (route_replace_instructions ws v clk d))"
    "outbound_inv (snd (route_clear_instructions ws clk d))"
    "outbound_inv (snd (route_update_communication ws x y z clk d))"
  using assms
  by (auto simp: route_replace_instructions_def replace_instructions_def route_clear_instructions_def
      clear_instructions_def route_update_communication_def update_communication_def Let_def
      split: sum.splits intro!: save_workspace_outbound_inv)

lemma run_sales_outbound_inv:
  assumes ut: "usage_table (en_persist (se_ai e))" and links: "sales_links d" and inv: "outbound_inv d"
  shows "outbound_inv (snd (run_sales_request e cx clk rq d))"
proof (cases "sales_permission rq \<in> set MEMBER_PERMISSIONS")
  case True
  from sales_work_outbound_inv [OF run_sales_local(2) [OF ut links True] inv links] show ?thesis .
next
  case False
  show ?thesis
  proof (cases rq)
    case (SqAssignLead k target)
    with sales_work_outbound_inv [OF assign_lead_work inv links] show ?thesis
      by (simp add: assign_conversation_operator_def)
  next
    case (SqClearLead k)
    with sales_work_outbound_inv [OF clear_lead_work inv links] show ?thesis
      by (simp add: clear_conversation_operator_def)
  qed (use False in \<open>simp_all add: MEMBER_PERMISSIONS_def approve_action_def reject_action_def assign_approval_operator_def
      clear_approval_operator_def decision_outbound_inv [OF inv] settings_outbound_inv [OF inv]\<close>)
qed

section \<open>Every request keeps the invariant of the service\<close>

definition service_inv :: "db \<Rightarrow> bool" where
  "service_inv d \<longleftrightarrow> api_inv d \<and> action_accounts d \<and> sales_links d \<and> distinct (map ws_id (workspaces d))"

text \<open>No request renames or renumbers a workspace.\<close>

definition directory :: "db \<Rightarrow> (uuid \<times> string) list" where
  "directory d = map (\<lambda>w. (ws_id w, ws_slug w)) (workspaces d)"

lemma directory_ids: "directory d' = directory d \<Longrightarrow> map ws_id (workspaces d') = map ws_id (workspaces d)"
  by (drule arg_cong [where f = "map fst"]) (simp add: directory_def comp_def)

lemma directory_same: "workspaces d' = workspaces d \<Longrightarrow> directory d' = directory d"
  by (simp add: directory_def)

lemma directory_save_workspace:
  assumes "distinct (map ws_id (workspaces d))" "ws \<in> set (workspaces d)" "ws_id w = ws_id ws" "ws_slug w = ws_slug ws"
  shows "directory (save_workspace w d) = directory d"
proof -
  have "ws_slug (if ws_id x = ws_id w then w else x) = ws_slug x" if "x \<in> set (workspaces d)" for x
  proof (cases "ws_id x = ws_id w")
    case True
    with assms that have "x = ws" by (simp add: distinct_map inj_on_def)
    with True assms(4) show ?thesis by simp
  qed simp
  then show ?thesis by (auto simp: directory_def save_workspace_def row_update_def)
qed

lemma service_inv_frame:
  assumes inv: "service_inv d" and t: "accounts d' = accounts d" "account_audit d' = account_audit d"
    "actions d' = actions d" "audit_events d' = audit_events d" "labels d' = labels d" "attempts d' = attempts d"
    and n: "next_id d \<le> next_id d'" and out: "outbound_inv d'" and links: "sales_links d'" and dir: "directory d' = directory d"
  shows "service_inv d'"
  using accounts_inv_frame [OF _ t(1,2) n] labels_inv_frame [OF _ t(5) n] inv out links directory_ids [OF dir]
  by (simp add: service_inv_def api_inv_def action_accounts_def t)

lemma workspace_request_service:
  assumes req: "workspace_request ws d d'" and inv: "service_inv d"
  shows "service_inv d'" and "directory d' = directory d"
proof -
  from inv have "api_inv d" by (simp add: service_inv_def)
  from workspace_request_inv(2) [OF req this] have "others (ws_id ws) d' = others (ws_id ws) d" by (simp add: confined_def)
  then have w: "workspaces d' = workspaces d" by (rule others_fields(8))
  then show "directory d' = directory d" by (rule directory_same)
  show "service_inv d'"
    using req inv workspace_request_inv(1) workspace_request_accounts workspace_request_links(1)
    by (simp add: service_inv_def w)
qed

lemma sales_change_service:
  assumes loc: "sales_local ws d d'" and inv: "service_inv d" and out: "outbound_inv d'" and dir: "directory d' = directory d"
  shows "service_inv d'"
proof -
  from loc inv have l: "sales_links d'" "sales_others ws d' d' = sales_others ws d' d" "next_id d \<le> next_id d'"
    by (simp_all add: sales_local_def service_inv_def)
  note t = sales_others_integration [OF l(2)]
  show ?thesis by (rule service_inv_frame [OF inv t(1-3) t(4) t(6) t(7) l(3) out l(1) dir])
qed

lemma sales_change_own_rows:
  assumes loc: "sales_local ws d d'" and links: "sales_links d" and other: "ws_id ws \<noteq> ws_id v" "ws_slug ws \<noteq> ws_slug v"
  shows "own_rows v d' = own_rows v d"
proof -
  from loc links have "sales_others ws d' d' = sales_others ws d' d" by (simp add: sales_local_def)
  note t = sales_others_integration [OF this]
  show ?thesis
    by (rule own_rows_eqI [OF _ sales_local_tenant [OF loc links other]]) (simp_all add: tenant_def t)
qed

lemma decision_workspaces:
  "workspaces (snd (approve ws k remark actor clk d)) = workspaces d"
  "workspaces (snd (reject ws k remark actor clk d)) = workspaces d"
  "workspaces (snd (assign_approval ws k target actor clk d)) = workspaces d"
  "workspaces (snd (clear_approval ws k actor d)) = workspaces d"
  by (auto simp: approve_def reject_def assign_approval_def clear_approval_def Let_def console_send_def save_approval_def
      set_approval_assignment_def clear_approval_assignment_def take_id_def
      split: sum.splits option.splits)

lemma settings_directory:
  assumes "distinct (map ws_id (workspaces d))" "ws \<in> set (workspaces d)"
  shows "directory (snd (route_replace_instructions ws v clk d)) = directory d"
    "directory (snd (route_clear_instructions ws clk d)) = directory d"
    "directory (snd (route_update_communication ws x y z clk d)) = directory d"
  by (auto simp: route_replace_instructions_def replace_instructions_def route_clear_instructions_def
      clear_instructions_def route_update_communication_def update_communication_def Let_def
      split: sum.splits intro!: directory_save_workspace [OF assms])

lemma run_sales_directory:
  assumes ut: "usage_table (en_persist (se_ai e))" and inv: "service_inv d" and ws: "cx_workspace cx \<in> set (workspaces d)"
  shows "directory (snd (run_sales_request e cx clk rq d)) = directory d"
proof (cases "sales_permission rq \<in> set MEMBER_PERMISSIONS")
  case True
  from inv have "sales_links d" by (simp add: service_inv_def)
  from run_sales_local(2) [OF ut this True] show ?thesis by (auto simp: sales_work_def intro: directory_same)
next
  case False
  from inv have ids: "distinct (map ws_id (workspaces d))" by (simp add: service_inv_def)
  show ?thesis
  proof (cases rq)
    case (SqAssignLead k target)
    with assign_lead_work [of "cx_workspace cx" d k target "get_operator_assignment_actor cx" clk] show ?thesis
      by (auto simp: assign_conversation_operator_def sales_work_def intro: directory_same)
  next
    case (SqClearLead k)
    with clear_lead_work [of "cx_workspace cx" d k "get_operator_assignment_actor cx"] show ?thesis
      by (auto simp: clear_conversation_operator_def sales_work_def intro: directory_same)
  qed (use False in \<open>auto simp: MEMBER_PERMISSIONS_def approve_action_def reject_action_def assign_approval_operator_def
      clear_approval_operator_def decision_workspaces settings_directory [OF ids ws] intro: directory_same\<close>)
qed

section \<open>Inbound events\<close>

lemma reserve_event_frame:
  assumes "reserve_event ws acc ev clk d = (r, d')"
  shows "\<exists>rs n. d' = d\<lparr>inbound_receipts := inbound_receipts d @ rs, next_id := n\<rparr> \<and> next_id d \<le> n \<and>
    (\<forall>x \<in> set rs. ir_workspace_id x = ws_id ws)"
proof -
  have plain: ?thesis if "d' = d\<lparr>next_id := n\<rparr>" "next_id d \<le> n" for n
    using that by (intro exI [of _ "[]"] exI [of _ n]) simp
  show ?thesis
  proof (cases "normalize_external_event_id ev")
    case (Inl e)
    with assms show ?thesis by (intro plain [of "next_id d"]) (simp_all add: reserve_event_def)
  next
    case n: (Inr n)
    show ?thesis
    proof (cases "find_receipt ws acc n d")
      case None
      let ?r = "\<lparr>ir_id = next_id d, ir_workspace_id = ws_id ws, ir_integration_account_id = ac_id acc,
        ir_external_event_id = n, ir_correlation_id = Suc (next_id d), ir_created_at = utc (clk 0)\<rparr>"
      have "d' = d\<lparr>inbound_receipts := inbound_receipts d @ [?r], next_id := Suc (Suc (next_id d))\<rparr>"
        using assms n None by (intro db.equality) (auto simp: reserve_event_def Let_def take_id_def)
      then show ?thesis by (intro exI [of _ "[?r]"] exI [of _ "Suc (Suc (next_id d))"]) simp
    next
      case (Some x)
      with assms n show ?thesis
        by (intro plain [of "Suc (Suc (next_id d))"]) (simp_all add: reserve_event_def Let_def take_id_def)
    qed
  qed
qed

lemma handle_event_work:
  assumes "handle_event e st ev ws clk d = (r, d')" and "usage_table (en_persist e)"
  shows "sales_work ws d d'"
  using assms
  by (auto simp: handle_event_def make_turn_service_def bindE_Inr_iff split: sum.splits if_splits dest: process_turn_work)

lemma inbound_event_effect:
  assumes run: "receive_inbound_event e st cx ev event_id clk d = (r, d')" and ut: "usage_table (en_persist e)"
    and inv: "service_inv d"
  shows "service_inv d'" and "directory d' = directory d"
    and "users d' = users d \<and> credentials d' = credentials d \<and> members d' = members d \<and> next_id d \<le> next_id d'"
    and "ws_id (ic_workspace cx) \<noteq> ws_id v \<Longrightarrow> ws_slug (ic_workspace cx) \<noteq> ws_slug v \<Longrightarrow> own_rows v d' = own_rows v d"
    and "\<exists>new. approvals d' = approvals d @ new"
proof -
  let ?ws = "ic_workspace cx"
  have "\<exists>d0 rs n. d0 = d\<lparr>inbound_receipts := inbound_receipts d @ rs, next_id := n\<rparr> \<and> next_id d \<le> n \<and>
      (\<forall>x \<in> set rs. ir_workspace_id x = ws_id ?ws) \<and> (d' = d0 \<or> (\<exists>r'. handle_event e st ev ?ws clk d0 = (r', d')))"
  proof (cases event_id)
    case None
    with run show ?thesis
      by (intro exI [of _ d] exI [of _ "[]"] exI [of _ "next_id d"])
        (auto simp: receive_inbound_event_def split: prod.splits sum.splits)
  next
    case (Some k)
    obtain rv d0 where res: "reserve_event ?ws (ic_account cx) k (\<lambda>_. clk 6) d = (rv, d0)" by fastforce
    with run Some have "d' = d0 \<or> (\<exists>r'. handle_event e st ev ?ws clk d0 = (r', d'))"
      by (auto simp: receive_inbound_event_def Let_def split: sum.splits if_splits prod.splits)
    with reserve_event_frame [OF res] show ?thesis by blast
  qed
  then obtain d0 rs n where d0: "d0 = d\<lparr>inbound_receipts := inbound_receipts d @ rs, next_id := n\<rparr>" "next_id d \<le> n"
    and rs: "\<forall>x \<in> set rs. ir_workspace_id x = ws_id ?ws"
    and rest: "d' = d0 \<or> (\<exists>r'. handle_event e st ev ?ws clk d0 = (r', d'))" by blast
  from inv have links: "sales_links d" and out: "outbound_inv d" by (simp_all add: service_inv_def api_inv_def)
  have links0: "sales_links d0" by (rule sales_links_frame [OF links]) (simp_all add: d0)
  have out0: "outbound_inv d0" by (rule outbound_inv_frame [OF out]) (simp_all add: d0)
  have dir0: "directory d0 = directory d" by (rule directory_same) (simp add: d0)
  have inv0: "service_inv d0"
    by (rule service_inv_frame [OF inv _ _ _ _ _ _ _ out0 links0 dir0]) (simp_all add: d0)
  have work: "sales_work ?ws d0 d'"
    using rest
  proof (elim disjE exE)
    assume "d' = d0"
    then show ?thesis by (simp only: sales_work_refl)
  next
    fix r' assume "handle_event e st ev ?ws clk d0 = (r', d')"
    then show ?thesis by (rule handle_event_work [OF _ ut])
  qed
  have dir: "directory d' = directory d0" 
    by (rule directory_same) (use work in \<open>simp only: sales_work_def\<close>)
  with dir0 show "directory d' = directory d" by simp
  show "service_inv d'"
    by (rule sales_change_service [OF sales_work_local [OF work] inv0 sales_work_outbound_inv [OF work out0 links0] dir])
  from sales_work_local [OF work] links0 have eq: "sales_others ?ws d' d' = sales_others ?ws d' d0"
    and n: "next_id d0 \<le> next_id d'" by (simp_all add: sales_local_def)
  have "credentials d' = credentials d0" using arg_cong [OF eq, of credentials] by (simp add: sales_others_def)
  with sales_others_integration(9,10) [OF eq] n d0(2)
  show "users d' = users d \<and> credentials d' = credentials d \<and> members d' = members d \<and> next_id d \<le> next_id d'"
    by (simp add: d0(1))
  show "\<exists>new. approvals d' = approvals d @ new" using work by (auto simp: sales_work_def d0(1))
  assume other: "ws_id ?ws \<noteq> ws_id v" "ws_slug ?ws \<noteq> ws_slug v"
  have "filter (\<lambda>r. ir_workspace_id r = ws_id v) rs = []" using rs other(1) by (auto simp: filter_empty_conv)
  moreover have own: "owns v d0 = owns v d" "owns_approval v d0 = owns_approval v d"
    by (rule owns_approval_cong; simp add: d0)+
  ultimately have "own_rows v d0 = own_rows v d"
    by (intro own_rows_eqI; unfold tenant_def sales_tenant_def own) (simp_all add: d0)
  with sales_change_own_rows [OF sales_work_local [OF work] links0 other] show "own_rows v d' = own_rows v d" by simp
qed

section \<open>The service\<close>

text \<open>A request of anybody, or a provider's webhook, that does not address the workspace \<open>v\<close>.\<close>

inductive service_step :: "workspace \<Rightarrow> db \<Rightarrow> db \<Rightarrow> bool" for v where
  sv_integration: "integration_api deco up auth x st c clk rq d = Some (ans, d') \<Longrightarrow>
   (\<And>w. get_workspace_by_slug (ca_slug c) d = Inr w \<Longrightarrow> ws_id w \<noteq> ws_id v) \<Longrightarrow> service_step v d d'"
| sv_sales: "sales_api deco up auth e c clk rq' d = (ans', d') \<Longrightarrow> usage_table (en_persist (se_ai e)) \<Longrightarrow>
   (\<And>w. get_workspace_by_slug (ca_slug c) d = Inr w \<Longrightarrow> ws_id w \<noteq> ws_id v \<and> ws_slug w \<noteq> ws_slug v) \<Longrightarrow>
   service_step v d d'"
| sv_inbound: "get_verified_integration_context sha256 hmac env max_age now key payload signature timestamp event_id d
     = Inr cx \<Longrightarrow> receive_inbound_event ai ss cx ev event_id clk d = (ans'', d') \<Longrightarrow> usage_table (en_persist ai) \<Longrightarrow>
   ws_id (ic_workspace cx) \<noteq> ws_id v \<Longrightarrow> ws_slug (ic_workspace cx) \<noteq> ws_slug v \<Longrightarrow> service_step v d d'"

lemma service_step_effect:
  assumes "service_step v d d'" and inv: "service_inv d"
  shows "service_inv d'" and "own_rows v d' = own_rows v d" and "directory d' = directory d"
proof -
  have parts: "api_inv d" "sales_links d" "outbound_inv d" using inv by (simp_all add: service_inv_def api_inv_def)
  have "service_inv d' \<and> own_rows v d' = own_rows v d \<and> directory d' = directory d"
    using assms(1)
  proof cases
    case (sv_integration deco up auth x st c clk rq ans)
    from sv_integration(1) show ?thesis
    proof (cases rule: integration_api_changes)
      case same
      with inv show ?thesis by simp
    next
      case (changed cx)
      from changed(1) obtain scheme token where
        "resolve_workspace_context (cx_principal cx) (ca_slug c) (request_needs_active rq) d = Inr cx"
        by (rule authorize_InrD)
      from resolve_workspace_context_InrD(2) [OF this] sv_integration(2)
      have "ws_id (cx_workspace cx) \<noteq> ws_id v" by blast
      with workspace_request_service [OF changed(3) inv] workspace_request_own_rows [OF changed(3) parts(1,2)]
      show ?thesis by simp
    qed
  next
    case (sv_sales deco up auth e c clk rq ans)
    from sv_sales(1) show ?thesis
    proof (cases rule: sales_api_cases)
      case same
      with inv show ?thesis by simp
    next
      case (run cx)
      from run(1) obtain scheme token where cx: "resolve_workspace_context (cx_principal cx) (ca_slug c) True d = Inr cx"
        by (rule authorize_InrD)
      from resolve_workspace_context_InrD(2) [OF cx] sv_sales(3)
      have other: "ws_id (cx_workspace cx) \<noteq> ws_id v" "ws_slug (cx_workspace cx) \<noteq> ws_slug v" by blast+
      from run_sales_local(1) [OF sv_sales(2) parts(2)] have loc: "sales_local (cx_workspace cx) d d'"
        by (simp add: run(2))
      moreover have "outbound_inv d'"
        using run_sales_outbound_inv [OF sv_sales(2) parts(2,3)] by (simp add: run(2))
      moreover have "cx_workspace cx \<in> set (workspaces d)"
        using get_workspace_by_slug_InrD [OF resolve_workspace_context_InrD(2) [OF cx]] by simp
      then have "directory d' = directory d"
        using run_sales_directory [OF sv_sales(2) inv] by (simp add: run(2))
      ultimately show ?thesis
        using sales_change_service [OF _ inv] sales_change_own_rows [OF loc parts(2) other] by blast
    qed
  next
    case sv_inbound
    with inbound_event_effect [OF sv_inbound(2,3) inv] show ?thesis by blast
  qed
  then show "service_inv d'" "own_rows v d' = own_rows v d" "directory d' = directory d" by simp_all
qed

interpretation service: invariant_system "service_step v" service_inv for v
  by unfold_locales (rule service_step_effect(1))

section \<open>The dependencies in two databases\<close>

lemma directory_slug:
  assumes dir: "directory d' = directory d" and ids: "distinct (map ws_id (workspaces d))"
    and rows: "filter (\<lambda>x. ws_id x = ws_id v) (workspaces d') = filter (\<lambda>x. ws_id x = ws_id v) (workspaces d)"
    and v: "get_workspace_by_slug slug d = Inr v"
  shows "get_workspace_by_slug slug d' = Inr v"
proof -
  let ?P = "\<lambda>w. ws_slug w = py_lower (py_strip slug)"
  have find: "find ?P xs = Some w \<Longrightarrow> map (\<lambda>w. (ws_id w, ws_slug w)) ys = map (\<lambda>w. (ws_id w, ws_slug w)) xs \<Longrightarrow>
      \<exists>w'. find ?P ys = Some w' \<and> ws_id w' = ws_id w" for xs ys :: "workspace list" and w
  proof (induction xs arbitrary: ys)
    case (Cons x xs)
    then obtain y ys' where "ys = y # ys'" "ws_id y = ws_id x" "ws_slug y = ws_slug x" by (cases ys) auto
    with Cons show ?case by (auto split: if_splits)
  qed simp
  from v have "find ?P (workspaces d) = Some v"
    by (simp add: get_workspace_by_slug_def workspace_by_slug_exact_def split: option.splits)
  from find [OF this dir [unfolded directory_def]] obtain w where
    w: "find ?P (workspaces d') = Some w" "ws_id w = ws_id v" by blast
  then have "w \<in> set (filter (\<lambda>x. ws_id x = ws_id v) (workspaces d'))" by (auto simp: find_Some_iff)
  then have "w \<in> set (workspaces d)" by (simp add: rows)
  moreover have "v \<in> set (workspaces d)" using get_workspace_by_slug_InrD [OF v] by simp
  ultimately have "w = v" using ids w(2) by (simp add: distinct_map inj_on_def)
  with w(1) show ?thesis by (simp add: get_workspace_by_slug_def workspace_by_slug_exact_def)
qed

lemma authorize_same:
  assumes "users d' = users d" "members d' = members d" "get_workspace_by_slug slug d = Inr v"
    "get_workspace_by_slug slug d' = Inr v" "get_workspace_row (ws_id v) d' = get_workspace_row (ws_id v) d"
  shows "authorize deco up auth now header slug act perm d' = authorize deco up auth now header slug act perm d"
proof -
  have "resolve_active_membership p v d' = resolve_active_membership p v d"
    "resolve_principal_from_access_token deco up auth token now d' =
     resolve_principal_from_access_token deco up auth token now d" for p token
    using assms
    by (simp_all add: resolve_active_membership_def get_user_def stored_workspace_def get_user_row_def
        find_membership_def resolve_principal_from_access_token_def resolve_active_principal_def
        cong: sum.case_cong option.case_cong if_cong)
  then show ?thesis
    using assms(3,4)
    by (simp add: authorize_def get_authenticated_principal_def resolve_workspace_context_def
        cong: option.case_cong if_cong)
qed

lemma foreign_steps:
  assumes steps: "(service_step v)\<^sup>*\<^sup>* d d'" and inv: "service_inv d"
  shows "service_inv d'" "own_rows v d' = own_rows v d" "directory d' = directory d"
proof -
  show "service_inv d'" by (rule service.steps_inv [OF steps inv])
  show "own_rows v d' = own_rows v d"
    by (rule service.steps_keep [where P = "\<lambda>s. own_rows v s = own_rows v d", OF _ steps inv])
      (use service_step_effect(2) in auto)
  show "directory d' = directory d"
    by (rule service.steps_keep [where P = "\<lambda>s. directory s = directory d", OF _ steps inv])
      (use service_step_effect(3) in auto)
qed

lemma own_rows_directory:
  assumes "own_rows v d' = own_rows v d"
  shows "users d' = users d" "members d' = members d"
    "filter (\<lambda>x. ws_id x = ws_id v) (workspaces d') = filter (\<lambda>x. ws_id x = ws_id v) (workspaces d)"
  using arg_cong [OF assms, of users] arg_cong [OF assms, of members] arg_cong [OF assms, of workspaces]
  by (simp_all add: own_rows_def)

lemma foreign_authorize:
  assumes steps: "(service_step v)\<^sup>*\<^sup>* d d'" and inv: "service_inv d" and v: "get_workspace_by_slug slug d = Inr v"
  shows "authorize deco up auth now header slug act perm d' = authorize deco up auth now header slug act perm d"
proof -
  note f = foreign_steps [OF steps inv]
  note o = own_rows_directory [OF f(2)]
  have "get_workspace_row (ws_id v) x = row_find ws_id (ws_id v) (filter (\<lambda>x. ws_id x = ws_id v) (workspaces x))" for x
    by (simp add: get_workspace_row_def row_find_within del: filter_filter)
  then have "get_workspace_row (ws_id v) d' = get_workspace_row (ws_id v) d" by (simp add: o(3))
  moreover have "get_workspace_by_slug slug d' = Inr v"
    by (rule directory_slug [OF f(3) _ o(3) v]) (use inv in \<open>simp add: service_inv_def\<close>)
  ultimately show ?thesis using authorize_same [OF o(1,2) v] by blast
qed

text \<open>C11: Whatever the other tenants do is invisible: after any sequence of integration requests, Sales requests
  and verified webhooks that address other workspaces, a workspace has exactly the rows it had in every
  table, every read of it, of whichever caller, gives the answer it gave before, and all invariants
  of the service still hold.\<close>

theorem foreign_requests_invisible:
  assumes steps: "(service_step v)\<^sup>*\<^sup>* d d'" and inv: "service_inv d" and v: "get_workspace_by_slug (ca_slug c) d = Inr v"
  shows "service_inv d' \<and> own_rows v d' = own_rows v d \<and>
    (request_permission rq \<in> {INTEGRATION_READ, AI_USAGE_READ} \<longrightarrow>
       map_option fst (integration_api deco up auth x st c clk rq d') = map_option fst (integration_api deco up auth x st c clk rq d)) \<and>
    (sales_reads rq' \<longrightarrow>
       fst (sales_api deco up auth e c clk rq' d') = fst (sales_api deco up auth e c clk rq' d))"
proof -
  note f = foreign_steps [OF steps inv]
  note auth = foreign_authorize [OF steps inv v]
  have own: "cx_workspace cx = v"
    if "authorize deco up auth (ca_now c) (ca_header c) (ca_slug c) act perm d = Inr cx" for act perm and cx :: workspace_context
  proof -
    from that obtain scheme token where "resolve_workspace_context (cx_principal cx) (ca_slug c) act d = Inr cx"
      by (rule authorize_InrD)
    from resolve_workspace_context_InrD(2) [OF this] v show ?thesis by simp
  qed
  have "map_option fst (integration_api deco up auth x st c clk rq d') = map_option fst (integration_api deco up auth x st c clk rq d)"
    if rq: "request_permission rq \<in> {INTEGRATION_READ, AI_USAGE_READ}"
  proof -
    have "map_option fst (run_request x st v clk rq' d') = map_option fst (run_request x st v clk rq' d)"
      if "request_valid rq = Inr rq'" for rq'
    proof -
      have "request_permission rq' \<in> {INTEGRATION_READ, AI_USAGE_READ}"
        using rq that by (cases rq) (auto split: if_splits sum.splits)
      from reads_see_own_rows [OF this, of d' x st v clk] reads_see_own_rows [OF this, of d x st v clk] inv f(1,2)
      show ?thesis by (auto simp: service_inv_def)
    qed
    then show ?thesis
      by (auto simp: integration_api_def auth own split: sum.split)
  qed
  moreover have "fst (sales_api deco up auth e c clk rq' d') = fst (sales_api deco up auth e c clk rq' d)"
    if rq: "sales_reads rq'"
  proof -
    have "fst (run_sales_request e cx clk rq' d') = fst (run_sales_request e cx clk rq' d)" if "cx_workspace cx = v" for cx
      using sales_reads_see_own_rows [OF rq, of d' e cx clk] sales_reads_see_own_rows [OF rq, of d e cx clk]
        inv f(1,2) that by (auto simp: service_inv_def)
    then show ?thesis
      by (auto simp: sales_api_def auth own split: sum.split)
  qed
  ultimately show ?thesis using f(1,2) by blast
qed

section \<open>Two tenants\<close>

text \<open>Acme and Beta share a user; Acme's owner rejects a pending approval request.\<close>

definition beta_member :: workspace_member where
  "beta_member = (sample_member OWNER)\<lparr>wm_id := 12, wm_workspace_id := 7\<rparr>"

definition service_sample_db :: db where
  "service_sample_db = sales_sample_db\<lparr>workspaces := [sample_ws, other_ws],
     members := [sample_member OWNER, beta_member],
     leads := [sample_lead, sample_lead\<lparr>ld_id := 11, ld_tenant_id := ''beta'', ld_full_name := ''Ann'',
       ld_company_name := ''Co''\<rparr>]\<rparr>"

definition beta_caller :: caller where
  "beta_caller = \<lparr>ca_header = Some (''Bearer'', sample_token), ca_slug = ''beta'', ca_now = 5\<rparr>"

lemmas service_sample_defs = service_sample_db_def sales_sample_db_def other_ws_def beta_member_def sample_defs

lemma service_sample_slugs:
  "get_workspace_by_slug '' ACME'' service_sample_db = Inr sample_ws"
  "get_workspace_by_slug ''beta'' service_sample_db = Inr other_ws"
proof -
  have "py_lower (py_strip ''beta'') = ''beta''" by code_simp
  then show "get_workspace_by_slug '' ACME'' service_sample_db = Inr sample_ws"
    "get_workspace_by_slug ''beta'' service_sample_db = Inr other_ws"
    by (simp_all add: get_workspace_by_slug_def workspace_by_slug_exact_def sample_slugs service_sample_defs)
qed

lemma service_sample_authorized:
  assumes "get_workspace_by_slug s service_sample_db = Inr w" "w \<in> {sample_ws, other_ws}"
  shows "\<exists>m. authorize plain_decode sample_parse sample_auth 5 (Some (''Bearer'', sample_token)) s True p service_sample_db =
    Inr \<lparr>cx_principal = \<lparr>pl_user_id = 2, pl_active = True\<rparr>, cx_workspace = w, cx_membership = m\<rparr> \<and>
    wm_id m = (if w = sample_ws then 3 else 12)"
proof -
  have "resolve_principal_from_access_token plain_decode sample_parse sample_auth sample_token 5 service_sample_db =
     Inr \<lparr>pl_user_id = 2, pl_active = True\<rparr>"
    using sample_principal
    by (simp add: resolve_principal_from_access_token_def resolve_active_principal_def get_user_def get_user_row_def
        service_sample_db_def sales_sample_db_def cong: option.case_cong sum.case_cong)
  moreover have "resolve_active_membership \<lparr>pl_user_id = 2, pl_active = True\<rparr> w service_sample_db =
      Inr (if w = sample_ws then sample_member OWNER else beta_member)"
    using assms(2)
    by (auto simp: resolve_active_membership_Inr_iff get_user_row_def get_workspace_row_def
        find_membership_def service_sample_defs)
  ultimately show ?thesis
    using assms
    by (auto simp: authorize_def get_authenticated_principal_def sample_slugs
        resolve_workspace_context_def authorize_context_def require_permission_def
        all_permissions_complete service_sample_defs)
qed

lemma service_sample_inv: "service_inv service_sample_db"
proof -
  have "sales_links service_sample_db"
    by (simp add: sales_links_def sales_ids_def action_links_def one_owner_def fresh_ids_def service_sample_defs)
  then show ?thesis
    by (auto simp: service_inv_def api_inv_def accounts_inv_def outbound_inv_def approvals_inv_def approval_wf_def
        labels_inv_def labels_of_def action_accounts_def service_sample_defs)
qed

lemma service_sample_step:
  "\<exists>d'. service_step other_ws service_sample_db d' \<and> map ap_status (approvals d') = [AP_REJECTED]"
proof -
  let ?run = "sales_api plain_decode sample_parse sample_auth sales_sample_env sample_caller (\<lambda>_. 0) (SqReject 7 None)
      service_sample_db"
  obtain m where m: "authorize plain_decode sample_parse sample_auth 5 (Some (''Bearer'', sample_token)) '' ACME'' True
      APPROVAL_DECIDE service_sample_db =
    Inr \<lparr>cx_principal = \<lparr>pl_user_id = 2, pl_active = True\<rparr>, cx_workspace = sample_ws, cx_membership = m\<rparr>"
    using service_sample_authorized [OF service_sample_slugs(1)] by blast
  have run: "?run = run_sales_request sales_sample_env \<lparr>cx_principal = \<lparr>pl_user_id = 2, pl_active = True\<rparr>,
      cx_workspace = sample_ws, cx_membership = m\<rparr> (\<lambda>_. 0) (SqReject 7 None) service_sample_db"
    by (simp add: sales_api_def sample_caller_def m)
  have rejected: "map ap_status (approvals (snd ?run)) = [AP_REJECTED]"
    unfolding run
    by (simp add: reject_action_def rendered_approval_def rendered_def catching_def
        rendering_def reject_def pending_scoped_approval_def get_approval_decision_actor_def get_scoped_approval_def
        lead_scoped_approval_def service_sample_defs Let_def save_approval_def row_simps)
  have "service_step other_ws service_sample_db (snd ?run)"
  proof (rule sv_sales [OF surjective_pairing sales_sample_table])
    fix w assume "get_workspace_by_slug (ca_slug sample_caller) service_sample_db = Inr w"
    then have "w = sample_ws" by (simp add: sample_caller_def service_sample_slugs)
    then show "ws_id w \<noteq> ws_id other_ws \<and> ws_slug w \<noteq> ws_slug other_ws" by (simp add: service_sample_defs)
  qed
  with rejected show ?thesis by (intro exI conjI)
qed

theorem foreign_requests_invisible_witness:
  "\<exists>d' leads. (service_step other_ws)\<^sup>*\<^sup>* service_sample_db d' \<and> d' \<noteq> service_sample_db \<and>
     fst (sales_api plain_decode sample_parse sample_auth sales_sample_env beta_caller (\<lambda>_. 0) SqListLeads d') =
       Inr (AsLeads leads) \<and> length leads = 1"
proof -
  let ?list = "\<lambda>d. fst (sales_api plain_decode sample_parse sample_auth sales_sample_env beta_caller (\<lambda>_. 0) SqListLeads d)"
  obtain d' where step: "service_step other_ws service_sample_db d'" and a: "map ap_status (approvals d') = [AP_REJECTED]"
    using service_sample_step by (elim exE conjE)
  from step have s: "(service_step other_ws)\<^sup>*\<^sup>* service_sample_db d'" by (rule r_into_rtranclp)
  have slug: "get_workspace_by_slug (ca_slug beta_caller) service_sample_db = Inr other_ws"
    by (simp add: beta_caller_def service_sample_slugs)
  have "?list d' = ?list service_sample_db"
    using foreign_requests_invisible [OF s service_sample_inv slug, where rq' = SqListLeads and deco = plain_decode
        and up = sample_parse and auth = sample_auth and e = sales_sample_env and clk = "\<lambda>_. 0"] by simp
  moreover obtain m where m: "authorize plain_decode sample_parse sample_auth 5 (Some (''Bearer'', sample_token)) ''beta'' True
      SALES_DATA_READ service_sample_db =
    Inr \<lparr>cx_principal = \<lparr>pl_user_id = 2, pl_active = True\<rparr>, cx_workspace = other_ws, cx_membership = m\<rparr>"
    using service_sample_authorized [OF service_sample_slugs(2)] by blast
  have run: "?list service_sample_db = renderingE AsLeads (route_list_leads other_ws service_sample_db)"
    by (simp add: sales_api_def beta_caller_def m)
  have "\<exists>leads. ?list service_sample_db = Inr (AsLeads leads) \<and> length leads = 1"
    unfolding run
    by (simp add: route_list_leads_def render_lead_def lead_names_valid_def text_between_def renderingE_def
        order_desc_def service_sample_defs)
  moreover have "d' \<noteq> service_sample_db" using a by (auto simp: service_sample_db_def sales_sample_db_def sample_approval_def)
  ultimately show ?thesis using s by auto
qed

end
