(* ===== verification/Account_Api.thy ===== *)
theory Account_Api
  imports Integration_Api
begin

text \<open>
  The endpoints a person uses without a workspace header: registration, login and identity
  (app/api/routes/auth.py), and the creation, list and single read of workspaces
  (app/api/routes/workspaces.py), with the schemas of app/schemas.py they read and answer with. The workspace of
  the single read is named by the path (app/api/dependencies.py).
\<close>

section \<open>Schemas\<close>

record user_read =
  ur_id :: uuid
  ur_email :: string
  ur_display_name :: "string option"
  ur_active :: bool
  ur_created_at :: datetime
  ur_updated_at :: datetime

definition render_user :: "user \<Rightarrow> user_read" where
  "render_user u = \<lparr>ur_id = us_id u, ur_email = us_email u, ur_display_name = us_display_name u,
     ur_active = us_active u, ur_created_at = us_created_at u, ur_updated_at = us_updated_at u\<rparr>"

record workspace_read =
  wr_id :: uuid
  wr_slug :: string
  wr_name :: string
  wr_active :: bool
  wr_created_at :: datetime
  wr_updated_at :: datetime

definition render_workspace :: "workspace \<Rightarrow> workspace_read" where
  "render_workspace w = \<lparr>wr_id = ws_id w, wr_slug = ws_slug w, wr_name = ws_name w, wr_active = ws_active w,
     wr_created_at = ws_created_at w, wr_updated_at = ws_updated_at w\<rparr>"

record access_token_read =
  at_access_token :: string
  at_token_type :: string
  at_expires_in :: int

definition render_token :: "string \<times> int \<Rightarrow> access_token_read" where
  "render_token t = \<lparr>at_access_token = fst t, at_token_type = ''bearer'', at_expires_in = snd t\<rparr>"

record registration =
  rg_email :: string
  rg_password :: string
  rg_display_name :: "string option"

definition registration_valid :: "registration \<Rightarrow> bool" where
  "registration_valid r \<longleftrightarrow> text_between 1 320 (rg_email r) \<and> pred_option (text_between 0 200) (rg_display_name r)"

record login =
  lg_email :: string
  lg_password :: string

definition login_valid :: "login \<Rightarrow> bool" where
  "login_valid l \<longleftrightarrow> text_between 1 320 (lg_email l)"

record workspace_create =
  wc_slug :: string
  wc_name :: string

section \<open>The workspace of the path\<close>

definition get_authenticated_path_workspace_context ::
  "jwt_decoder \<Rightarrow> (string \<Rightarrow> uuid option) \<Rightarrow> auth_settings \<Rightarrow> int \<Rightarrow> bearer \<Rightarrow> string \<Rightarrow> db \<Rightarrow> error + workspace_context" where
  "get_authenticated_path_workspace_context deco uuid_parse st now header slug d =
     bindE (get_authenticated_principal deco uuid_parse st header now d) (\<lambda>p. resolve_workspace_context p slug False d)"

definition get_workspace_read_path_context ::
  "jwt_decoder \<Rightarrow> (string \<Rightarrow> uuid option) \<Rightarrow> auth_settings \<Rightarrow> int \<Rightarrow> bearer \<Rightarrow> string \<Rightarrow> db \<Rightarrow> error + workspace_context" where
  "get_workspace_read_path_context deco uuid_parse st now header slug d =
     bindE (get_authenticated_path_workspace_context deco uuid_parse st now header slug d) (\<lambda>cx.
     bindE (authorize_context cx WORKSPACE_READ) (\<lambda>_. Inr cx))"

text \<open>\<open>GET /workspaces/{slug}\<close>: the workspace of the path, active or not.\<close>

definition get_workspace ::
  "jwt_decoder \<Rightarrow> (string \<Rightarrow> uuid option) \<Rightarrow> auth_settings \<Rightarrow> int \<Rightarrow> bearer \<Rightarrow> string \<Rightarrow> db \<Rightarrow> error + workspace" where
  "get_workspace deco uuid_parse st now header slug d =
     bindE (get_workspace_read_path_context deco uuid_parse st now header slug d) (\<lambda>cx. Inr (cx_workspace cx))"

section \<open>Requests and answers\<close>

text \<open>The single read is reached by the slugs other than \<open>sales-instructions\<close> and \<open>sales-communication\<close>, which
  earlier routes of app/api/routes/workspaces.py answer.\<close>

datatype account_request =
    AqRegister registration
  | AqLogin login
  | AqMe
  | AqCreateWorkspace workspace_create
  | AqListWorkspaces
  | AqGetWorkspace string

datatype account_answer =
    AaUser user_read
  | AaToken access_token_read
  | AaWorkspace workspace_read
  | AaWorkspaces "workspace_read list"

text \<open>What these routes use of the outside: the password hash with its salt and its verification, the
  encoding of tokens, identifiers as text and the identifier of a new token.\<close>

record account_env =
  xa_hash :: hasher
  xa_salt :: nat
  xa_verify :: verifier
  xa_encode :: jwt_encoder
  xa_uuid_str :: "uuid \<Rightarrow> string"
  xa_jti :: string

fun account_api ::
  "jwt_decoder \<Rightarrow> (string \<Rightarrow> uuid option) \<Rightarrow> auth_settings \<Rightarrow> account_env \<Rightarrow> bearer \<Rightarrow> int \<Rightarrow> clock
   \<Rightarrow> account_request \<Rightarrow> account_answer op" where
  "account_api deco up st x header now clk (AqRegister r) d =
     (if \<not> registration_valid r then (Inl request_validation_error, d)
      else rendering (AaUser \<circ> render_user)
        (route_register (xa_hash x) (xa_salt x) (rg_email r) (rg_password r) (rg_display_name r) clk d))"
| "account_api deco up st x header now clk (AqLogin l) d =
     (if \<not> login_valid l then (Inl request_validation_error, d)
      else (renderingE (AaToken \<circ> render_token)
        (route_login (xa_verify x) (xa_encode x) (xa_uuid_str x) st (lg_email l) (lg_password l) (xa_jti x) now d), d))"
| "account_api deco up st x header now clk AqMe d =
     (renderingE (AaUser \<circ> render_user)
        (bindE (get_authenticated_principal deco up st header now d) (\<lambda>p. route_me p d)), d)"
| "account_api deco up st x header now clk (AqCreateWorkspace w) d =
     (case get_authenticated_principal deco up st header now d of
        Inl e \<Rightarrow> (Inl e, d)
      | Inr p \<Rightarrow> rendering (AaWorkspace \<circ> render_workspace) (route_create_workspace (wc_slug w) (wc_name w) p clk d))"
| "account_api deco up st x header now clk AqListWorkspaces d =
     (renderingE (AaWorkspaces \<circ> map render_workspace)
        (bindE (get_authenticated_principal deco up st header now d) (\<lambda>p. Inr (route_list_workspaces p d))), d)"
| "account_api deco up st x header now clk (AqGetWorkspace slug) d =
     (renderingE (AaWorkspace \<circ> render_workspace) (get_workspace deco up st now header slug d), d)"

section \<open>What an account request changes\<close>

text \<open>A request adds rows to the directory of users and workspaces and changes none: a registration adds one
  user with one credential, a creation one workspace with its creator, a known user, as the only member.\<close>

definition adds_directory :: "db \<Rightarrow> db \<Rightarrow> bool" where
  "adds_directory d d' \<longleftrightarrow> (\<exists>us cs ws ms n.
     d' = d\<lparr>users := users d @ us, credentials := credentials d @ cs, workspaces := workspaces d @ ws,
            members := members d @ ms, next_id := n\<rparr> \<and> next_id d \<le> n \<and>
     (\<forall>w \<in> set ws. ws_id w = next_id d) \<and>
     (\<forall>m \<in> set ms. wm_workspace_id m = next_id d \<and> wm_role m = OWNER \<and> wm_user_id m \<in> us_id ` set (users d)))"

lemma adds_directoryI:
  assumes "d' = d\<lparr>users := users d @ us, credentials := credentials d @ cs, workspaces := workspaces d @ ws,
            members := members d @ ms, next_id := n\<rparr>" "next_id d \<le> n"
    "\<forall>w \<in> set ws. ws_id w = next_id d"
    "\<forall>m \<in> set ms. wm_workspace_id m = next_id d \<and> wm_role m = OWNER \<and> wm_user_id m \<in> us_id ` set (users d)"
  shows "adds_directory d d'"
  unfolding adds_directory_def using assms by (intro exI conjI)

lemma adds_directory_refl [simp]: "adds_directory d d"
  by (rule adds_directoryI [where us = "[]" and cs = "[]" and ws = "[]" and ms = "[]" and n = "next_id d"]) simp_all

lemma register_adds:
  assumes "register hash salt email password name clk d = (r, d')"
  shows "adds_directory d d'"
proof (cases r)
  case (Inl e)
  with assms have "d' = d" by (auto simp: register_def Let_def split: sum.splits prod.splits if_splits)
  then show ?thesis by simp
next
  case (Inr u)
  with assms obtain e nm c where
    "d' = take_id (insert_credential c (take_id (insert_user (new_user (next_id d) e nm clk) d)))"
    by (auto elim: register_SomeD)
  then have "d' = d\<lparr>users := users d @ [new_user (next_id d) e nm clk], credentials := credentials d @ [c],
      workspaces := workspaces d @ [], members := members d @ [], next_id := Suc (Suc (next_id d))\<rparr>"
    by (simp add: take_id_def insert_credential_def insert_user_def)
  then show ?thesis by (rule adds_directoryI) simp_all
qed

lemma create_adds:
  assumes "create_for_principal slug name p clk d = (r, d')"
  shows "adds_directory d d'"
proof (cases "\<exists>u. get_user_row (pl_user_id p) d = Some u \<and> us_active u \<and> pl_active p \<and> workspace_by_slug_exact slug d = None")
  case False
  with assms have "d' = d" by (auto simp: create_for_principal_def split: option.splits if_splits)
  then show ?thesis by simp
next
  case True
  then obtain u where "row_find us_id (pl_user_id p) (users d) = Some u" by (auto simp: get_user_row_def)
  from row_find_SomeD [OF this] have user: "pl_user_id p \<in> us_id ` set (users d)" by force have "d' = d\<lparr>users := users d @ [], credentials := credentials d @ [],
      workspaces := workspaces d @ [new_workspace (next_id d) slug name clk],
      members := members d @ [owner_member (Suc (next_id d)) (next_id d) (pl_user_id p) clk],
      next_id := Suc (Suc (next_id d))\<rparr>"
    using True assms
    by (auto simp: create_for_principal_def Let_def take_id_def insert_workspace_def insert_member_def)
  then show ?thesis by (rule adds_directoryI) (use user in simp_all)
qed

lemma account_api_step:
  assumes "account_api deco up st x header now clk rq d = (ans, d')"
  shows "d' = d \<or> identity_step d d' \<and> adds_directory d d'"
proof (cases rq)
  case (AqRegister r)
  obtain v d1 where reg: "register (xa_hash x) (xa_salt x) (rg_email r) (rg_password r) (rg_display_name r) clk d = (v, d1)"
    by fastforce
  with assms AqRegister have "d' = d \<or> d' = d1"
    by (auto simp: route_register_def rendering_def split: sum.splits if_splits prod.splits)
  with register_adds [OF reg] registered [OF reg] show ?thesis by blast
next
  case (AqCreateWorkspace w)
  show ?thesis
  proof (cases "get_authenticated_principal deco up st header now d")
    case (Inl e)
    with assms AqCreateWorkspace show ?thesis by simp
  next
    case (Inr p)
    obtain v d1 where crt: "create_for_principal (py_lower (py_strip (wc_slug w))) (py_strip (wc_name w)) p clk d = (v, d1)"
      by fastforce
    with assms AqCreateWorkspace Inr have "d' = d1"
      by (auto simp: route_create_workspace_def rendering_def split: sum.splits if_splits prod.splits)
    with create_adds [OF crt] workspace_created [OF crt] show ?thesis by blast
  qed
qed (use assms in \<open>auto split: if_splits\<close>)

text \<open>A new workspace needs no name and no slug: blank ones are accepted and stored empty.\<close>

lemma blank_slug_accepted:
  assumes "get_user_row (pl_user_id p) d = Some u" "us_active u" "pl_active p" "workspace_by_slug_exact [] d = None"
  shows "\<exists>w d'. route_create_workspace ''  '' ''  '' p clk d = (Inr w, d') \<and> ws_slug w = [] \<and> ws_name w = []"
proof -
  have strip: "py_strip ''  '' = []" by code_simp
  have lower: "py_lower [] = []" by code_simp
  from assms show ?thesis
    by (simp add: strip lower route_create_workspace_def create_for_principal_def Let_def new_workspace_def)
qed

end
