(* ===== verification/Membership.thy ===== *)
theory Membership
  imports Service Account_Api
begin

text \<open>
  Every request of the service together: integration requests, Sales requests, verified webhooks and
  the account requests, of any caller and in any order. They keep the invariants of the service and of identity,
  none of them lets anybody into a workspace that exists, and none changes a decided approval request.
\<close>

section \<open>The requests\<close>

inductive request_step :: "db \<Rightarrow> db \<Rightarrow> bool" where
  as_integration: "integration_api deco up auth x st c clk rq d = Some (ans, d') \<Longrightarrow> request_step d d'"
| as_sales: "sales_api deco up auth e c clk rq' d = (ans', d') \<Longrightarrow> usage_table (en_persist (se_ai e)) \<Longrightarrow> request_step d d'"
| as_inbound: "get_verified_integration_context sha256 hmac env max_age now key payload signature timestamp event_id d
     = Inr cx \<Longrightarrow> receive_inbound_event ai ss cx ev event_id clk d = (ans'', d') \<Longrightarrow> usage_table (en_persist ai) \<Longrightarrow>
   request_step d d'"
| as_account: "account_api deco up auth xa header now clk rq'' d = (answer, d') \<Longrightarrow> request_step d d'"

section \<open>The directory of users and members\<close>

definition members_known :: "db \<Rightarrow> bool" where
  "members_known d \<longleftrightarrow> (\<forall>m \<in> set (members d). wm_user_id m \<in> us_id ` set (users d))"

definition whole_inv :: "db \<Rightarrow> bool" where
  "whole_inv d \<longleftrightarrow> service_inv d \<and> identity_inv d \<and> members_known d"

text \<open>What a workspace request leaves: the whole directory.\<close>

definition same_directory :: "db \<Rightarrow> db \<Rightarrow> bool" where
  "same_directory d d' \<longleftrightarrow> users d' = users d \<and> credentials d' = credentials d \<and> members d' = members d \<and>
     directory d' = directory d \<and> next_id d \<le> next_id d'"

lemma same_directory_refl [simp]: "same_directory d d"
  by (simp add: same_directory_def)

lemma directory_slugs: "directory d' = directory d \<Longrightarrow> map ws_slug (workspaces d') = map ws_slug (workspaces d)"
  by (drule arg_cong [where f = "map snd"]) (simp add: directory_def comp_def)

lemma same_directory_identity:
  assumes same: "same_directory d d'" and inv: "identity_inv d"
  shows "identity_inv d'"
proof -
  from same have dir: "directory d' = directory d" and n: "next_id d \<le> next_id d'" by (simp_all add: same_directory_def)
  note ids = directory_ids [OF dir] directory_slugs [OF dir]
  have "ws_id ` set (workspaces d') = ws_id ` set (workspaces d)"
    using arg_cong [OF ids(1), of set] by simp
  moreover have "\<forall>k \<in> ws_id ` set (workspaces d). k < next_id d'"
    using inv n by (auto simp: identity_inv_def intro: less_le_trans)
  ultimately have "\<forall>w \<in> set (workspaces d'). ws_id w < next_id d'" by (metis image_eqI)
  moreover have "\<forall>u \<in> set (users d). us_id u < next_id d'" "\<forall>c \<in> set (credentials d). pc_user_id c < next_id d'"
    "\<forall>m \<in> set (members d). wm_workspace_id m < next_id d'"
    using inv n by (auto simp: identity_inv_def intro: less_le_trans)
  ultimately show ?thesis using same inv ids by (simp add: identity_inv_def same_directory_def)
qed

lemma workspace_request_directory:
  assumes req: "workspace_request ws d d'" and inv: "api_inv d"
  shows "same_directory d d'"
proof -
  from workspace_request_inv(2) [OF req inv] have eq: "others (ws_id ws) d' = others (ws_id ws) d"
    by (simp add: confined_def)
  have "credentials d' = credentials d"
    using arg_cong [OF eq, of credentials] by (simp add: others_def)
  moreover have "next_id d \<le> next_id d'"
    using req
  proof cases
    case wr_account
    with inv show ?thesis by (auto simp: api_inv_def dest: account_step_confined)
  next
    case wr_outbound
    with inv show ?thesis by (auto simp: api_inv_def dest: outbound_request_confined)
  next
    case (wr_add_label k s clk r)
    then have "label_step d d'" by (rule ls_add)
    then show ?thesis by (auto dest: label_step_frame)
  next
    case (wr_remove_label k s r)
    then have "label_step d d'" by (rule ls_remove)
    then show ?thesis by (auto dest: label_step_frame)
  next
    case wr_annotation
    then show ?thesis by (auto dest: annotation_step_frame)
  qed
  ultimately show ?thesis
    using others_fields(8-10) [OF eq] by (simp add: same_directory_def directory_def)
qed

lemma sales_local_directory:
  assumes loc: "sales_local ws d d'" and links: "sales_links d" and dir: "directory d' = directory d"
  shows "same_directory d d'"
proof -
  from loc links have eq: "sales_others ws d' d' = sales_others ws d' d" and n: "next_id d \<le> next_id d'"
    by (simp_all add: sales_local_def)
  have "credentials d' = credentials d"
    using arg_cong [OF eq, of credentials] by (simp add: sales_others_def)
  with sales_others_integration(9,10) [OF eq] n dir show ?thesis by (simp add: same_directory_def)
qed

lemma adds_directory_service:
  assumes adds: "adds_directory d d'" and inv: "service_inv d" and ident: "identity_inv d'"
  shows "service_inv d'"
proof -
  from adds obtain us cs ws ms n where
    d': "d' = d\<lparr>users := users d @ us, credentials := credentials d @ cs, workspaces := workspaces d @ ws,
            members := members d @ ms, next_id := n\<rparr>" and n: "next_id d \<le> n"
    unfolding adds_directory_def by blast
  from inv have parts: "accounts_inv d" "labels_inv d" "outbound_inv d" "sales_links d" "action_accounts d"
    by (simp_all add: service_inv_def api_inv_def)
  have "accounts_inv d'" by (rule accounts_inv_frame [OF parts(1)]) (simp_all add: d' n)
  moreover have "labels_inv d'" by (rule labels_inv_frame [OF parts(2)]) (simp_all add: d' n)
  moreover have "outbound_inv d'" by (rule outbound_inv_frame [OF parts(3)]) (simp_all add: d' n)
  moreover have "sales_links d'" by (rule sales_links_frame [OF parts(4)]) (simp_all add: d' n)
  moreover have "action_accounts d'" using parts(5) by (simp add: d' action_accounts_def)
  moreover have "distinct (map ws_id (workspaces d'))" using ident by (simp add: identity_inv_def)
  ultimately show ?thesis by (simp add: service_inv_def api_inv_def)
qed

lemma request_step_directory:
  assumes step: "request_step d d'" and inv: "service_inv d" and ident: "identity_inv d"
  shows "service_inv d'" and "same_directory d d' \<or> identity_step d d' \<and> adds_directory d d'"
proof -
  have parts: "api_inv d" "sales_links d" "outbound_inv d" using inv by (simp_all add: service_inv_def api_inv_def)
  have "service_inv d' \<and> (same_directory d d' \<or> identity_step d d' \<and> adds_directory d d')"
    using step
  proof cases
    case (as_integration deco up auth x st c clk rq ans)
    from as_integration show ?thesis
    proof (cases rule: integration_api_changes)
      case same
      with inv show ?thesis by simp
    next
      case (changed cx)
      from workspace_request_service(1) [OF changed(3) inv] workspace_request_directory [OF changed(3) parts(1)]
      show ?thesis by simp
    qed
  next
    case (as_sales deco up auth e c clk rq ans)
    from as_sales(1) show ?thesis
    proof (cases rule: sales_api_cases)
      case same
      with inv show ?thesis by simp
    next
      case (run cx)
      from run(1) obtain scheme token where cx: "resolve_workspace_context (cx_principal cx) (ca_slug c) True d = Inr cx"
        by (rule authorize_InrD)
      from run_sales_local(1) [OF as_sales(2) parts(2)] have loc: "sales_local (cx_workspace cx) d d'"
        by (simp add: run(2))
      have out: "outbound_inv d'" using run_sales_outbound_inv [OF as_sales(2) parts(2,3)] by (simp add: run(2))
      have "cx_workspace cx \<in> set (workspaces d)"
        using get_workspace_by_slug_InrD [OF resolve_workspace_context_InrD(2) [OF cx]] by simp
      then have dir: "directory d' = directory d"
        using run_sales_directory [OF as_sales(2) inv] by (simp add: run(2))
      from sales_change_service [OF loc inv out dir] sales_local_directory [OF loc parts(2) dir] show ?thesis by simp
    qed
  next
    case (as_inbound sha hmac env max_age now key payload signature timestamp event_id cx ai ss ev clk ans)
    from inbound_event_effect(1-3) [OF as_inbound(2,3) inv] show ?thesis by (simp add: same_directory_def)
  next
    case (as_account deco up auth xa header now clk rq answer)
    from account_api_step [OF as_account] show ?thesis
    proof (elim disjE conjE)
      assume step: "identity_step d d'" and adds: "adds_directory d d'"
      from adds_directory_service [OF adds inv identity_step_inv [OF step ident]] step adds show ?thesis by blast
    qed (use inv in simp)
  qed
  then show "service_inv d'" "same_directory d d' \<or> identity_step d d' \<and> adds_directory d d'" by simp_all
qed

lemma adds_directory_known:
  assumes "adds_directory d d'" "members_known d"
  shows "members_known d'"
  using assms unfolding adds_directory_def members_known_def by (auto simp: image_Un)

lemma request_step_whole: "request_step d d' \<Longrightarrow> whole_inv d \<Longrightarrow> whole_inv d'"
  unfolding whole_inv_def
  using request_step_directory [of d d'] same_directory_identity [of d d'] identity_step_inv [of d d']
    adds_directory_known [of d d']
  by (auto simp: same_directory_def members_known_def)

interpretation requests: invariant_system request_step whole_inv
  by unfold_locales (rule request_step_whole)

section \<open>Nobody is let in\<close>

text \<open>Users, credentials and members are only added, and no new member belongs to a workspace that was there.\<close>

definition directory_grows :: "db \<Rightarrow> db \<Rightarrow> bool" where
  "directory_grows d d' \<longleftrightarrow> (\<exists>us. users d' = users d @ us) \<and> (\<exists>cs. credentials d' = credentials d @ cs) \<and>
     (\<exists>ms. members d' = members d @ ms \<and> (\<forall>m \<in> set ms. wm_workspace_id m \<notin> ws_id ` set (workspaces d))) \<and>
     ws_id ` set (workspaces d) \<subseteq> ws_id ` set (workspaces d')"

lemma directory_grows_refl [simp]: "directory_grows d d"
  by (simp add: directory_grows_def)

lemma directory_grows_trans: "directory_grows d e \<Longrightarrow> directory_grows e f \<Longrightarrow> directory_grows d f"
  unfolding directory_grows_def by (elim conjE exE) auto

lemma request_step_grows:
  assumes step: "request_step d d'" and inv: "whole_inv d"
  shows "directory_grows d d'"
proof -
  from inv have parts: "service_inv d" "identity_inv d" by (simp_all add: whole_inv_def)
  from request_step_directory(2) [OF step parts] show ?thesis
  proof (elim disjE conjE)
    assume same: "same_directory d d'"
    then have "directory d' = directory d" by (simp add: same_directory_def)
    from arg_cong [OF directory_ids [OF this], of set] same show ?thesis
      by (simp add: same_directory_def directory_grows_def)
  next
    assume "adds_directory d d'"
    moreover have "next_id d \<notin> ws_id ` set (workspaces d)" using parts(2) by (auto simp: identity_inv_def)
    ultimately show ?thesis unfolding adds_directory_def directory_grows_def by auto
  qed
qed

lemma requests_grow:
  assumes steps: "request_step\<^sup>*\<^sup>* d d'" and inv: "whole_inv d"
  shows "directory_grows d d'"
  by (rule requests.steps_keep [where P = "directory_grows d", OF _ steps inv])
    (auto intro: directory_grows_trans request_step_grows)

lemma directory_grows_member:
  assumes grows: "directory_grows d d'" and w: "w \<in> set (workspaces d)"
  shows "filter (\<lambda>m. wm_workspace_id m = ws_id w) (members d') = filter (\<lambda>m. wm_workspace_id m = ws_id w) (members d)"
    and "find_membership (ws_id w) k d' = find_membership (ws_id w) k d"
proof -
  from grows obtain ms where ms: "members d' = members d @ ms"
    and out: "\<forall>m \<in> set ms. wm_workspace_id m \<notin> ws_id ` set (workspaces d)"
    unfolding directory_grows_def by blast
  have new: "wm_workspace_id m \<noteq> ws_id w" if "m \<in> set ms" for m using out that w by (metis image_eqI)
  then show "filter (\<lambda>m. wm_workspace_id m = ws_id w) (members d') = filter (\<lambda>m. wm_workspace_id m = ws_id w) (members d)"
    by (simp add: ms filter_empty_conv)
  from new have "find (\<lambda>m. wm_workspace_id m = ws_id w \<and> wm_user_id m = k) ms = None"
    by (auto simp: find_None_iff)
  then show "find_membership (ws_id w) k d' = find_membership (ws_id w) k d"
    by (simp add: find_membership_def ms find_append split: option.split)
qed

lemma row_find_in_None_iff: "row_find key k xs = None \<longleftrightarrow> k \<notin> key ` set xs"
  by (induction xs) auto

lemma directory_grows_access:
  assumes grows: "directory_grows d d'" and w: "w \<in> set (workspaces d)" and known: "members_known d"
  shows "resolve_active_membership p w d' = Inr m \<longleftrightarrow> resolve_active_membership p w d = Inr m"
proof -
  note member = directory_grows_member(2) [OF grows w]
  from grows obtain us where us: "users d' = users d @ us" unfolding directory_grows_def by blast
  have rows: "\<exists>x. get_workspace_row (ws_id w) d = Some x" "\<exists>x. get_workspace_row (ws_id w) d' = Some x"
  proof -
    have "ws_id w \<in> ws_id ` set (workspaces d)" using w by simp
    moreover from this grows have "ws_id w \<in> ws_id ` set (workspaces d')" unfolding directory_grows_def by blast
    ultimately show "\<exists>x. get_workspace_row (ws_id w) d = Some x" "\<exists>x. get_workspace_row (ws_id w) d' = Some x"
      by (simp_all add: get_workspace_row_def row_find_in_None_iff flip: not_None_eq)
  qed
  have user: "get_user_row (pl_user_id p) d' = get_user_row (pl_user_id p) d"
    if "find_membership (ws_id w) (pl_user_id p) d = Some m"
  proof -
    from that have "m \<in> set (members d)" "wm_user_id m = pl_user_id p"
      by (auto simp: find_membership_def find_Some_iff)
    with known have "pl_user_id p \<in> us_id ` set (users d)" unfolding members_known_def by metis
    then have "row_find us_id (pl_user_id p) (users d) \<noteq> None" by (simp add: row_find_in_None_iff)
    then show ?thesis by (auto simp: get_user_row_def us row_find_append)
  qed
  show ?thesis
  proof (cases "find_membership (ws_id w) (pl_user_id p) d = Some m")
    case True
    from user [OF this] rows show ?thesis by (simp only: resolve_active_membership_Inr_iff member True simp_thms)
  qed (simp add: resolve_active_membership_Inr_iff member)
qed

text \<open>C10: No sequence of requests lets anybody into a workspace that exists. Whatever registrations, logins, workspace
  creations, integration requests, Sales requests and verified webhooks happen, its members are
  the members it had, a principal is an active member of it exactly if it was one, users and credentials are only
  added, and all invariants still hold.\<close>

theorem requests_grant_no_access:
  assumes steps: "request_step\<^sup>*\<^sup>* d d'" and inv: "whole_inv d" and w: "w \<in> set (workspaces d)"
  shows "whole_inv d' \<and>
    filter (\<lambda>m. wm_workspace_id m = ws_id w) (members d') = filter (\<lambda>m. wm_workspace_id m = ws_id w) (members d) \<and>
    (\<forall>p m. resolve_active_membership p w d' = Inr m \<longleftrightarrow> resolve_active_membership p w d = Inr m) \<and>
    (\<exists>us cs. users d' = users d @ us \<and> credentials d' = credentials d @ cs)"
proof -
  note grows = requests_grow [OF steps inv]
  have "members_known d" using inv by (simp add: whole_inv_def)
  with requests.steps_inv [OF steps inv] directory_grows_member(1) [OF grows w] directory_grows_access [OF grows w]
    grows [unfolded directory_grows_def]
  show ?thesis by blast
qed

section \<open>Decisions are final\<close>

text \<open>The operations that write a stored approval request leave a decided one alone.\<close>

lemma assign_approval_final:
  assumes b: "get_approval i d = Some b" "ap_status b \<noteq> AP_PENDING" and inv: "approvals_inv d"
  shows "get_approval i (snd (assign_approval ws k target actor clk d)) = Some b"
    and "get_approval i (snd (clear_approval ws k actor d)) = Some b"
proof -
  have stored: "ap_id a \<noteq> i" if "assignment_scoped_approval ws k d = Inr a" "ap_status a = AP_PENDING" for a
  proof
    assume "ap_id a = i"
    moreover from assignment_scoped_InrD [OF that(1)] have "a \<in> set (approvals d)" "ap_id a = k" by simp_all
    ultimately have "get_approval i d = Some a"
      using inv unfolding get_approval_def approvals_inv_def by (metis row_find_in)
    with b that(2) show False by simp
  qed
  show "get_approval i (snd (assign_approval ws k target actor clk d)) = Some b"
    using b(1) stored
    by (auto simp: assign_approval_def bindE_Inr_iff ensure_iff aps.get_put_other Let_def split: sum.split)
  show "get_approval i (snd (clear_approval ws k actor d)) = Some b"
    using b(1) stored
    by (auto simp: clear_approval_def bindE_Inr_iff ensure_iff aps.get_put_other Let_def split: sum.split)
qed

lemma appended_approvals_final:
  "approvals d' = approvals d @ new \<Longrightarrow> get_approval i d = Some b \<Longrightarrow> get_approval i d' = Some b"
  by (simp add: get_approval_def row_find_append)

lemma settings_approvals:
  "approvals (snd (route_replace_instructions ws v clk d)) = approvals d"
  "approvals (snd (route_clear_instructions ws clk d)) = approvals d"
  "approvals (snd (route_update_communication ws x y z clk d)) = approvals d"
  by (auto simp: route_replace_instructions_def replace_instructions_def route_clear_instructions_def
      clear_instructions_def route_update_communication_def update_communication_def Let_def save_workspace_def
      split: sum.splits)

lemma run_sales_final:
  assumes ut: "usage_table (en_persist (se_ai e))" and links: "sales_links d" and inv: "approvals_inv d"
    and b: "get_approval i d = Some b" "ap_status b \<noteq> AP_PENDING"
  shows "get_approval i (snd (run_sales_request e cx clk rq d)) = Some b"
proof -
  have work: "get_approval i d' = Some b" if "sales_work ws d d'" for ws d'
    using that b(1) unfolding sales_work_def by (blast intro: appended_approvals_final)
  have same: "get_approval i d' = Some b" if "approvals d' = approvals d" for d'
    using that b(1) by (simp add: get_approval_def)
  show ?thesis
  proof (cases "sales_permission rq \<in> set MEMBER_PERMISSIONS")
    case True
    show ?thesis by (rule work [OF run_sales_local(2) [OF ut links True]])
  next
    case False
    show ?thesis
    proof (cases rq)
      case (SqAssignLead k target)
      with work [OF assign_lead_work] show ?thesis by (simp add: assign_conversation_operator_def)
    next
      case (SqClearLead k)
      with work [OF clear_lead_work] show ?thesis by (simp add: clear_conversation_operator_def)
    next
      case (SqApprove k remark)
      from decision_step_final [OF ds_approve [OF surjective_pairing] inv b] SqApprove show ?thesis
        by (simp add: approve_action_def)
    next
      case (SqReject k remark)
      from decision_step_final [OF ds_reject [OF surjective_pairing] inv b] SqReject show ?thesis
        by (simp add: reject_action_def)
    qed (use False in \<open>simp_all add: MEMBER_PERMISSIONS_def assign_approval_operator_def clear_approval_operator_def
        assign_approval_final [OF b inv] same settings_approvals\<close>)
  qed
qed

lemma request_step_final:
  assumes step: "request_step d d'" and inv: "whole_inv d"
    and b: "get_approval i d = Some b" "ap_status b \<noteq> AP_PENDING"
  shows "get_approval i d' = Some b"
proof -
  from inv have parts: "service_inv d" "api_inv d" "sales_links d" "approvals_inv d"
    by (simp_all add: whole_inv_def service_inv_def api_inv_def outbound_inv_def)
  show ?thesis
    using step
  proof cases
    case (as_integration deco up auth x st c clk rq ans)
    from as_integration show ?thesis
    proof (cases rule: integration_api_changes)
      case same
      with b show ?thesis by simp
    next
      case (changed cx)
      from workspace_request_inv(2) [OF changed(3) parts(2)] b(1) show ?thesis
        unfolding confined_def by (blast intro: appended_approvals_final)
    qed
  next
    case (as_sales deco up auth e c clk rq ans)
    from as_sales(1) show ?thesis
    proof (cases rule: sales_api_cases)
      case same
      with b show ?thesis by simp
    next
      case (run cx)
      from run_sales_final [OF as_sales(2) parts(3,4) b] show ?thesis by (simp add: run(2))
    qed
  next
    case (as_inbound sha hmac env max_age now key payload signature timestamp event_id cx ai ss ev clk ans)
    from inbound_event_effect(5) [OF as_inbound(2,3) parts(1)] b(1) show ?thesis by (blast intro: appended_approvals_final)
  next
    case (as_account deco up auth xa header now clk rq answer)
    from account_api_step [OF as_account] b(1) show ?thesis
      unfolding adds_directory_def by (auto simp: get_approval_def)
  qed
qed

text \<open>C13: A decision is final. Once an approval request is approved, rejected or executed, no sequence of requests changes
  any part of it: neither further decisions, nor assigning or unassigning it, nor deliveries, retries, turns,
  webhooks, workflows, settings or account requests, by anybody.\<close>

theorem decisions_are_final:
  assumes steps: "request_step\<^sup>*\<^sup>* d d'" and inv: "whole_inv d"
    and a: "get_approval i d = Some a" "ap_status a \<noteq> AP_PENDING"
  shows "get_approval i d' = Some a"
  by (rule requests.steps_keep [where P = "\<lambda>s. get_approval i s = Some a", OF _ steps inv a(1)])
    (rule request_step_final [OF _ _ _ a(2)])

definition account_sample_db :: db where
  "account_sample_db = service_sample_db\<lparr>users := [sample_user\<lparr>us_email := ''o@b''\<rparr>]\<rparr>"

definition account_sample_env :: account_env where
  "account_sample_env = \<lparr>xa_hash = plain_hash, xa_salt = 0, xa_verify = plain_verify, xa_encode = plain_encode,
     xa_uuid_str = (\<lambda>_. ''2''), xa_jti = ''j''\<rparr>"

lemma account_sample_inv: "whole_inv account_sample_db"
proof -
  have "normalize_user_email ''o@b'' = Inr ''o@b''" by code_simp
  then have "identity_inv account_sample_db" "members_known account_sample_db"
    by (simp_all add: identity_inv_def members_known_def account_sample_db_def service_sample_defs)
  moreover have "service_inv account_sample_db"
  proof -
    have "service_inv (service_sample_db\<lparr>users := us\<rparr>) = service_inv service_sample_db" for us
      by (simp add: service_inv_def api_inv_def accounts_inv_def outbound_inv_def approvals_inv_def labels_inv_def
          labels_of_def attempts_of_def events_of_def approval_state_def get_approval_def action_accounts_def
          sales_links_def sales_ids_def action_links_def cong: option.case_cong)
    with service_sample_inv show ?thesis by (simp add: account_sample_db_def)
  qed
  ultimately show ?thesis by (simp add: whole_inv_def)
qed

text \<open>A stranger registers and stays a stranger to both workspaces.\<close>

theorem requests_grant_no_access_witness:
  "\<exists>d'. request_step\<^sup>*\<^sup>* account_sample_db d' \<and> map us_email (users d') = [''o@b'', ''a@b''] \<and>
     (\<forall>m. resolve_active_membership \<lparr>pl_user_id = 100, pl_active = True\<rparr> sample_ws d' \<noteq> Inr m)"
proof -
  let ?rq = "AqRegister \<lparr>rg_email = '' A@b '', rg_password = ''correct-horse'', rg_display_name = None\<rparr>"
  let ?run = "account_api plain_decode sample_parse sample_auth account_sample_env None 0 (\<lambda>_. 0) ?rq account_sample_db"
  have "request_step account_sample_db (snd ?run)" by (rule as_account) (rule surjective_pairing)
  then have steps: "request_step\<^sup>*\<^sup>* account_sample_db (snd ?run)" by (rule r_into_rtranclp)
  have users: "map us_email (users (snd ?run)) = [''o@b'', ''a@b'']"
    by (simp add: registration_valid_def text_between_def rendering_def route_register_def register_def sample_email
        normalize_display_name_def hash_password_def validate_password_def MIN_PASSWORD_LENGTH_def
        MAX_PASSWORD_LENGTH_def user_by_email_def account_sample_db_def service_sample_defs Let_def take_id_def
        insert_credential_def insert_user_def new_user_def)
  have "sample_ws \<in> set (workspaces account_sample_db)" by (simp add: account_sample_db_def service_sample_db_def)
  note keep = requests_grant_no_access [OF steps account_sample_inv this]
  have "resolve_active_membership \<lparr>pl_user_id = 100, pl_active = True\<rparr> sample_ws account_sample_db \<noteq> Inr m" for m
    by (simp add: resolve_active_membership_Inr_iff get_user_row_def account_sample_db_def service_sample_defs)
  with keep have "resolve_active_membership \<lparr>pl_user_id = 100, pl_active = True\<rparr> sample_ws (snd ?run) \<noteq> Inr m" for m
    by blast
  with steps users show ?thesis by (intro exI conjI allI)
qed

text \<open>A rejected request, and the owner's attempt to assign it.\<close>

definition rejected_request :: approval_request where
  "rejected_request = (sample_approval AP_REJECTED)\<lparr>ap_decided_at := Some (utc 0), ap_decided_by_user_id := Some 2,
     ap_decided_by_membership_id := Some 3, ap_decided_by_role := Some OWNER\<rparr>"

definition decided_sample_db :: db where
  "decided_sample_db = account_sample_db\<lparr>approvals := [rejected_request]\<rparr>"

lemmas decided_sample_defs = decided_sample_db_def account_sample_db_def rejected_request_def service_sample_defs

lemma decided_sample_inv: "whole_inv decided_sample_db"
proof -
  have "identity_inv decided_sample_db = identity_inv account_sample_db"
    "members_known decided_sample_db = members_known account_sample_db"
    by (simp_all add: identity_inv_def members_known_def decided_sample_db_def)
  moreover have "sales_links decided_sample_db"
    by (simp add: sales_links_def sales_ids_def action_links_def one_owner_def fresh_ids_def decided_sample_defs)
  then have "service_inv decided_sample_db"
    by (auto simp: service_inv_def api_inv_def accounts_inv_def outbound_inv_def approvals_inv_def approval_wf_def
        labels_inv_def labels_of_def action_accounts_def decided_sample_defs)
  ultimately show ?thesis using account_sample_inv by (simp add: whole_inv_def)
qed

lemma decided_sample_authorized:
  "authorize plain_decode sample_parse sample_auth 5 (Some (''Bearer'', sample_token)) '' ACME'' True
     OPERATOR_ASSIGNMENT_MANAGE decided_sample_db =
   Inr \<lparr>cx_principal = \<lparr>pl_user_id = 2, pl_active = True\<rparr>, cx_workspace = sample_ws,
     cx_membership = sample_member OWNER\<rparr>"
proof -
  have "resolve_principal_from_access_token plain_decode sample_parse sample_auth sample_token 5 decided_sample_db =
     Inr \<lparr>pl_user_id = 2, pl_active = True\<rparr>"
    by (simp add: resolve_principal_from_access_token_def token_secret_def sample_auth_def sample_token_def
        plain_decode_def plain_encode_def token_claims_def sample_parse_def seconds_def
        resolve_active_principal_def get_user_def get_user_row_def decided_sample_defs Let_def)
  moreover have "get_workspace_by_slug '' ACME'' decided_sample_db = Inr sample_ws"
    by (simp add: get_workspace_by_slug_def workspace_by_slug_exact_def sample_slugs decided_sample_defs)
  moreover have "resolve_active_membership \<lparr>pl_user_id = 2, pl_active = True\<rparr> sample_ws decided_sample_db = Inr (sample_member OWNER)"
    by (simp add: resolve_active_membership_Inr_iff get_user_row_def get_workspace_row_def
        find_membership_def decided_sample_defs)
  ultimately show ?thesis
    by (simp add: authorize_def get_authenticated_principal_def sample_slugs
        resolve_workspace_context_def authorize_context_def require_permission_def
        all_permissions_complete sample_ws_def sample_member_def)
qed

lemma decided_sample_run:
  "fst (sales_api plain_decode sample_parse sample_auth sales_sample_env sample_caller (\<lambda>_. 0) (SqAssignApproval 7 3)
     decided_sample_db) = Inl (HTTPException 409 ''Approval assignment can only be changed while pending'')"
proof -
  have "assignment_scoped_approval sample_ws 7 decided_sample_db = Inr rejected_request"
    by (simp add: assignment_scoped_approval_def lead_scoped_approval_def decided_sample_defs)
  then show ?thesis
    by (simp add: sales_api_def sample_caller_def decided_sample_authorized assign_approval_operator_def assign_approval_def
        ensure_actor_workspace_def ensure_pending_approval_def get_operator_assignment_actor_def rejected_request_def
        sample_approval_def sample_ws_def sample_member_def rendered_approval_def rendered_def rendering_def catching_def
        assignment_clauses_def answer_error_def)
qed

theorem decisions_are_final_witness:
  "\<exists>d' a. request_step\<^sup>*\<^sup>* decided_sample_db d' \<and> get_approval 7 d' = Some a \<and> ap_status a = AP_REJECTED \<and>
     fst (sales_api plain_decode sample_parse sample_auth sales_sample_env sample_caller (\<lambda>_. 0) (SqAssignApproval 7 3)
       decided_sample_db) = Inl (HTTPException 409 ''Approval assignment can only be changed while pending'')"
proof -
  let ?run = "sales_api plain_decode sample_parse sample_auth sales_sample_env sample_caller (\<lambda>_. 0) (SqAssignApproval 7 3)
     decided_sample_db"
  have "request_step decided_sample_db (snd ?run)" by (rule as_sales [OF surjective_pairing sales_sample_table])
  then have steps: "request_step\<^sup>*\<^sup>* decided_sample_db (snd ?run)" by (rule r_into_rtranclp)
  have a: "get_approval 7 decided_sample_db = Some rejected_request"
    by (simp add: get_approval_def decided_sample_db_def rejected_request_def sample_approval_def)
  have st: "ap_status rejected_request = AP_REJECTED" by (simp add: rejected_request_def sample_approval_def)
  then have "ap_status rejected_request \<noteq> AP_PENDING" by simp
  from decisions_are_final [OF steps decided_sample_inv a this] steps st decided_sample_run
  show ?thesis by (intro exI conjI)
qed

end
