(* ===== verification/Spec2Isabelle.thy ===== *)
theory Spec2Isabelle
  imports Delivery_Props Outbound_Reads Rbac Ai_Props Access Sales_Props Events_Props Integration_Props App_Settings Membership
begin

text \<open>
  A model of the Smart Sales Agency service: the Python package under src/app, a FastAPI service
  that lets several workspaces (tenants) run a Sales department of AI agents and connect it to
  external providers through integration accounts.

  \<^bold>\<open>The program.\<close> A person registers, logs in and gets a bearer token; a request names a
  workspace by a header; the dependencies (api/dependencies.py) resolve the token to an active user,
  the header to a workspace the user is an active member of, and the role of the membership to its
  permissions. Behind them stand two groups of endpoints. The integration endpoints provision
  integration accounts, create outbound actions under idempotency keys, deliver, retry and
  cancel them through provider adapters behind an approval gate, and read and clean up their history. The
  Sales endpoints keep leads, products and approval requests, run conversation turns (language,
  stage and handoff policies, a prompt, an AI call, an approval request or a reply) and the workflow of a
  new lead (research, qualification, outreach). Every AI call goes through a gateway
  that routes it to a model tier, enforces the usage limits of the workspace and records its cost. A
  provider's webhook enters through an HMAC check and the reservation of its event identifier and ends
  in a Sales turn.

  \<^bold>\<open>Theories and sources.\<close> In the order of their imports, paths relative to src/app:
  \<^item> Prelude: results, rows of tables, and the interfaces the components share as locales
    (row_store, growing_row_store, invariant_system, machine_refinement). Py_Base: strings, datetimes
    and reading of numbers of Python's library, and the codec interface char_codec. Py_Decimal: Decimal arithmetic.
  \<^item> Model_Data, Tables: the enumerations and tables of models.py; the record db is the database.
    Store: the exceptions of all components, session.get and the writes of rows. Samples: concrete
    rows for the witnesses.
  \<^item> Accounts: services/integration_accounts.py, integration_account_audit.py, secret_reference_policy.py
    and secret_resolver.py. Rbac: workspace_rbac.py. Identity: identity_memberships.py and
    workspaces.py. Workspace_Config: the Sales settings of workspaces.py. Authentication:
    authentication.py and api/routes/auth.py. Access: api/dependencies.py and api/routes/workspaces.py.
  \<^item> Transitions, Retry, Approvals, Adapters, Outbound: the lifecycle table, the retry policies, the
    approval gate and decisions with channels/console.py, the delivery adapters, and
    outbound_integrations.py, outbound_delivery.py and outbound_action_audit.py. Outbound_Ops: queries,
    priority, archiving, labels, ownership, annotations and cleanup. Assignments: operator_assignments.py.
    Outbound_Reads: delivery status, readiness, transition validation, approval status, history and timeline.
  \<^item> Ai_Policy, Ai_Usage, Ai_Limits, Ai_Gateway: ai_model_tiers.py, ai_model_routing.py,
    ai_model_pricing.py, ai_invocation_usage.py, workspace_ai_usage_limits.py, llm.py and
    ai_invocation_gateway.py.
  \<^item> Webhook_Auth: webhook_authentication.py and the reservation of inbound_integrations.py.
    Integration_Reads: integration_health.py, integration_operational_summary.py,
    integration_execution_trace.py and integration_runtime_readiness.py.
  \<^item> Sales_Repository, Sales_Policy, Language_Policy, Prompt_Composition, Sales_Agents, Sales_Turn,
    Sales_Workflow: services/repository.py and departments/sales, a conversation turn with its retry
    receipts, and the new-lead workflow. Events: core.
  \<^item> Api_Views, Integration_Routes, Integration_Api: the response schemas, every endpoint of
    api/routes/integrations.py, and all of them as one function of a request, integration_api. Sales_Api:
    the endpoints of leads, products, approvals, conversations, workflows and workspace settings, as
    sales_api. Account_Api: the endpoints without a workspace header, of api/routes/auth.py and
    api/routes/workspaces.py, as account_api. App_Settings: config.py.

  \<^bold>\<open>Groups of lemmas.\<close>
  \<^item> Outbound_Inv, Outbound_Steps, Outbound_Props, Delivery_Props: an invariant ties an action's row, attempts, audit
    events and approval together; every outbound operation keeps it (the step relation outbound_step), and
    the audit history of an action, replayed by an abstract machine, gives its row. From it follow the
    approval gate over any interleaving, the attempt limit and the finality of terminal states.
    Outbound_Reads and Integration_Props relate the read models to what the operations then do.
  \<^item> Ai_Props: the decision before a call (gateway_plan), the exact effect of one invocation on the usage ledger on
    every path, and the invocation limit over any sequence.
  \<^item> Sales_Turn_Props, Sales_System, Sales_Props: what a turn stores on every path, retry receipts and
    handoffs over any sequence of requests (sales_step), the trust of prompts, the workflow's outcome.
    Events_Props: the dispatcher implements a list of subscriptions.
  \<^item> Integration_Api_Props, Integration_Failures: every integration request is confined to the workspace it
    was authorized for; over any sequence of requests (api_step) tenants are isolated; a failed
    request changes nothing, with one exception, and every way it can fail is named. Sales_Scope, Sales_Api_Props: the same for the Sales
    endpoints (sales_api_step).
  \<^item> Tenant_View: every read answers from the rows of its own workspace. Service: integration requests, Sales requests and
    verified webhooks together (service_step) keep the invariants, and what others do is invisible.
    Membership: with the account requests these are all requests (request_step); none of them changes who is a member
    of an existing workspace or any part of a decided approval request.

  \<^bold>\<open>Parameters.\<close> Code outside src/app is an argument: SHA-256, HMAC-SHA256, the password hasher, the JWT library, the
  text form of UUIDs and random tokens, the HTTP transport of LLM and webhook calls, the
  environment of secrets, the str of floats and containers, the check of bracketed hosts in urlsplit, and what
  a database column keeps of a usage row (persist). What the properties need of them are named hypotheses on
  documented behaviour: usage_table (a stored row reads back with all its columns but the rounded cost), jwt_ok,
  hasher_ok, uuid_ok, the digest is a non-empty ASCII text, enough distinct random tokens. Each has an instance in
  the witness of the property.

  \<^bold>\<open>Conventions.\<close>
  \<^item> An operation is a function of the database that returns \<open>(error + 'a) * db\<close> (type op), a read returns
    \<open>error + 'a\<close>; an exception that no code catches is an Inl. A commit is the returned
    database; an operation that raises before its commit returns the database it got.
  \<^item> Requests run one after the other: two requests interleaved inside one operation are not represented.
  \<^item> utc_now() is read at numbered call sites: \<open>clk n\<close> is the reading of the n-th site, and nothing says that
    readings increase. Datetimes carry whether they are aware; comparing mixed ones is TypeError in
    Python code and a comparison of instants in SQL. A reading a client chose may leave the calendar when it is brought
    to UTC (to_utc, OverflowError); clock readings, and what is computed from them, lie well inside it.
  \<^item> A cancelled AI call is an outcome of the transport (HttpCancelled), raised as CancelledError, which
    no \<open>except Exception\<close> catches: it leaves no usage row and does not release a retry key. Cancellation
    at other points of a request, and the end of the process, are not represented.
  \<^item> UUIDs are numbers drawn from next_id, so fresh identifiers are fresh. Foreign keys are not enforced, as in
    SQLite's default; where SQL has no ORDER BY the rows come in the order of insertion.
  \<^item> Strings are lists of 8-bit characters read as Latin-1; the language policy, which is about Arabic
    text, works on lists of code points. JSON columns are json values. Prices are exact rationals and Decimal exponents unbounded.
  \<^item> The workspace header is present and not empty; without it FastAPI answers 422 before any code under src runs.
  \<^item> FastAPI resolves the dependencies, then validates the body, then runs the route; the list of details
    of a 422 answer is not represented.

  \<^bold>\<open>Bounds and fuel.\<close> The search for an unused credential may not end: it is a partial function, whose value
  is None when it runs forever, and rotation_gives_fresh_credential proves that it ends when the generator yields as many
  hashes as accounts exist and one more. The batched retention cleanup recurs on the rows left, which each
  batch shortens. No definition takes fuel; all others are total.

  \<^bold>\<open>Not modelled.\<close> main.py and db.py (calls of FastAPI and SQLAlchemy only); reading settings from the environment;
  channels/whatsapp.py, a disabled adapter that nothing calls; the packages agents and graph, which re-export the Sales
  department, and the package files __init__.py.
\<close>

end
